(* ===== verification/Prelude.thy ===== *)
theory Prelude
  imports Main "HOL-Library.Word" "HOL-Library.Monad_Syntax"
begin

text \<open>
  Shared vocabulary of the development: the C machine types of an LP64 target, addresses,
  checked array reads and writes, assertions, bounded loops over an index range, and the
  generic facts on them that the component theories use.

  A stateful C function is a function into \<^typ>\<open>'s option\<close>: \<^term>\<open>None\<close> is a run that aborts
  (a failed \<^verbatim>\<open>assert\<close>), performs an access outside an object, or does not return;
  \<^term>\<open>Some s\<close> is a run that returns.
\<close>

unbundle bit_operations_syntax

type_synonym addr = nat
type_synonym u8 = "8 word"
type_synonym u32 = "32 word"
type_synonym u64 = "64 word"

abbreviation (input) NULL :: addr where
  "NULL \<equiv> 0"

named_theorems c_defs \<open>the primitives of the C machine\<close>

definition c_assert :: "bool \<Rightarrow> unit option" where
  "c_assert b = (if b then Some () else None)"

definition rd :: "'a list \<Rightarrow> nat \<Rightarrow> 'a option" where
  "rd xs i = (if i < length xs then Some (xs ! i) else None)"

definition wr :: "'a list \<Rightarrow> nat \<Rightarrow> 'a \<Rightarrow> 'a list option" where
  "wr xs i v = (if i < length xs then Some (xs[i := v]) else None)"

declare c_assert_def [c_defs] rd_def [c_defs] wr_def [c_defs]

text \<open>A \<^verbatim>\<open>for\<close> loop over a list of indices whose body may fail.\<close>

primrec foldM :: "('i \<Rightarrow> 's \<Rightarrow> 's option) \<Rightarrow> 'i list \<Rightarrow> 's \<Rightarrow> 's option" where
  "foldM f [] s = Some s"
| "foldM f (x # xs) s = Option.bind (f x s) (foldM f xs)"

lemma c_assert_True [simp]: "c_assert True = Some ()"
  by (simp add: c_assert_def)

lemma c_assert_eq_Some [simp]: "c_assert b = Some u \<longleftrightarrow> b"
  by (simp add: c_assert_def)

lemma bind_c_assert [simp]: "b \<Longrightarrow> Option.bind (c_assert b) f = f ()"
  by (simp add: c_assert_def)

lemma bind_c_assert_eq_Some: "Option.bind (c_assert b) f = Some r \<longleftrightarrow> b \<and> f () = Some r"
  by (simp add: c_assert_def)

lemma rd_in [simp]: "i < length xs \<Longrightarrow> rd xs i = Some (xs ! i)"
  by (simp add: rd_def)

lemma wr_in [simp]: "i < length xs \<Longrightarrow> wr xs i v = Some (xs[i := v])"
  by (simp add: wr_def)

lemma rd_eq_Some: "rd xs i = Some v \<longleftrightarrow> i < length xs \<and> v = xs ! i"
  by (auto simp: rd_def)

lemma wr_eq_Some: "wr xs i v = Some ys \<longleftrightarrow> i < length xs \<and> ys = xs[i := v]"
  by (auto simp: wr_def)

lemma foldM_append: "foldM f (xs @ ys) s = Option.bind (foldM f xs s) (foldM f ys)"
proof (induction xs arbitrary: s)
  case (Cons x xs)
  then show ?case by (cases "f x s") auto
qed simp

lemma foldM_rule:
  "I s \<Longrightarrow> (\<And>x s. x \<in> set xs \<Longrightarrow> I s \<Longrightarrow> \<exists>t. f x s = Some t \<and> I t) \<Longrightarrow> \<exists>t. foldM f xs s = Some t \<and> I t"
proof (induction xs arbitrary: s)
  case (Cons x xs)
  from Cons.prems(2) [of x s] Cons.prems(1) obtain t where "f x s = Some t" "I t" by auto
  with Cons.IH [of t] Cons.prems(2) show ?case by simp
qed simp

lemma foldM_keep:
  "foldM f xs s = Some t \<Longrightarrow> I s \<Longrightarrow> (\<And>x s t. f x s = Some t \<Longrightarrow> I s \<Longrightarrow> I t) \<Longrightarrow> I t"
  by (induction xs arbitrary: s) (auto simp: bind_eq_Some_conv)

lemma foldM_upt_Suc:
  "foldM f [0..<Suc n] s = Option.bind (foldM f [0..<n] s) (f n)"
proof -
  have "foldM f [n] = f n"
  proof
    fix t
    show "foldM f [n] t = f n t"
      by (cases "f n t") auto
  qed
  then show ?thesis
    by (simp add: foldM_append)
qed

lemma unat_shr1: "unat (drop_bit 1 (w :: 'a::len word)) = unat w div 2"
proof -
  have "unat (drop_bit 1 w) = drop_bit 1 (unat w)"
    by (rule unat_drop_bit_eq)
  then show ?thesis
    by (simp only: drop_bit_eq_div [of 1 "unat w"] power_one_right)
qed

lemma unat_shr1_less: "(w :: 'a::len word) \<noteq> 0 \<Longrightarrow> unat (drop_bit (Suc 0) w) < unat w"
  using unat_shr1 [of w] unat_gt_0 [of w] by simp

lemma unat_less_64: "unat (w :: u64) < 2 ^ 64"
proof -
  have "unat w < 2 ^ LENGTH(64)" by (rule unsigned_less)
  then show ?thesis by simp
qed

lemma unat_less_32: "unat (w :: u32) < 2 ^ 32"
proof -
  have "unat w < 2 ^ LENGTH(32)" by (rule unsigned_less)
  then show ?thesis by simp
qed

lemma unat_add_32: "unat (a + b :: u32) = (unat a + unat b) mod 2 ^ 32"
  by (simp add: unat_word_ariths)

lemma unat_of_nat_64: "n < 2 ^ 64 \<Longrightarrow> unat (of_nat n :: u64) = n"
  by (simp add: unat_of_nat)

lemma unat_add_64: "unat a + unat b < 2 ^ 64 \<Longrightarrow> unat (a + b :: u64) = unat a + unat b"
  by (simp add: unat_word_ariths)

text \<open>The loop rule for a loop that never fails: an invariant indexed by the next index.\<close>

lemma foldM_upt_rule:
  assumes init: "I 0 s"
    and step: "\<And>i t. i < n \<Longrightarrow> I i t \<Longrightarrow> \<exists>u. f i t = Some u \<and> I (Suc i) u"
  shows "\<exists>t. foldM f [0..<n] s = Some t \<and> I n t"
  using step
proof (induction n)
  case 0
  then show ?case using init by simp
next
  case (Suc n)
  have "\<exists>t. foldM f [0..<n] s = Some t \<and> I n t"
    by (rule Suc.IH) (simp add: Suc.prems)
  then obtain t where t: "foldM f [0..<n] s = Some t" "I n t"
    by blast
  from Suc.prems [OF lessI t(2)] obtain u where u: "f n t = Some u" "I (Suc n) u"
    by blast
  from t(1) u(1) have "foldM f [0..<Suc n] s = Some u"
    by (simp only: foldM_upt_Suc bind.bind_lunit)
  with u(2) show ?case by blast
qed

end
