(* ===== verification/Kazlib_Hash.thy ===== *)
theory Kazlib_Hash
  imports Prelude
begin

text \<open>
  The extendible hash table of \<^verbatim>\<open>src/lib/u/hash.c\<close> (Kazlib), at the level of its pointers.
  A node is an address into a heap of \<^verbatim>\<open>hnode_t\<close> records whose \<^verbatim>\<open>hash_next\<close> fields form the
  chains; the control structure \<^verbatim>\<open>hash_t\<close> is a record whose \<^verbatim>\<open>hash_table\<close> is the array of
  chain heads. Keys and data are values of any type, and the two function pointers of the
  table (\<^verbatim>\<open>hash_compare\<close>, \<^verbatim>\<open>hash_function\<close>) are fields. The results of \<^verbatim>\<open>malloc\<close> and
  \<^verbatim>\<open>realloc\<close> are arguments; \<^verbatim>\<open>free\<close> appends to a log.
\<close>

type_synonym hash_val_t = u64
type_synonym hashcount_t = u64

record ('k, 'v) hnode_t =
  hash_next :: addr
  hash_key :: 'k
  hash_data :: 'v
  hash_hkey :: hash_val_t

datatype hnode_free_t = Hnode_free | Hnode_free2 | Hnode_free3

datatype ('k, 'v) free_event = FreeNode addr | FreeData 'v | FreeKey 'k | FreeTable | FreeHash

record ('k, 'v) hash_t =
  hash_table :: "addr list"
  hash_nchains :: hashcount_t
  hash_nodecount :: hashcount_t
  hash_maxcount :: hashcount_t
  hash_highmark :: hashcount_t
  hash_lowmark :: hashcount_t
  hash_compare :: "'k \<Rightarrow> 'k \<Rightarrow> int"
  hash_function :: "'k \<Rightarrow> hash_val_t"
  hash_freenode :: hnode_free_t
  hash_mask :: hash_val_t
  hash_dynamic :: bool

text \<open>The state an operation sees: the heap, one table, the module's global
  \<^verbatim>\<open>hash_val_t_bit\<close> and the log of freed objects.\<close>

record ('k, 'v) hstate =
  hs_heap :: "addr \<Rightarrow> ('k, 'v) hnode_t"
  hs_hash :: "('k, 'v) hash_t"
  hash_val_t_bit :: int
  hs_freed :: "('k, 'v) free_event list"

abbreviation (input) nd :: "('k, 'v) hstate \<Rightarrow> addr \<Rightarrow> ('k, 'v) hnode_t" where
  "nd s a \<equiv> hs_heap s a"

definition upd_node :: "('k, 'v) hstate \<Rightarrow> addr \<Rightarrow> (('k, 'v) hnode_t \<Rightarrow> ('k, 'v) hnode_t) \<Rightarrow> ('k, 'v) hstate" where
  "upd_node s a f = s\<lparr>hs_heap := (hs_heap s)(a := f (hs_heap s a))\<rparr>"

definition upd_hash :: "('k, 'v) hstate \<Rightarrow> (('k, 'v) hash_t \<Rightarrow> ('k, 'v) hash_t) \<Rightarrow> ('k, 'v) hstate" where
  "upd_hash s f = s\<lparr>hs_hash := f (hs_hash s)\<rparr>"

definition set_next :: "('k, 'v) hstate \<Rightarrow> addr \<Rightarrow> addr \<Rightarrow> ('k, 'v) hstate" where
  "set_next s a p = upd_node s a (\<lambda>n. n\<lparr>hash_next := p\<rparr>)"

subsection \<open>Sizes and masks\<close>

definition INIT_BITS :: nat where
  "INIT_BITS = 6"

definition INIT_SIZE :: hashcount_t where
  "INIT_SIZE = push_bit INIT_BITS 1"

definition INIT_MASK :: hash_val_t where
  "INIT_MASK = INIT_SIZE - 1"

function compute_bits_loop :: "hash_val_t \<Rightarrow> int \<Rightarrow> int" where
  "compute_bits_loop val bits =
     (if val \<noteq> 0 then compute_bits_loop (drop_bit 1 val) (bits + 1) else bits)"
  by pat_completeness auto
termination
  by (relation "measure (\<lambda>(val, bits). unat val)") (simp_all add: unat_shr1_less)

declare compute_bits_loop.simps [simp del]

definition compute_bits :: "('k, 'v) hstate \<Rightarrow> ('k, 'v) hstate" where
  "compute_bits s = s\<lparr>hash_val_t_bit := compute_bits_loop (- 1) 0\<rparr>"

function strip_zeros :: "hash_val_t \<Rightarrow> hash_val_t" where
  "strip_zeros arg = (if arg \<noteq> 0 \<and> arg AND 1 = 0 then strip_zeros (drop_bit 1 arg) else arg)"
  by pat_completeness auto
termination
  by (relation "measure unat") (simp_all add: unat_shr1_less)

declare strip_zeros.simps [simp del]

definition is_power_of_two :: "hash_val_t \<Rightarrow> bool" where
  "is_power_of_two arg = (if arg = 0 then False else strip_zeros arg = 1)"

definition compute_mask :: "hashcount_t \<Rightarrow> hash_val_t option" where
  "compute_mask sz = do {
     c_assert (is_power_of_two sz);
     c_assert (sz \<ge> 2);
     Some (sz - 1)
   }"

definition clear_table :: "('k, 'v) hstate \<Rightarrow> ('k, 'v) hstate option" where
  "clear_table s = do {
     t \<leftarrow> foldM (\<lambda>i t. wr t i NULL) [0..<unat (hash_nchains (hs_hash s))] (hash_table (hs_hash s));
     Some (upd_hash s (\<lambda>h. h\<lparr>hash_table := t\<rparr>))
   }"

subsection \<open>Verification walk and lookup\<close>

partial_function (option) verify_chain ::
  "('k, 'v) hstate \<Rightarrow> nat \<Rightarrow> addr \<Rightarrow> hashcount_t \<Rightarrow> (bool \<times> hashcount_t) option" where
  "verify_chain s chain hptr count =
     (if hptr = NULL then Some (True, count)
      else if unat (hash_hkey (nd s hptr) AND hash_mask (hs_hash s)) \<noteq> chain then Some (False, count)
      else verify_chain s chain (hash_next (nd s hptr)) (count + 1))"

definition hash_verify :: "('k, 'v) hstate \<Rightarrow> bool option" where
  "hash_verify s =
     (let h = hs_hash s in
      if hash_dynamic h \<and> (hash_lowmark h \<ge> hash_highmark h
           \<or> \<not> is_power_of_two (hash_highmark h) \<or> \<not> is_power_of_two (hash_lowmark h))
      then Some False
      else do {
        (ok, count) \<leftarrow> foldM (\<lambda>chain (ok, count).
             if \<not> ok then Some (ok, count)
             else do { hptr \<leftarrow> rd (hash_table h) chain; verify_chain s chain hptr count })
           [0..<unat (hash_nchains h)] (True, 0);
        Some (ok \<and> count = hash_nodecount h)
      })"

definition assert_verify :: "('k, 'v) hstate \<Rightarrow> unit option" where
  "assert_verify s = do { ok \<leftarrow> hash_verify s; c_assert ok }"

partial_function (option) lookup_loop ::
  "('k, 'v) hstate \<Rightarrow> 'k \<Rightarrow> hash_val_t \<Rightarrow> addr \<Rightarrow> addr option" where
  "lookup_loop s key hkey nptr =
     (if nptr = NULL then Some NULL
      else if hash_hkey (nd s nptr) = hkey \<and> hash_compare (hs_hash s) (hash_key (nd s nptr)) key = 0
      then Some nptr
      else lookup_loop s key hkey (hash_next (nd s nptr)))"

definition hash_lookup :: "('k, 'v) hstate \<Rightarrow> 'k \<Rightarrow> addr option" where
  "hash_lookup s key =
     (let hkey = hash_function (hs_hash s) key;
          chain = hkey AND hash_mask (hs_hash s)
      in do { nptr \<leftarrow> rd (hash_table (hs_hash s)) (unat chain); lookup_loop s key hkey nptr })"

subsection \<open>Growing and shrinking\<close>

text \<open>The inner loop of \<^verbatim>\<open>grow_table\<close>: the nodes of one chain are pushed one by one onto
  \<open>low_chain\<close> or \<open>high_chain\<close>.\<close>

partial_function (option) split_chain ::
  "hash_val_t \<Rightarrow> addr \<Rightarrow> addr \<Rightarrow> addr \<Rightarrow> ('k, 'v) hstate \<Rightarrow> (addr \<times> addr \<times> ('k, 'v) hstate) option" where
  "split_chain exposed_bit hptr low_chain high_chain s =
     (if hptr = NULL then Some (low_chain, high_chain, s)
      else let nxt = hash_next (nd s hptr) in
        if hash_hkey (nd s hptr) AND exposed_bit \<noteq> 0
        then split_chain exposed_bit nxt low_chain hptr (set_next s hptr high_chain)
        else split_chain exposed_bit nxt hptr high_chain (set_next s hptr low_chain))"

text \<open>The body of the outer loop: split chain \<open>i\<close> of the \<open>n\<close> old chains.\<close>

definition grow_chain ::
  "nat \<Rightarrow> hash_val_t \<Rightarrow> nat \<Rightarrow> addr list \<times> ('k, 'v) hstate \<Rightarrow> (addr list \<times> ('k, 'v) hstate) option" where
  "grow_chain n exposed_bit i = (\<lambda>(newtable, s). do {
     hptr \<leftarrow> rd newtable i;
     (low_chain, high_chain, s) \<leftarrow> split_chain exposed_bit hptr NULL NULL s;
     newtable \<leftarrow> wr newtable i low_chain;
     newtable \<leftarrow> wr newtable (i + n) high_chain;
     Some (newtable, s)
   })"

text \<open>\<open>realloc_res\<close> is the result of \<^verbatim>\<open>realloc\<close>: \<^term>\<open>None\<close> when it fails, otherwise the
  indeterminate contents of the cells it adds.\<close>

definition grow_table :: "(nat \<Rightarrow> addr) option \<Rightarrow> ('k, 'v) hstate \<Rightarrow> ('k, 'v) hstate option" where
  "grow_table realloc_res s = do {
     let h = hs_hash s;
     let n = unat (hash_nchains h);
     c_assert (2 * hash_nchains h > hash_nchains h);
     s \<leftarrow> (case realloc_res of
        None \<Rightarrow> Some s
      | Some junk \<Rightarrow> do {
          let mask = push_bit 1 (hash_mask h) OR 1;
          let exposed_bit = mask XOR hash_mask h;
          c_assert (mask \<noteq> hash_mask h);
          (newtable, s) \<leftarrow> foldM (grow_chain n exposed_bit) [0..<n]
             (hash_table h @ map junk [n..<2 * n], s);
          Some (upd_hash s (\<lambda>h. h\<lparr>hash_table := newtable, hash_mask := mask,
             hash_nchains := hash_nchains h * 2, hash_lowmark := hash_lowmark h * 2,
             hash_highmark := hash_highmark h * 2\<rparr>))
        });
     assert_verify s;
     Some s
   }"

partial_function (option) find_tail :: "('k, 'v) hstate \<Rightarrow> addr \<Rightarrow> addr option" where
  "find_tail s low_tail =
     (if low_tail \<noteq> NULL \<and> hash_next (nd s low_tail) \<noteq> NULL
      then find_tail s (hash_next (nd s low_tail)) else Some low_tail)"

definition shrink_chain :: "nat \<Rightarrow> nat \<Rightarrow> ('k, 'v) hstate \<Rightarrow> ('k, 'v) hstate option" where
  "shrink_chain n i s = do {
     low_chain \<leftarrow> rd (hash_table (hs_hash s)) i;
     high_chain \<leftarrow> rd (hash_table (hs_hash s)) (i + n);
     low_tail \<leftarrow> find_tail s low_chain;
     if low_chain \<noteq> NULL then Some (set_next s low_tail high_chain)
     else if high_chain \<noteq> NULL then do {
       t \<leftarrow> wr (hash_table (hs_hash s)) i high_chain;
       Some (upd_hash s (\<lambda>h. h\<lparr>hash_table := t\<rparr>)) }
     else do { c_assert (hash_table (hs_hash s) ! i = NULL); Some s }
   }"

text \<open>A failed \<^verbatim>\<open>realloc\<close> leaves the old, larger array in place; only its lower half is used
  from then on, so both outcomes of the call are the same table.\<close>

definition shrink_table :: "('k, 'v) hstate \<Rightarrow> ('k, 'v) hstate option" where
  "shrink_table s = do {
     c_assert (hash_nchains (hs_hash s) \<ge> 2);
     let nchains = hash_nchains (hs_hash s) div 2;
     let n = unat nchains;
     s \<leftarrow> foldM (shrink_chain n) [0..<n] s;
     let s = upd_hash s (\<lambda>h. h\<lparr>hash_table := take n (hash_table h),
          hash_mask := drop_bit 1 (hash_mask h), hash_nchains := nchains,
          hash_lowmark := hash_lowmark h div 2, hash_highmark := hash_highmark h div 2\<rparr>);
     assert_verify s;
     Some s
   }"

subsection \<open>Insertion and deletion\<close>

definition hash_insert ::
  "(nat \<Rightarrow> addr) option \<Rightarrow> ('k, 'v) hstate \<Rightarrow> addr \<Rightarrow> 'k \<Rightarrow> ('k, 'v) hstate option" where
  "hash_insert realloc_res s node key = do {
     c_assert (hash_val_t_bit s \<noteq> 0);
     c_assert (hash_next (nd s node) = NULL);
     c_assert (hash_nodecount (hs_hash s) < hash_maxcount (hs_hash s));
     p \<leftarrow> hash_lookup s key;
     c_assert (p = NULL);
     s \<leftarrow> (if hash_dynamic (hs_hash s) \<and> hash_nodecount (hs_hash s) \<ge> hash_highmark (hs_hash s)
          then grow_table realloc_res s else Some s);
     let hkey = hash_function (hs_hash s) key;
     let chain = hkey AND hash_mask (hs_hash s);
     head \<leftarrow> rd (hash_table (hs_hash s)) (unat chain);
     let s = upd_node s node (\<lambda>n. n\<lparr>hash_key := key, hash_hkey := hkey, hash_next := head\<rparr>);
     t \<leftarrow> wr (hash_table (hs_hash s)) (unat chain) node;
     let s = upd_hash s (\<lambda>h. h\<lparr>hash_table := t, hash_nodecount := hash_nodecount h + 1\<rparr>);
     assert_verify s;
     Some s
   }"

text \<open>The search for the predecessor; reading \<^verbatim>\<open>hptr->next\<close> of a null pointer fails.\<close>

partial_function (option) find_pred :: "('k, 'v) hstate \<Rightarrow> addr \<Rightarrow> addr \<Rightarrow> addr option" where
  "find_pred s node hptr =
     (if hptr = NULL then None
      else if hash_next (nd s hptr) \<noteq> node then find_pred s node (hash_next (nd s hptr))
      else Some hptr)"

definition unlink_node :: "('k, 'v) hstate \<Rightarrow> addr \<Rightarrow> ('k, 'v) hstate option" where
  "unlink_node s node = do {
     let chain = hash_hkey (nd s node) AND hash_mask (hs_hash s);
     hptr \<leftarrow> rd (hash_table (hs_hash s)) (unat chain);
     s \<leftarrow> (if hptr = node then do {
            t \<leftarrow> wr (hash_table (hs_hash s)) (unat chain) (hash_next (nd s node));
            Some (upd_hash s (\<lambda>h. h\<lparr>hash_table := t\<rparr>)) }
          else do {
            p \<leftarrow> find_pred s node hptr;
            Some (set_next s p (hash_next (nd s node))) });
     let s = upd_hash s (\<lambda>h. h\<lparr>hash_nodecount := hash_nodecount h - 1\<rparr>);
     assert_verify s;
     Some (set_next s node NULL)
   }"

definition hash_scan_delete :: "('k, 'v) hstate \<Rightarrow> addr \<Rightarrow> ('k, 'v) hstate option" where
  "hash_scan_delete s node = do {
     p \<leftarrow> hash_lookup s (hash_key (nd s node));
     c_assert (p = node);
     c_assert (hash_val_t_bit s \<noteq> 0);
     unlink_node s node
   }"

definition hash_delete :: "('k, 'v) hstate \<Rightarrow> addr \<Rightarrow> ('k, 'v) hstate option" where
  "hash_delete s node = do {
     p \<leftarrow> hash_lookup s (hash_key (nd s node));
     c_assert (p = node);
     c_assert (hash_val_t_bit s \<noteq> 0);
     s \<leftarrow> (if hash_dynamic (hs_hash s) \<and> hash_nodecount (hs_hash s) \<le> hash_lowmark (hs_hash s)
              \<and> hash_nodecount (hs_hash s) > INIT_SIZE
          then shrink_table s else Some s);
     unlink_node s node
   }"

text \<open>What \<^verbatim>\<open>hnode_free\<close>, \<^verbatim>\<open>hnode_free2\<close> and \<^verbatim>\<open>hnode_free3\<close> release, in order.\<close>

fun free_events :: "hnode_free_t \<Rightarrow> ('k, 'v) hnode_t \<Rightarrow> addr \<Rightarrow> ('k, 'v) free_event list" where
  "free_events Hnode_free n node = [FreeNode node]"
| "free_events Hnode_free2 n node = [FreeData (hash_data n), FreeNode node]"
| "free_events Hnode_free3 n node = [FreeData (hash_data n), FreeKey (hash_key n), FreeNode node]"

definition free_node :: "('k, 'v) hstate \<Rightarrow> addr \<Rightarrow> ('k, 'v) hstate" where
  "free_node s node = s\<lparr>hs_freed := hs_freed s @ free_events (hash_freenode (hs_hash s)) (nd s node) node\<rparr>"

definition hnode_init :: "('k, 'v) hstate \<Rightarrow> addr \<Rightarrow> 'v \<Rightarrow> ('k, 'v) hstate" where
  "hnode_init s node d = upd_node s node (\<lambda>n. n\<lparr>hash_data := d, hash_next := NULL\<rparr>)"

text \<open>\<open>node\<close> is the result of the table's \<^verbatim>\<open>allocnode\<close>, null when it fails.\<close>

definition hash_alloc_insert ::
  "(nat \<Rightarrow> addr) option \<Rightarrow> addr \<Rightarrow> ('k, 'v) hstate \<Rightarrow> 'k \<Rightarrow> 'v \<Rightarrow> (int \<times> ('k, 'v) hstate) option" where
  "hash_alloc_insert realloc_res node s key d =
     (if node \<noteq> NULL then do {
        s \<leftarrow> hash_insert realloc_res (hnode_init s node d) node key;
        Some (1, s) }
      else Some (0, s))"

definition hash_delete_free :: "('k, 'v) hstate \<Rightarrow> addr \<Rightarrow> ('k, 'v) hstate option" where
  "hash_delete_free s node =
     (if node = NULL then Some s
      else do { s \<leftarrow> hash_delete s node; Some (free_node s node) })"

definition hash_scan_delfree :: "('k, 'v) hstate \<Rightarrow> addr \<Rightarrow> ('k, 'v) hstate option" where
  "hash_scan_delfree s node = do { s \<leftarrow> hash_scan_delete s node; Some (free_node s node) }"

subsection \<open>Creation, scanning and destruction\<close>

definition hash_create_with ::
  "hnode_free_t \<Rightarrow> bool \<Rightarrow> (nat \<Rightarrow> addr) option \<Rightarrow> hashcount_t \<Rightarrow> ('k \<Rightarrow> 'k \<Rightarrow> int) \<Rightarrow> ('k \<Rightarrow> hash_val_t)
     \<Rightarrow> ('k, 'v) hstate \<Rightarrow> (bool \<times> ('k, 'v) hstate) option" where
  "hash_create_with fr hash_malloc table_malloc maxcount compfun hashfun s =
     (let s = (if hash_val_t_bit s = 0 then compute_bits s else s) in
      if \<not> hash_malloc then Some (False, s)
      else case table_malloc of
        None \<Rightarrow> Some (False, s\<lparr>hs_freed := hs_freed s @ [FreeHash]\<rparr>)
      | Some junk \<Rightarrow> do {
          s \<leftarrow> clear_table (s\<lparr>hs_hash := \<lparr>
             hash_table = map junk [0..<unat INIT_SIZE],
             hash_nchains = INIT_SIZE, hash_nodecount = 0, hash_maxcount = maxcount,
             hash_highmark = INIT_SIZE * 2, hash_lowmark = INIT_SIZE div 2,
             hash_compare = compfun, hash_function = hashfun, hash_freenode = fr,
             hash_mask = INIT_MASK, hash_dynamic = True\<rparr>\<rparr>);
          assert_verify s;
          Some (True, s)
        })"

definition hash_create ::
  "bool \<Rightarrow> (nat \<Rightarrow> addr) option \<Rightarrow> hashcount_t \<Rightarrow> ('k \<Rightarrow> 'k \<Rightarrow> int) \<Rightarrow> ('k \<Rightarrow> hash_val_t)
     \<Rightarrow> ('k, 'v) hstate \<Rightarrow> (bool \<times> ('k, 'v) hstate) option" where
  "hash_create = hash_create_with Hnode_free"

definition hash_create2 ::
  "bool \<Rightarrow> (nat \<Rightarrow> addr) option \<Rightarrow> hashcount_t \<Rightarrow> ('k \<Rightarrow> 'k \<Rightarrow> int) \<Rightarrow> ('k \<Rightarrow> hash_val_t)
     \<Rightarrow> ('k, 'v) hstate \<Rightarrow> (bool \<times> ('k, 'v) hstate) option" where
  "hash_create2 = hash_create_with Hnode_free2"

definition hash_create3 ::
  "bool \<Rightarrow> (nat \<Rightarrow> addr) option \<Rightarrow> hashcount_t \<Rightarrow> ('k \<Rightarrow> 'k \<Rightarrow> int) \<Rightarrow> ('k \<Rightarrow> hash_val_t)
     \<Rightarrow> ('k, 'v) hstate \<Rightarrow> (bool \<times> ('k, 'v) hstate) option" where
  "hash_create3 = hash_create_with Hnode_free3"

definition hash_init ::
  "addr list \<Rightarrow> hashcount_t \<Rightarrow> hashcount_t \<Rightarrow> ('k \<Rightarrow> 'k \<Rightarrow> int) \<Rightarrow> ('k \<Rightarrow> hash_val_t)
     \<Rightarrow> ('k, 'v) hstate \<Rightarrow> ('k, 'v) hstate option" where
  "hash_init table nchains maxcount compfun hashfun s = do {
     let s = (if hash_val_t_bit s = 0 then compute_bits s else s);
     c_assert (is_power_of_two nchains);
     mask \<leftarrow> compute_mask nchains;
     s \<leftarrow> clear_table (upd_hash s (\<lambda>h. h\<lparr>hash_table := table, hash_nchains := nchains,
          hash_nodecount := 0, hash_maxcount := maxcount, hash_compare := compfun,
          hash_function := hashfun, hash_dynamic := False, hash_mask := mask\<rparr>));
     assert_verify s;
     Some s
   }"

record hscan_t =
  scan_chain :: nat
  scan_next :: addr

text \<open>The index of the first non-empty chain at or after \<open>chain\<close>, or \<open>nchains\<close>.\<close>

function next_chain :: "addr list \<Rightarrow> nat \<Rightarrow> nat \<Rightarrow> nat option" where
  "next_chain table nchains chain =
     (if chain < nchains then do {
        p \<leftarrow> rd table chain;
        if p = NULL then next_chain table nchains (Suc chain) else Some chain }
      else Some chain)"
  by pat_completeness auto
termination
  by (relation "measure (\<lambda>(table, nchains, chain). nchains - chain)") auto

declare next_chain.simps [simp del]

definition scan_to :: "('k, 'v) hstate \<Rightarrow> nat \<Rightarrow> hscan_t \<Rightarrow> hscan_t option" where
  "scan_to s start scan = do {
     let nchains = unat (hash_nchains (hs_hash s));
     chain \<leftarrow> next_chain (hash_table (hs_hash s)) nchains start;
     if chain < nchains then do {
       p \<leftarrow> rd (hash_table (hs_hash s)) chain;
       Some (scan\<lparr>scan_chain := chain, scan_next := p\<rparr>) }
     else Some (scan\<lparr>scan_next := NULL\<rparr>)
   }"

text \<open>\<open>scan\<close> is the caller's uninitialised scanner.\<close>

definition hash_scan_begin :: "('k, 'v) hstate \<Rightarrow> hscan_t \<Rightarrow> hscan_t option" where
  "hash_scan_begin s scan = scan_to s 0 scan"

definition hash_scan_next :: "('k, 'v) hstate \<Rightarrow> hscan_t \<Rightarrow> (addr \<times> hscan_t) option" where
  "hash_scan_next s scan = do {
     c_assert (hash_val_t_bit s \<noteq> 0);
     let nxt = scan_next scan;
     if nxt \<noteq> NULL then
       if hash_next (nd s nxt) \<noteq> NULL
       then Some (nxt, scan\<lparr>scan_next := hash_next (nd s nxt)\<rparr>)
       else do { scan \<leftarrow> scan_to s (scan_chain scan + 1) scan; Some (nxt, scan) }
     else Some (nxt, scan)
   }"

partial_function (option) free_nodes_loop ::
  "hscan_t \<Rightarrow> ('k, 'v) hstate \<Rightarrow> ('k, 'v) hstate option" where
  "free_nodes_loop scan s = do {
     (node, scan) \<leftarrow> hash_scan_next s scan;
     if node \<noteq> NULL then do {
       s \<leftarrow> hash_scan_delete s node;
       free_nodes_loop scan (free_node s node) }
     else Some s
   }"

definition hash_free_nodes :: "hscan_t \<Rightarrow> ('k, 'v) hstate \<Rightarrow> ('k, 'v) hstate option" where
  "hash_free_nodes hs s = do {
     scan \<leftarrow> hash_scan_begin s hs;
     s \<leftarrow> free_nodes_loop scan s;
     clear_table (upd_hash s (\<lambda>h. h\<lparr>hash_nodecount := 0\<rparr>))
   }"

definition ow_hash_isempty :: "('k, 'v) hstate \<Rightarrow> bool" where
  "ow_hash_isempty s \<longleftrightarrow> hash_nodecount (hs_hash s) = 0"

definition ow_hash_isfull :: "('k, 'v) hstate \<Rightarrow> bool" where
  "ow_hash_isfull s \<longleftrightarrow> hash_nodecount (hs_hash s) = hash_maxcount (hs_hash s)"

definition ow_hash_count :: "('k, 'v) hstate \<Rightarrow> hashcount_t" where
  "ow_hash_count s = hash_nodecount (hs_hash s)"

definition hash_destroy :: "('k, 'v) hstate \<Rightarrow> ('k, 'v) hstate option" where
  "hash_destroy s = do {
     c_assert (hash_val_t_bit s \<noteq> 0);
     c_assert (ow_hash_isempty s);
     Some (s\<lparr>hs_freed := hs_freed s @ [FreeTable, FreeHash]\<rparr>)
   }"

definition hash_free :: "hscan_t \<Rightarrow> ('k, 'v) hstate \<Rightarrow> ('k, 'v) hstate option" where
  "hash_free hs s = do { s \<leftarrow> hash_free_nodes hs s; hash_destroy s }"

subsection \<open>The default hash function on strings\<close>

definition randbox :: "u64 list" where
  "randbox = [
     0x49848f1b, 0xe6255dba, 0x36da5bdc, 0x47bf94e9,
     0x8cbcce22, 0x559fc06a, 0xd268f536, 0xe10af79a,
     0xc1af4d69, 0x1d2917b5, 0xec4c304d, 0x9ee5016c,
     0x69232f74, 0xfead7bb3, 0xe9089ab6, 0xf012f6ae]"

definition hash_fun_step :: "char \<Rightarrow> hash_val_t \<Rightarrow> hash_val_t" where
  "hash_fun_step c acc =
     (let acc = acc XOR randbox ! unat ((of_char c + acc) AND 0xf);
          acc = push_bit 1 acc OR drop_bit 31 acc;
          acc = acc AND 0xffffffff;
          acc = acc XOR randbox ! unat ((drop_bit 4 (of_char c) + acc) AND 0xf);
          acc = push_bit 2 acc OR drop_bit 30 acc
      in acc AND 0xffffffff)"

definition hash_fun_default :: "string \<Rightarrow> hash_val_t" where
  "hash_fun_default str = fold hash_fun_step str 0"

text \<open>\<^verbatim>\<open>strcmp\<close>, of which the C standard fixes the sign.\<close>

fun strcmp :: "string \<Rightarrow> string \<Rightarrow> int" where
  "strcmp [] [] = 0"
| "strcmp [] (d # ds) = - 1"
| "strcmp (c # cs) [] = 1"
| "strcmp (c # cs) (d # ds) =
     (if c = d then strcmp cs ds else if (of_char c :: nat) < of_char d then - 1 else 1)"

definition hash_comp_default :: "string \<Rightarrow> string \<Rightarrow> int" where
  "hash_comp_default key1 key2 = strcmp key1 key2"

end
