(* ===== verification/Hash_Correct.thy ===== *)
theory Hash_Correct
  imports Kazlib_Hash "HOL-Library.Multiset"
begin

text \<open>
  Correctness of the hash table: the representation invariant, the abstraction to a finite
  map, and the proof that every operation returns (no assertion fires, no access leaves the
  table, no walk diverges), keeps the invariant and has its effect on the map.
\<close>

subsection \<open>Linked chains\<close>

fun chain :: "(addr \<Rightarrow> addr) \<Rightarrow> addr \<Rightarrow> addr list \<Rightarrow> bool" where
  "chain nx p [] \<longleftrightarrow> p = NULL"
| "chain nx p (a # as) \<longleftrightarrow> p = a \<and> a \<noteq> NULL \<and> chain nx (nx a) as"

lemma chain_NULL [simp]: "chain nx 0 xs \<longleftrightarrow> xs = []"
  by (cases xs) auto

lemma chain_upd [simp]: "a \<notin> set xs \<Longrightarrow> chain (nx(a := q)) p xs = chain nx p xs"
  by (induction xs arbitrary: p) auto

lemma chain_cong: "(\<And>a. a \<in> set xs \<Longrightarrow> nx a = nx' a) \<Longrightarrow> chain nx p xs = chain nx' p xs"
  by (induction xs arbitrary: p) auto

lemma chain_nonnull: "chain nx p xs \<Longrightarrow> 0 \<notin> set xs"
  by (induction xs arbitrary: p) auto

lemma chain_hd: "chain nx p xs \<Longrightarrow> p \<noteq> 0 \<Longrightarrow> xs \<noteq> [] \<and> hd xs = p"
  by (cases xs) auto

lemma chain_nonempty: "xs \<noteq> [] \<Longrightarrow> chain nx p xs \<longleftrightarrow> p = hd xs \<and> hd xs \<noteq> 0 \<and> chain nx (nx (hd xs)) (tl xs)"
  by (cases xs) auto

lemma chain_last_next: "chain nx p xs \<Longrightarrow> xs \<noteq> [] \<Longrightarrow> nx (last xs) = 0"
  by (induction xs arbitrary: p) (auto split: if_splits)

lemma chain_link:
  "chain nx p xs \<Longrightarrow> chain nx q ys \<Longrightarrow> xs \<noteq> [] \<Longrightarrow> distinct (xs @ ys) \<Longrightarrow>
     chain (nx(last xs := q)) p (xs @ ys)"
proof (induction xs arbitrary: p)
  case (Cons a xs)
  show ?case
  proof (cases "xs = []")
    case True
    with Cons.prems show ?thesis
      by (clarsimp simp del: fun_upd_apply simp add: fun_upd_same)
  next
    case False
    with Cons show ?thesis by auto
  qed
qed simp

lemma chain_unlink:
  "chain nx p (xs @ a # ys) \<Longrightarrow> distinct (xs @ a # ys) \<Longrightarrow> xs \<noteq> [] \<Longrightarrow>
     chain (nx(last xs := nx a)) p (xs @ ys)"
proof (induction xs arbitrary: p)
  case (Cons b xs)
  show ?case
  proof (cases "xs = []")
    case True
    with Cons.prems show ?thesis
      by (clarsimp simp del: fun_upd_apply simp add: fun_upd_same)
  next
    case False
    with Cons show ?thesis by auto
  qed
qed simp

subsection \<open>States that differ in their links only\<close>

abbreviation (input) nxt :: "('k, 'v) hstate \<Rightarrow> addr \<Rightarrow> addr" where
  "nxt s \<equiv> \<lambda>a. hash_next (hs_heap s a)"

definition with_next :: "('k, 'v) hstate \<Rightarrow> (addr \<Rightarrow> addr) \<Rightarrow> ('k, 'v) hstate" where
  "with_next s f = s\<lparr>hs_heap := \<lambda>a. (hs_heap s a)\<lparr>hash_next := f a\<rparr>\<rparr>"

lemma with_next_simps [simp]:
  "hs_hash (with_next s f) = hs_hash s"
  "hash_val_t_bit (with_next s f) = hash_val_t_bit s"
  "hs_freed (with_next s f) = hs_freed s"
  "hash_next (hs_heap (with_next s f) a) = f a"
  "hash_key (hs_heap (with_next s f) a) = hash_key (hs_heap s a)"
  "hash_data (hs_heap (with_next s f) a) = hash_data (hs_heap s a)"
  "hash_hkey (hs_heap (with_next s f) a) = hash_hkey (hs_heap s a)"
  by (simp_all add: with_next_def)

lemma with_next_self: "with_next s (nxt s) = s"
  by (simp add: with_next_def)

lemma set_next_with_next [simp]: "set_next (with_next s f) a p = with_next s (f(a := p))"
proof -
  have "(\<lambda>x. (hs_heap s x)\<lparr>hash_next := f x\<rparr>)(a := (hs_heap s a)\<lparr>hash_next := p\<rparr>)
      = (\<lambda>x. (hs_heap s x)\<lparr>hash_next := (f(a := p)) x\<rparr>)"
    by auto
  then show ?thesis
    by (simp add: set_next_def upd_node_def with_next_def del: fun_upd_apply)
qed

lemma set_next_alt: "set_next s a p = with_next s ((nxt s)(a := p))"
  using set_next_with_next [of s "nxt s" a p] by (simp only: with_next_self)

lemma upd_hash_simps [simp]:
  "hs_heap (upd_hash s f) = hs_heap s"
  "hs_hash (upd_hash s f) = f (hs_hash s)"
  "hash_val_t_bit (upd_hash s f) = hash_val_t_bit s"
  "hs_freed (upd_hash s f) = hs_freed s"
  by (simp_all add: upd_hash_def)

lemma upd_node_simps [simp]:
  "hs_heap (upd_node s a f) = (hs_heap s)(a := f (hs_heap s a))"
  "hs_hash (upd_node s a f) = hs_hash s"
  "hash_val_t_bit (upd_node s a f) = hash_val_t_bit s"
  "hs_freed (upd_node s a f) = hs_freed s"
  by (simp_all add: upd_node_def)

lemma set_next_simps:
  "hs_hash (set_next s a p) = hs_hash s"
  "hash_val_t_bit (set_next s a p) = hash_val_t_bit s"
  "hs_freed (set_next s a p) = hs_freed s"
  "hash_key (hs_heap (set_next s a p) b) = hash_key (hs_heap s b)"
  "hash_data (hs_heap (set_next s a p) b) = hash_data (hs_heap s b)"
  "hash_hkey (hs_heap (set_next s a p) b) = hash_hkey (hs_heap s b)"
  by (simp_all add: set_next_alt)

subsection \<open>Powers of two and masks\<close>

lemma drop_bit_exp: "n < 63 \<Longrightarrow> drop_bit 1 (2 ^ Suc n :: u64) = 2 ^ n"
  by (rule bit_word_eqI) (auto simp: bit_simps)

lemma exp_and_1: "n < 63 \<Longrightarrow> (2 ^ Suc n :: u64) AND 1 = 0"
  by (rule bit_word_eqI) (auto simp: bit_simps)

lemma exp_nonzero: "n < 64 \<Longrightarrow> (2 ^ n :: u64) \<noteq> 0"
  by (simp add: exp_eq_zero_iff)

lemma strip_zeros_exp: "n < 64 \<Longrightarrow> strip_zeros (2 ^ n) = 1"
proof (induction n)
  case 0
  show ?case by (subst strip_zeros.simps) simp
next
  case (Suc n)
  then have "n < 63" by simp
  note facts = exp_and_1 [OF this] drop_bit_exp [OF this]
  from Suc.prems have "(2 ^ Suc n :: u64) \<noteq> 0"
    by (rule exp_nonzero)
  then have "strip_zeros (2 ^ Suc n) = strip_zeros (2 ^ n)"
    by (subst strip_zeros.simps) (simp only: facts if_True simp_thms)
  with Suc show ?case by simp
qed

lemma is_power_of_two_exp: "n < 64 \<Longrightarrow> is_power_of_two (2 ^ n)"
  by (simp add: is_power_of_two_def strip_zeros_exp exp_nonzero)

lemma even_word_double: "w AND 1 = 0 \<Longrightarrow> (w :: u64) = 2 * drop_bit 1 w"
  using mult_div_mod_eq [of 2 w] by (simp add: and_one_eq drop_bit_eq_div)

lemma strip_zeros_1: "strip_zeros w = 1 \<Longrightarrow> \<exists>n. w = 2 ^ n"
proof (induction w rule: strip_zeros.induct)
  case (1 w)
  show ?case
  proof (cases "w \<noteq> 0 \<and> w AND 1 = 0")
    case True
    with "1.prems" have "strip_zeros (drop_bit 1 w) = 1"
      by (simp add: strip_zeros.simps [of w])
    with True "1.IH" obtain n where "drop_bit 1 w = 2 ^ n"
      by blast
    with True even_word_double [of w] have "w = 2 ^ Suc n"
      by simp
    then show ?thesis by blast
  next
    case False
    with "1.prems" have "w = 2 ^ 0"
      by (auto simp: strip_zeros.simps [of w])
    then show ?thesis by blast
  qed
qed

lemma unat_exp: "n < 64 \<Longrightarrow> unat (2 ^ n :: u64) = 2 ^ n"
proof -
  assume n: "n < 64"
  have "unat (of_nat (2 ^ n) :: u64) = 2 ^ n mod 2 ^ 64"
    by (simp only: unat_of_nat len_num0 len_bit0 len_num1 mult_1_right) simp
  also have "\<dots> = 2 ^ n"
    using n by (intro mod_less power_strict_increasing) simp_all
  finally show ?thesis by simp
qed

lemma unat_and_mask: "unat (w AND (2 ^ k - 1) :: u64) = unat w mod 2 ^ k"
proof -
  have "w AND (2 ^ k - 1) = take_bit k w"
    by (simp add: take_bit_eq_mask mask_eq_exp_minus_1)
  then have "unat (w AND (2 ^ k - 1)) = take_bit k (unat w)"
    by (simp only: unsigned_take_bit_eq)
  then show ?thesis
    by (simp add: take_bit_eq_mod)
qed

lemma grow_mask: "push_bit 1 (2 ^ k - 1) OR 1 = (2 ^ Suc k - 1 :: u64)"
  by (simp only: mask_Suc_double mask_eq_exp_minus_1 [symmetric] push_bit_eq_mult or.commute
      power_one_right mult.commute)

lemma exposed_bit: "k < 63 \<Longrightarrow> (2 ^ Suc k - 1) XOR (2 ^ k - 1) = (2 ^ k :: u64)"
  unfolding mask_eq_exp_minus_1 [symmetric]
  by (rule bit_word_eqI) (auto simp: bit_simps)

lemma and_exp_nonzero: "(w AND 2 ^ k \<noteq> 0) = bit (w :: u64) k"
  by (simp add: and_exp_eq_0_iff_not_bit)

lemma mod_double: "n mod 2 ^ Suc k = n mod 2 ^ k + (if bit n k then 2 ^ k else 0)" for n :: nat
  using mod_mult2_eq [of n "2 ^ k" 2] by (simp add: bit_iff_odd odd_iff_mod_2_eq_one mult.commute)

lemma bit_unat: "bit (unat (w :: u64)) k = bit w k"
  by (simp add: bit_unsigned_iff)

text \<open>How the chain index of a hash value moves when the table doubles.\<close>

lemma index_double:
  "unat (w AND (2 ^ Suc k - 1) :: u64) = unat (w AND (2 ^ k - 1)) + (if bit w k then 2 ^ k else 0)"
  using mod_double [of "unat w" k] by (simp only: unat_and_mask bit_unat)

subsection \<open>The representation invariant\<close>

definition chains_ok :: "(addr \<Rightarrow> addr) \<Rightarrow> addr list \<Rightarrow> addr list list \<Rightarrow> bool" where
  "chains_ok nx t xss \<longleftrightarrow> length t = length xss \<and> (\<forall>i<length xss. chain nx (t ! i) (xss ! i))"

text \<open>The buckets: \<open>2 ^ k\<close> chains, disjoint, each node in the chain of its hash value.\<close>

definition buckets :: "('k, 'v) hstate \<Rightarrow> nat \<Rightarrow> addr list list \<Rightarrow> bool" where
  "buckets s k xss \<longleftrightarrow>
     hash_nchains (hs_hash s) = 2 ^ k \<and> hash_mask (hs_hash s) = 2 ^ k - 1 \<and> length xss = 2 ^ k
     \<and> chains_ok (nxt s) (hash_table (hs_hash s)) xss \<and> distinct (concat xss)
     \<and> (\<forall>i<2 ^ k. \<forall>a\<in>set (xss ! i). unat (hash_hkey (nd s a) AND (2 ^ k - 1)) = i)
     \<and> unat (hash_nodecount (hs_hash s)) = length (concat xss)"

text \<open>Stored hash values agree with the keys, and no key is stored twice.\<close>

definition keyed :: "('k, 'v) hstate \<Rightarrow> addr set \<Rightarrow> bool" where
  "keyed s A \<longleftrightarrow> (\<forall>a\<in>A. hash_hkey (nd s a) = hash_function (hs_hash s) (hash_key (nd s a)))
     \<and> inj_on (\<lambda>a. hash_key (nd s a)) A"

text \<open>The parameters: sizes and marks, the initialised global, and a comparison function that
  is zero exactly on equal keys, as the header asks of it.\<close>

definition params :: "('k, 'v) hstate \<Rightarrow> nat \<Rightarrow> bool" where
  "params s k \<longleftrightarrow> 1 \<le> k \<and> k \<le> 60 \<and> hash_val_t_bit s \<noteq> 0
     \<and> (\<forall>x y. hash_compare (hs_hash s) x y = 0 \<longleftrightarrow> x = y)
     \<and> (hash_dynamic (hs_hash s) \<longrightarrow> 6 \<le> k \<and> hash_highmark (hs_hash s) = 2 ^ Suc k
          \<and> hash_lowmark (hs_hash s) = 2 ^ (k - 1))"

definition hash_rep :: "('k, 'v) hstate \<Rightarrow> nat \<Rightarrow> addr list list \<Rightarrow> bool" where
  "hash_rep s k xss \<longleftrightarrow> buckets s k xss \<and> keyed s (set (concat xss)) \<and> params s k"

definition hash_wf :: "('k, 'v) hstate \<Rightarrow> addr set \<Rightarrow> bool" where
  "hash_wf s A \<longleftrightarrow> (\<exists>k xss. hash_rep s k xss \<and> A = set (concat xss))"

text \<open>What a client observes of a table: the data found under a key.\<close>

definition hash_get :: "('k, 'v) hstate \<Rightarrow> 'k \<Rightarrow> 'v option" where
  "hash_get s key = (case hash_lookup s key of
     None \<Rightarrow> None
   | Some p \<Rightarrow> if p = NULL then None else Some (hash_data (nd s p)))"

lemma verify_chain_ok:
  assumes "chain (nxt s) p xs"
    and "\<forall>a\<in>set xs. unat (hash_hkey (nd s a) AND hash_mask (hs_hash s)) = c"
  shows "verify_chain s c p n = Some (True, n + of_nat (length xs))"
  using assms
proof (induction xs arbitrary: p n)
  case Nil
  then show ?case by (subst verify_chain.simps) simp
next
  case (Cons a xs)
  then show ?case
    by (simp add: verify_chain.simps [of s c a] add.assoc)
qed

lemma marks_ok:
  assumes "params s k" "hash_dynamic (hs_hash s)"
  shows "hash_lowmark (hs_hash s) < hash_highmark (hs_hash s)"
    and "is_power_of_two (hash_highmark (hs_hash s))" and "is_power_of_two (hash_lowmark (hs_hash s))"
proof -
  from assms have k: "6 \<le> k" "k \<le> 60" and hi: "hash_highmark (hs_hash s) = 2 ^ Suc k"
    and lo: "hash_lowmark (hs_hash s) = 2 ^ (k - 1)"
    by (simp_all add: params_def)
  have "(2::nat) ^ (k - 1) < 2 ^ Suc k"
    by (rule power_strict_increasing) simp_all
  with k show "hash_lowmark (hs_hash s) < hash_highmark (hs_hash s)"
    unfolding hi lo by (simp only: word_less_nat_alt unat_exp)
  show "is_power_of_two (hash_highmark (hs_hash s))" "is_power_of_two (hash_lowmark (hs_hash s))"
    unfolding hi lo using k by (simp_all only: is_power_of_two_exp)
qed

lemma length_concat_take_Suc:
  "i < length xss \<Longrightarrow> length (concat (take (Suc i) xss)) = length (concat (take i xss)) + length (xss ! i)"
  by (simp add: take_Suc_conv_app_nth)

lemma assert_verify_ok:
  assumes b: "buckets s k xss" and p: "params s k"
  shows "assert_verify s = Some ()"
proof -
  let ?h = "hs_hash s"
  let ?body = "\<lambda>chain (ok, count). if \<not> ok then Some (ok, count)
             else do { hptr \<leftarrow> rd (hash_table ?h) chain; verify_chain s chain hptr count }"
  from p have k: "k < 64" by (simp add: params_def)
  from b have len: "length xss = 2 ^ k" and ch: "chains_ok (nxt s) (hash_table ?h) xss"
    and idx: "\<forall>i<2 ^ k. \<forall>a\<in>set (xss ! i). unat (hash_hkey (nd s a) AND hash_mask ?h) = i"
    and n: "unat (hash_nchains ?h) = 2 ^ k" and cnt: "unat (hash_nodecount ?h) = length (concat xss)"
    using k by (simp_all add: buckets_def unat_exp)
  have "\<exists>t. foldM ?body [0..<2 ^ k] (True, 0) = Some t
      \<and> t = (True, of_nat (length (concat (take (2 ^ k) xss))))"
  proof (rule foldM_upt_rule [where I = "\<lambda>i t. t = (True, of_nat (length (concat (take i xss))))"])
    fix i t assume i: "i < (2::nat) ^ k" and t: "t = (True, of_nat (length (concat (take i xss))) :: u64)"
    have "verify_chain s i (hash_table ?h ! i) (of_nat (length (concat (take i xss))))
        = Some (True, of_nat (length (concat (take i xss))) + of_nat (length (xss ! i)))"
      using ch idx i len by (intro verify_chain_ok) (auto simp: chains_ok_def)
    with ch i len t show "\<exists>u. ?body i t = Some u \<and> u = (True, of_nat (length (concat (take (Suc i) xss))))"
      by (simp add: chains_ok_def length_concat_take_Suc)
  qed simp
  then have fold: "foldM ?body [0..<2 ^ k] (True, 0) = Some (True, of_nat (length (concat xss)))"
    using len by auto
  have cnt': "of_nat (length (concat xss)) = hash_nodecount ?h"
    by (simp add: cnt [symmetric])
  have marks: "\<not> (hash_dynamic ?h \<and> (hash_lowmark ?h \<ge> hash_highmark ?h
      \<or> \<not> is_power_of_two (hash_highmark ?h) \<or> \<not> is_power_of_two (hash_lowmark ?h)))"
    using marks_ok [OF p] by auto
  show ?thesis
    unfolding assert_verify_def hash_verify_def Let_def
    by (simp only: n marks fold if_False bind.bind_lunit prod.case cnt' simp_thms c_assert_True)
qed

lemma lookup_loop_chain:
  assumes "\<forall>x y. hash_compare (hs_hash s) x y = 0 \<longleftrightarrow> x = y"
    and "chain (nxt s) p xs"
  shows "lookup_loop s key hk p = Some (case List.find (\<lambda>a. hash_hkey (nd s a) = hk \<and> hash_key (nd s a) = key) xs
      of None \<Rightarrow> NULL | Some a \<Rightarrow> a)"
  using assms(2)
proof (induction xs arbitrary: p)
  case Nil
  then show ?case by (subst lookup_loop.simps) simp
next
  case (Cons a xs)
  then show ?case
    using assms(1) by (auto simp: lookup_loop.simps [of s key hk a] lookup_loop.simps [of s "hash_key (hs_heap s a)" "hash_hkey (hs_heap s a)" a])
qed

lemma bucketsD:
  assumes "buckets s k xss" "k < 64"
  shows "length (hash_table (hs_hash s)) = 2 ^ k" "length xss = 2 ^ k"
    and "unat (hash_nchains (hs_hash s)) = 2 ^ k"
    and "\<And>i. i < 2 ^ k \<Longrightarrow> chain (nxt s) (hash_table (hs_hash s) ! i) (xss ! i)"
    and "distinct (concat xss)" "hash_mask (hs_hash s) = 2 ^ k - 1"
    and "\<And>i a. i < 2 ^ k \<Longrightarrow> a \<in> set (xss ! i) \<Longrightarrow> unat (hash_hkey (nd s a) AND (2 ^ k - 1)) = i"
    and "unat (hash_nodecount (hs_hash s)) = length (concat xss)"
  using assms by (simp_all add: buckets_def chains_ok_def unat_exp)

lemma index_less: "unat (w AND (2 ^ k - 1) :: u64) < 2 ^ k"
  by (simp add: unat_and_mask)

lemma in_own_bucket:
  assumes "buckets s k xss" "k < 64" "a \<in> set (concat xss)"
  shows "a \<in> set (xss ! unat (hash_hkey (nd s a) AND (2 ^ k - 1)))"
proof -
  from assms(3) obtain i where "i < length xss" "a \<in> set (xss ! i)"
    by (metis in_set_conv_nth UN_E set_concat)
  with bucketsD(2) [OF assms(1,2)] have "i < 2 ^ k" "a \<in> set (xss ! i)"
    by simp_all
  with bucketsD(7) [OF assms(1,2)] show ?thesis by simp
qed

lemma paramsD:
  assumes "params s k"
  shows "1 \<le> k" "k \<le> 60" "k < 64" "hash_val_t_bit s \<noteq> 0"
    and "hash_compare (hs_hash s) x y = 0 \<longleftrightarrow> x = y"
  using assms by (auto simp: params_def)

text \<open>Looking a key up finds the one node that holds it, or null.\<close>

lemma hash_lookup_rep:
  assumes rep: "hash_rep s k xss"
  shows "(\<exists>a\<in>set (concat xss). hash_key (nd s a) = key \<and> a \<noteq> NULL \<and> hash_lookup s key = Some a)
     \<or> (\<forall>a\<in>set (concat xss). hash_key (nd s a) \<noteq> key) \<and> hash_lookup s key = Some NULL"
proof -
  let ?hk = "hash_function (hs_hash s) key"
  let ?i = "unat (?hk AND (2 ^ k - 1))"
  let ?P = "\<lambda>a. hash_hkey (nd s a) = ?hk \<and> hash_key (nd s a) = key"
  from rep have b: "buckets s k xss" and p: "params s k" and kd: "keyed s (set (concat xss))"
    by (simp_all add: hash_rep_def)
  note k = paramsD(3) [OF p]
  note B = bucketsD [OF b k]
  have sub: "set (xss ! ?i) \<subseteq> set (concat xss)"
    using nth_mem [of ?i xss] index_less [of ?hk k] unfolding B(2) set_concat by blast
  have eq: "hash_lookup s key = Some (case List.find ?P (xss ! ?i) of None \<Rightarrow> NULL | Some a \<Rightarrow> a)"
    unfolding hash_lookup_def Let_def
    using B(1,4) index_less [of ?hk k] paramsD(5) [OF p]
    by (simp add: B(6) lookup_loop_chain)
  show ?thesis
  proof (cases "List.find ?P (xss ! ?i)")
    case None
    have "hash_key (nd s a) \<noteq> key" if a: "a \<in> set (concat xss)" for a
    proof
      assume eq: "hash_key (nd s a) = key"
      with kd a have "hash_hkey (nd s a) = ?hk"
        unfolding keyed_def by metis
      with in_own_bucket [OF b k a] None eq show False
        by (simp add: find_None_iff)
    qed
    with None eq show ?thesis by auto
  next
    case (Some a)
    then have a: "a \<in> set (xss ! ?i)" "hash_key (nd s a) = key"
      by (auto simp: find_Some_iff)
    with B(4) [OF index_less, of ?hk] have "a \<noteq> NULL"
      by (metis chain_nonnull)
    with a sub eq Some show ?thesis by auto
  qed
qed

lemma hash_lookup_node:
  assumes rep: "hash_rep s k xss" and a: "a \<in> set (concat xss)"
  shows "hash_lookup s (hash_key (nd s a)) = Some a"
proof -
  from rep have "inj_on (\<lambda>a. hash_key (nd s a)) (set (concat xss))"
    by (simp add: hash_rep_def keyed_def)
  with hash_lookup_rep [OF rep, of "hash_key (nd s a)"] a show ?thesis
    by (auto dest: inj_onD)
qed

lemma hash_get_iff:
  assumes rep: "hash_rep s k xss"
  shows "hash_get s key = Some d \<longleftrightarrow> (\<exists>a\<in>set (concat xss). hash_key (nd s a) = key \<and> hash_data (nd s a) = d)"
proof -
  from rep have "inj_on (\<lambda>a. hash_key (nd s a)) (set (concat xss))"
    by (simp add: hash_rep_def keyed_def)
  with hash_lookup_rep [OF rep, of key] show ?thesis
    by (auto simp: hash_get_def dest: inj_onD)
qed

lemma hash_get_eqI:
  assumes "hash_rep s k xss"
    and "\<And>key d. m key = Some d \<longleftrightarrow> (\<exists>a\<in>set (concat xss). hash_key (nd s a) = key \<and> hash_data (nd s a) = d)"
  shows "hash_get s = m"
proof
  fix key
  have "hash_get s key = Some d \<longleftrightarrow> m key = Some d" for d
    using hash_get_iff [OF assms(1)] assms(2) by simp
  then show "hash_get s key = m key"
    by (metis option.exhaust)
qed

subsection \<open>Growing\<close>

lemma split_chain_ok:
  assumes "chain f p xs" "chain f lo ls" "chain f hi hs"
    and "distinct (xs @ ls @ hs)"
  shows "\<exists>f' lo' hi'. split_chain e p lo hi (with_next s f) = Some (lo', hi', with_next s f')
     \<and> chain f' lo' (rev (filter (\<lambda>a. hash_hkey (nd s a) AND e = 0) xs) @ ls)
     \<and> chain f' hi' (rev (filter (\<lambda>a. hash_hkey (nd s a) AND e \<noteq> 0) xs) @ hs)
     \<and> (\<forall>a. a \<notin> set xs \<longrightarrow> f' a = f a)"
  using assms
proof (induction xs arbitrary: f p lo hi ls hs)
  case Nil
  then show ?case
    by (subst split_chain.simps) auto
next
  case (Cons a xs)
  let ?P = "hash_hkey (nd s a) AND e \<noteq> 0"
  from Cons.prems have p: "p = a" "a \<noteq> 0" and c: "chain f (f a) xs"
    and na: "a \<notin> set xs" "a \<notin> set ls" "a \<notin> set hs"
    by auto
  show ?case
  proof (cases ?P)
    case True
    define g where "g = f(a := hi)"
    have step: "split_chain e p lo hi (with_next s f) = split_chain e (f a) lo a (with_next s g)"
      using p True by (subst split_chain.simps) (simp add: g_def)
    have "chain g (f a) xs" "chain g lo ls" "chain g a (a # hs)"
      using c na Cons.prems p by (simp_all add: g_def del: fun_upd_apply add: fun_upd_same)
    from Cons.IH [OF this] Cons.prems(4) obtain f' lo' hi' where
      "split_chain e (f a) lo a (with_next s g) = Some (lo', hi', with_next s f')"
      "chain f' lo' (rev (filter (\<lambda>a. hash_hkey (nd s a) AND e = 0) xs) @ ls)"
      "chain f' hi' (rev (filter (\<lambda>a. hash_hkey (nd s a) AND e \<noteq> 0) xs) @ a # hs)"
      "\<forall>b. b \<notin> set xs \<longrightarrow> f' b = g b"
      by auto
    with step True show ?thesis by (auto simp: g_def)
  next
    case False
    define g where "g = f(a := lo)"
    have step: "split_chain e p lo hi (with_next s f) = split_chain e (f a) a hi (with_next s g)"
      using p False by (subst split_chain.simps) (simp add: g_def)
    have "chain g (f a) xs" "chain g a (a # ls)" "chain g hi hs"
      using c na Cons.prems p by (simp_all add: g_def del: fun_upd_apply add: fun_upd_same)
    from Cons.IH [OF this] Cons.prems(4) obtain f' lo' hi' where
      "split_chain e (f a) a hi (with_next s g) = Some (lo', hi', with_next s f')"
      "chain f' lo' (rev (filter (\<lambda>a. hash_hkey (nd s a) AND e = 0) xs) @ a # ls)"
      "chain f' hi' (rev (filter (\<lambda>a. hash_hkey (nd s a) AND e \<noteq> 0) xs) @ hs)"
      "\<forall>b. b \<notin> set xs \<longrightarrow> f' b = g b"
      by auto
    with step False show ?thesis by (auto simp: g_def)
  qed
qed

text \<open>The two halves of a split bucket.\<close>

abbreviation (input) half :: "('k, 'v) hstate \<Rightarrow> nat \<Rightarrow> bool \<Rightarrow> addr list \<Rightarrow> addr list" where
  "half s k b xs \<equiv> rev (filter (\<lambda>a. bit (hash_hkey (nd s a)) k = b) xs)"

definition split_buckets :: "('k, 'v) hstate \<Rightarrow> nat \<Rightarrow> addr list list \<Rightarrow> addr list list" where
  "split_buckets s k xss = map (half s k False) xss @ map (half s k True) xss"

lemma mset_split_buckets: "mset (concat (split_buckets s k xss)) = mset (concat xss)"
proof (induction xss)
  case (Cons xs xss)
  have "mset (filter (\<lambda>a. bit (hash_hkey (nd s a)) k) xs)
      + mset (filter (\<lambda>a. \<not> bit (hash_hkey (nd s a)) k) xs) = mset xs"
    by (simp flip: multiset_partition)
  with Cons show ?case
    by (simp add: split_buckets_def add_ac del: mset_filter)
qed (simp add: split_buckets_def)

lemma set_nth_concat: "i < length xss \<Longrightarrow> set (xss ! i) \<subseteq> set (concat xss)"
  by (auto intro: nth_mem)

lemma concat_nth_disjoint:
  assumes "distinct (concat xss)" "i < length xss" "j < length xss" "i \<noteq> j"
  shows "set (xss ! i) \<inter> set (xss ! j) = {}"
  using assms
proof (induction xss arbitrary: i j)
  case (Cons xs xss)
  then have d: "set xs \<inter> set (concat xss) = {}"
    by auto
  show ?case
  proof (cases i)
    case 0
    with Cons.prems obtain j' where "j = Suc j'" "j' < length xss"
      by (cases j) auto
    with 0 d set_nth_concat [of j' xss] show ?thesis by auto
  next
    case (Suc i')
    note i = this
    show ?thesis
    proof (cases j)
      case 0
      with i Cons.prems d set_nth_concat [of i' xss] show ?thesis by auto
    next
      case (Suc j')
      with i Cons show ?thesis by auto
    qed
  qed
qed simp

lemma distinct_concat_nth: "distinct (concat xss) \<Longrightarrow> i < length xss \<Longrightarrow> distinct (xss ! i)"
  by (metis distinct_concat_iff nth_mem)

definition grow_inv ::
  "('k, 'v) hstate \<Rightarrow> nat \<Rightarrow> addr list list \<Rightarrow> nat \<Rightarrow> addr list \<times> ('k, 'v) hstate \<Rightarrow> bool" where
  "grow_inv s k xss c ts \<longleftrightarrow> (\<exists>t f. ts = (t, with_next s f) \<and> length t = 2 * 2 ^ k
     \<and> (\<forall>i<c. chain f (t ! i) (half s k False (xss ! i)) \<and> chain f (t ! (i + 2 ^ k)) (half s k True (xss ! i)))
     \<and> (\<forall>i. c \<le> i \<and> i < 2 ^ k \<longrightarrow> chain f (t ! i) (xss ! i)))"

lemma grow_chain_step:
  assumes d: "distinct (concat xss)" and len: "length xss = 2 ^ k"
    and c: "c < 2 ^ k" and I: "grow_inv s k xss c ts"
  shows "\<exists>ts'. grow_chain (2 ^ k) (2 ^ k) c ts = Some ts' \<and> grow_inv s k xss (Suc c) ts'"
proof -
  from I obtain t f where ts: "ts = (t, with_next s f)" and lt: "length t = 2 * 2 ^ k"
    and fin: "\<forall>i<c. chain f (t ! i) (half s k False (xss ! i)) \<and> chain f (t ! (i + 2 ^ k)) (half s k True (xss ! i))"
    and todo: "\<forall>i. c \<le> i \<and> i < 2 ^ k \<longrightarrow> chain f (t ! i) (xss ! i)"
    by (auto simp: grow_inv_def)
  have dc: "distinct (xss ! c @ [] @ [])"
    using distinct_concat_nth [OF d] c len by simp
  have tc: "chain f (t ! c) (xss ! c)" "chain f NULL []"
    using todo c by simp_all
  from split_chain_ok [OF tc(1) tc(2) tc(2) dc, of "2 ^ k" s]
  obtain f' lo hi where sp: "split_chain (2 ^ k) (t ! c) NULL NULL (with_next s f) = Some (lo, hi, with_next s f')"
    and lo: "chain f' lo (half s k False (xss ! c))" and hi: "chain f' hi (half s k True (xss ! c))"
    and frame: "\<forall>a. a \<notin> set (xss ! c) \<longrightarrow> f' a = f a"
    by (auto simp: and_exp_eq_0_iff_not_bit)
  let ?t = "t[c := lo, c + 2 ^ k := hi]"
  have eq: "grow_chain (2 ^ k) (2 ^ k) c ts = Some (?t, with_next s f')"
    using ts lt c sp by (simp add: grow_chain_def)
  have keep: "chain f' p xs \<longleftrightarrow> chain f p xs" if "i < 2 ^ k" "i \<noteq> c" "set xs \<subseteq> set (xss ! i)" for p xs i
  proof (rule chain_cong)
    fix a assume "a \<in> set xs"
    with that concat_nth_disjoint [OF d, of i c] c len have "a \<notin> set (xss ! c)"
      by auto
    with frame show "f' a = f a" by simp
  qed
  have "grow_inv s k xss (Suc c) (?t, with_next s f')"
    unfolding grow_inv_def
  proof (intro exI conjI allI impI; (elim conjE)?)
    fix i assume i: "i < Suc c"
    show "chain f' (?t ! i) (half s k False (xss ! i))"
      using i c lt lo fin keep [of i] by (cases "i = c") (auto simp: nth_list_update)
    show "chain f' (?t ! (i + 2 ^ k)) (half s k True (xss ! i))"
      using i c lt hi fin keep [of i] by (cases "i = c") (auto simp: nth_list_update)
  next
    fix i assume i: "Suc c \<le> i" "i < 2 ^ k"
    show "chain f' (?t ! i) (xss ! i)"
      using i c lt todo keep [of i] by (auto simp: nth_list_update)
  qed (use lt in auto)
  with eq show ?thesis by blast
qed

lemma nth_split_buckets:
  assumes "length xss = n" "i < 2 * n"
  shows "split_buckets s k xss ! i =
    (if i < n then half s k False (xss ! i) else half s k True (xss ! (i - n)))"
  using assms by (auto simp: split_buckets_def nth_append)

lemma grow_loop:
  assumes b: "buckets s k xss" and k: "k < 60" and lt: "length t = 2 * 2 ^ k"
    and old: "\<forall>i<2 ^ k. t ! i = hash_table (hs_hash s) ! i"
  shows "\<exists>t' f. foldM (grow_chain (2 ^ k) (2 ^ k)) [0..<2 ^ k] (t, s) = Some (t', with_next s f)
     \<and> chains_ok f t' (split_buckets s k xss)"
proof -
  from k have k': "k < 64" by simp
  note B = bucketsD [OF b k']
  have init: "grow_inv s k xss 0 (t, s)"
    unfolding grow_inv_def using lt old B(4)
    by (intro exI [of _ t] exI [of _ "nxt s"]) (simp add: with_next_self)
  have "\<exists>ts. foldM (grow_chain (2 ^ k) (2 ^ k)) [0..<2 ^ k] (t, s) = Some ts \<and> grow_inv s k xss (2 ^ k) ts"
    using init by (rule foldM_upt_rule) (rule grow_chain_step [OF B(5,2)])
  then obtain t' f where fold: "foldM (grow_chain (2 ^ k) (2 ^ k)) [0..<2 ^ k] (t, s) = Some (t', with_next s f)"
    and lt': "length t' = 2 * 2 ^ k"
    and ch: "\<forall>i<2 ^ k. chain f (t' ! i) (half s k False (xss ! i)) \<and> chain f (t' ! (i + 2 ^ k)) (half s k True (xss ! i))"
    by (auto simp: grow_inv_def)
  have "chain f (t' ! i) (split_buckets s k xss ! i)" if i: "i < 2 * 2 ^ k" for i
    unfolding nth_split_buckets [OF B(2) i]
    using ch [rule_format, of i] ch [rule_format, of "i - 2 ^ k"] i by auto
  with lt' B(2) have "chains_ok f t' (split_buckets s k xss)"
    by (simp add: chains_ok_def split_buckets_def)
  with fold show ?thesis by blast
qed

text \<open>The state after a successful growth.\<close>

abbreviation (input) grown :: "('k, 'v) hstate \<Rightarrow> nat \<Rightarrow> (addr \<Rightarrow> addr) \<Rightarrow> addr list \<Rightarrow> ('k, 'v) hstate" where
  "grown s k f t \<equiv> upd_hash (with_next s f) (\<lambda>h. h\<lparr>hash_table := t, hash_mask := 2 ^ Suc k - 1,
     hash_nchains := hash_nchains h * 2, hash_lowmark := hash_lowmark h * 2,
     hash_highmark := hash_highmark h * 2\<rparr>)"

lemma buckets_grown:
  assumes b: "buckets s k xss" and k: "k < 60" and ch: "chains_ok f t (split_buckets s k xss)"
  shows "buckets (grown s k f t) (Suc k) (split_buckets s k xss)"
proof -
  from k have k': "k < 64" by simp
  note B = bucketsD [OF b k']
  let ?xss = "split_buckets s k xss"
  have m: "mset (concat ?xss) = mset (concat xss)"
    by (rule mset_split_buckets)
  then have "distinct (concat ?xss)"
    using B(5) mset_eq_imp_distinct_iff by blast
  moreover have "length (concat ?xss) = length (concat xss)"
    using m by (rule mset_eq_length)
  moreover have "unat (hash_hkey (nd s a) AND (2 ^ Suc k - 1)) = i"
    if i: "i < 2 * 2 ^ k" and a: "a \<in> set (?xss ! i)" for i a
  proof (cases "i < 2 ^ k")
    case True
    with a have "a \<in> set (xss ! i)" "\<not> bit (hash_hkey (nd s a)) k"
      by (simp_all add: nth_split_buckets [OF B(2) i])
    with B(7) [OF True] show ?thesis
      by (simp only: index_double if_False add_0_right)
  next
    case False
    with a have "a \<in> set (xss ! (i - 2 ^ k))" "bit (hash_hkey (nd s a)) k"
      by (simp_all add: nth_split_buckets [OF B(2) i])
    with B(7) [of "i - 2 ^ k"] i False show ?thesis
      by (simp only: index_double if_True)
  qed
  moreover have "hash_nchains (hs_hash s) = 2 ^ k"
    using b by (simp add: buckets_def)
  ultimately show ?thesis
    using ch B by (simp add: buckets_def split_buckets_def mult.commute)
qed

lemma params_grown:
  assumes "params s k" "k < 60"
  shows "params (grown s k f t) (Suc k)"
proof -
  have "(2::u64) ^ (k - Suc 0) * 2 = 2 ^ k" if "1 \<le> k"
    using that by (cases k) simp_all
  with assms show ?thesis
    by (auto simp: params_def)
qed

lemma grow_assert:
  assumes "buckets s k xss" "k < 60"
  shows "2 * hash_nchains (hs_hash s) > hash_nchains (hs_hash s)"
proof -
  from assms have n: "hash_nchains (hs_hash s) = 2 ^ k"
    by (simp add: buckets_def)
  show ?thesis
    unfolding n power_Suc [symmetric] word_less_nat_alt using assms(2) by (simp only: unat_exp) simp
qed

lemma grow_table_fail:
  assumes rep: "hash_rep s k xss" and k: "k < 60"
  shows "grow_table None s = Some s"
proof -
  from rep have b: "buckets s k xss" and p: "params s k"
    by (simp_all add: hash_rep_def)
  show ?thesis
    unfolding grow_table_def Let_def
    by (simp only: grow_assert [OF b k] option.case bind.bind_lunit c_assert_True assert_verify_ok [OF b p])
qed

lemma grow_table_ok:
  assumes rep: "hash_rep s k xss" and k: "k < 60"
  shows "\<exists>f t. grow_table (Some junk) s = Some (grown s k f t)
     \<and> hash_rep (grown s k f t) (Suc k) (split_buckets s k xss)"
proof -
  from rep have b: "buckets s k xss" and p: "params s k" and kd: "keyed s (set (concat xss))"
    by (simp_all add: hash_rep_def)
  from k have k': "k < 64" by simp
  note B = bucketsD [OF b k']
  let ?t0 = "hash_table (hs_hash s) @ map junk [2 ^ k..<2 * 2 ^ k]"
  note a1 = grow_assert [OF b k]
  have a2: "push_bit 1 (hash_mask (hs_hash s)) OR 1 = 2 ^ Suc k - 1"
    by (simp only: B(6) grow_mask)
  have a3: "(2 ^ Suc k - 1) XOR hash_mask (hs_hash s) = 2 ^ k"
    using k by (simp only: B(6) exposed_bit)
  have a4: "(2 ^ Suc k - 1 :: u64) \<noteq> hash_mask (hs_hash s)"
    using a3 exp_nonzero [OF k'] by (metis xor_self_eq)
  have "length ?t0 = 2 * 2 ^ k" "\<forall>i<2 ^ k. ?t0 ! i = hash_table (hs_hash s) ! i"
    using B(1) by (simp_all add: nth_append)
  from grow_loop [OF b k this] obtain t f where
    fold: "foldM (grow_chain (2 ^ k) (2 ^ k)) [0..<2 ^ k] (?t0, s) = Some (t, with_next s f)"
    and ch: "chains_ok f t (split_buckets s k xss)"
    by blast
  have b': "buckets (grown s k f t) (Suc k) (split_buckets s k xss)"
    by (rule buckets_grown [OF b k ch])
  have p': "params (grown s k f t) (Suc k)"
    by (rule params_grown [OF p k])
  have "grow_table (Some junk) s = Some (grown s k f t)"
    unfolding grow_table_def Let_def
    by (simp only: a1 a2 a3 a4 B(3) fold option.case prod.case bind.bind_lunit c_assert_True
        assert_verify_ok [OF b' p'] simp_thms)
  moreover have "keyed (grown s k f t) (set (concat (split_buckets s k xss)))"
    using kd mset_eq_setD [OF mset_split_buckets [of s k xss]] by (simp add: keyed_def)
  ultimately show ?thesis
    using b' p' by (auto simp: hash_rep_def)
qed

subsection \<open>Shrinking\<close>

lemma find_tail_ok: "chain (nxt s) p xs \<Longrightarrow> find_tail s p = Some (if xs = [] then NULL else last xs)"
proof (induction xs arbitrary: p)
  case Nil
  then show ?case by (subst find_tail.simps) simp
next
  case (Cons a xs)
  then show ?case
    by (cases xs) (auto simp: find_tail.simps [of s a])
qed

definition join_buckets :: "nat \<Rightarrow> addr list list \<Rightarrow> addr list list" where
  "join_buckets n xss = map (\<lambda>i. xss ! i @ xss ! (i + n)) [0..<n]"

lemma mset_concat_map_append:
  "mset (concat (map (\<lambda>i. f i @ g i) is)) = mset (concat (map f is)) + mset (concat (map g is))"
  by (induction "is") (auto simp: add_ac)

lemma mset_join_buckets:
  assumes "length xss = 2 * n"
  shows "mset (concat (join_buckets n xss)) = mset (concat xss)"
proof -
  have "xss = map (\<lambda>i. xss ! i) [0..<n] @ map (\<lambda>i. xss ! (i + n)) [0..<n]"
    using assms by (intro nth_equalityI) (auto simp: nth_append)
  then have "mset (concat xss) = mset (concat (map (\<lambda>i. xss ! i) [0..<n]))
      + mset (concat (map (\<lambda>i. xss ! (i + n)) [0..<n]))"
    by (metis concat_append mset_append)
  then show ?thesis
    by (simp add: join_buckets_def mset_concat_map_append)
qed

definition shrink_inv ::
  "('k, 'v) hstate \<Rightarrow> nat \<Rightarrow> addr list list \<Rightarrow> nat \<Rightarrow> ('k, 'v) hstate \<Rightarrow> bool" where
  "shrink_inv s n xss c u \<longleftrightarrow> (\<exists>t f. u = upd_hash (with_next s f) (\<lambda>h. h\<lparr>hash_table := t\<rparr>)
     \<and> length t = 2 * n
     \<and> (\<forall>i<c. chain f (t ! i) (xss ! i @ xss ! (i + n)))
     \<and> (\<forall>i. c \<le> i \<and> i < n \<longrightarrow> chain f (t ! i) (xss ! i) \<and> chain f (t ! (i + n)) (xss ! (i + n))))"

lemma set_next_upd_with [simp]:
  "set_next (upd_hash (with_next s f) g) a p = upd_hash (with_next s (f(a := p))) g"
proof -
  have "(\<lambda>x. (hs_heap s x)\<lparr>hash_next := f x\<rparr>)(a := (hs_heap s a)\<lparr>hash_next := p\<rparr>)
      = (\<lambda>x. (hs_heap s x)\<lparr>hash_next := (f(a := p)) x\<rparr>)"
    by auto
  then show ?thesis
    by (simp add: set_next_def upd_node_def upd_hash_def with_next_def del: fun_upd_apply)
qed

lemma upd_hash_twice [simp]: "upd_hash (upd_hash s f) g = upd_hash s (\<lambda>h. g (f h))"
  by (simp add: upd_hash_def)

lemma shrink_chain_step:
  assumes d: "distinct (concat xss)" and len: "length xss = 2 * n"
    and c: "c < n" and I: "shrink_inv s n xss c u"
  shows "\<exists>u'. shrink_chain n c u = Some u' \<and> shrink_inv s n xss (Suc c) u'"
proof -
  from I obtain t f where u: "u = upd_hash (with_next s f) (\<lambda>h. h\<lparr>hash_table := t\<rparr>)"
    and lt: "length t = 2 * n"
    and fin: "\<forall>i<c. chain f (t ! i) (xss ! i @ xss ! (i + n))"
    and todo: "\<forall>i. c \<le> i \<and> i < n \<longrightarrow> chain f (t ! i) (xss ! i) \<and> chain f (t ! (i + n)) (xss ! (i + n))"
    by (auto simp: shrink_inv_def)
  have lo: "chain f (t ! c) (xss ! c)" and hi: "chain f (t ! (c + n)) (xss ! (c + n))"
    using todo c by simp_all
  have "set (xss ! c) \<inter> set (xss ! (c + n)) = {}"
    using concat_nth_disjoint [OF d, of c "c + n"] c len by simp
  then have dc: "distinct (xss ! c @ xss ! (c + n))"
    using distinct_concat_nth [OF d, of c] distinct_concat_nth [OF d, of "c + n"] c len by simp
  have tail: "find_tail u (t ! c) = Some (if xss ! c = [] then NULL else last (xss ! c))"
    using lo u by (intro find_tail_ok) simp
  show ?thesis
  proof (cases "xss ! c = []")
    case True
    with lo have z: "t ! c = 0" by simp
    let ?t = "if t ! (c + n) \<noteq> 0 then t[c := t ! (c + n)] else t"
    have "shrink_chain n c u = Some (upd_hash (with_next s f) (\<lambda>h. h\<lparr>hash_table := ?t\<rparr>))"
      using True z lt c tail u by (auto simp: shrink_chain_def)
    moreover have "shrink_inv s n xss (Suc c) (upd_hash (with_next s f) (\<lambda>h. h\<lparr>hash_table := ?t\<rparr>))"
      unfolding shrink_inv_def
      using lt c fin todo hi True z
      by (intro exI [of _ ?t] exI [of _ f]) (auto simp: nth_list_update less_Suc_eq)
    ultimately show ?thesis by blast
  next
    case False
    with lo have nz: "t ! c \<noteq> 0"
      by (cases "xss ! c") auto
    let ?l = "last (xss ! c)"
    define g where "g = f(?l := t ! (c + n))"
    have eq: "shrink_chain n c u = Some (upd_hash (with_next s g) (\<lambda>h. h\<lparr>hash_table := t\<rparr>))"
      using False nz lt c tail u by (simp add: shrink_chain_def g_def del: fun_upd_apply)
    have new: "chain g (t ! c) (xss ! c @ xss ! (c + n))"
      unfolding g_def by (rule chain_link [OF lo hi False dc])
    have keep: "chain g p (xss ! i) \<longleftrightarrow> chain f p (xss ! i)" if "i < 2 * n" "i \<noteq> c" for p i
    proof -
      have "?l \<notin> set (xss ! i)"
        using concat_nth_disjoint [OF d, of c i] that c len last_in_set [OF False] by auto
      then show ?thesis
        unfolding g_def by (rule chain_upd)
    qed
    have keep2: "chain g p (xss ! i @ xss ! (i + n)) \<longleftrightarrow> chain f p (xss ! i @ xss ! (i + n))" if "i < c" for p i
    proof -
      have "?l \<notin> set (xss ! i @ xss ! (i + n))"
        using concat_nth_disjoint [OF d, of c i] concat_nth_disjoint [OF d, of c "i + n"]
          that c len last_in_set [OF False] by auto
      then show ?thesis
        unfolding g_def by (rule chain_upd)
    qed
    have "shrink_inv s n xss (Suc c) (upd_hash (with_next s g) (\<lambda>h. h\<lparr>hash_table := t\<rparr>))"
      unfolding shrink_inv_def
      using lt c fin todo new keep keep2
      by (intro exI [of _ t] exI [of _ g]) (auto simp: less_Suc_eq)
    with eq show ?thesis by blast
  qed
qed

lemma mod_half: "n mod 2 ^ k = m \<Longrightarrow> n mod 2 ^ (k - 1) = m mod 2 ^ (k - 1)" for n m :: nat
  by (metis diff_le_self le_imp_power_dvd mod_mod_cancel)

lemma word_half_exp: "1 \<le> k \<Longrightarrow> k < 64 \<Longrightarrow> (2 ^ k :: u64) div 2 = 2 ^ (k - 1)"
proof -
  assume k: "1 \<le> k" "k < 64"
  then have "drop_bit 1 (2 ^ Suc (k - 1) :: u64) = 2 ^ (k - 1)"
    by (intro drop_bit_exp) simp
  with k show ?thesis
    by (simp add: drop_bit_eq_div)
qed

lemma mask_half: "1 \<le> k \<Longrightarrow> k < 64 \<Longrightarrow> drop_bit 1 (2 ^ k - 1 :: u64) = 2 ^ (k - 1) - 1"
  unfolding mask_eq_exp_minus_1 [symmetric]
  by (rule bit_word_eqI) (auto simp: bit_drop_bit_eq bit_mask_iff)

abbreviation (input) shrunk :: "('k, 'v) hstate \<Rightarrow> nat \<Rightarrow> (addr \<Rightarrow> addr) \<Rightarrow> addr list \<Rightarrow> ('k, 'v) hstate" where
  "shrunk s k f t \<equiv> upd_hash (with_next s f) (\<lambda>h. h\<lparr>hash_table := take (2 ^ (k - 1)) t,
     hash_mask := drop_bit 1 (hash_mask h), hash_nchains := 2 ^ (k - 1),
     hash_lowmark := hash_lowmark h div 2, hash_highmark := hash_highmark h div 2\<rparr>)"

lemma buckets_shrunk:
  assumes b: "buckets s k xss" and k: "1 \<le> k" "k < 64" and lt: "length t = 2 ^ k"
    and ch: "\<forall>i<2 ^ (k - 1). chain f (t ! i) (xss ! i @ xss ! (i + 2 ^ (k - 1)))"
  shows "buckets (shrunk s k f t) (k - 1) (join_buckets (2 ^ (k - 1)) xss)"
proof -
  note B = bucketsD [OF b k(2)]
  let ?n = "(2::nat) ^ (k - 1)"
  have dbl: "(2::nat) ^ k = 2 * ?n"
    using k by (metis Suc_diff_1 Suc_le_eq One_nat_def power_Suc)
  let ?xss = "join_buckets ?n xss"
  have m: "mset (concat ?xss) = mset (concat xss)"
    using B(2) dbl by (intro mset_join_buckets) simp
  have "distinct (concat ?xss)"
    using m B(5) mset_eq_imp_distinct_iff by blast
  moreover have "length (concat ?xss) = length (concat xss)"
    using m by (rule mset_eq_length)
  moreover have "unat (hash_hkey (nd s a) AND (2 ^ (k - 1) - 1)) = i"
    if i: "i < ?n" and a: "a \<in> set (?xss ! i)" for i a
  proof -
    from a i obtain j where "j = i \<or> j = i + ?n" "a \<in> set (xss ! j)"
      by (auto simp: join_buckets_def)
    moreover from this i dbl have "unat (hash_hkey (nd s a)) mod 2 ^ k = j"
      using B(7) [of j a] by (auto simp: unat_and_mask)
    ultimately show ?thesis
      using i mod_half [of "unat (hash_hkey (nd s a))" k j] by (auto simp: unat_and_mask)
  qed
  moreover have "chains_ok f (take ?n t) ?xss"
    using ch lt dbl by (simp add: chains_ok_def join_buckets_def)
  ultimately show ?thesis
    using B(6,8) mask_half [OF k] by (simp add: buckets_def join_buckets_def)
qed

lemma params_shrunk:
  assumes p: "params s k" and k: "7 \<le> k"
  shows "params (shrunk s k f t) (k - 1)"
proof -
  from p have k': "k \<le> 60" by (simp add: params_def)
  have "(2::u64) ^ Suc k div 2 = 2 ^ k" "(2::u64) ^ (k - 1) div 2 = 2 ^ (k - 2)"
    using word_half_exp [of "Suc k"] word_half_exp [of "k - 1"] k k'
    by (simp_all add: diff_diff_eq numeral_2_eq_2)
  moreover have "Suc (k - 1) = k" "k - 1 - 1 = k - 2"
    using k by simp_all
  ultimately show ?thesis
    using p k by (auto simp: params_def simp del: power_Suc)
qed

lemma shrink_table_ok:
  assumes rep: "hash_rep s k xss" and k: "7 \<le> k"
  shows "\<exists>f t. shrink_table s = Some (shrunk s k f t)
     \<and> hash_rep (shrunk s k f t) (k - 1) (join_buckets (2 ^ (k - 1)) xss)"
proof -
  from rep have b: "buckets s k xss" and p: "params s k" and kd: "keyed s (set (concat xss))"
    by (simp_all add: hash_rep_def)
  note k' = paramsD(1,3) [OF p]
  note B = bucketsD [OF b k'(2)]
  let ?n = "(2::nat) ^ (k - 1)"
  have dbl: "(2::nat) ^ k = 2 * ?n"
    using k' by (metis Suc_diff_1 Suc_le_eq One_nat_def power_Suc)
  have n: "hash_nchains (hs_hash s) div 2 = 2 ^ (k - 1)"
    using b word_half_exp [OF k'] by (simp add: buckets_def)
  have un: "unat (2 ^ (k - 1) :: u64) = ?n"
    using k'(2) by (intro unat_exp) simp
  have ge: "hash_nchains (hs_hash s) \<ge> 2"
    using B(3) dbl by (simp add: word_le_nat_alt)
  have "shrink_inv s ?n xss 0 s"
    unfolding shrink_inv_def using B(1,4) dbl
    by (intro exI [of _ "hash_table (hs_hash s)"] exI [of _ "nxt s"])
       (simp add: with_next_self upd_hash_def)
  then have "\<exists>u. foldM (shrink_chain ?n) [0..<?n] s = Some u \<and> shrink_inv s ?n xss ?n u"
    by (rule foldM_upt_rule) (rule shrink_chain_step [OF B(5)], simp_all add: B(2) dbl)
  then obtain t f where
    fold: "foldM (shrink_chain ?n) [0..<?n] s = Some (upd_hash (with_next s f) (\<lambda>h. h\<lparr>hash_table := t\<rparr>))"
    and lt: "length t = 2 ^ k"
    and ch: "\<forall>i<?n. chain f (t ! i) (xss ! i @ xss ! (i + ?n))"
    by (auto simp: shrink_inv_def dbl)
  have b': "buckets (shrunk s k f t) (k - 1) (join_buckets ?n xss)"
    by (rule buckets_shrunk [OF b k' lt ch])
  have p': "params (shrunk s k f t) (k - 1)"
    by (rule params_shrunk [OF p k])
  have eq: "upd_hash (upd_hash (with_next s f) (\<lambda>h. h\<lparr>hash_table := t\<rparr>)) (\<lambda>h. h\<lparr>hash_table := take ?n (hash_table h),
     hash_mask := drop_bit 1 (hash_mask h), hash_nchains := 2 ^ (k - 1),
     hash_lowmark := hash_lowmark h div 2, hash_highmark := hash_highmark h div 2\<rparr>) = shrunk s k f t"
    by (simp add: upd_hash_def)
  have "shrink_table s = Some (shrunk s k f t)"
    unfolding shrink_table_def Let_def
    by (simp only: ge n un fold eq bind.bind_lunit c_assert_True assert_verify_ok [OF b' p'])
  moreover have "set (concat (join_buckets ?n xss)) = set (concat xss)"
    using B(2) dbl by (intro mset_eq_setD mset_join_buckets) simp
  then have "keyed (shrunk s k f t) (set (concat (join_buckets ?n xss)))"
    using kd by (simp only: keyed_def upd_hash_simps with_next_simps hash_t.simps hash_t.update_convs) simp
  ultimately show ?thesis
    using b' p' by (auto simp: hash_rep_def)
qed

subsection \<open>Insertion\<close>

text \<open>The last part of \<^verbatim>\<open>hash_insert\<close>: linking the node at the head of its chain.\<close>

abbreviation (input) linked :: "('k, 'v) hstate \<Rightarrow> addr \<Rightarrow> 'k \<Rightarrow> nat \<Rightarrow> ('k, 'v) hstate" where
  "linked s node key i \<equiv> upd_hash
     (upd_node s node (\<lambda>n. n\<lparr>hash_key := key, hash_hkey := hash_function (hs_hash s) key,
        hash_next := hash_table (hs_hash s) ! i\<rparr>))
     (\<lambda>h. h\<lparr>hash_table := (hash_table h)[i := node], hash_nodecount := hash_nodecount h + 1\<rparr>)"

lemma concat_update:
  assumes "i < length xss"
  shows "mset (concat (xss[i := ys])) + mset (xss ! i) = mset (concat xss) + mset ys"
proof -
  have "concat xss = concat (take i xss) @ xss ! i @ concat (drop (Suc i) xss)"
    using assms by (metis concat.simps(2) concat_append id_take_nth_drop)
  moreover have "concat (xss[i := ys]) = concat (take i xss) @ ys @ concat (drop (Suc i) xss)"
    using assms by (simp add: upd_conv_take_nth_drop)
  ultimately show ?thesis by simp
qed

lemma count_less_max: "x < (m :: u64) \<Longrightarrow> unat (x + 1) = Suc (unat x)"
proof -
  assume "x < m"
  then have "unat x + 1 < 2 ^ 64"
    using unsigned_less [of m, where ?'a = nat] by (simp add: word_less_nat_alt)
  then show ?thesis
    by (simp add: unat_word_ariths)
qed

lemma linked_rep:
  assumes rep: "hash_rep s k xss"
    and fresh: "node \<notin> set (concat xss)" and nz: "node \<noteq> NULL"
    and new: "\<forall>a\<in>set (concat xss). hash_key (nd s a) \<noteq> key"
    and cnt: "hash_nodecount (hs_hash s) < hash_maxcount (hs_hash s)"
    and i: "i = unat (hash_function (hs_hash s) key AND (2 ^ k - 1))"
  shows "hash_rep (linked s node key i) k (xss[i := node # xss ! i])"
proof -
  from rep have b: "buckets s k xss" and p: "params s k" and kd: "keyed s (set (concat xss))"
    by (simp_all add: hash_rep_def)
  note B = bucketsD [OF b paramsD(3) [OF p]]
  let ?s = "linked s node key i" and ?xss = "xss[i := node # xss ! i]"
  have ik: "i < 2 ^ k" unfolding i by (rule index_less)
  have m: "mset (concat ?xss) = add_mset node (mset (concat xss))"
    using concat_update [of i xss "node # xss ! i"] ik B(2) by simp
  have st: "set (concat ?xss) = insert node (set (concat xss))"
    using m by (metis set_mset_add_mset_insert set_mset_mset)
  have "distinct (concat ?xss)"
    using m fresh B(5) by (metis distinct.simps(2) mset.simps(2) mset_eq_imp_distinct_iff)
  moreover have "length (concat ?xss) = Suc (length (concat xss))"
    using m by (metis length_Cons mset.simps(2) mset_eq_length)
  moreover have "chains_ok (nxt ?s) (hash_table (hs_hash ?s)) ?xss"
  proof -
    have old: "chain (nxt ?s) p (xss ! j) \<longleftrightarrow> chain (nxt s) p (xss ! j)" if "j < 2 ^ k" for p j
      using fresh set_nth_concat [of j xss] that B(2) by (intro chain_cong) auto
    show ?thesis
      using B(1,2,4) ik nz old by (auto simp: chains_ok_def nth_list_update)
  qed
  moreover have "unat (hash_hkey (nd ?s a) AND (2 ^ k - 1)) = j"
    if j: "j < 2 ^ k" and a: "a \<in> set (?xss ! j)" for j a
  proof (cases "a = node")
    case True
    then have "j = i"
      using a j fresh set_nth_concat [of j xss] B(2) ik by (auto simp: nth_list_update split: if_splits)
    with True i show ?thesis by simp
  next
    case False
    then have "a \<in> set (xss ! j)"
      using a j B(2) ik by (auto simp: nth_list_update split: if_splits)
    with False j show ?thesis
      using B(7) by simp
  qed
  ultimately have "buckets ?s k ?xss"
    using b B count_less_max [OF cnt] by (simp add: buckets_def)
  moreover have "keyed ?s (set (concat ?xss))"
    unfolding st using kd new fresh by (auto simp: keyed_def inj_on_def)
  moreover have "params ?s k"
    using p by (simp add: params_def)
  ultimately show ?thesis
    by (simp add: hash_rep_def)
qed

lemma hash_wfI: "hash_rep s k xss \<Longrightarrow> hash_wf s (set (concat xss))"
  unfolding hash_wf_def by blast

lemma set_insert_bucket:
  assumes "i < length xss"
  shows "set (concat (xss[i := a # xss ! i])) = insert a (set (concat xss))"
proof -
  have "mset (concat (xss[i := a # xss ! i])) = add_mset a (mset (concat xss))"
    using concat_update [OF assms, of "a # xss ! i"] by simp
  then show ?thesis
    by (metis set_mset_add_mset_insert set_mset_mset)
qed

lemma hash_get_linked:
  assumes rep: "hash_rep s k xss" and rep': "hash_rep (linked s node key i) k (xss[i := node # xss ! i])"
    and fresh: "node \<notin> set (concat xss)" and i: "i < 2 ^ k"
    and new: "\<forall>a\<in>set (concat xss). hash_key (nd s a) \<noteq> key"
  shows "hash_get (linked s node key i) = (hash_get s)(key \<mapsto> hash_data (nd s node))"
proof (rule hash_get_eqI [OF rep'])
  fix key' d
  have "length xss = 2 ^ k"
    using rep by (simp add: hash_rep_def buckets_def)
  with i have st: "set (concat (xss[i := node # xss ! i])) = insert node (set (concat xss))"
    by (intro set_insert_bucket) simp
  have none: "hash_get s key = None"
    using hash_get_iff [OF rep, of key] new by (cases "hash_get s key") auto
  show "((hash_get s)(key \<mapsto> hash_data (nd s node))) key' = Some d \<longleftrightarrow>
    (\<exists>a\<in>set (concat (xss[i := node # xss ! i])). hash_key (nd (linked s node key i) a) = key'
        \<and> hash_data (nd (linked s node key i) a) = d)"
    unfolding st using hash_get_iff [OF rep, of key'] fresh none new
    by (cases "key' = key") (auto simp del: set_concat, metis+)
qed

text \<open>A dynamic table that is at its high mark is small enough to double.\<close>

lemma grow_bound:
  assumes rep: "hash_rep s k xss" and dyn: "hash_dynamic (hs_hash s)"
    and full: "hash_nodecount (hs_hash s) \<ge> hash_highmark (hs_hash s)"
    and cnt: "unat (hash_nodecount (hs_hash s)) < 2 ^ 60"
  shows "k < 60"
proof -
  from rep dyn have hi: "hash_highmark (hs_hash s) = 2 ^ Suc k" and k: "k \<le> 60"
    by (auto simp: hash_rep_def params_def)
  have "(2::nat) ^ Suc k \<le> unat (hash_nodecount (hs_hash s))"
    using full k unfolding hi word_le_nat_alt by (simp only: unat_exp)
  then have "(2::nat) ^ Suc k < 2 ^ 60"
    using cnt by (rule le_less_trans)
  then have "Suc k < 60"
    by (rule power_less_imp_less_exp [rotated]) simp
  then show ?thesis by simp
qed

text \<open>Growing changes the buckets only: nodes, their contents and the counters stay.\<close>

definition same_content :: "('k, 'v) hstate \<Rightarrow> ('k, 'v) hstate \<Rightarrow> bool" where
  "same_content s t \<longleftrightarrow> (\<forall>a. hash_key (nd t a) = hash_key (nd s a) \<and> hash_data (nd t a) = hash_data (nd s a)
       \<and> hash_hkey (nd t a) = hash_hkey (nd s a))
     \<and> hash_nodecount (hs_hash t) = hash_nodecount (hs_hash s)
     \<and> hash_maxcount (hs_hash t) = hash_maxcount (hs_hash s)
     \<and> hash_function (hs_hash t) = hash_function (hs_hash s)
     \<and> hash_dynamic (hs_hash t) = hash_dynamic (hs_hash s)
     \<and> hash_freenode (hs_hash t) = hash_freenode (hs_hash s)
     \<and> hash_val_t_bit t = hash_val_t_bit s \<and> hs_freed t = hs_freed s"

lemma same_content_refl [simp]: "same_content s s"
  by (simp add: same_content_def)

lemma maybe_grow:
  assumes rep: "hash_rep s k xss" and cnt: "unat (hash_nodecount (hs_hash s)) < 2 ^ 60"
  shows "\<exists>t k' yss. (if hash_dynamic (hs_hash s) \<and> hash_nodecount (hs_hash s) \<ge> hash_highmark (hs_hash s)
       then grow_table r s else Some s) = Some t
     \<and> hash_rep t k' yss \<and> set (concat yss) = set (concat xss) \<and> same_content s t"
proof (cases "hash_dynamic (hs_hash s) \<and> hash_nodecount (hs_hash s) \<ge> hash_highmark (hs_hash s)")
  case True
  with grow_bound [OF rep _ _ cnt] have k: "k < 60" by blast
  show ?thesis
  proof (cases r)
    case None
    with True grow_table_fail [OF rep k] rep show ?thesis by auto
  next
    case (Some junk)
    from grow_table_ok [OF rep k, of junk] obtain f t where
      g: "grow_table (Some junk) s = Some (grown s k f t)"
      and r': "hash_rep (grown s k f t) (Suc k) (split_buckets s k xss)" by blast
    have "same_content s (grown s k f t)"
      by (simp add: same_content_def)
    with True Some g r' mset_eq_setD [OF mset_split_buckets [of s k xss]] show ?thesis
      by (metis (mono_tags))
  qed
next
  case False
  with rep show ?thesis by auto
qed

lemma hash_get_same:
  assumes "hash_rep s k xss" "hash_rep t k' yss" "set (concat yss) = set (concat xss)" "same_content s t"
  shows "hash_get t = hash_get s"
  using hash_get_iff [OF assms(1)] assms(3,4)
  by (intro hash_get_eqI [OF assms(2)]) (simp add: same_content_def)

lemma hash_insert_ok:
  assumes wf: "hash_wf s A" and fresh: "node \<notin> A" "node \<noteq> NULL" "hash_next (nd s node) = NULL"
    and new: "hash_get s key = None"
    and cnt: "hash_nodecount (hs_hash s) < hash_maxcount (hs_hash s)"
      "unat (hash_nodecount (hs_hash s)) < 2 ^ 60"
  shows "\<exists>s'. hash_insert r s node key = Some s' \<and> hash_wf s' (insert node A)
     \<and> hash_get s' = (hash_get s)(key \<mapsto> hash_data (nd s node))
     \<and> hash_nodecount (hs_hash s') = hash_nodecount (hs_hash s) + 1
     \<and> hash_key (nd s' node) = key \<and> hash_data (nd s' node) = hash_data (nd s node)
     \<and> hash_maxcount (hs_hash s') = hash_maxcount (hs_hash s)
     \<and> hash_function (hs_hash s') = hash_function (hs_hash s)
     \<and> hash_freenode (hs_hash s') = hash_freenode (hs_hash s) \<and> hs_freed s' = hs_freed s"
proof -
  from wf obtain k xss where rep: "hash_rep s k xss" and A: "A = set (concat xss)"
    by (auto simp: hash_wf_def)
  have new': "\<forall>a\<in>set (concat xss). hash_key (nd s a) \<noteq> key"
    using hash_get_iff [OF rep, of key] new by (metis option.distinct(1))
  then have look: "hash_lookup s key = Some NULL"
    using hash_lookup_rep [OF rep, of key] by blast
  have bit: "hash_val_t_bit s \<noteq> 0"
    using rep by (simp add: hash_rep_def params_def)
  from maybe_grow [OF rep cnt(2), of r] obtain t k' yss where
    g: "(if hash_dynamic (hs_hash s) \<and> hash_nodecount (hs_hash s) \<ge> hash_highmark (hs_hash s)
       then grow_table r s else Some s) = Some t"
    and rep': "hash_rep t k' yss" and st: "set (concat yss) = set (concat xss)"
    and same: "same_content s t" by blast
  let ?i = "unat (hash_function (hs_hash t) key AND (2 ^ k' - 1))"
  let ?t = "linked t node key ?i" and ?yss = "yss[?i := node # yss ! ?i]"
  have bt: "buckets t k' yss" and pt: "params t k'"
    using rep' by (simp_all add: hash_rep_def)
  note B = bucketsD [OF bt paramsD(3) [OF pt]]
  have i: "?i < 2 ^ k'" by (rule index_less)
  have rep2: "hash_rep ?t k' ?yss"
    using fresh new' cnt same
    by (intro linked_rep [OF rep']) (simp_all add: same_content_def A st del: set_concat)
  have set2: "set (concat ?yss) = insert node A"
    using set_insert_bucket [of ?i yss node] i B(2) by (simp only: A st)
  have eq: "upd_hash (upd_node t node (\<lambda>n. n\<lparr>hash_key := key, hash_hkey := hash_function (hs_hash t) key,
        hash_next := hash_table (hs_hash t) ! ?i\<rparr>))
      (\<lambda>h. h\<lparr>hash_table := (hash_table (hs_hash t))[?i := node], hash_nodecount := hash_nodecount h + 1\<rparr>) = ?t"
    by (simp add: upd_hash_def)
  have ver: "assert_verify ?t = Some ()"
    using rep2 assert_verify_ok [of ?t k' ?yss] by (simp add: hash_rep_def)
  have ins: "hash_insert r s node key = Some ?t"
    unfolding hash_insert_def Let_def
    using i B(1) bit fresh(3) cnt(1)
    by (simp add: look g B(6) eq ver)
  have get2: "hash_get ?t = (hash_get t)(key \<mapsto> hash_data (nd t node))"
    using rep2 fresh new' i same
    by (intro hash_get_linked [OF rep']) (simp_all add: same_content_def A st del: set_concat)
  have wf2: "hash_wf ?t (insert node A)"
    using hash_wfI [OF rep2] unfolding set2 .
  have get3: "hash_get ?t = (hash_get s)(key \<mapsto> hash_data (nd s node))"
    using get2 hash_get_same [OF rep rep' st same] same by (simp only: same_content_def)
  have fr: "hash_nodecount (hs_hash ?t) = hash_nodecount (hs_hash s) + 1"
    "hash_key (nd ?t node) = key" "hash_data (nd ?t node) = hash_data (nd s node)"
    "hash_maxcount (hs_hash ?t) = hash_maxcount (hs_hash s)"
    "hash_function (hs_hash ?t) = hash_function (hs_hash s)"
    "hash_freenode (hs_hash ?t) = hash_freenode (hs_hash s)" "hs_freed ?t = hs_freed s"
    using same by (simp_all add: same_content_def upd_hash_def upd_node_def)
  show ?thesis
    by (intro exI [of _ ?t] conjI) (rule ins wf2 get3 fr)+
qed

subsection \<open>Deletion\<close>

lemma find_pred_ok:
  "chain (nxt s) p (us @ node # vs) \<Longrightarrow> distinct (us @ node # vs) \<Longrightarrow> us \<noteq> [] \<Longrightarrow>
     find_pred s node p = Some (last us)"
proof (induction us arbitrary: p)
  case (Cons a us)
  show ?case
  proof (cases us)
    case Nil
    with Cons.prems show ?thesis
      by (subst find_pred.simps) simp
  next
    case (Cons b us')
    with Cons.prems have "hash_next (nd s a) \<noteq> node"
      by auto
    with Cons.prems Cons.IH Cons show ?thesis
      by (subst find_pred.simps) simp
  qed
qed simp

text \<open>The table and heap once a node of bucket \<open>us @ node # vs\<close> has been bypassed.\<close>

definition bypassed :: "('k, 'v) hstate \<Rightarrow> addr \<Rightarrow> nat \<Rightarrow> addr list \<Rightarrow> ('k, 'v) hstate" where
  "bypassed s node i us = upd_hash (if us = [] then s else set_next s (last us) (hash_next (nd s node)))
     (\<lambda>h. h\<lparr>hash_table := (if us = [] then (hash_table h)[i := hash_next (nd s node)] else hash_table h),
        hash_nodecount := hash_nodecount h - 1\<rparr>)"

lemma mset_concat_bypass:
  assumes "i < length xss" "xss ! i = us @ node # vs"
  shows "add_mset node (mset (concat (xss[i := us @ vs]))) = mset (concat xss)"
  using concat_update [OF assms(1), of "us @ vs"] assms(2) by simp

lemma bypassed_heap [simp]:
  "hash_key (nd (bypassed s node i us) a) = hash_key (nd s a)"
  "hash_data (nd (bypassed s node i us) a) = hash_data (nd s a)"
  "hash_hkey (nd (bypassed s node i us) a) = hash_hkey (nd s a)"
  by (simp_all add: bypassed_def set_next_alt)

lemma unat_pred: "unat (w :: u64) = Suc n \<Longrightarrow> unat (w - 1) = n"
  by (cases "w = 0") (auto simp: unat_minus_one)

lemma buckets_bypassed:
  assumes b: "buckets s k xss" and k: "k < 64" and i: "i < 2 ^ k" and x: "xss ! i = us @ node # vs"
  shows "buckets (bypassed s node i us) k (xss[i := us @ vs])"
proof -
  note B = bucketsD [OF b k]
  let ?s = "bypassed s node i us" and ?xss = "xss[i := us @ vs]"
  have m: "add_mset node (mset (concat ?xss)) = mset (concat xss)"
    using mset_concat_bypass [of i xss us node vs] x i B(2) by simp
  have d: "distinct (us @ node # vs)"
    using distinct_concat_nth [OF B(5), of i] x i B(2) by simp
  have ci: "chain (nxt s) (hash_table (hs_hash s) ! i) (us @ node # vs)"
    using B(4) [OF i] x by simp
  have other: "last us \<notin> set (xss ! j)" if "us \<noteq> []" "j < 2 ^ k" "j \<noteq> i" for j
  proof -
    have "last us \<in> set (xss ! i)"
      using that(1) x by simp
    with concat_nth_disjoint [OF B(5), of i j] that i B(2) show ?thesis by auto
  qed
  have "chains_ok (nxt ?s) (hash_table (hs_hash ?s)) ?xss"
  proof (cases "us = []")
    case True
    then show ?thesis
      using B(1,2,4) i ci by (auto simp: chains_ok_def bypassed_def nth_list_update)
  next
    case False
    have n: "nxt ?s = (nxt s)(last us := hash_next (nd s node))"
      using False by (auto simp: bypassed_def set_next_alt)
    have "chain ((nxt s)(last us := hash_next (nd s node))) (hash_table (hs_hash s) ! i) (us @ vs)"
      using ci d False by (rule chain_unlink)
    then show ?thesis
      unfolding n chains_ok_def using B(1,2,4) False other i
      by (auto simp: bypassed_def set_next_alt nth_list_update chain_upd simp del: fun_upd_apply)
  qed
  moreover have "distinct (concat ?xss)"
    using m B(5) by (metis distinct.simps(2) mset.simps(2) mset_eq_imp_distinct_iff)
  moreover have "unat (hash_hkey (nd ?s a) AND (2 ^ k - 1)) = j"
    if j: "j < 2 ^ k" and a: "a \<in> set (?xss ! j)" for j a
    using B(7) [OF j, of a] a j x i B(2) by (auto simp: nth_list_update split: if_splits)
  moreover have "length (concat xss) = Suc (length (concat ?xss))"
    using m by (metis length_Cons mset.simps(2) mset_eq_length)
  then have "unat (hash_nodecount (hs_hash s) - 1) = length (concat ?xss)"
    using B(8) by (intro unat_pred) simp
  ultimately show ?thesis
    using b by (simp add: buckets_def bypassed_def set_next_alt)
qed

lemma chains_ok_upd:
  assumes "chains_ok nx t xss" "a \<notin> set (concat xss)"
  shows "chains_ok (nx(a := p)) t xss"
proof -
  have "chain (nx(a := p)) q (xss ! j) = chain nx q (xss ! j)" if "j < length xss" for q j
    using assms(2) set_nth_concat [OF that] by (intro chain_upd) blast
  with assms(1) show ?thesis
    by (simp add: chains_ok_def del: fun_upd_apply)
qed

lemma keyed_subset:
  assumes "keyed s A" "B \<subseteq> A"
    and "\<And>a. hash_key (nd t a) = hash_key (nd s a)" "\<And>a. hash_hkey (nd t a) = hash_hkey (nd s a)"
    and "hash_function (hs_hash t) = hash_function (hs_hash s)"
  shows "keyed t B"
  using assms unfolding keyed_def by (simp only:) (blast intro: inj_on_subset)

lemma unlink_node_ok:
  assumes rep: "hash_rep s k xss" and a: "node \<in> set (concat xss)"
  shows "\<exists>s' i us vs. i < 2 ^ k \<and> xss ! i = us @ node # vs \<and> unlink_node s node = Some s'
     \<and> hash_rep s' k (xss[i := us @ vs]) \<and> set (concat (xss[i := us @ vs])) = set (concat xss) - {node}
     \<and> same_content (upd_hash s (\<lambda>h. h\<lparr>hash_nodecount := hash_nodecount h - 1\<rparr>)) s'
     \<and> hash_next (nd s' node) = NULL"
proof -
  from rep have b: "buckets s k xss" and p: "params s k" and kd: "keyed s (set (concat xss))"
    by (simp_all add: hash_rep_def)
  note k = paramsD(3) [OF p]
  note B = bucketsD [OF b k]
  let ?i = "unat (hash_hkey (nd s node) AND (2 ^ k - 1))"
  have i: "?i < 2 ^ k" by (rule index_less)
  from in_own_bucket [OF b k a] obtain us vs where x: "xss ! ?i = us @ node # vs"
    by (metis split_list)
  let ?u = "bypassed s node ?i us" and ?yss = "xss[?i := us @ vs]"
  have bu: "buckets ?u k ?yss"
    by (rule buckets_bypassed [OF b k i x])
  have pu: "params ?u k"
    using p by (simp add: params_def bypassed_def set_next_alt)
  have d: "distinct (us @ node # vs)"
    using distinct_concat_nth [OF B(5), of ?i] x i B(2) by simp
  have ci: "chain (nxt s) (hash_table (hs_hash s) ! ?i) (us @ node # vs)"
    using B(4) [OF i] x by simp
  have m: "add_mset node (mset (concat ?yss)) = mset (concat xss)"
    using mset_concat_bypass [of ?i xss us node vs] x i B(2) by simp
  have "distinct (node # concat ?yss)"
    using m B(5) by (metis mset.simps(2) mset_eq_imp_distinct_iff)
  moreover have "set (node # concat ?yss) = set (concat xss)"
    using m by (metis mset.simps(2) mset_eq_setD)
  ultimately have nin: "node \<notin> set (concat ?yss)" and st: "set (concat ?yss) = set (concat xss) - {node}"
    by (auto simp del: set_concat)
  have eq: "unlink_node s node = Some (set_next ?u node NULL)"
  proof (cases "us = []")
    case True
    then have "hash_table (hs_hash s) ! ?i = node"
      using ci by simp
    moreover have "upd_hash (upd_hash s (\<lambda>h. h\<lparr>hash_table := (hash_table (hs_hash s))[?i := hash_next (nd s node)]\<rparr>))
        (\<lambda>h. h\<lparr>hash_nodecount := hash_nodecount h - 1\<rparr>) = ?u"
      using True by (simp add: bypassed_def upd_hash_def)
    ultimately show ?thesis
      unfolding unlink_node_def Let_def using i B(1) assert_verify_ok [OF bu pu] by (simp add: B(6) del: upd_hash_twice)
  next
    case False
    then have "hash_table (hs_hash s) ! ?i \<noteq> node"
      using ci d by (cases us) auto
    moreover have "find_pred s node (hash_table (hs_hash s) ! ?i) = Some (last us)"
      using ci d False by (rule find_pred_ok)
    moreover have "upd_hash (set_next s (last us) (hash_next (nd s node)))
        (\<lambda>h. h\<lparr>hash_nodecount := hash_nodecount h - 1\<rparr>) = ?u"
      using False by (simp add: bypassed_def upd_hash_def)
    ultimately show ?thesis
      unfolding unlink_node_def Let_def using i B(1) assert_verify_ok [OF bu pu] by (simp add: B(6))
  qed
  have n: "nxt (set_next ?u node NULL) = (nxt ?u)(node := 0)"
    by (auto simp: set_next_alt)
  have "chains_ok (nxt ?u) (hash_table (hs_hash ?u)) ?yss"
    using bu by (simp add: buckets_def)
  then have "chains_ok (nxt (set_next ?u node NULL)) (hash_table (hs_hash ?u)) ?yss"
    unfolding n by (rule chains_ok_upd [OF _ nin])
  then have "buckets (set_next ?u node NULL) k ?yss"
    using bu unfolding buckets_def n set_next_simps by (elim conjE) (intro conjI; assumption)
  moreover have "params (set_next ?u node NULL) k"
    using pu by (simp add: params_def set_next_alt)
  moreover have "keyed (set_next ?u node NULL) (set (concat xss) - {node})"
    by (rule keyed_subset [OF kd]) (auto simp: set_next_alt bypassed_def simp del: set_concat)
  ultimately have "hash_rep (set_next ?u node NULL) k ?yss"
    by (simp only: hash_rep_def st simp_thms)
  moreover have "same_content (upd_hash s (\<lambda>h. h\<lparr>hash_nodecount := hash_nodecount h - 1\<rparr>)) (set_next ?u node NULL)"
    by (simp add: same_content_def set_next_alt bypassed_def)
  moreover have "hash_next (nd (set_next ?u node NULL) node) = NULL"
    by (simp add: set_next_alt)
  ultimately show ?thesis
    using eq st i x by blast
qed

lemma hash_scan_delete_ok:
  assumes rep: "hash_rep s k xss" and a: "node \<in> set (concat xss)"
  shows "hash_scan_delete s node = unlink_node s node"
  using hash_lookup_node [OF assms] rep by (simp add: hash_scan_delete_def hash_rep_def params_def)

lemma INIT_SIZE_64: "INIT_SIZE = 64"
  by (simp add: INIT_SIZE_def INIT_BITS_def push_bit_eq_mult)

text \<open>A table that is shrunk has at least 128 chains, so shrinking stops at the initial size.\<close>

lemma shrink_bound:
  assumes rep: "hash_rep s k xss" and dyn: "hash_dynamic (hs_hash s)"
    and low: "hash_nodecount (hs_hash s) \<le> hash_lowmark (hs_hash s)"
    and many: "hash_nodecount (hs_hash s) > INIT_SIZE"
  shows "7 \<le> k"
proof -
  from rep dyn have lo: "hash_lowmark (hs_hash s) = 2 ^ (k - 1)" and k: "k \<le> 60"
    by (auto simp: hash_rep_def params_def)
  have "INIT_SIZE < (2 :: u64) ^ (k - 1)"
    using many low unfolding lo by (rule less_le_trans)
  moreover have "unat (2 ^ (k - 1) :: u64) = 2 ^ (k - 1)"
    using k by (intro unat_exp) simp
  ultimately have "(2::nat) ^ 6 < 2 ^ (k - 1)"
    by (simp add: INIT_SIZE_64 word_less_nat_alt)
  then have "6 < k - 1"
    by (rule power_less_imp_less_exp [rotated]) simp
  then show ?thesis by simp
qed

lemma maybe_shrink:
  assumes rep: "hash_rep s k xss"
  shows "\<exists>t k' yss. (if hash_dynamic (hs_hash s) \<and> hash_nodecount (hs_hash s) \<le> hash_lowmark (hs_hash s)
              \<and> hash_nodecount (hs_hash s) > INIT_SIZE then shrink_table s else Some s) = Some t
     \<and> hash_rep t k' yss \<and> set (concat yss) = set (concat xss) \<and> same_content s t"
proof (cases "hash_dynamic (hs_hash s) \<and> hash_nodecount (hs_hash s) \<le> hash_lowmark (hs_hash s)
              \<and> hash_nodecount (hs_hash s) > INIT_SIZE")
  case True
  with shrink_bound [OF rep] have k: "7 \<le> k" by blast
  from shrink_table_ok [OF rep k] obtain f t where
    g: "shrink_table s = Some (shrunk s k f t)"
    and r': "hash_rep (shrunk s k f t) (k - 1) (join_buckets (2 ^ (k - 1)) xss)" by blast
  have "same_content s (shrunk s k f t)"
    by (simp add: same_content_def)
  moreover have "length xss = 2 * 2 ^ (k - 1)"
    using rep k by (cases k) (simp_all add: hash_rep_def buckets_def)
  then have "set (concat (join_buckets (2 ^ (k - 1)) xss)) = set (concat xss)"
    by (intro mset_eq_setD mset_join_buckets)
  moreover have "(if hash_dynamic (hs_hash s) \<and> hash_nodecount (hs_hash s) \<le> hash_lowmark (hs_hash s)
              \<and> hash_nodecount (hs_hash s) > INIT_SIZE then shrink_table s else Some s) = Some (shrunk s k f t)"
    using True g by (simp only: if_True simp_thms)
  ultimately show ?thesis
    using r' by blast
next
  case False
  with rep show ?thesis by auto
qed

lemma hash_get_removed:
  assumes rep: "hash_rep s k xss" and rep': "hash_rep t k' yss" and a: "node \<in> set (concat xss)"
    and st: "set (concat yss) = set (concat xss) - {node}"
    and same: "\<And>a. hash_key (nd t a) = hash_key (nd s a)" "\<And>a. hash_data (nd t a) = hash_data (nd s a)"
  shows "hash_get t = (hash_get s)(hash_key (nd s node) := None)"
proof (rule hash_get_eqI [OF rep'])
  fix key d
  have inj: "inj_on (\<lambda>a. hash_key (nd s a)) (set (concat xss))"
    using rep by (simp add: hash_rep_def keyed_def)
  show "((hash_get s)(hash_key (nd s node) := None)) key = Some d \<longleftrightarrow>
    (\<exists>a\<in>set (concat yss). hash_key (nd t a) = key \<and> hash_data (nd t a) = d)"
    unfolding st same using hash_get_iff [OF rep, of key d] inj_onD [OF inj, of node] a
    by (cases "key = hash_key (nd s node)") (auto simp del: set_concat, metis+)
qed

lemma hash_delete_ok:
  assumes wf: "hash_wf s A" and a: "node \<in> A"
  shows "\<exists>s'. hash_delete s node = Some s' \<and> hash_wf s' (A - {node})
     \<and> hash_get s' = (hash_get s)(hash_key (nd s node) := None)
     \<and> hash_nodecount (hs_hash s') = hash_nodecount (hs_hash s) - 1
     \<and> hash_next (nd s' node) = NULL
     \<and> hash_maxcount (hs_hash s') = hash_maxcount (hs_hash s)
     \<and> hash_function (hs_hash s') = hash_function (hs_hash s)
     \<and> hash_data (nd s' node) = hash_data (nd s node) \<and> hash_key (nd s' node) = hash_key (nd s node)
     \<and> hash_freenode (hs_hash s') = hash_freenode (hs_hash s) \<and> hs_freed s' = hs_freed s"
proof -
  from wf obtain k xss where rep: "hash_rep s k xss" and A: "A = set (concat xss)"
    by (auto simp: hash_wf_def)
  from maybe_shrink [OF rep] obtain t k' yss where
    g: "(if hash_dynamic (hs_hash s) \<and> hash_nodecount (hs_hash s) \<le> hash_lowmark (hs_hash s)
              \<and> hash_nodecount (hs_hash s) > INIT_SIZE then shrink_table s else Some s) = Some t"
    and rep': "hash_rep t k' yss" and st: "set (concat yss) = set (concat xss)"
    and same: "same_content s t" by blast
  have a': "node \<in> set (concat yss)"
    using a by (simp only: A st)
  from unlink_node_ok [OF rep' a'] obtain s' zss where
    u: "unlink_node t node = Some s'" and rep2: "hash_rep s' k' zss"
    and sz: "set (concat zss) = set (concat yss) - {node}"
    and same2: "same_content (upd_hash t (\<lambda>h. h\<lparr>hash_nodecount := hash_nodecount h - 1\<rparr>)) s'"
    and nul: "hash_next (nd s' node) = NULL"
    by blast
  have del: "hash_delete s node = Some s'"
    unfolding hash_delete_def
    using hash_lookup_node [OF rep, of node] a rep
    by (simp add: A g u hash_rep_def params_def del: set_concat)
  have "hash_get s' = (hash_get t)(hash_key (nd t node) := None)"
    using same2 by (intro hash_get_removed [OF rep' rep2 a' sz]) (simp_all add: same_content_def)
  then have get: "hash_get s' = (hash_get s)(hash_key (nd s node) := None)"
    using hash_get_same [OF rep rep' st same] same by (simp add: same_content_def)
  have wf': "hash_wf s' (A - {node})"
    using hash_wfI [OF rep2] by (simp only: sz st A)
  show ?thesis
    using del wf' get nul same same2 by (simp add: same_content_def)
qed

subsection \<open>Creation\<close>

lemma drop_bit_mask: "n < 64 \<Longrightarrow> drop_bit 1 (mask (Suc n) :: u64) = mask n"
  by (rule bit_word_eqI) (auto simp: bit_drop_bit_eq bit_mask_iff)

lemma mask_Suc_nonzero: "(mask (Suc n) :: u64) \<noteq> 0"
  by (metis bit_0_eq bit_mask_iff possible_bit_0 zero_less_Suc bot_apply bot_bool_def)

lemma compute_bits_loop_mask: "n \<le> 64 \<Longrightarrow> compute_bits_loop (mask n) b = b + int n"
proof (induction n arbitrary: b)
  case 0
  show ?case by (subst compute_bits_loop.simps) simp
next
  case (Suc n)
  then have "compute_bits_loop (mask (Suc n)) b = compute_bits_loop (mask n) (b + 1)"
    using drop_bit_mask [of n] mask_Suc_nonzero [of n] by (subst compute_bits_loop.simps) simp
  with Suc show ?case by simp
qed

lemma compute_bits_64: "hash_val_t_bit (compute_bits s) = 64"
proof -
  have "(- 1 :: u64) = mask 64"
    by (simp add: mask_eq_exp_minus_1)
  then show ?thesis
    by (simp add: compute_bits_def compute_bits_loop_mask)
qed

lemma clear_loop:
  assumes "length t = n"
  shows "foldM (\<lambda>i t. wr t i NULL) [0..<n] t = Some (replicate n NULL)"
proof -
  have "\<exists>u. foldM (\<lambda>i t. wr t i NULL) [0..<n] t = Some u \<and> (length u = n \<and> (\<forall>j<n. u ! j = NULL))"
    by (rule foldM_upt_rule [where I = "\<lambda>i u. length u = n \<and> (\<forall>j<i. u ! j = NULL)"])
       (use assms in \<open>auto simp: nth_list_update less_Suc_eq\<close>)
  then show ?thesis
    by (auto intro!: nth_equalityI)
qed

lemma clear_table_ok:
  "length (hash_table (hs_hash s)) = unat (hash_nchains (hs_hash s)) \<Longrightarrow>
     clear_table s = Some (upd_hash s (\<lambda>h. h\<lparr>hash_table := replicate (unat (hash_nchains (hs_hash s))) NULL\<rparr>))"
  by (simp add: clear_table_def clear_loop)

lemma concat_replicate_Nil: "concat (replicate n []) = []"
  by (induction n) auto

lemma rep_cleared:
  assumes "params s k" "hash_nchains (hs_hash s) = 2 ^ k" "hash_mask (hs_hash s) = 2 ^ k - 1"
    and "hash_table (hs_hash s) = replicate (2 ^ k) NULL" "hash_nodecount (hs_hash s) = 0"
  shows "hash_rep s k (replicate (2 ^ k) [])"
  using assms by (simp add: hash_rep_def buckets_def keyed_def chains_ok_def concat_replicate_Nil)

lemma hash_get_empty: "hash_wf s {} \<Longrightarrow> hash_get s = Map.empty"
proof -
  assume "hash_wf s {}"
  then obtain k xss where rep: "hash_rep s k xss" and e: "set (concat xss) = {}"
    unfolding hash_wf_def by blast
  show ?thesis
    by (rule hash_get_eqI [OF rep]) (simp add: e del: set_concat)
qed

lemma hash_create_with_ok:
  assumes cmp: "\<And>x y. cmp x y = 0 \<longleftrightarrow> x = y"
  shows "\<exists>s'. hash_create_with fr True (Some junk) m cmp f s = Some (True, s')
     \<and> hash_wf s' {} \<and> hash_nodecount (hs_hash s') = 0 \<and> hash_maxcount (hs_hash s') = m
     \<and> hash_function (hs_hash s') = f \<and> hash_freenode (hs_hash s') = fr \<and> hs_freed s' = hs_freed s"
proof -
  let ?s = "if hash_val_t_bit s = 0 then compute_bits s else s"
  let ?t = "?s\<lparr>hs_hash := \<lparr>
             hash_table = map junk [0..<unat INIT_SIZE],
             hash_nchains = INIT_SIZE, hash_nodecount = 0, hash_maxcount = m,
             hash_highmark = INIT_SIZE * 2, hash_lowmark = INIT_SIZE div 2,
             hash_compare = cmp, hash_function = f, hash_freenode = fr,
             hash_mask = INIT_MASK, hash_dynamic = True\<rparr>\<rparr>"
  let ?u = "upd_hash ?t (\<lambda>h. h\<lparr>hash_table := replicate (unat INIT_SIZE) NULL\<rparr>)"
  have bit: "hash_val_t_bit ?s \<noteq> 0"
    using compute_bits_64 [of s] by simp
  have sz: "unat INIT_SIZE = 2 ^ 6"
    by (simp add: INIT_SIZE_64)
  have rep: "hash_rep ?u 6 (replicate (2 ^ 6) [])"
    by (rule rep_cleared) (use bit cmp in \<open>simp_all add: params_def INIT_SIZE_64 INIT_MASK_def\<close>)
  then have "buckets ?u 6 (replicate (2 ^ 6) [])" "params ?u 6"
    by (simp_all only: hash_rep_def)
  then have ver: "assert_verify ?u = Some ()"
    by (rule assert_verify_ok)
  have clr: "clear_table ?t = Some ?u"
    using clear_table_ok [of ?t] by simp
  have "hash_create_with fr True (Some junk) m cmp f s = Some (True, ?u)"
    unfolding hash_create_with_def Let_def
    by (simp only: clr ver bind.bind_lunit option.case if_False simp_thms not_True_eq_False)
  moreover have "hash_wf ?u {}"
    using hash_wfI [OF rep] by (simp add: concat_replicate_Nil del: set_concat)
  ultimately show ?thesis
    by (auto simp: compute_bits_def)
qed

subsection \<open>Scanning and freeing every node\<close>

lemma next_chain_ok:
  assumes "length t = n" "c \<le> n"
  shows "\<exists>j. next_chain t n c = Some j \<and> c \<le> j \<and> j \<le> n \<and> (\<forall>i. c \<le> i \<and> i < j \<longrightarrow> t ! i = NULL)
     \<and> (j < n \<longrightarrow> t ! j \<noteq> NULL)"
  using assms
proof (induction t n c rule: next_chain.induct)
  case (1 t n c)
  show ?case
  proof (cases "c < n \<and> t ! c = NULL")
    case True
    with "1.IH" [of NULL] "1.prems" obtain j where
      "next_chain t n (Suc c) = Some j" "Suc c \<le> j" "j \<le> n"
      "\<forall>i. Suc c \<le> i \<and> i < j \<longrightarrow> t ! i = NULL" "j < n \<longrightarrow> t ! j \<noteq> NULL"
      by auto
    moreover have "\<forall>i. c \<le> i \<and> i < j \<longrightarrow> t ! i = NULL"
      using calculation(4) True by (metis Suc_leI le_neq_implies_less)
    ultimately show ?thesis
      using True "1.prems" by (subst next_chain.simps) simp
  next
    case False
    with "1.prems" show ?thesis
      by (subst next_chain.simps) auto
  qed
qed

text \<open>The scanner points at the first node of the table: the nodes before it are gone.\<close>

definition scan_at :: "addr list list \<Rightarrow> hscan_t \<Rightarrow> bool" where
  "scan_at xss scan \<longleftrightarrow> (if concat xss = [] then scan_next scan = NULL
     else \<exists>i<length xss. xss ! i \<noteq> [] \<and> (\<forall>j<i. xss ! j = []) \<and> scan_chain scan = i \<and> scan_next scan = hd (xss ! i))"

lemma chains_ok_null:
  "chains_ok nx t xss \<Longrightarrow> i < length xss \<Longrightarrow> t ! i = NULL \<longleftrightarrow> xss ! i = []"
  unfolding chains_ok_def by (cases "xss ! i") auto

lemma chains_ok_hd:
  "chains_ok nx t xss \<Longrightarrow> i < length xss \<Longrightarrow> xss ! i \<noteq> [] \<Longrightarrow> t ! i = hd (xss ! i)"
  unfolding chains_ok_def by (cases "xss ! i") auto

lemma scan_to_ok:
  assumes ch: "chains_ok nx (hash_table (hs_hash s)) xss"
    and n: "unat (hash_nchains (hs_hash s)) = length xss"
    and c: "c \<le> length xss" and pre: "\<forall>j<c. yss ! j = []" and len: "length yss = length xss"
    and rest: "\<forall>j. c \<le> j \<and> j < length xss \<longrightarrow> yss ! j = xss ! j"
  shows "\<exists>scan'. scan_to s c scan = Some scan' \<and> scan_at yss scan'"
proof -
  let ?t = "hash_table (hs_hash s)"
  have lt: "length ?t = length xss"
    using ch by (simp add: chains_ok_def)
  from next_chain_ok [OF lt c] obtain j where j: "next_chain ?t (length xss) c = Some j" "c \<le> j" "j \<le> length xss"
    and z: "\<forall>i. c \<le> i \<and> i < j \<longrightarrow> ?t ! i = NULL" and nz: "j < length xss \<longrightarrow> ?t ! j \<noteq> NULL"
    by blast
  have empty: "yss ! i = []" if "i < j" for i
    using that pre rest z j(3) chains_ok_null [OF ch, of i] by (cases "i < c") auto
  show ?thesis
  proof (cases "j < length xss")
    case True
    then have ne: "yss ! j \<noteq> []" "hd (yss ! j) = ?t ! j"
      using nz rest j(2) chains_ok_null [OF ch True] chains_ok_hd [OF ch True] by auto
    then have "concat yss \<noteq> []"
      using True len nth_mem [of j yss] by auto
    with True ne empty j(1) lt n len show ?thesis
      by (auto simp: scan_to_def scan_at_def)
  next
    case False
    with j(3) have "j = length yss"
      using len by simp
    with empty have "concat yss = []"
      by (auto simp: in_set_conv_nth)
    with False j(1) n show ?thesis
      by (simp add: scan_to_def scan_at_def)
  qed
qed

lemma hash_scan_begin_ok:
  assumes "hash_rep s k xss"
  shows "\<exists>scan'. hash_scan_begin s scan = Some scan' \<and> scan_at xss scan'"
proof -
  from assms have b: "buckets s k xss" and p: "params s k"
    by (simp_all add: hash_rep_def)
  note B = bucketsD [OF b paramsD(3) [OF p]]
  have "chains_ok (nxt s) (hash_table (hs_hash s)) xss"
    using b by (simp add: buckets_def)
  then show ?thesis
    unfolding hash_scan_begin_def by (rule scan_to_ok) (simp_all add: B)
qed

text \<open>One turn of the loop: the scanner moves on before its node is unlinked.\<close>

lemma free_nodes_step:
  assumes rep: "hash_rep s k xss" and sc: "scan_at xss scan" and ne: "concat xss \<noteq> []"
  shows "\<exists>node scan' s' yss. node = hd (concat xss) \<and> node \<noteq> NULL
     \<and> hash_scan_next s scan = Some (node, scan') \<and> hash_scan_delete s node = Some s'
     \<and> hash_rep s' k yss \<and> concat yss = tl (concat xss) \<and> scan_at yss scan'
     \<and> same_content (upd_hash s (\<lambda>h. h\<lparr>hash_nodecount := hash_nodecount h - 1\<rparr>)) s'"
proof -
  from rep have b: "buckets s k xss" and p: "params s k"
    by (simp_all add: hash_rep_def)
  note B = bucketsD [OF b paramsD(3) [OF p]]
  have ch: "chains_ok (nxt s) (hash_table (hs_hash s)) xss"
    using b by (simp add: buckets_def)
  from sc ne obtain i where i: "i < length xss" "xss ! i \<noteq> []" and pre: "\<forall>j<i. xss ! j = []"
    and scan: "scan_chain scan = i" "scan_next scan = hd (xss ! i)"
    unfolding scan_at_def by (simp only: if_False) blast
  then obtain node vs where x: "xss ! i = node # vs"
    by (cases "xss ! i") auto
  have pre': "concat (take i xss) = []"
    using pre i(1) by (auto simp: in_set_conv_nth)
  have cx: "concat xss = node # vs @ concat (drop (Suc i) xss)"
    using id_take_nth_drop [OF i(1)] pre' x by (metis append_Cons append_Nil concat.simps(2) concat_append)
  have nodein: "node \<in> set (concat xss)"
    by (simp add: cx)
  have ci: "chain (nxt s) node (node # vs)"
    using ch i(1) x by (auto simp: chains_ok_def)
  from unlink_node_ok [OF rep nodein] obtain s' j us vs' where
    j: "j < 2 ^ k" "xss ! j = us @ node # vs'" and u: "unlink_node s node = Some s'"
    and rep': "hash_rep s' k (xss[j := us @ vs'])"
    and same: "same_content (upd_hash s (\<lambda>h. h\<lparr>hash_nodecount := hash_nodecount h - 1\<rparr>)) s'"
    by blast
  have "j = i"
    using concat_nth_disjoint [OF B(5), of i j] i(1) j x B(2) by auto
  moreover have "us = []" "vs' = vs"
    using distinct_concat_nth [OF B(5) i(1)] x j(2) \<open>j = i\<close> by (cases us; auto)+
  ultimately have yss: "xss[j := us @ vs'] = xss[i := vs]"
    by simp
  have cy: "concat (xss[i := vs]) = tl (concat xss)"
    using i(1) pre' by (simp add: cx upd_conv_take_nth_drop del: concat_eq_Nil_conv)
  have "\<exists>scan'. hash_scan_next s scan = Some (node, scan') \<and> scan_at (xss[i := vs]) scan'"
  proof (cases vs)
    case Nil
    have "\<exists>scan'. scan_to s (i + 1) scan = Some scan' \<and> scan_at (xss[i := vs]) scan'"
      using i(1) pre B(2,3) Nil
      by (intro scan_to_ok [OF ch]) (auto simp: nth_list_update less_Suc_eq)
    with Nil ci scan x paramsD(4) [OF p] show ?thesis
      by (auto simp: hash_scan_next_def)
  next
    case (Cons v vs'')
    have "concat (xss[i := vs]) \<noteq> []"
      unfolding cy unfolding cx list.sel unfolding Cons append_Cons by (rule list.distinct(2))
    with Cons ci scan x i(1) pre paramsD(4) [OF p] show ?thesis
      by (auto simp: hash_scan_next_def scan_at_def nth_list_update)
  qed
  with u rep' same cy ci yss hash_scan_delete_ok [OF rep nodein] show ?thesis
    by (auto simp: cx)
qed

lemma same_content_free_node:
  "nd s' a = nd s a \<Longrightarrow> hash_freenode (hs_hash s') = hash_freenode (hs_hash s) \<Longrightarrow>
     hs_freed (free_node s' a) = hs_freed s' @ free_events (hash_freenode (hs_hash s)) (nd s a) a"
  by (simp add: free_node_def)

lemma free_events_cong:
  "hash_key n = hash_key m \<Longrightarrow> hash_data n = hash_data m \<Longrightarrow> free_events fr n a = free_events fr m a"
  by (cases fr) simp_all

lemma hash_rep_freed: "hash_rep (s\<lparr>hs_freed := l\<rparr>) k xss = hash_rep s k xss"
  by (simp add: hash_rep_def buckets_def keyed_def params_def)

definition node_events :: "('k, 'v) hstate \<Rightarrow> addr \<Rightarrow> ('k, 'v) free_event list" where
  "node_events s a = free_events (hash_freenode (hs_hash s)) (nd s a) a"

lemma free_nodes_loop_ok:
  assumes "hash_rep s k xss" "scan_at xss scan"
  shows "\<exists>s' yss. free_nodes_loop scan s = Some s' \<and> hash_rep s' k yss \<and> concat yss = []
     \<and> hs_freed s' = hs_freed s @ concat (map (node_events s) (concat xss))"
  using assms
proof (induction "concat xss" arbitrary: s xss scan)
  case Nil
  then have "scan_next scan = NULL"
    by (simp only: scan_at_def if_True)
  moreover have "hash_val_t_bit s \<noteq> 0"
    using Nil by (simp add: hash_rep_def params_def)
  ultimately have "free_nodes_loop scan s = Some s"
    by (subst free_nodes_loop.simps) (simp add: hash_scan_next_def)
  moreover have "concat xss = []"
    using Nil(1) by (rule sym)
  ultimately show ?case
    using Nil(2) by (intro exI [of _ s] exI [of _ xss]) (simp only: list.map concat.simps append_Nil2 simp_thms)
next
  case (Cons a as)
  have ne: "concat xss \<noteq> []"
    unfolding Cons.hyps(2) [symmetric] by (rule list.distinct(2))
  from free_nodes_step [OF Cons.prems ne] obtain node scan' s' yss where st: "node = hd (concat xss)" "node \<noteq> NULL"
    and nx: "hash_scan_next s scan = Some (node, scan')" and del: "hash_scan_delete s node = Some s'"
    and rep': "hash_rep s' k yss" and cy: "concat yss = tl (concat xss)" and sc': "scan_at yss scan'"
    and same: "same_content (upd_hash s (\<lambda>h. h\<lparr>hash_nodecount := hash_nodecount h - 1\<rparr>)) s'"
    by blast
  let ?t = "free_node s' node"
  have ev: "node_events s' b = node_events s b" "node_events ?t b = node_events s b" for b
    using same by (auto simp: node_events_def same_content_def free_node_def intro: free_events_cong)
  have "hash_rep ?t k yss"
    using rep' by (simp add: free_node_def hash_rep_freed)
  moreover have "as = concat yss"
    unfolding cy Cons.hyps(2) [symmetric] by (simp only: list.sel)
  ultimately obtain u zss where u: "free_nodes_loop scan' ?t = Some u" "hash_rep u k zss" "concat zss = []"
    and fr: "hs_freed u = hs_freed ?t @ concat (map (node_events ?t) (concat yss))"
    using Cons.hyps(1) sc' by blast
  have "free_nodes_loop scan s = Some u"
    using nx del st u(1) by (subst free_nodes_loop.simps) simp
  moreover have "hs_freed ?t = hs_freed s @ node_events s node"
    using same ev(1) [of node] by (simp add: free_node_def node_events_def same_content_def)
  moreover have "concat xss = node # concat yss"
    unfolding cy st(1) using ne by (rule list.collapse [symmetric])
  moreover have "map (node_events ?t) (concat yss) = map (node_events s) (concat yss)"
    using ev(2) by (simp only: map_eq_conv) blast
  ultimately show ?case
    using u fr by (intro exI [of _ u] exI [of _ zss]) (simp only: list.map concat.simps append_assoc simp_thms)
qed

lemma hash_free_nodes_ok:
  assumes wf: "hash_wf s A"
  shows "\<exists>s' ns. hash_free_nodes hs s = Some s' \<and> hash_wf s' {} \<and> hash_nodecount (hs_hash s') = 0
     \<and> distinct ns \<and> set ns = A \<and> hs_freed s' = hs_freed s @ concat (map (node_events s) ns)"
proof -
  from wf obtain k xss where rep: "hash_rep s k xss" and A: "A = set (concat xss)"
    by (auto simp: hash_wf_def)
  from hash_scan_begin_ok [OF rep] obtain scan where
    sb: "hash_scan_begin s hs = Some scan" "scan_at xss scan" by blast
  from free_nodes_loop_ok [OF rep sb(2)] obtain u yss where
    u: "free_nodes_loop scan s = Some u" "hash_rep u k yss"
    and fr: "hs_freed u = hs_freed s @ concat (map (node_events s) (concat xss))"
    by blast
  from u(2) have b: "buckets u k yss" and p: "params u k"
    by (simp_all add: hash_rep_def)
  note B = bucketsD [OF b paramsD(3) [OF p]]
  let ?v = "upd_hash u (\<lambda>h. h\<lparr>hash_nodecount := 0, hash_table := replicate (2 ^ k) NULL\<rparr>)"
  have "clear_table (upd_hash u (\<lambda>h. h\<lparr>hash_nodecount := 0\<rparr>)) = Some ?v"
    using clear_table_ok [of "upd_hash u (\<lambda>h. h\<lparr>hash_nodecount := 0\<rparr>)"] B(1,3) by (simp add: upd_hash_def)
  with sb u have "hash_free_nodes hs s = Some ?v"
    by (simp add: hash_free_nodes_def)
  moreover have "hash_rep ?v k (replicate (2 ^ k) [])"
    using p b by (intro rep_cleared) (simp_all add: params_def buckets_def)
  then have "hash_wf ?v {}"
    using hash_wfI [of ?v k "replicate (2 ^ k) []"] by (simp add: concat_replicate_Nil del: set_concat)
  moreover have "distinct (concat xss)"
    using rep by (simp add: hash_rep_def buckets_def)
  ultimately show ?thesis
    using fr A by (intro exI [of _ ?v] exI [of _ "concat xss"]) (simp del: set_concat)
qed

lemma hash_free_ok:
  assumes "hash_wf s A"
  shows "\<exists>s' ns. hash_free hs s = Some s' \<and> distinct ns \<and> set ns = A
     \<and> hs_freed s' = hs_freed s @ concat (map (node_events s) ns) @ [FreeTable, FreeHash]"
proof -
  from hash_free_nodes_ok [OF assms, of hs] obtain u ns where
    u: "hash_free_nodes hs s = Some u" "hash_wf u {}" "hash_nodecount (hs_hash u) = 0"
    and ns: "distinct ns" "set ns = A" "hs_freed u = hs_freed s @ concat (map (node_events s) ns)"
    by blast
  from u(2) have "hash_val_t_bit u \<noteq> 0"
    by (auto simp: hash_wf_def hash_rep_def params_def)
  with u ns show ?thesis
    by (auto simp: hash_free_def hash_destroy_def ow_hash_isempty_def)
qed

end
