(* ===== verification/Hash_Map.thy ===== *)
theory Hash_Map
  imports Hash_Correct
begin

text \<open>
  The contract between the hash table and its clients. The locale \<open>key_table\<close> lists the
  operations a client calls and the laws they promise, over the set of nodes linked into the
  table and the finite map the table stands for; the interpretation proves the laws for the
  operations of \<^verbatim>\<open>hash.c\<close>. Two client results are proved once, inside the locale: the
  idiom of \<^verbatim>\<open>uri.c\<close> that adds the pairs of a list unless their key is taken, and the idiom
  that deletes by key.
\<close>

subsection \<open>Operations that allocate and release nodes\<close>

lemma hash_rep_cong:
  assumes rep: "hash_rep s k xss" and h: "hs_hash t = hs_hash s" "hash_val_t_bit t = hash_val_t_bit s"
    and same: "\<And>a. a \<in> set (concat xss) \<Longrightarrow> nd t a = nd s a"
  shows "hash_rep t k xss"
proof -
  have b: "buckets s k xss"
    using rep by (simp add: hash_rep_def)
  have len: "length xss = 2 ^ k"
    using b by (simp add: buckets_def)
  have sub: "nd t a = nd s a" if "i < 2 ^ k" "a \<in> set (xss ! i)" for a i
    using that set_nth_concat [of i xss] same len by (simp del: set_concat) blast
  have "chain (nxt t) p (xss ! i) = chain (nxt s) p (xss ! i)" if "i < 2 ^ k" for i p
    using sub [OF that] by (intro chain_cong) simp
  with b len have "buckets t k xss"
    using sub by (simp add: buckets_def chains_ok_def h del: set_concat)
  moreover have "keyed t (set (concat xss))"
    using rep same by (simp add: hash_rep_def keyed_def h inj_on_def del: set_concat)
  ultimately show ?thesis
    using rep by (simp add: hash_rep_def params_def h)
qed

lemma hnode_init_simps [simp]:
  "hs_hash (hnode_init s node d) = hs_hash s" "hash_val_t_bit (hnode_init s node d) = hash_val_t_bit s"
  "hs_freed (hnode_init s node d) = hs_freed s"
  "hash_next (nd (hnode_init s node d) node) = NULL" "hash_data (nd (hnode_init s node d) node) = d"
  by (simp_all add: hnode_init_def upd_node_def)

lemma hnode_init_ok:
  assumes wf: "hash_wf s A" and "node \<notin> A"
  shows "hash_wf (hnode_init s node d) A" "hash_get (hnode_init s node d) = hash_get s"
proof -
  from wf obtain k xss where rep: "hash_rep s k xss" and A: "A = set (concat xss)"
    by (auto simp: hash_wf_def)
  have same: "nd (hnode_init s node d) a = nd s a" if "a \<in> set (concat xss)" for a
    using that assms(2) A by (simp add: hnode_init_def upd_node_def del: set_concat) blast
  then have rep': "hash_rep (hnode_init s node d) k xss"
    by (intro hash_rep_cong [OF rep]) simp_all
  then show "hash_wf (hnode_init s node d) A"
    unfolding A by (rule hash_wfI)
  show "hash_get (hnode_init s node d) = hash_get s"
    by (rule hash_get_eqI [OF rep']) (simp add: hash_get_iff [OF rep] same del: set_concat)
qed

lemma free_node_ok:
  assumes "hash_wf s A"
  shows "hash_wf (free_node s node) A" "hash_get (free_node s node) = hash_get s"
proof -
  from assms obtain k xss where rep: "hash_rep s k xss" and A: "A = set (concat xss)"
    by (auto simp: hash_wf_def)
  then have rep': "hash_rep (free_node s node) k xss"
    by (intro hash_rep_cong [OF rep]) (simp_all add: free_node_def)
  then show "hash_wf (free_node s node) A"
    unfolding A by (rule hash_wfI)
  show "hash_get (free_node s node) = hash_get s"
    by (rule hash_get_eqI [OF rep']) (simp add: hash_get_iff [OF rep] free_node_def del: set_concat)
qed

definition hash_limit :: "('k, 'v) hstate \<Rightarrow> nat" where
  "hash_limit s = min (unat (hash_maxcount (hs_hash s))) (2 ^ 60)"

abbreviation (input) nodes_used :: "('k, 'v) hstate \<Rightarrow> nat" where
  "nodes_used s \<equiv> unat (hash_nodecount (hs_hash s))"

lemma nodecount_card:
  assumes "hash_wf s A"
  shows "finite A" "nodes_used s = card A"
  using assms by (auto simp: hash_wf_def hash_rep_def buckets_def distinct_card simp del: set_concat)

lemma hash_alloc_insert_ok:
  assumes wf: "hash_wf s A" and fresh: "node \<notin> A" "node \<noteq> NULL" and new: "hash_get s key = None"
    and room: "nodes_used s < hash_limit s"
  shows "\<exists>s'. hash_alloc_insert r node s key d = Some (1, s') \<and> hash_wf s' (insert node A)
     \<and> hash_get s' = (hash_get s)(key \<mapsto> d) \<and> hash_limit s' = hash_limit s
     \<and> hash_key (nd s' node) = key \<and> hash_data (nd s' node) = d
     \<and> hash_freenode (hs_hash s') = hash_freenode (hs_hash s) \<and> hs_freed s' = hs_freed s"
proof -
  note init = hnode_init_ok [OF wf fresh(1), of d]
  from room have cnt: "hash_nodecount (hs_hash s) < hash_maxcount (hs_hash s)" "nodes_used s < 2 ^ 60"
    unfolding hash_limit_def min_less_iff_conj word_less_nat_alt by blast+
  have "\<exists>s'. hash_insert r (hnode_init s node d) node key = Some s' \<and> hash_wf s' (insert node A)
     \<and> hash_get s' = (hash_get (hnode_init s node d))(key \<mapsto> hash_data (nd (hnode_init s node d) node))
     \<and> hash_nodecount (hs_hash s') = hash_nodecount (hs_hash (hnode_init s node d)) + 1
     \<and> hash_key (nd s' node) = key \<and> hash_data (nd s' node) = hash_data (nd (hnode_init s node d) node)
     \<and> hash_maxcount (hs_hash s') = hash_maxcount (hs_hash (hnode_init s node d))
     \<and> hash_function (hs_hash s') = hash_function (hs_hash (hnode_init s node d))
     \<and> hash_freenode (hs_hash s') = hash_freenode (hs_hash (hnode_init s node d))
     \<and> hs_freed s' = hs_freed (hnode_init s node d)"
    by (rule hash_insert_ok [OF init(1) fresh]) (simp_all only: init(2) new cnt hnode_init_simps)
  then show ?thesis
    using fresh(2) unfolding init(2) hnode_init_simps
    by (auto simp: hash_alloc_insert_def hash_limit_def simp del: fun_upd_apply)
qed

lemma hash_delete_free_ok:
  assumes wf: "hash_wf s A" and node: "node \<in> A"
  shows "\<exists>s'. hash_delete_free s node = Some s' \<and> hash_wf s' (A - {node})
     \<and> hash_get s' = (hash_get s)(hash_key (nd s node) := None) \<and> hash_limit s' = hash_limit s
     \<and> hs_freed s' = hs_freed s @ node_events s node"
proof -
  from wf obtain k xss where rep: "hash_rep s k xss" and A: "A = set (concat xss)"
    by (auto simp: hash_wf_def)
  have "node \<noteq> NULL"
    using hash_lookup_rep [OF rep, of "hash_key (nd s node)"] hash_lookup_node [OF rep, of node] node
    unfolding A by auto
  moreover from hash_delete_ok [OF wf node] obtain s' where del: "hash_delete s node = Some s'"
      "hash_wf s' (A - {node})" "hash_get s' = (hash_get s)(hash_key (nd s node) := None)"
    and fr: "hash_maxcount (hs_hash s') = hash_maxcount (hs_hash s)"
      "hash_freenode (hs_hash s') = hash_freenode (hs_hash s)" "hs_freed s' = hs_freed s"
      "hash_key (nd s' node) = hash_key (nd s node)" "hash_data (nd s' node) = hash_data (nd s node)"
    by blast
  moreover have "node_events s' node = node_events s node"
    unfolding node_events_def fr(2) by (intro free_events_cong fr)
  ultimately show ?thesis
    using free_node_ok [OF del(2), of node]
    by (intro exI [of _ "free_node s' node"])
       (simp add: hash_delete_free_def hash_limit_def free_node_def node_events_def)
qed

lemma hash_find_absent: "hash_wf s A \<Longrightarrow> hash_get s key = None \<Longrightarrow> hash_lookup s key = Some NULL"
proof -
  assume "hash_wf s A" and get: "hash_get s key = None"
  then obtain k xss where rep: "hash_rep s k xss"
    by (auto simp: hash_wf_def)
  from hash_lookup_rep [OF rep, of key] get show ?thesis
    by (auto simp: hash_get_def)
qed

lemma hash_find_present:
  assumes wf: "hash_wf s A" and get: "hash_get s key = Some d"
  shows "\<exists>p\<in>A. hash_lookup s key = Some p \<and> p \<noteq> NULL \<and> hash_key (nd s p) = key \<and> hash_data (nd s p) = d"
proof -
  from wf obtain k xss where rep: "hash_rep s k xss" and A: "A = set (concat xss)"
    by (auto simp: hash_wf_def)
  from get have "hash_lookup s key \<noteq> Some NULL"
    by (auto simp: hash_get_def)
  with hash_lookup_rep [OF rep, of key] obtain a where
    a: "a \<in> set (concat xss)" "hash_key (nd s a) = key" "a \<noteq> NULL" "hash_lookup s key = Some a"
    by blast
  with get show ?thesis
    unfolding A by (intro bexI [of _ a]) (simp_all add: hash_get_def del: set_concat)
qed

subsection \<open>The contract of a key table\<close>

text \<open>The idiom of \<^verbatim>\<open>_u_parse\<close>: insert a pair unless its key is present. \<open>look\<close> and \<open>put\<close>
  are the table's operations; the result of \<open>put\<close> is only reported, as in the code.\<close>

definition put_absent ::
  "('s \<Rightarrow> 'k \<Rightarrow> addr option) \<Rightarrow> ('e \<Rightarrow> addr \<Rightarrow> 's \<Rightarrow> 'k \<Rightarrow> 'v \<Rightarrow> (int \<times> 's) option)
     \<Rightarrow> 'e \<Rightarrow> addr \<Rightarrow> 'k \<Rightarrow> 'v \<Rightarrow> 's \<Rightarrow> 's option" where
  "put_absent look put e node key d s = do {
     p \<leftarrow> look s key;
     if p = NULL then do { (_, s) \<leftarrow> put e node s key d; Some s } else Some s
   }"

text \<open>The idiom of \<^verbatim>\<open>remove_locked_enuminfo\<close>: delete what the key is bound to, if anything.\<close>

definition remove_key ::
  "('s \<Rightarrow> 'k \<Rightarrow> addr option) \<Rightarrow> ('s \<Rightarrow> addr \<Rightarrow> 's option) \<Rightarrow> 's \<Rightarrow> 'k \<Rightarrow> 's option" where
  "remove_key look remove s key = do { p \<leftarrow> look s key; remove s p }"

text \<open>Sequences of these two operations, and what they do to the finite map of the table.\<close>

datatype ('k, 'v) table_op = Put addr 'k 'v | Del 'k

fun run_op ::
  "('s \<Rightarrow> 'k \<Rightarrow> addr option) \<Rightarrow> ('e \<Rightarrow> addr \<Rightarrow> 's \<Rightarrow> 'k \<Rightarrow> 'v \<Rightarrow> (int \<times> 's) option)
     \<Rightarrow> ('s \<Rightarrow> addr \<Rightarrow> 's option) \<Rightarrow> 'e \<Rightarrow> ('k, 'v) table_op \<Rightarrow> 's \<Rightarrow> 's option" where
  "run_op look put remove e (Put node key d) s = put_absent look put e node key d s"
| "run_op look put remove e (Del key) s = remove_key look remove s key"

fun spec_op :: "('k, 'v) table_op \<Rightarrow> ('k \<rightharpoonup> 'v) \<Rightarrow> ('k \<rightharpoonup> 'v)" where
  "spec_op (Put node key d) m = (if key \<in> dom m then m else m(key \<mapsto> d))"
| "spec_op (Del key) m = m(key := None)"

fun op_nodes :: "('k, 'v) table_op list \<Rightarrow> addr list" where
  "op_nodes [] = []"
| "op_nodes (Put node key d # ops) = node # op_nodes ops"
| "op_nodes (Del key # ops) = op_nodes ops"

locale key_table =
  fixes wf :: "'s \<Rightarrow> addr set \<Rightarrow> bool"
    and get :: "'s \<Rightarrow> 'k \<Rightarrow> 'v option"
    and look :: "'s \<Rightarrow> 'k \<Rightarrow> addr option"
    and key_at :: "'s \<Rightarrow> addr \<Rightarrow> 'k"
    and limit :: "'s \<Rightarrow> nat"
    and put :: "'e \<Rightarrow> addr \<Rightarrow> 's \<Rightarrow> 'k \<Rightarrow> 'v \<Rightarrow> (int \<times> 's) option"
    and remove :: "'s \<Rightarrow> addr \<Rightarrow> 's option"
  assumes finite_nodes: "wf s A \<Longrightarrow> finite A"
    and find_absent: "wf s A \<Longrightarrow> get s key = None \<Longrightarrow> look s key = Some NULL"
    and find_present: "wf s A \<Longrightarrow> get s key = Some d \<Longrightarrow>
      \<exists>p\<in>A. look s key = Some p \<and> p \<noteq> NULL \<and> key_at s p = key"
    and put_new: "wf s A \<Longrightarrow> node \<notin> A \<Longrightarrow> node \<noteq> NULL \<Longrightarrow> get s key = None \<Longrightarrow> card A < limit s \<Longrightarrow>
      \<exists>s'. put e node s key d = Some (1, s') \<and> wf s' (insert node A)
         \<and> get s' = (get s)(key \<mapsto> d) \<and> limit s' = limit s"
    and put_failed: "put e NULL s key d = Some (0, s)"
    and remove_node: "wf s A \<Longrightarrow> p \<in> A \<Longrightarrow>
      \<exists>s'. remove s p = Some s' \<and> wf s' (A - {p}) \<and> get s' = (get s)(key_at s p := None) \<and> limit s' = limit s"
    and remove_null: "remove s NULL = Some s"
begin

lemma put_absent_ok:
  assumes wf: "wf s A" and fresh: "node \<notin> A" "node \<noteq> NULL" and room: "card A < limit s"
  shows "\<exists>s' B. put_absent look put e node key d s = Some s' \<and> wf s' B \<and> B \<subseteq> insert node A
     \<and> card B \<le> Suc (card A) \<and> limit s' = limit s
     \<and> get s' = (if key \<in> dom (get s) then get s else (get s)(key \<mapsto> d))"
proof (cases "get s key")
  case None
  with put_new [OF wf fresh None room, of e d] find_absent [OF wf None] obtain s' where
    "put_absent look put e node key d s = Some s'" "wf s' (insert node A)"
    "get s' = (get s)(key \<mapsto> d)" "limit s' = limit s"
    by (auto simp: put_absent_def simp del: fun_upd_apply)
  with None fresh finite_nodes [OF wf] show ?thesis
    by (intro exI [of _ s'] exI [of _ "insert node A"]) (simp add: domIff del: fun_upd_apply)
next
  case (Some d')
  with find_present [OF wf Some] have "put_absent look put e node key d s = Some s"
    by (auto simp: put_absent_def)
  with Some wf show ?thesis
    by (intro exI [of _ s] exI [of _ A]) (auto simp: domIff)
qed

text \<open>A run of the idiom over a list of pairs: the first value of each key wins, and what the
  table held before wins over both.\<close>

lemma put_all_absent:
  assumes "wf s A" and "distinct ns" "set ns \<inter> A = {}" "NULL \<notin> set ns"
    and "length ps = length ns" "card A + length ps \<le> limit s"
  shows "\<exists>s' B. foldM (\<lambda>(node, key, d). put_absent look put e node key d) (zip ns ps) s = Some s'
     \<and> wf s' B \<and> B \<subseteq> A \<union> set ns \<and> get s' = map_of ps ++ get s"
  using assms
proof (induction ps arbitrary: s A ns)
  case Nil
  then show ?case by auto
next
  case (Cons p ps)
  obtain key d where p: "p = (key, d)" by force
  obtain n ns' where ns: "ns = n # ns'"
    using Cons.prems(5) by (cases ns) auto
  from put_absent_ok [OF Cons.prems(1), of n e key d] Cons.prems ns
  obtain s1 B where s1: "put_absent look put e n key d s = Some s1" "wf s1 B" "B \<subseteq> insert n A"
    "card B \<le> Suc (card A)" "limit s1 = limit s"
    and get1: "get s1 = (if key \<in> dom (get s) then get s else (get s)(key \<mapsto> d))"
    by auto
  have "set ns' \<inter> B = {}"
    using s1(3) Cons.prems(2,3) ns by auto
  with Cons.prems s1 ns obtain s' C where
    s': "foldM (\<lambda>(node, key, d). put_absent look put e node key d) (zip ns' ps) s1 = Some s'"
    "wf s' C" "C \<subseteq> B \<union> set ns'" "get s' = map_of ps ++ get s1"
    using Cons.IH [of s1 B ns'] by auto
  have "map_of ps ++ get s1 = map_of (p # ps) ++ get s"
    by (rule ext) (auto simp: get1 p map_add_def split: option.splits)
  with s1 s' ns p show ?case
    by (intro exI [of _ s'] exI [of _ C]) (auto simp del: fun_upd_apply)
qed

lemma remove_key_ok:
  assumes wf: "wf s A"
  shows "\<exists>s' B. remove_key look remove s key = Some s' \<and> wf s' B \<and> B \<subseteq> A
     \<and> get s' = (get s)(key := None) \<and> limit s' = limit s"
proof (cases "get s key")
  case None
  then have "(get s)(key := None) = get s" by auto
  with find_absent [OF wf None] remove_null wf show ?thesis
    by (auto simp: remove_key_def simp del: fun_upd_apply)
next
  case (Some d)
  from find_present [OF wf Some] obtain p where p: "p \<in> A" "look s key = Some p" "key_at s p = key"
    by blast
  with remove_node [OF wf p(1)] show ?thesis
    by (auto simp: remove_key_def simp del: fun_upd_apply)
qed

text \<open>Every sequence of operations on fresh nodes runs to its end and simulates the finite map.\<close>

lemma run_ops:
  assumes "wf s A" and "distinct (op_nodes ops)" "set (op_nodes ops) \<inter> A = {}" "NULL \<notin> set (op_nodes ops)"
    and "card A + length (op_nodes ops) \<le> limit s"
  shows "\<exists>s' B. foldM (run_op look put remove e) ops s = Some s' \<and> wf s' B
     \<and> B \<subseteq> A \<union> set (op_nodes ops) \<and> get s' = fold spec_op ops (get s)"
  using assms
proof (induction ops arbitrary: s A rule: op_nodes.induct)
  case 1
  then show ?case by auto
next
  case (2 node key d ops)
  from put_absent_ok [OF 2(2), of node e key d] 2(3-6)
  obtain s1 B where s1: "put_absent look put e node key d s = Some s1" "wf s1 B" "B \<subseteq> insert node A"
    "card B \<le> Suc (card A)" "limit s1 = limit s"
    "get s1 = spec_op (Put node key d) (get s)"
    by auto
  have "set (op_nodes ops) \<inter> B = {}"
    using s1(3) 2(3,4) by auto
  with 2(1) [of s1 B] 2(3-6) s1 show ?case
    by (auto simp del: spec_op.simps) blast
next
  case (3 key ops)
  from remove_key_ok [OF 3(2), of key] obtain s1 B where
    s1: "remove_key look remove s key = Some s1" "wf s1 B" "B \<subseteq> A"
    "get s1 = spec_op (Del key) (get s)" "limit s1 = limit s"
    by auto
  moreover have "card B \<le> card A"
    using s1(3) finite_nodes [OF 3(2)] by (rule card_mono [rotated])
  ultimately show ?case
    using 3(1) [of s1 B] 3(3-6) by (fastforce simp del: spec_op.simps)
qed

end

interpretation hash: key_table hash_wf hash_get hash_lookup "\<lambda>s p. hash_key (nd s p)" hash_limit
  hash_alloc_insert hash_delete_free
proof
  fix s :: "('a, 'b) hstate" and A and key :: 'a and d :: 'b and node and e
  assume wf: "hash_wf s A"
  show "finite A"
    by (rule nodecount_card(1) [OF wf])
  { assume "hash_get s key = None"
    with wf show "hash_lookup s key = Some NULL"
      by (rule hash_find_absent) }
  { assume "hash_get s key = Some d"
    with hash_find_present [OF wf] show "\<exists>p\<in>A. hash_lookup s key = Some p \<and> p \<noteq> NULL \<and> hash_key (nd s p) = key"
      by blast }
  { assume "node \<notin> A" "node \<noteq> NULL" "hash_get s key = None" "card A < hash_limit s"
    with hash_alloc_insert_ok [OF wf, of node key e d] nodecount_card(2) [OF wf]
    show "\<exists>s'. hash_alloc_insert e node s key d = Some (1, s') \<and> hash_wf s' (insert node A)
         \<and> hash_get s' = (hash_get s)(key \<mapsto> d) \<and> hash_limit s' = hash_limit s"
      by auto }
  { fix p
    assume "p \<in> A"
    with hash_delete_free_ok [OF wf]
    show "\<exists>s'. hash_delete_free s p = Some s' \<and> hash_wf s' (A - {p})
         \<and> hash_get s' = (hash_get s)(hash_key (nd s p) := None) \<and> hash_limit s' = hash_limit s"
      by blast }
qed (simp_all add: hash_alloc_insert_def hash_delete_free_def)

end
