(* ===== verification/Hash_Properties.thy ===== *)
theory Hash_Properties
  imports Hash_Map
begin

text \<open>
  What the hash table promises, as statements about the operations of \<^verbatim>\<open>hash.c\<close>, with the
  concrete table of the witnesses.
\<close>

subsection \<open>A concrete table\<close>

definition blank :: "(string, int) hstate" where
  "blank = \<lparr>hs_heap = \<lambda>_. \<lparr>hash_next = NULL, hash_key = [], hash_data = 0, hash_hkey = 0\<rparr>,
     hs_hash = \<lparr>hash_table = [], hash_nchains = 0, hash_nodecount = 0, hash_maxcount = 0,
       hash_highmark = 0, hash_lowmark = 0, hash_compare = hash_comp_default,
       hash_function = hash_fun_default, hash_freenode = Hnode_free, hash_mask = 0, hash_dynamic = False\<rparr>,
     hash_val_t_bit = 0, hs_freed = []\<rparr>"

definition new_table :: "(string, int) hstate" where
  "new_table = snd (the (hash_create True (Some (\<lambda>_. 1)) 1000 hash_comp_default hash_fun_default blank))"

definition filled_table :: "(string, int) hstate" where
  "filled_table = snd (the (hash_alloc_insert None 8 new_table ''a'' 1))"

lemma hash_comp_default_eq: "hash_comp_default x y = 0 \<longleftrightarrow> x = y"
  unfolding hash_comp_default_def by (induction x y rule: strcmp.induct) auto

lemma new_table_ok:
  "hash_create True (Some (\<lambda>_. 1)) 1000 hash_comp_default hash_fun_default blank = Some (True, new_table)"
  "hash_wf new_table {}" "hash_nodecount (hs_hash new_table) = 0" "hash_maxcount (hs_hash new_table) = 1000"
  "hash_limit new_table = 1000" "hs_freed new_table = []"
  using hash_create_with_ok [of hash_comp_default Hnode_free "\<lambda>_. 1" 1000 hash_fun_default blank]
  by (auto simp: hash_create_def new_table_def hash_comp_default_eq hash_limit_def blank_def)

lemma filled_table_ok:
  "hash_alloc_insert None 8 new_table ''a'' 1 = Some (1, filled_table)"
  "hash_wf filled_table {8}" "hash_get filled_table = [''a'' \<mapsto> 1]" "hash_key (nd filled_table 8) = ''a''"
  "hs_freed filled_table = []"
proof -
  have "hash_get new_table ''a'' = None" "nodes_used new_table < hash_limit new_table"
    using hash_get_empty [OF new_table_ok(2)] new_table_ok by simp_all
  then obtain s' where
    "hash_alloc_insert None 8 new_table ''a'' 1 = Some (1, s')" "hash_wf s' {8}"
    "hash_get s' = [''a'' \<mapsto> 1]" "hash_key (nd s' 8) = ''a''" "hs_freed s' = []"
    using hash_alloc_insert_ok [OF new_table_ok(2), of 8 "''a''" None 1] hash_get_empty [OF new_table_ok(2)]
      new_table_ok(6) by (auto simp del: fun_upd_apply)
  then show
    "hash_alloc_insert None 8 new_table ''a'' 1 = Some (1, filled_table)"
    "hash_wf filled_table {8}" "hash_get filled_table = [''a'' \<mapsto> 1]" "hash_key (nd filled_table 8) = ''a''"
    "hs_freed filled_table = []"
    by (simp_all add: filled_table_def del: fun_upd_apply)
qed

subsection \<open>Resizing\<close>

lemma grow_table_wf:
  assumes wf: "hash_wf s A" and small: "hash_nchains (hs_hash s) < 2 ^ 60"
  shows "\<exists>t. grow_table r s = Some t \<and> hash_wf t A \<and> hash_get t = hash_get s
     \<and> hash_nchains (hs_hash t) = (if r = None then 1 else 2) * hash_nchains (hs_hash s)"
proof -
  from wf obtain k xss where rep: "hash_rep s k xss" and A: "A = set (concat xss)"
    by (auto simp: hash_wf_def)
  then have k: "k < 64" and n: "hash_nchains (hs_hash s) = 2 ^ k"
    by (auto simp: hash_rep_def params_def buckets_def)
  have "(2 :: nat) ^ k < 2 ^ 60"
    using small k unfolding n word_less_nat_alt by (simp add: unat_exp)
  then have k60: "k < 60"
    by (rule power_less_imp_less_exp [rotated]) simp
  show ?thesis
  proof (cases r)
    case None
    with grow_table_fail [OF rep k60] wf show ?thesis by auto
  next
    case (Some junk)
    from grow_table_ok [OF rep k60, of junk] obtain f t where
      g: "grow_table (Some junk) s = Some (grown s k f t)"
      and rep': "hash_rep (grown s k f t) (Suc k) (split_buckets s k xss)" by blast
    have st: "set (concat (split_buckets s k xss)) = set (concat xss)"
      by (rule mset_eq_setD [OF mset_split_buckets])
    have "hash_get (grown s k f t) = hash_get s"
      by (rule hash_get_same [OF rep rep' st]) (simp add: same_content_def)
    moreover have "hash_wf (grown s k f t) A"
      using hash_wfI [OF rep'] by (simp only: A st)
    moreover have "hash_nchains (hs_hash (grown s k f t)) = 2 * hash_nchains (hs_hash s)"
      by simp
    ultimately show ?thesis
      using g Some by (intro exI [of _ "grown s k f t"]) (simp only: option.distinct if_False simp_thms)
  qed
qed

lemma shrink_table_wf:
  assumes wf: "hash_wf s A" and big: "128 \<le> hash_nchains (hs_hash s)"
  shows "\<exists>t. shrink_table s = Some t \<and> hash_wf t A \<and> hash_get t = hash_get s
     \<and> hash_nchains (hs_hash t) = hash_nchains (hs_hash s) div 2"
proof -
  from wf obtain k xss where rep: "hash_rep s k xss" and A: "A = set (concat xss)"
    by (auto simp: hash_wf_def)
  then have k: "k < 64" and n: "hash_nchains (hs_hash s) = 2 ^ k" and len: "length xss = 2 ^ k"
    by (auto simp: hash_rep_def params_def buckets_def)
  have "unat (128 :: u64) \<le> 2 ^ k"
    using big k unfolding n word_le_nat_alt by (simp only: unat_exp)
  then have "(2 :: nat) ^ 7 \<le> 2 ^ k" by simp
  then have k7: "7 \<le> k"
    by (rule power_le_imp_le_exp [rotated]) simp
  have n2: "hash_nchains (hs_hash s) div 2 = 2 ^ (k - 1)"
    using k7 k unfolding n by (intro word_half_exp) simp_all
  from shrink_table_ok [OF rep k7] obtain f t where
    g: "shrink_table s = Some (shrunk s k f t)"
    and rep': "hash_rep (shrunk s k f t) (k - 1) (join_buckets (2 ^ (k - 1)) xss)" by blast
  have "length xss = 2 * 2 ^ (k - 1)"
    using len k7 by (cases k) simp_all
  then have st: "set (concat (join_buckets (2 ^ (k - 1)) xss)) = set (concat xss)"
    by (intro mset_eq_setD mset_join_buckets)
  have "hash_get (shrunk s k f t) = hash_get s"
    by (rule hash_get_same [OF rep rep' st]) (simp add: same_content_def)
  moreover have "hash_wf (shrunk s k f t) A"
    using hash_wfI [OF rep'] by (simp only: A st)
  moreover have "hash_nchains (hs_hash (shrunk s k f t)) = hash_nchains (hs_hash s) div 2"
    by (simp add: n2)
  ultimately show ?thesis
    using g by blast
qed

subsection \<open>Properties\<close>

text \<open>C38. Refinement of the finite map: a table made by \<^verbatim>\<open>hash_create3\<close>, driven by any sequence of
  "insert unless present" and "delete by key" on fresh nodes within its capacity, whatever the
  \<^verbatim>\<open>realloc\<close> results, passes every assertion of the code on the way (growth, shrinking and the
  verification walks included), and its lookups are those of the map the same sequence yields.\<close>

theorem hash_table_refines_map:
  assumes "\<And>x y. cmp x y = 0 \<longleftrightarrow> x = y"
    and "distinct (op_nodes ops)" "NULL \<notin> set (op_nodes ops)"
    and "length (op_nodes ops) \<le> min (unat maxcount) (2 ^ 60)"
  shows "\<exists>s0 s B. hash_create3 True (Some junk) maxcount cmp f init = Some (True, s0)
     \<and> foldM (run_op hash_lookup hash_alloc_insert hash_delete_free r) ops s0 = Some s
     \<and> hash_wf s B \<and> hash_get s = fold spec_op ops Map.empty"
proof -
  from hash_create_with_ok [of cmp Hnode_free3 junk maxcount f init, OF assms(1)] obtain s0 where
    s0: "hash_create3 True (Some junk) maxcount cmp f init = Some (True, s0)" "hash_wf s0 {}"
    "hash_maxcount (hs_hash s0) = maxcount"
    by (auto simp: hash_create3_def)
  have "card {} + length (op_nodes ops) \<le> hash_limit s0"
    using assms(4) s0(3) by (simp add: hash_limit_def)
  from hash.run_ops [OF s0(2) assms(2) _ assms(3) this] s0 hash_get_empty [OF s0(2)]
  show ?thesis by fastforce
qed

lemma hash_table_refines_map_witness:
  "\<exists>s0 s B. hash_create3 True (Some (\<lambda>_. 1)) 10 hash_comp_default hash_fun_default blank = Some (True, s0)
     \<and> foldM (run_op hash_lookup hash_alloc_insert hash_delete_free None)
         [Put 8 ''a'' 1, Put 9 ''b'' 2, Put 10 ''a'' 3, Del ''b''] s0 = Some s
     \<and> hash_wf s B \<and> hash_get s = fold spec_op [Put 8 ''a'' 1, Put 9 ''b'' 2, Put 10 ''a'' 3, Del ''b''] Map.empty"
  by (rule hash_table_refines_map) (simp_all add: hash_comp_default_eq)

text \<open>\<^verbatim>\<open>hash_alloc_insert\<close> of an absent key returns 1, keeps the table well-formed (chains by hash
  value, masks, marks, counts), adds the one binding, even when it has to double the table first,
  and frees nothing.\<close>

theorem hash_alloc_insert_correct:
  assumes "hash_wf s A" "node \<notin> A" "node \<noteq> NULL" "hash_get s key = None"
    and "nodes_used s < hash_limit s"
  shows "\<exists>s'. hash_alloc_insert r node s key d = Some (1, s') \<and> hash_wf s' (insert node A)
     \<and> hash_get s' = (hash_get s)(key \<mapsto> d) \<and> hash_data (nd s' node) = d \<and> hs_freed s' = hs_freed s"
  using hash_alloc_insert_ok [OF assms, of r d] by blast

lemma hash_alloc_insert_correct_witness:
  "\<exists>s'. hash_alloc_insert None 8 new_table ''a'' 1 = Some (1, s') \<and> hash_wf s' {8}
     \<and> hash_get s' = (hash_get new_table)(''a'' \<mapsto> 1) \<and> hash_data (nd s' 8) = 1
     \<and> hs_freed s' = hs_freed new_table"
  by (rule hash_alloc_insert_correct)
     (simp_all add: new_table_ok hash_get_empty [OF new_table_ok(2)])

text \<open>\<^verbatim>\<open>hash_delete\<close> of a linked node, shrinking included, removes exactly the binding of its key,
  keeps the table well-formed, leaves the node's key and data to the caller and clears its link, so
  that the node can be inserted again.\<close>

theorem hash_delete_correct:
  assumes "hash_wf s A" "node \<in> A"
  shows "\<exists>s'. hash_delete s node = Some s' \<and> hash_wf s' (A - {node})
     \<and> hash_get s' = (hash_get s)(hash_key (nd s node) := None)
     \<and> hash_nodecount (hs_hash s') = hash_nodecount (hs_hash s) - 1
     \<and> hash_next (nd s' node) = NULL \<and> hash_data (nd s' node) = hash_data (nd s node)
     \<and> hs_freed s' = hs_freed s"
  using hash_delete_ok [OF assms] by blast

lemma hash_delete_correct_witness:
  "\<exists>s'. hash_delete filled_table 8 = Some s' \<and> hash_wf s' ({8} - {8})
     \<and> hash_get s' = (hash_get filled_table)(hash_key (nd filled_table 8) := None)
     \<and> hash_nodecount (hs_hash s') = hash_nodecount (hs_hash filled_table) - 1
     \<and> hash_next (nd s' 8) = NULL \<and> hash_data (nd s' 8) = hash_data (nd filled_table 8)
     \<and> hs_freed s' = hs_freed filled_table"
  by (rule hash_delete_correct) (simp_all add: filled_table_ok)

text \<open>\<^verbatim>\<open>hash_lookup\<close> returns on every well-formed table: null when the key is bound to nothing, and
  otherwise the one linked node that holds the key.\<close>

theorem hash_lookup_correct:
  assumes "hash_wf s A"
  shows "\<exists>p. hash_lookup s key = Some p \<and> (if p = NULL then \<forall>a\<in>A. hash_key (nd s a) \<noteq> key
     else {a \<in> A. hash_key (nd s a) = key} = {p})"
proof -
  from assms obtain k xss where rep: "hash_rep s k xss" and A: "A = set (concat xss)"
    by (auto simp: hash_wf_def)
  have "inj_on (\<lambda>a. hash_key (nd s a)) A"
    using rep unfolding A by (simp add: hash_rep_def keyed_def)
  then have uniq: "{b \<in> A. hash_key (nd s b) = hash_key (nd s a)} = {a}" if "a \<in> A" for a
    using that by (auto dest: inj_onD)
  from hash_lookup_rep [OF rep, of key] consider a where "a \<in> A" "hash_key (nd s a) = key" "a \<noteq> NULL"
      "hash_lookup s key = Some a"
    | "\<forall>a\<in>A. hash_key (nd s a) \<noteq> key" "hash_lookup s key = Some NULL"
    unfolding A [symmetric] by blast
  then show ?thesis
    by cases (use uniq in auto)
qed

lemma hash_lookup_correct_witness:
  "\<exists>p. hash_lookup filled_table ''a'' = Some p \<and> (if p = NULL then \<forall>a\<in>{8}. hash_key (nd filled_table a) \<noteq> ''a''
     else {a \<in> {8}. hash_key (nd filled_table a) = ''a''} = {p})"
  by (rule hash_lookup_correct [OF filled_table_ok(2)])

text \<open>\<^verbatim>\<open>grow_table\<close> is invisible to clients: the doubled table (or, when \<^verbatim>\<open>realloc\<close> fails, the old
  one) holds the same nodes and the same bindings and passes \<^verbatim>\<open>hash_verify\<close>.\<close>

theorem grow_table_preserves:
  assumes "hash_wf s A" "hash_nchains (hs_hash s) < 2 ^ 60"
  shows "\<exists>t. grow_table r s = Some t \<and> hash_wf t A \<and> hash_get t = hash_get s
     \<and> hash_nchains (hs_hash t) = (if r = None then 1 else 2) * hash_nchains (hs_hash s)"
  by (rule grow_table_wf [OF assms])

lemma hash_create_chains:
  assumes "hash_create_with fr True (Some junk) m c f s = Some (True, s')"
  shows "hash_nchains (hs_hash s') = 64"
  using assms
  by (auto simp: hash_create_with_def clear_table_def upd_hash_def INIT_SIZE_64 Let_def
      simp del: upt_Suc split: bind_splits)

lemma new_table_chains: "hash_nchains (hs_hash new_table) = 64"
  using new_table_ok(1) unfolding hash_create_def by (rule hash_create_chains)

lemma grow_table_preserves_witness:
  "\<exists>t. grow_table (Some (\<lambda>_. 7)) new_table = Some t \<and> hash_wf t {} \<and> hash_get t = hash_get new_table
     \<and> hash_nchains (hs_hash t) = (if Some (\<lambda>_::nat. 7::addr) = None then 1 else 2) * hash_nchains (hs_hash new_table)"
  by (rule grow_table_preserves) (simp_all add: new_table_ok new_table_chains)

text \<open>\<^verbatim>\<open>shrink_table\<close> is invisible to clients as well: every high chain is appended to its low one.\<close>

theorem shrink_table_preserves:
  assumes "hash_wf s A" "128 \<le> hash_nchains (hs_hash s)"
  shows "\<exists>t. shrink_table s = Some t \<and> hash_wf t A \<and> hash_get t = hash_get s
     \<and> hash_nchains (hs_hash t) = hash_nchains (hs_hash s) div 2"
  by (rule shrink_table_wf [OF assms])

lemma shrink_table_preserves_witness:
  "\<exists>s t. grow_table (Some (\<lambda>_. 7)) new_table = Some s
     \<and> shrink_table s = Some t \<and> hash_wf t {} \<and> hash_get t = hash_get s
     \<and> hash_nchains (hs_hash t) = hash_nchains (hs_hash s) div 2"
proof -
  from grow_table_wf [OF new_table_ok(2), of "Some (\<lambda>_. 7)"] obtain s where
    s: "grow_table (Some (\<lambda>_. 7)) new_table = Some s" "hash_wf s {}" "hash_nchains (hs_hash s) = 128"
    by (auto simp: new_table_chains)
  with shrink_table_preserves [OF s(2)] show ?thesis by auto
qed

text \<open>\<^verbatim>\<open>hash_free\<close> returns, releases every linked node exactly once by the table's release function,
  and then the bucket array and the control structure.\<close>

theorem hash_free_releases_all:
  assumes "hash_wf s A"
  shows "\<exists>s' ns. hash_free hs s = Some s' \<and> distinct ns \<and> set ns = A
     \<and> hs_freed s' = hs_freed s @ concat (map (\<lambda>a. free_events (hash_freenode (hs_hash s)) (nd s a) a) ns)
         @ [FreeTable, FreeHash]"
  using hash_free_ok [OF assms, of hs] unfolding node_events_def .

lemma hash_free_releases_all_witness:
  "\<exists>s' ns. hash_free \<lparr>scan_chain = 5, scan_next = 5\<rparr> filled_table = Some s' \<and> distinct ns \<and> set ns = {8}
     \<and> hs_freed s' = hs_freed filled_table
         @ concat (map (\<lambda>a. free_events (hash_freenode (hs_hash filled_table)) (nd filled_table a) a) ns)
         @ [FreeTable, FreeHash]"
  by (rule hash_free_releases_all [OF filled_table_ok(2)])

end
