(* ===== verification/Kazlib_List.thy ===== *)
theory Kazlib_List
  imports Prelude
begin

text \<open>
  The doubly linked list of \<^verbatim>\<open>src/lib/u/list.c\<close> (Kazlib). The heap is kept one field at a time:
  \<open>list_next\<close>, \<open>list_prev\<close> and \<open>list_data\<close> are the members of the node at an address,
  \<open>list_nodecount\<close> and \<open>list_maxcount\<close> those of the list object at an address. A list is circular
  through its own \<^verbatim>\<open>nilnode\<close>, so the address of the list object stands for
  \<^verbatim>\<open>&list->nilnode\<close>. Walks that follow pointers are partial functions: a cycle that misses the
  sentinel is a loop that does not return.
\<close>

type_synonym listcount_t = u64

record 'a lheap =
  list_next :: "addr \<Rightarrow> addr"
  list_prev :: "addr \<Rightarrow> addr"
  list_data :: "addr \<Rightarrow> 'a"
  list_nodecount :: "addr \<Rightarrow> listcount_t"
  list_maxcount :: "addr \<Rightarrow> listcount_t"
  list_freed :: "addr list"
  list_data_freed :: "'a list"

definition lset_next :: "addr \<Rightarrow> addr \<Rightarrow> 'a lheap \<Rightarrow> 'a lheap" where
  "lset_next a p s = s\<lparr>list_next := (list_next s)(a := p)\<rparr>"

definition lset_prev :: "addr \<Rightarrow> addr \<Rightarrow> 'a lheap \<Rightarrow> 'a lheap" where
  "lset_prev a p s = s\<lparr>list_prev := (list_prev s)(a := p)\<rparr>"

definition lset_count :: "addr \<Rightarrow> listcount_t \<Rightarrow> 'a lheap \<Rightarrow> 'a lheap" where
  "lset_count l n s = s\<lparr>list_nodecount := (list_nodecount s)(l := n)\<rparr>"

definition lset_max :: "addr \<Rightarrow> listcount_t \<Rightarrow> 'a lheap \<Rightarrow> 'a lheap" where
  "lset_max l n s = s\<lparr>list_maxcount := (list_maxcount s)(l := n)\<rparr>"

subsection \<open>Nodes\<close>

definition lnode_init :: "addr \<Rightarrow> 'a \<Rightarrow> 'a lheap \<Rightarrow> 'a lheap" where
  "lnode_init n d s = lset_prev n NULL (lset_next n NULL (s\<lparr>list_data := (list_data s)(n := d)\<rparr>))"

text \<open>\<open>new\<close> is the result of \<^verbatim>\<open>malloc\<close>.\<close>

definition lnode_create :: "addr \<Rightarrow> 'a \<Rightarrow> 'a lheap \<Rightarrow> addr \<times> 'a lheap" where
  "lnode_create new d s =
     (if new \<noteq> NULL
      then (new, lset_prev new NULL (lset_next new NULL (s\<lparr>list_data := (list_data s)(new := d)\<rparr>)))
      else (new, s))"

definition lnode_is_in_a_list :: "'a lheap \<Rightarrow> addr \<Rightarrow> bool" where
  "lnode_is_in_a_list s n \<longleftrightarrow> list_next s n \<noteq> NULL \<or> list_prev s n \<noteq> NULL"

definition lnode_destroy :: "addr \<Rightarrow> 'a lheap \<Rightarrow> 'a lheap option" where
  "lnode_destroy n s = do {
     c_assert (\<not> lnode_is_in_a_list s n);
     Some (s\<lparr>list_freed := list_freed s @ [n]\<rparr>)
   }"

definition ow_lnode_put :: "addr \<Rightarrow> 'a \<Rightarrow> 'a lheap \<Rightarrow> 'a lheap" where
  "ow_lnode_put n d s = s\<lparr>list_data := (list_data s)(n := d)\<rparr>"

definition ow_lnode_get :: "'a lheap \<Rightarrow> addr \<Rightarrow> 'a" where
  "ow_lnode_get s n = list_data s n"

subsection \<open>Creation and queries\<close>

definition list_init :: "addr \<Rightarrow> listcount_t \<Rightarrow> 'a lheap \<Rightarrow> 'a lheap option" where
  "list_init l maxcount s = do {
     c_assert (maxcount \<noteq> 0);
     Some (lset_max l maxcount (lset_count l 0 (lset_prev l l (lset_next l l s))))
   }"

definition list_create :: "addr \<Rightarrow> listcount_t \<Rightarrow> 'a lheap \<Rightarrow> (addr \<times> 'a lheap) option" where
  "list_create new maxcount s =
     (if new \<noteq> NULL then do {
        c_assert (maxcount \<noteq> 0);
        Some (new, lset_max new maxcount (lset_count new 0 (lset_prev new new (lset_next new new s)))) }
      else Some (new, s))"

definition ow_list_isempty :: "'a lheap \<Rightarrow> addr \<Rightarrow> bool" where
  "ow_list_isempty s l = (if l = NULL then True else list_nodecount s l = 0)"

definition ow_list_isfull :: "'a lheap \<Rightarrow> addr \<Rightarrow> bool" where
  "ow_list_isfull s l = (if l = NULL then False else list_nodecount s l = list_maxcount s l)"

definition ow_list_count :: "'a lheap \<Rightarrow> addr \<Rightarrow> listcount_t" where
  "ow_list_count s l = list_nodecount s l"

definition ow_list_first :: "'a lheap \<Rightarrow> addr \<Rightarrow> addr" where
  "ow_list_first s l = (if l = NULL then NULL else if list_next s l = l then NULL else list_next s l)"

definition ow_list_last :: "'a lheap \<Rightarrow> addr \<Rightarrow> addr" where
  "ow_list_last s l = (if list_prev s l = l then NULL else list_prev s l)"

definition list_destroy :: "addr \<Rightarrow> 'a lheap \<Rightarrow> 'a lheap option" where
  "list_destroy l s = do {
     c_assert (ow_list_isempty s l);
     Some (s\<lparr>list_freed := list_freed s @ [l]\<rparr>)
   }"

partial_function (option) contains_loop :: "'a lheap \<Rightarrow> addr \<Rightarrow> addr \<Rightarrow> addr \<Rightarrow> bool option" where
  "contains_loop s l node n =
     (if n = l then Some False
      else if node = n then Some True
      else contains_loop s l node (list_next s n))"

definition list_contains :: "'a lheap \<Rightarrow> addr \<Rightarrow> addr \<Rightarrow> bool option" where
  "list_contains s l node = contains_loop s l node (list_next s l)"

definition ow_list_next :: "'a lheap \<Rightarrow> addr \<Rightarrow> addr \<Rightarrow> addr option" where
  "ow_list_next s l n = do {
     c \<leftarrow> list_contains s l n;
     c_assert c;
     Some (if list_next s n = l then NULL else list_next s n)
   }"

definition ow_list_prev :: "'a lheap \<Rightarrow> addr \<Rightarrow> addr \<Rightarrow> addr option" where
  "ow_list_prev s l n = do {
     c \<leftarrow> list_contains s l n;
     c_assert c;
     Some (if list_prev s n = l then NULL else list_prev s n)
   }"

partial_function (option) list_find_loop ::
  "'a lheap \<Rightarrow> addr \<Rightarrow> 'a \<Rightarrow> ('a \<Rightarrow> 'a \<Rightarrow> int) \<Rightarrow> addr \<Rightarrow> addr option" where
  "list_find_loop s l key compare node =
     (if node = l then Some NULL
      else if compare (list_data s node) key = 0 then Some node
      else list_find_loop s l key compare (list_next s node))"

definition list_find :: "'a lheap \<Rightarrow> addr \<Rightarrow> 'a \<Rightarrow> ('a \<Rightarrow> 'a \<Rightarrow> int) \<Rightarrow> addr option" where
  "list_find s l key compare = list_find_loop s l key compare (list_next s l)"

partial_function (option) is_sorted_loop ::
  "'a lheap \<Rightarrow> addr \<Rightarrow> ('a \<Rightarrow> 'a \<Rightarrow> int) \<Rightarrow> addr \<Rightarrow> addr \<Rightarrow> bool option" where
  "is_sorted_loop s l compare node nxt =
     (if nxt = l then Some True
      else if compare (list_data s node) (list_data s nxt) > 0 then Some False
      else is_sorted_loop s l compare nxt (list_next s nxt))"

definition list_is_sorted :: "'a lheap \<Rightarrow> addr \<Rightarrow> ('a \<Rightarrow> 'a \<Rightarrow> int) \<Rightarrow> bool option" where
  "list_is_sorted s l compare =
     (let node = list_next s l;
          nxt = (if node \<noteq> l then list_next s node else l)
      in is_sorted_loop s l compare node nxt)"

text \<open>The loop of \<^verbatim>\<open>list_verify\<close>; \<^verbatim>\<open>count--\<close> is evaluated only when the node is not the sentinel,
  and decrements also when it yields zero.\<close>

fun verify_loop :: "nat \<Rightarrow> 'a lheap \<Rightarrow> addr \<Rightarrow> addr \<Rightarrow> bool" where
  "verify_loop 0 s l node \<longleftrightarrow> node = l"
| "verify_loop (Suc count) s l node \<longleftrightarrow>
     (if node = l then False
      else if list_prev s (list_next s node) \<noteq> node then False
      else verify_loop count s l (list_next s node))"

definition list_verify :: "'a lheap \<Rightarrow> addr \<Rightarrow> bool" where
  "list_verify s l \<longleftrightarrow>
     (if list_prev s (list_next s l) \<noteq> l then False
      else if list_nodecount s l > list_maxcount s l then False
      else verify_loop (unat (list_nodecount s l)) s l (list_next s l))"

subsection \<open>Insertion and deletion\<close>

definition contains_or_nil :: "'a lheap \<Rightarrow> addr \<Rightarrow> addr \<Rightarrow> bool option" where
  "contains_or_nil s l this = (if this = l then Some True else list_contains s l this)"

definition list_ins_after :: "addr \<Rightarrow> addr \<Rightarrow> addr \<Rightarrow> 'a lheap \<Rightarrow> 'a lheap option" where
  "list_ins_after l new this s = do {
     let that = list_next s this;
     c_assert (new \<noteq> NULL);
     c \<leftarrow> list_contains s l new;
     c_assert (\<not> c);
     c_assert (\<not> lnode_is_in_a_list s new);
     c \<leftarrow> contains_or_nil s l this;
     c_assert c;
     c_assert (list_nodecount s l + 1 > list_nodecount s l);
     let s = lset_prev new this s;
     let s = lset_next new that s;
     let s = lset_prev that new s;
     let s = lset_next this new s;
     let s = lset_count l (list_nodecount s l + 1) s;
     c_assert (list_nodecount s l \<le> list_maxcount s l);
     Some s
   }"

definition list_ins_before :: "addr \<Rightarrow> addr \<Rightarrow> addr \<Rightarrow> 'a lheap \<Rightarrow> 'a lheap option" where
  "list_ins_before l new this s = do {
     let that = list_prev s this;
     c_assert (new \<noteq> NULL);
     c \<leftarrow> list_contains s l new;
     c_assert (\<not> c);
     c_assert (\<not> lnode_is_in_a_list s new);
     c \<leftarrow> contains_or_nil s l this;
     c_assert c;
     c_assert (list_nodecount s l + 1 > list_nodecount s l);
     let s = lset_next new this s;
     let s = lset_prev new that s;
     let s = lset_next that new s;
     let s = lset_prev this new s;
     let s = lset_count l (list_nodecount s l + 1) s;
     c_assert (list_nodecount s l \<le> list_maxcount s l);
     Some s
   }"

definition list_delete :: "addr \<Rightarrow> addr \<Rightarrow> 'a lheap \<Rightarrow> (addr \<times> 'a lheap) option" where
  "list_delete l del s = do {
     let nxt = list_next s del;
     let prv = list_prev s del;
     c \<leftarrow> list_contains s l del;
     c_assert c;
     let s = lset_next prv nxt s;
     let s = lset_prev nxt prv s;
     let s = lset_count l (list_nodecount s l - 1) s;
     let s = lset_next del NULL (lset_prev del NULL s);
     Some (del, s)
   }"

definition list_delete2 :: "addr \<Rightarrow> addr \<Rightarrow> 'a lheap \<Rightarrow> (addr \<times> 'a lheap) option" where
  "list_delete2 l del s = do {
     let nxt = list_next s del;
     let prv = list_prev s del;
     c \<leftarrow> list_contains s l del;
     c_assert c;
     let s = lset_next prv nxt s;
     let s = lset_prev nxt prv s;
     let s = lset_count l (list_nodecount s l - 1) s;
     let s = lset_next del NULL (lset_prev del NULL s);
     Some (if nxt = l then NULL else nxt, s)
   }"

definition ow_list_append :: "addr \<Rightarrow> addr \<Rightarrow> 'a lheap \<Rightarrow> 'a lheap option" where
  "ow_list_append l node s = list_ins_before l node l s"

definition ow_list_prepend :: "addr \<Rightarrow> addr \<Rightarrow> 'a lheap \<Rightarrow> 'a lheap option" where
  "ow_list_prepend l node s = list_ins_after l node l s"

definition ow_list_del_first :: "addr \<Rightarrow> 'a lheap \<Rightarrow> (addr \<times> 'a lheap) option" where
  "ow_list_del_first l s = list_delete l (list_next s l) s"

definition ow_list_del_last :: "addr \<Rightarrow> 'a lheap \<Rightarrow> (addr \<times> 'a lheap) option" where
  "ow_list_del_last l s = list_delete l (list_prev s l) s"

partial_function (option) destroy_nodes_loop :: "addr \<Rightarrow> addr \<Rightarrow> 'a lheap \<Rightarrow> 'a lheap option" where
  "destroy_nodes_loop l lnode s =
     (if lnode = l then Some s
      else do {
        let tmp = list_next s lnode;
        let s = lset_prev lnode NULL (lset_next lnode NULL s);
        let s = s\<lparr>list_data_freed := list_data_freed s @ [list_data s lnode]\<rparr>;
        s \<leftarrow> lnode_destroy lnode s;
        destroy_nodes_loop l tmp s })"

definition list_destroy_nodes :: "addr \<Rightarrow> 'a lheap \<Rightarrow> 'a lheap option" where
  "list_destroy_nodes l s = do {
     s \<leftarrow> destroy_nodes_loop l (list_next s l) s;
     list_init l (list_maxcount s l) s
   }"

text \<open>The callback of \<^verbatim>\<open>list_process\<close> may do anything to the heap and its context \<open>c\<close>; \<open>nxt\<close> is
  read before it runs.\<close>

partial_function (option) process_loop ::
  "(addr \<Rightarrow> addr \<Rightarrow> 'c \<Rightarrow> 'a lheap \<Rightarrow> ('c \<times> 'a lheap) option) \<Rightarrow> addr \<Rightarrow> addr \<Rightarrow> 'c \<Rightarrow> 'a lheap \<Rightarrow> ('c \<times> 'a lheap) option"
where
  "process_loop f l node c s =
     (if node = l then Some (c, s)
      else do {
        b \<leftarrow> list_contains s l node;
        c_assert b;
        let nxt = list_next s node;
        (c, s) \<leftarrow> f l node c s;
        process_loop f l nxt c s })"

definition list_process ::
  "(addr \<Rightarrow> addr \<Rightarrow> 'c \<Rightarrow> 'a lheap \<Rightarrow> ('c \<times> 'a lheap) option) \<Rightarrow> addr \<Rightarrow> 'c \<Rightarrow> 'a lheap \<Rightarrow> ('c \<times> 'a lheap) option"
where
  "list_process f l c s = process_loop f l (list_next s l) c s"

subsection \<open>Transfer, merge and sort\<close>

partial_function (option) count_moved :: "'a lheap \<Rightarrow> addr \<Rightarrow> addr \<Rightarrow> listcount_t \<Rightarrow> listcount_t option" where
  "count_moved s first lst moved =
     (if first \<noteq> lst then count_moved s (list_next s first) lst (moved + 1) else Some moved)"

definition ow_list_transfer :: "addr \<Rightarrow> addr \<Rightarrow> addr \<Rightarrow> 'a lheap \<Rightarrow> 'a lheap option" where
  "ow_list_transfer dest source first s =
     (if first = NULL then Some s
      else do {
        c \<leftarrow> list_contains s source first;
        c_assert c;
        let lst = list_prev s source;
        let s = lset_prev source (list_prev s first) s;
        let s = lset_next (list_prev s first) source s;
        let s = lset_next lst dest s;
        let s = lset_prev first (list_prev s dest) s;
        let s = lset_next (list_prev s dest) first s;
        let s = lset_prev dest lst s;
        moved \<leftarrow> count_moved s first lst 1;
        c_assert (moved \<le> list_nodecount s source);
        let s = lset_count source (list_nodecount s source - moved) s;
        let s = lset_count dest (list_nodecount s dest + moved) s;
        c_assert (list_verify s source);
        c_assert (list_verify s dest);
        Some s })"

partial_function (option) merge_loop ::
  "('a \<Rightarrow> 'a \<Rightarrow> int) \<Rightarrow> addr \<Rightarrow> addr \<Rightarrow> addr \<Rightarrow> addr \<Rightarrow> 'a lheap \<Rightarrow> (addr \<times> addr \<times> 'a lheap) option" where
  "merge_loop compare dest source dn sn s =
     (if dn \<noteq> dest \<and> sn \<noteq> source then
        if compare (list_data s dn) (list_data s sn) \<ge> 0 then do {
          let tn = list_next s sn;
          (_, s) \<leftarrow> list_delete source sn s;
          s \<leftarrow> list_ins_before dest sn dn s;
          merge_loop compare dest source dn tn s }
        else merge_loop compare dest source (list_next s dn) sn s
      else Some (dn, sn, s))"

definition ow_list_merge :: "('a \<Rightarrow> 'a \<Rightarrow> int) \<Rightarrow> addr \<Rightarrow> addr \<Rightarrow> 'a lheap \<Rightarrow> 'a lheap option" where
  "ow_list_merge compare dest source s =
     (if dest = source then Some s
      else do {
        b \<leftarrow> list_is_sorted s source compare;
        c_assert b;
        b \<leftarrow> list_is_sorted s dest compare;
        c_assert b;
        (dn, sn, s) \<leftarrow> merge_loop compare dest source (list_next s dest) (list_next s source) s;
        if dn \<noteq> dest then Some s
        else if sn \<noteq> source then ow_list_transfer dest source sn s
        else Some s })"

text \<open>\<open>fp\<close> is where the frame of the call keeps its local list \<^verbatim>\<open>extra\<close>; the frames of the recursive
  calls are the next ones on the stack.\<close>

partial_function (option) ow_list_sort :: "addr \<Rightarrow> addr \<Rightarrow> ('a \<Rightarrow> 'a \<Rightarrow> int) \<Rightarrow> 'a lheap \<Rightarrow> 'a lheap option" where
  "ow_list_sort fp l compare s = do {
     s \<leftarrow> (if ow_list_count s l > 1 then do {
            let middle = ow_list_count s l div 2;
            s \<leftarrow> list_init fp (ow_list_count s l - middle) s;
            let node = (list_next s ^^ unat middle) (list_next s l);
            s \<leftarrow> ow_list_transfer fp l node s;
            s \<leftarrow> ow_list_sort (Suc fp) l compare s;
            s \<leftarrow> ow_list_sort (Suc fp) fp compare s;
            ow_list_merge compare l fp s }
          else Some s);
     b \<leftarrow> list_is_sorted s l compare;
     c_assert b;
     Some s
   }"

end
