(* ===== verification/List_Correct.thy ===== *)
theory List_Correct
  imports Kazlib_List "HOL-Library.Multiset"
begin

text \<open>
  Correctness of the list operations: a list object represents the sequence of its nodes, and each
  operation is a function on that sequence. Sorting is refined to a merge sort on the data.
\<close>

subsection \<open>Segments\<close>

text \<open>The nodes \<open>xs\<close> lie between \<open>a\<close> and \<open>b\<close>, linked both ways.\<close>

fun lseg :: "(addr \<Rightarrow> addr) \<Rightarrow> (addr \<Rightarrow> addr) \<Rightarrow> addr \<Rightarrow> addr list \<Rightarrow> addr \<Rightarrow> bool" where
  "lseg nx pv a [] b \<longleftrightarrow> nx a = b \<and> pv b = a"
| "lseg nx pv a (x # xs) b \<longleftrightarrow> nx a = x \<and> pv x = a \<and> lseg nx pv x xs b"

lemma lseg_append:
  "lseg nx pv a (xs @ x # ys) b \<longleftrightarrow> lseg nx pv a xs x \<and> lseg nx pv x ys b"
  by (induction xs arbitrary: a) auto

lemma lseg_next_upd [simp]: "n \<notin> set (a # xs) \<Longrightarrow> lseg (nx(n := v)) pv a xs b = lseg nx pv a xs b"
  by (induction xs arbitrary: a) auto

lemma lseg_prev_upd [simp]: "n \<notin> set (xs @ [b]) \<Longrightarrow> lseg nx (pv(n := v)) a xs b = lseg nx pv a xs b"
  by (induction xs arbitrary: a) auto

lemma lseg_first: "lseg nx pv a xs b \<Longrightarrow> nx a = hd (xs @ [b])"
  by (cases xs) auto

lemma lseg_last: "lseg nx pv a xs b \<Longrightarrow> pv b = last (a # xs)"
  by (induction xs arbitrary: a) auto

lemma lseg_cong:
  "(\<And>x. x \<in> set (a # xs) \<Longrightarrow> nx x = nx' x) \<Longrightarrow> (\<And>x. x \<in> set (xs @ [b]) \<Longrightarrow> pv x = pv' x) \<Longrightarrow>
     lseg nx pv a xs b = lseg nx' pv' a xs b"
  by (induction xs arbitrary: a) auto

text \<open>Redirecting the end of a segment.\<close>

lemma lseg_redirect:
  "lseg nx pv a xs b \<Longrightarrow> distinct (a # xs) \<Longrightarrow> b \<notin> set xs \<Longrightarrow> c \<notin> set xs \<Longrightarrow>
     lseg (nx(last (a # xs) := c)) (pv(c := last (a # xs))) a xs c"
proof (induction xs arbitrary: a)
  case Nil
  then show ?case by simp
next
  case (Cons x xs)
  from Cons.IH [of x] Cons.prems have "lseg (nx(last (x # xs) := c)) (pv(c := last (x # xs))) x xs c"
    by (simp del: fun_upd_apply last.simps)
  moreover have "last (a # x # xs) = last (x # xs)" by simp
  moreover have "last (x # xs) \<in> set (x # xs)" by (rule last_in_set) simp
  ultimately show ?case
    using Cons.prems unfolding append_Cons lseg.simps by (intro conjI) (simp_all, auto)
qed

lemma lseg_insert:
  "lseg nx pv a (xs @ ys) b \<Longrightarrow> distinct (a # xs @ ys) \<Longrightarrow> b \<notin> set (xs @ ys) \<Longrightarrow> new \<notin> set (a # b # xs @ ys) \<Longrightarrow>
     lseg (nx(new := hd (ys @ [b]), last (a # xs) := new)) (pv(new := last (a # xs), hd (ys @ [b]) := new))
       a (xs @ new # ys) b"
proof (induction xs arbitrary: a)
  case Nil
  then show ?case by (cases ys) (simp_all del: fun_upd_apply add: fun_upd_same fun_upd_other)
next
  case (Cons x xs)
  have h: "hd (ys @ [b]) \<in> set (ys @ [b])" by (rule hd_in_set) simp
  have l: "last (x # xs) \<in> set (x # xs)" by (rule last_in_set) simp
  from Cons.IH [of x] Cons.prems
  have "lseg (nx(new := hd (ys @ [b]), last (x # xs) := new)) (pv(new := last (x # xs), hd (ys @ [b]) := new))
       x (xs @ new # ys) b"
    by (simp del: fun_upd_apply last.simps)
  moreover have "last (a # x # xs) = last (x # xs)" by simp
  ultimately show ?case
    using Cons.prems h l unfolding append_Cons lseg.simps by (intro conjI) (simp_all, auto)
qed

lemma lseg_delete:
  "lseg nx pv a (xs @ d # ys) b \<Longrightarrow> distinct (a # xs @ d # ys) \<Longrightarrow> b \<notin> set (xs @ d # ys) \<Longrightarrow>
     lseg (nx(last (a # xs) := hd (ys @ [b]))) (pv(hd (ys @ [b]) := last (a # xs))) a (xs @ ys) b"
proof (induction xs arbitrary: a)
  case Nil
  then show ?case by (cases ys) (simp_all del: fun_upd_apply add: fun_upd_same fun_upd_other)
next
  case (Cons x xs)
  have h: "hd (ys @ [b]) \<in> set (ys @ [b])" by (rule hd_in_set) simp
  have l: "last (x # xs) \<in> set (x # xs)" by (rule last_in_set) simp
  from Cons.IH [of x] Cons.prems
  have "lseg (nx(last (x # xs) := hd (ys @ [b]))) (pv(hd (ys @ [b]) := last (x # xs))) x (xs @ ys) b"
    by (simp del: fun_upd_apply last.simps)
  moreover have "last (a # x # xs) = last (x # xs)" by simp
  ultimately show ?case
    using Cons.prems h l unfolding append_Cons lseg.simps by (intro conjI) (simp_all, auto)
qed

definition dll :: "'a lheap \<Rightarrow> addr \<Rightarrow> addr list \<Rightarrow> bool" where
  "dll s l xs \<longleftrightarrow> lseg (list_next s) (list_prev s) l xs l \<and> distinct (l # xs) \<and> NULL \<notin> set (l # xs)"

text \<open>What the list object promises: the nodes, their number, and the bound.\<close>

definition list_ok :: "'a lheap \<Rightarrow> addr \<Rightarrow> addr list \<Rightarrow> bool" where
  "list_ok s l xs \<longleftrightarrow> dll s l xs \<and> unat (list_nodecount s l) = length xs
     \<and> length xs \<le> unat (list_maxcount s l)"

lemma lheap_simps [simp]:
  "list_next (lset_next a p s) = (list_next s)(a := p)" "list_prev (lset_next a p s) = list_prev s"
  "list_next (lset_prev a p s) = list_next s" "list_prev (lset_prev a p s) = (list_prev s)(a := p)"
  "list_next (lset_count l n s) = list_next s" "list_prev (lset_count l n s) = list_prev s"
  "list_next (lset_max l n s) = list_next s" "list_prev (lset_max l n s) = list_prev s"
  "list_data (lset_next a p s) = list_data s" "list_data (lset_prev a p s) = list_data s"
  "list_data (lset_count l n s) = list_data s" "list_data (lset_max l n s) = list_data s"
  "list_nodecount (lset_next a p s) = list_nodecount s" "list_nodecount (lset_prev a p s) = list_nodecount s"
  "list_nodecount (lset_count l n s) = (list_nodecount s)(l := n)" "list_nodecount (lset_max l n s) = list_nodecount s"
  "list_maxcount (lset_next a p s) = list_maxcount s" "list_maxcount (lset_prev a p s) = list_maxcount s"
  "list_maxcount (lset_count l n s) = list_maxcount s" "list_maxcount (lset_max l n s) = (list_maxcount s)(l := n)"
  "list_freed (lset_next a p s) = list_freed s" "list_freed (lset_prev a p s) = list_freed s"
  "list_freed (lset_count l n s) = list_freed s" "list_freed (lset_max l n s) = list_freed s"
  "list_data_freed (lset_next a p s) = list_data_freed s" "list_data_freed (lset_prev a p s) = list_data_freed s"
  "list_data_freed (lset_count l n s) = list_data_freed s" "list_data_freed (lset_max l n s) = list_data_freed s"
  by (simp_all add: lset_next_def lset_prev_def lset_count_def lset_max_def)

lemma dll_first: "dll s l xs \<Longrightarrow> list_next s l = hd (xs @ [l])"
  by (auto simp: dll_def dest: lseg_first)

lemma dll_last: "dll s l xs \<Longrightarrow> list_prev s l = last (l # xs)"
  unfolding dll_def by (blast dest: lseg_last)

lemma dll_next: "dll s l (xs @ x # ys) \<Longrightarrow> list_next s x = hd (ys @ [l])"
  unfolding dll_def lseg_append by (blast dest: lseg_first)

lemma dll_prev: "dll s l (xs @ x # ys) \<Longrightarrow> list_prev s x = last (l # xs)"
  unfolding dll_def lseg_append by (blast dest: lseg_last)

text \<open>Only the links of the list matter.\<close>

lemma dll_cong:
  "(\<And>x. x \<in> set (l # xs) \<Longrightarrow> list_next t x = list_next s x \<and> list_prev t x = list_prev s x) \<Longrightarrow>
     dll t l xs = dll s l xs"
  unfolding dll_def by (intro conj_cong refl lseg_cong) auto

subsection \<open>Walks\<close>

lemma contains_loop_ok:
  "lseg (list_next s) pv a xs l \<Longrightarrow> l \<notin> set xs \<Longrightarrow>
     contains_loop s l node (list_next s a) = Some (node \<in> set xs)"
proof (induction xs arbitrary: a)
  case Nil
  then show ?case by (subst contains_loop.simps) simp
next
  case (Cons x xs)
  then show ?case by (subst contains_loop.simps) auto
qed

lemma list_contains_ok: "dll s l xs \<Longrightarrow> list_contains s l node = Some (node \<in> set xs)"
  unfolding list_contains_def dll_def by (rule contains_loop_ok) auto

lemma contains_or_nil_ok: "dll s l xs \<Longrightarrow> contains_or_nil s l this = Some (this \<in> set (l # xs))"
  by (simp add: contains_or_nil_def list_contains_ok)

lemma list_find_loop_ok:
  "lseg (list_next s) pv a xs l \<Longrightarrow> l \<notin> set xs \<Longrightarrow>
     list_find_loop s l key cmp (list_next s a)
       = Some (case List.find (\<lambda>x. cmp (list_data s x) key = 0) xs of None \<Rightarrow> NULL | Some x \<Rightarrow> x)"
proof (induction xs arbitrary: a)
  case Nil
  then show ?case by (subst list_find_loop.simps) simp
next
  case (Cons x xs)
  then show ?case by (subst list_find_loop.simps) auto
qed

lemma list_find_ok:
  "dll s l xs \<Longrightarrow> list_find s l key cmp
     = Some (case List.find (\<lambda>x. cmp (list_data s x) key = 0) xs of None \<Rightarrow> NULL | Some x \<Rightarrow> x)"
  unfolding list_find_def dll_def by (rule list_find_loop_ok) auto

text \<open>Adjacent elements are in order.\<close>

fun in_order :: "('a \<Rightarrow> 'a \<Rightarrow> int) \<Rightarrow> 'a list \<Rightarrow> bool" where
  "in_order cmp (x # y # zs) \<longleftrightarrow> cmp x y \<le> 0 \<and> in_order cmp (y # zs)"
| "in_order cmp xs \<longleftrightarrow> True"

lemma is_sorted_loop_ok:
  "lseg (list_next s) pv x xs l \<Longrightarrow> l \<notin> set xs \<Longrightarrow>
     is_sorted_loop s l cmp x (list_next s x) = Some (in_order cmp (map (list_data s) (x # xs)))"
proof (induction xs arbitrary: x)
  case Nil
  then show ?case by (subst is_sorted_loop.simps) simp
next
  case (Cons y xs)
  then show ?case by (subst is_sorted_loop.simps) auto
qed

lemma list_is_sorted_ok:
  assumes "dll s l xs"
  shows "list_is_sorted s l cmp = Some (in_order cmp (map (list_data s) xs))"
proof (cases xs)
  case Nil
  with assms show ?thesis
    by (simp add: list_is_sorted_def dll_def) (subst is_sorted_loop.simps, simp)
next
  case (Cons x ys)
  with assms is_sorted_loop_ok [of s "list_prev s" x ys l cmp] show ?thesis
    by (auto simp: list_is_sorted_def dll_def)
qed

lemma verify_loop_ok:
  "lseg (list_next s) (list_prev s) a xs l \<Longrightarrow> l \<notin> set xs \<Longrightarrow> verify_loop (length xs) s l (list_next s a)"
proof (induction xs arbitrary: a)
  case (Cons x xs)
  then have "list_prev s (list_next s x) = x"
    by (cases xs) auto
  with Cons show ?case by auto
qed simp

lemma list_verify_ok: "list_ok s l xs \<Longrightarrow> list_verify s l"
  using verify_loop_ok [of s l xs l]
  by (cases xs) (auto simp: list_verify_def list_ok_def dll_def word_le_nat_alt not_less)

subsection \<open>Insertion and deletion\<close>

text \<open>What an operation on the nodes \<open>A\<close> of the lists \<open>L\<close> leaves alone.\<close>

definition lframe :: "addr set \<Rightarrow> addr set \<Rightarrow> 'a lheap \<Rightarrow> 'a lheap \<Rightarrow> bool" where
  "lframe A L s t \<longleftrightarrow> (\<forall>a. a \<notin> A \<longrightarrow> list_next t a = list_next s a \<and> list_prev t a = list_prev s a)
     \<and> list_data t = list_data s
     \<and> (\<forall>l. l \<notin> L \<longrightarrow> list_nodecount t l = list_nodecount s l \<and> list_maxcount t l = list_maxcount s l)
     \<and> list_freed t = list_freed s \<and> list_data_freed t = list_data_freed s"

lemma lframe_refl [simp]: "lframe A L s s"
  by (simp add: lframe_def)

lemma lframe_trans: "lframe A L s t \<Longrightarrow> lframe B M t u \<Longrightarrow> A \<subseteq> C \<Longrightarrow> B \<subseteq> C \<Longrightarrow> L \<subseteq> N \<Longrightarrow> M \<subseteq> N \<Longrightarrow> lframe C N s u"
  unfolding lframe_def by (elim conjE, intro conjI allI impI; metis subsetD)

lemma list_ok_frame:
  assumes "list_ok s l xs" "lframe A L s t" "set (l # xs) \<inter> A = {}" "l \<notin> L"
  shows "list_ok t l xs"
proof -
  have "dll t l xs = dll s l xs"
    using assms(2,3) by (intro dll_cong) (auto simp: lframe_def)
  with assms show ?thesis
    by (simp add: list_ok_def lframe_def)
qed

lemma count_not_max: "unat (n :: u64) < unat (m :: u64) \<Longrightarrow> n < n + 1 \<and> unat (n + 1) = Suc (unat n)"
proof -
  assume "unat n < unat m"
  then have "n < m" by (simp add: word_less_nat_alt)
  then have "n + 1 \<noteq> 0"
    using word_order.extremum_strict [of m] by (metis eq_neg_iff_add_eq_0)
  then show ?thesis
    by (simp add: unatSuc word_less_nat_alt add.commute)
qed

lemma dll_hd_prev:
  assumes "dll s l (xs @ ys)"
  shows "list_prev s (hd (ys @ [l])) = last (l # xs)" "list_next s (last (l # xs)) = hd (ys @ [l])"
proof -
  show "list_prev s (hd (ys @ [l])) = last (l # xs)"
    using assms dll_last [of s l xs] dll_prev [of s l xs "hd ys" "tl ys"] by (cases ys) auto
  show "list_next s (last (l # xs)) = hd (ys @ [l])"
    using assms dll_first [of s l ys] dll_next [of s l "butlast xs" "last xs" ys]
    by (cases xs rule: rev_cases) auto
qed

text \<open>Both insertions write the same heap.\<close>

definition inserted :: "addr \<Rightarrow> addr list \<Rightarrow> addr list \<Rightarrow> addr \<Rightarrow> 'a lheap \<Rightarrow> 'a lheap" where
  "inserted l xs ys new s = s\<lparr>
     list_next := (list_next s)(new := hd (ys @ [l]), last (l # xs) := new),
     list_prev := (list_prev s)(new := last (l # xs), hd (ys @ [l]) := new),
     list_nodecount := (list_nodecount s)(l := list_nodecount s l + 1)\<rparr>"

lemma inserted_ok:
  assumes ok: "list_ok s l (xs @ ys)" and fresh: "new \<noteq> NULL" "new \<notin> set (l # xs @ ys)"
    and room: "length (xs @ ys) < unat (list_maxcount s l)"
  shows "list_ok (inserted l xs ys new s) l (xs @ new # ys)"
    and "lframe (set (l # new # xs @ ys)) {l} s (inserted l xs ys new s)"
    and "list_maxcount (inserted l xs ys new s) = list_maxcount s"
    and "list_nodecount s l < list_nodecount s l + 1"
    and "list_nodecount s l + 1 \<le> list_maxcount s l"
proof -
  have d: "dll s l (xs @ ys)" and n: "unat (list_nodecount s l) = length (xs @ ys)"
    using ok by (simp_all add: list_ok_def)
  have c: "list_nodecount s l < list_nodecount s l + 1" "unat (list_nodecount s l + 1) = Suc (length (xs @ ys))"
    using count_not_max [of "list_nodecount s l" "list_maxcount s l"] room n by auto
  then show "list_nodecount s l < list_nodecount s l + 1" by blast
  have "lseg ((list_next s)(new := hd (ys @ [l]), last (l # xs) := new))
      ((list_prev s)(new := last (l # xs), hd (ys @ [l]) := new)) l (xs @ new # ys) l"
    using d fresh unfolding dll_def by (intro lseg_insert) auto
  with d fresh have "dll (inserted l xs ys new s) l (xs @ new # ys)"
    by (auto simp: dll_def inserted_def simp del: last.simps fun_upd_apply)
  with c room show "list_ok (inserted l xs ys new s) l (xs @ new # ys)"
    by (simp add: list_ok_def inserted_def)
  show "list_nodecount s l + 1 \<le> list_maxcount s l"
    using c room by (simp add: word_le_nat_alt)
  have "hd (ys @ [l]) \<in> set (l # ys)" "last (l # xs) \<in> set (l # xs)"
    by (cases ys; simp) (rule last_in_set, simp)
  then show "lframe (set (l # new # xs @ ys)) {l} s (inserted l xs ys new s)"
    unfolding lframe_def inserted_def by auto
qed (simp add: inserted_def)

lemma list_ins_before_ok:
  assumes ok: "list_ok s l (xs @ ys)" and fresh: "new \<noteq> NULL" "new \<notin> set (l # xs @ ys)"
    and unl: "list_next s new = NULL" "list_prev s new = NULL"
    and room: "length (xs @ ys) < unat (list_maxcount s l)"
  shows "list_ins_before l new (hd (ys @ [l])) s = Some (inserted l xs ys new s)"
proof -
  have d: "dll s l (xs @ ys)"
    using ok by (simp add: list_ok_def)
  have "hd (ys @ [l]) \<in> set (l # xs @ ys)"
    by (cases ys) simp_all
  moreover note inserted_ok(4,5) [OF ok fresh room] dll_hd_prev(1) [OF d]
  ultimately show ?thesis
    using fresh unl list_contains_ok [OF d, of new] contains_or_nil_ok [OF d, of "hd (ys @ [l])"]
    unfolding list_ins_before_def Let_def
    by (simp add: lnode_is_in_a_list_def inserted_def lset_next_def lset_prev_def lset_count_def
        fun_upd_same del: fun_upd_apply last.simps)
qed

lemma list_ins_after_ok:
  assumes ok: "list_ok s l (xs @ ys)" and fresh: "new \<noteq> NULL" "new \<notin> set (l # xs @ ys)"
    and unl: "list_next s new = NULL" "list_prev s new = NULL"
    and room: "length (xs @ ys) < unat (list_maxcount s l)"
  shows "list_ins_after l new (last (l # xs)) s = Some (inserted l xs ys new s)"
proof -
  have d: "dll s l (xs @ ys)"
    using ok by (simp add: list_ok_def)
  have "last (l # xs) \<in> set (l # xs)"
    by (rule last_in_set) simp
  then have "last (l # xs) \<in> set (l # xs @ ys)" by auto
  moreover note inserted_ok(4,5) [OF ok fresh room] dll_hd_prev(2) [OF d]
  ultimately show ?thesis
    using fresh unl list_contains_ok [OF d, of new] contains_or_nil_ok [OF d, of "last (l # xs)"]
    unfolding list_ins_after_def Let_def
    by (simp add: lnode_is_in_a_list_def inserted_def lset_next_def lset_prev_def lset_count_def
        fun_upd_same del: fun_upd_apply last.simps)
qed

definition deleted :: "addr \<Rightarrow> addr list \<Rightarrow> addr list \<Rightarrow> addr \<Rightarrow> 'a lheap \<Rightarrow> 'a lheap" where
  "deleted l xs ys d s = s\<lparr>
     list_next := (list_next s)(last (l # xs) := hd (ys @ [l]), d := NULL),
     list_prev := (list_prev s)(hd (ys @ [l]) := last (l # xs), d := NULL),
     list_nodecount := (list_nodecount s)(l := list_nodecount s l - 1)\<rparr>"

lemma list_delete_eq:
  assumes ok: "list_ok s l (xs @ d # ys)"
  shows "list_delete l d s = Some (d, deleted l xs ys d s)"
    and "list_delete2 l d s = Some (if ys = [] then NULL else hd ys, deleted l xs ys d s)"
proof -
  have dl: "dll s l (xs @ d # ys)"
    using ok by (simp add: list_ok_def)
  note p = list_contains_ok [OF dl, of d] dll_next [OF dl] dll_prev [OF dl]
  show "list_delete l d s = Some (d, deleted l xs ys d s)"
    unfolding list_delete_def Let_def
    by (simp add: p deleted_def lset_next_def lset_prev_def lset_count_def del: fun_upd_apply last.simps)
  have "hd (ys @ [l]) = l \<longleftrightarrow> ys = []"
    using dl by (cases ys) (auto simp: dll_def)
  then show "list_delete2 l d s = Some (if ys = [] then NULL else hd ys, deleted l xs ys d s)"
    unfolding list_delete2_def Let_def
    by (simp add: p deleted_def lset_next_def lset_prev_def lset_count_def del: fun_upd_apply last.simps)
qed

lemma deleted_ok:
  assumes ok: "list_ok s l (xs @ d # ys)"
  shows "list_ok (deleted l xs ys d s) l (xs @ ys)"
    and "lframe (set (l # xs @ d # ys)) {l} s (deleted l xs ys d s)"
    and "list_maxcount (deleted l xs ys d s) = list_maxcount s"
    and "list_next (deleted l xs ys d s) d = NULL" "list_prev (deleted l xs ys d s) d = NULL"
proof -
  have dl: "dll s l (xs @ d # ys)" and n: "unat (list_nodecount s l) = Suc (length (xs @ ys))"
    and m: "length (xs @ d # ys) \<le> unat (list_maxcount s l)"
    using ok by (simp_all add: list_ok_def)
  from dl have dist: "d \<notin> set (l # xs @ ys)" "distinct (l # xs @ ys)" "NULL \<notin> set (l # xs @ ys)"
    by (auto simp: dll_def)
  have "lseg ((list_next s)(last (l # xs) := hd (ys @ [l]))) ((list_prev s)(hd (ys @ [l]) := last (l # xs))) l (xs @ ys) l"
    using dl unfolding dll_def by (intro lseg_delete) auto
  with dist have "dll (deleted l xs ys d s) l (xs @ ys)"
    unfolding dll_def deleted_def by (auto simp del: last.simps fun_upd_apply)
  moreover have "unat (list_nodecount s l - 1) = length (xs @ ys)"
    using n unat_sub [of 1 "list_nodecount s l"] by (simp add: word_le_nat_alt)
  ultimately show "list_ok (deleted l xs ys d s) l (xs @ ys)"
    using m by (simp add: list_ok_def deleted_def)
  have "hd (ys @ [l]) \<in> set (l # ys)" "last (l # xs) \<in> set (l # xs)"
    by (cases ys; simp) (rule last_in_set, simp)
  then show "lframe (set (l # xs @ d # ys)) {l} s (deleted l xs ys d s)"
    unfolding lframe_def deleted_def by auto
qed (simp_all add: deleted_def)

subsection \<open>Creation and release\<close>

lemma list_init_ok:
  assumes "l \<noteq> NULL" "m \<noteq> 0"
  shows "\<exists>t. list_init l m s = Some t \<and> list_ok t l [] \<and> lframe {l} {l} s t \<and> list_maxcount t l = m"
  using assms
  by (auto simp: list_init_def list_ok_def dll_def lframe_def)

lemma list_create_ok:
  assumes "l \<noteq> NULL" "m \<noteq> 0"
  shows "\<exists>t. list_create l m s = Some (l, t) \<and> list_ok t l [] \<and> lframe {l} {l} s t \<and> list_maxcount t l = m"
  using assms
  by (auto simp: list_create_def list_ok_def dll_def lframe_def)

text \<open>The chain of successors alone.\<close>

fun npath :: "(addr \<Rightarrow> addr) \<Rightarrow> addr \<Rightarrow> addr list \<Rightarrow> addr \<Rightarrow> bool" where
  "npath nx p [] l \<longleftrightarrow> p = l"
| "npath nx p (x # xs) l \<longleftrightarrow> p = x \<and> npath nx (nx x) xs l"

lemma lseg_npath: "lseg nx pv a xs b \<Longrightarrow> npath nx (nx a) xs b"
  by (induction xs arbitrary: a) auto

lemma npath_upd [simp]: "n \<notin> set xs \<Longrightarrow> npath (nx(n := v)) p xs l = npath nx p xs l"
  by (induction xs arbitrary: p) auto

definition released :: "addr list \<Rightarrow> 'a lheap \<Rightarrow> 'a lheap \<Rightarrow> bool" where
  "released xs s t \<longleftrightarrow>
     list_freed t = list_freed s @ xs \<and> list_data_freed t = list_data_freed s @ map (list_data s) xs
     \<and> list_nodecount t = list_nodecount s \<and> list_maxcount t = list_maxcount s \<and> list_data t = list_data s
     \<and> (\<forall>x. x \<notin> set xs \<longrightarrow> list_next t x = list_next s x \<and> list_prev t x = list_prev s x)"

lemma destroy_nodes_loop_ok:
  "npath (list_next s) p xs l \<Longrightarrow> distinct xs \<Longrightarrow> l \<notin> set xs \<Longrightarrow>
     \<exists>t. destroy_nodes_loop l p s = Some t \<and> released xs s t"
proof (induction xs arbitrary: s p)
  case Nil
  then show ?case by (subst destroy_nodes_loop.simps) (simp add: released_def)
next
  case (Cons x xs)
  let ?s = "(lset_prev x NULL (lset_next x NULL s))
    \<lparr>list_data_freed := list_data_freed s @ [list_data s x], list_freed := list_freed s @ [x]\<rparr>"
  have "npath (list_next ?s) (list_next s x) xs l"
    using Cons.prems by (simp del: fun_upd_apply)
  from Cons.IH [OF this] Cons.prems obtain t where
    t: "destroy_nodes_loop l (list_next s x) ?s = Some t" "released xs ?s t" by auto
  have "destroy_nodes_loop l p s = Some t"
    using Cons.prems t(1) by (subst destroy_nodes_loop.simps)
      (simp add: lnode_destroy_def lnode_is_in_a_list_def Let_def)
  with t(2) show ?case
    by (simp add: released_def)
qed

lemma list_destroy_nodes_ok:
  assumes ok: "list_ok s l xs" and m: "list_maxcount s l \<noteq> 0"
  shows "\<exists>t. list_destroy_nodes l s = Some t \<and> list_ok t l []
     \<and> list_freed t = list_freed s @ xs \<and> list_data_freed t = list_data_freed s @ map (list_data s) xs"
proof -
  from ok have d: "dll s l xs" by (simp add: list_ok_def)
  from destroy_nodes_loop_ok [of s "list_next s l" xs l] d obtain t where
    t: "destroy_nodes_loop l (list_next s l) s = Some t" "released xs s t"
    by (auto simp: dll_def dest: lseg_npath)
  from list_init_ok [of l "list_maxcount t l" t] d m t(2) obtain u where
    "list_init l (list_maxcount t l) t = Some u" "list_ok u l []" "lframe {l} {l} t u"
    by (auto simp: dll_def released_def)
  with t show ?thesis
    by (auto simp: list_destroy_nodes_def lframe_def released_def)
qed

subsection \<open>Transfer\<close>

lemma count_moved_ok:
  "lseg (list_next s) pv x ys b \<Longrightarrow> distinct (x # ys) \<Longrightarrow>
     count_moved s x (last (x # ys)) n = Some (n + of_nat (length ys))"
proof (induction ys arbitrary: x n)
  case Nil
  then show ?case by (subst count_moved.simps) simp
next
  case (Cons y ys)
  then have "x \<noteq> last (y # ys)"
    using last_in_set [of "y # ys"] by auto
  with Cons show ?case
    by (subst count_moved.simps) (simp add: add_ac del: last.simps, simp)
qed

definition transferred :: "addr \<Rightarrow> addr list \<Rightarrow> addr \<Rightarrow> addr list \<Rightarrow> addr \<Rightarrow> addr list \<Rightarrow> 'a lheap \<Rightarrow> 'a lheap" where
  "transferred dest ds source xs y ys s = s\<lparr>
     list_next := (list_next s)(last (source # xs) := source, last (y # ys) := dest, last (dest # ds) := y),
     list_prev := (list_prev s)(source := last (source # xs), y := last (dest # ds), dest := last (y # ys)),
     list_nodecount := (list_nodecount s)(source := of_nat (length xs),
        dest := list_nodecount s dest + of_nat (length (y # ys)))\<rparr>"

lemma transferred_ok:
  assumes src: "list_ok s source (xs @ y # ys)" and dst: "list_ok s dest ds"
    and disj: "set (source # xs @ y # ys) \<inter> set (dest # ds) = {}"
    and room: "length ds + length (y # ys) \<le> unat (list_maxcount s dest)"
  shows "list_ok (transferred dest ds source xs y ys s) source xs"
    and "list_ok (transferred dest ds source xs y ys s) dest (ds @ y # ys)"
    and "lframe (set (source # xs @ y # ys) \<union> set (dest # ds)) {source, dest} s (transferred dest ds source xs y ys s)"
    and "list_maxcount (transferred dest ds source xs y ys s) = list_maxcount s"
proof -
  let ?t = "transferred dest ds source xs y ys s"
  obtain p q r where pqr: "last (source # xs) = p" "last (y # ys) = q" "last (dest # ds) = r"
    by blast
  let ?nx = "(list_next s)(p := source, q := dest, r := y)"
  let ?pv = "(list_prev s)(source := p, y := r, dest := q)"
  have t: "list_next ?t = ?nx" "list_prev ?t = ?pv"
    by (simp_all add: transferred_def pqr del: last.simps)
  have l: "p \<in> set (source # xs)" "q \<in> set (y # ys)" "r \<in> set (dest # ds)"
    unfolding pqr [symmetric] by (rule last_in_set, simp)+
  have dsrc: "distinct (source # xs @ y # ys)" "NULL \<notin> set (source # xs @ y # ys)"
    and ddst: "distinct (dest # ds)" "NULL \<notin> set (dest # ds)"
    using src dst by (auto simp: list_ok_def dll_def)
  have seg: "lseg (list_next s) (list_prev s) source xs y" "lseg (list_next s) (list_prev s) y ys source"
    "lseg (list_next s) (list_prev s) dest ds dest"
    using src dst by (auto simp: list_ok_def dll_def lseg_append)
  have A1: "q \<notin> set (source # xs)" "r \<notin> set (source # xs)" "y \<notin> set (xs @ [source])" "dest \<notin> set (xs @ [source])"
    using l dsrc disj by auto
  have A2: "p \<notin> set (y # ys)" "r \<notin> set (y # ys)" "source \<notin> set (ys @ [dest])" "y \<notin> set (ys @ [dest])"
    using l dsrc disj by auto
  have A3: "p \<notin> set (dest # ds)" "q \<notin> set (dest # ds)" "source \<notin> set (ds @ [y])" "dest \<notin> set (ds @ [y])"
    using l dsrc ddst disj by auto
  have "lseg ((list_next s)(p := source)) ((list_prev s)(source := p)) source xs source"
    using seg(1) dsrc unfolding pqr [symmetric] by (intro lseg_redirect [of _ _ _ _ y]) auto
  moreover have "lseg ?nx ?pv source xs source = lseg ((list_next s)(p := source)) ((list_prev s)(source := p)) source xs source"
    by (intro lseg_cong) (metis A1 fun_upd_apply)+
  ultimately have s1: "lseg ?nx ?pv source xs source" by blast
  have "lseg ((list_next s)(q := dest)) ((list_prev s)(dest := q)) y ys dest"
    using seg(2) dsrc disj unfolding pqr [symmetric] by (intro lseg_redirect [of _ _ _ _ source]) auto
  moreover have "lseg ?nx ?pv y ys dest = lseg ((list_next s)(q := dest)) ((list_prev s)(dest := q)) y ys dest"
    by (intro lseg_cong) (metis A2 fun_upd_apply)+
  ultimately have s2: "lseg ?nx ?pv y ys dest" by blast
  have "lseg ((list_next s)(r := y)) ((list_prev s)(y := r)) dest ds y"
    using seg(3) ddst disj unfolding pqr [symmetric] by (intro lseg_redirect [of _ _ _ _ dest]) auto
  moreover have "lseg ?nx ?pv dest ds y = lseg ((list_next s)(r := y)) ((list_prev s)(y := r)) dest ds y"
    by (intro lseg_cong) (metis A3 fun_upd_apply)+
  ultimately have s3: "lseg ?nx ?pv dest ds y" by blast
  have n: "unat (list_nodecount s source) = length (xs @ y # ys)" "unat (list_nodecount s dest) = length ds"
    "length (xs @ y # ys) \<le> unat (list_maxcount s source)"
    using src dst by (simp_all add: list_ok_def)
  have big: "length (xs @ y # ys) < 2 ^ 64" "length ds + length (y # ys) < 2 ^ 64"
    using n(1) unat_less_64 [of "list_nodecount s source"] room unat_less_64 [of "list_maxcount s dest"] by auto
  have "dll ?t source xs"
    using s1 dsrc unfolding dll_def t by auto
  moreover have "unat (of_nat (length xs) :: u64) = length xs"
    using big(1) by (simp add: unat_of_nat_64)
  moreover have ne: "source \<noteq> dest"
    using disj by auto
  ultimately show "list_ok ?t source xs"
    using n by (simp add: list_ok_def transferred_def)
  have "dll ?t dest (ds @ y # ys)"
    using s2 s3 dsrc ddst disj unfolding dll_def t lseg_append by auto
  moreover have "unat (list_nodecount s dest + of_nat (length (y # ys))) = length ds + length (y # ys)"
    using big(2) n(2) by (subst unat_add_64) (simp_all add: unat_of_nat_64 del: of_nat_Suc)
  ultimately show "list_ok ?t dest (ds @ y # ys)"
    using room by (simp add: list_ok_def transferred_def)
  show "lframe (set (source # xs @ y # ys) \<union> set (dest # ds)) {source, dest} s ?t"
    using l unfolding lframe_def transferred_def pqr by auto
qed (simp add: transferred_def)

lemma ow_list_transfer_ok:
  assumes src: "list_ok s source (xs @ y # ys)" and dst: "list_ok s dest ds"
    and disj: "set (source # xs @ y # ys) \<inter> set (dest # ds) = {}"
    and room: "length ds + length (y # ys) \<le> unat (list_maxcount s dest)"
  shows "ow_list_transfer dest source y s = Some (transferred dest ds source xs y ys s)"
proof -
  let ?t = "transferred dest ds source xs y ys s"
  note T = transferred_ok [OF assms]
  have d: "dll s source (xs @ y # ys)" "dll s dest ds"
    using src dst by (simp_all add: list_ok_def)
  have p: "list_prev s y = last (source # xs)" "list_prev s source = last (y # ys)" "list_prev s dest = last (dest # ds)"
    using dll_prev [OF d(1)] dll_last [OF d(1)] dll_last [OF d(2)] by simp_all
  have ne: "y \<noteq> NULL" "source \<noteq> dest" "y \<noteq> source" "y \<noteq> dest"
    using d(1) disj by (auto simp: dll_def)
  have "dll ?t dest (ds @ y # ys)"
    using T(2) by (simp add: list_ok_def)
  then have seg: "lseg (list_next ?t) (list_prev ?t) y ys dest" "distinct (y # ys)"
    by (auto simp: dll_def lseg_append)
  let ?u = "lset_prev dest (last (y # ys)) (lset_next (last (dest # ds)) y (lset_prev y (last (dest # ds))
    (lset_next (last (y # ys)) dest (lset_next (last (source # xs)) source (lset_prev source (last (source # xs)) s)))))"
  have u: "list_next ?u = list_next ?t" "list_prev ?u = list_prev ?t"
    by (simp_all add: transferred_def del: last.simps)
  have moved: "count_moved ?u y (last (y # ys)) 1 = Some (1 + of_nat (length ys))"
    using seg unfolding u [symmetric] by (rule count_moved_ok)
  have n: "unat (list_nodecount s source) = length (xs @ y # ys)"
    using src by (simp add: list_ok_def)
  then have big: "length (y # ys) < 2 ^ 64"
    using unat_less_64 [of "list_nodecount s source"] by simp
  have m: "(1 + of_nat (length ys) :: u64) = of_nat (length (y # ys))"
    by simp
  have le: "of_nat (length (y # ys)) \<le> list_nodecount s source"
    using n big by (simp add: word_le_nat_alt unat_of_nat_64 del: of_nat_Suc)
  have "unat (list_nodecount s source - of_nat (length (y # ys))) = length xs"
    using n big le by (simp add: unat_sub unat_of_nat_64 del: of_nat_Suc)
  moreover have "unat (of_nat (length xs) :: u64) = length xs"
    using n unat_less_64 [of "list_nodecount s source"] by (simp add: unat_of_nat_64)
  ultimately have sub: "list_nodecount s source - of_nat (length (y # ys)) = of_nat (length xs)"
    by (simp add: word_unat_eq_iff del: of_nat_Suc list.size)
  have fin: "lset_count dest (list_nodecount s dest + (1 + of_nat (length ys)))
     (lset_count source (of_nat (length xs)) ?u) = ?t"
    using ne by (simp add: transferred_def lset_next_def lset_prev_def lset_count_def del: last.simps)
  show ?thesis
    unfolding ow_list_transfer_def Let_def
    using ne list_contains_ok [OF d(1), of y] list_verify_ok [OF T(1)] list_verify_ok [OF T(2)]
      moved le [folded m] sub [folded m]
    by (simp add: p fin del: last.simps)
qed

subsection \<open>Merging\<close>

fun merge :: "('a \<Rightarrow> 'a \<Rightarrow> int) \<Rightarrow> 'a list \<Rightarrow> 'a list \<Rightarrow> 'a list" where
  "merge c [] es = es"
| "merge c ds [] = ds"
| "merge c (d # ds) (e # es) = (if c d e \<ge> 0 then e # merge c (d # ds) es else d # merge c ds (e # es))"

lemma mset_merge: "mset (merge c ds es) = mset ds + mset es"
  by (induction c ds es rule: merge.induct) auto

lemma map_merge: "map f (merge (\<lambda>x y. c (f x) (f y)) ds es) = merge c (map f ds) (map f es)"
  by (induction "\<lambda>x y. c (f x) (f y)" ds es rule: merge.induct) auto

lemma merge_Nil2 [simp]: "merge c ds [] = ds"
  by (cases ds) auto

text \<open>The comparison function is antisymmetric in sign; nothing more is needed for the order of
  neighbours.\<close>

definition cmp_sign :: "('a \<Rightarrow> 'a \<Rightarrow> int) \<Rightarrow> bool" where
  "cmp_sign c \<longleftrightarrow> (\<forall>x y. c x y \<ge> 0 \<longrightarrow> c y x \<le> 0)"

lemma in_order_Cons: "in_order c (x # ys) \<longleftrightarrow> (ys = [] \<or> c x (hd ys) \<le> 0) \<and> in_order c ys"
  by (cases ys) auto

lemma hd_merge:
  "(ds \<noteq> [] \<Longrightarrow> P (hd ds)) \<Longrightarrow> (es \<noteq> [] \<Longrightarrow> P (hd es)) \<Longrightarrow> merge c ds es = [] \<or> P (hd (merge c ds es))"
  by (cases ds; cases es) auto

lemma in_order_merge:
  "cmp_sign c \<Longrightarrow> in_order c ds \<Longrightarrow> in_order c es \<Longrightarrow> in_order c (merge c ds es)"
proof (induction c ds es rule: merge.induct)
  case (3 c d ds e es)
  have "c e d \<le> 0" if "c d e \<ge> 0"
    using that 3(3) by (simp add: cmp_sign_def)
  moreover have "c d e \<ge> 0 \<Longrightarrow> in_order c (merge c (d # ds) es)" "\<not> c d e \<ge> 0 \<Longrightarrow> in_order c (merge c ds (e # es))"
    using 3 by (simp_all add: in_order_Cons)
  moreover have "merge c (d # ds) es = [] \<or> c e (hd (merge c (d # ds) es)) \<le> 0" if "c e d \<le> 0"
    by (rule hd_merge) (use that 3(5) in \<open>auto simp: in_order_Cons\<close>)
  moreover have "merge c ds (e # es) = [] \<or> c d (hd (merge c ds (e # es))) \<le> 0" if "c d e \<le> 0"
    by (rule hd_merge) (use that 3(4) in \<open>auto simp: in_order_Cons\<close>)
  ultimately show ?case
    using 3(4,5) by (cases "c d e \<ge> 0") (simp_all add: in_order_Cons [of c d] in_order_Cons [of c e])
qed auto

lemma merge_loop_ok:
  assumes "c = (\<lambda>x y. cmp (dat x) (dat y))" "list_data s = dat"
    and "list_ok s dest (pre @ ds)" "list_ok s source es"
    and "set (dest # pre @ ds) \<inter> set (source # es) = {}"
    and "length (pre @ ds) + length es \<le> unat (list_maxcount s dest)"
  shows "\<exists>t ms r1 r2. merge_loop cmp dest source (hd (ds @ [dest])) (hd (es @ [source])) s
       = Some (hd (r1 @ [dest]), hd (r2 @ [source]), t)
     \<and> list_ok t dest (ms @ r1) \<and> list_ok t source r2 \<and> (r1 = [] \<or> r2 = [])
     \<and> ms @ r1 @ r2 = pre @ merge c ds es
     \<and> lframe (set (dest # pre @ ds) \<union> set (source # es)) {dest, source} s t
     \<and> list_maxcount t = list_maxcount s"
  using assms
proof (induction c ds es arbitrary: s pre rule: merge.induct)
  case (1 c es)
  then show ?case
    by (subst merge_loop.simps) (intro exI [of _ s] exI [of _ pre] exI [of _ "[]"] exI [of _ es], simp)
next
  case (2 c d ds)
  then show ?case
    by (subst merge_loop.simps) (intro exI [of _ s] exI [of _ pre] exI [of _ "d # ds"] exI [of _ "[]"], simp)
next
  case (3 c d ds e es)
  note dst = "3.prems"(3) and src = "3.prems"(4) and disj = "3.prems"(5) and room = "3.prems"(6)
  have ne: "d \<noteq> dest" "e \<noteq> source"
    using dst src by (auto simp: list_ok_def dll_def)
  have cde: "cmp (list_data s d) (list_data s e) = c d e"
    using "3.prems"(1,2) by simp
  show ?case
  proof (cases "c d e \<ge> 0")
    case True
    let ?u = "deleted source [] es e s"
    have del: "list_delete source e s = Some (e, ?u)"
      using list_delete_eq(1) [of s source "[]" e es] src by simp
    note U = deleted_ok [of s source "[]" e es, simplified, OF src]
    have dst': "list_ok ?u dest (pre @ d # ds)"
      using disj by (intro list_ok_frame [OF dst U(2)]) auto
    let ?v = "inserted dest pre (d # ds) e ?u"
    have e: "e \<noteq> NULL" "e \<notin> set (dest # pre @ d # ds)" "e \<notin> set es" "distinct es"
      using src disj by (auto simp: list_ok_def dll_def)
    have room': "length (pre @ d # ds) < unat (list_maxcount ?u dest)"
      using room U(3) by simp
    have ins: "list_ins_before dest e d ?u = Some ?v"
      using list_ins_before_ok [OF dst' e(1,2) U(4,5) room'] by simp
    note V = inserted_ok [OF dst' e(1,2) room']
    have src': "list_ok ?v source es"
      using disj e src by (intro list_ok_frame [OF U(1) V(2)]) (auto simp: list_ok_def dll_def)
    have data: "list_data ?v = dat"
      using U(2) V(2) "3.prems"(2) by (simp add: lframe_def)
    have nx: "list_next s e = hd (es @ [source])"
      using dll_next [of s source "[]" e es] src by (simp add: list_ok_def)
    have disj': "set (dest # (pre @ [e]) @ d # ds) \<inter> set (source # es) = {}"
      using disj e src by (auto simp: list_ok_def dll_def)
    have "list_ok ?v dest ((pre @ [e]) @ d # ds)"
      using V(1) by simp
    moreover have "length ((pre @ [e]) @ d # ds) + length es \<le> unat (list_maxcount ?v dest)"
      using room unfolding V(3) U(3) by simp
    ultimately obtain t ms r1 r2 where t: "merge_loop cmp dest source (hd ((d # ds) @ [dest])) (hd (es @ [source])) ?v
       = Some (hd (r1 @ [dest]), hd (r2 @ [source]), t)"
      "list_ok t dest (ms @ r1)" "list_ok t source r2" "r1 = [] \<or> r2 = []"
      "ms @ r1 @ r2 = (pre @ [e]) @ merge c (d # ds) es"
      "lframe (set (dest # (pre @ [e]) @ d # ds) \<union> set (source # es)) {dest, source} ?v t"
      "list_maxcount t = list_maxcount ?v"
      using 3(1) [OF True "3.prems"(1) data _ src' disj'] by blast
    have "lframe (set (dest # pre @ d # ds) \<union> set (source # e # es)) {dest, source} s ?v"
      by (rule lframe_trans [OF U(2) V(2)]) auto
    then have fr: "lframe (set (dest # pre @ d # ds) \<union> set (source # e # es)) {dest, source} s t"
      by (rule lframe_trans [OF _ t(6)]) auto
    have "merge_loop cmp dest source d e s = Some (hd (r1 @ [dest]), hd (r2 @ [source]), t)"
      using t(1) del ins nx ne True cde by (subst merge_loop.simps) simp
    with t(2-5) t(7) True fr V(3) U(3) show ?thesis
      by (intro exI [of _ t] exI [of _ ms] exI [of _ r1] exI [of _ r2]) simp
  next
    case False
    have nx: "list_next s d = hd (ds @ [dest])"
      using dll_next [of s dest pre d ds] dst by (simp add: list_ok_def)
    have "list_ok s dest ((pre @ [d]) @ ds)" "set (dest # (pre @ [d]) @ ds) \<inter> set (source # e # es) = {}"
      "length ((pre @ [d]) @ ds) + length (e # es) \<le> unat (list_maxcount s dest)"
      using dst disj room by auto
    from 3(2) [OF False "3.prems"(1,2) this(1) src this(2,3)] obtain t ms r1 r2 where
      t: "merge_loop cmp dest source (hd (ds @ [dest])) (hd ((e # es) @ [source])) s
       = Some (hd (r1 @ [dest]), hd (r2 @ [source]), t)"
      "list_ok t dest (ms @ r1)" "list_ok t source r2" "r1 = [] \<or> r2 = []"
      "ms @ r1 @ r2 = (pre @ [d]) @ merge c ds (e # es)"
      "lframe (set (dest # (pre @ [d]) @ ds) \<union> set (source # e # es)) {dest, source} s t"
      "list_maxcount t = list_maxcount s"
      by blast
    have "merge_loop cmp dest source d e s = Some (hd (r1 @ [dest]), hd (r2 @ [source]), t)"
      using t(1) nx ne False cde by (subst merge_loop.simps) simp
    with t False show ?thesis
      by (intro exI [of _ t] exI [of _ ms] exI [of _ r1] exI [of _ r2]) simp
  qed
qed

lemma in_order_map: "in_order cmp (map f xs) = in_order (\<lambda>x y. cmp (f x) (f y)) xs"
  by (induction "\<lambda>x y. cmp (f x) (f y)" xs rule: in_order.induct) auto

lemma ow_list_merge_ok:
  assumes dst: "list_ok s dest ds" and src: "list_ok s source es"
    and disj: "set (dest # ds) \<inter> set (source # es) = {}"
    and room: "length ds + length es \<le> unat (list_maxcount s dest)"
    and c: "c = (\<lambda>x y. cmp (list_data s x) (list_data s y))"
    and sorted: "in_order c ds" "in_order c es"
  shows "\<exists>t. ow_list_merge cmp dest source s = Some t \<and> list_ok t dest (merge c ds es) \<and> list_ok t source []
     \<and> lframe (set (dest # ds) \<union> set (source # es)) {dest, source} s t \<and> list_maxcount t = list_maxcount s"
proof -
  have d: "dll s dest ds" "dll s source es"
    using dst src by (simp_all add: list_ok_def)
  from merge_loop_ok [OF c refl, of dest "[]" ds source es] dst src disj room obtain t ms r1 r2 where
    t: "merge_loop cmp dest source (hd (ds @ [dest])) (hd (es @ [source])) s
       = Some (hd (r1 @ [dest]), hd (r2 @ [source]), t)"
     "list_ok t dest (ms @ r1)" "list_ok t source r2" "r1 = [] \<or> r2 = []" "ms @ r1 @ r2 = merge c ds es"
     "lframe (set (dest # ds) \<union> set (source # es)) {dest, source} s t" "list_maxcount t = list_maxcount s"
    by auto
  have sets: "set (ms @ r1 @ r2) = set ds \<union> set es"
    unfolding t(5) using mset_merge [of c ds es] by (metis set_mset_mset set_mset_union)
  have ne: "dest \<noteq> source" using disj by auto
  have start: "ow_list_merge cmp dest source s = (if hd (r1 @ [dest]) \<noteq> dest then Some t
        else if hd (r2 @ [source]) \<noteq> source then ow_list_transfer dest source (hd (r2 @ [source])) t
        else Some t)"
    using ne t(1) list_is_sorted_ok [OF d(1), of cmp] list_is_sorted_ok [OF d(2), of cmp] sorted
    by (simp add: ow_list_merge_def in_order_map c dll_first [OF d(1)] dll_first [OF d(2)])
  show ?thesis
  proof (cases r2)
    case Nil
    with start t show ?thesis by auto
  next
    case (Cons y ys)
    with t(4) have r1: "r1 = []" by auto
    have y: "y \<noteq> source"
      using t(3) Cons by (auto simp: list_ok_def dll_def)
    have all: "ms @ y # ys = merge c ds es"
      using t(5) r1 Cons by simp
    have "mset (ms @ y # ys) = mset (ds @ es)"
      by (simp only: all mset_merge mset_append)
    then have "distinct (ms @ y # ys)"
      using mset_eq_imp_distinct_iff d disj by (fastforce simp: dll_def)
    then have disj': "set (source # [] @ y # ys) \<inter> set (dest # ms) = {}"
      using sets r1 Cons disj d unfolding dll_def by auto
    have len: "length ms + length (y # ys) = length ds + length es"
      using arg_cong [OF t(5), of "\<lambda>x. size (mset x)"] Cons r1 by (simp add: mset_merge)
    have src': "list_ok t source ([] @ y # ys)" and dst': "list_ok t dest ms"
      using t(2,3) Cons r1 by simp_all
    note T = ow_list_transfer_ok [OF src' dst' disj'] transferred_ok [OF src' dst' disj']
    have "ow_list_merge cmp dest source s = Some (transferred dest ms source [] y ys t)"
      using start r1 Cons y T(1) t(7) room len by simp
    moreover have "lframe (set (dest # ds) \<union> set (source # es)) {dest, source} s (transferred dest ms source [] y ys t)"
      by (rule lframe_trans [OF t(6) T(4)]) (use sets r1 Cons t(7) room len in auto)
    moreover have "list_ok (transferred dest ms source [] y ys t) source []"
      "list_ok (transferred dest ms source [] y ys t) dest (merge c ds es)"
      "list_maxcount (transferred dest ms source [] y ys t) = list_maxcount s"
      using T(2,3,5) t(7) room len unfolding all [symmetric] by simp_all
    ultimately show ?thesis by blast
  qed
qed

subsection \<open>Sorting\<close>

function msort :: "('a \<Rightarrow> 'a \<Rightarrow> int) \<Rightarrow> 'a list \<Rightarrow> 'a list" where
  "msort c xs = (if length xs > 1
     then merge c (msort c (take (length xs div 2) xs)) (msort c (drop (length xs div 2) xs)) else xs)"
  by pat_completeness auto
termination
  by (relation "measure (\<lambda>(c, xs). length xs)") auto

declare msort.simps [simp del]

lemma mset_msort: "mset (msort c xs) = mset xs"
proof (induction c xs rule: msort.induct)
  case (1 c xs)
  then show ?case
    by (subst msort.simps) (simp add: mset_merge flip: mset_append)
qed

lemma length_msort [simp]: "length (msort c xs) = length xs"
  by (metis mset_msort size_mset)

lemma set_msort [simp]: "set (msort c xs) = set xs"
  by (metis mset_msort set_mset_mset)

lemma in_order_msort: "cmp_sign c \<Longrightarrow> in_order c (msort c xs)"
proof (induction c xs rule: msort.induct)
  case (1 c xs)
  have "in_order c xs" if "length xs \<le> 1"
    using that by (cases xs; cases "tl xs") auto
  with 1 show ?case
    by (subst msort.simps) (simp add: in_order_merge)
qed

lemma map_msort: "map f (msort (\<lambda>x y. c (f x) (f y)) xs) = msort c (map f xs)"
proof (induction "length xs" arbitrary: xs rule: less_induct)
  case less
  show ?case
  proof (cases "length xs > 1")
    case True
    with less [of "take (length xs div 2) xs"] less [of "drop (length xs div 2) xs"] show ?thesis
      by (subst (1 2) msort.simps) (simp add: map_merge take_map drop_map)
  next
    case False
    then show ?thesis by (subst (1 2) msort.simps) simp
  qed
qed

lemma npath_nth: "npath nx p xs l \<Longrightarrow> m < length xs \<Longrightarrow> (nx ^^ m) p = xs ! m"
proof (induction xs arbitrary: p m)
  case (Cons x xs)
  then show ?case
    by (cases m) (simp_all add: funpow_swap1)
qed simp

lemma ow_list_sort_ok:
  assumes "list_ok s l xs" "\<forall>a\<in>set (l # xs). a < fp" "list_data s = dat" "cmp_sign cmp"
  shows "\<exists>t. ow_list_sort fp l cmp s = Some t \<and> list_ok t l (msort (\<lambda>x y. cmp (dat x) (dat y)) xs)
     \<and> lframe (set (l # xs) \<union> {fp..}) ({l} \<union> {fp..}) s t \<and> list_maxcount t l = list_maxcount s l"
  using assms
proof (induction "length xs" arbitrary: xs s l fp rule: less_induct)
  case less
  let ?c = "\<lambda>x y. cmp (dat x) (dat y)"
  note ok = less.prems(1) and bound = less.prems(2) and data = less.prems(3)
  have sign: "cmp_sign ?c"
    using less.prems(4) by (simp add: cmp_sign_def)
  have fin: "list_is_sorted t l cmp = Some True" if "list_ok t l (msort ?c xs)" "list_data t = dat" for t
  proof -
    have "list_is_sorted t l cmp = Some (in_order ?c (msort ?c xs))"
      using that list_is_sorted_ok [of t l "msort ?c xs" cmp] by (simp add: list_ok_def in_order_map)
    then show ?thesis
      using in_order_msort [OF sign] by simp
  qed
  have n: "unat (list_nodecount s l) = length xs" and len: "length xs \<le> unat (list_maxcount s l)"
    using ok by (simp_all add: list_ok_def)
  have cnt: "(ow_list_count s l > 1) = (length xs > 1)"
    by (simp add: ow_list_count_def word_less_nat_alt n)
  show ?case
  proof (cases "length xs > 1")
    case False
    then have ms: "msort ?c xs = xs"
      by (subst msort.simps) simp
    then show ?thesis
      using False cnt fin [of s] ok data by (subst ow_list_sort.simps) (simp add: list_ok_def)
  next
    case True
    let ?m = "length xs div 2"
    let ?L = "take ?m xs" and ?R = "drop ?m xs"
    let ?mid = "ow_list_count s l div 2"
    have mid: "unat ?mid = ?m"
      by (simp add: ow_list_count_def unat_div n)
    have "?mid \<le> ow_list_count s l"
      by (simp add: word_le_nat_alt unat_div ow_list_count_def)
    then have rest: "unat (ow_list_count s l - ?mid) = length ?R"
      using mid by (simp add: unat_sub ow_list_count_def n)
    have "fp \<noteq> NULL"
      using bound by auto
    moreover have "ow_list_count s l - ?mid \<noteq> 0"
      using rest True by (auto simp: word_unat_eq_iff)
    ultimately obtain s1 where s1: "list_init fp (ow_list_count s l - ?mid) s = Some s1" "list_ok s1 fp []"
      "lframe {fp} {fp} s s1" "list_maxcount s1 fp = ow_list_count s l - ?mid"
      using list_init_ok by blast
    obtain y ys where y: "?R = y # ys"
      using True by (cases ?R) auto
    have "list_ok s1 l xs"
      using bound by (intro list_ok_frame [OF ok s1(3)]) auto
    then have l1: "list_ok s1 l (?L @ y # ys)"
      using y by (metis append_take_drop_id)
    have "dll s1 l xs"
      using \<open>list_ok s1 l xs\<close> by (simp add: list_ok_def)
    then have "(list_next s1 ^^ ?m) (list_next s1 l) = xs ! ?m"
      using True by (intro npath_nth [of _ _ _ l]) (auto simp: dll_def dest: lseg_npath)
    then have node: "(list_next s1 ^^ unat ?mid) (list_next s1 l) = y"
      using y True mid by (metis hd_drop_conv_nth list.sel(1) length_greater_0_conv drop_eq_Nil not_le list.distinct(1))
    have setxs: "set xs = set ?L \<union> set (y # ys)"
      by (metis append_take_drop_id set_append y)
    have dist: "distinct (l # ?L @ y # ys)"
      using l1 by (simp only: list_ok_def dll_def)
    have bL: "\<forall>a\<in>set (l # ?L). a < fp" and bR: "\<forall>a\<in>set (y # ys). a < fp"
      using bound unfolding set_simps setxs by blast+
    have disj1: "set (l # ?L @ y # ys) \<inter> set (fp # []) = {}"
      using bL bR by auto
    have lenR: "length (y # ys) = length ?R" "length ?L + length (y # ys) = length xs"
      unfolding y [symmetric] by simp_all
    have room1: "length [] + length (y # ys) \<le> unat (list_maxcount s1 fp)"
      unfolding s1(4) rest lenR by simp
    let ?t1 = "transferred fp [] l ?L y ys s1"
    note tr = ow_list_transfer_ok [OF l1 s1(2) disj1 room1]
    note T1 = transferred_ok [OF l1 s1(2) disj1 room1]
    have data1: "list_data ?t1 = dat"
      using T1(3) s1(3) data by (simp add: lframe_def)
    have max1: "list_maxcount ?t1 l = list_maxcount s l"
      using T1(4) s1(3) bL by (auto simp: lframe_def)
    have "\<exists>t2. ow_list_sort (Suc fp) l cmp ?t1 = Some t2 \<and> list_ok t2 l (msort ?c ?L)
       \<and> lframe (set (l # ?L) \<union> {Suc fp..}) ({l} \<union> {Suc fp..}) ?t1 t2 \<and> list_maxcount t2 l = list_maxcount ?t1 l"
      using True bL by (intro less.hyps T1(1) data1 less.prems(4)) auto
    then obtain t2 where t2: "ow_list_sort (Suc fp) l cmp ?t1 = Some t2" "list_ok t2 l (msort ?c ?L)"
      "lframe (set (l # ?L) \<union> {Suc fp..}) ({l} \<union> {Suc fp..}) ?t1 t2" "list_maxcount t2 l = list_maxcount ?t1 l"
      by blast
    have "list_ok ?t1 fp (y # ys)"
      using T1(2) by simp
    then have r2: "list_ok t2 fp ?R"
      unfolding y by (rule list_ok_frame [OF _ t2(3)]) (use bL bR dist in auto)
    have data2: "list_data t2 = dat"
      using t2(3) data1 by (simp add: lframe_def)
    have "\<exists>t3. ow_list_sort (Suc fp) fp cmp t2 = Some t3 \<and> list_ok t3 fp (msort ?c ?R)
       \<and> lframe (set (fp # ?R) \<union> {Suc fp..}) ({fp} \<union> {Suc fp..}) t2 t3 \<and> list_maxcount t3 fp = list_maxcount t2 fp"
    proof (intro less.hyps r2 data2 less.prems(4))
      show "length ?R < length xs" using True by simp
      show "\<forall>a\<in>set (fp # ?R). a < Suc fp" using bR unfolding y by auto
    qed
    then obtain t3 where t3: "ow_list_sort (Suc fp) fp cmp t2 = Some t3" "list_ok t3 fp (msort ?c ?R)"
      "lframe (set (fp # ?R) \<union> {Suc fp..}) ({fp} \<union> {Suc fp..}) t2 t3"
      by blast
    have l3: "list_ok t3 l (msort ?c ?L)"
      using t2(2) by (rule list_ok_frame [OF _ t3(3)]) (use bL bR dist y in auto)
    have data3: "list_data t3 = dat"
      using t3(3) data2 by (simp add: lframe_def)
    have max3: "list_maxcount t3 l = list_maxcount s l"
      using t3(3) t2(4) max1 bL by (auto simp: lframe_def)
    have disj3: "set (l # msort ?c ?L) \<inter> set (fp # msort ?c ?R) = {}"
      using bL bR dist by (auto simp: y)
    have room3: "length (msort ?c ?L) + length (msort ?c ?R) \<le> unat (list_maxcount t3 l)"
      using len lenR(2) unfolding max3 length_msort y by simp
    from ow_list_merge_ok [OF l3 t3(2) disj3 room3 _ in_order_msort [OF sign] in_order_msort [OF sign], of cmp] data3
    obtain t4 where t4: "ow_list_merge cmp l fp t3 = Some t4"
      "list_ok t4 l (merge ?c (msort ?c ?L) (msort ?c ?R))"
      "lframe (set (l # msort ?c ?L) \<union> set (fp # msort ?c ?R)) {l, fp} t3 t4" "list_maxcount t4 = list_maxcount t3"
      by auto
    have ms: "merge ?c (msort ?c ?L) (msort ?c ?R) = msort ?c xs"
      using True by (subst (3) msort.simps) simp
    have data4: "list_data t4 = dat"
      using t4(3) data3 by (simp add: lframe_def)
    let ?A = "set (l # xs) \<union> {fp..}" and ?N = "{l} \<union> {fp..}"
    have f1: "lframe ?A ?N s ?t1"
      by (rule lframe_trans [OF s1(3) T1(3)]) (auto simp: setxs)
    have f2: "lframe ?A ?N s t2"
      by (rule lframe_trans [OF f1 t2(3)]) (auto simp: setxs)
    have f3: "lframe ?A ?N s t3"
      by (rule lframe_trans [OF f2 t3(3)]) (auto simp: setxs y)
    have f4: "lframe ?A ?N s t4"
      by (rule lframe_trans [OF f3 t4(3)]) (auto simp: setxs y)
    have "ow_list_sort fp l cmp s = Some t4"
      using cnt True s1(1) node tr t2(1) t3(1) t4(1) fin [OF t4(2) [unfolded ms] data4]
      by (subst ow_list_sort.simps) (simp add: Let_def)
    then show ?thesis
      using t4(2,4) f4 max3 unfolding ms by auto
  qed
qed

end
