(* ===== verification/List_Properties.thy ===== *)
theory List_Properties
  imports List_Correct
begin

text \<open>
  What the lists promise. The locale \<open>node_list\<close> is the contract of a list used as a queue, with
  its interpretation on the operations of \<^verbatim>\<open>list.c\<close>; the properties follow, each with a witness on
  two concrete lists.
\<close>

subsection \<open>The list as a queue\<close>

text \<open>Append the nodes in order; take nodes from the front until \<open>n\<close> are out.\<close>

definition append_all :: "(addr \<Rightarrow> 's \<Rightarrow> 's option) \<Rightarrow> addr list \<Rightarrow> 's \<Rightarrow> 's option" where
  "append_all app ns s = foldM app ns s"

fun drain :: "('s \<Rightarrow> (addr \<times> 's) option) \<Rightarrow> nat \<Rightarrow> 's \<Rightarrow> (addr list \<times> 's) option" where
  "drain del 0 s = Some ([], s)"
| "drain del (Suc n) s = do {
     (x, s) \<leftarrow> del s;
     (xs, s) \<leftarrow> drain del n s;
     Some (x # xs, s)
   }"

locale node_list =
  fixes holds :: "'s \<Rightarrow> addr list \<Rightarrow> bool" and loose :: "'s \<Rightarrow> addr \<Rightarrow> bool" and bound :: "'s \<Rightarrow> nat"
    and app :: "addr \<Rightarrow> 's \<Rightarrow> 's option" and del :: "'s \<Rightarrow> (addr \<times> 's) option"
  assumes app_ok: "holds s xs \<Longrightarrow> loose s n \<Longrightarrow> n \<notin> set xs \<Longrightarrow> length xs < bound s \<Longrightarrow>
      \<exists>t. app n s = Some t \<and> holds t (xs @ [n]) \<and> bound t = bound s \<and> (\<forall>m. m \<noteq> n \<longrightarrow> loose s m \<longrightarrow> m \<notin> set xs \<longrightarrow> loose t m)"
    and del_ok: "holds s (x # xs) \<Longrightarrow> \<exists>t. del s = Some (x, t) \<and> holds t xs \<and> loose t x"
begin

lemma append_all_ok:
  "holds s xs \<Longrightarrow> distinct (xs @ ns) \<Longrightarrow> \<forall>n\<in>set ns. loose s n \<Longrightarrow> length xs + length ns \<le> bound s \<Longrightarrow>
     \<exists>t. append_all app ns s = Some t \<and> holds t (xs @ ns)"
proof (induction ns arbitrary: s xs)
  case (Cons n ns)
  then obtain t where t: "app n s = Some t" "holds t (xs @ [n])" "bound t = bound s"
    "\<forall>m. m \<noteq> n \<longrightarrow> loose s m \<longrightarrow> m \<notin> set xs \<longrightarrow> loose t m"
    using app_ok [of s xs n] by auto
  moreover have "\<forall>m\<in>set ns. loose t m"
    using Cons.prems t(4) by auto
  ultimately obtain u where "append_all app ns t = Some u" "holds u ((xs @ [n]) @ ns)"
    using Cons.IH [of t "xs @ [n]"] Cons.prems by auto
  with t(1) show ?case by (simp add: append_all_def)
qed (auto simp: append_all_def)

lemma drain_ok: "holds s (xs @ ys) \<Longrightarrow> \<exists>t. drain del (length xs) s = Some (xs, t) \<and> holds t ys"
proof (induction xs arbitrary: s)
  case (Cons x xs)
  then obtain t where t: "del s = Some (x, t)" "holds t (xs @ ys)"
    using del_ok [of s x "xs @ ys"] by auto
  from Cons.IH [OF t(2)] t(1) show ?case by auto
qed auto

lemma fifo:
  assumes "holds s xs" "distinct (xs @ ns)" "\<forall>n\<in>set ns. loose s n" "length xs + length ns \<le> bound s"
  shows "\<exists>t u. append_all app ns s = Some t \<and> drain del (length xs + length ns) t = Some (xs @ ns, u) \<and> holds u []"
proof -
  from append_all_ok [OF assms] obtain t where t: "append_all app ns s = Some t" "holds t ((xs @ ns) @ [])"
    by auto
  from drain_ok [OF t(2)] t(1) show ?thesis by auto
qed

end

definition unlinked :: "addr \<Rightarrow> 'a lheap \<Rightarrow> addr \<Rightarrow> bool" where
  "unlinked l s n \<longleftrightarrow> n \<noteq> NULL \<and> n \<noteq> l \<and> \<not> lnode_is_in_a_list s n"

lemma unlinked_frame: "lframe A L s t \<Longrightarrow> m \<notin> A \<Longrightarrow> unlinked l s m \<Longrightarrow> unlinked l t m"
  by (simp add: unlinked_def lnode_is_in_a_list_def lframe_def)

lemma ow_list_append_ok:
  assumes ok: "list_ok s l xs" and new: "unlinked l s n" "n \<notin> set xs" and room: "length xs < unat (list_maxcount s l)"
  shows "ow_list_append l n s = Some (inserted l xs [] n s)"
    and "list_ok (inserted l xs [] n s) l (xs @ [n])"
    and "lframe (set (l # n # xs)) {l} s (inserted l xs [] n s)"
    and "list_maxcount (inserted l xs [] n s) = list_maxcount s"
  using list_ins_before_ok [of s l xs "[]" n] inserted_ok [of s l xs "[]" n] assms
  by (simp_all add: ow_list_append_def unlinked_def lnode_is_in_a_list_def)

lemma ow_list_del_first_ok:
  assumes ok: "list_ok s l (x # xs)"
  shows "ow_list_del_first l s = Some (x, deleted l [] xs x s)"
    and "list_ok (deleted l [] xs x s) l xs" and "unlinked l (deleted l [] xs x s) x"
proof -
  have d: "dll s l (x # xs)"
    using ok by (simp add: list_ok_def)
  then have "list_next s l = x"
    by (simp add: dll_first)
  then show "ow_list_del_first l s = Some (x, deleted l [] xs x s)"
    using list_delete_eq(1) [of s l "[]" x xs] ok by (simp add: ow_list_del_first_def)
  show "list_ok (deleted l [] xs x s) l xs" "unlinked l (deleted l [] xs x s) x"
    using deleted_ok [of s l "[]" x xs] ok d
    by (auto simp: unlinked_def lnode_is_in_a_list_def dll_def)
qed

interpretation clist: node_list "\<lambda>s xs. list_ok s l xs" "unlinked l" "\<lambda>s. unat (list_maxcount s l)"
    "ow_list_append l" "ow_list_del_first l" for l
proof
  fix s :: "'a lheap" and xs n
  assume a: "list_ok s l xs" "unlinked l s n" "n \<notin> set xs" "length xs < unat (list_maxcount s l)"
  note A = ow_list_append_ok [OF a]
  have "unlinked l (inserted l xs [] n s) m" if "m \<noteq> n" "unlinked l s m" "m \<notin> set xs" for m
    by (rule unlinked_frame [OF A(3)]) (use that in \<open>auto simp: unlinked_def\<close>)
  with A show "\<exists>t. ow_list_append l n s = Some t \<and> list_ok t l (xs @ [n])
      \<and> unat (list_maxcount t l) = unat (list_maxcount s l)
      \<and> (\<forall>m. m \<noteq> n \<longrightarrow> unlinked l s m \<longrightarrow> m \<notin> set xs \<longrightarrow> unlinked l t m)"
    by auto
next
  fix s :: "'a lheap" and x xs
  assume "list_ok s l (x # xs)"
  from ow_list_del_first_ok [OF this]
  show "\<exists>t. ow_list_del_first l s = Some (x, t) \<and> list_ok t l xs \<and> unlinked l t x"
    by blast
qed

subsection \<open>Two concrete lists\<close>

text \<open>The list object at 100 holds the nodes 11, 12 and the one at 200 holds the node 13.\<close>

definition two_lists :: "int lheap" where
  "two_lists = \<lparr>
     list_next = (\<lambda>_. 0)(100 := 11, 11 := 12, 12 := 100, 200 := 13, 13 := 200),
     list_prev = (\<lambda>_. 0)(100 := 12, 11 := 100, 12 := 11, 200 := 13, 13 := 200),
     list_data = (\<lambda>_. 0)(11 := 7, 12 := 9, 13 := 8),
     list_nodecount = (\<lambda>_. 0)(100 := 2, 200 := 1),
     list_maxcount = (\<lambda>_. 0)(100 := 5, 200 := 5),
     list_freed = [], list_data_freed = []\<rparr>"

definition int_compare :: "int \<Rightarrow> int \<Rightarrow> int" where
  "int_compare x y = x - y"

lemma two_lists_ok: "list_ok two_lists 100 [11, 12]" "list_ok two_lists 200 [13]"
  by (simp_all add: list_ok_def dll_def two_lists_def)

lemma int_compare_sign: "cmp_sign int_compare"
  by (simp add: cmp_sign_def int_compare_def)

subsection \<open>Properties\<close>

text \<open>\<^verbatim>\<open>ow_list_sort\<close> returns on every well-formed list whose nodes lie outside the stack
  frames it uses: no assertion fails, the nodes of the list are a permutation of the old ones with
  neighbours in order, their data are the functional merge sort of the old data, no datum is moved
  between nodes and nothing outside the list and the frames is written.\<close>

theorem ow_list_sort_correct:
  assumes "list_ok s l xs" "\<forall>a\<in>set (l # xs). a < fp" "cmp_sign cmp"
  shows "\<exists>t ys. ow_list_sort fp l cmp s = Some t \<and> list_ok t l ys \<and> mset ys = mset xs
     \<and> in_order cmp (map (list_data t) ys) \<and> map (list_data t) ys = msort cmp (map (list_data s) xs)
     \<and> lframe (set (l # xs) \<union> {fp..}) ({l} \<union> {fp..}) s t"
proof -
  let ?c = "\<lambda>x y. cmp (list_data s x) (list_data s y)"
  from ow_list_sort_ok [OF assms(1,2) refl assms(3)] obtain t where
    t: "ow_list_sort fp l cmp s = Some t" "list_ok t l (msort ?c xs)"
    "lframe (set (l # xs) \<union> {fp..}) ({l} \<union> {fp..}) s t"
    by blast
  have "list_data t = list_data s"
    using t(3) by (simp add: lframe_def)
  then have "map (list_data t) (msort ?c xs) = msort cmp (map (list_data s) xs)"
    by (simp add: map_msort)
  with t in_order_msort [OF assms(3)] show ?thesis
    by (intro exI [of _ t] exI [of _ "msort ?c xs"]) (simp add: mset_msort)
qed

lemma ow_list_sort_correct_witness:
  "\<exists>t ys. ow_list_sort 300 100 int_compare two_lists = Some t \<and> list_ok t 100 ys \<and> mset ys = mset [11, 12]
     \<and> in_order int_compare (map (list_data t) ys)
     \<and> map (list_data t) ys = msort int_compare (map (list_data two_lists) [11, 12])
     \<and> lframe (set [100, 11, 12] \<union> {300..}) ({100} \<union> {300..}) two_lists t"
  by (rule ow_list_sort_correct) (simp_all add: two_lists_ok int_compare_sign)

text \<open>\<^verbatim>\<open>ow_list_merge\<close> of two ordered lists within the bound of the destination moves every node of
  the source into the destination, in order, and leaves the source empty; a source node goes before
  the destination nodes that compare equal to it.\<close>

theorem ow_list_merge_correct:
  assumes "list_ok s dest ds" "list_ok s source es" "set (dest # ds) \<inter> set (source # es) = {}"
    and "length ds + length es \<le> unat (list_maxcount s dest)"
    and "in_order cmp (map (list_data s) ds)" "in_order cmp (map (list_data s) es)" "cmp_sign cmp"
  shows "\<exists>t. ow_list_merge cmp dest source s = Some t
     \<and> list_ok t dest (merge (\<lambda>x y. cmp (list_data s x) (list_data s y)) ds es) \<and> list_ok t source []
     \<and> in_order cmp (map (list_data t) (merge (\<lambda>x y. cmp (list_data s x) (list_data s y)) ds es))
     \<and> lframe (set (dest # ds) \<union> set (source # es)) {dest, source} s t"
proof -
  from ow_list_merge_ok [OF assms(1-4) refl] assms(5,6) obtain t where
    t: "ow_list_merge cmp dest source s = Some t"
    "list_ok t dest (merge (\<lambda>x y. cmp (list_data s x) (list_data s y)) ds es)" "list_ok t source []"
    "lframe (set (dest # ds) \<union> set (source # es)) {dest, source} s t"
    by (auto simp: in_order_map)
  moreover have "list_data t = list_data s"
    using t(4) by (simp add: lframe_def)
  ultimately show ?thesis
    using in_order_merge [OF assms(7,5,6)] by (intro exI [of _ t]) (simp add: map_merge)
qed

lemma ow_list_merge_correct_witness:
  "\<exists>t. ow_list_merge int_compare 100 200 two_lists = Some t
     \<and> list_ok t 100 (merge (\<lambda>x y. int_compare (list_data two_lists x) (list_data two_lists y)) [11, 12] [13])
     \<and> list_ok t 200 []
     \<and> in_order int_compare (map (list_data t)
         (merge (\<lambda>x y. int_compare (list_data two_lists x) (list_data two_lists y)) [11, 12] [13]))
     \<and> lframe (set [100, 11, 12] \<union> set [200, 13]) {100, 200} two_lists t"
  by (rule ow_list_merge_correct)
     (simp_all add: two_lists_ok int_compare_sign, simp_all add: two_lists_def int_compare_def)

text \<open>\<^verbatim>\<open>ow_list_transfer\<close> splits the source before \<open>first\<close> and relocates the tail, in its order, to the
  end of the destination; both lists verify afterwards and the count of each is its length.\<close>

theorem ow_list_transfer_correct:
  assumes "list_ok s source (xs @ first # ys)" "list_ok s dest ds"
    and "set (source # xs @ first # ys) \<inter> set (dest # ds) = {}"
    and "length ds + length (first # ys) \<le> unat (list_maxcount s dest)"
  shows "\<exists>t. ow_list_transfer dest source first s = Some t
     \<and> list_ok t source xs \<and> list_ok t dest (ds @ first # ys) \<and> list_verify t source \<and> list_verify t dest
     \<and> lframe (set (source # xs @ first # ys) \<union> set (dest # ds)) {source, dest} s t"
  using ow_list_transfer_ok [OF assms] transferred_ok [OF assms] by (auto intro: list_verify_ok)

lemma ow_list_transfer_correct_witness:
  "\<exists>t. ow_list_transfer 200 100 12 two_lists = Some t
     \<and> list_ok t 100 [11] \<and> list_ok t 200 ([13] @ 12 # []) \<and> list_verify t 100 \<and> list_verify t 200
     \<and> lframe (set (100 # [11] @ 12 # []) \<union> set (200 # [13])) {100, 200} two_lists t"
  by (rule ow_list_transfer_correct) (simp_all add: two_lists_ok, simp_all add: two_lists_def)

text \<open>\<^verbatim>\<open>list_ins_before\<close> and \<^verbatim>\<open>list_ins_after\<close> at the same place write the same heap: the new node
  sits between the two halves of the list, which stays well-formed, and no other node is touched.\<close>

theorem list_insert_correct:
  assumes "list_ok s l (xs @ ys)" "new \<noteq> NULL" "new \<notin> set (l # xs @ ys)"
    and "list_next s new = NULL" "list_prev s new = NULL" "length (xs @ ys) < unat (list_maxcount s l)"
  shows "\<exists>t. list_ins_before l new (hd (ys @ [l])) s = Some t
     \<and> list_ins_after l new (last (l # xs)) s = Some t
     \<and> list_ok t l (xs @ new # ys) \<and> lframe (set (l # new # xs @ ys)) {l} s t"
  using list_ins_before_ok [OF assms] list_ins_after_ok [OF assms] inserted_ok [OF assms(1-3,6)] by blast

lemma list_insert_correct_witness:
  "\<exists>t. list_ins_before 100 50 (hd ([12] @ [100])) two_lists = Some t
     \<and> list_ins_after 100 50 (last [100, 11]) two_lists = Some t
     \<and> list_ok t 100 ([11] @ 50 # [12]) \<and> lframe (set (100 # 50 # [11] @ [12])) {100} two_lists t"
  by (rule list_insert_correct) (simp_all add: two_lists_ok, simp_all add: two_lists_def)

text \<open>\<^verbatim>\<open>list_delete\<close> and \<^verbatim>\<open>list_delete2\<close> unlink the node and write the same heap; the first returns the
  node, the second its successor or null at the end of the list; the node's own links are null.\<close>

theorem list_delete_correct:
  assumes "list_ok s l (xs @ d # ys)"
  shows "\<exists>t. list_delete l d s = Some (d, t) \<and> list_delete2 l d s = Some (if ys = [] then NULL else hd ys, t)
     \<and> list_ok t l (xs @ ys) \<and> \<not> lnode_is_in_a_list t d \<and> lframe (set (l # xs @ d # ys)) {l} s t"
  using list_delete_eq [OF assms] deleted_ok [OF assms] by (auto simp: lnode_is_in_a_list_def)

lemma list_delete_correct_witness:
  "\<exists>t. list_delete 100 11 two_lists = Some (11, t)
     \<and> list_delete2 100 11 two_lists = Some (if [12 :: addr] = [] then NULL else hd [12], t)
     \<and> list_ok t 100 ([] @ [12]) \<and> \<not> lnode_is_in_a_list t 11 \<and> lframe (set (100 # [] @ 11 # [12])) {100} two_lists t"
  by (rule list_delete_correct) (simp add: two_lists_ok)

text \<open>A list is a queue: nodes appended with \<^verbatim>\<open>ow_list_append\<close> come out of \<^verbatim>\<open>ow_list_del_first\<close> in
  the order they went in, after those already there, and the list ends up empty.\<close>

theorem list_is_fifo:
  assumes "list_ok s l xs" "distinct (xs @ ns)" "\<forall>n\<in>set ns. unlinked l s n"
    and "length xs + length ns \<le> unat (list_maxcount s l)"
  shows "\<exists>t u. append_all (ow_list_append l) ns s = Some t
     \<and> drain (ow_list_del_first l) (length xs + length ns) t = Some (xs @ ns, u) \<and> list_ok u l []"
  by (rule clist.fifo [OF assms])

lemma list_is_fifo_witness:
  "\<exists>t u. append_all (ow_list_append 100) [60, 50] two_lists = Some t
     \<and> drain (ow_list_del_first 100) (length [11 :: addr, 12] + length [60 :: addr, 50]) t
         = Some ([11, 12] @ [60, 50], u) \<and> list_ok u 100 []"
  by (rule list_is_fifo)
     (simp_all add: two_lists_ok, simp_all add: unlinked_def lnode_is_in_a_list_def two_lists_def)

text \<open>\<^verbatim>\<open>list_destroy_nodes\<close> returns, frees every node and its datum once, in list order, and leaves a
  well-formed empty list with the old bound.\<close>

theorem list_destroy_nodes_correct:
  assumes "list_ok s l xs" "list_maxcount s l \<noteq> 0"
  shows "\<exists>t. list_destroy_nodes l s = Some t \<and> list_ok t l []
     \<and> list_freed t = list_freed s @ xs \<and> list_data_freed t = list_data_freed s @ map (list_data s) xs"
  by (rule list_destroy_nodes_ok [OF assms])

lemma list_destroy_nodes_correct_witness:
  "\<exists>t. list_destroy_nodes 100 two_lists = Some t \<and> list_ok t 100 []
     \<and> list_freed t = list_freed two_lists @ [11, 12]
     \<and> list_data_freed t = list_data_freed two_lists @ map (list_data two_lists) [11, 12]"
  by (rule list_destroy_nodes_correct) (simp_all add: two_lists_ok, simp_all add: two_lists_def)

end
