(* ===== verification/Md5.thy ===== *)
theory Md5
  imports Prelude
begin

text \<open>
  The two MD5 implementations of the tree: \<^verbatim>\<open>src/lib/u/md5.c\<close> (\<^verbatim>\<open>md5_init\<close>, \<^verbatim>\<open>md5_append\<close>,
  \<^verbatim>\<open>md5_finish\<close>) and \<^verbatim>\<open>src/server/shttpd/md5.c\<close> (\<^verbatim>\<open>MD5Init\<close>, \<^verbatim>\<open>MD5Update\<close>, \<^verbatim>\<open>MD5Final\<close>), each
  with its own context, buffering, padding and round function, on a little-endian target. The 64
  unrolled steps of a transform are a table of operands: a step rewrites the first of its four
  registers and the next one is called with the registers rotated, so that after 64 steps they
  are back in place. Copies into a context buffer are checked.
\<close>

type_synonym regs = "u32 \<times> u32 \<times> u32 \<times> u32"

definition le32 :: "u8 list \<Rightarrow> u32" where
  "le32 bs = ucast (bs ! 0) OR push_bit 8 (ucast (bs ! 1)) OR push_bit 16 (ucast (bs ! 2))
     OR push_bit 24 (ucast (bs ! 3))"

text \<open>The array of sixteen words that a block of 64 bytes is read as.\<close>

definition words_of :: "u8 list \<Rightarrow> u32 list" where
  "words_of bs = map (\<lambda>i. le32 (take 4 (drop (4 * i) bs))) [0..<16]"

text \<open>Byte \<open>i\<close> of an array of words.\<close>

definition byte_of :: "u32 list \<Rightarrow> nat \<Rightarrow> u8" where
  "byte_of ws i = ucast (drop_bit (8 * (i mod 4)) (ws ! (i div 4)))"

definition rotate_left :: "u32 \<Rightarrow> nat \<Rightarrow> u32" where
  "rotate_left x n = push_bit n x OR drop_bit (32 - n) x"

subsection \<open>\<^verbatim>\<open>lib/u/md5.c\<close>\<close>

definition T_MASK :: u32 where
  "T_MASK = NOT 0"

definition T_table :: "u32 list" where
  "T_table = [
     T_MASK XOR 0x28955b87, T_MASK XOR 0x173848a9, 0x242070db, T_MASK XOR 0x3e423111,
     T_MASK XOR 0x0a83f050, 0x4787c62a, T_MASK XOR 0x57cfb9ec, T_MASK XOR 0x02b96afe,
     0x698098d8, T_MASK XOR 0x74bb0850, T_MASK XOR 0x0000a44e, T_MASK XOR 0x76a32841,
     0x6b901122, T_MASK XOR 0x02678e6c, T_MASK XOR 0x5986bc71, 0x49b40821,
     T_MASK XOR 0x09e1da9d, T_MASK XOR 0x3fbf4cbf, 0x265e5a51, T_MASK XOR 0x16493855,
     T_MASK XOR 0x29d0efa2, 0x02441453, T_MASK XOR 0x275e197e, T_MASK XOR 0x182c0437,
     0x21e1cde6, T_MASK XOR 0x3cc8f829, T_MASK XOR 0x0b2af278, 0x455a14ed,
     T_MASK XOR 0x561c16fa, T_MASK XOR 0x03105c07, 0x676f02d9, T_MASK XOR 0x72d5b375,
     T_MASK XOR 0x0005c6bd, T_MASK XOR 0x788e097e, 0x6d9d6122, T_MASK XOR 0x021ac7f3,
     T_MASK XOR 0x5b4115bb, 0x4bdecfa9, T_MASK XOR 0x0944b49f, T_MASK XOR 0x4140438f,
     0x289b7ec6, T_MASK XOR 0x155ed805, T_MASK XOR 0x2b10cf7a, 0x04881d05,
     T_MASK XOR 0x262b2fc6, T_MASK XOR 0x1924661a, 0x1fa27cf8, T_MASK XOR 0x3b53a99a,
     T_MASK XOR 0x0bd6ddbb, 0x432aff97, T_MASK XOR 0x546bdc58, T_MASK XOR 0x036c5fc6,
     0x655b59c3, T_MASK XOR 0x70f3336d, T_MASK XOR 0x00100b82, T_MASK XOR 0x7a7ba22e,
     0x6fa87e4f, T_MASK XOR 0x01d3191f, T_MASK XOR 0x5cfebceb, 0x4e0811a1,
     T_MASK XOR 0x08ac817d, T_MASK XOR 0x42c50dca, 0x2ad7d2bb, T_MASK XOR 0x14792c6e]"

definition T :: "nat \<Rightarrow> u32" where
  "T i = T_table ! (i - 1)"

definition md5_F :: "u32 \<Rightarrow> u32 \<Rightarrow> u32 \<Rightarrow> u32" where
  "md5_F x y z = (x AND y) OR (NOT x AND z)"

definition md5_G :: "u32 \<Rightarrow> u32 \<Rightarrow> u32 \<Rightarrow> u32" where
  "md5_G x y z = (x AND z) OR (y AND NOT z)"

definition md5_H :: "u32 \<Rightarrow> u32 \<Rightarrow> u32 \<Rightarrow> u32" where
  "md5_H x y z = x XOR y XOR z"

definition md5_I :: "u32 \<Rightarrow> u32 \<Rightarrow> u32 \<Rightarrow> u32" where
  "md5_I x y z = y XOR (x OR NOT z)"

definition SET :: "(u32 \<Rightarrow> u32 \<Rightarrow> u32 \<Rightarrow> u32) \<Rightarrow> u32 list \<Rightarrow> nat \<times> nat \<times> u32 \<Rightarrow> regs \<Rightarrow> regs" where
  "SET f X = (\<lambda>(k, s, Ti) (a, b, c, d).
     let t = a + f b c d + X ! k + Ti;
         a = rotate_left t s + b
     in (d, a, b, c))"

definition round1 :: "(nat \<times> nat \<times> u32) list" where
  "round1 = [
     (0, 7, T 1), (1, 12, T 2), (2, 17, T 3), (3, 22, T 4),
     (4, 7, T 5), (5, 12, T 6), (6, 17, T 7), (7, 22, T 8),
     (8, 7, T 9), (9, 12, T 10), (10, 17, T 11), (11, 22, T 12),
     (12, 7, T 13), (13, 12, T 14), (14, 17, T 15), (15, 22, T 16)]"

definition round2 :: "(nat \<times> nat \<times> u32) list" where
  "round2 = [
     (1, 5, T 17), (6, 9, T 18), (11, 14, T 19), (0, 20, T 20),
     (5, 5, T 21), (10, 9, T 22), (15, 14, T 23), (4, 20, T 24),
     (9, 5, T 25), (14, 9, T 26), (3, 14, T 27), (8, 20, T 28),
     (13, 5, T 29), (2, 9, T 30), (7, 14, T 31), (12, 20, T 32)]"

definition round3 :: "(nat \<times> nat \<times> u32) list" where
  "round3 = [
     (5, 4, T 33), (8, 11, T 34), (11, 16, T 35), (14, 23, T 36),
     (1, 4, T 37), (4, 11, T 38), (7, 16, T 39), (10, 23, T 40),
     (13, 4, T 41), (0, 11, T 42), (3, 16, T 43), (6, 23, T 44),
     (9, 4, T 45), (12, 11, T 46), (15, 16, T 47), (2, 23, T 48)]"

definition round4 :: "(nat \<times> nat \<times> u32) list" where
  "round4 = [
     (0, 6, T 49), (7, 10, T 50), (14, 15, T 51), (5, 21, T 52),
     (12, 6, T 53), (3, 10, T 54), (10, 15, T 55), (1, 21, T 56),
     (8, 6, T 57), (15, 10, T 58), (6, 15, T 59), (13, 21, T 60),
     (4, 6, T 61), (11, 10, T 62), (2, 15, T 63), (9, 21, T 64)]"

definition md5_process :: "regs \<Rightarrow> u8 list \<Rightarrow> regs" where
  "md5_process abcd data =
     (let X = words_of data;
          r = fold (SET md5_F X) round1 abcd;
          r = fold (SET md5_G X) round2 r;
          r = fold (SET md5_H X) round3 r;
          (a, b, c, d) = fold (SET md5_I X) round4 r;
          (a0, b0, c0, d0) = abcd
      in (a0 + a, b0 + b, c0 + c, d0 + d))"

record md5_state_t =
  md5_count :: "u32 \<times> u32"
  md5_abcd :: regs
  md5_buf :: "u8 list"

definition md5_init :: "md5_state_t \<Rightarrow> md5_state_t" where
  "md5_init pms = pms\<lparr>md5_count := (0, 0),
     md5_abcd := (0x67452301, T_MASK XOR 0x10325476, T_MASK XOR 0x67452301, 0x10325476)\<rparr>"

text \<open>\<^verbatim>\<open>memcpy(buf + off, src, length src)\<close>.\<close>

definition memcpy_at :: "nat \<Rightarrow> 'a list \<Rightarrow> 'a list \<Rightarrow> 'a list option" where
  "memcpy_at off src b =
     (if off + length src \<le> length b then Some (take off b @ src @ drop (off + length src) b) else None)"

function full_blocks :: "u8 list \<Rightarrow> md5_state_t \<Rightarrow> u8 list \<times> md5_state_t" where
  "full_blocks p pms =
     (if length p \<ge> 64
      then full_blocks (drop 64 p) (pms\<lparr>md5_abcd := md5_process (md5_abcd pms) (take 64 p)\<rparr>)
      else (p, pms))"
  by pat_completeness auto
termination
  by (relation "measure (\<lambda>(p, pms). length p)") auto

declare full_blocks.simps [simp del]

text \<open>The part of \<^verbatim>\<open>md5_append\<close> after the initial partial block.\<close>

definition append_rest :: "u8 list \<Rightarrow> md5_state_t \<Rightarrow> md5_state_t option" where
  "append_rest p pms =
     (let (p, pms) = full_blocks p pms in
      if p \<noteq> [] then do { b \<leftarrow> memcpy_at 0 p (md5_buf pms); Some (pms\<lparr>md5_buf := b\<rparr>) } else Some pms)"

text \<open>\<^verbatim>\<open>nbytes\<close> is the length of \<open>data\<close>, a non-negative \<^verbatim>\<open>int\<close>.\<close>

definition md5_append :: "md5_state_t \<Rightarrow> u8 list \<Rightarrow> md5_state_t option" where
  "md5_append pms data =
     (let nbytes = length data;
          offset = unat (drop_bit 3 (fst (md5_count pms)) AND 63);
          nbits = push_bit 3 (of_nat nbytes :: u32)
      in if nbytes = 0 then Some pms
         else let c1 = snd (md5_count pms) + drop_bit 29 (of_nat nbytes);
                  c0 = fst (md5_count pms) + nbits;
                  c1 = (if c0 < nbits then c1 + 1 else c1);
                  pms = pms\<lparr>md5_count := (c0, c1)\<rparr>
              in if offset \<noteq> 0 then
                   let copy = (if offset + nbytes > 64 then 64 - offset else nbytes)
                   in do {
                     b \<leftarrow> memcpy_at offset (take copy data) (md5_buf pms);
                     let pms = pms\<lparr>md5_buf := b\<rparr>;
                     if offset + copy < 64 then Some pms
                     else append_rest (drop copy data) (pms\<lparr>md5_abcd := md5_process (md5_abcd pms) (md5_buf pms)\<rparr>) }
                 else append_rest data pms)"

definition regs_list :: "regs \<Rightarrow> u32 list" where
  "regs_list = (\<lambda>(a, b, c, d). [a, b, c, d])"

definition md5_pad :: "u8 list" where
  "md5_pad = 0x80 # replicate 63 0"

definition md5_finish :: "md5_state_t \<Rightarrow> (u8 list \<times> md5_state_t) option" where
  "md5_finish pms = do {
     let data = map (byte_of [fst (md5_count pms), snd (md5_count pms)]) [0..<8];
     pms \<leftarrow> md5_append pms (take (unat ((55 - drop_bit 3 (fst (md5_count pms))) AND 63) + 1) md5_pad);
     pms \<leftarrow> md5_append pms data;
     Some (map (byte_of (regs_list (md5_abcd pms))) [0..<16], pms)
   }"

definition ctbl :: string where
  "ctbl = ''0123456789abcdef''"

definition md52char :: "u8 list \<Rightarrow> string" where
  "md52char digest = concat (map (\<lambda>i.
     [ctbl ! unat (drop_bit 4 (digest ! i) AND 0xf), ctbl ! unat (digest ! i AND 0xf)]) [0..<16])"

subsection \<open>\<^verbatim>\<open>shttpd/md5.c\<close>\<close>

definition F1 :: "u32 \<Rightarrow> u32 \<Rightarrow> u32 \<Rightarrow> u32" where
  "F1 x y z = z XOR (x AND (y XOR z))"

definition F2 :: "u32 \<Rightarrow> u32 \<Rightarrow> u32 \<Rightarrow> u32" where
  "F2 x y z = F1 z x y"

definition F3 :: "u32 \<Rightarrow> u32 \<Rightarrow> u32 \<Rightarrow> u32" where
  "F3 x y z = x XOR y XOR z"

definition F4 :: "u32 \<Rightarrow> u32 \<Rightarrow> u32 \<Rightarrow> u32" where
  "F4 x y z = y XOR (x OR NOT z)"

definition MD5STEP :: "(u32 \<Rightarrow> u32 \<Rightarrow> u32 \<Rightarrow> u32) \<Rightarrow> u32 list \<Rightarrow> nat \<times> nat \<times> u32 \<Rightarrow> regs \<Rightarrow> regs" where
  "MD5STEP f inp = (\<lambda>(k, s, K) (w, x, y, z).
     let data = inp ! k + K;
         w = w + (f x y z + data);
         w = push_bit s w OR drop_bit (32 - s) w;
         w = w + x
     in (z, w, x, y))"

definition MD5STEP_F1 :: "(nat \<times> nat \<times> u32) list" where
  "MD5STEP_F1 = [
     (0, 7, 0xd76aa478), (1, 12, 0xe8c7b756),
     (2, 17, 0x242070db), (3, 22, 0xc1bdceee),
     (4, 7, 0xf57c0faf), (5, 12, 0x4787c62a),
     (6, 17, 0xa8304613), (7, 22, 0xfd469501),
     (8, 7, 0x698098d8), (9, 12, 0x8b44f7af),
     (10, 17, 0xffff5bb1), (11, 22, 0x895cd7be),
     (12, 7, 0x6b901122), (13, 12, 0xfd987193),
     (14, 17, 0xa679438e), (15, 22, 0x49b40821)]"

definition MD5STEP_F2 :: "(nat \<times> nat \<times> u32) list" where
  "MD5STEP_F2 = [
     (1, 5, 0xf61e2562), (6, 9, 0xc040b340),
     (11, 14, 0x265e5a51), (0, 20, 0xe9b6c7aa),
     (5, 5, 0xd62f105d), (10, 9, 0x02441453),
     (15, 14, 0xd8a1e681), (4, 20, 0xe7d3fbc8),
     (9, 5, 0x21e1cde6), (14, 9, 0xc33707d6),
     (3, 14, 0xf4d50d87), (8, 20, 0x455a14ed),
     (13, 5, 0xa9e3e905), (2, 9, 0xfcefa3f8),
     (7, 14, 0x676f02d9), (12, 20, 0x8d2a4c8a)]"

definition MD5STEP_F3 :: "(nat \<times> nat \<times> u32) list" where
  "MD5STEP_F3 = [
     (5, 4, 0xfffa3942), (8, 11, 0x8771f681),
     (11, 16, 0x6d9d6122), (14, 23, 0xfde5380c),
     (1, 4, 0xa4beea44), (4, 11, 0x4bdecfa9),
     (7, 16, 0xf6bb4b60), (10, 23, 0xbebfbc70),
     (13, 4, 0x289b7ec6), (0, 11, 0xeaa127fa),
     (3, 16, 0xd4ef3085), (6, 23, 0x04881d05),
     (9, 4, 0xd9d4d039), (12, 11, 0xe6db99e5),
     (15, 16, 0x1fa27cf8), (2, 23, 0xc4ac5665)]"

definition MD5STEP_F4 :: "(nat \<times> nat \<times> u32) list" where
  "MD5STEP_F4 = [
     (0, 6, 0xf4292244), (7, 10, 0x432aff97),
     (14, 15, 0xab9423a7), (5, 21, 0xfc93a039),
     (12, 6, 0x655b59c3), (3, 10, 0x8f0ccc92),
     (10, 15, 0xffeff47d), (1, 21, 0x85845dd1),
     (8, 6, 0x6fa87e4f), (15, 10, 0xfe2ce6e0),
     (6, 15, 0xa3014314), (13, 21, 0x4e0811a1),
     (4, 6, 0xf7537e82), (11, 10, 0xbd3af235),
     (2, 15, 0x2ad7d2bb), (9, 21, 0xeb86d391)]"

definition MD5Transform :: "regs \<Rightarrow> u32 list \<Rightarrow> regs" where
  "MD5Transform b inp =
     (let r = fold (MD5STEP F1 inp) MD5STEP_F1 b;
          r = fold (MD5STEP F2 inp) MD5STEP_F2 r;
          r = fold (MD5STEP F3 inp) MD5STEP_F3 r;
          (a', b', c', d') = fold (MD5STEP F4 inp) MD5STEP_F4 r;
          (b0, b1, b2, b3) = b
      in (b0 + a', b1 + b', b2 + c', b3 + d'))"

record MD5_CTX =
  ctx_buf :: regs
  ctx_bits :: "u32 \<times> u32"
  ctx_in :: "u8 list"

definition MD5Init :: "MD5_CTX \<Rightarrow> MD5_CTX" where
  "MD5Init ctx = ctx\<lparr>ctx_buf := (0x67452301, 0xefcdab89, 0x98badcfe, 0x10325476), ctx_bits := (0, 0)\<rparr>"

text \<open>Transform the block in the context's own buffer.\<close>

definition transform_in :: "MD5_CTX \<Rightarrow> MD5_CTX" where
  "transform_in ctx = ctx\<lparr>ctx_buf := MD5Transform (ctx_buf ctx) (words_of (ctx_in ctx))\<rparr>"

function update_chunks :: "u8 list \<Rightarrow> MD5_CTX \<Rightarrow> MD5_CTX option" where
  "update_chunks b ctx =
     (if length b \<ge> 64 then
        (case memcpy_at 0 (take 64 b) (ctx_in ctx) of
           None \<Rightarrow> None
         | Some i \<Rightarrow> update_chunks (drop 64 b) (transform_in (ctx\<lparr>ctx_in := i\<rparr>)))
      else (case memcpy_at 0 b (ctx_in ctx) of None \<Rightarrow> None | Some i \<Rightarrow> Some (ctx\<lparr>ctx_in := i\<rparr>)))"
  by pat_completeness auto
termination
  by (relation "measure (\<lambda>(b, ctx). length b)") auto

declare update_chunks.simps [simp del]

text \<open>\<open>len\<close> is the length of the list, an \<^verbatim>\<open>unsigned\<close>.\<close>

definition MD5Update :: "MD5_CTX \<Rightarrow> u8 list \<Rightarrow> MD5_CTX option" where
  "MD5Update ctx b =
     (let len = length b;
          t = fst (ctx_bits ctx);
          b0 = t + push_bit 3 (of_nat len);
          b1 = (if b0 < t then snd (ctx_bits ctx) + 1 else snd (ctx_bits ctx));
          b1 = b1 + drop_bit 29 (of_nat len);
          ctx = ctx\<lparr>ctx_bits := (b0, b1)\<rparr>;
          t = unat (drop_bit 3 t AND 0x3f)
      in if t \<noteq> 0 then
           let p = t; t = 64 - t
           in if len < t then do { i \<leftarrow> memcpy_at p b (ctx_in ctx); Some (ctx\<lparr>ctx_in := i\<rparr>) }
              else do {
                i \<leftarrow> memcpy_at p (take t b) (ctx_in ctx);
                update_chunks (drop t b) (transform_in (ctx\<lparr>ctx_in := i\<rparr>)) }
         else update_chunks b ctx)"

text \<open>The two words of the bit count as the last eight bytes of the block.\<close>

definition put_bits :: "MD5_CTX \<Rightarrow> MD5_CTX option" where
  "put_bits ctx = do {
     i \<leftarrow> memcpy_at 56 (map (byte_of [fst (ctx_bits ctx), snd (ctx_bits ctx)]) [0..<8]) (ctx_in ctx);
     Some (ctx\<lparr>ctx_in := i\<rparr>)
   }"

text \<open>\<^verbatim>\<open>memset((char *) ctx, 0, sizeof(ctx))\<close>: the size is that of the pointer, eight bytes, which are
  the first two words of \<^verbatim>\<open>buf\<close>.\<close>

definition clear_ctx :: "MD5_CTX \<Rightarrow> MD5_CTX" where
  "clear_ctx ctx = (let (b0, b1, b2, b3) = ctx_buf ctx in ctx\<lparr>ctx_buf := (0, 0, b2, b3)\<rparr>)"

definition MD5Final :: "MD5_CTX \<Rightarrow> (u8 list \<times> MD5_CTX) option" where
  "MD5Final ctx = do {
     let count = unat (drop_bit 3 (fst (ctx_bits ctx)) AND 0x3F);
     i \<leftarrow> memcpy_at count [0x80] (ctx_in ctx);
     let p = count + 1;
     let count = 64 - 1 - count;
     ctx \<leftarrow> (if count < 8 then do {
                i \<leftarrow> memcpy_at p (replicate count 0) i;
                let ctx = transform_in (ctx\<lparr>ctx_in := i\<rparr>);
                i \<leftarrow> memcpy_at 0 (replicate 56 0) (ctx_in ctx);
                Some (ctx\<lparr>ctx_in := i\<rparr>) }
              else do {
                i \<leftarrow> memcpy_at p (replicate (count - 8) 0) i;
                Some (ctx\<lparr>ctx_in := i\<rparr>) });
     ctx \<leftarrow> put_bits ctx;
     let ctx = transform_in ctx;
     Some (map (byte_of (regs_list (ctx_buf ctx))) [0..<16], clear_ctx ctx)
   }"

end
