(* ===== verification/Md5_Correct.thy ===== *)
theory Md5_Correct
  imports Md5
begin

text \<open>
  Both implementations compute the same function of the bytes appended so far, however they are
  cut into calls: the state after the complete blocks of the message, its last partial block and
  its length in bits. The digests are then equal for every message.
\<close>

subsection \<open>The two transforms\<close>

lemma word_mux: "(z :: u32) XOR (x AND (y XOR z)) = (x AND y) OR (NOT x AND z)"
  by (rule bit_word_eqI) (auto simp: bit_simps)

lemma core_functions: "F1 = md5_F" "F2 = md5_G" "F3 = md5_H" "F4 = md5_I"
proof -
  show "F1 = md5_F"
    by (intro ext) (simp add: F1_def md5_F_def word_mux)
  show "F2 = md5_G"
    by (intro ext) (simp add: F2_def F1_def md5_G_def word_mux ac_simps)
qed (simp_all add: fun_eq_iff F3_def md5_H_def F4_def md5_I_def)

lemma MD5STEP_SET: "MD5STEP f X = SET f X"
  by (simp add: fun_eq_iff MD5STEP_def SET_def rotate_left_def add_ac Let_def)

lemma step_tables:
  "MD5STEP_F1 = round1" "MD5STEP_F2 = round2" "MD5STEP_F3 = round3" "MD5STEP_F4 = round4"
  by (simp_all add: MD5STEP_F1_def MD5STEP_F2_def MD5STEP_F3_def MD5STEP_F4_def
      round1_def round2_def round3_def round4_def T_def T_table_def T_MASK_def)

lemma MD5Transform_process: "MD5Transform b (words_of bs) = md5_process b bs"
  by (simp add: MD5Transform_def md5_process_def core_functions MD5STEP_SET step_tables Let_def)

subsection \<open>The message absorbed so far\<close>

function absorb :: "regs \<Rightarrow> u8 list \<Rightarrow> regs" where
  "absorb r m = (if length m \<ge> 64 then absorb (md5_process r (take 64 m)) (drop 64 m) else r)"
  by pat_completeness auto
termination
  by (relation "measure (\<lambda>(r, m). length m)") auto

declare absorb.simps [simp del]

definition partial_block :: "u8 list \<Rightarrow> u8 list" where
  "partial_block m = drop (64 * (length m div 64)) m"

definition IV :: regs where
  "IV = (0x67452301, 0xefcdab89, 0x98badcfe, 0x10325476)"

definition bits_of :: "u8 list \<Rightarrow> u32 \<times> u32" where
  "bits_of m = (of_nat (8 * length m), of_nat (8 * length m div 2 ^ 32))"

lemma length_partial [simp]: "length (partial_block m) = length m mod 64"
  by (simp add: partial_block_def minus_mult_div_eq_mod)

lemma absorb_short: "length m < 64 \<Longrightarrow> absorb r m = r"
  by (subst absorb.simps) simp

lemma absorb_block: "length b = 64 \<Longrightarrow> absorb r (b @ m) = absorb (md5_process r b) m"
  by (subst absorb.simps) simp

lemma absorb_append: "64 dvd length a \<Longrightarrow> absorb r (a @ b) = absorb (absorb r a) b"
proof (induction r a rule: absorb.induct)
  case (1 r a)
  show ?case
  proof (cases "length a \<ge> 64")
    case True
    with 1(2) have "64 dvd length (drop 64 a)"
      by (simp add: dvd_diff_nat)
    with 1(1) True show ?thesis
      by (subst (1 2) absorb.simps) simp
  next
    case False
    with 1(2) have "a = []"
      by (metis dvd_imp_le length_0_conv neq0_conv)
    then show ?thesis by (simp add: absorb_short)
  qed
qed

text \<open>Appending works on the partial block only.\<close>

lemma whole_partial: "m = take (64 * (length m div 64)) m @ partial_block m"
  by (simp add: partial_block_def)

lemma absorb_snoc: "absorb r (m @ d) = absorb (absorb r m) (partial_block m @ d)"
proof -
  let ?a = "take (64 * (length m div 64)) m"
  have len: "64 dvd length ?a"
    by (simp add: min_absorb2 times_div_less_eq_dividend)
  have "absorb r m = absorb r ?a"
    using absorb_append [OF len, of r "partial_block m"] whole_partial [of m]
    by (simp add: absorb_short)
  moreover have "absorb r (m @ d) = absorb (absorb r ?a) (partial_block m @ d)"
    using absorb_append [OF len, of r "partial_block m @ d"] whole_partial [of m]
    by (metis append_assoc)
  ultimately show ?thesis by simp
qed

lemma partial_snoc: "partial_block (m @ d) = partial_block (partial_block m @ d)"
proof -
  let ?q = "64 * (length m div 64)"
  have "length (m @ d) = ?q + length (partial_block m @ d)"
    by (simp add: algebra_simps)
  then have "64 * (length (m @ d) div 64) = ?q + 64 * (length (partial_block m @ d) div 64)"
    by (simp only: div_mult_self1 div_mult_self2 add.commute) (simp add: algebra_simps)
  moreover have "drop (?q + n) (m @ d) = drop n (partial_block m @ d)" for n
    unfolding partial_block_def by (simp add: add.commute flip: drop_drop)
  ultimately show ?thesis
    unfolding partial_block_def [of "m @ d"] partial_block_def [of "partial_block m @ d"] by simp
qed

subsection \<open>The length in bits\<close>

lemma carry_iff: "x < M \<Longrightarrow> y < M \<Longrightarrow> (x + y) mod M < y \<longleftrightarrow> M \<le> (x + y :: nat)"
  by (cases "x + y < M") (auto simp: le_mod_geq)

lemma word_carry:
  "(of_nat a + of_nat b :: u32) < of_nat b \<longleftrightarrow> 2 ^ 32 \<le> a mod 2 ^ 32 + b mod 2 ^ 32"
proof -
  have "(of_nat a + of_nat b :: u32) < of_nat b \<longleftrightarrow> (a + b) mod 2 ^ 32 < b mod 2 ^ 32"
    unfolding of_nat_add [symmetric] word_less_nat_alt by (simp only: unat_of_nat) simp
  also have "(a + b) mod 2 ^ 32 = (a mod 2 ^ 32 + b mod 2 ^ 32) mod 2 ^ 32"
    by (simp only: mod_add_eq)
  also have "\<dots> < b mod 2 ^ 32 \<longleftrightarrow> 2 ^ 32 \<le> a mod 2 ^ 32 + b mod 2 ^ 32"
    by (rule carry_iff) simp_all
  finally show ?thesis .
qed

lemma div_add_carry:
  "(a + b) div M = a div M + b div M + (if M \<le> a mod M + b mod M then 1 else (0 :: nat))" if "0 < M"
proof -
  have "a mod M < M" "b mod M < M"
    using that by simp_all
  then have "a mod M + b mod M < 2 * M" by linarith
  then have "(a mod M + b mod M) div M = (if M \<le> a mod M + b mod M then 1 else 0)"
    by (auto intro!: div_nat_eqI)
  then show ?thesis
    by (subst div_add1_eq) simp
qed

lemma push_bit_3: "push_bit 3 (of_nat n :: u32) = of_nat (8 * n)"
  by (simp add: push_bit_eq_mult mult.commute)

lemma drop_bit_29: "n < 2 ^ 32 \<Longrightarrow> drop_bit 29 (of_nat n :: u32) = of_nat (8 * n div 2 ^ 32)"
proof -
  assume n: "n < 2 ^ 32"
  have "(8 * n) div (8 * 2 ^ 29) = n div 2 ^ 29"
    by (rule div_mult_mult1) simp
  moreover have "unat (drop_bit 29 (of_nat n :: u32)) = n div 2 ^ 29"
    using n by (simp add: drop_bit_eq_div unat_div unat_of_nat)
  ultimately show ?thesis
    using n by (simp add: word_unat_eq_iff unat_of_nat)
qed

lemma bits_of_append:
  assumes "length d < 2 ^ 32"
  shows "bits_of (m @ d) =
    (fst (bits_of m) + push_bit 3 (of_nat (length d)),
     snd (bits_of m) + drop_bit 29 (of_nat (length d))
       + (if fst (bits_of m) + push_bit 3 (of_nat (length d)) < push_bit 3 (of_nat (length d)) then 1 else 0))"
proof -
  have "8 * length (m @ d) = 8 * length m + 8 * length d"
    by simp
  then show ?thesis
    unfolding bits_of_def push_bit_3 drop_bit_29 [OF assms] fst_conv snd_conv word_carry
    by (simp only: div_add_carry [of "2 ^ 32" "8 * length m"] zero_less_power of_nat_add) simp
qed

lemma carry_sym: "(a + b :: u32) < b \<longleftrightarrow> a + b < a"
proof -
  have lt: "unat a < 2 ^ 32" "unat b < 2 ^ 32"
    by (rule unat_less_32)+
  show ?thesis
    unfolding word_less_nat_alt unat_add_32
    using carry_iff [OF lt] carry_iff [OF lt(2,1)] by (simp only: add.commute)
qed

lemma unat_and_63: "unat (w AND 63 :: u32) = unat w mod 64"
proof -
  have "w AND 63 = take_bit 6 w"
    by (simp add: take_bit_eq_mask mask_eq_exp_minus_1)
  then show ?thesis
    by (simp add: take_bit_eq_mod unat_mod)
qed

lemma bits_offset: "unat (drop_bit 3 (fst (bits_of m)) AND 63) = length m mod 64"
proof -
  have "unat (fst (bits_of m)) = 8 * length m mod (8 * 2 ^ 29)"
    by (simp add: bits_of_def unat_of_nat del: of_nat_mult)
  also have "\<dots> div 8 mod 64 = length m mod 64"
    unfolding mult_mod_right [symmetric] by (simp add: mod_mod_cancel)
  finally show ?thesis
    by (simp add: unat_and_63 drop_bit_eq_div unat_div)
qed

subsection \<open>Appending\<close>

lemma memcpy_at_ok:
  "off + length src \<le> length b \<Longrightarrow> \<exists>c. memcpy_at off src b = Some c \<and> length c = length b
     \<and> take (off + length src) c = take off b @ src"
  by (cases src) (auto simp: memcpy_at_def min_def)

text \<open>What the two contexts say of the message appended so far.\<close>

definition md5_holds :: "md5_state_t \<Rightarrow> u8 list \<Rightarrow> bool" where
  "md5_holds pms m \<longleftrightarrow> md5_abcd pms = absorb IV m \<and> md5_count pms = bits_of m
     \<and> length (md5_buf pms) = 64 \<and> take (length m mod 64) (md5_buf pms) = partial_block m"

definition ctx_holds :: "MD5_CTX \<Rightarrow> u8 list \<Rightarrow> bool" where
  "ctx_holds ctx m \<longleftrightarrow> ctx_buf ctx = absorb IV m \<and> ctx_bits ctx = bits_of m
     \<and> length (ctx_in ctx) = 64 \<and> take (length m mod 64) (ctx_in ctx) = partial_block m"

lemma partial_block_step: "length p \<ge> 64 \<Longrightarrow> partial_block (drop 64 p) = partial_block p"
  using partial_snoc [of "take 64 p" "drop 64 p"] by (simp add: partial_block_def [of "take 64 p"])

lemma full_blocks_ok:
  "full_blocks p pms = (partial_block p, pms\<lparr>md5_abcd := absorb (md5_abcd pms) p\<rparr>)"
proof (induction p pms rule: full_blocks.induct)
  case (1 p pms)
  show ?case
  proof (cases "length p \<ge> 64")
    case True
    with 1 show ?thesis
      by (subst full_blocks.simps, subst absorb.simps) (simp add: partial_block_step)
  next
    case False
    then show ?thesis
      by (subst full_blocks.simps) (simp add: absorb_short partial_block_def)
  qed
qed

lemma append_rest_ok:
  assumes "length (md5_buf pms) = 64"
  shows "\<exists>b. append_rest p pms = Some (pms\<lparr>md5_abcd := absorb (md5_abcd pms) p, md5_buf := b\<rparr>)
     \<and> length b = 64 \<and> take (length p mod 64) b = partial_block p"
proof (cases "partial_block p = []")
  case True
  with assms length_partial [of p] show ?thesis
    by (intro exI [of _ "md5_buf pms"]) (simp add: append_rest_def full_blocks_ok)
next
  case False
  have "0 + length (partial_block p) \<le> length (md5_buf pms)"
    using assms by simp
  from memcpy_at_ok [OF this] assms obtain c where
    "memcpy_at 0 (partial_block p) (md5_buf pms) = Some c" "length c = 64"
    "take (length p mod 64) c = partial_block p" by auto
  with False show ?thesis
    by (intro exI [of _ c]) (simp add: append_rest_def full_blocks_ok)
qed

lemma update_chunks_ok:
  "length (ctx_in ctx) = 64 \<Longrightarrow> \<exists>b. update_chunks p ctx = Some (ctx\<lparr>ctx_buf := absorb (ctx_buf ctx) p, ctx_in := b\<rparr>)
     \<and> length b = 64 \<and> take (length p mod 64) b = partial_block p"
proof (induction p ctx rule: update_chunks.induct)
  case (1 p ctx)
  show ?case
  proof (cases "length p \<ge> 64")
    case True
    then have "memcpy_at 0 (take 64 p) (ctx_in ctx) = Some (take 64 p)"
      using 1(2) by (simp add: memcpy_at_def)
    moreover have "length p mod 64 = length (drop 64 p) mod 64"
      using True by (simp add: le_mod_geq)
    ultimately show ?thesis
      using 1(1) [OF True, of "take 64 p"] True
      by (subst update_chunks.simps, subst absorb.simps)
        (auto simp: transform_in_def MD5Transform_process partial_block_step)
  next
    case False
    then have "0 + length p \<le> length (ctx_in ctx)"
      using 1(2) by simp
    from memcpy_at_ok [OF this] False 1(2) show ?thesis
      by (subst update_chunks.simps) (auto simp: absorb_short partial_block_def)
  qed
qed

text \<open>The three ways a call continues a message: within the block, over its end, or at a boundary.\<close>

lemma continue_short:
  assumes "length m mod 64 + length d < 64"
  shows "absorb IV (m @ d) = absorb IV m" "partial_block (m @ d) = partial_block m @ d"
    "length (m @ d) mod 64 = length m mod 64 + length d"
  using assms absorb_snoc [of IV m d] partial_snoc [of m d]
  by (simp_all add: absorb_short partial_block_def [of "partial_block m @ d"], metis mod_add_left_eq mod_less)

lemma continue_over:
  assumes "length m mod 64 + n = 64" "n \<le> length d"
  shows "absorb IV (m @ d) = absorb (md5_process (absorb IV m) (partial_block m @ take n d)) (drop n d)"
    "partial_block (m @ d) = partial_block (drop n d)"
    "length (m @ d) mod 64 = length (drop n d) mod 64"
proof -
  let ?b = "partial_block m @ take n d"
  have len: "length ?b = 64" and eq: "partial_block m @ d = ?b @ drop n d"
    using assms by simp_all
  show "absorb IV (m @ d) = absorb (md5_process (absorb IV m) ?b) (drop n d)"
    unfolding absorb_snoc [of IV m d] eq by (rule absorb_block [OF len])
  have "partial_block ?b = []"
    using len by (simp add: partial_block_def)
  then show "partial_block (m @ d) = partial_block (drop n d)"
    unfolding partial_snoc [of m d] eq partial_snoc [of ?b] by simp
  then show "length (m @ d) mod 64 = length (drop n d) mod 64"
    by (metis length_partial)
qed

lemma continue_boundary:
  assumes "length m mod 64 = 0"
  shows "absorb IV (m @ d) = absorb (absorb IV m) d" "partial_block (m @ d) = partial_block d"
    "length (m @ d) mod 64 = length d mod 64"
proof -
  have "partial_block m = []"
    using assms length_partial [of m] by (metis length_0_conv)
  then show "absorb IV (m @ d) = absorb (absorb IV m) d" "partial_block (m @ d) = partial_block d"
    using absorb_snoc [of IV m d] partial_snoc [of m d] by simp_all
  then show "length (m @ d) mod 64 = length d mod 64"
    by (metis length_partial)
qed

lemma md5_append_ok:
  assumes h: "md5_holds pms m" and len: "length d < 2 ^ 32"
  shows "\<exists>pms'. md5_append pms d = Some pms' \<and> md5_holds pms' (m @ d)"
proof (cases "d = []")
  case True
  with h show ?thesis by (simp add: md5_append_def Let_def)
next
  case ne: False
  let ?off = "length m mod 64"
  from h have H: "md5_abcd pms = absorb IV m" "md5_count pms = bits_of m" "length (md5_buf pms) = 64"
    "take ?off (md5_buf pms) = partial_block m"
    by (simp_all add: md5_holds_def)
  obtain c0 c1 where c: "c0 = fst (bits_of m) + push_bit 3 (of_nat (length d))"
    "c1 = (if c0 < push_bit 3 (of_nat (length d)) then snd (bits_of m) + drop_bit 29 (of_nat (length d)) + 1
           else snd (bits_of m) + drop_bit 29 (of_nat (length d)))" by blast
  have bits: "bits_of (m @ d) = (c0, c1)"
    unfolding bits_of_append [OF len] c by simp
  let ?p = "pms\<lparr>md5_count := (c0, c1)\<rparr>"
  have off: "unat (drop_bit 3 (fst (md5_count pms)) AND 63) = ?off"
    unfolding H(2) by (rule bits_offset)
  show ?thesis
  proof (cases "?off = 0")
    case True
    have "md5_append pms d = append_rest d ?p"
      using ne off True unfolding md5_append_def by (simp add: Let_def c H(2))
    moreover from append_rest_ok [of ?p d] H(3) obtain b where
      "append_rest d ?p = Some (?p\<lparr>md5_abcd := absorb (md5_abcd ?p) d, md5_buf := b\<rparr>)"
      "length b = 64" "take (length d mod 64) b = partial_block d" by auto
    ultimately show ?thesis
      using continue_boundary [OF True, of d] H bits by (simp add: md5_holds_def)
  next
    case False
    obtain n where n: "n = (if ?off + length d > 64 then 64 - ?off else length d)" by blast
    have "?off < 64" by simp
    then have n_le: "n \<le> length d" "?off + n \<le> 64"
      unfolding n by (simp_all, arith)
    then have fit: "?off + length (take n d) \<le> length (md5_buf pms)"
      using H(3) by simp
    from memcpy_at_ok [OF fit] H(3,4) n_le obtain b where
      b: "memcpy_at ?off (take n d) (md5_buf pms) = Some b" "length b = 64"
      "take (?off + n) b = partial_block m @ take n d" by auto
    have app: "md5_append pms d = (if ?off + n < 64 then Some (?p\<lparr>md5_buf := b\<rparr>)
        else append_rest (drop n d) (?p\<lparr>md5_buf := b, md5_abcd := md5_process (md5_abcd pms) b\<rparr>))"
      using ne False b(1) unfolding md5_append_def Let_def H(2) bits_offset n [symmetric] c [symmetric] by simp
    show ?thesis
    proof (cases "?off + n < 64")
      case True
      then have "n = length d" and sh: "?off + length d < 64"
        using n \<open>?off < 64\<close> by (auto split: if_splits)
      then show ?thesis
        using app True b H bits continue_short [OF sh] by (simp add: md5_holds_def)
    next
      case F: False
      with n_le have full: "?off + n = 64" by simp
      have blk: "b = partial_block m @ take n d"
        using b(2,3) full by simp
      let ?q = "?p\<lparr>md5_buf := b, md5_abcd := md5_process (md5_abcd pms) b\<rparr>"
      from append_rest_ok [of ?q "drop n d"] b(2) obtain b' where
        r: "append_rest (drop n d) ?q = Some (?q\<lparr>md5_abcd := absorb (md5_process (md5_abcd pms) b) (drop n d), md5_buf := b'\<rparr>)"
        "length b' = 64" "take (length (drop n d) mod 64) b' = partial_block (drop n d)"
        by auto
      have "md5_append pms d = Some (?q\<lparr>md5_abcd := absorb (md5_process (md5_abcd pms) b) (drop n d), md5_buf := b'\<rparr>)"
        using app F r(1) by (simp only: if_False)
      moreover have "md5_holds (?q\<lparr>md5_abcd := absorb (md5_process (md5_abcd pms) b) (drop n d), md5_buf := b'\<rparr>) (m @ d)"
        using continue_over [OF full n_le(1)] H(1) bits r(2,3) unfolding blk [symmetric]
        by (simp add: md5_holds_def)
      ultimately show ?thesis by blast
    qed
  qed
qed

lemma MD5Update_ok:
  assumes h: "ctx_holds ctx m" and len: "length d < 2 ^ 32"
  shows "\<exists>ctx'. MD5Update ctx d = Some ctx' \<and> ctx_holds ctx' (m @ d)"
proof -
  let ?off = "length m mod 64"
  from h have H: "ctx_buf ctx = absorb IV m" "ctx_bits ctx = bits_of m" "length (ctx_in ctx) = 64"
    "take ?off (ctx_in ctx) = partial_block m"
    by (simp_all add: ctx_holds_def)
  obtain b0 b1 where c: "b0 = fst (bits_of m) + push_bit 3 (of_nat (length d))"
    "b1 = (if b0 < fst (bits_of m) then snd (bits_of m) + 1 else snd (bits_of m)) + drop_bit 29 (of_nat (length d))"
    by blast
  have bits: "bits_of (m @ d) = (b0, b1)"
    unfolding bits_of_append [OF len] c carry_sym by simp
  let ?p = "ctx\<lparr>ctx_bits := (b0, b1)\<rparr>"
  have off: "unat (drop_bit 3 (fst (bits_of m)) AND 63) = ?off"
    by (rule bits_offset)
  have less: "?off < 64" by simp
  consider "?off = 0" | "?off \<noteq> 0" "?off + length d < 64" | "?off \<noteq> 0" "?off + length d \<ge> 64"
    by linarith
  then show ?thesis
  proof cases
    case 1
    have "MD5Update ctx d = update_chunks d ?p"
      using off 1 unfolding MD5Update_def Let_def H(2) c [symmetric] by simp
    moreover from update_chunks_ok [of ?p d] H(3) obtain b where
      "update_chunks d ?p = Some (?p\<lparr>ctx_buf := absorb (ctx_buf ?p) d, ctx_in := b\<rparr>)"
      "length b = 64" "take (length d mod 64) b = partial_block d" by auto
    ultimately show ?thesis
      using continue_boundary [OF 1, of d] H bits by (simp add: ctx_holds_def)
  next
    case 2
    have "?off + length d \<le> length (ctx_in ctx)"
      using 2 H(3) by simp
    from memcpy_at_ok [OF this] H(3,4) obtain b where
      b: "memcpy_at ?off d (ctx_in ctx) = Some b" "length b = 64" "take (?off + length d) b = partial_block m @ d"
      by auto
    moreover have "length d < 64 - ?off"
      using 2 by arith
    ultimately have "MD5Update ctx d = Some (?p\<lparr>ctx_in := b\<rparr>)"
      using off 2 less unfolding MD5Update_def Let_def H(2) c [symmetric] by simp
    then show ?thesis
      using b H bits continue_short [OF 2(2)] by (simp add: ctx_holds_def)
  next
    case 3
    let ?n = "64 - ?off"
    have n: "?off + ?n = 64" "?n \<le> length d"
      using less 3 by simp_all
    then have "?off + length (take ?n d) \<le> length (ctx_in ctx)"
      using H(3) by simp
    from memcpy_at_ok [OF this] H(3,4) n obtain b where
      b: "memcpy_at ?off (take ?n d) (ctx_in ctx) = Some b" "b = partial_block m @ take ?n d" "length b = 64"
      by auto
    let ?q = "?p\<lparr>ctx_in := b, ctx_buf := md5_process (ctx_buf ctx) b\<rparr>"
    have "MD5Update ctx d = update_chunks (drop ?n d) ?q"
      using off 3 n(2) b(1) unfolding MD5Update_def Let_def H(2) c [symmetric]
      by (simp add: transform_in_def MD5Transform_process)
    moreover from update_chunks_ok [of ?q "drop ?n d"] b(3) obtain b' where
      r: "update_chunks (drop ?n d) ?q = Some (?q\<lparr>ctx_buf := absorb (md5_process (ctx_buf ctx) b) (drop ?n d), ctx_in := b'\<rparr>)"
      "length b' = 64" "take (length (drop ?n d) mod 64) b' = partial_block (drop ?n d)"
      by auto
    moreover have "ctx_holds (?q\<lparr>ctx_buf := absorb (md5_process (ctx_buf ctx) b) (drop ?n d), ctx_in := b'\<rparr>) (m @ d)"
      using continue_over [OF n] H(1) bits r(2,3) unfolding b(2) [symmetric] by (simp add: ctx_holds_def)
    ultimately show ?thesis by metis
  qed
qed

subsection \<open>Padding and digests\<close>

text \<open>The padding of a message of \<open>n\<close> bytes, and the digest both functions return.\<close>

definition padding :: "u8 list \<Rightarrow> u8 list" where
  "padding m = 0x80 # replicate ((119 - length m mod 64) mod 64) 0"

definition length_bytes :: "u8 list \<Rightarrow> u8 list" where
  "length_bytes m = map (byte_of [fst (bits_of m), snd (bits_of m)]) [0..<8]"

definition md5_digest :: "u8 list \<Rightarrow> u8 list" where
  "md5_digest m = map (byte_of (regs_list (absorb IV (m @ padding m @ length_bytes m)))) [0..<16]"

lemma mod_pad: "u \<le> 55 \<Longrightarrow> (119 - u) mod 64 = 55 - (u :: nat)"
proof -
  assume "u \<le> 55"
  then have "119 - u = 55 - u + 64" "55 - u < 64"
    by linarith+
  then show ?thesis
    by (simp only: mod_add_self2 mod_less)
qed

lemma pad_count: "unat ((55 - drop_bit 3 (fst (bits_of m))) AND 63 :: u32) = (119 - length m mod 64) mod 64"
proof -
  let ?w = "drop_bit 3 (fst (bits_of m))"
  have sub: "unat (55 - ?w) = (if unat ?w \<le> 55 then 55 - unat ?w else 55 + 2 ^ 32 - unat ?w)"
    by (simp add: unat_sub_if')
  have "(55 - u) mod 64 = (119 - u mod 64) mod 64" if "u \<le> 55" for u :: nat
  proof -
    have u: "u mod 64 = u"
      using that by (intro mod_less) linarith
    show ?thesis
      unfolding u mod_pad [OF that] by (rule mod_less) simp
  qed
  moreover have "(55 + 2 ^ 32 - u) mod 64 = (119 - u mod 64) mod 64" if "u < 2 ^ 32" for u :: nat
  proof -
    obtain q k where qk: "q = u div 64" "k = u mod 64" by blast
    have u: "u = 64 * q + k" "k < 64"
      unfolding qk by simp_all
    with that have "q < 67108864" by simp
    have "55 + 4294967296 - u = 119 - k + 64 * (67108863 - q)"
      using u \<open>q < 67108864\<close> by linarith
    then have e: "(55 + 4294967296 - u) mod 64 = (119 - k) mod 64"
      by (simp only: mod_mult_self2)
    have p: "(2 :: nat) ^ 32 = 4294967296"
      by simp
    show ?thesis
      unfolding p qk(2) [symmetric] by (rule e)
  qed
  ultimately show ?thesis
    using unat_less_32 [of ?w] bits_offset [of m] unfolding unat_and_63 sub by (cases "unat ?w \<le> 55") simp_all
qed

lemma md5_finish_ok:
  assumes h: "md5_holds pms m"
  shows "\<exists>pms'. md5_finish pms = Some (md5_digest m, pms')"
proof -
  let ?pad = "take (unat ((55 - drop_bit 3 (fst (md5_count pms))) AND 63) + 1) md5_pad"
  have bits: "md5_count pms = bits_of m"
    using h by (simp add: md5_holds_def)
  have pad: "?pad = padding m"
    unfolding bits pad_count by (simp add: md5_pad_def padding_def min_def)
  have "length (padding m) < 2 ^ 32"
    by (simp add: padding_def)
  from md5_append_ok [OF h this] obtain p1 where p1: "md5_append pms (padding m) = Some p1" "md5_holds p1 (m @ padding m)"
    by blast
  have "length (length_bytes m) < 2 ^ 32"
    by (simp add: length_bytes_def)
  from md5_append_ok [OF p1(2) this] obtain p2 where p2: "md5_append p1 (length_bytes m) = Some p2"
    "md5_holds p2 (m @ padding m @ length_bytes m)"
    by auto
  have "md5_finish pms = Some (map (byte_of (regs_list (md5_abcd p2))) [0..<16], p2)"
    using p1(1) p2(1) unfolding md5_finish_def Let_def pad by (simp add: length_bytes_def bits)
  then show ?thesis
    using p2(2) by (simp add: md5_digest_def md5_holds_def)
qed

lemma memcpy_at_eq:
  "length a = off \<Longrightarrow> length c = length src \<Longrightarrow> memcpy_at off src (a @ c @ d) = Some (a @ src @ d)"
  by (simp add: memcpy_at_def)

lemma memcpy_prefix:
  assumes "take n b = a" "n + length src \<le> length b"
  shows "memcpy_at n src b = Some (a @ src @ drop (n + length src) b)"
  using assms by (auto simp: memcpy_at_def)

lemma length_length_bytes [simp]: "length (length_bytes m) = 8"
  by (simp add: length_bytes_def)

lemma absorb_one: "length b = 64 \<Longrightarrow> absorb r b = md5_process r b"
  using absorb_block [of b r "[]"] by (simp add: absorb_short)

text \<open>The padded last block or blocks of a message.\<close>

lemma absorb_padded_short:
  assumes "length m mod 64 \<le> 55"
  shows "absorb IV (m @ padding m @ length_bytes m) =
    md5_process (absorb IV m) (partial_block m @ 0x80 # replicate (55 - length m mod 64) 0 @ length_bytes m)"
proof -
  have "(119 - length m mod 64) mod 64 = 55 - length m mod 64"
    using assms by (rule mod_pad)
  then show ?thesis
    using assms by (simp add: absorb_snoc [of IV m] padding_def absorb_one)
qed

lemma absorb_padded_long:
  assumes "55 < length m mod 64"
  shows "absorb IV (m @ padding m @ length_bytes m) =
    md5_process (md5_process (absorb IV m) (partial_block m @ 0x80 # replicate (63 - length m mod 64) 0))
      (replicate 56 0 @ length_bytes m)"
proof -
  let ?t = "length m mod 64"
  have t: "?t < 64" by simp
  then have "(119 - ?t) mod 64 = (63 - ?t) + 56"
    using assms by (subst mod_less) simp_all
  then have "padding m @ length_bytes m = (0x80 # replicate (63 - ?t) 0) @ replicate 56 0 @ length_bytes m"
    unfolding padding_def by (simp only: replicate_add append_Cons append_assoc)
  then have "absorb IV (m @ padding m @ length_bytes m)
      = absorb (absorb IV m) ((partial_block m @ 0x80 # replicate (63 - ?t) 0) @ replicate 56 0 @ length_bytes m)"
    by (simp add: absorb_snoc [of IV m])
  also have "\<dots> = absorb (md5_process (absorb IV m) (partial_block m @ 0x80 # replicate (63 - ?t) 0))
      (replicate 56 0 @ length_bytes m)"
    using t by (intro absorb_block) simp
  also have "\<dots> = md5_process (md5_process (absorb IV m) (partial_block m @ 0x80 # replicate (63 - ?t) 0))
      (replicate 56 0 @ length_bytes m)"
    by (rule absorb_one) simp
  finally show ?thesis .
qed

lemma MD5Final_ok:
  assumes h: "ctx_holds ctx m"
  shows "\<exists>ctx'. MD5Final ctx = Some (md5_digest m, clear_ctx ctx')"
proof -
  let ?t = "length m mod 64" and ?P = "partial_block m"
  from h have H: "ctx_buf ctx = absorb IV m" "ctx_bits ctx = bits_of m" "length (ctx_in ctx) = 64"
    "take ?t (ctx_in ctx) = ?P"
    by (simp_all add: ctx_holds_def)
  have t: "?t < 64" by simp
  let ?i = "?P @ [0x80] @ drop (?t + 1) (ctx_in ctx)"
  have i: "memcpy_at ?t [0x80] (ctx_in ctx) = Some ?i"
    using memcpy_prefix [OF H(4), of "[0x80]"] H(3) t by simp
  have lb: "map (byte_of [fst (bits_of m), snd (bits_of m)]) [0..<8] = length_bytes m"
    by (simp add: length_bytes_def)
  show ?thesis
  proof (cases "?t \<le> 55")
    case True
    have s: "56 - ?t = Suc (55 - ?t)" "55 - ?t + Suc ?t = 56"
      using True by simp_all
    have "memcpy_at (?t + 1) (replicate (55 - ?t) 0) ?i
        = Some ((?P @ [0x80]) @ replicate (55 - ?t) 0 @ drop 56 (ctx_in ctx))"
      using memcpy_prefix [of "?t + 1" ?i "?P @ [0x80]" "replicate (55 - ?t) 0"] True H(3) s
      by (simp add: drop_drop)
    moreover have "memcpy_at 56 (length_bytes m) ((?P @ [0x80]) @ replicate (55 - ?t) 0 @ drop 56 (ctx_in ctx))
        = Some (?P @ 0x80 # replicate (55 - ?t) 0 @ length_bytes m)"
      using memcpy_at_eq [of "(?P @ [0x80]) @ replicate (55 - ?t) 0" 56 "drop 56 (ctx_in ctx)" "length_bytes m" "[]"]
        True H(3) by simp
    moreover have "\<not> 63 - ?t < 8"
      using True by linarith
    ultimately show ?thesis
      using True i H(1) absorb_padded_short [OF True]
      unfolding MD5Final_def Let_def H(2) bits_offset
      by (simp add: put_bits_def H(2) lb transform_in_def MD5Transform_process md5_digest_def) blast
  next
    case False
    have "memcpy_at (?t + 1) (replicate (63 - ?t) 0) ?i = Some (?P @ 0x80 # replicate (63 - ?t) 0)"
      using memcpy_prefix [of "?t + 1" ?i "?P @ [0x80]" "replicate (63 - ?t) 0"] t H(3) by simp
    moreover have "memcpy_at 0 (replicate 56 0) (?P @ 0x80 # replicate (63 - ?t) 0)
        = Some (replicate 56 0 @ drop 56 (?P @ 0x80 # replicate (63 - ?t) 0))"
      using t by (simp add: memcpy_at_def)
    moreover have "memcpy_at 56 (length_bytes m) (replicate 56 0 @ drop 56 (?P @ 0x80 # replicate (63 - ?t) 0))
        = Some (replicate 56 0 @ length_bytes m)"
      using memcpy_at_eq [of "replicate 56 0" 56 "drop 56 (?P @ 0x80 # replicate (63 - ?t) 0)" "length_bytes m" "[]"] t
      by simp
    moreover have "63 - ?t < 8"
      using False by linarith
    ultimately show ?thesis
      using False i H(1) absorb_padded_long [of m]
      unfolding MD5Final_def Let_def H(2) bits_offset
      by (simp add: put_bits_def H(2) lb transform_in_def MD5Transform_process md5_digest_def) blast
  qed
qed

end
