(* ===== verification/Md5_Properties.thy ===== *)
theory Md5_Properties
  imports Md5_Correct
begin






lemma absorb_Nil: "absorb r [] = r"
  by (simp add: absorb_short)

lemma md5_init_holds: "length (md5_buf pms) = 64 \<Longrightarrow> md5_holds (md5_init pms) []"
  by (simp add: md5_holds_def md5_init_def absorb_Nil IV_def bits_of_def partial_block_def T_MASK_def)

lemma MD5Init_holds: "length (ctx_in ctx) = 64 \<Longrightarrow> ctx_holds (MD5Init ctx) []"
  by (simp add: ctx_holds_def MD5Init_def absorb_Nil IV_def bits_of_def partial_block_def)

subsection \<open>Properties\<close>



text \<open>The optimised transform of shttpd, with its cheaper selection functions and literal
  constants, is the round function of \<^verbatim>\<open>lib/u/md5.c\<close> on every block and chaining value.\<close>

theorem MD5Transform_equals_md5_process: "MD5Transform b (words_of data) = md5_process b data"
  by (rule MD5Transform_process)

text \<open>\<^verbatim>\<open>md5_append\<close> is incremental: appending two pieces leaves the same chaining value, count and
  buffered bytes as appending their concatenation, and no copy leaves the 64-byte buffer.\<close>

theorem md5_append_incremental:
  assumes "md5_holds pms m" "length d + length e < 2 ^ 31"
  shows "\<exists>p q r. md5_append pms d = Some p \<and> md5_append p e = Some q \<and> md5_append pms (d @ e) = Some r
     \<and> md5_abcd q = md5_abcd r \<and> md5_count q = md5_count r
     \<and> take (length (m @ d @ e) mod 64) (md5_buf q) = take (length (m @ d @ e) mod 64) (md5_buf r)"
proof -
  from md5_append_ok [OF assms(1), of d] assms(2) obtain p where
    p: "md5_append pms d = Some p" "md5_holds p (m @ d)" by auto
  from md5_append_ok [OF p(2), of e] assms(2) obtain q where
    q: "md5_append p e = Some q" "md5_holds q ((m @ d) @ e)" by auto
  from md5_append_ok [OF assms(1), of "d @ e"] assms(2) obtain r where
    r: "md5_append pms (d @ e) = Some r" "md5_holds r (m @ d @ e)" by auto
  from p q r show ?thesis
    by (auto simp: md5_holds_def)
qed

lemma md5_append_incremental_witness:
  "\<exists>p q r. md5_append (md5_init \<lparr>md5_count = (1, 1), md5_abcd = (0, 0, 0, 0), md5_buf = replicate 64 3\<rparr>) [1, 2] = Some p
     \<and> md5_append p [3] = Some q
     \<and> md5_append (md5_init \<lparr>md5_count = (1, 1), md5_abcd = (0, 0, 0, 0), md5_buf = replicate 64 3\<rparr>) ([1, 2] @ [3]) = Some r
     \<and> md5_abcd q = md5_abcd r \<and> md5_count q = md5_count r
     \<and> take (length ([] @ [1 :: u8, 2] @ [3 :: u8]) mod 64) (md5_buf q)
       = take (length ([] @ [1 :: u8, 2] @ [3 :: u8]) mod 64) (md5_buf r)"
  by (rule md5_append_incremental) (simp_all add: md5_init_holds)

text \<open>\<^verbatim>\<open>MD5Final\<close> does not wipe its context: the \<^verbatim>\<open>memset\<close> covers the size of a pointer, so the last
  eight bytes of the digest are still in the chaining words it leaves behind.\<close>

theorem MD5Final_leaves_digest:
  assumes "ctx_holds ctx m"
  shows "\<exists>digest ctx'. MD5Final ctx = Some (digest, ctx')
     \<and> map (byte_of (regs_list (ctx_buf ctx'))) [8..<16] = drop 8 digest"
proof -
  from MD5Final_ok [OF assms] obtain d e where fin: "MD5Final ctx = Some (d, e)" by blast
  then obtain c where c: "d = map (byte_of (regs_list (ctx_buf c))) [0..<16]" "e = clear_ctx c"
    by (auto simp: MD5Final_def Let_def simp del: upt_Suc split: bind_splits if_splits)
  have "byte_of (regs_list (ctx_buf (clear_ctx c))) i = byte_of (regs_list (ctx_buf c)) i" if "8 \<le> i" "i < 16" for i
  proof -
    have "i div 4 = 2 \<or> i div 4 = 3"
      using that by auto
    then show ?thesis
      by (cases "ctx_buf c") (auto simp: byte_of_def clear_ctx_def regs_list_def)
  qed
  then have "map (byte_of (regs_list (ctx_buf e))) [8..<16] = drop 8 d"
    unfolding c drop_map drop_upt by simp
  with fin show ?thesis by blast
qed

lemma MD5Final_leaves_digest_witness:
  "\<exists>digest ctx'. MD5Final (MD5Init \<lparr>ctx_buf = (5, 5, 5, 5), ctx_bits = (2, 2), ctx_in = replicate 64 9\<rparr>)
       = Some (digest, ctx')
     \<and> map (byte_of (regs_list (ctx_buf ctx'))) [8..<16] = drop 8 digest"
  by (rule MD5Final_leaves_digest [of _ "[]"]) (simp add: MD5Init_holds)

end
