(* ===== verification/Base64.thy ===== *)
theory Base64
  imports Prelude
begin

text \<open>
  Base 64 of \<^verbatim>\<open>src/lib/u/base64.c\<close>. A \<^verbatim>\<open>char\<close> is an 8-bit word that is sign-extended when it is
  promoted to \<^verbatim>\<open>int\<close> or converted to \<^verbatim>\<open>unsigned int\<close>, as on the targets of the code. The encoder's
  \<^verbatim>\<open>in\<close> array keeps its bytes from one group to the next. The bytes written through \<^verbatim>\<open>to\<close> are
  returned in order. A read outside a table is \<^term>\<open>None\<close>.
\<close>

definition promote :: "u8 \<Rightarrow> u32" where
  "promote c = scast c"

definition ETable :: "u8 list" where
  "ETable = map of_char ''ABCDEFGHIJKLMNOPQRSTUVWXYZabcdefghijklmnopqrstuvwxyz0123456789+/''"

definition ch :: "char \<Rightarrow> u8" where
  "ch c = of_char c"

subsection \<open>The decoding table\<close>

text \<open>One loop \<^verbatim>\<open>for (i = lo; i <= hi; i++) DTable[i] = base + (i - lo)\<close>.\<close>

definition set_range :: "char \<Rightarrow> char \<Rightarrow> nat \<Rightarrow> u8 list \<Rightarrow> u8 list" where
  "set_range lo hi base t =
     fold (\<lambda>i t. t[i := of_nat (base + (i - of_char lo))]) [of_char lo..<Suc (of_char hi)] t"

definition init_DTable :: "u8 list" where
  "init_DTable =
     (let t = replicate 256 0;
          t = fold (\<lambda>i t. t[i := 0x80]) [0..<255] t;
          t = set_range (CHR ''A'') (CHR ''I'') 0 t;
          t = set_range (CHR ''J'') (CHR ''R'') 9 t;
          t = set_range (CHR ''S'') (CHR ''Z'') 18 t;
          t = set_range (CHR ''a'') (CHR ''i'') 26 t;
          t = set_range (CHR ''j'') (CHR ''r'') 35 t;
          t = set_range (CHR ''s'') (CHR ''z'') 44 t;
          t = set_range (CHR ''0'') (CHR ''9'') 52 t;
          t = t[of_char (CHR ''+'') := 62];
          t = t[of_char (CHR ''/'') := 63]
      in t[of_char (CHR ''='') := 0])"

subsection \<open>Encoding\<close>

text \<open>One group: \<open>n\<close> fresh bytes of the source over the previous contents of \<open>inp\<close>.\<close>

definition load_group :: "u8 \<times> u8 \<times> u8 \<Rightarrow> u8 list \<Rightarrow> nat \<Rightarrow> u8 \<times> u8 \<times> u8" where
  "load_group inp s n =
     (let (i0, i1, i2) = inp
      in (s ! 0, if n > 1 then s ! 1 else i1, if n > 2 then s ! 2 else i2))"

definition encode_group :: "u8 \<times> u8 \<times> u8 \<Rightarrow> nat \<Rightarrow> u8 list" where
  "encode_group inp n =
     (let (i0, i1, i2) = inp;
          o0 = ETable ! unat (signed_drop_bit 2 (promote i0) AND 0x3f);
          o1 = ETable ! unat (push_bit 4 (promote i0 AND 3) OR (signed_drop_bit 4 (promote i1) AND 0x0f));
          o2 = ETable ! unat (push_bit 2 (promote i1 AND 0xF) OR (signed_drop_bit 6 (promote i2) AND 0x03));
          o3 = ETable ! unat (promote i2 AND 0x3F);
          o3 = (if n < 3 then ch (CHR ''='') else o3);
          o2 = (if n < 2 then ch (CHR ''='') else o2)
      in [o0, o1, o2, o3])"

function encode_loop :: "u8 \<times> u8 \<times> u8 \<Rightarrow> u8 list \<Rightarrow> u8 list" where
  "encode_loop inp s =
     (let n = (if length s \<ge> 3 then 3 else length s) in
      if n = 0 then []
      else let inp = load_group inp s n
           in encode_group inp n @ encode_loop inp (drop n s))"
  by pat_completeness auto
termination
  by (relation "measure (\<lambda>(inp, s). length s)") (auto split: if_splits)

declare encode_loop.simps [simp del]

definition ws_base64_encode :: "u8 list \<Rightarrow> u8 list" where
  "ws_base64_encode from = encode_loop (0, 0, 0) from @ [0]"

subsection \<open>Decoding\<close>

text \<open>\<^verbatim>\<open>DTable[(unsigned int)c]\<close>.\<close>

definition DTable_at :: "u8 \<Rightarrow> u8 option" where
  "DTable_at c = rd init_DTable (unat (promote c))"

text \<open>The loop over the four characters of a group: \<^term>\<open>None\<close> is a read outside the table,
  \<^term>\<open>Some None\<close> an early return.\<close>

fun read_group :: "u8 list \<Rightarrow> u8 list option option" where
  "read_group [] = Some (Some [])"
| "read_group (c # cs) = do {
     d \<leftarrow> DTable_at c;
     if d AND 0x80 \<noteq> 0 then Some None
     else do { r \<leftarrow> read_group cs; Some (map_option ((#) d) r) }
   }"

definition decode_group :: "u8 list \<Rightarrow> u8 list" where
  "decode_group b =
     [ucast (push_bit 2 (promote (b ! 0)) OR signed_drop_bit 4 (promote (b ! 1))),
      ucast (push_bit 4 (promote (b ! 1)) OR signed_drop_bit 2 (promote (b ! 2))),
      ucast (push_bit 6 (promote (b ! 2)) OR promote (b ! 3))]"

text \<open>The result is the return value and the bytes written so far.\<close>

function decode_loop :: "u8 list \<Rightarrow> u8 list \<Rightarrow> (nat \<times> u8 list) option" where
  "decode_loop s out =
     (if s = [] then Some (length out, out)
      else do {
        c_assert (length s \<ge> 4);
        let a = take 4 s;
        r \<leftarrow> read_group a;
        (case r of
           None \<Rightarrow> Some (0, out)
         | Some b \<Rightarrow>
             let i = (if a ! 2 = ch (CHR ''='') then 1 else if a ! 3 = ch (CHR ''='') then 2 else 3)
             in decode_loop (drop 4 s) (out @ take i (decode_group b)))
      })"
  by pat_completeness auto
termination
  by (relation "measure (\<lambda>(s, out). length s)") auto

declare decode_loop.simps [simp del]

definition ws_base64_decode :: "u8 list \<Rightarrow> nat \<Rightarrow> (nat \<times> u8 list) option" where
  "ws_base64_decode from to_len =
     (if length from mod 4 \<noteq> 0 then Some (0, [])
      else if length from div 4 * 3 > to_len then Some (0, [])
      else decode_loop from [])"

end
