(* ===== verification/Base64_Correct.thy ===== *)
theory Base64_Correct
  imports Base64
begin

text \<open>
  The decoder inverts the encoder, the sizes of both outputs, and where the two depart from
  RFC 4648 or from their tables.
\<close>

subsection \<open>Characters and sextets\<close>

lemma masks: "(0x3f :: u32) = mask 6" "(0x3 :: u32) = mask 2" "(0xf :: u32) = mask 4"
  by (simp_all add: mask_eq_exp_minus_1)

lemma bit_promote: "bit (promote c) n \<longleftrightarrow> n < 32 \<and> bit c (min n 7)"
  by (simp add: promote_def bit_simps min.commute)

lemma u8_bit_high: "8 \<le> n \<Longrightarrow> \<not> bit (c :: u8) n"
  using bit_imp_le_length [of c n] by auto

lemma u8_eqI: "(\<And>n. n \<in> {0, 1, 2, 3, 4, 5, 6, 7} \<Longrightarrow> bit a n = bit b n) \<Longrightarrow> a = (b :: u8)"
proof (rule bit_word_eqI)
  fix n
  assume a: "\<And>n. n \<in> {0, 1, 2, 3, 4, 5, 6, 7} \<Longrightarrow> bit a n = bit b n" and "n < LENGTH(8)"
  then have "n = 0 \<or> n = 1 \<or> n = 2 \<or> n = 3 \<or> n = 4 \<or> n = 5 \<or> n = 6 \<or> n = 7" by simp linarith
  then show "bit a n = bit b n" by (intro a) simp
qed

lemma shift_mask:
  assumes "k + m \<le> 8"
  shows "signed_drop_bit k (promote c) AND mask m = ucast (take_bit m (drop_bit k c))"
proof (rule bit_word_eqI)
  fix n
  show "bit (signed_drop_bit k (promote c) AND mask m) n = bit (ucast (take_bit m (drop_bit k c)) :: u32) n"
    using assms by (cases "n < m") (auto simp: bit_promote bit_simps min_def u8_bit_high)
qed

text \<open>The four indices of a group.\<close>

definition sextets :: "u8 \<times> u8 \<times> u8 \<Rightarrow> u32 list" where
  "sextets inp = (let (i0, i1, i2) = inp in
     [signed_drop_bit 2 (promote i0) AND 0x3f,
      push_bit 4 (promote i0 AND 3) OR (signed_drop_bit 4 (promote i1) AND 0x0f),
      push_bit 2 (promote i1 AND 0xF) OR (signed_drop_bit 6 (promote i2) AND 0x03),
      promote i2 AND 0x3F])"

lemma sextet_bound: "take_bit 6 w = w \<Longrightarrow> unat (w :: u32) < 64"
proof -
  assume "take_bit 6 w = w"
  then have "unat w = take_bit 6 (unat w)"
    by (metis unsigned_take_bit_eq)
  then show ?thesis
    using take_bit_nat_less_exp [of 6 "unat w"] by simp
qed

lemma sextets_bound: "\<forall>w\<in>set (sextets inp). unat w < 64"
proof (cases inp)
  case (fields a b c)
  have "take_bit 6 w = w" if "w \<in> set (sextets inp)" for w
    using that unfolding fields sextets_def Let_def prod.case masks
    by (elim set_ConsD [elim_format] disjE; hypsubst?) (auto intro!: bit_word_eqI simp: bit_simps bit_promote)
  then show ?thesis by (simp add: sextet_bound)
qed

text \<open>Three bytes come back from four sextets; the first needs two of them, the second three.\<close>

lemma sextets_decode:
  fixes a b c d e :: u8
  shows "decode_group [ucast (sextets (a, b, c) ! 0), ucast (sextets (a, b, c) ! 1), d, e] ! 0 = a"
    and "decode_group [ucast (sextets (a, b, c) ! 0), ucast (sextets (a, b, c) ! 1), ucast (sextets (a, b, c) ! 2), e] ! 1 = b"
    and "decode_group (map ucast (sextets (a, b, c))) ! 2 = c"
  unfolding sextets_def Let_def prod.case decode_group_def masks
  by (simp_all, (rule u8_eqI; elim insertE emptyE; simp add: bit_promote bit_simps u8_bit_high)+)

subsection \<open>Tables\<close>

lemma low_index: "k < 64 \<Longrightarrow> (of_nat k AND 0x80 :: u8) = 0"
proof -
  assume "k < 64"
  then have "\<not> bit k 7"
    by (simp add: bit_iff_odd)
  then have "\<not> bit (of_nat k :: u8) 7"
    by (simp add: bit_of_nat_iff)
  then show ?thesis
    by (intro u8_eqI) (elim insertE emptyE; simp add: bit_simps)
qed

lemma DTable_ETable: "k < 64 \<Longrightarrow> DTable_at (ETable ! k) = Some (of_nat k)"
proof -
  have "list_all (\<lambda>k. DTable_at (ETable ! k) = Some (of_nat k)) [0..<64]"
    by code_simp
  then show "k < 64 \<Longrightarrow> DTable_at (ETable ! k) = Some (of_nat k)"
    by (simp add: list_all_iff del: upt_Suc)
qed

lemma DTable_pad: "DTable_at (ch (CHR ''='')) = Some 0"
  by code_simp

lemma ETable_pad: "k < 64 \<Longrightarrow> ETable ! k \<noteq> ch (CHR ''='')"
proof -
  have "ch (CHR ''='') \<notin> set ETable" "length ETable = 64"
    by code_simp+
  then show "k < 64 \<Longrightarrow> ETable ! k \<noteq> ch (CHR ''='')"
    by (metis nth_mem)
qed

subsection \<open>Round trip\<close>

lemma length_sextets [simp]: "length (sextets inp) = 4"
  by (cases inp) (simp add: sextets_def)

lemma encode_group_sextets:
  "encode_group inp n = (let w = sextets inp; pad = ch (CHR ''='') in
     [ETable ! unat (w ! 0), ETable ! unat (w ! 1),
      if n < 2 then pad else ETable ! unat (w ! 2), if n < 3 then pad else ETable ! unat (w ! 3)])"
  by (cases inp) (simp add: encode_group_def sextets_def Let_def)

lemma length_encode_group [simp]: "length (encode_group inp n) = 4"
  by (simp add: encode_group_sextets Let_def)

lemma read_index: "unat w < 64 \<Longrightarrow> DTable_at (ETable ! unat (w :: u32)) = Some (ucast w) \<and> (ucast w AND 0x80 :: u8) = 0"
  using DTable_ETable [of "unat w"] low_index [of "unat w"] by simp

lemma read_encoded_group:
  "read_group (encode_group inp n) = Some (Some (let w = sextets inp in
     [ucast (w ! 0), ucast (w ! 1), if n < 2 then 0 else ucast (w ! 2), if n < 3 then 0 else ucast (w ! 3)]))"
proof -
  have b: "unat (sextets inp ! i) < 64" if "i < 4" for i
    using sextets_bound [of inp] that by simp
  show ?thesis
    using read_index [OF b [of 0]] read_index [OF b [of 1]] read_index [OF b [of 2]] read_index [OF b [of 3]]
    by (simp add: encode_group_sextets Let_def DTable_pad)
qed

lemma decode_encoded_group:
  assumes "s \<noteq> []" "n = min 3 (length s)"
  shows "take n (decode_group (let w = sextets (load_group inp s n) in
     [ucast (w ! 0), ucast (w ! 1), if n < 2 then 0 else ucast (w ! 2), if n < 3 then 0 else ucast (w ! 3)])) = take n s"
proof -
  obtain i0 i1 i2 where inp: "inp = (i0, i1, i2)" by (cases inp)
  have w4: "map ucast (sextets x) = [ucast (sextets x ! 0), ucast (sextets x ! 1), ucast (sextets x ! 2), ucast (sextets x ! 3) :: u8]" for x
    by (cases x) (simp add: sextets_def)
  have len: "length (decode_group b) = 3" for b
    by (simp add: decode_group_def)
  consider "length s = 1" | "length s = 2" | "length s \<ge> 3"
    using assms(1) by (cases "length s") (auto, linarith)
  then show ?thesis
  proof cases
    case 1
    then show ?thesis
      using assms(2) sextets_decode(1) len
      by (auto simp: inp load_group_def Let_def intro!: nth_equalityI)
  next
    case 2
    then show ?thesis
      using assms(2) sextets_decode(1,2) len
      by (auto simp: inp load_group_def Let_def less_Suc_eq numeral_eq_Suc intro!: nth_equalityI)
  next
    case 3
    then show ?thesis
      using assms(2) sextets_decode(1,2) sextets_decode(3) [unfolded w4] len
      by (auto simp: inp load_group_def Let_def less_Suc_eq numeral_eq_Suc intro!: nth_equalityI)
  qed
qed

lemma pad_position:
  assumes "n = 1 \<or> n = 2 \<or> n = 3"
  shows "(if encode_group inp n ! 2 = ch (CHR ''='') then 1
          else if encode_group inp n ! 3 = ch (CHR ''='') then 2 else 3) = n"
proof -
  have "unat (sextets inp ! i) < 64" if "i < 4" for i
    using sextets_bound [of inp] that by simp
  then show ?thesis
    using assms ETable_pad by (auto simp: encode_group_sextets Let_def)
qed

lemma decode_encode_loop:
  "decode_loop (encode_loop inp s) out = Some (length out + length s, out @ s)"
proof (induction inp s arbitrary: out rule: encode_loop.induct)
  case (1 inp s)
  let ?n = "if length s \<ge> 3 then 3 else length s"
  show ?case
  proof (cases "s = []")
    case True
    then show ?thesis
      by (subst encode_loop.simps, subst decode_loop.simps) simp
  next
    case False
    obtain n where n: "n = ?n" by blast
    have "length s \<noteq> 0" using False by simp
    then have n3: "n = 1 \<or> n = 2 \<or> n = 3" and nmin: "n = min 3 (length s)"
      unfolding n by (cases "length s \<ge> 3"; simp; linarith)+
    let ?in = "load_group inp s n"
    have enc: "encode_loop inp s = encode_group ?in n @ encode_loop ?in (drop n s)"
      using n3 by (subst encode_loop.simps) (auto simp: Let_def n [symmetric])
    have "n \<noteq> 0" using n3 by auto
    have "decode_loop (encode_loop ?in (drop n s)) (out @ take n s)
        = Some (length (out @ take n s) + length (drop n s), (out @ take n s) @ drop n s)"
      by (rule 1 [OF n \<open>n \<noteq> 0\<close> refl])
    then have IH: "decode_loop (encode_loop ?in (drop n s)) (out @ take n s) = Some (length out + length s, out @ s)"
      using nmin by simp
    have "encode_group ?in n \<noteq> []"
      using length_encode_group [of ?in n] by (metis list.size(3) zero_neq_numeral)
    then have ne: "encode_loop inp s \<noteq> []"
      unfolding enc by simp
    have cut: "take 4 (encode_loop inp s) = encode_group ?in n" "drop 4 (encode_loop inp s) = encode_loop ?in (drop n s)"
      "4 \<le> length (encode_loop inp s)"
      unfolding enc by simp_all
    let ?w = "sextets ?in"
    let ?b = "[ucast (?w ! 0), ucast (?w ! 1), if n < 2 then 0 else ucast (?w ! 2), if n < 3 then 0 else ucast (?w ! 3)] :: u8 list"
    have read: "read_group (encode_group ?in n) = Some (Some ?b)"
      unfolding read_encoded_group Let_def by (rule refl)
    have dec: "take n (decode_group ?b) = take n s"
      using decode_encoded_group [OF False nmin, of inp] unfolding Let_def .
    show ?thesis
      unfolding decode_loop.simps [of "encode_loop inp s"] Let_def cut read
      using ne cut(3) by (simp only: if_False c_assert_True bind.bind_lunit option.case pad_position [OF n3] dec IH)
  qed
qed

lemma length_encode_loop: "length (encode_loop inp s) = 4 * ((length s + 2) div 3)"
proof (induction inp s rule: encode_loop.induct)
  case (1 inp s)
  show ?case
  proof (cases "length s \<ge> 3")
    case True
    with 1 [OF refl _ refl] show ?thesis
      by (subst encode_loop.simps) (simp add: Let_def le_div_geq flip: diff_add_assoc2)
  next
    case False
    then consider "s = []" | "length s = 1" | "length s = 2"
      by (cases "length s") (auto, linarith)
    then show ?thesis
      using 1 [OF refl _ refl] False
      by cases (subst encode_loop.simps; simp add: Let_def encode_loop.simps)+
  qed
qed

lemma decode_loop_bound:
  "decode_loop s out = Some (n, out') \<Longrightarrow> 4 dvd length s \<Longrightarrow>
     length out' \<le> length out + length s div 4 * 3 \<and> (n = 0 \<or> n = length out')"
proof (induction s out rule: decode_loop.induct)
  case (1 s out)
  show ?case
  proof (cases "s = []")
    case True
    with "1.prems"(1) show ?thesis by (subst (asm) decode_loop.simps) auto
  next
    case False
    with "1.prems"(2) have len: "length s \<ge> 4"
      by (intro dvd_imp_le) simp_all
    note eq = "1.prems"(1) [unfolded decode_loop.simps [of s]]
    from eq False len obtain r where r: "read_group (take 4 s) = Some r"
      by (cases "read_group (take 4 s)") simp_all
    show ?thesis
    proof (cases r)
      case None
      with eq False len r show ?thesis by simp
    next
      case (Some b)
      let ?i = "if take 4 s ! 2 = ch (CHR ''='') then 1 else if take 4 s ! 3 = ch (CHR ''='') then 2 else 3 :: nat"
      have "decode_loop (drop 4 s) (out @ take ?i (decode_group b)) = Some (n, out')"
        using eq False len r Some by (simp add: Let_def)
      moreover have "4 dvd length (drop 4 s)"
        using "1.prems"(2) len by (simp add: dvd_diff_nat)
      ultimately have "length out' \<le> length (out @ take ?i (decode_group b)) + length (drop 4 s) div 4 * 3
          \<and> (n = 0 \<or> n = length out')"
        by (rule 1(1) [OF False _ refl r Some refl, rotated]) (use len in simp)
      moreover have "length (take ?i (decode_group b)) \<le> 3"
        by (simp add: decode_group_def)
      ultimately show ?thesis
        using len by (simp add: le_div_geq [of 4 "length s"])
    qed
  qed
qed

lemma bit_unat_le: "bit (w :: 'a :: len word) n \<Longrightarrow> 2 ^ n \<le> unat w"
proof -
  assume "bit w n"
  then have "bit (unat w) n"
    by (simp add: bit_unsigned_iff)
  then have b: "odd (unat w div 2 ^ n)"
    by (simp only: bit_iff_odd simp_thms)
  have "\<not> unat w < 2 ^ n"
  proof
    assume "unat w < 2 ^ n"
    then have "unat w div 2 ^ n = 0"
      by (rule div_less)
    with b show False
      by (simp only: even_zero not_True_eq_False)
  qed
  then show ?thesis
    by (simp only: not_less)
qed

lemma promote_high: "c \<ge> 0x80 \<Longrightarrow> DTable_at c = None"
proof -
  assume "c \<ge> 0x80"
  then have "128 \<le> unat c" "unat c < 256"
    using unsigned_less [of c, where ?'a = nat] by (simp_all add: word_le_nat_alt)
  then have "unat c div 2 ^ 7 = 1"
    by (simp add: div_nat_eqI)
  then have "bit (unat c) 7"
    by (simp add: bit_iff_odd)
  then have "bit c 7"
    by (simp add: bit_unsigned_iff)
  then have "2 ^ 31 \<le> unat (promote c)"
    by (intro bit_unat_le) (simp add: bit_promote)
  moreover have "length init_DTable = 256"
    by code_simp
  ultimately show ?thesis
    by (simp add: DTable_at_def rd_def)
qed

subsection \<open>Properties\<close>

text \<open>Round trip: the decoder returns exactly the bytes that were encoded, whatever they are, when
  the destination has the room the decoder asks for.\<close>

theorem base64_round_trip:
  assumes "3 * ((length bs + 2) div 3) \<le> to_len"
  shows "ws_base64_decode (butlast (ws_base64_encode bs)) to_len = Some (length bs, bs)"
  using assms decode_encode_loop [of "(0, 0, 0)" bs "[]"]
  by (simp add: ws_base64_decode_def ws_base64_encode_def length_encode_loop)

lemma base64_round_trip_witness:
  "ws_base64_decode (butlast (ws_base64_encode [0, 255, 128, 7])) 6 = Some (length [0 :: u8, 255, 128, 7], [0, 255, 128, 7])"
  by (rule base64_round_trip) simp

text \<open>The encoder writes four characters for every three bytes begun and a terminating zero, and
  nothing else.\<close>

lemma base64_encode_length: "length (ws_base64_encode bs) = 4 * ((length bs + 2) div 3) + 1"
  by (simp add: ws_base64_encode_def length_encode_loop)

text \<open>The decoder never writes more than \<open>to_len\<close> bytes, and its return value is either zero or the
  number of bytes written.\<close>

theorem base64_decode_bounded:
  assumes "ws_base64_decode bs to_len = Some (n, out)"
  shows "length out \<le> to_len \<and> (n = 0 \<or> n = length out)"
  using assms decode_loop_bound [of bs "[]" n out]
  by (auto simp: ws_base64_decode_def dvd_eq_mod_eq_0 split: if_splits)

lemma base64_decode_bounded_witness: "length ([97, 98, 99] :: u8 list) \<le> 3 \<and> (3 = (0 :: nat) \<or> 3 = length ([97, 98, 99] :: u8 list))"
proof (rule base64_decode_bounded)
  have "butlast (ws_base64_encode [97, 98, 99]) = [89, 87, 74, 106]"
    by code_simp
  with base64_round_trip [of "[97, 98, 99]" 3]
  show "ws_base64_decode [89, 87, 74, 106] 3 = Some (3, [97, 98, 99])" by simp
qed

text \<open>The encoder is not canonical: the last group of \<^verbatim>\<open>"abcd"\<close> mixes the stale \<^verbatim>\<open>'b'\<close> of the group
  before it into the padding bits, \<^verbatim>\<open>"YWJjZG=="\<close> where RFC 4648 has \<^verbatim>\<open>"YWJjZA=="\<close>.\<close>

theorem base64_stale_pad_bits:
  "ws_base64_encode (map ch ''abcd'') = map ch ''YWJjZG=='' @ [0]
   \<and> ws_base64_encode (map ch ''d'') = map ch ''ZA=='' @ [0]"
  by code_simp

text \<open>A byte above 127 is outside the decoding table: sign extension turns it into an index far
  beyond the 256 entries, and the decoder reads there before it can reject the input.\<close>

theorem base64_decode_high_byte:
  assumes "c \<ge> 0x80" "length (c # cs) mod 4 = 0" "length (c # cs) div 4 * 3 \<le> to_len"
  shows "ws_base64_decode (c # cs) to_len = None"
  using assms promote_high [OF assms(1)]
  by (cases "length cs \<ge> 3") (auto simp: ws_base64_decode_def decode_loop.simps [of "c # cs"] c_assert_def Let_def)

lemma base64_decode_high_byte_witness: "ws_base64_decode [0xC3, 0x41, 0x41, 0x41] 3 = None"
  by (rule base64_decode_high_byte) simp_all

end
