(* ===== verification/Buf.thy ===== *)
theory Buf
  imports Prelude
begin

text \<open>
  The growing byte buffer of \<^verbatim>\<open>src/lib/u/buf.c\<close>. The memory block is the list of its bytes, so that
  its length is what was allocated; a write outside it is \<^term>\<open>None\<close>. A null buffer pointer is
  \<^term>\<open>None\<close>. The results of the allocator, of \<^verbatim>\<open>stat\<close>, \<^verbatim>\<open>fopen\<close> and the bytes of
  the file are arguments. A return value is \<open>0\<close> or \<open>-1\<close>.
\<close>

record u_buf_s =
  buf_data :: "u8 list option"
  buf_size :: u64
  buf_len :: u64

type_synonym u_buf_t = "u_buf_s option"

definition OK :: int where "OK = 0"
definition ERR :: int where "ERR = - 1"

text \<open>\<^verbatim>\<open>u_realloc\<close>: the new block keeps what fits of the old one; \<open>junk\<close> gives the bytes it adds.\<close>

definition u_realloc :: "(nat \<Rightarrow> u8) option \<Rightarrow> u8 list option \<Rightarrow> u64 \<Rightarrow> u8 list option" where
  "u_realloc mem p n = (case mem of
     None \<Rightarrow> None
   | Some junk \<Rightarrow>
       (let old = (case p of None \<Rightarrow> [] | Some d \<Rightarrow> d); n = unat n
        in Some (take n old @ map junk [length old..<n])))"

definition u_buf_reserve :: "(nat \<Rightarrow> u8) option \<Rightarrow> u_buf_t \<Rightarrow> u64 \<Rightarrow> (int \<times> u_buf_t) option" where
  "u_buf_reserve mem ubuf sz = (case ubuf of
     None \<Rightarrow> Some (ERR, ubuf)
   | Some b \<Rightarrow>
       if sz \<le> buf_size b then Some (OK, ubuf)
       else (case u_realloc mem (buf_data b) (sz + 1) of
           None \<Rightarrow> Some (ERR, ubuf)
         | Some nbuf \<Rightarrow> do {
             nbuf \<leftarrow> wr nbuf (unat sz) 0;
             Some (OK, Some (b\<lparr>buf_data := Some nbuf, buf_size := sz\<rparr>)) }))"

text \<open>The bytes \<open>src\<close> copied to \<^verbatim>\<open>data + off\<close>; copying to a null block is undefined.\<close>

definition blit :: "u8 list option \<Rightarrow> nat \<Rightarrow> u8 list \<Rightarrow> u8 list option" where
  "blit block off src = (case block of
     None \<Rightarrow> None
   | Some d \<Rightarrow> if off + length src \<le> length d then Some (take off d @ src @ drop (off + length src) d) else None)"

text \<open>\<open>data\<close> is a null pointer or a block of at least \<open>sz\<close> bytes.\<close>

definition u_buf_append ::
  "(nat \<Rightarrow> u8) option \<Rightarrow> u_buf_t \<Rightarrow> u8 list option \<Rightarrow> u64 \<Rightarrow> (int \<times> u_buf_t) option" where
  "u_buf_append mem ubuf data sz = (case ubuf of
     None \<Rightarrow> Some (ERR, ubuf)
   | Some b \<Rightarrow>
       if sz = 0 then Some (ERR, ubuf)
       else do {
         (ret, ubuf) \<leftarrow> (if buf_size b - buf_len b < sz
            then u_buf_reserve mem ubuf (buf_size b + buf_len b + 2 * sz) else Some (OK, ubuf));
         if ret \<noteq> OK then Some (ERR, ubuf)
         else (case (data, ubuf) of
             (Some src, Some b) \<Rightarrow> do {
               d \<leftarrow> blit (buf_data b) (unat (buf_len b)) (take (unat sz) src);
               let len = buf_len b + sz;
               d \<leftarrow> wr d (unat len) 0;
               Some (OK, Some (b\<lparr>buf_data := Some d, buf_len := len\<rparr>)) }
           | _ \<Rightarrow> Some (OK, ubuf))
       })"

definition u_buf_set_len :: "u_buf_s \<Rightarrow> u64 \<Rightarrow> u_buf_s" where
  "u_buf_set_len b len = b\<lparr>buf_len := len\<rparr>"

definition u_buf_clear :: "u_buf_t \<Rightarrow> int \<times> u_buf_t" where
  "u_buf_clear ubuf = (case ubuf of None \<Rightarrow> (ERR, ubuf) | Some b \<Rightarrow> (OK, Some (b\<lparr>buf_len := 0\<rparr>)))"

text \<open>\<open>filename\<close> tells whether a name was given, \<open>st\<close> is the size \<^verbatim>\<open>stat\<close> reports, \<open>file\<close> the bytes
  read from the file when it opens. \<^verbatim>\<open>fread\<close> of one item of no bytes returns zero.\<close>

definition u_buf_load ::
  "(nat \<Rightarrow> u8) option \<Rightarrow> u_buf_t \<Rightarrow> bool \<Rightarrow> u64 option \<Rightarrow> u8 list option \<Rightarrow> (int \<times> u_buf_t) option" where
  "u_buf_load mem ubuf filename st file =
     (if ubuf = None \<or> \<not> filename then Some (ERR, ubuf)
      else (case st of
          None \<Rightarrow> Some (ERR, ubuf)
        | Some st_size \<Rightarrow> do {
            let (ret, ubuf) = u_buf_clear ubuf;
            (ret, ubuf) \<leftarrow> u_buf_reserve mem ubuf st_size;
            if ret \<noteq> OK then Some (ERR, ubuf)
            else (case (file, ubuf) of
                (Some bytes, Some b) \<Rightarrow>
                  if st_size = 0 then Some (ERR, ubuf)
                  else do {
                    d \<leftarrow> blit (buf_data b) 0 (take (unat st_size) bytes);
                    let ubuf = Some (b\<lparr>buf_data := Some d\<rparr>);
                    if length bytes < unat st_size then Some (ERR, ubuf)
                    else Some (OK, Some (b\<lparr>buf_data := Some d, buf_len := st_size\<rparr>)) }
              | _ \<Rightarrow> Some (ERR, ubuf)) }))"

definition u_buf_detach :: "u_buf_t \<Rightarrow> int \<times> u_buf_t" where
  "u_buf_detach ubuf = (case ubuf of
     None \<Rightarrow> (ERR, ubuf)
   | Some b \<Rightarrow> (OK, Some (b\<lparr>buf_data := None, buf_size := 0, buf_len := 0\<rparr>)))"

definition u_buf_size :: "u_buf_t \<Rightarrow> u64" where
  "u_buf_size ubuf = (case ubuf of None \<Rightarrow> 0 | Some b \<Rightarrow> buf_size b)"

definition u_buf_len :: "u_buf_t \<Rightarrow> u64" where
  "u_buf_len ubuf = (case ubuf of None \<Rightarrow> 0 | Some b \<Rightarrow> buf_len b)"

definition u_buf_set ::
  "(nat \<Rightarrow> u8) option \<Rightarrow> u_buf_t \<Rightarrow> u8 list option \<Rightarrow> u64 \<Rightarrow> (int \<times> u_buf_t) option" where
  "u_buf_set mem ubuf data sz =
     (if ubuf = None \<or> data = None \<or> sz = 0 then Some (ERR, ubuf)
      else let (ret, ubuf) = u_buf_clear ubuf in
        if ret \<noteq> OK then Some (ERR, ubuf)
        else do {
          (ret, ubuf) \<leftarrow> u_buf_append mem ubuf data sz;
          Some (if ret \<noteq> OK then ERR else OK, ubuf) })"

definition u_buf_steal :: "u_buf_s \<Rightarrow> u8 list option \<times> u_buf_s" where
  "u_buf_steal b = (buf_data b, b\<lparr>buf_data := None, buf_size := 0, buf_len := 0\<rparr>)"

definition u_buf_ptr :: "u_buf_t \<Rightarrow> u8 list option" where
  "u_buf_ptr ubuf = (case ubuf of None \<Rightarrow> None | Some b \<Rightarrow> buf_data b)"

text \<open>The blocks released by \<^verbatim>\<open>u_buf_free\<close>: whether the data block is freed, and the buffer object.\<close>

definition u_buf_free :: "u_buf_t \<Rightarrow> int \<times> bool \<times> bool" where
  "u_buf_free ubuf = (case ubuf of None \<Rightarrow> (ERR, False, False) | Some b \<Rightarrow> (OK, buf_data b \<noteq> None, True))"

text \<open>\<open>pubuf\<close> tells whether the caller passed a place for the result, \<open>mem\<close> whether there is memory.\<close>

definition u_buf_create :: "bool \<Rightarrow> bool \<Rightarrow> int \<times> u_buf_t" where
  "u_buf_create mem pubuf =
     (if \<not> pubuf then (ERR, None)
      else if \<not> mem then (ERR, None)
      else (OK, Some \<lparr>buf_data = None, buf_size = 0, buf_len = 0\<rparr>))"

definition u_buf_construct :: "u_buf_s \<Rightarrow> u8 list option \<Rightarrow> u64 \<Rightarrow> u64 \<Rightarrow> int \<times> u_buf_s" where
  "u_buf_construct b ptr sz len = (OK, b\<lparr>buf_data := ptr, buf_size := sz, buf_len := len\<rparr>)"

subsection \<open>Well-formed buffers\<close>

definition buf_ok :: "u_buf_s \<Rightarrow> bool" where
  "buf_ok b \<longleftrightarrow> buf_len b \<le> buf_size b \<and> (case buf_data b of
     None \<Rightarrow> buf_size b = 0 | Some d \<Rightarrow> length d = unat (buf_size b) + 1)"

text \<open>The bytes a buffer holds.\<close>

definition contents :: "u_buf_s \<Rightarrow> u8 list" where
  "contents b = (case buf_data b of None \<Rightarrow> [] | Some d \<Rightarrow> take (unat (buf_len b)) d)"

definition terminated :: "u_buf_s \<Rightarrow> bool" where
  "terminated b \<longleftrightarrow> (case buf_data b of None \<Rightarrow> True | Some d \<Rightarrow> d ! unat (buf_len b) = 0)"

end
