(* ===== verification/Buf_Correct.thy ===== *)
theory Buf_Correct
  imports Buf
begin

text \<open>
  The buffer as a byte sequence: every operation keeps the block one byte larger than the recorded
  size and the length within it, so that no write leaves the block, and appending concatenates.
\<close>

lemma reserve_ok:
  assumes ok: "buf_ok b" and sz: "unat sz < 2 ^ 64 - 1"
  shows "(\<exists>b'. u_buf_reserve (Some junk) (Some b) sz = Some (OK, Some b') \<and> buf_ok b' \<and> sz \<le> buf_size b'
       \<and> buf_len b' = buf_len b \<and> contents b' = contents b \<and> (buf_data b \<noteq> None \<or> sz \<noteq> 0 \<longrightarrow> buf_data b' \<noteq> None))"
    and "u_buf_reserve None (Some b) sz = Some (if sz \<le> buf_size b then (OK, Some b) else (ERR, Some b))"
proof -
  show "u_buf_reserve None (Some b) sz = Some (if sz \<le> buf_size b then (OK, Some b) else (ERR, Some b))"
    by (simp add: u_buf_reserve_def u_realloc_def)
  show "\<exists>b'. u_buf_reserve (Some junk) (Some b) sz = Some (OK, Some b') \<and> buf_ok b' \<and> sz \<le> buf_size b'
       \<and> buf_len b' = buf_len b \<and> contents b' = contents b \<and> (buf_data b \<noteq> None \<or> sz \<noteq> 0 \<longrightarrow> buf_data b' \<noteq> None)"
  proof (cases "sz \<le> buf_size b")
    case True
    with ok show ?thesis
      by (auto simp: u_buf_reserve_def buf_ok_def word_le_nat_alt word_unat_eq_iff split: option.splits)
  next
    case False
    then have lt: "unat (buf_size b) < unat sz"
      by (simp add: word_le_nat_alt)
    have n: "unat (sz + 1) = unat sz + 1"
      using sz by (subst unat_add_64) simp_all
    let ?old = "case buf_data b of None \<Rightarrow> [] | Some d \<Rightarrow> d"
    let ?new = "take (unat (sz + 1)) ?old @ map junk [length ?old..<unat (sz + 1)]"
    have old: "length ?old \<le> unat sz" "unat (buf_len b) \<le> length ?old"
      using ok lt by (auto simp: buf_ok_def word_le_nat_alt split: option.splits)
    then have len: "length ?new = unat sz + 1"
      using n by simp
    have "u_buf_reserve (Some junk) (Some b) sz = Some (OK, Some (b\<lparr>buf_data := Some (?new[unat sz := 0]), buf_size := sz\<rparr>))"
      using False len by (simp add: u_buf_reserve_def u_realloc_def Let_def)
    moreover have "buf_len b \<le> sz"
      using ok lt by (simp add: buf_ok_def word_le_nat_alt)
    moreover have "take (unat (buf_len b)) (?new[unat sz := 0]) = contents b"
      using old n by (auto simp: contents_def split: option.splits)
    ultimately show ?thesis
      using len by (auto simp: buf_ok_def contents_def simp del: length_append)
  qed
qed

lemma blit_ok:
  "off + length src \<le> length d \<Longrightarrow> \<exists>e. blit (Some d) off src = Some e \<and> length e = length d
     \<and> take (off + length src) e = take off d @ src"
  by (cases src) (auto simp: blit_def min_def)

lemma append_ok:
  assumes ok: "buf_ok b" and n: "0 < length bytes" and sz: "sz = of_nat (length bytes)"
    and small: "unat (buf_size b) + unat (buf_len b) + 2 * length bytes < 2 ^ 64 - 1"
  shows "\<exists>b'. u_buf_append (Some junk) (Some b) (Some bytes) sz = Some (OK, Some b')
     \<and> buf_ok b' \<and> contents b' = contents b @ bytes \<and> terminated b'"
    and "unat (buf_size b - buf_len b) < length bytes \<Longrightarrow>
      u_buf_append None (Some b) (Some bytes) sz = Some (ERR, Some b)"
proof -
  have usz: "unat sz = length bytes"
    using small unfolding sz by (intro unat_of_nat_64) simp
  have nz: "sz \<noteq> 0"
    using n usz by auto
  have free: "unat (buf_size b - buf_len b) = unat (buf_size b) - unat (buf_len b)" "unat (buf_len b) \<le> unat (buf_size b)"
    using ok by (simp_all add: buf_ok_def unat_sub word_le_nat_alt)
  let ?want = "buf_size b + buf_len b + 2 * sz"
  have lt: "unat (buf_size b) + unat (buf_len b) < 2 ^ 64"
      "unat (buf_size b) + unat (buf_len b) + 2 * length bytes < 2 ^ 64" "unat sz + unat sz < 2 ^ 64"
    using small usz by linarith+
  have two: "unat (2 * sz) = 2 * length bytes"
    unfolding mult_2 unat_add_64 [OF lt(3)] usz ..
  have "unat (buf_size b + buf_len b) = unat (buf_size b) + unat (buf_len b)"
    by (rule unat_add_64 [OF lt(1)])
  then have want: "unat ?want = unat (buf_size b) + unat (buf_len b) + 2 * length bytes"
    using lt(2) unat_add_64 [of "buf_size b + buf_len b" "2 * sz"] unfolding two by linarith
  note R = reserve_ok [OF ok, of ?want]
  have big: "?want > buf_size b" "\<not> ?want \<le> buf_size b"
    using n want by (simp_all add: word_less_nat_alt word_le_nat_alt)
  show "u_buf_append None (Some b) (Some bytes) sz = Some (ERR, Some b)"
    if "unat (buf_size b - buf_len b) < length bytes"
    using that nz R(2) want small big usz
    by (simp add: u_buf_append_def word_less_nat_alt OK_def ERR_def)
  have "\<exists>b'. (if buf_size b - buf_len b < sz then u_buf_reserve (Some junk) (Some b) ?want else Some (OK, Some b))
        = Some (OK, Some b') \<and> buf_ok b' \<and> buf_len b' = buf_len b \<and> contents b' = contents b
        \<and> (\<exists>d. buf_data b' = Some d \<and> unat (buf_len b) + length bytes < length d)"
  proof (cases "buf_size b - buf_len b < sz")
    case True
    from R(1) [of junk] want small obtain b' where
      b': "u_buf_reserve (Some junk) (Some b) ?want = Some (OK, Some b')" "buf_ok b'" "?want \<le> buf_size b'"
      "buf_len b' = buf_len b" "contents b' = contents b" "buf_data b' \<noteq> None"
      using big by auto
    then obtain d where d: "buf_data b' = Some d" by blast
    have "unat ?want \<le> unat (buf_size b')"
      using b'(3) by (simp add: word_le_nat_alt)
    then have "unat (buf_len b) + length bytes < length d"
      using b'(2) d n want by (simp add: buf_ok_def)
    with True b' d show ?thesis by simp
  next
    case False
    then have room: "unat (buf_len b) + length bytes \<le> unat (buf_size b)"
      using usz free by (simp add: word_less_nat_alt)
    then have "buf_data b \<noteq> None"
      using ok n by (auto simp: buf_ok_def split: option.splits)
    then obtain d where "buf_data b = Some d" by blast
    with False room ok show ?thesis
      by (auto simp: buf_ok_def)
  qed
  then obtain b' d where
    r: "(if buf_size b - buf_len b < sz then u_buf_reserve (Some junk) (Some b) ?want else Some (OK, Some b)) = Some (OK, Some b')"
    and b': "buf_ok b'" "buf_len b' = buf_len b" "contents b' = contents b" "buf_data b' = Some d"
      "unat (buf_len b) + length bytes < length d"
    by blast
  obtain e where e: "blit (Some d) (unat (buf_len b)) bytes = Some e" "length e = length d"
    "take (unat (buf_len b) + length bytes) e = take (unat (buf_len b)) d @ bytes"
    using blit_ok [of "unat (buf_len b)" bytes d] b'(5) by auto
  have len: "unat (buf_len b + sz) = unat (buf_len b) + length bytes"
    using small usz by (subst unat_add_64) simp_all
  let ?c = "b'\<lparr>buf_data := Some (e[unat (buf_len b) + length bytes := 0]), buf_len := buf_len b + sz\<rparr>"
  have "u_buf_append (Some junk) (Some b) (Some bytes) sz = Some (OK, Some ?c)"
    using nz r b' e len unfolding u_buf_append_def option.case
    by (simp add: usz wr_def)
  moreover have "buf_ok ?c"
    using b' e len by (simp add: buf_ok_def word_le_nat_alt)
  moreover have "contents ?c = contents b @ bytes" "terminated ?c"
    using b' e len by (simp_all add: contents_def terminated_def)
  ultimately show "\<exists>b'. u_buf_append (Some junk) (Some b) (Some bytes) sz = Some (OK, Some b')
     \<and> buf_ok b' \<and> contents b' = contents b @ bytes \<and> terminated b'" by blast
qed

text \<open>Room for a sequence of appends: the block is never more than three times the bytes held.\<close>

lemma append_fields:
  assumes "u_buf_append (Some junk) (Some b) (Some bytes) sz = Some (OK, Some b')" and "sz \<noteq> 0"
  shows "buf_len b' = buf_len b + sz \<and> buf_size b' =
    (if buf_size b - buf_len b < sz \<and> \<not> buf_size b + buf_len b + 2 * sz \<le> buf_size b
     then buf_size b + buf_len b + 2 * sz else buf_size b)"
  using assms unfolding u_buf_append_def u_buf_reserve_def u_realloc_def OK_def ERR_def Let_def
  by (auto split: if_splits bind_splits simp del: word_le_sub1 not_le not_less)

lemma append_size:
  assumes ok: "buf_ok b" and sz: "sz = of_nat (length bytes)" and n: "0 < length bytes"
    and three: "unat (buf_size b) \<le> 3 * unat (buf_len b)"
    and small: "unat (buf_len b) + length bytes < 2 ^ 61"
    and r: "u_buf_append (Some junk) (Some b) (Some bytes) sz = Some (OK, Some b')"
  shows "unat (buf_size b') \<le> 3 * unat (buf_len b')" "unat (buf_len b') = unat (buf_len b) + length bytes"
proof -
  have small': "unat (buf_len b) + length bytes < 2305843009213693952"
    using small by simp
  then have usz: "unat sz = length bytes"
    unfolding sz by (intro unat_of_nat_64) simp
  have le: "unat (buf_len b) \<le> unat (buf_size b)"
    using ok by (simp add: buf_ok_def word_le_nat_alt)
  have len: "unat (buf_len b + sz) = unat (buf_len b) + length bytes"
    using small' usz by (subst unat_add_64) simp_all
  have free: "unat (buf_size b - buf_len b) = unat (buf_size b) - unat (buf_len b)"
    using ok by (simp add: buf_ok_def unat_sub)
  have nz: "sz \<noteq> 0"
    using n usz by auto
  have "unat sz + unat sz < 2 ^ 64"
    using small' usz by simp
  from unat_add_64 [OF this] have two: "unat (2 * sz) = 2 * length bytes"
    unfolding mult_2 usz .
  have "unat (buf_size b + buf_len b) = unat (buf_size b) + unat (buf_len b)"
    using small' three by (subst unat_add_64) simp_all
  then have size: "unat (buf_size b + buf_len b + 2 * sz) = unat (buf_size b) + unat (buf_len b) + 2 * length bytes"
    using small' three two by (subst unat_add_64) simp_all
  from append_fields [OF r nz] have b': "buf_len b' = buf_len b + sz"
    "buf_size b' = (if buf_size b - buf_len b < sz \<and> \<not> buf_size b + buf_len b + 2 * sz \<le> buf_size b
       then buf_size b + buf_len b + 2 * sz else buf_size b)"
    by blast+
  show "unat (buf_len b') = unat (buf_len b) + length bytes"
    using b'(1) len by simp
  show "unat (buf_size b') \<le> 3 * unat (buf_len b')"
  proof (cases "buf_size b - buf_len b < sz")
    case True
    then have "unat (buf_size b) < unat (buf_len b) + length bytes"
      using free usz le by (simp add: word_less_nat_alt)
    then show ?thesis
      using size three b' len by (simp split: if_splits)
  next
    case False
    then show ?thesis
      using three b' len by simp
  qed
qed

definition appends :: "(nat \<Rightarrow> u8) \<Rightarrow> u8 list list \<Rightarrow> u_buf_t \<Rightarrow> u_buf_t option" where
  "appends junk chunks ubuf = foldM (\<lambda>c ubuf. do {
     (ret, ubuf) \<leftarrow> u_buf_append (Some junk) ubuf (Some c) (of_nat (length c));
     if ret = OK then Some ubuf else None }) chunks ubuf"

lemma appends_ok:
  assumes "buf_ok b" and "unat (buf_size b) \<le> 3 * unat (buf_len b)" and "\<forall>c\<in>set chunks. c \<noteq> []"
    and "unat (buf_len b) + length (concat chunks) < 2 ^ 61"
  shows "\<exists>b'. appends junk chunks (Some b) = Some (Some b') \<and> buf_ok b' \<and> contents b' = contents b @ concat chunks
    \<and> unat (buf_size b') \<le> 3 * unat (buf_len b')"
  using assms
proof (induction chunks arbitrary: b)
  case Nil
  then show ?case by (simp add: appends_def)
next
  case (Cons c cs)
  have small: "unat (buf_len b) + length c + length (concat cs) < 2305843009213693952"
    using Cons.prems by simp
  have n: "0 < length c" using Cons.prems by simp
  have "unat (buf_size b) + unat (buf_len b) + 2 * length c < 2 ^ 64 - 1"
    using small Cons.prems(2) by simp
  from append_ok(1) [OF Cons.prems(1) n refl this] obtain b1 where
    b1: "u_buf_append (Some junk) (Some b) (Some c) (of_nat (length c)) = Some (OK, Some b1)"
    "buf_ok b1" "contents b1 = contents b @ c" by blast
  have s: "unat (buf_size b1) \<le> 3 * unat (buf_len b1)" "unat (buf_len b1) = unat (buf_len b) + length c"
    using append_size [OF Cons.prems(1) refl n Cons.prems(2) _ b1(1)] small by simp_all
  have "unat (buf_len b1) + length (concat cs) < 2 ^ 61"
    using s(2) small by simp
  from Cons.IH [OF b1(2) s(1) _ this] Cons.prems(3) obtain b2 where
    "appends junk cs (Some b1) = Some (Some b2)" "buf_ok b2" "contents b2 = contents b1 @ concat cs"
    "unat (buf_size b2) \<le> 3 * unat (buf_len b2)" by auto
  then show ?case
    using b1 by (simp add: appends_def)
qed

lemma free_created: "u_buf_create True True = (OK, Some b) \<Longrightarrow> buf_ok b \<and> buf_size b = 0 \<and> buf_len b = 0 \<and> contents b = []"
  by (auto simp: u_buf_create_def buf_ok_def contents_def)

text \<open>A buffer made by \<open>u_buf_create\<close> and filled by a sequence of \<open>u_buf_append\<close> calls holds the
  concatenation of the pieces: no write leaves the block, and the block stays at most three times as
  large as the bytes it holds.\<close>

theorem buf_appends_concat:
  assumes "u_buf_create True True = (OK, Some b)" and "\<forall>c\<in>set chunks. c \<noteq> []"
    and "length (concat chunks) < 2 ^ 61"
  shows "\<exists>b'. appends junk chunks (Some b) = Some (Some b') \<and> buf_ok b' \<and> contents b' = concat chunks
    \<and> unat (buf_size b') \<le> 3 * length (concat chunks)"
proof -
  note b = free_created [OF assms(1)]
  then obtain b' where b': "appends junk chunks (Some b) = Some (Some b')" "buf_ok b'" "contents b' = concat chunks"
    "unat (buf_size b') \<le> 3 * unat (buf_len b')"
    using appends_ok [of b chunks junk] assms(2,3) by auto
  have "unat (buf_len b') = length (contents b')"
    using b'(2) by (auto simp: buf_ok_def contents_def word_le_nat_alt split: option.splits)
  with b' show ?thesis by auto
qed

lemma buf_appends_concat_witness:
  "\<exists>b'. appends (\<lambda>_. 7) [[1], [2, 3]] (Some \<lparr>buf_data = None, buf_size = 0, buf_len = 0\<rparr>) = Some (Some b') \<and> buf_ok b'
    \<and> contents b' = [1, 2, 3] \<and> unat (buf_size b') \<le> 9"
  using buf_appends_concat [of "\<lparr>buf_data = None, buf_size = 0, buf_len = 0\<rparr>" "[[1], [2, 3]]" "\<lambda>_. 7"]
  by (simp add: u_buf_create_def)

text \<open>When the allocator fails, \<open>u_buf_append\<close> reports an error and leaves the buffer as it was.\<close>

theorem buf_append_failure:
  assumes "buf_ok b" and "0 < length bytes" and "unat (buf_size b - buf_len b) < length bytes"
    and "unat (buf_size b) + unat (buf_len b) + 2 * length bytes < 2 ^ 64 - 1"
  shows "u_buf_append None (Some b) (Some bytes) (of_nat (length bytes)) = Some (ERR, Some b)"
  by (rule append_ok(2) [OF assms(1,2) refl assms(4,3)])

lemma buf_append_failure_witness:
  "u_buf_append None (Some \<lparr>buf_data = Some [1, 2, 0], buf_size = 2, buf_len = 1\<rparr>) (Some [5, 6]) 2
    = Some (ERR, Some \<lparr>buf_data = Some [1, 2, 0], buf_size = 2, buf_len = 1\<rparr>)"
  using buf_append_failure [of "\<lparr>buf_data = Some [1, 2, 0], buf_size = 2, buf_len = 1\<rparr>" "[5, 6]"]
  by (simp add: buf_ok_def)

text \<open>\<open>u_buf_load\<close> of a non-empty file replaces the contents by those of the file, whatever the buffer
  held before; of an empty file it always reports a failure, although it then has emptied the buffer as
  the file's content asks for.\<close>

theorem buf_load_correct:
  assumes "buf_ok b" and "unat st_size = length bytes" and "length bytes < 2 ^ 64 - 1"
  shows "\<exists>b'. u_buf_load (Some junk) (Some b) True (Some st_size) (Some bytes) =
    Some (if bytes = [] then ERR else OK, Some b') \<and> buf_ok b' \<and> contents b' = bytes"
proof -
  let ?b = "b\<lparr>buf_len := 0\<rparr>"
  have ok: "buf_ok ?b"
    using assms(1) by (auto simp: buf_ok_def word_le_nat_alt split: option.splits)
  have "unat st_size < 2 ^ 64 - 1"
    using assms(2,3) by simp
  from reserve_ok(1) [OF ok this, of junk] obtain b1 where
    b1: "u_buf_reserve (Some junk) (Some ?b) st_size = Some (OK, Some b1)" "buf_ok b1" "st_size \<le> buf_size b1"
    "buf_len b1 = 0" "st_size \<noteq> 0 \<Longrightarrow> buf_data b1 \<noteq> None" by auto
  show ?thesis
  proof (cases "bytes = []")
    case True
    then have "st_size = 0"
      using assms(2) by (simp add: unat_eq_0)
    with True b1 show ?thesis
      by (auto simp: u_buf_load_def u_buf_clear_def OK_def ERR_def contents_def split: option.splits)
  next
    case False
    then have nz: "st_size \<noteq> 0"
      using assms(2) by auto
    then obtain d where d: "buf_data b1 = Some d" "length bytes < length d"
      using b1 assms(2) by (auto simp: buf_ok_def word_le_nat_alt)
    then obtain e where e: "blit (Some d) 0 bytes = Some e" "length e = length d" "take (length bytes) e = bytes"
      using blit_ok [of 0 bytes d] by auto
    show ?thesis
      using False nz b1 d e assms(2)
      by (auto simp: u_buf_load_def u_buf_clear_def OK_def ERR_def contents_def buf_ok_def)
  qed
qed

lemma buf_load_correct_witness:
  "\<exists>b'. u_buf_load (Some (\<lambda>_. 0)) (Some \<lparr>buf_data = None, buf_size = 0, buf_len = 0\<rparr>) True (Some 2) (Some [1, 2]) =
    Some (OK, Some b') \<and> buf_ok b' \<and> contents b' = [1, 2]"
  using buf_load_correct [of "\<lparr>buf_data = None, buf_size = 0, buf_len = 0\<rparr>" 2 "[1, 2]" "\<lambda>_. 0"]
  by (simp add: buf_ok_def)

end
