(* ===== verification/Apf.thy ===== *)
theory Apf
  imports Prelude
begin

text \<open>
  The AMT port forwarding protocol on the wire: the message codes and layouts of \<^verbatim>\<open>LMS_if.h\<close> and
  \<^verbatim>\<open>LMS_if_constants.h\<close>, byte order, and reads of a receive buffer. A buffer is the list of its bytes;
  a read outside it is \<^term>\<open>None\<close>. The structures are packed, so that a field's offset is the sum of
  the sizes before it. A \<^verbatim>\<open>std::string\<close> is the list of its bytes.
\<close>

type_synonym bytes = "u8 list"

definition str :: "string \<Rightarrow> bytes" where
  "str s = map of_char s"

definition APF_DISCONNECT :: u8 where "APF_DISCONNECT = 1"
definition APF_SERVICE_REQUEST :: u8 where "APF_SERVICE_REQUEST = 5"
definition APF_SERVICE_ACCEPT :: u8 where "APF_SERVICE_ACCEPT = 6"
definition APF_USERAUTH_REQUEST :: u8 where "APF_USERAUTH_REQUEST = 50"
definition APF_USERAUTH_SUCCESS :: u8 where "APF_USERAUTH_SUCCESS = 52"
definition APF_GLOBAL_REQUEST :: u8 where "APF_GLOBAL_REQUEST = 80"
definition APF_REQUEST_SUCCESS :: u8 where "APF_REQUEST_SUCCESS = 81"
definition APF_REQUEST_FAILURE :: u8 where "APF_REQUEST_FAILURE = 82"
definition APF_CHANNEL_OPEN :: u8 where "APF_CHANNEL_OPEN = 90"
definition APF_CHANNEL_OPEN_CONFIRMATION :: u8 where "APF_CHANNEL_OPEN_CONFIRMATION = 91"
definition APF_CHANNEL_OPEN_FAILURE :: u8 where "APF_CHANNEL_OPEN_FAILURE = 92"
definition APF_CHANNEL_WINDOW_ADJUST :: u8 where "APF_CHANNEL_WINDOW_ADJUST = 93"
definition APF_CHANNEL_DATA :: u8 where "APF_CHANNEL_DATA = 94"
definition APF_CHANNEL_CLOSE :: u8 where "APF_CHANNEL_CLOSE = 97"
definition APF_PROTOCOLVERSION :: u8 where "APF_PROTOCOLVERSION = 192"

definition APF_DISCONNECT_PROTOCOL_ERROR :: u32 where "APF_DISCONNECT_PROTOCOL_ERROR = 2"
definition APF_DISCONNECT_SERVICE_NOT_AVAILABLE :: u32 where "APF_DISCONNECT_SERVICE_NOT_AVAILABLE = 7"
definition APF_DISCONNECT_PROTOCOL_VERSION_NOT_SUPPORTED :: u32 where
  "APF_DISCONNECT_PROTOCOL_VERSION_NOT_SUPPORTED = 8"
definition APF_DISCONNECT_BY_APPLICATION :: u32 where "APF_DISCONNECT_BY_APPLICATION = 11"

definition LME_REQUEST :: u32 where "LME_REQUEST = 254"
definition OPEN_FAILURE_REASON_CONNECT_FAILED :: u32 where "OPEN_FAILURE_REASON_CONNECT_FAILED = 2"

definition APF_GLOBAL_REQUEST_STR_TCP_FORWARD_REQUEST :: bytes where
  "APF_GLOBAL_REQUEST_STR_TCP_FORWARD_REQUEST = str ''tcpip-forward''"
definition APF_GLOBAL_REQUEST_STR_TCP_FORWARD_CANCEL_REQUEST :: bytes where
  "APF_GLOBAL_REQUEST_STR_TCP_FORWARD_CANCEL_REQUEST = str ''cancel-tcpip-forward''"
definition APF_GLOBAL_REQUEST_STR_UDP_SEND_TO :: bytes where
  "APF_GLOBAL_REQUEST_STR_UDP_SEND_TO = str ''udp-send-to@amt.intel.com''"
definition APF_OPEN_CHANNEL_REQUEST_FORWARDED :: bytes where
  "APF_OPEN_CHANNEL_REQUEST_FORWARDED = str ''forwarded-tcpip''"
definition APF_OPEN_CHANNEL_REQUEST_DIRECT :: bytes where
  "APF_OPEN_CHANNEL_REQUEST_DIRECT = str ''direct-tcpip''"
definition APF_SERVICE_PFWD :: bytes where "APF_SERVICE_PFWD = str ''pfwd@amt.intel.com''"
definition APF_SERVICE_AUTH :: bytes where "APF_SERVICE_AUTH = str ''auth@amt.intel.com''"
definition APF_AUTH_PASSWORD :: bytes where "APF_AUTH_PASSWORD = str ''password''"

lemmas apf_codes = APF_DISCONNECT_def APF_SERVICE_REQUEST_def APF_SERVICE_ACCEPT_def APF_USERAUTH_REQUEST_def
  APF_USERAUTH_SUCCESS_def APF_GLOBAL_REQUEST_def APF_REQUEST_SUCCESS_def APF_REQUEST_FAILURE_def
  APF_CHANNEL_OPEN_def APF_CHANNEL_OPEN_CONFIRMATION_def APF_CHANNEL_OPEN_FAILURE_def
  APF_CHANNEL_WINDOW_ADJUST_def APF_CHANNEL_DATA_def APF_CHANNEL_CLOSE_def APF_PROTOCOLVERSION_def

lemmas apf_strings = APF_GLOBAL_REQUEST_STR_TCP_FORWARD_REQUEST_def APF_GLOBAL_REQUEST_STR_TCP_FORWARD_CANCEL_REQUEST_def
  APF_GLOBAL_REQUEST_STR_UDP_SEND_TO_def APF_OPEN_CHANNEL_REQUEST_FORWARDED_def APF_OPEN_CHANNEL_REQUEST_DIRECT_def
  APF_SERVICE_PFWD_def APF_SERVICE_AUTH_def APF_AUTH_PASSWORD_def

text \<open>The sizes of the packed structures, in the order of \<^verbatim>\<open>LMS_if.h\<close>.\<close>

definition sizeof_generic_header :: nat where "sizeof_generic_header = 5"
definition sizeof_open_confirmation :: nat where "sizeof_open_confirmation = 17"
definition sizeof_open_failure :: nat where "sizeof_open_failure = 17"
definition sizeof_channel_close :: nat where "sizeof_channel_close = 5"
definition sizeof_channel_data :: nat where "sizeof_channel_data = 9"
definition sizeof_window_adjust :: nat where "sizeof_window_adjust = 9"
definition sizeof_disconnect :: nat where "sizeof_disconnect = 7"
definition sizeof_protocol_version :: nat where "sizeof_protocol_version = 93"

lemmas apf_sizes = sizeof_generic_header_def sizeof_open_confirmation_def sizeof_open_failure_def
  sizeof_channel_close_def sizeof_channel_data_def sizeof_window_adjust_def sizeof_disconnect_def
  sizeof_protocol_version_def

text \<open>The bytes in memory of \<^verbatim>\<open>htonl(w)\<close>, and \<^verbatim>\<open>ntohl\<close> of the four bytes at an offset.\<close>

definition htonl :: "u32 \<Rightarrow> bytes" where
  "htonl w = [ucast (drop_bit 24 w), ucast (drop_bit 16 w), ucast (drop_bit 8 w), ucast w]"

definition ntohl :: "bytes \<Rightarrow> nat \<Rightarrow> u32 option" where
  "ntohl buf i = do {
     a \<leftarrow> rd buf i; b \<leftarrow> rd buf (i + 1); c \<leftarrow> rd buf (i + 2); d \<leftarrow> rd buf (i + 3);
     Some (push_bit 24 (ucast a) OR push_bit 16 (ucast b) OR push_bit 8 (ucast c) OR ucast d) }"

definition get_bytes :: "bytes \<Rightarrow> nat \<Rightarrow> nat \<Rightarrow> bytes option" where
  "get_bytes buf i n = (if i + n \<le> length buf then Some (take n (drop i buf)) else None)"

text \<open>\<^verbatim>\<open>_strnicmp(buf + i, lit, length lit) == 0\<close>, which stops at the first difference.\<close>

definition tolower :: "u8 \<Rightarrow> u8" where
  "tolower c = (if 65 \<le> c \<and> c \<le> 90 then c + 32 else c)"

fun strnicmp_eq :: "bytes \<Rightarrow> nat \<Rightarrow> bytes \<Rightarrow> bool option" where
  "strnicmp_eq buf i [] = Some True"
| "strnicmp_eq buf i (c # cs) = do {
     b \<leftarrow> rd buf i;
     if tolower b = tolower c then (if b = 0 then Some True else strnicmp_eq buf (i + 1) cs) else Some False }"

subsection \<open>Reading what was written\<close>

lemma length_htonl [simp]: "length (htonl w) = 4"
  by (simp add: htonl_def)

lemma length_str [simp]: "length (str s) = length s"
  by (simp add: str_def)

lemma rd_append: "rd (xs @ ys) i = (if i < length xs then Some (xs ! i) else rd ys (i - length xs))"
  by (auto simp: rd_def nth_append)

lemma rd_Cons: "rd (x # xs) i = (if i = 0 then Some x else rd xs (i - 1))"
  by (cases i) (auto simp: rd_def)

lemma ntohl_htonl_bits:
  "push_bit 24 (ucast (ucast (drop_bit 24 w) :: u8)) OR push_bit 16 (ucast (ucast (drop_bit 16 w) :: u8))
   OR push_bit 8 (ucast (ucast (drop_bit 8 w) :: u8)) OR ucast (ucast w :: u8) = (w :: u32)"
proof (rule bit_word_eqI)
  fix n assume n: "n < LENGTH(32)"
  then consider "n < 8" | "8 \<le> n" "n < 16" | "16 \<le> n" "n < 24" | "24 \<le> n" "n < 32" by fastforce
  then show "bit (push_bit 24 (ucast (ucast (drop_bit 24 w) :: u8)) OR push_bit 16 (ucast (ucast (drop_bit 16 w) :: u8))
   OR push_bit 8 (ucast (ucast (drop_bit 8 w) :: u8)) OR ucast (ucast w :: u8) :: u32) n = bit w n"
    by cases (auto simp: bit_simps)
qed

lemma ntohl_htonl [simp]: "ntohl (htonl w @ rest) 0 = Some w"
  using ntohl_htonl_bits [of w] by (simp add: ntohl_def htonl_def rd_Cons)

lemma ntohl_drop: "ntohl (pre @ buf) (length pre + i) = ntohl buf i"
  by (simp add: ntohl_def rd_append)

lemma ntohl_at: "i = length pre \<Longrightarrow> ntohl (pre @ htonl w @ rest) i = Some w"
  using ntohl_drop [of pre "htonl w @ rest" 0] by simp

lemma get_bytes_at: "i = length pre \<Longrightarrow> n = length bs \<Longrightarrow> get_bytes (pre @ bs @ rest) i n = Some bs"
  by (simp add: get_bytes_def)

lemma ntohl_in: "i + 4 \<le> length buf \<Longrightarrow> ntohl buf i \<noteq> None"
  by (simp add: ntohl_def)

end
