(* ===== verification/Address.thy ===== *)
theory Address
  imports Apf
begin

text \<open>
  Socket addresses, the map from the host's addresses to their DNS suffixes, and the tests that decide
  whether a peer is this host (\<^verbatim>\<open>AdapterListInfo.h\<close>, \<^verbatim>\<open>AdapterListInfoLinux.cpp\<close>, \<^verbatim>\<open>Common.cpp\<close>,
  \<^verbatim>\<open>Protocol::_isLocal\<close>, \<^verbatim>\<open>Protocol::_isRemote\<close>). The kernel's address table, \<^verbatim>\<open>getpeername\<close> and
  \<^verbatim>\<open>getsockname\<close> are arguments. Addresses are in the byte order of the wire, on a little-endian host.
\<close>

definition AF_INET :: nat where "AF_INET = 2"
definition AF_INET6 :: nat where "AF_INET6 = 10"

record sockaddr_storage =
  ss_family :: nat
  ss_port :: "16 word"
  sin_addr :: u32
  sin6_flowinfo :: u32
  sin6_addr :: bytes
  sin6_scope_id :: u32

definition INADDR_LOOPBACK_net :: u32 where "INADDR_LOOPBACK_net = 0x0100007F"

definition IN6_IS_ADDR_LOOPBACK :: "bytes \<Rightarrow> bool" where
  "IN6_IS_ADDR_LOOPBACK a \<longleftrightarrow> a = replicate 15 0 @ [1]"

text \<open>The comparison of \<^verbatim>\<open>AddressLess\<close>: a difference of \<^verbatim>\<open>unsigned int\<close>s read as an \<^verbatim>\<open>int\<close>, and for IPv6 the
  bytes \<open>0\<close> to \<open>14\<close>.\<close>

fun diff_bytes :: "bytes \<Rightarrow> bytes \<Rightarrow> int \<Rightarrow> nat \<Rightarrow> nat \<Rightarrow> int" where
  "diff_bytes a b diff i 0 = diff"
| "diff_bytes a b diff i (Suc k) =
     (if diff = 0 \<and> i \<le> 14 then diff_bytes a b (uint (a ! i) - uint (b ! i)) (i + 1) k else diff)"

definition AddressLess :: "sockaddr_storage \<Rightarrow> sockaddr_storage \<Rightarrow> bool" where
  "AddressLess l r =
     (let diff = int (ss_family l) - int (ss_family r) in
      if diff = 0 then
        if ss_family l = AF_INET then sint (sin_addr l - sin_addr r) < 0
        else if ss_family l = AF_INET6 then
          diff_bytes (sin6_addr l) (sin6_addr r) (sint (sin6_scope_id l - sin6_scope_id r)) 0 16 < 0
        else True
      else diff < 0)"

text \<open>\<^verbatim>\<open>std::map\<close> with that comparison: the first key that is not less, and the test that it is the one.\<close>

type_synonym SuffixMap = "(sockaddr_storage \<times> bytes) list"

definition suffix_find :: "SuffixMap \<Rightarrow> sockaddr_storage \<Rightarrow> bytes option" where
  "suffix_find m x = (case dropWhile (\<lambda>e. AddressLess (fst e) x) m of
     [] \<Rightarrow> None
   | e # _ \<Rightarrow> if AddressLess x (fst e) then None else Some (snd e))"

definition suffix_put :: "sockaddr_storage \<Rightarrow> bytes \<Rightarrow> SuffixMap \<Rightarrow> SuffixMap" where
  "suffix_put x v m =
     (let less = takeWhile (\<lambda>e. AddressLess (fst e) x) m in
      case dropWhile (\<lambda>e. AddressLess (fst e) x) m of
        [] \<Rightarrow> less @ [(x, v)]
      | e # rest \<Rightarrow> if AddressLess x (fst e) then less @ (x, v) # e # rest else less @ (fst e, v) # rest)"

text \<open>\<^verbatim>\<open>UpdateAdapterListInfo\<close> without a network manager: the walk over the kernel's address table, an entry
  being \<^term>\<open>None\<close> when it has no local address (or one that does not fit a \<^verbatim>\<open>sockaddr\<close>). \<open>continue\<close>
  goes back to the head of the loop with the same object. \<^term>\<open>None\<close> as a result: the loop does not end.\<close>

partial_function (option) adapter_walk ::
  "sockaddr_storage option list \<Rightarrow> bytes list \<Rightarrow> SuffixMap \<Rightarrow> SuffixMap option" where
  "adapter_walk objs domains m = (case objs of
     [] \<Rightarrow> Some m
   | obj # rest \<Rightarrow> (case obj of
         None \<Rightarrow> adapter_walk objs domains m
       | Some saddr \<Rightarrow> (case domains of
             [] \<Rightarrow> adapter_walk rest domains (suffix_put saddr [] m)
           | d # ds \<Rightarrow> adapter_walk rest ds (suffix_put saddr d m))))"

text \<open>The results of the netlink calls: the socket, the connection, the address table. \<open>m\<close> is the map before.\<close>

definition UpdateAdapterListInfo ::
  "bool \<Rightarrow> int \<Rightarrow> int \<Rightarrow> sockaddr_storage option list \<Rightarrow> bytes list \<Rightarrow> SuffixMap \<Rightarrow> (int \<times> SuffixMap) option" where
  "UpdateAdapterListInfo sock_ok connect_res cache_res objs domains m =
     (if \<not> sock_ok then Some (- 12, m)
      else if connect_res \<noteq> 0 then Some (connect_res, m)
      else if cache_res \<noteq> 0 then Some (cache_res, m)
      else do { m \<leftarrow> adapter_walk objs domains []; Some (0, m) })"

definition GetDNSSuffixFromLocalIP :: "SuffixMap \<Rightarrow> sockaddr_storage \<Rightarrow> bytes" where
  "GetDNSSuffixFromLocalIP m ip = (case suffix_find m ip of Some dns \<Rightarrow> dns | None \<Rightarrow> [])"

text \<open>\<^verbatim>\<open>CompareSuffix\<close>: \<open>first\<close> is the whole of \<open>second\<close> or what follows one of its dots.\<close>

definition CompareSuffix :: "bytes \<Rightarrow> bytes \<Rightarrow> bool" where
  "CompareSuffix first second =
     (if length first > length second then False
      else if length first < length second \<and> second ! (length second - length first - 1) \<noteq> 46 then False
      else drop (length second - length first) second = first)"

text \<open>\<^verbatim>\<open>ADDR_Data\<close>: \<^verbatim>\<open>length()\<close> and \<^verbatim>\<open>operator==\<close>, which compares that many bytes from the start of the structure.\<close>

definition addr_length :: "sockaddr_storage \<Rightarrow> int" where
  "addr_length a = (if ss_family a = AF_INET6 then 16 else if ss_family a = AF_INET then 4 else - 1)"

definition addr_image :: "sockaddr_storage \<Rightarrow> bytes" where
  "addr_image a = [of_nat (ss_family a), of_nat (ss_family a div 256), ucast (ss_port a), ucast (drop_bit 8 (ss_port a))] @
     (if ss_family a = AF_INET6
      then [ucast (sin6_flowinfo a), ucast (drop_bit 8 (sin6_flowinfo a)), ucast (drop_bit 16 (sin6_flowinfo a)),
        ucast (drop_bit 24 (sin6_flowinfo a))] @ sin6_addr a
      else [ucast (sin_addr a), ucast (drop_bit 8 (sin_addr a)), ucast (drop_bit 16 (sin_addr a)), ucast (drop_bit 24 (sin_addr a))])"

definition addr_eq :: "sockaddr_storage \<Rightarrow> sockaddr_storage \<Rightarrow> bool" where
  "addr_eq a b \<longleftrightarrow> addr_length a \<noteq> - 1 \<and> ss_family a = ss_family b
     \<and> take (nat (addr_length a)) (addr_image a) = take (nat (addr_length a)) (addr_image b)"

text \<open>\<^verbatim>\<open>_isLocal\<close>: \<open>peer\<close> is the caller's address when it is known, else what \<^verbatim>\<open>getpeername\<close> gave.\<close>

definition isLocal :: "SuffixMap \<Rightarrow> sockaddr_storage option \<Rightarrow> int" where
  "isLocal localDNS peer = (case peer of
     None \<Rightarrow> - 1
   | Some a \<Rightarrow>
       let a = a\<lparr>ss_port := 0\<rparr> in
       if ss_family a = AF_INET \<and> sin_addr a = INADDR_LOOPBACK_net then 1
       else if ss_family a = AF_INET6 \<and> IN6_IS_ADDR_LOOPBACK (sin6_addr a) then 1
       else if ss_family a \<noteq> AF_INET \<and> ss_family a \<noteq> AF_INET6 then - 1
       else if suffix_find localDNS a \<noteq> None then 1 else 0)"

text \<open>\<^verbatim>\<open>_isRemote\<close>: \<open>name\<close> is the result of \<^verbatim>\<open>getsockname\<close>.\<close>

definition isRemote :: "bool \<Rightarrow> bytes list \<Rightarrow> SuffixMap \<Rightarrow> sockaddr_storage option \<Rightarrow> int" where
  "isRemote enabledInAMT amtSuffixes localDNS name = (case name of
     None \<Rightarrow> - 1
   | Some a \<Rightarrow>
       if enabledInAMT then
         (let dnsSuffix = GetDNSSuffixFromLocalIP localDNS a in
          if dnsSuffix = [] then 0
          else if list_ex (\<lambda>s. CompareSuffix s dnsSuffix) amtSuffixes then 1 else 0)
       else 0)"

end
