(* ===== verification/Address_Correct.thy ===== *)
theory Address_Correct
  imports Address
begin

text \<open>
  What the address tests decide: the suffix relation, the part of an address the map's comparison looks
  at, and when the walk over the address table ends.
\<close>

lemma CompareSuffix_iff: "CompareSuffix f s \<longleftrightarrow> f = s \<or> (\<exists>pre. s = pre @ [46] @ f)"
proof
  assume *: "CompareSuffix f s"
  show "f = s \<or> (\<exists>pre. s = pre @ [46] @ f)"
  proof (cases "length f = length s")
    case True
    with * show ?thesis by (simp add: CompareSuffix_def)
  next
    case False
    let ?k = "length s - length f - 1"
    from * False have l: "length f < length s" and dot: "s ! ?k = 46" and "drop (length s - length f) s = f"
      by (auto simp: CompareSuffix_def split: if_splits)
    moreover have "Suc ?k = length s - length f"
      using l by simp
    ultimately have f: "drop (Suc ?k) s = f" by simp
    have "s = take ?k s @ s ! ?k # drop (Suc ?k) s"
      by (rule id_take_nth_drop) (use l in simp)
    then have "s = take ?k s @ [46] @ f"
      using dot f by simp
    then show ?thesis by blast
  qed
next
  assume "f = s \<or> (\<exists>pre. s = pre @ [46] @ f)"
  then show "CompareSuffix f s"
    by (auto simp: CompareSuffix_def nth_append)
qed

lemma diff_bytes_take:
  assumes "take 15 b = take 15 c" and "length b = 16" and "length c = 16"
  shows "diff_bytes a b d i k = diff_bytes a c d i k" and "diff_bytes b a d i k = diff_bytes c a d i k"
proof -
  have eq: "b ! i = c ! i" if "i \<le> 14" for i
    using assms that nth_take [of i 15 b] nth_take [of i 15 c] by simp
  show "diff_bytes a b d i k = diff_bytes a c d i k"
    by (induction k arbitrary: d i) (simp_all add: eq)
  show "diff_bytes b a d i k = diff_bytes c a d i k"
    by (induction k arbitrary: d i) (simp_all add: eq)
qed

definition same_prefix :: "sockaddr_storage \<Rightarrow> sockaddr_storage \<Rightarrow> bool" where
  "same_prefix a b \<longleftrightarrow> ss_family a = AF_INET6 \<and> ss_family b = AF_INET6 \<and> sin6_scope_id a = sin6_scope_id b
     \<and> length (sin6_addr a) = 16 \<and> length (sin6_addr b) = 16 \<and> take 15 (sin6_addr a) = take 15 (sin6_addr b)"

lemma AddressLess_prefix:
  assumes "same_prefix a b"
  shows "AddressLess x a = AddressLess x b" and "AddressLess a x = AddressLess b x"
  using assms diff_bytes_take [of "sin6_addr a" "sin6_addr b"]
  by (auto simp: AddressLess_def same_prefix_def Let_def AF_INET_def AF_INET6_def)

lemma suffix_find_cong:
  assumes "\<And>x. AddressLess x a = AddressLess x b" and "\<And>x. AddressLess a x = AddressLess b x"
  shows "suffix_find m a = suffix_find m b"
proof -
  have "AddressLess a = AddressLess b" "(\<lambda>e. AddressLess (fst e) a) = (\<lambda>e :: sockaddr_storage \<times> bytes. AddressLess (fst e) b)"
    using assms by auto
  then show ?thesis by (simp only: suffix_find_def)
qed

lemma suffix_find_prefix: "same_prefix a b \<Longrightarrow> suffix_find m a = suffix_find m b"
  by (rule suffix_find_cong) (simp_all add: AddressLess_prefix)

lemma AddressLess_port [simp]: "AddressLess (a\<lparr>ss_port := p\<rparr>) x = AddressLess a x" "AddressLess x (a\<lparr>ss_port := p\<rparr>) = AddressLess x a"
  by (simp_all add: AddressLess_def)

lemma suffix_find_port [simp]: "suffix_find m (a\<lparr>ss_port := p\<rparr>) = suffix_find m a"
  by (rule suffix_find_cong) simp_all

lemma adapter_walk_Nil [simp]: "adapter_walk [] ds m = Some m"
  by (subst adapter_walk.simps) simp

lemma adapter_walk_Some [simp]:
  "adapter_walk (Some a # rest) [] m = adapter_walk rest [] (suffix_put a [] m)"
  "adapter_walk (Some a # rest) (d # ds) m = adapter_walk rest ds (suffix_put a d m)"
  by (subst adapter_walk.simps, simp)+

lemma adapter_walk_ends: "adapter_walk objs ds m = Some r \<Longrightarrow> None \<notin> set objs"
proof (erule adapter_walk.raw_induct [where P = "\<lambda>objs _ _ _. None \<notin> set objs", rotated])
  fix walk objs ds m r
  assume IH: "\<And>objs ds m r. walk objs ds m = Some r \<Longrightarrow> None \<notin> set objs"
    and step: "(case objs of [] \<Rightarrow> Some m | obj # rest \<Rightarrow> (case obj of None \<Rightarrow> walk objs ds m
      | Some a \<Rightarrow> (case ds of [] \<Rightarrow> walk rest ds (suffix_put a [] m) | d # ds \<Rightarrow> walk rest ds (suffix_put a d m)))) = Some r"
  show "None \<notin> set objs"
    using step IH by (auto split: list.splits option.splits) fastforce+
qed

lemma adapter_walk_total: "None \<notin> set objs \<Longrightarrow> adapter_walk objs ds m \<noteq> None"
proof (induction objs arbitrary: ds m)
  case (Cons obj objs)
  then obtain a where "obj = Some a" by (cases obj) auto
  with Cons show ?case by (cases ds) auto
qed simp

subsection \<open>Properties\<close>

text \<open>\<open>CompareSuffix\<close> holds exactly when the first name is the second or a parent domain of it: what
  follows one of its dots, never the tail of a label.\<close>

theorem compare_suffix_correct: "CompareSuffix first second \<longleftrightarrow> first = second \<or> (\<exists>labels. second = labels @ [46] @ first)"
  by (rule CompareSuffix_iff)

text \<open>The walk over the address table ends exactly when every entry has a local address: at an entry
  without one the loop goes round for ever, on the same entry and holding the lock.\<close>

theorem adapter_update_terminates:
  "UpdateAdapterListInfo True 0 0 objs domains m \<noteq> None \<longleftrightarrow> None \<notin> set objs"
  using adapter_walk_ends [of objs domains "[]"] adapter_walk_total [of objs domains "[]"]
  by (auto simp: UpdateAdapterListInfo_def bind_eq_Some_conv)

text \<open>The last byte of an IPv6 address is not compared: a peer whose address differs from one of the
  host's own only there is taken for the host itself.\<close>

theorem isLocal_accepts_neighbour:
  assumes "suffix_find m a \<noteq> None" and "same_prefix a b"
  shows "isLocal m (Some b) = 1"
  using assms suffix_find_prefix [OF assms(2), of m]
  by (auto simp: isLocal_def Let_def same_prefix_def)

definition ip6 :: "u8 \<Rightarrow> sockaddr_storage" where
  "ip6 n = \<lparr>ss_family = AF_INET6, ss_port = 0, sin_addr = 0, sin6_flowinfo = 0,
     sin6_addr = [0xFD, 0, 0, 0, 0, 0, 0, 0, 0, 0, 0, 0, 0, 0, 0, n], sin6_scope_id = 0\<rparr>"

lemma isLocal_accepts_neighbour_witness: "isLocal [(ip6 7, [])] (Some (ip6 9)) = 1"
proof (rule isLocal_accepts_neighbour [of _ "ip6 7"])
  show "suffix_find [(ip6 7, [])] (ip6 7) \<noteq> None" by code_simp
  show "same_prefix (ip6 7) (ip6 9)" by (simp add: same_prefix_def ip6_def)
qed

text \<open>The address \<^verbatim>\<open>10.0.0.n\<close>.\<close>

definition ip4 :: "u8 \<Rightarrow> sockaddr_storage" where
  "ip4 n = \<lparr>ss_family = AF_INET, ss_port = 0, sin_addr = push_bit 24 (ucast n) OR 10, sin6_flowinfo = 0,
     sin6_addr = [], sin6_scope_id = 0\<rparr>"

text \<open>The difference of two IPv4 addresses read as an \<^verbatim>\<open>int\<close> is not an order: three addresses of one
  network can be each less than the next in a circle, and a map filled with them loses one, so that a
  host's own address is not found and its own connections count as not local.\<close>

theorem address_order_is_circular:
  "AddressLess (ip4 1) (ip4 97) \<and> AddressLess (ip4 97) (ip4 193) \<and> AddressLess (ip4 193) (ip4 1)
   \<and> isLocal (suffix_put (ip4 193) [] (suffix_put (ip4 97) [] (suffix_put (ip4 1) [] []))) (Some (ip4 97)) = 0"
  by code_simp

text \<open>\<open>ADDR_Data::operator==\<close> compares the head of the structure instead of the address: two IPv4
  addresses of the same port are equal whatever they are.\<close>

theorem addr_eq_ignores_address:
  assumes "ss_family a = AF_INET" and "ss_family b = AF_INET" and "ss_port a = ss_port b"
  shows "addr_eq a b"
  using assms by (simp add: addr_eq_def addr_length_def addr_image_def AF_INET_def AF_INET6_def)

lemma addr_eq_ignores_address_witness: "addr_eq (ip4 1) (ip4 97)"
  by (rule addr_eq_ignores_address) (simp_all add: ip4_def)

end
