(* ===== verification/Lme_Connection.thy ===== *)
theory Lme_Connection
  imports Apf
begin

text \<open>
  The sending half and the life cycle of the connection to the management engine
  (\<^verbatim>\<open>UNS/PortForwardingService/LMEConnection.cpp\<close>). The MEI driver is a parameter: \<open>hs\<close> gives the result of
  \<^verbatim>\<open>SendHeciMessage\<close> on the bytes, \<^term>\<open>None\<close> where it throws a \<^verbatim>\<open>HECIException\<close>. The messages handed to
  the driver are kept in \<open>sent\<close>. Locks and log lines are left out.
\<close>

datatype INIT_STATES = INIT_STATE_DISCONNECTED | INIT_STATE_CONNECTING | INIT_STATE_CONNECTED
  | INIT_STATE_DISCONNECTING

record lme_connection =
  initState :: INIT_STATES
  selfDisconnect :: bool
  clientNotFound :: bool
  txBuffer :: "bytes option"
  bufferSize :: nat
  heciOpen :: bool
  sent :: "bytes list"

type_synonym heci_send = "bytes \<Rightarrow> int option"

definition RX_WINDOW_SIZE :: u32 where "RX_WINDOW_SIZE = 1024"

definition LMEConnection :: "nat \<Rightarrow> lme_connection" where
  "LMEConnection bufsize = \<lparr>initState = INIT_STATE_DISCONNECTED, selfDisconnect = False, clientNotFound = False,
     txBuffer = None, bufferSize = bufsize, heciOpen = False, sent = []\<rparr>"

definition IsInitialized :: "lme_connection \<Rightarrow> bool" where
  "IsInitialized c \<longleftrightarrow> initState c = INIT_STATE_CONNECTED"

definition sendMessage :: "heci_send \<Rightarrow> bytes \<Rightarrow> lme_connection \<Rightarrow> int \<times> lme_connection" where
  "sendMessage hs buf c =
     (if initState c \<noteq> INIT_STATE_CONNECTED then (- 1, c)
      else ((case hs buf of Some r \<Rightarrow> r | None \<Rightarrow> - 1), c\<lparr>sent := sent c @ [buf]\<rparr>))"

text \<open>The frame of the senders: nothing is built when the connection is down, and the message counts as
  sent when the driver took all of it.\<close>

definition sendWhole :: "heci_send \<Rightarrow> bytes \<Rightarrow> lme_connection \<Rightarrow> bool \<times> lme_connection" where
  "sendWhole hs buf c =
     (if initState c \<noteq> INIT_STATE_CONNECTED then (False, c)
      else let (res, c) = sendMessage hs buf c in (res = int (length buf), c))"

subsection \<open>The messages\<close>

definition enc_disconnect :: "u32 \<Rightarrow> bytes" where
  "enc_disconnect reason = [APF_DISCONNECT] @ htonl reason @ [0, 0]"

definition enc_service_accept :: "bytes \<Rightarrow> bytes" where
  "enc_service_accept name = [APF_SERVICE_ACCEPT] @ htonl (of_nat (length name)) @ name"

definition enc_protocol_version :: "u32 \<Rightarrow> u32 \<Rightarrow> u32 \<Rightarrow> bytes" where
  "enc_protocol_version major minor trigger =
     [APF_PROTOCOLVERSION] @ htonl major @ htonl minor @ htonl trigger @ replicate 80 0"

definition enc_tcp_forward_success :: "u32 \<Rightarrow> bytes" where
  "enc_tcp_forward_success port = [APF_REQUEST_SUCCESS] @ htonl port"

definition enc_open_confirmation :: "u32 \<Rightarrow> u32 \<Rightarrow> bytes" where
  "enc_open_confirmation recipient sender =
     [APF_CHANNEL_OPEN_CONFIRMATION] @ htonl recipient @ htonl sender @ htonl RX_WINDOW_SIZE @ replicate 4 255"

definition enc_open_failure :: "u32 \<Rightarrow> u32 \<Rightarrow> bytes" where
  "enc_open_failure recipient reason =
     [APF_CHANNEL_OPEN_FAILURE] @ htonl recipient @ htonl reason @ replicate 4 0 @ replicate 4 0"

definition enc_channel_close :: "u32 \<Rightarrow> bytes" where
  "enc_channel_close recipient = [APF_CHANNEL_CLOSE] @ htonl recipient"

definition enc_channel_data :: "u32 \<Rightarrow> bytes \<Rightarrow> bytes" where
  "enc_channel_data recipient d = [APF_CHANNEL_DATA] @ htonl recipient @ htonl (of_nat (length d)) @ d"

definition enc_window_adjust :: "u32 \<Rightarrow> u32 \<Rightarrow> bytes" where
  "enc_window_adjust recipient n = [APF_CHANNEL_WINDOW_ADJUST] @ htonl recipient @ htonl n"

text \<open>\<^verbatim>\<open>CHECK_BUFFER_OVERFLOW\<close> before each field of the forwarded channel request.\<close>

definition emit :: "nat \<Rightarrow> bytes \<Rightarrow> bytes \<Rightarrow> bytes option" where
  "emit sz field buf = (if sz + 1 \<le> length buf + length field then None else Some (buf @ field))"

definition forwarded_size :: "bytes \<Rightarrow> bytes \<Rightarrow> nat" where
  "forwarded_size connectedIP originatorIP =
     5 + length APF_OPEN_CHANNEL_REQUEST_FORWARDED + 16 + length connectedIP + 8 + length originatorIP + 4"

definition enc_open_forwarded :: "u32 \<Rightarrow> bytes \<Rightarrow> u32 \<Rightarrow> bytes \<Rightarrow> u32 \<Rightarrow> bytes option" where
  "enc_open_forwarded senderChannel connectedIP connectedPort originatorIP originatorPort =
     (let sz = forwarded_size connectedIP originatorIP in do {
       buf \<leftarrow> emit sz [APF_CHANNEL_OPEN] [];
       buf \<leftarrow> emit sz (htonl (of_nat (length APF_OPEN_CHANNEL_REQUEST_FORWARDED))) buf;
       buf \<leftarrow> emit sz APF_OPEN_CHANNEL_REQUEST_FORWARDED buf;
       buf \<leftarrow> emit sz (htonl senderChannel) buf;
       buf \<leftarrow> emit sz (htonl RX_WINDOW_SIZE) buf;
       buf \<leftarrow> emit sz (replicate 4 255) buf;
       buf \<leftarrow> emit sz (htonl (of_nat (length connectedIP))) buf;
       buf \<leftarrow> emit sz connectedIP buf;
       buf \<leftarrow> emit sz (htonl connectedPort) buf;
       buf \<leftarrow> emit sz (htonl (of_nat (length originatorIP))) buf;
       buf \<leftarrow> emit sz originatorIP buf;
       emit sz (htonl originatorPort) buf })"

subsection \<open>The senders\<close>

definition lme_Disconnect :: "heci_send \<Rightarrow> u32 \<Rightarrow> lme_connection \<Rightarrow> bool \<times> lme_connection" where
  "lme_Disconnect hs reason c =
     (let (res, c) = sendMessage hs (enc_disconnect reason) c in (res = 7, c\<lparr>selfDisconnect := True\<rparr>))"

definition ServiceAccept :: "heci_send \<Rightarrow> bytes \<Rightarrow> lme_connection \<Rightarrow> bool \<times> lme_connection" where
  "ServiceAccept hs name = sendWhole hs (enc_service_accept name)"

definition UserAuthSuccess :: "heci_send \<Rightarrow> lme_connection \<Rightarrow> bool \<times> lme_connection" where
  "UserAuthSuccess hs = sendWhole hs [APF_USERAUTH_SUCCESS]"

definition ProtocolVersion :: "heci_send \<Rightarrow> u32 \<Rightarrow> u32 \<Rightarrow> u32 \<Rightarrow> lme_connection \<Rightarrow> bool \<times> lme_connection" where
  "ProtocolVersion hs major minor trigger = sendWhole hs (enc_protocol_version major minor trigger)"

definition TcpForwardReplySuccess :: "heci_send \<Rightarrow> u32 \<Rightarrow> lme_connection \<Rightarrow> bool \<times> lme_connection" where
  "TcpForwardReplySuccess hs port = sendWhole hs (enc_tcp_forward_success port)"

definition TcpForwardReplyFailure :: "heci_send \<Rightarrow> lme_connection \<Rightarrow> bool \<times> lme_connection" where
  "TcpForwardReplyFailure hs = sendWhole hs [APF_REQUEST_FAILURE]"

definition TcpForwardCancelReplySuccess :: "heci_send \<Rightarrow> lme_connection \<Rightarrow> bool \<times> lme_connection" where
  "TcpForwardCancelReplySuccess hs = sendWhole hs [APF_REQUEST_SUCCESS]"

definition TcpForwardCancelReplyFailure :: "heci_send \<Rightarrow> lme_connection \<Rightarrow> bool \<times> lme_connection" where
  "TcpForwardCancelReplyFailure hs = sendWhole hs [APF_REQUEST_FAILURE]"

definition ChannelOpenForwardedRequest ::
  "heci_send \<Rightarrow> u32 \<Rightarrow> bytes \<Rightarrow> u32 \<Rightarrow> bytes \<Rightarrow> u32 \<Rightarrow> lme_connection \<Rightarrow> bool \<times> lme_connection" where
  "ChannelOpenForwardedRequest hs senderChannel connectedIP connectedPort originatorIP originatorPort c =
     (if initState c \<noteq> INIT_STATE_CONNECTED then (False, c)
      else case enc_open_forwarded senderChannel connectedIP connectedPort originatorIP originatorPort of
          None \<Rightarrow> (False, c)
        | Some buf \<Rightarrow> let (res, c) = sendMessage hs buf c in (res = int (length buf), c))"

definition ChannelOpenReplaySuccess :: "heci_send \<Rightarrow> u32 \<Rightarrow> u32 \<Rightarrow> lme_connection \<Rightarrow> bool \<times> lme_connection" where
  "ChannelOpenReplaySuccess hs recipient sender = sendWhole hs (enc_open_confirmation recipient sender)"

definition ChannelOpenReplayFailure :: "heci_send \<Rightarrow> u32 \<Rightarrow> u32 \<Rightarrow> lme_connection \<Rightarrow> bool \<times> lme_connection" where
  "ChannelOpenReplayFailure hs recipient reason = sendWhole hs (enc_open_failure recipient reason)"

definition lme_ChannelClose :: "heci_send \<Rightarrow> u32 \<Rightarrow> lme_connection \<Rightarrow> bool \<times> lme_connection" where
  "lme_ChannelClose hs recipient = sendWhole hs (enc_channel_close recipient)"

text \<open>\<^verbatim>\<open>ChannelData\<close> copies \<open>len\<close> bytes of the caller's buffer behind the header in the transmit buffer. The
  bound is computed in \<^verbatim>\<open>size_t\<close>. A null or too small transmit buffer is \<^term>\<open>None\<close>.\<close>

definition lme_ChannelData :: "heci_send \<Rightarrow> u32 \<Rightarrow> u32 \<Rightarrow> bytes \<Rightarrow> lme_connection \<Rightarrow> (int \<times> lme_connection) option" where
  "lme_ChannelData hs recipient len d c =
     (if initState c \<noteq> INIT_STATE_CONNECTED then Some (0, c)
      else if ucast len > (of_nat (bufferSize c) - of_nat sizeof_channel_data :: u64) then Some (- 1, c)
      else do {
        tx \<leftarrow> txBuffer c;
        src \<leftarrow> get_bytes d 0 (unat len);
        let message = enc_channel_data recipient src;
        c_assert (length message \<le> length tx);
        Some (sendMessage hs message (c\<lparr>txBuffer := Some (message @ drop (length message) tx)\<rparr>)) })"

definition ChannelWindowAdjust :: "heci_send \<Rightarrow> u32 \<Rightarrow> u32 \<Rightarrow> lme_connection \<Rightarrow> bool \<times> lme_connection" where
  "ChannelWindowAdjust hs recipient len = sendWhole hs (enc_window_adjust recipient len)"

text \<open>\<^verbatim>\<open>_receiveMessage\<close>: \<open>hr\<close> is the result of \<^verbatim>\<open>ReceiveHeciMessage\<close>, with the bytes it wrote into the buffer.\<close>

definition receiveMessage :: "(int \<times> bytes) option \<Rightarrow> bytes \<Rightarrow> lme_connection \<Rightarrow> int \<times> bytes" where
  "receiveMessage hr buf c =
     (if initState c \<noteq> INIT_STATE_CONNECTED then (- 1, buf)
      else case hr of None \<Rightarrow> (- 1, buf) | Some (n, bs) \<Rightarrow> (n, bs @ drop (length bs) buf))"

subsection \<open>Initialisation\<close>

datatype heci_init = Heci_ok | Heci_no_client | Heci_error

definition DeinitInternal :: "lme_connection \<Rightarrow> lme_connection" where
  "DeinitInternal c = c\<lparr>heciOpen := False, initState := INIT_STATE_DISCONNECTED, txBuffer := None\<rparr>"

text \<open>The second result says whether the select loop is signalled.\<close>

definition lme_Deinit :: "bool \<Rightarrow> lme_connection \<Rightarrow> lme_connection \<times> bool" where
  "lme_Deinit signalSelect c = (DeinitInternal c, signalSelect)"

text \<open>\<open>hi\<close> is the outcome of the driver's \<^verbatim>\<open>Init\<close>, \<open>junk\<close> the bytes of the new buffer; \<open>spawned\<close>, \<open>started\<close>
  and \<open>port_ok\<close> tell whether the thread could be made, signalled its start, and port 16992 was opened
  in time.\<close>

definition lme_Init ::
  "heci_init \<Rightarrow> (nat \<Rightarrow> u8) \<Rightarrow> bool \<Rightarrow> bool \<Rightarrow> bool \<Rightarrow> lme_connection \<Rightarrow> bool \<times> lme_connection" where
  "lme_Init hi junk spawned started port_ok c =
     (let c = c\<lparr>selfDisconnect := False, clientNotFound := False\<rparr> in
      if initState c = INIT_STATE_CONNECTED \<or> initState c = INIT_STATE_DISCONNECTED then
        (let c = (if initState c = INIT_STATE_CONNECTED then c\<lparr>heciOpen := False\<rparr> else c);
             c = c\<lparr>initState := INIT_STATE_CONNECTING\<rparr>
         in case hi of
              Heci_no_client \<Rightarrow> (False, c\<lparr>clientNotFound := True, heciOpen := False, initState := INIT_STATE_DISCONNECTED\<rparr>)
            | Heci_error \<Rightarrow> (False, c\<lparr>clientNotFound := False, heciOpen := False, initState := INIT_STATE_DISCONNECTED\<rparr>)
            | Heci_ok \<Rightarrow>
                (let c = c\<lparr>heciOpen := True, txBuffer := Some (map junk [0..<bufferSize c])\<rparr> in
                 if \<not> spawned then (False, DeinitInternal c)
                 else if \<not> started then (False, DeinitInternal c)
                 else let c = c\<lparr>initState := INIT_STATE_CONNECTED\<rparr> in
                   if \<not> port_ok then (False, fst (lme_Deinit False c)) else (True, c)))
      else (False, c))"

end
