(* ===== verification/Lme_Receive.thy ===== *)
theory Lme_Receive
  imports Lme_Connection
begin

text \<open>
  The receiving half (\<^verbatim>\<open>LMEConnection::_doRX\<close>): the dispatch of one message from the receive buffer. The
  buffer \<open>rx\<close> keeps the bytes of earlier messages behind the \<open>n\<close> bytes just read. \<^term>\<open>None\<close> is a read
  outside the buffer; \<open>Bad\<close> the branch that tears the connection down and ends the thread.
\<close>

datatype CHANNEL_TYPE = FORWARDED | DIRECT

datatype lme_message =
    Disconnect_msg u32
  | Service_request_msg bytes
  | Userauth_request_msg bytes bytes bytes "bytes option"
  | Tcp_forward_msg bytes u32
  | Tcp_forward_cancel_msg bytes u32
  | Udp_send_to_msg bytes u32 bytes
  | Channel_open_msg CHANNEL_TYPE u32 u32 bytes u32
  | Open_confirmation_msg u32 u32 u32
  | Open_failure_msg u32 u32
  | Channel_close_msg u32
  | Channel_data_msg u32 bytes
  | Window_adjust_msg u32 u32
  | Protocol_version_msg u32 u32 u32

datatype rx_result = Deliver lme_message | Ignore | Bad

text \<open>A length-prefixed string whose length was checked against the bytes read: the outer option is the
  buffer, the inner one the check. The result has the position behind the string.\<close>

definition get_checked :: "bytes \<Rightarrow> nat \<Rightarrow> nat \<Rightarrow> (bytes \<times> nat) option option" where
  "get_checked rx n cur =
     (if n - cur < 4 then Some None
      else do {
        len \<leftarrow> ntohl rx cur;
        let cur = cur + 4;
        if n - cur < unat len then Some None
        else do { s \<leftarrow> get_bytes rx cur (unat len); Some (Some (s, cur + unat len)) } })"

definition rx_disconnect :: "bytes \<Rightarrow> nat \<Rightarrow> rx_result option" where
  "rx_disconnect rx n =
     (if n < sizeof_disconnect then Some Bad
      else do { reason \<leftarrow> ntohl rx 1; Some (Deliver (Disconnect_msg reason)) })"

text \<open>The first guard is \<^verbatim>\<open>sizeof(APF_SERVICE_REQUEST)\<close>, the size of the enumeration constant.\<close>

definition rx_service_request :: "bytes \<Rightarrow> nat \<Rightarrow> rx_result option" where
  "rx_service_request rx n =
     (if n < 4 then Some Bad
      else do {
        len \<leftarrow> ntohl rx 1;
        if n < 4 + unat len then Some Bad
        else do { name \<leftarrow> get_bytes rx 5 (unat len); Some (Deliver (Service_request_msg name)) } })"

definition rx_userauth_request :: "bytes \<Rightarrow> nat \<Rightarrow> rx_result option" where
  "rx_userauth_request rx n = do {
     r \<leftarrow> get_checked rx n 1;
     case r of None \<Rightarrow> Some Bad | Some (username, cur) \<Rightarrow> do {
     r \<leftarrow> get_checked rx n cur;
     case r of None \<Rightarrow> Some Bad | Some (serviceName, cur) \<Rightarrow> do {
     r \<leftarrow> get_checked rx n cur;
     case r of None \<Rightarrow> Some Bad | Some (methodName, cur) \<Rightarrow> do {
     eq \<leftarrow> (if length APF_AUTH_PASSWORD = length methodName then strnicmp_eq methodName 0 APF_AUTH_PASSWORD else Some False);
     if \<not> eq then Some (Deliver (Userauth_request_msg username serviceName methodName None))
     else if n - cur < 5 then Some Bad
     else do {
       let cur = cur + 1;
       len \<leftarrow> ntohl rx cur;
       let cur = cur + 4;
       if n - cur < unat len then Some Bad
       else do {
         password \<leftarrow> get_bytes rx cur (unat len);
         Some (Deliver (Userauth_request_msg username serviceName methodName (Some password))) } } } } } }"

text \<open>The address and port behind the name of a global request, read without a check.\<close>

definition get_address :: "bytes \<Rightarrow> nat \<Rightarrow> (bytes \<times> u32 \<times> nat) option" where
  "get_address rx cur = do {
     len \<leftarrow> ntohl rx cur;
     let cur = cur + 4;
     address \<leftarrow> get_bytes rx cur (unat len);
     let cur = cur + unat len;
     port \<leftarrow> ntohl rx cur;
     Some (address, port, cur + 4) }"

definition rx_global_request :: "bytes \<Rightarrow> nat \<Rightarrow> rx_result option" where
  "rx_global_request rx n = do {
     len \<leftarrow> ntohl rx 1;
     if n < sizeof_generic_header + unat len + 1 then Some Bad
     else do {
       fwd \<leftarrow> strnicmp_eq rx 5 APF_GLOBAL_REQUEST_STR_TCP_FORWARD_REQUEST;
       if fwd then do {
         (address, port, _) \<leftarrow> get_address rx (sizeof_generic_header + length APF_GLOBAL_REQUEST_STR_TCP_FORWARD_REQUEST + 1);
         Some (Deliver (Tcp_forward_msg address port)) }
       else do {
         cancel \<leftarrow> strnicmp_eq rx 5 APF_GLOBAL_REQUEST_STR_TCP_FORWARD_CANCEL_REQUEST;
         if cancel then do {
           (address, port, _) \<leftarrow>
             get_address rx (sizeof_generic_header + length APF_GLOBAL_REQUEST_STR_TCP_FORWARD_CANCEL_REQUEST + 1);
           Some (Deliver (Tcp_forward_cancel_msg address port)) }
         else do {
           udp \<leftarrow> strnicmp_eq rx 5 APF_GLOBAL_REQUEST_STR_UDP_SEND_TO;
           if udp then do {
             (address, port, cur) \<leftarrow> get_address rx (sizeof_generic_header + length APF_GLOBAL_REQUEST_STR_UDP_SEND_TO + 1);
             len \<leftarrow> ntohl rx cur;
             let cur = cur + 4 + unat len + 4;
             len \<leftarrow> ntohl rx cur;
             d \<leftarrow> get_bytes rx (cur + 4) (unat len);
             Some (Deliver (Udp_send_to_msg address port d)) }
           else Some Ignore } } } }"

definition rx_channel_open :: "bytes \<Rightarrow> nat \<Rightarrow> rx_result option" where
  "rx_channel_open rx n = do {
     len \<leftarrow> ntohl rx 1;
     if n < sizeof_generic_header + unat len then Some Bad
     else do {
       direct \<leftarrow> strnicmp_eq rx 5 APF_OPEN_CHANNEL_REQUEST_DIRECT;
       if direct then do {
         let cur = sizeof_generic_header + length APF_OPEN_CHANNEL_REQUEST_DIRECT;
         senderChannel \<leftarrow> ntohl rx cur;
         initialWindow \<leftarrow> ntohl rx (cur + 4);
         (address, port, _) \<leftarrow> get_address rx (cur + 12);
         Some (Deliver (Channel_open_msg DIRECT senderChannel initialWindow address port)) }
       else Some Ignore } }"

definition rx_open_confirmation :: "bytes \<Rightarrow> nat \<Rightarrow> rx_result option" where
  "rx_open_confirmation rx n =
     (if n < sizeof_open_confirmation then Some Bad
      else do {
        recipient \<leftarrow> ntohl rx 1; sender \<leftarrow> ntohl rx 5; window \<leftarrow> ntohl rx 9;
        Some (Deliver (Open_confirmation_msg recipient sender window)) })"

definition rx_open_failure :: "bytes \<Rightarrow> nat \<Rightarrow> rx_result option" where
  "rx_open_failure rx n =
     (if n < sizeof_open_failure then Some Bad
      else do { recipient \<leftarrow> ntohl rx 1; reason \<leftarrow> ntohl rx 5; Some (Deliver (Open_failure_msg recipient reason)) })"

definition rx_channel_close :: "bytes \<Rightarrow> nat \<Rightarrow> rx_result option" where
  "rx_channel_close rx n =
     (if n < sizeof_channel_close then Some Bad
      else do { recipient \<leftarrow> ntohl rx 1; Some (Deliver (Channel_close_msg recipient)) })"

definition rx_channel_data :: "bytes \<Rightarrow> nat \<Rightarrow> rx_result option" where
  "rx_channel_data rx n =
     (if n < sizeof_channel_data then Some Bad
      else do {
        len \<leftarrow> ntohl rx 5;
        if n < sizeof_channel_data + unat len then Some Bad
        else do {
          recipient \<leftarrow> ntohl rx 1; d \<leftarrow> get_bytes rx 9 (unat len);
          Some (Deliver (Channel_data_msg recipient d)) } })"

definition rx_window_adjust :: "bytes \<Rightarrow> nat \<Rightarrow> rx_result option" where
  "rx_window_adjust rx n =
     (if n < sizeof_window_adjust then Some Bad
      else do { recipient \<leftarrow> ntohl rx 1; count \<leftarrow> ntohl rx 5; Some (Deliver (Window_adjust_msg recipient count)) })"

definition rx_protocol_version :: "bytes \<Rightarrow> nat \<Rightarrow> rx_result option" where
  "rx_protocol_version rx n =
     (if n < sizeof_protocol_version then Some Bad
      else do {
        major \<leftarrow> ntohl rx 1; minor \<leftarrow> ntohl rx 5; trigger \<leftarrow> ntohl rx 9;
        Some (Deliver (Protocol_version_msg major minor trigger)) })"

definition rx_message :: "bytes \<Rightarrow> nat \<Rightarrow> rx_result option" where
  "rx_message rx n = do {
     t \<leftarrow> rd rx 0;
     if t = APF_DISCONNECT then rx_disconnect rx n
     else if t = APF_SERVICE_REQUEST then rx_service_request rx n
     else if t = APF_USERAUTH_REQUEST then rx_userauth_request rx n
     else if t = APF_GLOBAL_REQUEST then rx_global_request rx n
     else if t = APF_CHANNEL_OPEN then rx_channel_open rx n
     else if t = APF_CHANNEL_OPEN_CONFIRMATION then rx_open_confirmation rx n
     else if t = APF_CHANNEL_OPEN_FAILURE then rx_open_failure rx n
     else if t = APF_CHANNEL_CLOSE then rx_channel_close rx n
     else if t = APF_CHANNEL_DATA then rx_channel_data rx n
     else if t = APF_CHANNEL_WINDOW_ADJUST then rx_window_adjust rx n
     else if t = APF_PROTOCOLVERSION then rx_protocol_version rx n
     else Some Ignore }"

text \<open>One turn of the receive loop, up to the call of the upper layer: \<open>bytesRead\<close> is what
  \<^verbatim>\<open>_receiveMessage\<close> returned, \<open>cancelled\<close> whether the thread was told to stop.\<close>

datatype rx_turn = Stop_deinit | Stop | Again | Turn rx_result

definition rx_turn :: "int \<Rightarrow> bool \<Rightarrow> bytes \<Rightarrow> rx_turn option" where
  "rx_turn bytesRead cancelled rx =
     (if bytesRead < 0 then Some Stop_deinit
      else if cancelled then Some Stop
      else if bytesRead = 0 then Some Again
      else do {
        r \<leftarrow> rx_message rx (nat bytesRead);
        Some (if r = Bad then Stop_deinit else Turn r) })"

end
