(* ===== verification/Cim_Events.thy ===== *)
theory Cim_Events
  imports Apf
begin

text \<open>
  The translation of a CIM alert of the management engine to an event of the service
  (\<^verbatim>\<open>CimToEventTranslator.cpp\<close>), with the event numbers of \<^verbatim>\<open>UNSEventsDefinition.h\<close>. The time stamp is an
  argument. The character type of the build is \<^verbatim>\<open>char\<close>, as on Linux.
\<close>

definition CATEGORY_GENERAL :: nat where "CATEGORY_GENERAL = 1"
definition EVENT_AGENT_1 :: nat where "EVENT_AGENT_1 = 191"
definition EVENT_AGENT_2 :: nat where "EVENT_AGENT_2 = 192"
definition EVENT_AGENT_4 :: nat where "EVENT_AGENT_4 = 193"
definition EVENT_AMT_ENABLE :: nat where "EVENT_AMT_ENABLE = 160"
definition EVENT_PROVISIONING_STATE_PRE :: nat where "EVENT_PROVISIONING_STATE_PRE = 11"
definition EVENT_PROVISIONING_STATE_IN :: nat where "EVENT_PROVISIONING_STATE_IN = 12"
definition EVENT_PROVISIONING_STATE_POST :: nat where "EVENT_PROVISIONING_STATE_POST = 13"
definition EVENT_NETWORK_STATE_CHANGE :: nat where "EVENT_NETWORK_STATE_CHANGE = 14"
definition EVENT_UNPROVISIONES_STARTED :: nat where "EVENT_UNPROVISIONES_STARTED = 15"
definition EVENT_CONTROL_MODE_CHANGE :: nat where "EVENT_CONTROL_MODE_CHANGE = 16"
definition EVENT_AMT_DISABLE_ATTEMPT :: nat where "EVENT_AMT_DISABLE_ATTEMPT = 283"
definition CATEGORY_CIRCUIT_BREAKER :: nat where "CATEGORY_CIRCUIT_BREAKER = 2"
definition EVENT_NETWORK_TRAFFIC_TX_CEASED :: nat where "EVENT_NETWORK_TRAFFIC_TX_CEASED = 20"
definition EVENT_NETWORK_CONNECTIVITY_TX_REDUCED :: nat where "EVENT_NETWORK_CONNECTIVITY_TX_REDUCED = 21"
definition EVENT_NETWORK_TRAFFIC_RX_CEASED :: nat where "EVENT_NETWORK_TRAFFIC_RX_CEASED = 22"
definition EVENT_NETWORK_CONNECTIVITY_RX_REDUCED :: nat where "EVENT_NETWORK_CONNECTIVITY_RX_REDUCED = 23"
definition EVENT_SYSTEM_DEFENCE_CHANGE :: nat where "EVENT_SYSTEM_DEFENCE_CHANGE = 24"
definition CATEGORY_EAC :: nat where "CATEGORY_EAC = 3"
definition EVENT_EAC_NOTIFICATION :: nat where "EVENT_EAC_NOTIFICATION = 30"
definition EVENT_EAC_ENABLED :: nat where "EVENT_EAC_ENABLED = 31"
definition EVENT_EAC_DISABLED :: nat where "EVENT_EAC_DISABLED = 32"
definition CATEGORY_REMOTE_DIAGNOSTIC :: nat where "CATEGORY_REMOTE_DIAGNOSTIC = 4"
definition EVENT_REMOTE_SOL_STARTED :: nat where "EVENT_REMOTE_SOL_STARTED = 40"
definition EVENT_REMOTE_SOL_ENDED :: nat where "EVENT_REMOTE_SOL_ENDED = 41"
definition EVENT_REMOTE_IDER_STARTED :: nat where "EVENT_REMOTE_IDER_STARTED = 42"
definition EVENT_REMOTE_IDER_ENDED :: nat where "EVENT_REMOTE_IDER_ENDED = 43"
definition CATEGORY_WLAN :: nat where "CATEGORY_WLAN = 5"
definition EVENT_WLAN_PROFILE_INSUFFICIENT :: nat where "EVENT_WLAN_PROFILE_INSUFFICIENT = 50"
definition EVENT_WLAN_SESSION_ESTABLISHED :: nat where "EVENT_WLAN_SESSION_ESTABLISHED = 52"
definition EVENT_WLAN_SECURITY_INSUFFICIENT :: nat where "EVENT_WLAN_SECURITY_INSUFFICIENT = 51"
definition EVENT_WLAN_SESSION_ENDED :: nat where "EVENT_WLAN_SESSION_ENDED = 53"
definition EVENT_WIRELESS_STATE_CHANGED :: nat where "EVENT_WIRELESS_STATE_CHANGED = 54"
definition EVENT_WLAN_PROFILE_SYNC_DISABLE :: nat where "EVENT_WLAN_PROFILE_SYNC_DISABLE = 55"
definition EVENT_WLAN_PROFILE_SYNC_ENABLE :: nat where "EVENT_WLAN_PROFILE_SYNC_ENABLE = 56"
definition EVENT_WLAN_PROTECTION_ON_HIGH :: nat where "EVENT_WLAN_PROTECTION_ON_HIGH = 47"
definition EVENT_WLAN_PROTECTION_ON_PASSIVE :: nat where "EVENT_WLAN_PROTECTION_ON_PASSIVE = 48"
definition EVENT_WLAN_PROTECTION_OFF :: nat where "EVENT_WLAN_PROTECTION_OFF = 49"
definition EVENT_WLAN_CONTROL_HOST :: nat where "EVENT_WLAN_CONTROL_HOST = 58"
definition EVENT_WLAN_CONTROL_ME :: nat where "EVENT_WLAN_CONTROL_ME = 57"
definition CATEGORY_SECIO :: nat where "CATEGORY_SECIO = 6"
definition EVENT_SECIO_SEMAPHORE_AT_HOST :: nat where "EVENT_SECIO_SEMAPHORE_AT_HOST = 60"
definition EVENT_SECIO_SEMAPHORE_AT_ME :: nat where "EVENT_SECIO_SEMAPHORE_AT_ME = 61"
definition EVENT_SECIO_SEMAPHORE_TIMEOUT :: nat where "EVENT_SECIO_SEMAPHORE_TIMEOUT = 62"
definition EVENT_SECIO_CONFIGURATION_EVENT :: nat where "EVENT_SECIO_CONFIGURATION_EVENT = 63"
definition CATEGORY_KVM :: nat where "CATEGORY_KVM = 7"
definition EVENT_KVM_SESSION_REQUESTED :: nat where "EVENT_KVM_SESSION_REQUESTED = 70"
definition EVENT_KVM_SESSION_STARTED :: nat where "EVENT_KVM_SESSION_STARTED = 71"
definition EVENT_KVM_SESSION_STOPPED :: nat where "EVENT_KVM_SESSION_STOPPED = 72"
definition EVENT_KVM_DISABLED :: nat where "EVENT_KVM_DISABLED = 73"
definition EVENT_KVM_ENABLED :: nat where "EVENT_KVM_ENABLED = 74"
definition EVENT_KVM_DATA_CHANNEL :: nat where "EVENT_KVM_DATA_CHANNEL = 76"
definition CATEGORY_RCS :: nat where "CATEGORY_RCS = 8"
definition EVENT_RCS_TUNNEL_CLOSE :: nat where "EVENT_RCS_TUNNEL_CLOSE = 84"
definition EVENT_RCS_TUNNEL_OPEN :: nat where "EVENT_RCS_TUNNEL_OPEN = 85"
definition CATEGORY_IPSYNC :: nat where "CATEGORY_IPSYNC = 10"
definition EVENT_IP_SYNC_DISABLE :: nat where "EVENT_IP_SYNC_DISABLE = 110"
definition EVENT_IP_SYNC_ENABLE :: nat where "EVENT_IP_SYNC_ENABLE = 111"
definition CATEGORY_PROXY :: nat where "CATEGORY_PROXY = 11"
definition EVENT_PROXY_SYNC_DISABLE :: nat where "EVENT_PROXY_SYNC_DISABLE = 120"
definition EVENT_PROXY_SYNC_ENABLE :: nat where "EVENT_PROXY_SYNC_ENABLE = 121"
definition USER_CONSENT :: nat where "USER_CONSENT = 13"
definition EVENT_USER_CONSENT_ENDED :: nat where "EVENT_USER_CONSENT_ENDED = 130"
definition EVENT_USER_CONSENT_GRANTED :: nat where "EVENT_USER_CONSENT_GRANTED = 131"
definition EVENT_USER_CONSENT_REQUESTED :: nat where "EVENT_USER_CONSENT_REQUESTED = 132"
definition EVENT_USER_CONSENT_CONFIGURATION_CHANGED :: nat where "EVENT_USER_CONSENT_CONFIGURATION_CHANGED = 134"
definition EVENT_IP_REFRESH_LAN :: nat where "EVENT_IP_REFRESH_LAN = 118"
definition EVENT_IP_REFRESH_WLAN :: nat where "EVENT_IP_REFRESH_WLAN = 119"
definition CATEGORY_TIMESYNC :: nat where "CATEGORY_TIMESYNC = 16"
definition EVENT_TIME_SYNC_DISABLE :: nat where "EVENT_TIME_SYNC_DISABLE = 270"
definition EVENT_TIME_SYNC_ENABLE :: nat where "EVENT_TIME_SYNC_ENABLE = 271"
definition CATEGORY_REMOTE_GRACEFUL_POWER_OPERATION :: nat where "CATEGORY_REMOTE_GRACEFUL_POWER_OPERATION = 15"
definition EVENT_REMOTE_GRACEFUL_SHUTDOWN_REQUESTED :: nat where "EVENT_REMOTE_GRACEFUL_SHUTDOWN_REQUESTED = 272"
definition EVENT_REMOTE_GRACEFUL_REBOOT_REQUESTED :: nat where "EVENT_REMOTE_GRACEFUL_REBOOT_REQUESTED = 273"
definition EVENT_REMOTE_SLEEP :: nat where "EVENT_REMOTE_SLEEP = 278"
definition EVENT_REMOTE_HIBERNATE :: nat where "EVENT_REMOTE_HIBERNATE = 279"

text \<open>What a \<^verbatim>\<open>c_str()\<close> shows to a reader of a C string.\<close>

definition c_str :: "bytes \<Rightarrow> bytes" where
  "c_str s = takeWhile (\<lambda>b. b \<noteq> 0) s"

record GMS_AlertIndication =
  al_category :: nat
  al_id :: nat
  al_Datetime :: bytes
  al_MessageID :: bytes
  al_Message :: bytes
  al_MessageArguments :: "bytes list"

type_synonym GmsEventType = "nat \<times> nat \<times> bytes"

definition SEPERATOR :: bytes where "SEPERATOR = str '' - ''"
definition EVENTS_AGENTS_HEADER :: bytes where
  "EVENTS_AGENTS_HEADER = str ''Local Software Monitor has detected that agent ''"
definition EVENTS_AGENT_NOT_STARTED_SUFFIX :: bytes where
  "EVENTS_AGENT_NOT_STARTED_SUFFIX = str '' has not started''"
definition EVENTS_AGENT_STOPED_SUFFIX :: bytes where "EVENTS_AGENT_STOPED_SUFFIX = str '' has stopped''"
definition EVENTS_AGENT_EXPIRED_SUFFIX :: bytes where "EVENTS_AGENT_EXPIRED_SUFFIX = str '' has expired''"

text \<open>The bindings in the order of the constructor. \<^verbatim>\<open>bind\<close> leaves a key that is already bound alone, as
  \<^term>\<open>map_of\<close> takes the first entry.\<close>

definition cim_table :: "(string \<times> nat \<times> nat \<times> string) list" where
  "cim_table = [
  (''iAMT0002'', CATEGORY_GENERAL, EVENT_AGENT_1, []),
  (''iAMT0003'', CATEGORY_GENERAL, EVENT_AGENT_2, []),
  (''iAMT0005'', CATEGORY_GENERAL, EVENT_AGENT_4, []),
  (''iAMT0050 - 0'', CATEGORY_GENERAL, EVENT_AMT_ENABLE, ''Manageability enabled''),
  (''iAMT0055 - 0'', CATEGORY_GENERAL, EVENT_PROVISIONING_STATE_PRE, ''Provisioning state PRE''),
  (''iAMT0055 - 1'', CATEGORY_GENERAL, EVENT_PROVISIONING_STATE_IN, ''Provisioning state IN''),
  (''iAMT0055 - 2'', CATEGORY_GENERAL, EVENT_PROVISIONING_STATE_POST, ''Provisioning state POST''),
  (''iAMT0057 - 0'', CATEGORY_GENERAL, EVENT_NETWORK_STATE_CHANGE, ''Network state change''),
  (''iAMT0055 - 3'', CATEGORY_GENERAL, EVENT_UNPROVISIONES_STARTED, ''Unprovisioning started''),
  (''iAMT0055 - 4'', CATEGORY_GENERAL, EVENT_CONTROL_MODE_CHANGE, []),
  (''iAMT0071'', CATEGORY_GENERAL, EVENT_AMT_DISABLE_ATTEMPT, ''Intel(R) AMT disable attempt detected''),
  (''iAMT0050 - 16'', CATEGORY_CIRCUIT_BREAKER, EVENT_NETWORK_TRAFFIC_TX_CEASED, ''System Defense TX traffic ceased''),
  (''iAMT0050 - 17'', CATEGORY_CIRCUIT_BREAKER, EVENT_NETWORK_CONNECTIVITY_TX_REDUCED, ''System Defense TX traffic reduced''),
  (''iAMT0050 - 18'', CATEGORY_CIRCUIT_BREAKER, EVENT_NETWORK_TRAFFIC_RX_CEASED, ''System Defense RX traffic ceased''),
  (''iAMT0050 - 19'', CATEGORY_CIRCUIT_BREAKER, EVENT_NETWORK_CONNECTIVITY_RX_REDUCED, ''System Defense RX traffic reduced''),
  (''iAMT0056 - 0'', CATEGORY_CIRCUIT_BREAKER, EVENT_SYSTEM_DEFENCE_CHANGE, ''System Defense state changed''),
  (''iAMT0050 - 32'', CATEGORY_EAC, EVENT_EAC_NOTIFICATION, ''EAC notification''),
  (''iAMT0050 - 33'', CATEGORY_EAC, EVENT_EAC_ENABLED, []),
  (''iAMT0050 - 34'', CATEGORY_EAC, EVENT_EAC_DISABLED, []),
  (''iAMT0050 - 48'', CATEGORY_REMOTE_DIAGNOSTIC, EVENT_REMOTE_SOL_STARTED, ''Remote SOL session started''),
  (''iAMT0050 - 49'', CATEGORY_REMOTE_DIAGNOSTIC, EVENT_REMOTE_SOL_ENDED, ''Remote SOL session ended''),
  (''iAMT0050 - 50'', CATEGORY_REMOTE_DIAGNOSTIC, EVENT_REMOTE_IDER_STARTED, ''Remote USBr session started''),
  (''iAMT0050 - 51'', CATEGORY_REMOTE_DIAGNOSTIC, EVENT_REMOTE_IDER_ENDED, ''Remote USBr session ended''),
  (''iAMT0050 - 66'', CATEGORY_WLAN, EVENT_WLAN_PROFILE_INSUFFICIENT, []),
  (''iAMT0050 - 67'', CATEGORY_WLAN, EVENT_WLAN_SESSION_ESTABLISHED, ''WLAN Link Preference set to Intel(R) ME''),
  (''iAMT0050 - 68'', CATEGORY_WLAN, EVENT_WLAN_SECURITY_INSUFFICIENT, []),
  (''iAMT0050 - 69'', CATEGORY_WLAN, EVENT_WLAN_SESSION_ENDED, ''WLAN Link Preference set to Host (Operating system)''),
  (''iAMT0054 - 70'', CATEGORY_WLAN, EVENT_WIRELESS_STATE_CHANGED, ''Wireless profile sync enablement state changed''),
  (''iAMT0049 - 0'', CATEGORY_WLAN, EVENT_WLAN_PROFILE_SYNC_DISABLE, []),
  (''iAMT0049 - 1'', CATEGORY_WLAN, EVENT_WLAN_PROFILE_SYNC_ENABLE, []),
  (''iAMT0068 - 2'', CATEGORY_WLAN, EVENT_WLAN_PROTECTION_ON_HIGH, ''Intel(R) ME WLAN Link Protection is ON (HIGH)''),
  (''iAMT0068 - 1'', CATEGORY_WLAN, EVENT_WLAN_PROTECTION_ON_PASSIVE, ''Intel(R) ME WLAN Link Protection is ON (PASSIVE)''),
  (''iAMT0068 - 0'', CATEGORY_WLAN, EVENT_WLAN_PROTECTION_OFF, ''Intel(R) ME WLAN Link Protection is OFF''),
  (''iAMT0066 - 0'', CATEGORY_WLAN, EVENT_WLAN_CONTROL_HOST, ''WLAN Link Control set to Host (Operating system)''),
  (''iAMT0066 - 1'', CATEGORY_WLAN, EVENT_WLAN_CONTROL_ME, ''WLAN Link Control set to Intel(R) ME''),
  (''iAMT0051 - 0'', CATEGORY_SECIO, EVENT_SECIO_SEMAPHORE_AT_HOST, ''Sprite is in use by another application''),
  (''iAMT0051 - 1'', CATEGORY_SECIO, EVENT_SECIO_SEMAPHORE_AT_ME, []),
  (''iAMT0051 - 2'', CATEGORY_SECIO, EVENT_SECIO_SEMAPHORE_TIMEOUT, []),
  (''iAMT0060 - 0'', CATEGORY_SECIO, EVENT_SECIO_CONFIGURATION_EVENT, ''Sprite configuration change requested''),
  (''iAMT0052 - 0'', CATEGORY_KVM, EVENT_KVM_SESSION_REQUESTED, ''KVM session requested''),
  (''iAMT0052 - 1'', CATEGORY_KVM, EVENT_KVM_SESSION_STARTED, ''KVM session started''),
  (''iAMT0052 - 2'', CATEGORY_KVM, EVENT_KVM_SESSION_STOPPED, ''KVM session stopped''),
  (''iAMT0059 - 0'', CATEGORY_KVM, EVENT_KVM_DISABLED, ''KVM disabled''),
  (''iAMT0059 - 1'', CATEGORY_KVM, EVENT_KVM_ENABLED, ''KVM enabled''),
  (''iAMT0052 - 3'', CATEGORY_KVM, EVENT_KVM_DATA_CHANNEL, ''KVM data channel''),
  (''iAMT0058 - 0'', CATEGORY_RCS, EVENT_RCS_TUNNEL_CLOSE, ''Client Initiated Remote Access (CIRA) session disconnected''),
  (''iAMT0058 - 1'', CATEGORY_RCS, EVENT_RCS_TUNNEL_OPEN, ''Client Initiated Remote Access (CIRA) session connected''),
  (''iAMT0062 - 0'', CATEGORY_IPSYNC, EVENT_IP_SYNC_DISABLE, ''IP synchronization disabled''),
  (''iAMT0062 - 1'', CATEGORY_IPSYNC, EVENT_IP_SYNC_ENABLE, ''IP synchronization enabled''),
  (''iAMT0063 - 0'', CATEGORY_PROXY, EVENT_PROXY_SYNC_DISABLE, ''User Notification Alert - Proxy synchronization disabled''),
  (''iAMT0063 - 1'', CATEGORY_PROXY, EVENT_PROXY_SYNC_ENABLE, ''User Notification Alert - Proxy synchronization enabled''),
  (''iAMT0064 - 2'', USER_CONSENT, EVENT_USER_CONSENT_ENDED, ''User consent ended''),
  (''iAMT0064 - 1'', USER_CONSENT, EVENT_USER_CONSENT_GRANTED, ''User consent granted''),
  (''iAMT0064 - 3'', USER_CONSENT, EVENT_USER_CONSENT_REQUESTED, ''User consent requested''),
  (''iAMT0064 - 4'', USER_CONSENT, EVENT_USER_CONSENT_CONFIGURATION_CHANGED, ''User consent configuration changed''),
  (''iAMT0065 - 0'', CATEGORY_IPSYNC, EVENT_IP_REFRESH_LAN, ''User Notification Alert - IP refresh LAN''),
  (''iAMT0065 - 1'', CATEGORY_IPSYNC, EVENT_IP_REFRESH_WLAN, ''User Notification Alert - IP refresh WLAN''),
  (''iAMT0069 - 0'', CATEGORY_TIMESYNC, EVENT_TIME_SYNC_DISABLE, ''Time synchronization disabled''),
  (''iAMT0069 - 1'', CATEGORY_TIMESYNC, EVENT_TIME_SYNC_ENABLE, ''Time synchronization enabled''),
  (''iAMT0067 - 0'', CATEGORY_REMOTE_GRACEFUL_POWER_OPERATION, EVENT_REMOTE_GRACEFUL_SHUTDOWN_REQUESTED, []),
  (''iAMT0067 - 1'', CATEGORY_REMOTE_GRACEFUL_POWER_OPERATION, EVENT_REMOTE_GRACEFUL_REBOOT_REQUESTED, []),
  (''iAMT0067 - 2'', CATEGORY_REMOTE_GRACEFUL_POWER_OPERATION, EVENT_REMOTE_SLEEP, ''Sleep operation was requested by remote administrator''),
  (''iAMT0067 - 3'', CATEGORY_REMOTE_GRACEFUL_POWER_OPERATION, EVENT_REMOTE_HIBERNATE, ''Hibernate operation was requested by remote administrator'')]"

definition m_eventsMap :: "(bytes \<times> GmsEventType) list" where
  "m_eventsMap = map (\<lambda>(k, c, e, m). (str k, c, e, str m)) cim_table"

definition setMessage :: "GMS_AlertIndication \<Rightarrow> bytes \<Rightarrow> GmsEventType \<Rightarrow> GMS_AlertIndication" where
  "setMessage ev text et = (case et of (_, eid, emsg) \<Rightarrow>
     let agent = (\<lambda>suffix. case al_MessageArguments ev of
           [] \<Rightarrow> ev\<lparr>al_Message := []\<rparr>
         | a # as \<Rightarrow> ev\<lparr>al_MessageArguments := (a @ suffix) # as, al_Message := EVENTS_AGENTS_HEADER @ a @ suffix\<rparr>)
     in if eid = EVENT_AGENT_1 then agent EVENTS_AGENT_NOT_STARTED_SUFFIX
        else if eid = EVENT_AGENT_2 then agent EVENTS_AGENT_STOPED_SUFFIX
        else if eid = EVENT_AGENT_4 then agent EVENTS_AGENT_EXPIRED_SUFFIX
        else let message = c_str text
          in ev\<lparr>al_Message := (if message = [] \<and> emsg \<noteq> [] then c_str emsg else message)\<rparr>)"

definition translate :: "bytes \<Rightarrow> bytes \<Rightarrow> bytes \<Rightarrow> bytes \<Rightarrow> GMS_AlertIndication option" where
  "translate now mid arg text =
     (if mid = [] then None
      else
        let ev = \<lparr>al_category = 0, al_id = 0, al_Datetime = now, al_MessageID = c_str mid, al_Message = [],
              al_MessageArguments = []\<rparr>;
            uniq = c_str mid
        in case map_of m_eventsMap uniq of
             Some et \<Rightarrow>
               let ev = (if arg \<noteq> [] then ev\<lparr>al_MessageArguments := [c_str arg]\<rparr> else ev)
               in Some (setMessage (ev\<lparr>al_category := fst et, al_id := fst (snd et)\<rparr>) text et)
           | None \<Rightarrow>
               let uniq = uniq @ SEPERATOR @ (if arg \<noteq> [] then arg else [])
               in case map_of m_eventsMap uniq of
                    None \<Rightarrow> None
                  | Some et \<Rightarrow> Some (setMessage (ev\<lparr>al_category := fst et, al_id := fst (snd et)\<rparr>) text et))"

subsection \<open>Every documented alert is translated\<close>

lemma str_inj [simp]: "str s = str t \<longleftrightarrow> s = t"
proof
  assume "str s = str t"
  then have "map (of_char :: char \<Rightarrow> u8) s = map of_char t" by (simp add: str_def)
  moreover have "inj (of_char :: char \<Rightarrow> u8)"
  proof (rule injI)
    fix c d :: char
    assume "(of_char c :: u8) = of_char d"
    then have "unat (of_nat (of_char c) :: u8) = unat (of_nat (of_char d) :: u8)"
      by (simp only: of_nat_of_char)
    then have "of_char c = (of_char d :: nat)"
      by (simp only: unat_of_nat) (simp add: mod_less)
    then show "c = d" by simp
  qed
  ultimately show "s = t" by (simp add: inj_map_eq_map)
qed simp

lemma cim_keys:
  "distinct (map fst cim_table)
   \<and> list_all (\<lambda>(k, _). length k = 8 \<or> take 3 (drop 8 k) = '' - '' \<and> drop 11 k \<noteq> [] \<and> take 8 k \<notin> set (map fst cim_table)) cim_table"
  by code_simp

lemma cim_chars: "list_all (\<lambda>(k, _). list_all (\<lambda>c. c \<noteq> CHR 0x00) k) cim_table"
  by code_simp

lemma map_of_events: "map_of m_eventsMap (str k) = map_option (\<lambda>(c, e, m). (c, e, str m)) (map_of cim_table k)"
proof -
  have "map_of (map (\<lambda>(k, c, e, m). (str k, c, e, str m)) t) (str k) = map_option (\<lambda>(c, e, m). (c, e, str m)) (map_of t k)"
    for t :: "(string \<times> nat \<times> nat \<times> string) list"
    by (induction t) auto
  then show ?thesis by (simp add: m_eventsMap_def)
qed

lemma str_append: "str (s @ t) = str s @ str t"
  by (simp add: str_def)

lemma of_char_zero: "(of_char c :: u8) = 0 \<longleftrightarrow> c = CHR 0x00"
proof -
  have "str [c] = str [CHR 0x00] \<longleftrightarrow> c = CHR 0x00" by simp
  then show ?thesis by (simp add: str_def)
qed

lemma c_str_str: "list_all (\<lambda>c. c \<noteq> CHR 0x00) s \<Longrightarrow> c_str (str s) = str s"
  by (induction s) (simp_all add: c_str_def str_def of_char_zero)

lemma setMessage_keeps: "al_category (setMessage ev text et) = al_category ev \<and> al_id (setMessage ev text et) = al_id ev"
  by (auto simp: setMessage_def Let_def split: prod.splits list.splits)

text \<open>No key is bound twice, so that no binding is lost, and every alert of the table is translated: an
  alert with the identifier and the argument of a key gets the category and the event number bound to
  it, whatever its text.\<close>

theorem cim_every_binding_effective:
  "distinct (map fst m_eventsMap) \<and>
   (\<forall>(k, c, e, m)\<in>set cim_table. \<exists>ev. translate now (str (take 8 k)) (str (drop 11 k)) text = Some ev
      \<and> al_category ev = c \<and> al_id ev = e \<and> al_MessageID ev = str (take 8 k))"
proof -
  have d: "distinct (map fst cim_table)" using cim_keys by simp
  have "distinct (map fst m_eventsMap)"
  proof -
    have "map fst m_eventsMap = map str (map fst cim_table)"
      by (simp add: m_eventsMap_def comp_def split_beta)
    moreover have "inj str" by (simp add: inj_def)
    ultimately show ?thesis using d by (simp add: distinct_map inj_on_def)
  qed
  moreover have "\<exists>ev. translate now (str (take 8 k)) (str (drop 11 k)) text = Some ev
      \<and> al_category ev = c \<and> al_id ev = e \<and> al_MessageID ev = str (take 8 k)" if "(k, c, e, m) \<in> set cim_table" for k c e m
  proof -
    have m: "map_of cim_table k = Some (c, e, m)"
      using d that by simp
    have shape: "length k = 8 \<or> take 3 (drop 8 k) = '' - '' \<and> drop 11 k \<noteq> [] \<and> take 8 k \<notin> set (map fst cim_table)"
      and ch: "list_all (\<lambda>c. c \<noteq> CHR 0x00) k"
      using cim_keys cim_chars that unfolding list_all_iff by (fastforce, fastforce)
    then have c: "c_str (str (take 8 k)) = str (take 8 k)"
      by (intro c_str_str) (auto simp: list_all_iff dest: in_set_takeD)
    have id: "al_MessageID (setMessage ev t et) = al_MessageID ev" for ev t et
      by (auto simp: setMessage_def Let_def split: prod.splits list.splits)
    from shape show ?thesis
    proof
      assume "length k = 8"
      moreover from this have "str k \<noteq> []" by (simp flip: length_0_conv)
      ultimately show ?thesis
        using m c by (simp add: translate_def map_of_events Let_def setMessage_keeps id)
    next
      assume k: "take 3 (drop 8 k) = '' - '' \<and> drop 11 k \<noteq> [] \<and> take 8 k \<notin> set (map fst cim_table)"
      have "k = take 8 k @ take 3 (drop 8 k) @ drop 11 k"
        using append_take_drop_id [of 8 k] append_take_drop_id [of 3 "drop 8 k"] by simp
      then have "str k = str (take 8 k) @ SEPERATOR @ str (drop 11 k)"
        using k by (metis SEPERATOR_def str_append)
      moreover have "map_of cim_table (take 8 k) = None"
        using k by (simp add: map_of_eq_None_iff)
      moreover have "str (take 8 k) \<noteq> []" "str (drop 11 k) \<noteq> []"
        using k by (auto simp: str_def)
      ultimately show ?thesis
        using m c map_of_events [of k] by (simp add: translate_def map_of_events Let_def setMessage_keeps id)
    qed
  qed
  ultimately show ?thesis by blast
qed

lemma cim_every_binding_effective_witness:
  "\<exists>ev. translate [] (str ''iAMT0052'') (str ''1'') [] = Some ev \<and> al_category ev = CATEGORY_KVM
    \<and> al_id ev = EVENT_KVM_SESSION_STARTED"
proof -
  have "(''iAMT0052 - 1'', CATEGORY_KVM, EVENT_KVM_SESSION_STARTED, ''KVM session started'') \<in> set cim_table"
    by (simp add: cim_table_def)
  from bspec [OF conjunct2 [OF cim_every_binding_effective [of "[]" "[]"]] this] show ?thesis
    by (auto simp: eval_nat_numeral)
qed

end
