(* ===== verification/Soap_Handler.thy ===== *)
theory Soap_Handler
  imports Cim_Events
begin

text \<open>
  The handler of the alerts the management engine sends over a channel without a socket
  (\<^verbatim>\<open>SoapHandler.cpp\<close>): it collects the pieces, looks for the three elements it needs in what it has so
  far, and publishes at most one event. The events sent to the event manager are the second result.
\<close>

record SOAP_Handler =
  soap_buf :: bytes
  event_sent :: bool

definition soap_handler :: SOAP_Handler where
  "soap_handler = \<lparr>soap_buf = [], event_sent = False\<rparr>"

text \<open>\<^verbatim>\<open>std::string::find\<close>: the first occurrence at or behind a position.\<close>

definition str_find :: "bytes \<Rightarrow> bytes \<Rightarrow> nat \<Rightarrow> nat option" where
  "str_find s pat start = find (\<lambda>i. take (length pat) (drop i s) = pat) [start..<Suc (length s) - length pat]"

definition mesStartTag :: bytes where "mesStartTag = str ''<g:Message>''"
definition mesEndTag :: bytes where "mesEndTag = str ''</g:Message>''"
definition mesIdStartTag :: bytes where "mesIdStartTag = str ''<g:MessageID>''"
definition mesIdEndTag :: bytes where "mesIdEndTag = str ''</g:MessageID>''"
definition mesArgStartTag :: bytes where "mesArgStartTag = str ''<g:MessageArguments>''"
definition mesArgEndTag :: bytes where "mesArgEndTag = str ''</g:MessageArguments>''"

text \<open>The text of the first element with the given tags; \<open>empty_ok\<close> is the guard on an empty text.\<close>

definition element :: "bytes \<Rightarrow> bytes \<Rightarrow> bool \<Rightarrow> bytes \<Rightarrow> bytes option" where
  "element startTag endTag empty_ok xml = do {
     start \<leftarrow> str_find xml startTag 0;
     let start = start + length startTag;
     stop \<leftarrow> str_find xml endTag start;
     if stop < start \<or> (stop = start \<and> \<not> empty_ok) then None
     else Some (take (stop - start) (drop start xml)) }"

text \<open>\<^term>\<open>None\<close> is the result \<open>-1\<close>; otherwise \<^verbatim>\<open>finished\<close> is set and the three texts are returned.\<close>

definition parse_message :: "bytes \<Rightarrow> (bytes \<times> bytes \<times> bytes) option" where
  "parse_message xml = do {
     TestMessageId \<leftarrow> element mesIdStartTag mesIdEndTag False xml;
     if length TestMessageId \<noteq> length ''iAMTxxxx'' \<or> take 4 TestMessageId \<noteq> str ''iAMT'' then None
     else do {
       TestMessageArg \<leftarrow> element mesArgStartTag mesArgEndTag False xml;
       if length TestMessageArg > 2 then None
       else do {
         TestMessageText \<leftarrow> element mesStartTag mesEndTag True xml;
         Some (TestMessageId, TestMessageArg, TestMessageText) } } }"

definition HandleCimAlert ::
  "bytes \<Rightarrow> bytes \<Rightarrow> bytes \<Rightarrow> bytes \<Rightarrow> SOAP_Handler \<Rightarrow> (bool \<times> SOAP_Handler) \<times> GMS_AlertIndication list" where
  "HandleCimAlert now mid arg text h =
     (if event_sent h then ((True, h), [])
      else case translate now mid arg text of
          None \<Rightarrow> ((False, h), [])
        | Some alert \<Rightarrow> ((True, h\<lparr>event_sent := True\<rparr>), [alert]))"

definition read_and_parse_input :: "bytes \<Rightarrow> SOAP_Handler \<Rightarrow> (bytes \<times> bytes \<times> bytes) option \<times> SOAP_Handler" where
  "read_and_parse_input data h =
     (let h = h\<lparr>soap_buf := soap_buf h @ data\<rparr> in (parse_message (soap_buf h), h))"

text \<open>The first result is \<^verbatim>\<open>finished\<close>: the caller closes the channel.\<close>

definition handle_input :: "bytes \<Rightarrow> bytes \<Rightarrow> SOAP_Handler \<Rightarrow> (bool \<times> SOAP_Handler) \<times> GMS_AlertIndication list" where
  "handle_input now data h =
     (case read_and_parse_input data h of
        (None, h) \<Rightarrow> ((False, h), [])
      | (Some (mid, arg, text), h) \<Rightarrow>
          let ((_, h), out) = HandleCimAlert now mid arg text h in ((True, h), out))"

text \<open>The handler fed with the pieces of a message.\<close>

fun soap_feed :: "bytes \<Rightarrow> bytes list \<Rightarrow> SOAP_Handler \<Rightarrow> SOAP_Handler \<times> GMS_AlertIndication list" where
  "soap_feed now [] h = (h, [])"
| "soap_feed now (c # cs) h =
     (let ((_, h), out) = handle_input now c h; (h, out') = soap_feed now cs h in (h, out @ out'))"

subsection \<open>More input does not change what was found\<close>

lemma find_Some_upt:
  "find P [a..<b] = Some i \<longleftrightarrow> a \<le> i \<and> i < b \<and> P i \<and> (\<forall>j. a \<le> j \<and> j < i \<longrightarrow> \<not> P j)" (is "?l \<longleftrightarrow> ?r")
proof
  assume ?l
  then obtain k where k: "k < b - a" "P (a + k)" "i = a + k" "\<forall>j<k. \<not> P (a + j)"
    by (auto simp: find_Some_iff)
  have "\<not> P j" if "a \<le> j" "j < i" for j
    using k(3) k(4) [rule_format, of "j - a"] that by simp
  with k show ?r by auto
next
  assume ?r
  then show ?l
    unfolding find_Some_iff by (intro exI [of _ "i - a"]) auto
qed

lemma str_find_append:
  assumes "str_find s pat start = Some i"
  shows "str_find (s @ t) pat start = Some i" and "i + length pat \<le> length s" and "start \<le> i"
proof -
  have i: "start \<le> i" "i < Suc (length s) - length pat" "take (length pat) (drop i s) = pat"
    "\<forall>j. start \<le> j \<and> j < i \<longrightarrow> take (length pat) (drop j s) \<noteq> pat"
    using assms unfolding str_find_def find_Some_upt by auto
  then show "i + length pat \<le> length s" "start \<le> i" by simp_all
  then have "take (length pat) (drop j (s @ t)) = take (length pat) (drop j s)" if "j \<le> i" for j
    using that by simp
  with i show "str_find (s @ t) pat start = Some i"
    unfolding str_find_def find_Some_upt by auto
qed

lemma element_append:
  assumes "element a b e s = Some x"
  shows "element a b e (s @ t) = Some x"
proof -
  from assms obtain i j where i: "str_find s a 0 = Some i" and j: "str_find s b (i + length a) = Some j"
    and g: "\<not> (j < i + length a \<or> (j = i + length a \<and> \<not> e))" and x: "x = take (j - (i + length a)) (drop (i + length a) s)"
    by (auto simp: element_def Let_def bind_eq_Some_conv split: if_splits)
  have "take (j - (i + length a)) (drop (i + length a) (s @ t)) = x"
    using str_find_append(2) [OF j] str_find_append(2) [OF i] x by simp
  moreover have "str_find (s @ t) a 0 = Some i" "str_find (s @ t) b (i + length a) = Some j"
    using str_find_append(1) i j by simp_all
  ultimately show ?thesis
    using g by (simp only: element_def Let_def bind.bind_lunit if_False)
qed

lemma parse_append:
  assumes "parse_message s = Some r"
  shows "parse_message (s @ t) = Some r"
proof -
  from assms obtain x y z where e: "element mesIdStartTag mesIdEndTag False s = Some x"
    "\<not> (length x \<noteq> length ''iAMTxxxx'' \<or> take 4 x \<noteq> str ''iAMT'')"
    "element mesArgStartTag mesArgEndTag False s = Some y" "\<not> length y > 2"
    "element mesStartTag mesEndTag True s = Some z" "r = (x, y, z)"
    unfolding parse_message_def by (auto simp: bind_eq_Some_conv split: if_splits)
  then show ?thesis
    unfolding parse_message_def by (simp only: element_append bind.bind_lunit if_False)
qed

lemma handle_input_buf: "soap_buf (snd (fst (handle_input now c h))) = soap_buf h @ c"
  by (auto simp: handle_input_def read_and_parse_input_def HandleCimAlert_def Let_def split: option.splits prod.splits)

definition alerts :: "bytes \<Rightarrow> bytes \<Rightarrow> GMS_AlertIndication list" where
  "alerts now s = (case parse_message s of
     None \<Rightarrow> []
   | Some (mid, arg, text) \<Rightarrow> (case translate now mid arg text of None \<Rightarrow> [] | Some a \<Rightarrow> [a]))"

lemma handle_input_alerts:
  assumes "event_sent h \<longleftrightarrow> alerts now (soap_buf h) \<noteq> []"
  shows "event_sent (snd (fst (handle_input now c h))) \<longleftrightarrow> alerts now (soap_buf h @ c) \<noteq> []"
    and "alerts now (soap_buf h) @ snd (handle_input now c h) = alerts now (soap_buf h @ c)"
    and "fst (fst (handle_input now c h)) \<longleftrightarrow> parse_message (soap_buf h @ c) \<noteq> None"
proof -
  have "alerts now (soap_buf h @ c) = alerts now (soap_buf h)" if "parse_message (soap_buf h) \<noteq> None"
    using that parse_append [of "soap_buf h" _ c] by (auto simp: alerts_def)
  then show "event_sent (snd (fst (handle_input now c h))) \<longleftrightarrow> alerts now (soap_buf h @ c) \<noteq> []"
    "alerts now (soap_buf h) @ snd (handle_input now c h) = alerts now (soap_buf h @ c)"
    "fst (fst (handle_input now c h)) \<longleftrightarrow> parse_message (soap_buf h @ c) \<noteq> None"
    using assms
    by (auto simp: handle_input_def read_and_parse_input_def HandleCimAlert_def Let_def alerts_def
        split: option.splits prod.splits)
qed

lemma soap_feed_alerts:
  "event_sent h \<longleftrightarrow> alerts now (soap_buf h) \<noteq> [] \<Longrightarrow>
    alerts now (soap_buf h) @ snd (soap_feed now cs h) = alerts now (soap_buf h @ concat cs)"
proof (induction cs arbitrary: h)
  case (Cons c cs)
  obtain f h1 out where h1: "handle_input now c h = ((f, h1), out)"
    by (metis prod.exhaust)
  note step = handle_input_alerts [OF Cons.prems, of c, unfolded h1, simplified]
  have "event_sent h1 \<longleftrightarrow> alerts now (soap_buf h1) \<noteq> []"
    using step(1) handle_input_buf [of now c h] h1 by simp
  from Cons.IH [OF this] step(2) show ?case
    using handle_input_buf [of now c h] h1 by (simp add: split_beta flip: append_assoc)
qed simp

text \<open>C16. However the message of the management engine is cut into pieces, the handler publishes exactly the
  events it would publish for the whole message in one piece; in particular never more than one.\<close>

theorem soap_pieces_as_whole:
  "snd (soap_feed now cs soap_handler) = alerts now (concat cs) \<and> length (snd (soap_feed now cs soap_handler)) \<le> 1"
proof -
  have "alerts now (soap_buf soap_handler) = []" "soap_buf soap_handler = []" "\<not> event_sent soap_handler"
    by (simp_all add: soap_handler_def alerts_def parse_message_def element_def str_find_def mesIdStartTag_def)
  with soap_feed_alerts [of soap_handler now cs] have "snd (soap_feed now cs soap_handler) = alerts now (concat cs)"
    by simp
  moreover have "length (alerts now s) \<le> 1" for s
    by (auto simp: alerts_def split: option.splits)
  ultimately show ?thesis by simp
qed

end
