(* ===== verification/Std_Map.thy ===== *)
theory Std_Map
  imports Prelude
begin

text \<open>
  The ordered associative container the C++ sources use (\<^verbatim>\<open>std::map\<close>): the entries in the order of
  their keys, \<^verbatim>\<open>m[k] = v\<close>, \<^verbatim>\<open>find\<close>, \<^verbatim>\<open>erase\<close>, iteration from \<^verbatim>\<open>begin()\<close>. The lemmas relate it to a
  finite map and count the entries with a property, as the reference counts of the program need.
\<close>

type_synonym ('k, 'v) std_map = "('k \<times> 'v) list"

fun map_put :: "'k::linorder \<Rightarrow> 'v \<Rightarrow> ('k, 'v) std_map \<Rightarrow> ('k, 'v) std_map" where
  "map_put k v [] = [(k, v)]"
| "map_put k v ((k', v') # m) =
     (if k < k' then (k, v) # (k', v') # m
      else if k = k' then (k, v) # m
      else (k', v') # map_put k v m)"

definition map_erase :: "'k \<Rightarrow> ('k, 'v) std_map \<Rightarrow> ('k, 'v) std_map" where
  "map_erase k m = filter (\<lambda>e. fst e \<noteq> k) m"

definition map_ok :: "('k::linorder, 'v) std_map \<Rightarrow> bool" where
  "map_ok m \<longleftrightarrow> sorted_wrt (<) (map fst m)"

definition entries :: "('v \<Rightarrow> bool) \<Rightarrow> ('k, 'v) std_map \<Rightarrow> nat" where
  "entries P m = length (filter (\<lambda>e. P (snd e)) m)"

lemma map_of_put [simp]: "map_of (map_put k v m) = (map_of m)(k \<mapsto> v)"
  by (induction k v m rule: map_put.induct) (auto simp: fun_eq_iff)

lemma map_of_erase [simp]: "map_of (map_erase k m) = (map_of m)(k := None)"
  by (induction m) (auto simp: map_erase_def fun_eq_iff)

lemma map_ok_Nil [simp]: "map_ok []"
  by (simp add: map_ok_def)

lemma keys_put: "set (map fst (map_put k v m)) = insert k (set (map fst m))"
  by (induction k v m rule: map_put.induct) auto

lemma map_ok_put [simp]: "map_ok m \<Longrightarrow> map_ok (map_put k v m)"
proof (induction k v m rule: map_put.induct)
  case (2 k v k' v' m)
  then show ?case
    using keys_put [of k v m] by (fastforce simp: map_ok_def)
qed (simp add: map_ok_def)

lemma map_ok_erase [simp]: "map_ok m \<Longrightarrow> map_ok (map_erase k m)"
  by (auto simp: map_ok_def map_erase_def sorted_wrt_map sorted_wrt_filter)

lemma map_ok_Cons: "map_ok ((k, v) # m) \<longleftrightarrow> (\<forall>k'\<in>set (map fst m). k < k') \<and> map_ok m"
  by (simp add: map_ok_def)

lemma map_ok_distinct: "map_ok m \<Longrightarrow> distinct (map fst m)"
  unfolding map_ok_def by (simp add: strict_sorted_iff)

lemma in_map: "map_ok m \<Longrightarrow> (k, v) \<in> set m \<longleftrightarrow> map_of m k = Some v"
  by (simp add: map_of_eq_Some_iff [OF map_ok_distinct])

lemma entries_Nil [simp]: "entries P [] = 0"
  by (simp add: entries_def)

lemma entries_Cons [simp]: "entries P (e # m) = (if P (snd e) then Suc (entries P m) else entries P m)"
  by (simp add: entries_def)

lemma entries_put_new [simp]:
  "map_of m k = None \<Longrightarrow> entries P (map_put k v m) = entries P m + (if P v then 1 else 0)"
  by (induction k v m rule: map_put.induct) (auto split: if_splits)

lemma entries_put_old:
  "map_ok m \<Longrightarrow> map_of m k = Some w \<Longrightarrow> P v = P w \<Longrightarrow> entries P (map_put k v m) = entries P m"
proof (induction k v m rule: map_put.induct)
  case (2 k v k' v' m)
  show ?case
  proof (cases "k < k'")
    case True
    with 2 have "map_of m k = Some w" by (auto dest: less_imp_neq split: if_splits)
    then have "k \<in> set (map fst m)" by (force dest: map_of_SomeD)
    with True 2(2) show ?thesis by (auto simp: map_ok_Cons)
  next
    case False
    with 2 show ?thesis by (auto simp: map_ok_Cons split: if_splits)
  qed
qed simp

lemma entries_put_le: "map_ok m \<Longrightarrow> entries P (map_put k v m) \<le> entries P m + (if P v then 1 else 0)"
proof (induction k v m rule: map_put.induct)
  case (2 k v k' v' m)
  then show ?case by (auto simp: map_ok_Cons)
qed simp

lemma erase_absent: "map_of m k = None \<Longrightarrow> map_erase k m = m"
  by (auto simp: map_erase_def map_of_eq_None_iff intro!: filter_True)

lemma entries_erase:
  "map_ok m \<Longrightarrow> map_of m k = Some v \<Longrightarrow> entries P m = entries P (map_erase k m) + (if P v then 1 else 0)"
proof (induction m)
  case (Cons e m)
  show ?case
  proof (cases "fst e = k")
    case True
    then have "map_of m k = None"
      using Cons.prems by (cases e) (auto simp: map_ok_Cons map_of_eq_None_iff)
    from erase_absent [OF this] have "map_erase k (e # m) = m"
      using True by (simp add: map_erase_def)
    with True Cons.prems show ?thesis by (cases e) simp
  next
    case False
    then have "map_erase k (e # m) = e # map_erase k m"
      by (simp add: map_erase_def)
    with False Cons show ?thesis by (cases e) (auto simp: map_ok_Cons)
  qed
qed simp

lemma entries_pos: "map_of m k = Some v \<Longrightarrow> P v \<Longrightarrow> 0 < entries P m"
  by (induction m) (auto split: if_splits)

lemma entries_zero: "entries P m = 0 \<Longrightarrow> map_of m k = Some v \<Longrightarrow> \<not> P v"
  using entries_pos by fastforce

lemma map_put_put [simp]: "map_put k v (map_put k w m) = map_put k v m"
  by (induction k w m rule: map_put.induct) auto

lemma map_erase_put: "map_of m k = None \<Longrightarrow> map_erase k (map_put k v m) = m"
proof (induction k v m rule: map_put.induct)
  case (2 k v k' v' m)
  then have "map_erase k m = m" using erase_absent [of m k] by (auto split: if_splits)
  with 2 show ?case by (auto simp: map_erase_def split: if_splits)
qed (simp add: map_erase_def)

end
