(* ===== verification/Channel.thy ===== *)
theory Channel
  imports Lme_Receive Soap_Handler Std_Map
begin

text \<open>
  The channels and the port forwarding requests (\<^verbatim>\<open>Channel.h\<close>, \<^verbatim>\<open>PortForwardRequest.h\<close>). A socket is its
  descriptor as the \<^verbatim>\<open>unsigned int\<close> the channel map is keyed by. A channel is owned by the channel map; a
  request is shared through pointers, so that it lives in a store (\<open>0\<close> is the null pointer).
\<close>

type_synonym SOCKET = u32

definition INVALID_SOCKET :: SOCKET where "INVALID_SOCKET = - 1"

datatype CHANNEL_STATUS = NOT_OPENED | OPEN | WAITING_CLOSE | CLOSED

datatype channel_kind = SocketChannel | SoapChannel SOAP_Handler

record channel =
  recipientChannel :: u32
  senderChannel :: u32
  socket :: SOCKET
  txWindow :: u32
  rxWindow :: u32
  status :: CHANNEL_STATUS
  portForwardRequest :: addr
  kind :: channel_kind

definition LMS_WINDOW_SIZE :: u32 where "LMS_WINDOW_SIZE = 4095"

definition new_channel :: "channel_kind \<Rightarrow> addr \<Rightarrow> SOCKET \<Rightarrow> channel" where
  "new_channel k req s = \<lparr>recipientChannel = 0, senderChannel = s, socket = s, txWindow = 0,
     rxWindow = LMS_WINDOW_SIZE, status = NOT_OPENED, portForwardRequest = req, kind = k\<rparr>"

definition AddBytesTxWindow :: "u32 \<Rightarrow> channel \<Rightarrow> channel" where
  "AddBytesTxWindow n c =
     (if n > 0xFFFFFFFF - txWindow c then c\<lparr>txWindow := 0xFFFFFFFF\<rparr> else c\<lparr>txWindow := txWindow c + n\<rparr>)"

definition RemoveBytesTxWindow :: "u32 \<Rightarrow> channel \<Rightarrow> channel" where
  "RemoveBytesTxWindow n c =
     (if txWindow c < n then c\<lparr>txWindow := 0\<rparr> else c\<lparr>txWindow := txWindow c - n\<rparr>)"

datatype PORT_FORWARD_REQUEST_STATUS = NOT_ACTIVE | PENDING_REQUEST | LISTENING

datatype permit_cb = isLocalCallback | isRemoteCallback

record port_forward_request =
  bindedAddress :: bytes
  pf_port :: u32
  pf_local :: bool
  listeningSockets :: "SOCKET list"
  pf_cb :: permit_cb
  pf_status :: PORT_FORWARD_REQUEST_STATUS
  channelCount :: u32

definition new_request :: "bytes \<Rightarrow> u32 \<Rightarrow> SOCKET list \<Rightarrow> permit_cb \<Rightarrow> bool \<Rightarrow> port_forward_request" where
  "new_request address port ss cb lcl = \<lparr>bindedAddress = address, pf_port = port, pf_local = lcl,
     listeningSockets = ss, pf_cb = cb, pf_status = NOT_ACTIVE, channelCount = 0\<rparr>"

definition IncreaseChannelCount :: "port_forward_request \<Rightarrow> port_forward_request" where
  "IncreaseChannelCount r = r\<lparr>channelCount := channelCount r + 1\<rparr>"

definition DecreaseChannelCount :: "port_forward_request \<Rightarrow> port_forward_request" where
  "DecreaseChannelCount r = (if channelCount r > 0 then r\<lparr>channelCount := channelCount r - 1\<rparr> else r)"

text \<open>\<^verbatim>\<open>ProcessRx\<close>: the count returned, whether a close is requested, the channel, and the events
  published. \<open>snd_res\<close> is the result of \<^verbatim>\<open>send\<close> on the socket.\<close>

definition ProcessRx :: "bytes \<Rightarrow> int \<Rightarrow> bytes \<Rightarrow> channel \<Rightarrow> (int \<times> bool \<times> channel) \<times> GMS_AlertIndication list" where
  "ProcessRx now snd_res d c = (case kind c of
     SocketChannel \<Rightarrow> ((snd_res, False, c), [])
   | SoapChannel h \<Rightarrow>
       let ((finished, h), out) = handle_input now d h in ((int (length d), finished, c\<lparr>kind := SoapChannel h\<rparr>), out))"

lemma AddBytes_exact:
  "unat (txWindow c) + unat n < 2 ^ 32 \<Longrightarrow> unat (txWindow (AddBytesTxWindow n c)) = unat (txWindow c) + unat n"
  "unat (txWindow (AddBytesTxWindow n c)) = min (unat (txWindow c) + unat n) (2 ^ 32 - 1)"
proof -
  have le: "txWindow c \<le> 0xFFFFFFFF"
    using unat_less_32 [of "txWindow c"] by (simp add: word_le_nat_alt)
  have sub: "unat (0xFFFFFFFF - txWindow c) = 4294967295 - unat (txWindow c)"
    using unat_sub [OF le] by simp
  show *: "unat (txWindow (AddBytesTxWindow n c)) = min (unat (txWindow c) + unat n) (2 ^ 32 - 1)"
  proof (cases "n > 0xFFFFFFFF - txWindow c")
    case True
    then have "4294967295 - unat (txWindow c) < unat n"
      unfolding word_less_nat_alt sub .
    with True show ?thesis by (simp add: AddBytesTxWindow_def)
  next
    case False
    then have "unat (txWindow c) + unat n < 4294967296"
      using le unfolding word_less_nat_alt sub word_le_nat_alt by simp
    with False show ?thesis by (simp add: AddBytesTxWindow_def unat_add_32)
  qed
  show "unat (txWindow c) + unat n < 2 ^ 32 \<Longrightarrow> unat (txWindow (AddBytesTxWindow n c)) = unat (txWindow c) + unat n"
    unfolding * by simp
qed

lemma RemoveBytes_exact: "unat (txWindow (RemoveBytesTxWindow n c)) = unat (txWindow c) - unat n"
  by (auto simp: RemoveBytesTxWindow_def unat_sub_if' word_less_nat_alt word_le_nat_alt)

end
