(* ===== verification/Hosts_File.thy ===== *)
theory Hosts_File
  imports Apf
begin

text \<open>
  The maintenance of the entry for the managed host in the hosts file (\<^verbatim>\<open>Protocol::_handleFQDNChange\<close>,
  \<^verbatim>\<open>_updateIPFQDN\<close>). The file is its bytes, \<^term>\<open>None\<close> when it cannot be opened. The loop over the lines
  leaves the stream failed, so that the seek and the read that follow do nothing and \<^verbatim>\<open>lastChar\<close> keeps the
  indeterminate value it was declared with: it is the argument \<open>junk\<close>.
\<close>

definition newline :: u8 where "newline = 10"

text \<open>The lines \<^verbatim>\<open>std::getline\<close> delivers.\<close>

fun getlines_from :: "bytes \<Rightarrow> bytes \<Rightarrow> bytes list" where
  "getlines_from acc [] = (if acc = [] then [] else [acc])"
| "getlines_from acc (b # bs) = (if b = newline then acc # getlines_from [] bs else getlines_from (acc @ [b]) bs)"

definition getlines :: "bytes \<Rightarrow> bytes list" where
  "getlines s = getlines_from [] s"

definition sig :: bytes where "sig = str ''# LMS GENERATED LINE''"
definition host_prefix :: bytes where "host_prefix = str ''127.0.0.1       ''"

definition contains :: "bytes \<Rightarrow> bytes \<Rightarrow> bool" where
  "contains s pat = list_ex (\<lambda>i. take (length pat) (drop i s) = pat) [0..<Suc (length s)]"

definition isspace :: "u8 \<Rightarrow> bool" where
  "isspace c \<longleftrightarrow> c = 32 \<or> (9 \<le> c \<and> c \<le> 13)"

text \<open>\<^verbatim>\<open>sscanf(line, "127.0.0.1       %256s #", oldFqdn) == 1\<close>: the literal part, any white space, then a
  word of at most 256 bytes.\<close>

definition scan_fqdn :: "bytes \<Rightarrow> bytes option" where
  "scan_fqdn line =
     (let s = takeWhile (\<lambda>b. b \<noteq> 0) line; lit = str ''127.0.0.1'' in
      if take (length lit) s \<noteq> lit then None
      else let word = take 256 (takeWhile (\<lambda>b. \<not> isspace b) (dropWhile isspace (drop (length lit) s)))
        in if word = [] then None else Some word)"

text \<open>One line: the lines kept, whether an entry of the service was seen, and whether it names \<open>fqdn\<close>.\<close>

definition host_line :: "bytes \<Rightarrow> bytes \<Rightarrow> bytes list \<times> bool \<times> bool \<Rightarrow> bytes list \<times> bool \<times> bool" where
  "host_line fqdn line st = (case st of (kept, hasOldFqdn, hasFqdn) \<Rightarrow>
     if \<not> contains line sig then (kept @ [line], hasOldFqdn, hasFqdn)
     else (case scan_fqdn line of
         None \<Rightarrow> (kept @ [line], hasOldFqdn, hasFqdn)
       | Some oldFqdn \<Rightarrow>
           if take 256 fqdn = take 256 oldFqdn then (kept @ [line], True, True) else (kept, True, hasFqdn)))"

definition put_lines :: "bytes list \<Rightarrow> bytes" where
  "put_lines ls = concat (map (\<lambda>l. l @ [newline]) ls)"

definition host_entry :: "bytes \<Rightarrow> bytes" where
  "host_entry fqdn = host_prefix @ fqdn @ [32] @ sig"

text \<open>The result: the return value, what the file holds afterwards, whether the update was written. \<open>fqdn\<close> is
  a C string. \<open>write_ok\<close> tells whether the file could be opened for writing.\<close>

definition handleFQDNChange :: "bytes \<Rightarrow> bytes option \<Rightarrow> u8 \<Rightarrow> bool \<Rightarrow> int \<times> bytes option \<times> bool" where
  "handleFQDNChange fqdn hosts junk write_ok = (case hosts of
     None \<Rightarrow> (- 1, hosts, False)
   | Some s \<Rightarrow>
       (case foldl (\<lambda>st l. host_line fqdn l st) ([], False, False) (getlines s) of (kept, hasOldFqdn, hasFqdn) \<Rightarrow>
          if hasFqdn \<or> (\<not> hasOldFqdn \<and> fqdn = []) then (0, hosts, False)
          else
            let tmp = put_lines kept @ (if junk \<noteq> newline then [newline] else []) @
                  (if fqdn \<noteq> [] then host_entry fqdn @ [newline] else [])
            in if write_ok then (0, Some tmp, True) else (- 1, hosts, False)))"

text \<open>\<^verbatim>\<open>_updateIPFQDN\<close>: \<open>localName\<close> is the host's own name, \<^term>\<open>None\<close> when it could not be found. The result is
  the return value, the name recorded, the file, and whether it was written.\<close>

definition c_string :: "bytes \<Rightarrow> bytes" where
  "c_string s = takeWhile (\<lambda>b. b \<noteq> 0) s"

definition same_name :: "bytes \<Rightarrow> bytes \<Rightarrow> bool" where
  "same_name a b \<longleftrightarrow> map tolower (c_string a) = map tolower (c_string b)"

definition updateIPFQDN ::
  "bytes \<Rightarrow> bytes option \<Rightarrow> bytes \<Rightarrow> bytes option \<Rightarrow> u8 \<Rightarrow> bool \<Rightarrow> int \<times> bytes \<times> bytes option \<times> bool" where
  "updateIPFQDN amtFQDN localName fqdn hosts junk write_ok =
     (if fqdn \<noteq> amtFQDN then
        (let name = (case localName of None \<Rightarrow> [] | Some n \<Rightarrow> take (length fqdn) n);
             target = (if localName = None \<or> length fqdn \<noteq> length name \<or> \<not> same_name fqdn name then c_string fqdn else []);
             (res, hosts', written) = handleFQDNChange target hosts junk write_ok
         in if res < 0 then (- 1, amtFQDN, hosts', written) else (0, fqdn, hosts', written))
      else (0, fqdn, hosts, False))"

subsection \<open>Lines\<close>

lemma getlines_put: "\<forall>l\<in>set ls. newline \<notin> set l \<Longrightarrow> getlines (put_lines ls @ s) = ls @ getlines s"
proof -
  have split: "newline \<notin> set l \<Longrightarrow> getlines_from acc (l @ newline # s) = (acc @ l) # getlines_from [] s" for acc l s
    by (induction l arbitrary: acc) auto
  show "\<forall>l\<in>set ls. newline \<notin> set l \<Longrightarrow> getlines (put_lines ls @ s) = ls @ getlines s"
    using split [of _ "[]"] by (induction ls) (simp_all add: getlines_def put_lines_def)
qed

lemma getlines_clean: "l \<in> set (getlines s) \<Longrightarrow> newline \<notin> set l"
proof -
  have "newline \<notin> set acc \<Longrightarrow> l \<in> set (getlines_from acc s) \<Longrightarrow> newline \<notin> set l" for acc
    by (induction acc s rule: getlines_from.induct) (auto split: if_splits)
  from this [of "[]"] show "l \<in> set (getlines s) \<Longrightarrow> newline \<notin> set l"
    by (simp add: getlines_def)
qed

lemma getlines_one: "newline \<notin> set l \<Longrightarrow> l \<noteq> [] \<Longrightarrow> getlines (l @ [newline]) = [l]"
  using getlines_put [of "[l]" "[]"] by (simp add: put_lines_def getlines_def)

text \<open>The lines the update keeps, as a filter.\<close>

definition lms_line :: "bytes \<Rightarrow> bool" where
  "lms_line l \<longleftrightarrow> contains l sig \<and> scan_fqdn l \<noteq> None"

definition names :: "bytes \<Rightarrow> bytes \<Rightarrow> bool" where
  "names fqdn l \<longleftrightarrow> contains l sig \<and>
     (case scan_fqdn l of None \<Rightarrow> False | Some old \<Rightarrow> take 256 fqdn = take 256 old)"

lemma host_lines:
  "foldl (\<lambda>st l. host_line fqdn l st) (kept, old, has) ls =
    (kept @ filter (\<lambda>l. lms_line l \<longrightarrow> names fqdn l) ls, old \<or> list_ex lms_line ls, has \<or> list_ex (names fqdn) ls)"
proof (induction ls arbitrary: kept old has)
  case (Cons l ls)
  then show ?case
    by (cases "scan_fqdn l") (auto simp: host_line_def lms_line_def names_def)
qed simp

lemma contains_append: "contains (a @ pat) pat"
  unfolding contains_def list_ex_iff by (intro bexI [of _ "length a"]) auto

definition plain_name :: "bytes \<Rightarrow> bool" where
  "plain_name fqdn \<longleftrightarrow> fqdn \<noteq> [] \<and> (\<forall>b\<in>set fqdn. b \<noteq> 0 \<and> \<not> isspace b)"

lemma scan_entry:
  assumes "plain_name fqdn"
  shows "scan_fqdn (host_entry fqdn) = Some (take 256 fqdn)"
proof -
  define lit where "lit = str ''127.0.0.1''"
  have p: "host_prefix = lit @ replicate 7 32" "\<forall>b\<in>set host_prefix. b \<noteq> 0"
    unfolding lit_def by code_simp+
  have s0: "\<forall>b\<in>set sig. b \<noteq> 0"
    by code_simp
  have nz: "takeWhile (\<lambda>b. b \<noteq> 0) (host_entry fqdn) = host_entry fqdn"
    unfolding takeWhile_eq_all_conv using assms p(2) s0 by (auto simp: host_entry_def plain_name_def)
  have ne: "fqdn \<noteq> []"
    using assms by (simp add: plain_name_def)
  have sp: "isspace 32" "\<forall>c\<in>set fqdn. \<not> isspace c"
    using assms by (auto simp: isspace_def plain_name_def)
  have "dropWhile isspace (replicate 7 32 @ fqdn @ [32] @ sig) = fqdn @ [32] @ sig"
    using sp ne by (cases fqdn) (simp_all add: eval_nat_numeral)
  moreover have "takeWhile (\<lambda>b. \<not> isspace b) (fqdn @ [32] @ sig) = fqdn"
    using sp by (simp add: takeWhile_append)
  moreover have e: "host_entry fqdn = lit @ replicate 7 32 @ fqdn @ [32] @ sig"
    by (simp add: host_entry_def p(1))
  ultimately show ?thesis
    using ne unfolding scan_fqdn_def Let_def nz lit_def [symmetric] unfolding e
    by (simp del: append_Cons)
qed

lemma entry_clean: "plain_name fqdn \<Longrightarrow> newline \<notin> set (host_entry fqdn)"
proof -
  have "newline \<notin> set host_prefix" "newline \<notin> set sig" by code_simp+
  then show "plain_name fqdn \<Longrightarrow> newline \<notin> set (host_entry fqdn)"
    by (auto simp: host_entry_def plain_name_def isspace_def newline_def)
qed

lemma entry_names: "plain_name fqdn \<Longrightarrow> names fqdn (host_entry fqdn)"
  using scan_entry [of fqdn] contains_append [of "host_prefix @ fqdn @ [32]"]
  by (simp add: names_def host_entry_def)

lemma named_unchanged:
  "list_ex (names fqdn) (getlines s) \<Longrightarrow> handleFQDNChange fqdn (Some s) junk w = (0, Some s, False)"
  by (simp add: handleFQDNChange_def host_lines)

subsection \<open>Properties\<close>

text \<open>C17. An update of the hosts file keeps every line that is not an entry of the service, in order, drops the
  entries it finds, and ends with one entry for the new name; a second update with the same name changes
  nothing. An empty line comes in between whenever the byte \<open>junk\<close>, which the code never sets, is not a
  newline, however the old file ended.\<close>

theorem hosts_update_correct:
  assumes "plain_name fqdn" and "list_ex (names fqdn) (getlines s) = False"
  shows "\<exists>s'. handleFQDNChange fqdn (Some s) junk True = (0, Some s', True)
    \<and> getlines s' = filter (\<lambda>l. \<not> lms_line l) (getlines s) @ (if junk \<noteq> newline then [[]] else []) @ [host_entry fqdn]
    \<and> handleFQDNChange fqdn (Some s') junk' w = (0, Some s', False)"
proof -
  let ?kept = "filter (\<lambda>l. \<not> lms_line l) (getlines s)"
  let ?blank = "if junk \<noteq> newline then [[]] else [] :: bytes list"
  let ?s' = "put_lines (?kept @ ?blank @ [host_entry fqdn])"
  have f: "filter (\<lambda>l. lms_line l \<longrightarrow> names fqdn l) (getlines s) = ?kept"
    using assms(2) by (intro filter_cong) (auto simp: list_ex_iff)
  have ne: "fqdn \<noteq> []"
    using assms(1) by (simp add: plain_name_def)
  have "handleFQDNChange fqdn (Some s) junk True = (0, Some ?s', True)"
    using assms(2) ne by (simp add: handleFQDNChange_def host_lines f put_lines_def Let_def)
  moreover have lines: "getlines ?s' = ?kept @ ?blank @ [host_entry fqdn]"
  proof -
    have "\<forall>l\<in>set (?kept @ ?blank @ [host_entry fqdn]). newline \<notin> set l"
      using getlines_clean [of _ s] entry_clean [OF assms(1)] by auto
    from getlines_put [OF this, of "[]"] show ?thesis by (simp add: getlines_def)
  qed
  moreover have "handleFQDNChange fqdn (Some ?s') junk' w = (0, Some ?s', False)"
    by (rule named_unchanged) (use entry_names [OF assms(1)] lines in \<open>simp add: list_ex_iff\<close>)
  ultimately show ?thesis by blast
qed

lemma hosts_update_correct_witness:
  "\<exists>s'. handleFQDNChange (str ''amt'') (Some (str ''::1 a'' @ [10])) 0 True = (0, Some s', True)
    \<and> getlines s' = [str ''::1 a'', [], host_entry (str ''amt'')]"
proof -
  have "plain_name (str ''amt'')" "list_ex (names (str ''amt'')) (getlines (str ''::1 a'' @ [10])) = False"
    "filter (\<lambda>l. \<not> lms_line l) (getlines (str ''::1 a'' @ [10])) = [str ''::1 a'']"
    by code_simp+
  with hosts_update_correct [of "str ''amt''" "str ''::1 a'' @ [10]" 0] show ?thesis
    by (fastforce simp: newline_def)
qed

end
