(* ===== verification/Protocol_State.thy ===== *)
theory Protocol_State
  imports Channel Address Hosts_File
begin

text \<open>
  The state of the port forwarding protocol (\<^verbatim>\<open>Protocol.h\<close>), the creation of sockets, and the operations the
  message handlers share (\<^verbatim>\<open>Protocol.cpp\<close>). Port forwarding requests are allocated in \<open>requests\<close>; a use of a
  pointer that is not allocated there, or a second \<^verbatim>\<open>delete\<close>, is \<^term>\<open>None\<close>. What the program does to the
  world outside (sockets closed and written to, log entries, events) is recorded in \<open>effects\<close>.
\<close>

datatype VERSION_HANDSHAKING = NOT_INITIATED | INITIATED | AGREED
datatype SERVICE_STATUS = NOT_STARTED | STARTED

datatype effect =
    Socket_closed SOCKET
  | Socket_sent SOCKET bytes
  | Udp_sent SOCKET bytes
  | Signalled
  | Log_wrn bytes
  | Log_dbg bytes
  | Published GMS_AlertIndication
  | Hosts_written bytes
  | Enterprise_access u8 bytes bool

record protocol =
  lme :: lme_connection
  sockets_active :: bool
  openPorts :: "(u32, addr list) std_map"
  openChannels :: "(u32, channel) std_map"
  requests :: "(addr, port_forward_request) std_map"
  next_request :: addr
  rxSocketBufferSize :: nat
  AMTDNSSuffixes :: "bytes list"
  remoteAccessEnabledInAMT :: bool
  remoteAccessCurrentlyPossible :: bool
  handshakingStatus :: VERSION_HANDSHAKING
  pfwdService :: SERVICE_STATUS
  AmtProtVersion :: "u32 \<times> u32"
  AMTFQDN :: bytes
  OutHostsFileLog :: bool
  failureReported :: "(u32, bool) std_map"
  prot_clientNotFound :: bool
  effects :: "effect list"

definition Protocol :: "nat \<Rightarrow> protocol" where
  "Protocol bufsize = \<lparr>lme = LMEConnection bufsize, sockets_active = False, openPorts = [], openChannels = [],
     requests = [], next_request = 1, rxSocketBufferSize = 0, AMTDNSSuffixes = [], remoteAccessEnabledInAMT = False,
     remoteAccessCurrentlyPossible = False, handshakingStatus = NOT_INITIATED, pfwdService = NOT_STARTED,
     AmtProtVersion = (0, 0), AMTFQDN = [], OutHostsFileLog = True, failureReported = [],
     prot_clientNotFound = False, effects = []\<rparr>"

definition effect_out :: "effect \<Rightarrow> protocol \<Rightarrow> protocol" where
  "effect_out e p = p\<lparr>effects := effects p @ [e]\<rparr>"

definition on_lme :: "(lme_connection \<Rightarrow> bool \<times> lme_connection) \<Rightarrow> protocol \<Rightarrow> protocol" where
  "on_lme f p = p\<lparr>lme := snd (f (lme p))\<rparr>"

definition signalSelect :: "protocol \<Rightarrow> protocol" where
  "signalSelect p = effect_out Signalled p"

definition SignalSelect :: "protocol \<Rightarrow> protocol" where
  "SignalSelect p = (if sockets_active p then signalSelect p else p)"

subsection \<open>Sockets\<close>

definition closeSocket :: "SOCKET \<Rightarrow> protocol \<Rightarrow> protocol" where
  "closeSocket s p = (if s = INVALID_SOCKET then p else effect_out (Socket_closed s) p)"

definition closeSockets :: "SOCKET list \<Rightarrow> protocol \<Rightarrow> protocol" where
  "closeSockets ss p = fold closeSocket ss p"

definition CreateSockets :: "bool \<Rightarrow> protocol \<Rightarrow> bool \<times> protocol" where
  "CreateSockets pipe_ok p = (pipe_ok, p\<lparr>sockets_active := pipe_ok\<rparr>)"

definition DestroySockets :: "protocol \<Rightarrow> protocol" where
  "DestroySockets p = p\<lparr>sockets_active := False\<rparr>"

datatype SOCKET_STATUS = ACTIVE | NOT_CREATED | LINGER_ERROR | NOT_BINDED | NOT_EXCLUSIVE_ADDRESS | NOT_LISTENED
  | CONDITIONAL_ACCEPT_ERROR | CANT_REUSE_ADDRESS | NO_IPV6_V6ONLY

text \<open>What the system calls on one resolved address give: the socket, the two options, and what follows.\<close>

record sock_attempt =
  sa_socket :: SOCKET
  sa_reuse :: bool
  sa_inet6 :: bool
  sa_v6only :: bool
  sa_ready :: bool
  sa_open :: bool

definition setSockOptions :: "sock_attempt \<Rightarrow> SOCKET_STATUS \<Rightarrow> bool \<times> SOCKET_STATUS" where
  "setSockOptions a st =
     (if \<not> sa_reuse a then (False, CANT_REUSE_ADDRESS)
      else if \<not> sa_inet6 a then (True, st)
      else if \<not> sa_v6only a then (False, NO_IPV6_V6ONLY)
      else (True, st))"

definition createSocket :: "sock_attempt \<Rightarrow> SOCKET_STATUS \<Rightarrow> protocol \<Rightarrow> (SOCKET \<times> SOCKET_STATUS) \<times> protocol" where
  "createSocket a st p =
     (if sa_socket a = INVALID_SOCKET then ((INVALID_SOCKET, NOT_CREATED), p)
      else case setSockOptions a st of
          (False, st) \<Rightarrow> ((INVALID_SOCKET, st), closeSocket (sa_socket a) p)
        | (True, st) \<Rightarrow> ((sa_socket a, st), p))"

text \<open>The loop over the addresses to listen on (\<open>sa_ready\<close>: bound, \<open>sa_open\<close>: listening); the first error
  closes what was opened.\<close>

fun server_loop ::
  "sock_attempt list \<Rightarrow> SOCKET list \<Rightarrow> SOCKET_STATUS \<Rightarrow> protocol \<Rightarrow> (SOCKET list \<times> SOCKET_STATUS) \<times> protocol" where
  "server_loop [] vs st p = ((vs, if vs \<noteq> [] then ACTIVE else st), p)"
| "server_loop (a # as) vs st p =
     (case createSocket a st p of ((s, st), p) \<Rightarrow>
        if s = INVALID_SOCKET then (([], st), closeSockets vs p)
        else if \<not> sa_ready a then (([], NOT_BINDED), closeSockets vs (closeSocket s p))
        else if \<not> sa_open a then (([], NOT_LISTENED), closeSockets vs (closeSocket s p))
        else server_loop as (vs @ [s]) ACTIVE p)"

definition createServerSocket ::
  "sock_attempt list option \<Rightarrow> protocol \<Rightarrow> (SOCKET list \<times> SOCKET_STATUS) \<times> protocol" where
  "createServerSocket addrs p = (case addrs of
     None \<Rightarrow> (([], NOT_CREATED), p)
   | Some as \<Rightarrow> server_loop as [] NOT_CREATED p)"

text \<open>\<^verbatim>\<open>_connect\<close> with no time-out, as its callers use it (\<open>sa_ready\<close>: the local address resolved, \<open>sa_open\<close>:
  connected).\<close>

fun connect_loop :: "sock_attempt list \<Rightarrow> SOCKET \<Rightarrow> protocol \<Rightarrow> SOCKET \<times> protocol" where
  "connect_loop [] s p = (s, p)"
| "connect_loop (a # as) s p =
     (if \<not> sa_ready a then connect_loop as s p
      else case createSocket a ACTIVE p of ((s, _), p) \<Rightarrow>
        if s = INVALID_SOCKET then connect_loop as s p
        else if \<not> sa_open a then connect_loop as INVALID_SOCKET (closeSocket s p)
        else (s, p))"

definition connect :: "sock_attempt list \<Rightarrow> protocol \<Rightarrow> SOCKET \<times> protocol" where
  "connect addrs p = connect_loop addrs INVALID_SOCKET p"

subsection \<open>Requests\<close>

definition get_request :: "addr \<Rightarrow> protocol \<Rightarrow> port_forward_request option" where
  "get_request r p = map_of (requests p) r"

definition set_request :: "addr \<Rightarrow> port_forward_request \<Rightarrow> protocol \<Rightarrow> protocol" where
  "set_request r q p = p\<lparr>requests := map_put r q (requests p)\<rparr>"

definition alloc_request :: "port_forward_request \<Rightarrow> protocol \<Rightarrow> addr \<times> protocol" where
  "alloc_request q p =
     (next_request p, p\<lparr>requests := map_put (next_request p) q (requests p), next_request := next_request p + 1\<rparr>)"

definition delete_request :: "addr \<Rightarrow> protocol \<Rightarrow> protocol option" where
  "delete_request r p = do { _ \<leftarrow> get_request r p; Some (p\<lparr>requests := map_erase r (requests p)\<rparr>) }"

definition put_channel :: "u32 \<Rightarrow> channel \<Rightarrow> protocol \<Rightarrow> protocol" where
  "put_channel k c p = p\<lparr>openChannels := map_put k c (openChannels p)\<rparr>"

definition erase_channel :: "u32 \<Rightarrow> protocol \<Rightarrow> protocol" where
  "erase_channel k p = p\<lparr>openChannels := map_erase k (openChannels p)\<rparr>"

text \<open>\<^verbatim>\<open>Deinit\<close>, in its three critical sections.\<close>

definition deinit_lme :: "protocol \<Rightarrow> protocol" where
  "deinit_lme p = p\<lparr>lme := fst (lme_Deinit False (lme p)), remoteAccessEnabledInAMT := False,
     remoteAccessCurrentlyPossible := False\<rparr>"

definition deinit_channels :: "protocol \<Rightarrow> protocol" where
  "deinit_channels p = (closeSockets (map (\<lambda>(k, c). socket c) (openChannels p)) p)\<lparr>openChannels := []\<rparr>"

definition deinit_port :: "addr list \<Rightarrow> protocol \<Rightarrow> protocol option" where
  "deinit_port rs p = (case rs of
     [] \<Rightarrow> Some p
   | r # _ \<Rightarrow> do {
       q \<leftarrow> get_request r p;
       foldM delete_request rs (closeSockets (listeningSockets q) p) })"

definition deinit_ports :: "protocol \<Rightarrow> protocol option" where
  "deinit_ports p = do {
     p \<leftarrow> foldM deinit_port (map snd (openPorts p)) p;
     Some (p\<lparr>openPorts := []\<rparr>) }"

definition deinit_rest :: "protocol \<Rightarrow> protocol" where
  "deinit_rest p = p\<lparr>rxSocketBufferSize := 0, sockets_active := False, handshakingStatus := NOT_INITIATED,
     pfwdService := NOT_STARTED, AmtProtVersion := (0, 0)\<rparr>"

definition prot_Deinit :: "protocol \<Rightarrow> protocol option" where
  "prot_Deinit p = do {
     p \<leftarrow> deinit_ports (deinit_channels (deinit_lme p));
     Some (deinit_rest p) }"

text \<open>\<^verbatim>\<open>_lme.Disconnect(reason); Deinit();\<close>\<close>

definition drop_connection :: "heci_send \<Rightarrow> u32 \<Rightarrow> protocol \<Rightarrow> protocol option" where
  "drop_connection hs reason p = prot_Deinit (on_lme (lme_Disconnect hs reason) p)"

definition closePortForwardRequest :: "addr \<Rightarrow> protocol \<Rightarrow> protocol option" where
  "closePortForwardRequest r p = do {
     q \<leftarrow> get_request r p;
     case map_of (openPorts p) (pf_port q) of
       None \<Rightarrow> Some p
     | Some rs \<Rightarrow>
         if r \<notin> set rs then Some p
         else if pf_status q \<noteq> NOT_ACTIVE then Some p
         else do {
           let serverSockets = listeningSockets q;
           p \<leftarrow> delete_request r p;
           let rs = remove1 r rs;
           if rs = [] then
             (let p = closeSockets serverSockets p in Some (p\<lparr>openPorts := map_erase (pf_port q) (openPorts p)\<rparr>))
           else Some (p\<lparr>openPorts := map_put (pf_port q) rs (openPorts p)\<rparr>) } }"

text \<open>Which messages need what before they are handled.\<close>

datatype flow = Needs_version | Needs_service | Not_allowed

definition message_flow :: "lme_message \<Rightarrow> flow" where
  "message_flow m = (case m of
     Service_request_msg _ \<Rightarrow> Needs_version
   | Userauth_request_msg _ _ _ _ \<Rightarrow> Needs_version
   | Disconnect_msg _ \<Rightarrow> Not_allowed
   | Protocol_version_msg _ _ _ \<Rightarrow> Not_allowed
   | _ \<Rightarrow> Needs_service)"

definition checkProtocolFlow :: "heci_send \<Rightarrow> lme_message \<Rightarrow> protocol \<Rightarrow> (bool \<times> protocol) option" where
  "checkProtocolFlow hs m p = (case message_flow m of
     Needs_version \<Rightarrow>
       if handshakingStatus p \<noteq> AGREED
       then do { p \<leftarrow> drop_connection hs APF_DISCONNECT_PROTOCOL_ERROR p; Some (False, p) }
       else Some (True, p)
   | Needs_service \<Rightarrow>
       if handshakingStatus p \<noteq> AGREED \<or> pfwdService p \<noteq> STARTED
       then do { p \<leftarrow> drop_connection hs APF_DISCONNECT_PROTOCOL_ERROR p; Some (False, p) }
       else Some (True, p)
   | Not_allowed \<Rightarrow> Some (False, p))"

definition isRemoteAPFAddress :: "bytes \<Rightarrow> bool" where
  "isRemoteAPFAddress addr \<longleftrightarrow> addr = str ''0.0.0.0'' \<or> addr = str ''::''"

text \<open>\<^verbatim>\<open>_remoteTunnelExist\<close>: the inner loop ends at the first request that is not local, the outer does not.\<close>

fun any_remote :: "addr list \<Rightarrow> protocol \<Rightarrow> bool option" where
  "any_remote [] p = Some False"
| "any_remote (r # rs) p = do { q \<leftarrow> get_request r p; if \<not> pf_local q then Some True else any_remote rs p }"

definition remoteTunnelExist :: "protocol \<Rightarrow> bool option" where
  "remoteTunnelExist p =
     foldM (\<lambda>rs found. do { remote \<leftarrow> any_remote rs p; Some (found \<or> remote) }) (map snd (openPorts p)) False"

definition checkRemoteAccessStatus :: "protocol \<Rightarrow> protocol option" where
  "checkRemoteAccessStatus p = do {
     exists \<leftarrow> remoteTunnelExist p;
     Some (if \<not> exists then p\<lparr>remoteAccessEnabledInAMT := False\<rparr> else p) }"

definition VersionCompare :: "u32 \<Rightarrow> u32 \<Rightarrow> u32 \<Rightarrow> u32 \<Rightarrow> int" where
  "VersionCompare fMajor fMinor sMajor sMinor =
     (let diff = sint (fMajor - sMajor) in if diff \<noteq> 0 then diff else sint (fMinor - sMinor))"

end
