(* ===== verification/Protocol_Handlers.thy ===== *)
theory Protocol_Handlers
  imports Protocol_State
begin

text \<open>
  The messages of the management engine and what the protocol does with them (\<^verbatim>\<open>Protocol::_LmeReceive\<close>), with
  the remote access bookkeeping they trigger. What the system and the driver answer during one message
  is the record \<open>os\<close>; \<open>resolve\<close> gives the outcome of connecting to each address a name resolves to, at the
  sixteen bits of the port that \<^verbatim>\<open>htons\<close> keeps.
\<close>

datatype access_reply = Access_ok | Access_error nat | Access_exception

record os =
  heci :: heci_send
  time_now :: bytes
  resolve :: "bytes \<Rightarrow> 16 word \<Rightarrow> sock_attempt list option"
  listen_addrs :: "u32 \<Rightarrow> sock_attempt list option"
  local_socket :: SOCKET
  send_result :: "SOCKET \<Rightarrow> bytes \<Rightarrow> int"
  local_name :: "bytes option"
  hosts_file :: "bytes option"
  hosts_junk :: u8
  hosts_writable :: bool
  dns_reply :: "bytes option"
  local_suffixes :: SuffixMap
  access_answer :: access_reply

subsection \<open>Names and remote access\<close>

text \<open>The suffixes in the reply of the firmware, each ended by a zero byte; a piece without one is dropped.\<close>

fun split_suffixes :: "bytes \<Rightarrow> bytes \<Rightarrow> bytes list" where
  "split_suffixes ss [] = []"
| "split_suffixes ss (c # cs) = (if c = 0 then ss # split_suffixes [] cs else split_suffixes (ss @ [c]) cs)"

definition PT_STATUS_REMOTE_ACCESS_GRANTED_WITHOUT_DDNS :: nat where "PT_STATUS_REMOTE_ACCESS_GRANTED_WITHOUT_DDNS = 0x0202"
definition PT_STATUS_REMOTE_ACCESS_GRANTED_WITH_DDNS :: nat where "PT_STATUS_REMOTE_ACCESS_GRANTED_WITH_DDNS = 0x0203"

definition access_granted :: "access_reply \<Rightarrow> bool" where
  "access_granted r = (case r of
     Access_ok \<Rightarrow> True
   | Access_error e \<Rightarrow> e = PT_STATUS_REMOTE_ACCESS_GRANTED_WITHOUT_DDNS \<or> e = PT_STATUS_REMOTE_ACCESS_GRANTED_WITH_DDNS
   | Access_exception \<Rightarrow> False)"

text \<open>The search for a shared suffix: whether there is one, and the last IPv4 address that has one.\<close>

definition shared_suffix :: "bytes list \<Rightarrow> SuffixMap \<Rightarrow> bool \<times> sockaddr_storage option" where
  "shared_suffix amt m = foldl (\<lambda>(raccess, ip) (a, suffix).
     if list_ex (\<lambda>s. CompareSuffix s suffix) amt
     then (True, if ss_family a = AF_INET then Some a else ip) else (raccess, ip)) (False, None) m"

definition activate_pending :: "addr list \<Rightarrow> protocol \<Rightarrow> protocol option" where
  "activate_pending rs p = foldM (\<lambda>r p. do {
     q \<leftarrow> get_request r p;
     Some (if pf_status q = PENDING_REQUEST then set_request r (q\<lparr>pf_status := LISTENING\<rparr>) p else p) }) rs p"

definition host_ip :: "sockaddr_storage option \<Rightarrow> bytes" where
  "host_ip ip = (let a = (case ip of None \<Rightarrow> 0 | Some a \<Rightarrow> sin_addr a)
     in [ucast a, ucast (drop_bit 8 a), ucast (drop_bit 16 a), ucast (drop_bit 24 a)] @ replicate 12 0)"

definition updateEnterpriseAccessStatus :: "access_reply \<Rightarrow> SuffixMap \<Rightarrow> bool \<Rightarrow> protocol \<Rightarrow> protocol option" where
  "updateEnterpriseAccessStatus reply localDNSSuffixes sendAnyWay p =
     (let (raccess, localIp) = shared_suffix (AMTDNSSuffixes p) localDNSSuffixes in
      if \<not> sendAnyWay \<and> raccess = remoteAccessCurrentlyPossible p then Some p
      else do {
        let p = p\<lparr>remoteAccessCurrentlyPossible := raccess\<rparr>;
        p \<leftarrow> (if raccess then do {
            p \<leftarrow> activate_pending (concat (map snd (openPorts p))) p;
            Some (signalSelect p) } else Some p);
        Some (effect_out (Enterprise_access 0 (host_ip localIp) raccess)
          (p\<lparr>remoteAccessEnabledInAMT := access_granted reply\<rparr>)) })"

definition checkRemoteSupport :: "os \<Rightarrow> bool \<Rightarrow> protocol \<Rightarrow> protocol option" where
  "checkRemoteSupport w requestDnsFromAmt p =
     (let p = (if requestDnsFromAmt then (case dns_reply w of
           None \<Rightarrow> p
         | Some hs \<Rightarrow> p\<lparr>AMTDNSSuffixes := split_suffixes [] hs\<rparr>) else p)
      in updateEnterpriseAccessStatus (access_answer w) (local_suffixes w) True p)"

definition prot_updateIPFQDN :: "os \<Rightarrow> bytes \<Rightarrow> protocol \<Rightarrow> protocol" where
  "prot_updateIPFQDN w fqdn p =
     (let (res, name, hosts, written) =
         updateIPFQDN (AMTFQDN p) (local_name w) fqdn (hosts_file w) (hosts_junk w) (hosts_writable w);
       p = p\<lparr>AMTFQDN := name\<rparr> in
      if res < 0 then
        (if OutHostsFileLog p
         then effect_out (Log_wrn (str ''Hosts file update failed'')) (p\<lparr>OutHostsFileLog := False\<rparr>) else p)
      else if written then
        effect_out (Log_dbg (str ''Hosts file updated''))
          (effect_out (Hosts_written (case hosts of None \<Rightarrow> [] | Some s \<Rightarrow> s)) (p\<lparr>OutHostsFileLog := True\<rparr>))
      else p)"

subsection \<open>Session messages\<close>

definition on_service_request :: "heci_send \<Rightarrow> bytes \<Rightarrow> protocol \<Rightarrow> protocol option" where
  "on_service_request hs name p =
     (if name = APF_SERVICE_AUTH \<or> name = APF_SERVICE_PFWD then
        (let p = on_lme (ServiceAccept hs name) p
         in Some (if name = APF_SERVICE_PFWD then p\<lparr>pfwdService := STARTED\<rparr> else p))
      else drop_connection hs APF_DISCONNECT_SERVICE_NOT_AVAILABLE p)"

definition on_userauth_request :: "heci_send \<Rightarrow> protocol \<Rightarrow> protocol option" where
  "on_userauth_request hs p = Some (on_lme (UserAuthSuccess hs) p)"

definition MIN_PROT_VERSION :: "u32 \<times> u32" where "MIN_PROT_VERSION = (1, 0)"
definition MAX_PROT_VERSION :: "u32 \<times> u32" where "MAX_PROT_VERSION = (1, 0)"

definition on_protocol_version :: "heci_send \<Rightarrow> u32 \<Rightarrow> u32 \<Rightarrow> protocol \<Rightarrow> protocol option" where
  "on_protocol_version hs major minor p =
     (let p = (if handshakingStatus p = INITIATED then p
           else on_lme (ProtocolVersion hs (fst MAX_PROT_VERSION) (snd MAX_PROT_VERSION) LME_REQUEST) p)
      in if VersionCompare (fst MIN_PROT_VERSION) (snd MIN_PROT_VERSION) major minor > 0
         then drop_connection hs APF_DISCONNECT_PROTOCOL_VERSION_NOT_SUPPORTED p
         else
           let version = (if VersionCompare (fst MAX_PROT_VERSION) (snd MAX_PROT_VERSION) major minor > 0
               then (major, minor) else MAX_PROT_VERSION)
           in Some (p\<lparr>AmtProtVersion := version, handshakingStatus := AGREED\<rparr>))"

subsection \<open>Forwarding requests\<close>

fun forward_exists :: "bytes \<Rightarrow> addr list \<Rightarrow> protocol \<Rightarrow> bool option" where
  "forward_exists address [] p = Some False"
| "forward_exists address (r # rs) p = do {
     q \<leftarrow> get_request r p;
     if pf_status q \<noteq> NOT_ACTIVE \<and> bindedAddress q = address then Some True else forward_exists address rs p }"

text \<open>\<^verbatim>\<open>_failureReported[port]\<close> makes the entry.\<close>

definition failure_reported :: "u32 \<Rightarrow> protocol \<Rightarrow> bool \<times> protocol" where
  "failure_reported port p = (case map_of (failureReported p) port of
     Some b \<Rightarrow> (b, p)
   | None \<Rightarrow> (False, p\<lparr>failureReported := map_put port False (failureReported p)\<rparr>))"

fun dec_digits :: "nat \<Rightarrow> nat \<Rightarrow> bytes" where
  "dec_digits 0 n = []"
| "dec_digits (Suc fuel) n = (if n < 10 then [of_nat (48 + n)] else dec_digits fuel (n div 10) @ [of_nat (48 + n mod 10)])"

definition dec :: "u32 \<Rightarrow> bytes" where
  "dec n = dec_digits 10 (unat n)"

definition forward_failed :: "heci_send \<Rightarrow> u32 \<Rightarrow> protocol \<Rightarrow> (int \<times> protocol) option" where
  "forward_failed hs port p =
     (let (reported, p) = failure_reported port p;
          p = (if \<not> reported then (effect_out (Log_wrn []) p)\<lparr>failureReported := map_put port True (failureReported p)\<rparr> else p);
          p = on_lme (TcpForwardReplyFailure hs) p
      in do { p \<leftarrow> drop_connection hs APF_DISCONNECT_PROTOCOL_ERROR p; Some (- 1, p) })"

definition forward_added :: "os \<Rightarrow> bytes \<Rightarrow> u32 \<Rightarrow> bool \<Rightarrow> SOCKET list \<Rightarrow> protocol \<Rightarrow> (int \<times> protocol) option" where
  "forward_added w address port lcl serverSockets p =
     (let (reported, p) = failure_reported port p;
          p = (if reported then effect_out (Log_dbg (str ''Listening at port '' @ dec port)) p else p);
          q = new_request address port serverSockets (if lcl then isLocalCallback else isRemoteCallback) lcl;
          (r, p) = alloc_request q p;
          rs = (case map_of (openPorts p) port of None \<Rightarrow> [] | Some rs \<Rightarrow> rs);
          p = p\<lparr>openPorts := map_put port (rs @ [r]) (openPorts p)\<rparr>;
          p = on_lme (TcpForwardReplySuccess (heci w) port) p;
          p = set_request r (q\<lparr>pf_status := (if lcl then LISTENING else PENDING_REQUEST)\<rparr>) p;
          p = p\<lparr>failureReported := map_put port False (failureReported p)\<rparr>;
          p = signalSelect p
      in if list_ex snd (failureReported p) then Some (0, p)
         else if lcl then Some (0, prot_updateIPFQDN w address p)
         else do { p \<leftarrow> checkRemoteSupport w True p; Some (0, p) })"

text \<open>The search for the same request: whether it exists, and the sockets its port listens on already.\<close>

definition forward_lookup :: "bytes \<Rightarrow> u32 \<Rightarrow> protocol \<Rightarrow> (bool \<times> SOCKET list \<times> protocol) option" where
  "forward_lookup address port p = (case map_of (openPorts p) port of
     Some [] \<Rightarrow> Some (False, [], p)
   | Some (r # rs) \<Rightarrow> do {
       q \<leftarrow> get_request r p;
       exists \<leftarrow> forward_exists address (r # rs) p;
       Some (exists, listeningSockets q, p) }
   | None \<Rightarrow> Some (False, [], p\<lparr>openPorts := map_put port [] (openPorts p)\<rparr>))"

definition on_tcp_forward :: "os \<Rightarrow> bytes \<Rightarrow> u32 \<Rightarrow> protocol \<Rightarrow> (int \<times> protocol) option" where
  "on_tcp_forward w address port p =
     (let lcl = \<not> isRemoteAPFAddress address in do {
       (exists, serverSockets, p) \<leftarrow> forward_lookup address port p;
       if exists then
         Some (0, on_lme (TcpForwardReplyFailure (heci w))
           (effect_out (Log_wrn (str ''LMS already accepted a request at '' @ address @ str '':'' @ dec port)) p))
       else if serverSockets = [] then
         (case createServerSocket (listen_addrs w port) p of ((vs, st), p) \<Rightarrow>
            if vs = [] \<or> st \<noteq> ACTIVE then forward_failed (heci w) port p
            else forward_added w address port lcl vs p)
       else forward_added w address port lcl serverSockets p })"

fun find_forward :: "bytes \<Rightarrow> addr list \<Rightarrow> protocol \<Rightarrow> addr option option" where
  "find_forward address [] p = Some None"
| "find_forward address (r # rs) p = do {
     q \<leftarrow> get_request r p;
     if bindedAddress q = address \<and> pf_status q \<noteq> NOT_ACTIVE then Some (Some r) else find_forward address rs p }"

definition on_tcp_forward_cancel :: "heci_send \<Rightarrow> bytes \<Rightarrow> u32 \<Rightarrow> protocol \<Rightarrow> protocol option" where
  "on_tcp_forward_cancel hs address port p = (case map_of (openPorts p) port of
     None \<Rightarrow> Some (on_lme (TcpForwardCancelReplyFailure hs) p)
   | Some rs \<Rightarrow> do {
       found \<leftarrow> find_forward address rs p;
       case found of
         None \<Rightarrow> Some (on_lme (TcpForwardCancelReplyFailure hs) p)
       | Some r \<Rightarrow> do {
           q \<leftarrow> get_request r p;
           let p = set_request r (q\<lparr>pf_status := NOT_ACTIVE\<rparr>) p;
           p \<leftarrow> (if channelCount q = 0 then closePortForwardRequest r p else Some p);
           p \<leftarrow> (if isRemoteAPFAddress address then checkRemoteAccessStatus p else Some p);
           Some (on_lme (TcpForwardCancelReplySuccess hs) p) } })"

definition on_udp_send_to :: "os \<Rightarrow> bytes \<Rightarrow> u32 \<Rightarrow> bytes \<Rightarrow> protocol \<Rightarrow> protocol option" where
  "on_udp_send_to w address port d p = (case resolve w address (ucast port) of
     None \<Rightarrow> Some p
   | Some addrs \<Rightarrow>
       (case connect addrs p of (s, p) \<Rightarrow>
          if s = INVALID_SOCKET then Some p
          else Some (closeSocket s (effect_out (Udp_sent s d) p))))"

subsection \<open>Channel messages\<close>

definition open_channel :: "heci_send \<Rightarrow> channel \<Rightarrow> u32 \<Rightarrow> u32 \<Rightarrow> protocol \<Rightarrow> protocol" where
  "open_channel hs c sender initialWindow p =
     (let c = (AddBytesTxWindow initialWindow c)\<lparr>recipientChannel := sender, status := OPEN\<rparr>;
          p = put_channel (senderChannel c) c p
      in signalSelect (on_lme (ChannelOpenReplaySuccess hs (recipientChannel c) (senderChannel c)) p))"

definition on_channel_open :: "os \<Rightarrow> u32 \<Rightarrow> u32 \<Rightarrow> bytes \<Rightarrow> u32 \<Rightarrow> protocol \<Rightarrow> protocol option" where
  "on_channel_open w sender initialWindow address port p =
     (let refuse = (\<lambda>p. Some (on_lme (ChannelOpenReplayFailure (heci w) sender OPEN_FAILURE_REASON_CONNECT_FAILED) p)) in
      if port \<noteq> 0 then
        (case resolve w address (ucast port) of
           None \<Rightarrow> refuse p
         | Some addrs \<Rightarrow>
             (case connect addrs p of (s, p) \<Rightarrow>
                if s = INVALID_SOCKET then refuse p
                else Some (open_channel (heci w) (new_channel SocketChannel NULL s) sender initialWindow p)))
      else if local_socket w = INVALID_SOCKET then refuse p
      else Some (open_channel (heci w) (new_channel (SoapChannel soap_handler) NULL (local_socket w)) sender initialWindow p))"

definition on_open_confirmation :: "u32 \<Rightarrow> u32 \<Rightarrow> u32 \<Rightarrow> protocol \<Rightarrow> protocol option" where
  "on_open_confirmation recipient sender initialWindow p =
     (let p = (case map_of (openChannels p) recipient of
           None \<Rightarrow> p
         | Some c \<Rightarrow> put_channel recipient
             (AddBytesTxWindow initialWindow (c\<lparr>status := OPEN, recipientChannel := sender\<rparr>)) p)
      in Some (signalSelect p))"

text \<open>The first critical section of the two messages that end a channel: the channel goes, the request's count
  is lowered, and the request is the result when the count is then zero.\<close>

definition release_channel :: "u32 \<Rightarrow> channel \<Rightarrow> protocol \<Rightarrow> (addr option \<times> protocol) option" where
  "release_channel k c p = do {
     let p = closeSocket (socket c) p;
     let r = portForwardRequest c;
     (close, p) \<leftarrow> (if r \<noteq> NULL then do {
         q \<leftarrow> get_request r p;
         let q = DecreaseChannelCount q;
         Some (if channelCount q = 0 then Some r else None, set_request r q p) } else Some (None, p));
     Some (close, erase_channel k p) }"

definition open_failure_channels :: "u32 \<Rightarrow> protocol \<Rightarrow> (addr option \<times> protocol) option" where
  "open_failure_channels recipient p = (case map_of (openChannels p) recipient of
     None \<Rightarrow> Some (None, p)
   | Some c \<Rightarrow> release_channel recipient c p)"

definition close_channels :: "heci_send \<Rightarrow> u32 \<Rightarrow> protocol \<Rightarrow> (addr option \<times> protocol) option" where
  "close_channels hs recipient p = (case map_of (openChannels p) recipient of
     None \<Rightarrow> Some (None, p)
   | Some c \<Rightarrow>
       let p = (if status c = OPEN then on_lme (lme_ChannelClose hs (recipientChannel c)) p else p)
       in release_channel recipient c p)"

definition close_request :: "addr option \<Rightarrow> protocol \<Rightarrow> protocol option" where
  "close_request r p = (case r of None \<Rightarrow> Some p | Some r \<Rightarrow> closePortForwardRequest r p)"

definition on_open_failure :: "u32 \<Rightarrow> protocol \<Rightarrow> protocol option" where
  "on_open_failure recipient p = do { (r, p) \<leftarrow> open_failure_channels recipient p; close_request r p }"

definition on_channel_close :: "heci_send \<Rightarrow> u32 \<Rightarrow> protocol \<Rightarrow> protocol option" where
  "on_channel_close hs recipient p = do { (r, p) \<leftarrow> close_channels hs recipient p; close_request r p }"

definition rx_effects :: "channel \<Rightarrow> bytes \<Rightarrow> GMS_AlertIndication list \<Rightarrow> protocol \<Rightarrow> protocol" where
  "rx_effects c d out p = (case kind c of
     SocketChannel \<Rightarrow> effect_out (Socket_sent (socket c) d) p
   | SoapChannel _ \<Rightarrow> fold (\<lambda>a. effect_out (Published a)) out p)"

definition on_channel_data :: "os \<Rightarrow> u32 \<Rightarrow> bytes \<Rightarrow> protocol \<Rightarrow> protocol option" where
  "on_channel_data w recipient d p = (case map_of (openChannels p) recipient of
     None \<Rightarrow> Some p
   | Some c \<Rightarrow>
       if status c = OPEN \<or> status c = WAITING_CLOSE then
         if unat (rxWindow c) < length d then Some p
         else
           let ((count, request_close, c), out) = ProcessRx (time_now w) (send_result w (socket c) d) d c;
               p = rx_effects c d out (put_channel recipient c p);
               p = on_lme (ChannelWindowAdjust (heci w) (recipientChannel c) (of_nat (length d))) p
           in Some (if request_close \<and> status c = OPEN
                then on_lme (lme_ChannelClose (heci w) (recipientChannel c)) (put_channel recipient (c\<lparr>status := WAITING_CLOSE\<rparr>) p)
                else p)
       else Some p)"

definition on_window_adjust :: "u32 \<Rightarrow> u32 \<Rightarrow> protocol \<Rightarrow> protocol option" where
  "on_window_adjust recipient n p = (case map_of (openChannels p) recipient of
     None \<Rightarrow> Some p
   | Some c \<Rightarrow> Some (signalSelect (put_channel recipient (AddBytesTxWindow n c) p)))"

subsection \<open>Dispatch\<close>

text \<open>How the length given with the buffer compares with the structures read from it.\<close>

datatype fit = Shorter_than_header | Shorter_than_message | Whole

definition handle_message :: "os \<Rightarrow> lme_message \<Rightarrow> protocol \<Rightarrow> (int \<times> protocol) option" where
  "handle_message w m p = (let ok = map_option (Pair 0) in case m of
     Service_request_msg name \<Rightarrow> ok (on_service_request (heci w) name p)
   | Userauth_request_msg _ _ _ _ \<Rightarrow> ok (on_userauth_request (heci w) p)
   | Tcp_forward_msg address port \<Rightarrow> on_tcp_forward w address port p
   | Tcp_forward_cancel_msg address port \<Rightarrow> ok (on_tcp_forward_cancel (heci w) address port p)
   | Udp_send_to_msg address port d \<Rightarrow> ok (on_udp_send_to w address port d p)
   | Channel_open_msg _ sender initialWindow address port \<Rightarrow> ok (on_channel_open w sender initialWindow address port p)
   | Open_confirmation_msg recipient sender initialWindow \<Rightarrow> ok (on_open_confirmation recipient sender initialWindow p)
   | Open_failure_msg recipient _ \<Rightarrow> ok (on_open_failure recipient p)
   | Channel_close_msg recipient \<Rightarrow> ok (on_channel_close (heci w) recipient p)
   | Channel_data_msg recipient d \<Rightarrow> ok (on_channel_data w recipient d p)
   | Window_adjust_msg recipient n \<Rightarrow> ok (on_window_adjust recipient n p)
   | Disconnect_msg _ \<Rightarrow> ok (prot_Deinit p)
   | Protocol_version_msg major minor _ \<Rightarrow> ok (on_protocol_version (heci w) major minor p))"

text \<open>\<^verbatim>\<open>_LmeReceive\<close>: the result has the value left in \<open>*status\<close>, which the caller sets to one.\<close>

definition LmeReceive :: "os \<Rightarrow> fit \<Rightarrow> lme_message \<Rightarrow> protocol \<Rightarrow> (int \<times> protocol) option" where
  "LmeReceive w len m p =
     (let short = (\<lambda>st p. map_option (Pair st) (drop_connection (heci w) APF_DISCONNECT_PROTOCOL_ERROR p)) in
      if len = Shorter_than_header then short 1 p
      else case message_flow m of
          Not_allowed \<Rightarrow> if len = Shorter_than_message then short 0 p else handle_message w m p
        | _ \<Rightarrow> do {
            (ok, p) \<leftarrow> checkProtocolFlow (heci w) m p;
            if \<not> ok then Some (0, p)
            else if len = Shorter_than_message then short 0 p
            else handle_message w m p })"

text \<open>One turn of the receive thread, from the bytes read to the state after the message: the result tells
  whether the thread goes on, and whether it signals that port 16992 is open.\<close>

definition AMT_NON_SECURE_PORT :: u32 where "AMT_NON_SECURE_PORT = 16992"

definition lme_thread_turn :: "os \<Rightarrow> int \<Rightarrow> bool \<Rightarrow> bytes \<Rightarrow> protocol \<Rightarrow> (bool \<times> bool \<times> protocol) option" where
  "lme_thread_turn w bytesRead cancelled rx p = do {
     t \<leftarrow> rx_turn bytesRead cancelled rx;
     case t of
       Stop_deinit \<Rightarrow> Some (False, False, SignalSelect (p\<lparr>lme := fst (lme_Deinit True (lme p))\<rparr>))
     | Stop \<Rightarrow> Some (False, False, p)
     | Again \<Rightarrow> Some (True, False, p)
     | Turn (Deliver m) \<Rightarrow> do {
         (st, p) \<leftarrow> LmeReceive w Whole m p;
         let port_ok = (case m of Tcp_forward_msg _ port \<Rightarrow> port = AMT_NON_SECURE_PORT \<and> st = 0 | _ \<Rightarrow> False);
         Some (True, port_ok, p) }
     | Turn _ \<Rightarrow> Some (True, False, p) }"

end
