(* ===== verification/Protocol_Select.thy ===== *)
theory Protocol_Select
  imports Protocol_Handlers
begin

text \<open>
  The thread that serves the sockets (\<^verbatim>\<open>Protocol::Select\<close>, \<^verbatim>\<open>_acceptConnection\<close>, \<^verbatim>\<open>_rxFromSocket\<close>) and the
  start of the protocol (\<^verbatim>\<open>Protocol::Init\<close>). The answers of \<^verbatim>\<open>accept\<close>, \<^verbatim>\<open>recv\<close> and \<^verbatim>\<open>select\<close> are arguments.
\<close>

text \<open>What \<^verbatim>\<open>accept\<close>, \<^verbatim>\<open>getpeername\<close>, \<^verbatim>\<open>getsockname\<close> and the formatting of the address give for a connection.\<close>

record accepted =
  acc_socket :: SOCKET
  acc_inet :: bool
  acc_peer :: "sockaddr_storage option"
  acc_name :: "sockaddr_storage option"
  acc_address :: bytes
  acc_port :: "16 word"

definition IsConnectionPermitted :: "SuffixMap \<Rightarrow> accepted \<Rightarrow> port_forward_request \<Rightarrow> protocol \<Rightarrow> int" where
  "IsConnectionPermitted localDNS a q p = (case pf_cb q of
     isLocalCallback \<Rightarrow> isLocal localDNS (acc_peer a)
   | isRemoteCallback \<Rightarrow> isRemote (remoteAccessEnabledInAMT p) (AMTDNSSuffixes p) localDNS (acc_name a))"

fun findFWReq_loop :: "SuffixMap \<Rightarrow> accepted \<Rightarrow> addr list \<Rightarrow> protocol \<Rightarrow> addr option option" where
  "findFWReq_loop localDNS a [] p = Some None"
| "findFWReq_loop localDNS a (r # rs) p = do {
     q \<leftarrow> get_request r p;
     if pf_status q = LISTENING \<and> IsConnectionPermitted localDNS a q p = 1 then Some (Some r)
     else findFWReq_loop localDNS a rs p }"

definition findFWReq :: "SuffixMap \<Rightarrow> accepted \<Rightarrow> u32 \<Rightarrow> protocol \<Rightarrow> addr option option" where
  "findFWReq localDNS a port p = (case map_of (openPorts p) port of
     None \<Rightarrow> Some None
   | Some rs \<Rightarrow> findFWReq_loop localDNS a rs p)"

definition acceptConnection :: "heci_send \<Rightarrow> SuffixMap \<Rightarrow> accepted \<Rightarrow> u32 \<Rightarrow> protocol \<Rightarrow> (bool \<times> protocol) option" where
  "acceptConnection hs localDNS a port p =
     (if acc_socket a = INVALID_SOCKET then Some (False, p)
      else do {
        found \<leftarrow> findFWReq localDNS a port p;
        case found of
          None \<Rightarrow> Some (False, closeSocket (acc_socket a) p)
        | Some r \<Rightarrow> do {
            q \<leftarrow> get_request r p;
            let c = new_channel SocketChannel r (acc_socket a);
            let p = set_request r (IncreaseChannelCount q) p;
            let connectedIP = (if acc_inet a then str ''127.0.0.1'' else str ''::1'');
            let address = (if pf_local q then connectedIP else takeWhile (\<lambda>b. b \<noteq> 37) (acc_address a));
            let (ok, l) = ChannelOpenForwardedRequest hs (acc_socket a) connectedIP port address (ucast (acc_port a)) (lme p);
            let p = p\<lparr>lme := l\<rparr>;
            if \<not> ok then Some (False, closeSocket (acc_socket a) p)
            else Some (True, put_channel (acc_socket a) c p) } })"

subsection \<open>Data from a socket\<close>

text \<open>The copy of the channel made under the lock.\<close>

definition rx_begin :: "SOCKET \<Rightarrow> protocol \<Rightarrow> channel option" where
  "rx_begin s p = (case map_of (openChannels p) s of
     Some c \<Rightarrow> (case kind c of SocketChannel \<Rightarrow> Some c | SoapChannel _ \<Rightarrow> None)
   | None \<Rightarrow> None)"

text \<open>\<^verbatim>\<open>recv\<close> of at most the window: the result and the bytes received.\<close>

definition rx_length :: "channel \<Rightarrow> protocol \<Rightarrow> nat" where
  "rx_length c p = min (unat (txWindow c)) (rxSocketBufferSize p)"

definition rx_forward :: "heci_send \<Rightarrow> channel \<Rightarrow> int \<Rightarrow> bytes \<Rightarrow> protocol \<Rightarrow> protocol option" where
  "rx_forward hs c res d p =
     (if res > 0 then do {
        (_, l) \<leftarrow> lme_ChannelData hs (recipientChannel c) (of_int res) d (lme p);
        Some (p\<lparr>lme := l\<rparr>) }
      else Some p)"

definition rx_end :: "heci_send \<Rightarrow> SOCKET \<Rightarrow> channel \<Rightarrow> int \<Rightarrow> protocol \<Rightarrow> protocol" where
  "rx_end hs s c res p = (case map_of (openChannels p) s of
     None \<Rightarrow> p
   | Some c' \<Rightarrow>
       if res > 0 then put_channel s (RemoveBytesTxWindow (of_int res) c') p
       else on_lme (lme_ChannelClose hs (recipientChannel c)) (put_channel s (c'\<lparr>status := WAITING_CLOSE\<rparr>) p))"

definition rxFromSocket :: "heci_send \<Rightarrow> (nat \<Rightarrow> int \<times> bytes) \<Rightarrow> SOCKET \<Rightarrow> protocol \<Rightarrow> protocol option" where
  "rxFromSocket hs recv s p = (case rx_begin s p of
     None \<Rightarrow> Some p
   | Some c \<Rightarrow>
       let (res, d) = recv (rx_length c p) in do {
         p \<leftarrow> rx_forward hs c res d p;
         Some (rx_end hs s c res p) })"

subsection \<open>Select\<close>

fun listening_of :: "(u32, addr list) std_map \<Rightarrow> protocol \<Rightarrow> (u32 \<times> SOCKET) list option" where
  "listening_of [] p = Some []"
| "listening_of ((port, rs) # m) p = (case rs of
     [] \<Rightarrow> listening_of m p
   | r # _ \<Rightarrow> do {
       q \<leftarrow> get_request r p;
       rest \<leftarrow> listening_of m p;
       Some (map (Pair port) (listeningSockets q) @ rest) })"

definition channel_sockets :: "protocol \<Rightarrow> SOCKET list" where
  "channel_sockets p = map (\<lambda>(k, c). socket c)
     (filter (\<lambda>(k, c). status c = OPEN \<and> 0 < txWindow c \<and> kind c = SocketChannel) (openChannels p))"

text \<open>The descriptors waited for: the listening ones, the channels', and the range the last loop goes over.\<close>

definition select_set :: "protocol \<Rightarrow> (SOCKET list \<times> SOCKET list) option" where
  "select_set p = do {
     ls \<leftarrow> listening_of (openPorts p) p;
     Some (map snd ls, channel_sockets p) }"

text \<open>The answers: the result, whether the signal pipe and each descriptor are ready, and what the calls on
  them then give.\<close>

record select_answer =
  sel_res :: int
  sel_signal :: bool
  sel_ready :: "SOCKET \<Rightarrow> bool"
  sel_accept :: "SOCKET \<Rightarrow> accepted"
  sel_recv :: "SOCKET \<Rightarrow> nat \<Rightarrow> int \<times> bytes"

definition accept_ready ::
  "heci_send \<Rightarrow> SuffixMap \<Rightarrow> select_answer \<Rightarrow> u32 \<times> SOCKET \<Rightarrow> int \<times> SOCKET list \<times> protocol \<Rightarrow> (int \<times> SOCKET list \<times> protocol) option" where
  "accept_ready hs localDNS a ps st = (case (ps, st) of ((port, s), (res, done, p)) \<Rightarrow>
     if sel_ready a s \<and> s \<notin> set done then do {
       (_, p) \<leftarrow> acceptConnection hs localDNS (sel_accept a s) port p;
       Some (res - 1, s # done, p) }
     else Some (res, done, p))"

definition rx_ready ::
  "heci_send \<Rightarrow> select_answer \<Rightarrow> SOCKET list \<Rightarrow> nat \<Rightarrow> int \<times> protocol \<Rightarrow> (int \<times> protocol) option" where
  "rx_ready hs a rset i st = (case st of (res, p) \<Rightarrow>
     let s = of_nat i in
     if res > 0 \<and> s \<in> set rset \<and> sel_ready a s then do {
       p \<leftarrow> rxFromSocket hs (sel_recv a s) s p;
       Some (res - 1, p) }
     else Some (res, p))"

text \<open>\<^verbatim>\<open>Select\<close>: \<open>p\<close> when the set is made, \<open>between\<close> what the other threads do while it waits.\<close>

definition Select ::
  "heci_send \<Rightarrow> SuffixMap \<Rightarrow> select_answer \<Rightarrow> (protocol \<Rightarrow> protocol) \<Rightarrow> protocol \<Rightarrow> (int \<times> protocol) option" where
  "Select hs localDNS a between p = do {
     (servers, chans) \<leftarrow> select_set p;
     let fdMin = (if chans = [] then None else Some (Min (set (map unat chans))));
     let fdCount = fold max (map unat (servers @ chans)) 0 + 1;
     let p = between p;
     if sel_res a = - 1 then Some (- 1, p)
     else if sel_res a = 0 then Some (0, p)
     else do {
       let res = sel_res a - (if sel_signal a then 1 else 0);
       ls \<leftarrow> listening_of (openPorts p) p;
       (res, done, p) \<leftarrow> foldM (accept_ready hs localDNS (a\<lparr>sel_ready := (\<lambda>s. s \<in> set (servers @ chans) \<and> sel_ready a s)\<rparr>)) ls (res, [], p);
       (_, p) \<leftarrow> (case fdMin of
           None \<Rightarrow> Some (res, p)
         | Some lo \<Rightarrow> foldM (rx_ready hs a (filter (\<lambda>s. s \<notin> set done) (servers @ chans))) [lo..<fdCount] (res, p));
       Some (1, p) } }"

subsection \<open>Start\<close>

text \<open>\<open>during\<close> is what the receive thread does while the connection waits for port 16992.\<close>

definition prot_Init ::
  "os \<Rightarrow> heci_init \<Rightarrow> (nat \<Rightarrow> u8) \<Rightarrow> bool \<Rightarrow> bool \<Rightarrow> (protocol \<Rightarrow> protocol option) \<Rightarrow> bool \<Rightarrow> bool \<Rightarrow> protocol
   \<Rightarrow> (bool \<times> protocol) option" where
  "prot_Init w hi junk spawned started during port_ok adapters_ok p = do {
     p \<leftarrow> prot_Deinit p;
     let (ok, c) = lme_Init hi junk spawned started True (lme p);
     let p = p\<lparr>lme := c\<rparr>;
     if \<not> ok then Some (False, p\<lparr>prot_clientNotFound := clientNotFound c\<rparr>)
     else do {
       p \<leftarrow> during p;
       if \<not> port_ok then
         Some (False, p\<lparr>lme := fst (lme_Deinit False (lme p)), prot_clientNotFound := clientNotFound (lme p)\<rparr>)
       else do {
         let p = (if handshakingStatus p = NOT_INITIATED
             then (on_lme (ProtocolVersion (heci w) (fst MAX_PROT_VERSION) (snd MAX_PROT_VERSION) LME_REQUEST) p)
               \<lparr>handshakingStatus := INITIATED\<rparr> else p);
         if \<not> adapters_ok then Some (False, p\<lparr>lme := fst (lme_Deinit False (lme p))\<rparr>)
         else if int (bufferSize (lme p)) - int sizeof_channel_data > 0 then do {
           let p = p\<lparr>rxSocketBufferSize := bufferSize (lme p) - sizeof_channel_data\<rparr>;
           p \<leftarrow> checkRemoteSupport w True p;
           Some (True, p) }
         else do { p \<leftarrow> prot_Deinit p; Some (False, p) } } } }"

end
