(* ===== verification/Protocol_Correct.thy ===== *)
theory Protocol_Correct
  imports Protocol_Select
begin

text \<open>
  The reference counts of the protocol: the invariant that ties the ports, the channels and the allocated
  requests together, its preservation by every operation, and what follows for the handlers.
\<close>

type_synonym store =
  "(u32, addr list) std_map \<times> (u32, channel) std_map \<times> (addr, port_forward_request) std_map \<times> addr"

definition store :: "protocol \<Rightarrow> store" where
  "store p = (openPorts p, openChannels p, requests p, next_request p)"

text \<open>The requests of a port are allocated, bear its number and share its listening sockets; an allocated
  request is in the list of its port and counts at least the channels that point to it; a channel points to
  an allocated request or to none.\<close>

definition port_ok :: "(addr, port_forward_request) std_map \<Rightarrow> u32 \<Rightarrow> addr list \<Rightarrow> bool" where
  "port_ok R port rs \<longleftrightarrow> distinct rs \<and>
     (\<exists>ss. ss \<noteq> [] \<and> (\<forall>r\<in>set rs. \<exists>q. map_of R r = Some q \<and> pf_port q = port \<and> listeningSockets q = ss))"

definition request_ok :: "(u32, addr list) std_map \<Rightarrow> (u32, channel) std_map \<Rightarrow> addr \<Rightarrow> addr \<Rightarrow> port_forward_request \<Rightarrow> bool" where
  "request_ok P C n r q \<longleftrightarrow> 0 < r \<and> r < n \<and> (\<exists>rs. map_of P (pf_port q) = Some rs \<and> r \<in> set rs)
     \<and> entries (\<lambda>c. portForwardRequest c = r) C \<le> unat (channelCount q)"

definition store_ok :: "store \<Rightarrow> bool" where
  "store_ok st = (case st of (P, C, R, n) \<Rightarrow> map_ok P \<and> map_ok C \<and> map_ok R \<and> 0 < n
     \<and> (\<forall>port rs. map_of P port = Some rs \<longrightarrow> port_ok R port rs)
     \<and> (\<forall>r q. map_of R r = Some q \<longrightarrow> request_ok P C n r q)
     \<and> (\<forall>k c. map_of C k = Some c \<longrightarrow> 0 < portForwardRequest c \<longrightarrow> (\<exists>q. map_of R (portForwardRequest c) = Some q)))"

definition prot_ok :: "protocol \<Rightarrow> bool" where
  "prot_ok p \<longleftrightarrow> store_ok (store p)"

named_theorems store_frame \<open>operations that leave the store alone\<close>

lemma store_Protocol: "prot_ok (Protocol n)"
  by (simp add: prot_ok_def store_def store_ok_def Protocol_def)

subsection \<open>The changes of the store\<close>

lemma store_okD:
  assumes "store_ok (P, C, R, n)"
  shows "map_ok P" "map_ok C" "map_ok R" "0 < n"
    and "\<And>port rs. map_of P port = Some rs \<Longrightarrow> port_ok R port rs"
    and "\<And>r q. map_of R r = Some q \<Longrightarrow> request_ok P C n r q"
    and "\<And>k c. map_of C k = Some c \<Longrightarrow> 0 < portForwardRequest c \<Longrightarrow> \<exists>q. map_of R (portForwardRequest c) = Some q"
  using assms by (auto simp: store_ok_def)

lemma store_okI:
  assumes "map_ok P" "map_ok C" "map_ok R" "0 < n"
    and "\<And>port rs. map_of P port = Some rs \<Longrightarrow> port_ok R port rs"
    and "\<And>r q. map_of R r = Some q \<Longrightarrow> request_ok P C n r q"
    and "\<And>k c. map_of C k = Some c \<Longrightarrow> 0 < portForwardRequest c \<Longrightarrow> \<exists>q. map_of R (portForwardRequest c) = Some q"
  shows "store_ok (P, C, R, n)"
  using assms by (auto simp: store_ok_def)

lemma request_pos: "store_ok (P, C, R, n) \<Longrightarrow> map_of R r = Some q \<Longrightarrow> 0 < r"
  by (auto dest!: store_okD(6) simp: request_ok_def)

lemma store_put_channel:
  assumes ok: "store_ok (P, C, R, n)" and k: "map_of C k = Some c0" "portForwardRequest c = portForwardRequest c0"
  shows "store_ok (P, map_put k c C, R, n)"
proof (rule store_okI)
  fix r q assume "map_of R r = Some q"
  from store_okD(6) [OF ok this] show "request_ok P (map_put k c C) n r q"
    using entries_put_old [OF store_okD(2) [OF ok] k(1), of "\<lambda>c. portForwardRequest c = r" c] k(2)
    by (simp add: request_ok_def)
qed (use store_okD [OF ok] k in \<open>auto split: if_splits\<close>)

lemma store_new_channel:
  assumes ok: "store_ok (P, C, R, n)" and c: "portForwardRequest c = NULL"
  shows "store_ok (P, map_put k c C, R, n)"
proof (rule store_okI)
  fix r q assume r: "map_of R r = Some q"
  from store_okD(6) [OF ok r] show "request_ok P (map_put k c C) n r q"
    using entries_put_le [OF store_okD(2) [OF ok], of "\<lambda>c. portForwardRequest c = r" k c] c request_pos [OF ok r]
    by (auto simp: request_ok_def)
qed (use store_okD [OF ok] c in \<open>auto split: if_splits\<close>)

text \<open>A request keeps its port and sockets and may count more channels; a channel is added only with the count.\<close>

lemma store_set_request:
  assumes ok: "store_ok (P, C, R, n)" and r: "map_of R r = Some q0"
    and same: "pf_port q = pf_port q0" "listeningSockets q = listeningSockets q0"
    and C': "map_ok C'" "\<And>r'. r' \<noteq> r \<Longrightarrow> entries (\<lambda>c. portForwardRequest c = r') C' \<le> entries (\<lambda>c. portForwardRequest c = r') C"
      "entries (\<lambda>c. portForwardRequest c = r) C' \<le> unat (channelCount q)"
      "\<And>k c. map_of C' k = Some c \<Longrightarrow> portForwardRequest c = NULL \<or> portForwardRequest c = r \<or> map_of C k = Some c"
  shows "store_ok (P, C', map_put r q R, n)"
proof (rule store_okI)
  fix port rs assume "map_of P port = Some rs"
  from store_okD(5) [OF ok this] obtain ss where "distinct rs" "ss \<noteq> []"
    and ss: "\<forall>r\<in>set rs. \<exists>q. map_of R r = Some q \<and> pf_port q = port \<and> listeningSockets q = ss"
    by (auto simp: port_ok_def)
  then show "port_ok (map_put r q R) port rs"
    unfolding port_ok_def using r same by (intro conjI exI [of _ ss]) auto
next
  fix r' q' assume r': "map_of (map_put r q R) r' = Some q'"
  show "request_ok P C' n r' q'"
  proof (cases "r' = r")
    case True
    with r' have "q' = q" by simp
    with True store_okD(6) [OF ok r] same C'(3) show ?thesis by (simp add: request_ok_def)
  next
    case False
    with r' have "map_of R r' = Some q'" by simp
    from store_okD(6) [OF ok this] C'(2) [OF False] show ?thesis by (auto simp: request_ok_def)
  qed
next
  fix k c assume "map_of C' k = Some c" "0 < portForwardRequest c"
  with C'(4) [of k c] store_okD(7) [OF ok, of k c] show "\<exists>q'. map_of (map_put r q R) (portForwardRequest c) = Some q'"
    by auto
qed (use store_okD [OF ok] C' in auto)

lemma store_update_request:
  assumes ok: "store_ok (P, C, R, n)" and r: "map_of R r = Some q0"
    and same: "pf_port q = pf_port q0" "listeningSockets q = listeningSockets q0" "channelCount q0 \<le> channelCount q"
  shows "store_ok (P, C, map_put r q R, n)"
  by (rule store_set_request [OF ok r]) (use same store_okD [OF ok] store_okD(6) [OF ok r] in
    \<open>auto simp: request_ok_def word_le_nat_alt\<close>)

lemma unat_count_inc: "n \<noteq> - 1 \<Longrightarrow> unat (n + 1 :: u32) = Suc (unat n)"
  using unatSuc [of n] by (simp add: add.commute eq_neg_iff_add_eq_0)

lemma store_accept:
  assumes ok: "store_ok (P, C, R, n)" and r: "map_of R r = Some q" and c: "portForwardRequest c = r"
    and q: "channelCount q \<noteq> - 1"
  shows "store_ok (P, map_put k c C, map_put r (IncreaseChannelCount q) R, n)"
proof (rule store_set_request [OF ok r])
  have m: "map_ok C" using store_okD(2) [OF ok] .
  have inc: "unat (channelCount q + 1) = Suc (unat (channelCount q))"
    using unat_count_inc [OF q] .
  have le: "entries (\<lambda>c. portForwardRequest c = r) C \<le> unat (channelCount q)"
    using store_okD(6) [OF ok r] by (simp add: request_ok_def)
  have put: "entries (\<lambda>c. portForwardRequest c = r) (map_put k c C) \<le> Suc (entries (\<lambda>c. portForwardRequest c = r) C)"
    using entries_put_le [OF m, of "\<lambda>c. portForwardRequest c = r" k c] c by simp
  show "entries (\<lambda>c. portForwardRequest c = r) (map_put k c C) \<le> unat (channelCount (IncreaseChannelCount q))"
    unfolding IncreaseChannelCount_def using le put by (simp add: inc)
  show "entries (\<lambda>c. portForwardRequest c = r') (map_put k c C) \<le> entries (\<lambda>c. portForwardRequest c = r') C" if "r' \<noteq> r" for r'
    using entries_put_le [OF m, of "\<lambda>c. portForwardRequest c = r'" k c] c that by auto
qed (use store_okD [OF ok] c in \<open>auto simp: IncreaseChannelCount_def split: if_splits\<close>)

lemma unat_decrease: "unat (channelCount (DecreaseChannelCount q)) = unat (channelCount q) - 1"
proof (cases "channelCount q = 0")
  case False
  then show ?thesis
    unfolding DecreaseChannelCount_def using unat_minus_one [OF False] by (simp add: word_gt_0)
qed (simp add: DecreaseChannelCount_def)

lemma store_release:
  assumes ok: "store_ok (P, C, R, n)" and k: "map_of C k = Some c" and r: "map_of R (portForwardRequest c) = Some q"
  shows "store_ok (P, map_erase k C, map_put (portForwardRequest c) (DecreaseChannelCount q) R, n)"
proof (rule store_set_request [OF ok r])
  have m: "map_ok C" using store_okD(2) [OF ok] .
  note e = entries_erase [OF m k]
  show "entries (\<lambda>c'. portForwardRequest c' = portForwardRequest c) (map_erase k C) \<le> unat (channelCount (DecreaseChannelCount q))"
    using e [of "\<lambda>c'. portForwardRequest c' = portForwardRequest c"] store_okD(6) [OF ok r]
    unfolding request_ok_def unat_decrease by simp linarith
  show "entries (\<lambda>c'. portForwardRequest c' = r') (map_erase k C) \<le> entries (\<lambda>c'. portForwardRequest c' = r') C" for r'
    using e [of "\<lambda>c'. portForwardRequest c' = r'"] by simp
qed (use store_okD [OF ok] in \<open>auto simp: DecreaseChannelCount_def split: if_splits\<close>)

lemma store_erase_channel:
  assumes ok: "store_ok (P, C, R, n)" and k: "map_of C k = Some c"
  shows "store_ok (P, map_erase k C, R, n)"
proof (rule store_okI)
  fix r q assume "map_of R r = Some q"
  from store_okD(6) [OF ok this] show "request_ok P (map_erase k C) n r q"
    using entries_erase [OF store_okD(2) [OF ok] k, of "\<lambda>c. portForwardRequest c = r"] by (auto simp: request_ok_def)
qed (use store_okD [OF ok] in \<open>auto split: if_splits\<close>)

lemma port_ok_other: "port_ok R port rs \<Longrightarrow> r \<notin> set rs \<Longrightarrow> port_ok (map_put r q R) port rs"
  unfolding port_ok_def by (metis fun_upd_other map_of_put)

text \<open>The last request of a port goes with the port; any other leaves a shorter list.\<close>

definition without :: "u32 \<Rightarrow> addr list \<Rightarrow> (u32, addr list) std_map \<Rightarrow> (u32, addr list) std_map" where
  "without port rs P = (if rs = [] then map_erase port P else map_put port rs P)"

lemma store_delete:
  assumes ok: "store_ok (P, C, R, n)" and r: "map_of R r = Some q"
    and P: "map_of P (pf_port q) = Some rs"
    and C: "entries (\<lambda>c. portForwardRequest c = r) C = 0"
  shows "store_ok (without (pf_port q) (remove1 r rs) P, C, map_erase r R, n)"
proof (rule store_okI)
  from store_okD(5) [OF ok P] have d: "distinct rs" by (simp add: port_ok_def)
  then have rs': "set (remove1 r rs) = set rs - {r}" by simp
  fix port rs' assume new: "map_of (without (pf_port q) (remove1 r rs) P) port = Some rs'"
  have old: "\<exists>rs0. map_of P port = Some rs0 \<and> set rs' \<subseteq> set rs0 \<and> distinct rs' \<and> r \<notin> set rs'"
  proof (cases "port = pf_port q")
    case True
    with new P d show ?thesis by (auto simp: without_def split: if_splits)
  next
    case False
    with new have p': "map_of P port = Some rs'" by (auto simp: without_def split: if_splits)
    from store_okD(5) [OF ok p'] r False have "r \<notin> set rs'" "distinct rs'" by (auto simp: port_ok_def)
    with p' show ?thesis by blast
  qed
  then obtain rs0 where rs0: "map_of P port = Some rs0" "set rs' \<subseteq> set rs0" "distinct rs'" "r \<notin> set rs'" by blast
  from store_okD(5) [OF ok rs0(1)] obtain ss where "ss \<noteq> []"
    and ss: "\<forall>r\<in>set rs0. \<exists>q. map_of R r = Some q \<and> pf_port q = port \<and> listeningSockets q = ss"
    by (auto simp: port_ok_def)
  with rs0 show "port_ok (map_erase r R) port rs'"
    unfolding port_ok_def by (intro conjI exI [of _ ss]) (auto simp: subset_iff)
next
  fix r' q' assume "map_of (map_erase r R) r' = Some q'"
  then have r': "map_of R r' = Some q'" "r' \<noteq> r" by (auto split: if_splits)
  then have "\<exists>rs'. map_of (without (pf_port q) (remove1 r rs) P) (pf_port q') = Some rs' \<and> r' \<in> set rs'"
    using store_okD(6) [OF ok r'(1)] P in_set_remove1 [OF r'(2), of rs] by (cases "remove1 r rs") (auto simp: request_ok_def without_def)
  with store_okD(6) [OF ok r'(1)] show "request_ok (without (pf_port q) (remove1 r rs) P) C n r' q'"
    by (simp add: request_ok_def)
next
  fix k c assume k: "map_of C k = Some c" "0 < portForwardRequest c"
  with entries_zero [OF C k(1)] store_okD(7) [OF ok k] show "\<exists>q. map_of (map_erase r R) (portForwardRequest c) = Some q"
    by auto
qed (use store_okD [OF ok] in \<open>auto simp: without_def\<close>)

lemma store_alloc:
  assumes ok: "store_ok (P, C, R, n)"
    and rs: "rs = (case map_of P port of None \<Rightarrow> [] | Some rs \<Rightarrow> rs)"
    and q: "pf_port q = port" "listeningSockets q \<noteq> []"
    and same: "\<And>r q'. r \<in> set rs \<Longrightarrow> map_of R r = Some q' \<Longrightarrow> listeningSockets q' = listeningSockets q"
  shows "store_ok (map_put port (rs @ [n]) P, C, map_put n q R, n + 1)"
proof (rule store_okI)
  have fresh: "map_of R n = None"
    using store_okD(6) [OF ok, of n] by (cases "map_of R n") (auto simp: request_ok_def)
  have old: "map_of P p' = Some rs' \<Longrightarrow> n \<notin> set rs'" for p' rs'
    using store_okD(5) [OF ok, of p' rs'] fresh by (auto simp: port_ok_def)
  have "port_ok R port rs"
    using rs store_okD(5) [OF ok, of port] q(2) by (auto simp: port_ok_def split: option.splits)
  then have rs_ok: "distinct rs" "\<forall>r\<in>set rs. \<exists>q'. map_of R r = Some q' \<and> pf_port q' = port \<and> listeningSockets q' = listeningSockets q"
    using same by (fastforce simp: port_ok_def)+
  have n: "n \<notin> set rs" using rs old [of port] by (auto split: option.splits)
  fix port' rs' assume new: "map_of (map_put port (rs @ [n]) P) port' = Some rs'"
  show "port_ok (map_put n q R) port' rs'"
  proof (cases "port' = port")
    case True
    with new have "rs' = rs @ [n]" by simp
    then show ?thesis
      unfolding port_ok_def using True rs_ok n q by (intro conjI exI [of _ "listeningSockets q"]) auto
  next
    case False
    with new have "map_of P port' = Some rs'" by simp
    with old [of port' rs'] store_okD(5) [OF ok] port_ok_other show ?thesis by blast
  qed
next
  have n: "0 < n" using store_okD(4) [OF ok] .
  have none: "entries (\<lambda>c. portForwardRequest c = n) C = 0"
  proof (rule ccontr)
    assume "entries (\<lambda>c. portForwardRequest c = n) C \<noteq> 0"
    then obtain e where "e \<in> set C" "portForwardRequest (snd e) = n"
      by (auto simp: entries_def filter_empty_conv)
    then have "map_of C (fst e) = Some (snd e)" "portForwardRequest (snd e) = n"
      using in_map [OF store_okD(2) [OF ok], of "fst e" "snd e"] by auto
    from store_okD(7) [OF ok this(1)] this n obtain q' where "map_of R n = Some q'" by auto
    with store_okD(6) [OF ok, of n] show False by (auto simp: request_ok_def)
  qed
  fix r q' assume r: "map_of (map_put n q R) r = Some q'"
  show "request_ok (map_put port (rs @ [n]) P) C (n + 1) r q'"
  proof (cases "r = n")
    case True
    with r n none q show ?thesis by (auto simp: request_ok_def)
  next
    case False
    with r have "map_of R r = Some q'" by simp
    from store_okD(6) [OF ok this] rs show ?thesis by (auto simp: request_ok_def split: option.splits)
  qed
next
  fix k c assume k: "map_of C k = Some c" "0 < portForwardRequest c"
  from store_okD(7) [OF ok k] show "\<exists>q'. map_of (map_put n q R) (portForwardRequest c) = Some q'" by auto
qed (use store_okD [OF ok] in auto)

lemma store_new_port:
  assumes ok: "store_ok (P, C, R, n)" and P: "map_of P port = None"
  shows "store_ok (map_put port [] P, C, R, n)"
proof (rule store_okI)
  fix p' rs assume "map_of (map_put port [] P) p' = Some rs"
  with store_okD(5) [OF ok, of p' rs] show "port_ok R p' rs" by (auto simp: port_ok_def split: if_splits)
next
  fix r q assume "map_of R r = Some q"
  from store_okD(6) [OF ok this] P show "request_ok (map_put port [] P) C n r q" by (auto simp: request_ok_def)
qed (use store_okD [OF ok] in auto)

subsection \<open>What leaves the store alone\<close>

lemma store_update [store_frame]:
  "store (p\<lparr>lme := a\<rparr>) = store p" "store (p\<lparr>sockets_active := b\<rparr>) = store p"
  "store (p\<lparr>rxSocketBufferSize := c\<rparr>) = store p" "store (p\<lparr>AMTDNSSuffixes := d\<rparr>) = store p"
  "store (p\<lparr>remoteAccessEnabledInAMT := b\<rparr>) = store p" "store (p\<lparr>remoteAccessCurrentlyPossible := b\<rparr>) = store p"
  "store (p\<lparr>handshakingStatus := e\<rparr>) = store p" "store (p\<lparr>pfwdService := f\<rparr>) = store p"
  "store (p\<lparr>AmtProtVersion := g\<rparr>) = store p" "store (p\<lparr>AMTFQDN := h\<rparr>) = store p"
  "store (p\<lparr>OutHostsFileLog := b\<rparr>) = store p" "store (p\<lparr>failureReported := i\<rparr>) = store p"
  "store (p\<lparr>prot_clientNotFound := b\<rparr>) = store p" "store (p\<lparr>effects := j\<rparr>) = store p"
  by (simp_all add: store_def)

lemma store_outputs [store_frame]:
  "store (effect_out x p) = store p" "store (on_lme f p) = store p" "store (signalSelect p) = store p"
  "store (SignalSelect p) = store p" "store (closeSocket s p) = store p" "store (deinit_lme p) = store p"
  "store (deinit_rest p) = store p"
  by (simp_all add: effect_out_def on_lme_def signalSelect_def SignalSelect_def closeSocket_def deinit_lme_def
    deinit_rest_def store_def)

lemma store_closeSockets [store_frame]: "store (closeSockets ss p) = store p"
  unfolding closeSockets_def by (induction ss arbitrary: p) (simp_all add: store_frame)

lemma store_createSocket [store_frame]: "store (snd (createSocket a st p)) = store p"
  by (auto simp: createSocket_def store_frame split: prod.splits bool.splits)

lemma store_createSocketD: "createSocket a st p = (x, p') \<Longrightarrow> store p' = store p"
  using store_createSocket by (metis snd_conv)

lemma store_server_loop [store_frame]: "store (snd (server_loop as vs st p)) = store p"
proof (induction as vs st p rule: server_loop.induct)
  case (2 a as vs st p)
  then show ?case
    by (auto simp: store_frame dest: store_createSocketD split: prod.splits)
qed simp

lemma store_createServerSocket [store_frame]: "store (snd (createServerSocket as p)) = store p"
  by (auto simp: createServerSocket_def store_frame split: option.splits)

lemma store_connect [store_frame]: "store (snd (connect as p)) = store p"
proof -
  have "store (snd (connect_loop as s p)) = store p" for s
  proof (induction as s p rule: connect_loop.induct)
    case (2 a as s p)
    then show ?case
      by (auto simp: store_frame dest: store_createSocketD split: prod.splits)
  qed simp
  then show ?thesis by (simp add: connect_def)
qed

lemma store_failure_reported [store_frame]: "store (snd (failure_reported port p)) = store p"
  by (auto simp: failure_reported_def store_frame split: option.splits)

lemma store_updateIPFQDN [store_frame]: "store (prot_updateIPFQDN w fqdn p) = store p"
  by (auto simp: prot_updateIPFQDN_def store_frame Let_def split: prod.splits)

lemma store_rx_effects [store_frame]: "store (rx_effects c d out p) = store p"
proof -
  have "store (fold (\<lambda>a. effect_out (Published a)) out p) = store p"
    by (induction out arbitrary: p) (simp_all add: store_frame)
  then show ?thesis by (auto simp: rx_effects_def store_frame split: channel_kind.splits)
qed

lemma prot_ok_frame: "store p' = store p \<Longrightarrow> prot_ok p' = prot_ok p"
  by (simp add: prot_ok_def)

lemma prot_ok_on_lme [simp]: "prot_ok (on_lme f p) = prot_ok p"
  and prot_ok_effect [simp]: "prot_ok (effect_out x p) = prot_ok p"
  and prot_ok_signal [simp]: "prot_ok (signalSelect p) = prot_ok p" "prot_ok (SignalSelect p) = prot_ok p"
  and prot_ok_close [simp]: "prot_ok (closeSocket s p) = prot_ok p" "prot_ok (closeSockets ss p) = prot_ok p"
  by (simp_all add: prot_ok_def store_frame)

lemma store_eqD: "store p' = store p \<Longrightarrow> openPorts p' = openPorts p \<and> openChannels p' = openChannels p
    \<and> requests p' = requests p \<and> next_request p' = next_request p"
  by (simp add: store_def)

subsection \<open>Results that keep the invariant\<close>

definition keeps :: "protocol option \<Rightarrow> bool" where
  "keeps r \<longleftrightarrow> (case r of None \<Rightarrow> False | Some p \<Rightarrow> prot_ok p)"

definition keeps2 :: "('a \<times> protocol) option \<Rightarrow> bool" where
  "keeps2 r \<longleftrightarrow> (case r of None \<Rightarrow> False | Some (_, p) \<Rightarrow> prot_ok p)"

lemma keeps_Some [simp]: "keeps (Some p) = prot_ok p" "keeps2 (Some (a, p)) = prot_ok p"
  by (simp_all add: keeps_def keeps2_def)

lemma keeps_bind: "keeps r \<Longrightarrow> (\<And>p. r = Some p \<Longrightarrow> prot_ok p \<Longrightarrow> keeps (f p)) \<Longrightarrow> keeps (Option.bind r f)"
  by (cases r) (auto simp: keeps_def)

lemma keeps2_bind: "keeps r \<Longrightarrow> (\<And>p. r = Some p \<Longrightarrow> prot_ok p \<Longrightarrow> keeps2 (f p)) \<Longrightarrow> keeps2 (Option.bind r f)"
  by (cases r) (auto simp: keeps_def)

lemma keeps_bind2: "keeps2 r \<Longrightarrow> (\<And>a p. r = Some (a, p) \<Longrightarrow> prot_ok p \<Longrightarrow> keeps (f (a, p))) \<Longrightarrow> keeps (Option.bind r f)"
  by (cases r) (auto simp: keeps2_def)

lemma keeps2_bind2: "keeps2 r \<Longrightarrow> (\<And>a p. r = Some (a, p) \<Longrightarrow> prot_ok p \<Longrightarrow> keeps2 (f (a, p))) \<Longrightarrow> keeps2 (Option.bind r f)"
  by (cases r) (auto simp: keeps2_def)

lemma keeps2_map [simp]: "keeps2 (map_option (Pair a) r) = keeps r"
  by (cases r) (simp_all add: keeps_def keeps2_def)

lemma keeps_foldM:
  "prot_ok p \<Longrightarrow> (\<And>x p. x \<in> set xs \<Longrightarrow> prot_ok p \<Longrightarrow> keeps (f x p)) \<Longrightarrow> keeps (foldM f xs p)"
  by (induction xs arbitrary: p) (auto intro!: keeps_bind)

subsection \<open>Requests and channels\<close>

lemma port_request:
  assumes "prot_ok p" "map_of (openPorts p) port = Some rs" "r \<in> set rs"
  obtains q where "get_request r p = Some q" "pf_port q = port" "map_of (requests p) r = Some q"
  using assms store_okD(5) [of "openPorts p" "openChannels p" "requests p" "next_request p" port rs]
  by (auto simp: prot_ok_def store_def port_ok_def get_request_def)

lemma channel_request:
  assumes "prot_ok p" "map_of (openChannels p) k = Some c" "portForwardRequest c \<noteq> NULL"
  obtains q where "get_request (portForwardRequest c) p = Some q" "map_of (requests p) (portForwardRequest c) = Some q"
  using assms store_okD(7) [of "openPorts p" "openChannels p" "requests p" "next_request p" k c]
  by (auto simp: prot_ok_def store_def get_request_def)

lemma prot_ok_put_channel:
  "prot_ok p \<Longrightarrow> map_of (openChannels p) k = Some c0 \<Longrightarrow> portForwardRequest c = portForwardRequest c0
    \<Longrightarrow> prot_ok (put_channel k c p)"
  using store_put_channel [of "openPorts p" "openChannels p" "requests p" "next_request p" k c0 c]
  by (simp add: prot_ok_def store_def put_channel_def)

lemma prot_ok_new_channel: "prot_ok p \<Longrightarrow> portForwardRequest c = NULL \<Longrightarrow> prot_ok (put_channel k c p)"
  using store_new_channel [of "openPorts p" "openChannels p" "requests p" "next_request p" c k]
  by (simp add: prot_ok_def store_def put_channel_def)

lemma prot_ok_set_request:
  "prot_ok p \<Longrightarrow> get_request r p = Some q0 \<Longrightarrow> pf_port q = pf_port q0 \<Longrightarrow> listeningSockets q = listeningSockets q0
    \<Longrightarrow> channelCount q0 \<le> channelCount q \<Longrightarrow> prot_ok (set_request r q p)"
  using store_update_request [of "openPorts p" "openChannels p" "requests p" "next_request p" r q0 q]
  by (simp add: prot_ok_def store_def set_request_def get_request_def)

end
