(* ===== verification/Protocol_Safety.thy ===== *)
theory Protocol_Safety
  imports Protocol_Correct
begin

text \<open>
  The operations on the protocol's state keep the invariant of \<open>Protocol_Correct\<close> and never use a request
  that was deleted: \<^verbatim>\<open>Deinit\<close>, \<^verbatim>\<open>_closePortForwardRequest\<close>, every message handler, the operations of the
  select thread, and the start.
\<close>

subsection \<open>Deinit\<close>

lemma closeSockets_eq:
  "closeSockets ss p = p\<lparr>effects := effects p @ map Socket_closed (filter (\<lambda>s. s \<noteq> INVALID_SOCKET) ss)\<rparr>"
  unfolding closeSockets_def by (induction ss arbitrary: p) (simp_all add: closeSocket_def effect_out_def)

lemma map_of_keep: "map_of (filter (\<lambda>e. fst e \<notin> A) m) k = (if k \<in> A then None else map_of m k)"
  by (induction m) auto

lemma delete_many:
  "distinct rs \<Longrightarrow> \<forall>r\<in>set rs. \<exists>q. map_of (requests p) r = Some q
    \<Longrightarrow> foldM delete_request rs p = Some (p\<lparr>requests := filter (\<lambda>e. fst e \<notin> set rs) (requests p)\<rparr>)"
proof (induction rs arbitrary: p)
  case (Cons r rs)
  then have "delete_request r p = Some (p\<lparr>requests := map_erase r (requests p)\<rparr>)"
    by (auto simp: delete_request_def get_request_def)
  moreover have "filter (\<lambda>e. fst e \<notin> set rs) (map_erase r (requests p)) = filter (\<lambda>e. fst e \<notin> set (r # rs)) (requests p)"
    by (auto simp: map_erase_def intro: filter_cong)
  moreover have "\<forall>r'\<in>set rs. \<exists>q. map_of (requests (p\<lparr>requests := map_erase r (requests p)\<rparr>)) r' = Some q"
    using Cons.prems by auto
  ultimately show ?case
    using Cons.IH [of "p\<lparr>requests := map_erase r (requests p)\<rparr>"] Cons.prems(1) by simp
qed simp

lemma port_okD: "port_ok R port rs \<Longrightarrow> r \<in> set rs \<Longrightarrow> \<exists>q. map_of R r = Some q \<and> pf_port q = port"
  by (auto simp: port_ok_def)

text \<open>The listening sockets of a port, which its first request names.\<close>

definition port_sockets :: "(addr, port_forward_request) std_map \<Rightarrow> addr list \<Rightarrow> SOCKET list" where
  "port_sockets R rs = (case rs of [] \<Rightarrow> [] | r # _ \<Rightarrow>
     (case map_of R r of None \<Rightarrow> [] | Some q \<Rightarrow> listeningSockets q))"

definition closes :: "SOCKET list \<Rightarrow> effect list" where
  "closes ss = map Socket_closed (filter (\<lambda>s. s \<noteq> INVALID_SOCKET) ss)"

lemma closes_append [simp]: "closes (ss @ ts) = closes ss @ closes ts" and closes_Nil [simp]: "closes [] = []"
  by (simp_all add: closes_def)

lemma deinit_port_eq:
  assumes "port_ok (requests p) port rs"
  shows "deinit_port rs p = Some (p\<lparr>requests := filter (\<lambda>e. fst e \<notin> set rs) (requests p),
    effects := effects p @ closes (port_sockets (requests p) rs)\<rparr>)"
proof (cases rs)
  case (Cons r rest)
  with assms obtain q where q: "map_of (requests p) r = Some q" by (auto simp: port_ok_def)
  have "foldM delete_request rs (closeSockets (listeningSockets q) p) =
      Some ((closeSockets (listeningSockets q) p)\<lparr>requests := filter (\<lambda>e. fst e \<notin> set rs) (requests p)\<rparr>)"
    using delete_many [of rs "closeSockets (listeningSockets q) p"] assms
    by (auto simp: port_ok_def closeSockets_eq)
  with q Cons show ?thesis
    by (simp add: deinit_port_def get_request_def port_sockets_def closeSockets_eq closes_def)
qed (simp add: deinit_port_def port_sockets_def)

lemma deinit_loop:
  "distinct (map fst P) \<Longrightarrow> \<forall>e\<in>set P. port_ok (requests p) (fst e) (snd e)
    \<Longrightarrow> foldM deinit_port (map snd P) p = Some (p\<lparr>
      requests := filter (\<lambda>e. fst e \<notin> \<Union> (set ` snd ` set P)) (requests p),
      effects := effects p @ closes (concat (map (\<lambda>e. port_sockets (requests p) (snd e)) P))\<rparr>)"
proof (induction P arbitrary: p)
  case (Cons e P)
  obtain port rs where e: "e = (port, rs)" by (cases e)
  define p1 where "p1 = p\<lparr>requests := filter (\<lambda>e. fst e \<notin> set rs) (requests p),
    effects := effects p @ closes (port_sockets (requests p) rs)\<rparr>"
  have step: "deinit_port rs p = Some p1"
    using deinit_port_eq [of p port rs] Cons.prems(2) e by (simp add: p1_def)
  have other: "map_of (requests p1) r = map_of (requests p) r" if e': "e' \<in> set P" and r: "r \<in> set (snd e')" for e' r
  proof -
    have "fst e' \<noteq> port" using Cons.prems(1) e' e by (auto simp: image_iff)
    moreover obtain q where "map_of (requests p) r = Some q" "pf_port q = fst e'"
      using Cons.prems(2) port_okD [of "requests p" "fst e'" "snd e'" r] e' r by auto
    moreover have "r \<in> set rs \<Longrightarrow> \<exists>q. map_of (requests p) r = Some q \<and> pf_port q = port"
      using Cons.prems(2) port_okD [of "requests p" port rs r] e by simp
    ultimately have "r \<notin> set rs" by auto
    then show ?thesis by (simp add: p1_def map_of_keep)
  qed
  have ok: "\<forall>e\<in>set P. port_ok (requests p1) (fst e) (snd e)"
    using Cons.prems(2) other by (fastforce simp: port_ok_def)
  have same: "map (\<lambda>e. port_sockets (requests p1) (snd e)) P = map (\<lambda>e. port_sockets (requests p) (snd e)) P"
    using other by (auto simp: port_sockets_def split: list.splits)
  have "foldM deinit_port (map snd P) p1 = Some (p1\<lparr>
      requests := filter (\<lambda>e. fst e \<notin> \<Union> (set ` snd ` set P)) (requests p1),
      effects := effects p1 @ closes (concat (map (\<lambda>e. port_sockets (requests p1) (snd e)) P))\<rparr>)"
    using Cons.IH [OF _ ok] Cons.prems(1) by simp
  then show ?case
    unfolding same using step e by (auto simp: p1_def intro: filter_cong)
qed simp

lemma prot_okD:
  assumes "prot_ok p"
  shows "map_ok (openPorts p)" "map_ok (openChannels p)"
    and "map_of (openPorts p) port = Some rs \<Longrightarrow> port_ok (requests p) port rs"
    and "map_of (requests p) r = Some q \<Longrightarrow> request_ok (openPorts p) (openChannels p) (next_request p) r q"
  using assms by (auto simp: prot_ok_def store_def store_ok_def)

text \<open>The sockets the state owns: those of the channels and of the ports.\<close>

definition owned_sockets :: "protocol \<Rightarrow> SOCKET list" where
  "owned_sockets p = map (\<lambda>(k, c). socket c) (openChannels p) @
     concat (map (\<lambda>e. port_sockets (requests p) (snd e)) (openPorts p))"

lemma deinit_ports_eq:
  assumes ok: "prot_ok p"
  shows "deinit_ports p = Some (p\<lparr>requests := [],
    effects := effects p @ closes (concat (map (\<lambda>e. port_sockets (requests p) (snd e)) (openPorts p))), openPorts := []\<rparr>)"
proof -
  have keys: "distinct (map fst (openPorts p))"
    using map_ok_distinct [OF prot_okD(1) [OF ok]] .
  have all: "port_ok (requests p) (fst e) (snd e)" if "e \<in> set (openPorts p)" for e
    using prot_okD(3) [OF ok] in_map [OF prot_okD(1) [OF ok], of "fst e" "snd e"] that by simp
  have none: "filter (\<lambda>e. fst e \<notin> \<Union> (set ` snd ` set (openPorts p))) (requests p) = []"
  proof (rule ccontr)
    assume "\<not> ?thesis"
    then obtain r q where r: "(r, q) \<in> set (requests p)" "\<forall>rs\<in>snd ` set (openPorts p). r \<notin> set rs"
      by (auto simp: filter_empty_conv)
    then have "map_of (requests p) r = Some q"
      using ok in_map [of "requests p" r q] by (simp add: prot_ok_def store_def store_ok_def)
    from prot_okD(4) [OF ok this] obtain rs where "map_of (openPorts p) (pf_port q) = Some rs" "r \<in> set rs"
      by (auto simp: request_ok_def)
    with r(2) map_of_SomeD [of "openPorts p" "pf_port q" rs] show False by force
  qed
  show ?thesis
    using deinit_loop [of "openPorts p" p] keys all none by (simp add: deinit_ports_def)
qed

lemma prot_ok_deinit_channels: "prot_ok p \<Longrightarrow> prot_ok (deinit_channels p)"
  by (simp add: deinit_channels_def closeSockets_eq prot_ok_def store_def store_ok_def) (simp add: request_ok_def)

lemma deinit_eq:
  assumes ok: "prot_ok p"
  shows "prot_Deinit p = Some (deinit_rest ((deinit_lme p)\<lparr>openChannels := [], requests := [],
    effects := effects p @ closes (owned_sockets p), openPorts := []\<rparr>))"
proof -
  define p1 where "p1 = deinit_channels (deinit_lme p)"
  have p1: "openPorts p1 = openPorts p" "requests p1 = requests p"
    "p1 = (deinit_lme p)\<lparr>openChannels := [], effects := effects p @ closes (map (\<lambda>(k, c). socket c) (openChannels p))\<rparr>"
    by (simp_all add: p1_def deinit_channels_def deinit_lme_def closeSockets_eq closes_def)
  have "prot_ok p1"
    using ok by (simp add: p1_def prot_ok_deinit_channels prot_ok_frame [OF store_outputs(6)])
  from deinit_ports_eq [OF this] show ?thesis
    by (simp add: prot_Deinit_def p1_def [symmetric] p1(1,2)) (simp add: p1(3) owned_sockets_def)
qed

lemma keeps_Deinit: "prot_ok p \<Longrightarrow> keeps (prot_Deinit p)"
  by (simp add: deinit_eq) (simp add: prot_ok_def store_def deinit_rest_def deinit_lme_def store_ok_def)

lemma keeps_drop: "prot_ok p \<Longrightarrow> keeps (drop_connection hs reason p)"
  by (simp add: drop_connection_def keeps_Deinit)

subsection \<open>Requests\<close>

text \<open>A request that waits to be closed counts no channel once it is inactive.\<close>

definition closable :: "addr \<Rightarrow> protocol \<Rightarrow> bool" where
  "closable r p \<longleftrightarrow> (\<exists>q. get_request r p = Some q \<and> (pf_status q = NOT_ACTIVE \<longrightarrow> channelCount q = 0))"

lemma prot_ok_delete:
  assumes ok: "prot_ok p" and q: "get_request r p = Some q" "channelCount q = 0"
    and rs: "map_of (openPorts p) (pf_port q) = Some rs"
  shows "prot_ok (p\<lparr>requests := map_erase r (requests p), openPorts := without (pf_port q) (remove1 r rs) (openPorts p)\<rparr>)"
proof -
  have "request_ok (openPorts p) (openChannels p) (next_request p) r q"
    using prot_okD(4) [OF ok] q(1) by (simp add: get_request_def)
  then have "entries (\<lambda>c. portForwardRequest c = r) (openChannels p) = 0"
    using q(2) by (simp add: request_ok_def)
  with store_delete [of "openPorts p" "openChannels p" "requests p" "next_request p" r q rs] ok q(1) rs
  show ?thesis by (simp add: prot_ok_def store_def get_request_def)
qed

lemma keeps_close:
  assumes ok: "prot_ok p" and r: "closable r p"
  shows "keeps (closePortForwardRequest r p)"
proof -
  from r obtain q where q: "get_request r p = Some q" "pf_status q = NOT_ACTIVE \<longrightarrow> channelCount q = 0"
    by (auto simp: closable_def)
  then obtain rs where rs: "map_of (openPorts p) (pf_port q) = Some rs" "r \<in> set rs"
    using prot_okD(4) [OF ok] by (auto simp: get_request_def request_ok_def)
  show ?thesis
  proof (cases "pf_status q = NOT_ACTIVE")
    case True
    then have "prot_ok (p\<lparr>requests := map_erase r (requests p), openPorts := without (pf_port q) (remove1 r rs) (openPorts p)\<rparr>)"
      using prot_ok_delete [OF ok q(1) _ rs(1)] q(2) by simp
    then show ?thesis
      using q(1) rs True
      by (auto simp: closePortForwardRequest_def delete_request_def without_def closeSockets_eq
        prot_ok_def store_def Let_def)
  qed (use ok q rs in \<open>simp add: closePortForwardRequest_def\<close>)
qed

lemma release_ok:
  assumes ok: "prot_ok p" and k: "map_of (openChannels p) k = Some c"
  shows "\<exists>r p'. release_channel k c p = Some (r, p') \<and> prot_ok p' \<and> (\<forall>x. r = Some x \<longrightarrow> closable x p')"
proof (cases "portForwardRequest c = NULL")
  case True
  have "prot_ok (erase_channel k p)"
    using store_erase_channel [of "openPorts p" "openChannels p" "requests p" "next_request p" k c] ok k
    by (simp add: prot_ok_def store_def erase_channel_def)
  with True show ?thesis
    by (simp add: release_channel_def closeSocket_def effect_out_def erase_channel_def prot_ok_def store_def)
next
  case False
  with channel_request [OF ok k] obtain q where
    q: "get_request (portForwardRequest c) p = Some q" "map_of (requests p) (portForwardRequest c) = Some q" by blast
  define p' where "p' = erase_channel k (set_request (portForwardRequest c) (DecreaseChannelCount q) (closeSocket (socket c) p))"
  have "store_ok (openPorts p, map_erase k (openChannels p),
      map_put (portForwardRequest c) (DecreaseChannelCount q) (requests p), next_request p)"
    using store_release [of "openPorts p" "openChannels p" "requests p" "next_request p" k c q] ok k q
    by (simp add: prot_ok_def store_def)
  moreover have "store p' = (openPorts p, map_erase k (openChannels p),
      map_put (portForwardRequest c) (DecreaseChannelCount q) (requests p), next_request p)"
    by (simp add: p'_def store_def erase_channel_def set_request_def closeSocket_def effect_out_def)
  ultimately have "prot_ok p'" by (simp add: prot_ok_def)
  moreover have "get_request (portForwardRequest c) p' = Some (DecreaseChannelCount q)"
    by (simp add: p'_def get_request_def erase_channel_def set_request_def)
  moreover have "get_request (portForwardRequest c) (closeSocket (socket c) p) = Some q"
    using q by (simp add: get_request_def closeSocket_def effect_out_def)
  ultimately show ?thesis
    using False by (auto simp: release_channel_def Let_def closable_def p'_def [symmetric])
qed

lemma keeps_release:
  assumes "prot_ok p" "map_of (openChannels p) k = Some c"
  shows "keeps (do { (r, p) \<leftarrow> release_channel k c p; close_request r p })"
  using release_ok [OF assms] keeps_close by (auto simp: close_request_def split: option.splits)

lemma keeps_open_failure: "prot_ok p \<Longrightarrow> keeps (on_open_failure k p)"
  using keeps_release [of p k] by (auto simp: on_open_failure_def open_failure_channels_def close_request_def split: option.splits)

lemma keeps_channel_close: "prot_ok p \<Longrightarrow> keeps (on_channel_close hs k p)"
proof (cases "map_of (openChannels p) k")
  case (Some c)
  define p1 where "p1 = (if status c = OPEN then on_lme (lme_ChannelClose hs (recipientChannel c)) p else p)"
  assume "prot_ok p"
  then have "prot_ok p1" "map_of (openChannels p1) k = Some c"
    using Some by (auto simp: p1_def) (simp_all add: on_lme_def)
  from keeps_release [OF this] Some show ?thesis
    by (simp add: on_channel_close_def close_channels_def p1_def Let_def)
qed (simp add: on_channel_close_def close_channels_def close_request_def)

lemma port_requests:
  assumes "prot_ok p" "map_of (openPorts p) port = Some rs" "r \<in> set rs"
  shows "\<exists>q. get_request r p = Some q"
  using port_request [OF assms] by blast

lemma forward_exists_defined: "\<forall>r\<in>set rs. \<exists>q. get_request r p = Some q \<Longrightarrow> \<exists>b. forward_exists a rs p = Some b"
  by (induction rs) auto

lemma find_forward_defined:
  "\<forall>r\<in>set rs. \<exists>q. get_request r p = Some q \<Longrightarrow> \<exists>x. find_forward a rs p = Some x \<and> (\<forall>r. x = Some r \<longrightarrow> r \<in> set rs)"
  by (induction rs) auto

lemma any_remote_defined: "\<forall>r\<in>set rs. \<exists>q. get_request r p = Some q \<Longrightarrow> \<exists>b. any_remote rs p = Some b"
  by (induction rs) auto

lemma all_requests:
  assumes "prot_ok p" "rs \<in> set (map snd (openPorts p))" "r \<in> set rs"
  shows "\<exists>q. get_request r p = Some q"
proof -
  from assms(2) obtain port where "(port, rs) \<in> set (openPorts p)" by auto
  then have "map_of (openPorts p) port = Some rs"
    using in_map [OF prot_okD(1) [OF assms(1)]] by simp
  from port_requests [OF assms(1) this assms(3)] show ?thesis .
qed

lemma keeps_checkRemoteAccessStatus:
  assumes "prot_ok p"
  shows "keeps (checkRemoteAccessStatus p)"
proof -
  have "\<exists>b. remoteTunnelExist p = Some b \<and> True"
    unfolding remoteTunnelExist_def
    by (rule foldM_rule) (use all_requests [OF assms] any_remote_defined in \<open>fastforce+\<close>)
  with assms show ?thesis
    by (auto simp: checkRemoteAccessStatus_def prot_ok_def store_frame)
qed

lemma keeps_activate:
  assumes ok: "prot_ok p" and rs: "\<And>r. r \<in> set rs \<Longrightarrow> \<exists>q. get_request r p = Some q"
  shows "keeps (activate_pending rs p)"
proof -
  have "\<exists>t. activate_pending rs p = Some t \<and> (prot_ok t \<and> (\<forall>r\<in>set rs. \<exists>q. get_request r t = Some q))"
    unfolding activate_pending_def
  proof (rule foldM_rule)
    fix r t assume r: "r \<in> set rs" and t: "prot_ok t \<and> (\<forall>r\<in>set rs. \<exists>q. get_request r t = Some q)"
    then obtain q where q: "get_request r t = Some q" by blast
    have "prot_ok (set_request r (q\<lparr>pf_status := LISTENING\<rparr>) t)"
      using prot_ok_set_request [of t r q] t q by simp
    moreover have "\<forall>r'\<in>set rs. \<exists>q'. get_request r' (set_request r (q\<lparr>pf_status := LISTENING\<rparr>) t) = Some q'"
      using t by (auto simp: get_request_def set_request_def)
    ultimately show "\<exists>u. do { q \<leftarrow> get_request r t;
        Some (if pf_status q = PENDING_REQUEST then set_request r (q\<lparr>pf_status := LISTENING\<rparr>) t else t) } = Some u \<and>
      (prot_ok u \<and> (\<forall>r\<in>set rs. \<exists>q. get_request r u = Some q))"
      using t q by simp
  qed (use ok rs in blast)
  then show ?thesis by auto
qed

lemma keeps_updateEnterprise:
  assumes ok: "prot_ok p"
  shows "keeps (updateEnterpriseAccessStatus reply m send p)"
proof (cases "shared_suffix (AMTDNSSuffixes p) m")
  case (Pair raccess ip)
  define p1 where "p1 = p\<lparr>remoteAccessCurrentlyPossible := raccess\<rparr>"
  have p1: "prot_ok p1" using ok by (simp add: p1_def prot_ok_def store_frame)
  have "keeps (activate_pending (concat (map snd (openPorts p1))) p1)"
    by (rule keeps_activate [OF p1]) (use all_requests [OF p1] in auto)
  with p1 Pair ok show ?thesis
    unfolding updateEnterpriseAccessStatus_def
    by (auto simp: Let_def p1_def [symmetric] prot_ok_def store_frame intro!: keeps_bind)
qed

lemma keeps_checkRemoteSupport: "prot_ok p \<Longrightarrow> keeps (checkRemoteSupport w b p)"
  by (auto simp: checkRemoteSupport_def prot_ok_def store_frame intro!: keeps_updateEnterprise split: option.splits)

subsection \<open>Handlers\<close>

lemma keeps_service_request: "prot_ok p \<Longrightarrow> keeps (on_service_request hs name p)"
  by (auto simp: on_service_request_def Let_def keeps_drop) (simp_all add: prot_ok_def store_frame)

lemma keeps_userauth: "prot_ok p \<Longrightarrow> keeps (on_userauth_request hs p)"
  by (simp add: on_userauth_request_def)

lemma keeps_protocol_version: "prot_ok p \<Longrightarrow> keeps (on_protocol_version hs major minor p)"
  by (auto simp: on_protocol_version_def Let_def intro!: keeps_drop) (simp_all add: prot_ok_def store_frame)

lemma prot_ok_connect: "connect as p = (s, p') \<Longrightarrow> prot_ok p' = prot_ok p"
  using store_connect [of as p] by (simp add: prot_ok_def)

lemma prot_ok_server: "createServerSocket as p = (x, p') \<Longrightarrow> prot_ok p' = prot_ok p \<and> store p' = store p"
  using store_createServerSocket [of as p] by (simp add: prot_ok_def)

lemma keeps_udp: "prot_ok p \<Longrightarrow> keeps (on_udp_send_to w a port d p)"
  by (auto simp: on_udp_send_to_def prot_ok_connect split: option.splits prod.splits)

lemma keeps_cancel:
  assumes ok: "prot_ok p"
  shows "keeps (on_tcp_forward_cancel hs a port p)"
proof (cases "map_of (openPorts p) port")
  case (Some rs)
  have all: "\<forall>r\<in>set rs. \<exists>q. get_request r p = Some q"
    using port_requests [OF ok Some] by blast
  from find_forward_defined [OF this, of a] obtain x where x: "find_forward a rs p = Some x" "\<forall>r. x = Some r \<longrightarrow> r \<in> set rs"
    by blast
  show ?thesis
  proof (cases x)
    case (Some r)
    with x all obtain q where q: "get_request r p = Some q" by blast
    define p1 where "p1 = set_request r (q\<lparr>pf_status := NOT_ACTIVE\<rparr>) p"
    have "prot_ok p1" unfolding p1_def using prot_ok_set_request [OF ok q] by simp
    moreover have "channelCount q = 0 \<Longrightarrow> closable r p1"
      by (simp add: closable_def p1_def get_request_def set_request_def)
    ultimately have "keeps (if channelCount q = 0 then closePortForwardRequest r p1 else Some p1)"
      using keeps_close by simp
    then show ?thesis
      using \<open>map_of (openPorts p) port = Some rs\<close> x(1) Some q
      by (auto simp: on_tcp_forward_cancel_def p1_def [symmetric] Let_def intro!: keeps_bind keeps_checkRemoteAccessStatus
        simp del: if_split)
  qed (use ok x Some in \<open>simp add: on_tcp_forward_cancel_def\<close>)
qed (use ok in \<open>simp add: on_tcp_forward_cancel_def\<close>)

lemma prot_ok_open_channel: "prot_ok p \<Longrightarrow> portForwardRequest c = NULL \<Longrightarrow> prot_ok (open_channel hs c sender win p)"
  by (auto simp: open_channel_def Let_def AddBytesTxWindow_def intro!: prot_ok_new_channel)

lemma keeps_channel_open: "prot_ok p \<Longrightarrow> keeps (on_channel_open w sender win a port p)"
  by (auto simp: on_channel_open_def Let_def prot_ok_connect new_channel_def intro!: prot_ok_open_channel
    split: option.splits prod.splits)

lemma keeps_open_confirmation: "prot_ok p \<Longrightarrow> keeps (on_open_confirmation k sender win p)"
  by (auto simp: on_open_confirmation_def Let_def AddBytesTxWindow_def intro!: prot_ok_put_channel split: option.splits)

lemma keeps_window_adjust: "prot_ok p \<Longrightarrow> keeps (on_window_adjust k n p)"
  by (auto simp: on_window_adjust_def AddBytesTxWindow_def intro!: prot_ok_put_channel split: option.splits)

lemma ProcessRx_same: "ProcessRx now res d c = ((n, b, c'), out) \<Longrightarrow> portForwardRequest c' = portForwardRequest c"
  by (auto simp: ProcessRx_def Let_def split: channel_kind.splits prod.splits)

lemma keeps_channel_data:
  assumes ok: "prot_ok p"
  shows "keeps (on_channel_data w k d p)"
proof (cases "map_of (openChannels p) k")
  case (Some c)
  obtain n b c' out where rx: "ProcessRx (time_now w) (send_result w (socket c) d) d c = ((n, b, c'), out)"
    by (metis prod.exhaust)
  define p1 where "p1 = on_lme (ChannelWindowAdjust (heci w) (recipientChannel c') (of_nat (length d)))
    (rx_effects c' d out (put_channel k c' p))"
  have "prot_ok (put_channel k c' p)"
    by (rule prot_ok_put_channel [OF ok Some]) (use ProcessRx_same [OF rx] in simp)
  then have p1: "prot_ok p1" "openChannels p1 = map_put k c' (openChannels p)"
    using store_eqD [OF store_rx_effects [of c' d out "put_channel k c' p"]]
    by (simp_all add: p1_def prot_ok_def store_frame) (simp add: on_lme_def put_channel_def)
  have "prot_ok (put_channel k (c'\<lparr>status := WAITING_CLOSE\<rparr>) p1)"
    by (rule prot_ok_put_channel [OF p1(1), of k c']) (simp_all add: p1(2))
  with Some rx ok p1 show ?thesis
    by (simp add: on_channel_data_def Let_def p1_def [symmetric])
qed (use ok in \<open>simp add: on_channel_data_def\<close>)

lemma keeps_forward_failed: "prot_ok p \<Longrightarrow> keeps2 (forward_failed hs port p)"
  unfolding forward_failed_def using store_failure_reported [of port p]
  by (cases "failure_reported port p")
    (auto simp: Let_def prot_ok_def store_frame intro!: keeps2_bind keeps_drop)

text \<open>The request and the list entry a new forward makes.\<close>

definition forward_request :: "bytes \<Rightarrow> u32 \<Rightarrow> bool \<Rightarrow> SOCKET list \<Rightarrow> port_forward_request" where
  "forward_request a port lcl vs = (new_request a port vs (if lcl then isLocalCallback else isRemoteCallback) lcl)
     \<lparr>pf_status := (if lcl then LISTENING else PENDING_REQUEST)\<rparr>"

lemma forward_added_eq:
  assumes "rs = (case map_of (openPorts p) port of None \<Rightarrow> [] | Some rs \<Rightarrow> rs)"
  shows "\<exists>p4. store p4 = (map_put port (rs @ [next_request p]) (openPorts p), openChannels p,
        map_put (next_request p) (forward_request a port lcl vs) (requests p), next_request p + 1)
    \<and> forward_added w a port lcl vs p = (if list_ex snd (failureReported p4) then Some (0, p4)
         else if lcl then Some (0, prot_updateIPFQDN w a p4)
         else do { p \<leftarrow> checkRemoteSupport w True p4; Some (0, p) })"
proof -
  obtain b p0 where f: "failure_reported port p = (b, p0)" by fastforce
  define q where "q = new_request a port vs (if lcl then isLocalCallback else isRemoteCallback) lcl"
  have p0: "store p0 = store p" using store_failure_reported [of port p] f by simp
  define p1 where "p1 = (if b then effect_out (Log_dbg (str ''Listening at port '' @ dec port)) p0 else p0)"
  have p1: "store p1 = store p" by (simp add: p1_def p0 store_frame)
  define p2 where "p2 = on_lme (TcpForwardReplySuccess (heci w) port)
    (p1\<lparr>requests := map_put (next_request p1) q (requests p1), next_request := next_request p1 + 1,
      openPorts := map_put port (rs @ [next_request p1]) (openPorts p1)\<rparr>)"
  define p3 where "p3 = set_request (next_request p) (q\<lparr>pf_status := (if lcl then LISTENING else PENDING_REQUEST)\<rparr>) p2"
  define p4 where "p4 = signalSelect (p3\<lparr>failureReported := map_put port False (failureReported p3)\<rparr>)"
  have "store p4 = store p3" by (simp add: p4_def store_frame)
  also have "\<dots> = (map_put port (rs @ [next_request p]) (openPorts p), openChannels p,
        map_put (next_request p) (forward_request a port lcl vs) (requests p), next_request p + 1)"
    using store_eqD [OF p1] by (simp add: p3_def p2_def store_def set_request_def on_lme_def q_def forward_request_def)
  moreover have "forward_added w a port lcl vs p = (if list_ex snd (failureReported p4) then Some (0, p4)
         else if lcl then Some (0, prot_updateIPFQDN w a p4)
         else do { p \<leftarrow> checkRemoteSupport w True p4; Some (0, p) })"
    using store_eqD [OF p1] f assms
    by (simp add: forward_added_def alloc_request_def Let_def p1_def [symmetric] p2_def p3_def p4_def q_def)
  ultimately show ?thesis by auto
qed

lemma keeps_forward_added:
  assumes ok: "prot_ok p" and vs: "vs \<noteq> []"
    and rs: "\<And>rs r q. map_of (openPorts p) port = Some rs \<Longrightarrow> r \<in> set rs \<Longrightarrow> get_request r p = Some q
      \<Longrightarrow> listeningSockets q = vs"
  shows "keeps2 (forward_added w a port lcl vs p)"
proof -
  define q where "q = forward_request a port lcl vs"
  define rs where "rs = (case map_of (openPorts p) port of None \<Rightarrow> [] | Some rs \<Rightarrow> rs)"
  have same: "listeningSockets q' = listeningSockets q" if "r \<in> set rs" "map_of (requests p) r = Some q'" for r q'
    using rs [of rs r q'] that
    by (cases "map_of (openPorts p) port") (auto simp: rs_def q_def forward_request_def new_request_def get_request_def)
  have st: "store_ok (map_put port (rs @ [next_request p]) (openPorts p), openChannels p, map_put (next_request p) q (requests p),
      next_request p + 1)"
    by (rule store_alloc [OF _ rs_def _ _ same])
      (use ok vs in \<open>simp_all add: prot_ok_def store_def q_def forward_request_def new_request_def\<close>)
  from forward_added_eq [OF rs_def, of a lcl vs w] obtain p4 where
    s4: "store p4 = (map_put port (rs @ [next_request p]) (openPorts p), openChannels p,
        map_put (next_request p) (forward_request a port lcl vs) (requests p), next_request p + 1)"
    and e: "forward_added w a port lcl vs p = (if list_ex snd (failureReported p4) then Some (0, p4)
         else if lcl then Some (0, prot_updateIPFQDN w a p4)
         else do { p \<leftarrow> checkRemoteSupport w True p4; Some (0, p) })" by blast
  have p4: "prot_ok p4" using st by (simp add: prot_ok_def s4 q_def)
  show ?thesis
    unfolding e using keeps_checkRemoteSupport [OF p4, of w True] p4
    by (auto simp: prot_ok_def store_frame intro!: keeps2_bind)
qed

lemma port_ok_sockets:
  "port_ok R port rs \<Longrightarrow> \<exists>ss. ss \<noteq> [] \<and> (\<forall>r\<in>set rs. \<exists>q. map_of R r = Some q \<and> listeningSockets q = ss)"
  unfolding port_ok_def by blast

lemma keeps_tcp_forward:
  assumes ok: "prot_ok p"
  shows "keeps2 (on_tcp_forward w a port p)"
proof -
  have "\<exists>b vs p1 rs. forward_lookup a port p = Some (b, vs, p1) \<and> prot_ok p1 \<and> map_of (openPorts p1) port = Some rs \<and>
    (vs = [] \<longrightarrow> rs = []) \<and> (\<forall>r\<in>set rs. \<forall>q. get_request r p1 = Some q \<longrightarrow> listeningSockets q = vs)"
  proof (cases "map_of (openPorts p) port")
    case None
    with store_new_port [of "openPorts p" "openChannels p" "requests p" "next_request p" port] ok show ?thesis
      by (auto simp: forward_lookup_def prot_ok_def store_def)
  next
    case (Some rs)
    show ?thesis
    proof (cases rs)
      case Nil
      with Some ok show ?thesis by (auto simp: forward_lookup_def)
    next
      case (Cons r rs')
      have all: "\<forall>r\<in>set rs. \<exists>q. get_request r p = Some q"
        using port_requests [OF ok Some] by blast
      from forward_exists_defined [OF this, of a] obtain b where b: "forward_exists a rs p = Some b" by blast
      from port_ok_sockets [OF prot_okD(3) [OF ok Some]] obtain ss where ss: "ss \<noteq> []"
        "\<forall>r\<in>set rs. \<exists>q. get_request r p = Some q \<and> listeningSockets q = ss"
        unfolding get_request_def by blast
      then obtain q where q: "get_request r p = Some q" "listeningSockets q = ss" using Cons by auto
      have c: "forward_lookup a port p = Some (b, ss, p)"
        using Some Cons b q by (simp add: forward_lookup_def del: forward_exists.simps)
      have d: "\<forall>r\<in>set rs. \<forall>q. get_request r p = Some q \<longrightarrow> listeningSockets q = ss"
        using ss(2) by auto
      show ?thesis
        using c d Some ok ss(1) by (intro exI [of _ b] exI [of _ ss] exI [of _ p] exI [of _ rs] conjI) simp_all
    qed
  qed
  then obtain b vs p1 rs where P1: "forward_lookup a port p = Some (b, vs, p1)" and p1: "prot_ok p1" "map_of (openPorts p1) port = Some rs"
    "vs = [] \<longrightarrow> rs = []" "\<forall>r\<in>set rs. \<forall>q. get_request r p1 = Some q \<longrightarrow> listeningSockets q = vs" by blast
  have new: "keeps2 (case createServerSocket (listen_addrs w port) p1 of ((vs, st), p) \<Rightarrow>
            if vs = [] \<or> st \<noteq> ACTIVE then forward_failed (heci w) port p
            else forward_added w a port (\<not> isRemoteAPFAddress a) vs p)" if "vs = []"
  proof (cases "createServerSocket (listen_addrs w port) p1")
    case (Pair x p2)
    obtain vs' st where x: "x = (vs', st)" by (cases x)
    from prot_ok_server [OF Pair] p1 have p2: "prot_ok p2" "store p2 = store p1" by simp_all
    then have "map_of (openPorts p2) port = Some []"
      using p1(2,3) that store_eqD [OF p2(2)] by simp
    then show ?thesis
      using Pair x p2(1) by (auto intro!: keeps_forward_failed keeps_forward_added)
  qed
  show ?thesis
    using p1 new by (auto simp: on_tcp_forward_def Let_def P1 intro!: keeps_forward_added)
qed

lemmas keeps_handlers = keeps_service_request keeps_userauth keeps_tcp_forward keeps_cancel keeps_udp keeps_channel_open
  keeps_open_confirmation keeps_open_failure keeps_channel_close keeps_channel_data keeps_window_adjust keeps_Deinit
  keeps_protocol_version

lemma keeps_handle_message: "prot_ok p \<Longrightarrow> keeps2 (handle_message w m p)"
  by (cases m) (simp_all add: handle_message_def Let_def keeps_handlers)

lemma keeps_check: "prot_ok p \<Longrightarrow> keeps2 (checkProtocolFlow hs m p)"
  by (auto simp: checkProtocolFlow_def intro!: keeps2_bind keeps_drop split: flow.split)

lemma keeps_LmeReceive: "prot_ok p \<Longrightarrow> keeps2 (LmeReceive w len m p)"
  by (auto simp: LmeReceive_def Let_def keeps_drop intro!: keeps2_bind2 keeps_check keeps_handle_message split: flow.split)

lemma keeps2D: "keeps2 r \<Longrightarrow> \<exists>a p. r = Some (a, p) \<and> prot_ok p"
  by (auto simp: keeps2_def split: option.splits)

lemma keeps_thread_turn:
  assumes p: "prot_ok p" and t: "rx_turn n cancelled rx = Some t"
  shows "\<exists>go ok p'. lme_thread_turn w n cancelled rx p = Some (go, ok, p') \<and> prot_ok p'"
proof (cases "\<exists>m. t = Turn (Deliver m)")
  case True
  then obtain m where "t = Turn (Deliver m)" by blast
  moreover obtain st p' where "LmeReceive w Whole m p = Some (st, p')" "prot_ok p'"
    using keeps2D [OF keeps_LmeReceive [OF p]] by blast
  ultimately show ?thesis using t by (auto simp: lme_thread_turn_def Let_def)
next
  case False
  with p t show ?thesis
    by (cases t) (auto simp: lme_thread_turn_def prot_ok_def store_frame split: rx_result.splits)
qed

subsection \<open>The select thread\<close>

lemma findFWReq_loop_defined:
  "\<forall>r\<in>set rs. \<exists>q. get_request r p = Some q \<Longrightarrow> \<exists>x. findFWReq_loop m a rs p = Some x \<and>
    (\<forall>r. x = Some r \<longrightarrow> (\<exists>q. get_request r p = Some q \<and> pf_status q = LISTENING))"
  by (induction rs) auto

lemma findFWReq_defined:
  assumes "prot_ok p"
  shows "\<exists>x. findFWReq m a port p = Some x \<and> (\<forall>r. x = Some r \<longrightarrow> (\<exists>q. get_request r p = Some q \<and> pf_status q = LISTENING))"
  using findFWReq_loop_defined port_requests [OF assms] by (fastforce simp: findFWReq_def split: option.splits)

text \<open>No request counts the most channels its counter can hold.\<close>

definition counters_free :: "protocol \<Rightarrow> bool" where
  "counters_free p \<longleftrightarrow> (\<forall>e\<in>set (requests p). channelCount (snd e) \<noteq> - 1)"

lemma keeps_accept:
  assumes ok: "prot_ok p" and free: "counters_free p"
  shows "keeps2 (acceptConnection hs m a port p)"
proof (cases "acc_socket a = INVALID_SOCKET")
  case False
  obtain x where x: "findFWReq m a port p = Some x" "\<forall>r. x = Some r \<longrightarrow> (\<exists>q. get_request r p = Some q \<and> pf_status q = LISTENING)"
    using findFWReq_defined [OF ok] by blast
  show ?thesis
  proof (cases x)
    case (Some r)
    with x obtain q where q: "get_request r p = Some q" by blast
    then have max: "channelCount q \<noteq> - 1"
      using free map_of_SomeD [of "requests p" r q] by (fastforce simp: counters_free_def get_request_def)
    let ?c = "new_channel SocketChannel r (acc_socket a)"
    have put: "store_ok (openPorts p, map_put (acc_socket a) ?c (openChannels p),
        map_put r (IncreaseChannelCount q) (requests p), next_request p)"
      by (rule store_accept) (use ok q max in \<open>simp_all add: prot_ok_def store_def get_request_def new_channel_def\<close>)
    have inc: "store_ok (openPorts p, openChannels p, map_put r (IncreaseChannelCount q) (requests p), next_request p)"
    proof (rule store_update_request)
      show "channelCount q \<le> channelCount (IncreaseChannelCount q)"
        using unat_count_inc [OF max] by (simp add: IncreaseChannelCount_def word_le_nat_alt)
    qed (use ok q in \<open>simp_all add: prot_ok_def store_def get_request_def IncreaseChannelCount_def\<close>)
    have "prot_ok ((set_request r (IncreaseChannelCount q) p)\<lparr>lme := l\<rparr>)"
      "prot_ok (put_channel (acc_socket a) ?c ((set_request r (IncreaseChannelCount q) p)\<lparr>lme := l\<rparr>))" for l
      using put inc by (simp_all add: prot_ok_def store_def set_request_def put_channel_def)
    with False x(1) Some q show ?thesis
      by (auto simp: acceptConnection_def Let_def split: prod.splits)
  qed (use ok x False in \<open>simp add: acceptConnection_def\<close>)
qed (use ok in \<open>simp add: acceptConnection_def\<close>)

end
