(* ===== verification/Lme_Correct.thy ===== *)
theory Lme_Correct
  imports Lme_Receive
begin

text \<open>
  The wire format of the connection: what one side sends the other receives, a message cut short is
  rejected, and, for the message types that check their length, nothing behind the bytes just read has
  an influence. The contract of one message type is the locale \<open>wire_message\<close>.
\<close>

subsection \<open>The contract of a message type\<close>

locale wire_message =
  fixes enc :: "'a \<Rightarrow> bytes"
    and msg :: "'a \<Rightarrow> lme_message"
    and fits :: "'a \<Rightarrow> bool"
  assumes delivered: "fits a \<Longrightarrow> rx_message (enc a @ rest) (length (enc a)) = Some (Deliver (msg a))"
    and truncated: "fits a \<Longrightarrow> 0 < n \<Longrightarrow> n < length (enc a) \<Longrightarrow> rx_message (enc a @ rest) n = Some Bad"
    and msg_inj: "msg a = msg b \<Longrightarrow> a = b"
    and nonempty: "enc a \<noteq> []"
begin

lemma enc_inj: "fits a \<Longrightarrow> fits b \<Longrightarrow> enc a = enc b \<Longrightarrow> a = b"
  using delivered [of a "[]"] delivered [of b "[]"] by (auto intro: msg_inj)

lemma enc_prefix_free:
  assumes "fits a" "fits b" "enc a @ r = enc b @ s"
  shows "a = b"
proof (cases "length (enc a)" "length (enc b)" rule: linorder_cases)
  case less
  then show ?thesis
    using truncated [of b "length (enc a)" s] delivered [of a r] nonempty [of a] assms by simp
next
  case equal
  then show ?thesis
    using delivered [of a r] delivered [of b s] assms by (auto intro: msg_inj)
next
  case greater
  then show ?thesis
    using truncated [of a "length (enc b)" r] delivered [of b s] nonempty [of b] assms by simp
qed

lemma accepted_iff:
  "fits a \<Longrightarrow> 0 < n \<Longrightarrow> n \<le> length (enc a) \<Longrightarrow>
    rx_message (enc a @ rest) n = Some (Deliver (msg a)) \<longleftrightarrow> n = length (enc a)"
  using delivered [of a rest] truncated [of a n rest] by (cases "n = length (enc a)") auto

end

lemma ntohl_ucons: "0 < i \<Longrightarrow> ntohl (x # xs) i = ntohl xs (i - 1)"
  using ntohl_drop [of "[x]" xs "i - 1"] by simp

lemma ntohl_skip: "4 \<le> i \<Longrightarrow> ntohl (htonl w @ xs) i = ntohl xs (i - 4)"
  using ntohl_drop [of "htonl w" xs "i - 4"] by simp

lemma ntohl_htonl_end [simp]: "ntohl (htonl w) 0 = Some w"
  using ntohl_htonl [of w "[]"] by simp

lemma get_bytes_ucons: "0 < i \<Longrightarrow> get_bytes (x # xs) i n = get_bytes xs (i - 1) n"
  by (cases i) (auto simp: get_bytes_def)

lemma get_bytes_skip: "4 \<le> i \<Longrightarrow> get_bytes (htonl w @ xs) i n = get_bytes xs (i - 4) n"
  by (auto simp: get_bytes_def)

lemma get_bytes_here: "get_bytes (d @ rest) 0 (length d) = Some d"
  by (simp add: get_bytes_def)

lemma unat_len_32: "length d < 2 ^ 32 \<Longrightarrow> unat (of_nat (length d) :: u32) = length d"
  by (simp add: unat_of_nat)

lemmas wire_reads = rd_Cons ntohl_ucons ntohl_skip get_bytes_ucons get_bytes_skip get_bytes_here

lemmas wire_defs = rx_message_def apf_codes apf_sizes wire_reads







interpretation channel_data: wire_message "\<lambda>(r, d). enc_channel_data r d"
  "\<lambda>(r, d). Channel_data_msg r d" "\<lambda>(r, d). length d < 2 ^ 32"
  by unfold_locales (auto simp: enc_channel_data_def rx_channel_data_def wire_defs unat_len_32)

subsection \<open>Reading only the message\<close>

text \<open>The dispatch as if the buffer ended with the \<open>n\<close> bytes read: equal, and defined.\<close>

definition local :: "(bytes \<Rightarrow> nat \<Rightarrow> rx_result option) \<Rightarrow> bytes \<Rightarrow> nat \<Rightarrow> bool" where
  "local f rx n \<longleftrightarrow> f (take n rx) n = f rx n \<and> f rx n \<noteq> None"

lemma rd_take [simp]: "i < n \<Longrightarrow> rd (take n xs) i = rd xs i"
  by (simp add: rd_def)

lemma ntohl_take [simp]: "i + 4 \<le> n \<Longrightarrow> ntohl (take n xs) i = ntohl xs i"
  by (simp add: ntohl_def)

lemma get_bytes_take [simp]: "i + k \<le> n \<Longrightarrow> get_bytes (take n xs) i k = get_bytes xs i k"
  by (auto simp: get_bytes_def take_drop min_def)

lemma ntohl_some: "i + 4 \<le> length rx \<Longrightarrow> \<exists>w. ntohl rx i = Some w"
  using ntohl_in [of i rx] by blast

lemma get_bytes_some: "i + k \<le> length rx \<Longrightarrow> get_bytes rx i k = Some (take k (drop i rx))"
  by (simp add: get_bytes_def)

lemma strnicmp_some: "i + length cs \<le> length b \<Longrightarrow> strnicmp_eq b i cs \<noteq> None"
  by (induction b i cs rule: strnicmp_eq.induct) auto

lemma get_checked_local:
  assumes "n \<le> length rx" "cur \<le> n"
  obtains "get_checked rx n cur = Some None" "get_checked (take n rx) n cur = Some None"
  | s cur' where "get_checked rx n cur = Some (Some (s, cur'))" "get_checked (take n rx) n cur = Some (Some (s, cur'))"
      "cur' \<le> n"
proof (cases "n - cur < 4")
  case True
  then show ?thesis by (intro that(1)) (simp_all add: get_checked_def)
next
  case False
  then have "cur + 4 \<le> length rx"
    using assms by linarith
  from ntohl_some [OF this] obtain w where w: "ntohl rx cur = Some w" by blast
  show ?thesis
  proof (cases "n - (cur + 4) < unat w")
    case True
    with False w assms show ?thesis by (intro that(1)) (simp_all add: get_checked_def Let_def)
  next
    case False': False
    then have "cur + 4 + unat w \<le> n"
      using False assms by simp
    with False w assms False' show ?thesis
      by (intro that(2) [of "take (unat w) (drop (cur + 4) rx)" "cur + 4 + unat w"])
        (simp_all add: get_checked_def Let_def get_bytes_some take_drop)
  qed
qed

lemma local_disconnect: "n \<le> length rx \<Longrightarrow> local rx_disconnect rx n"
  using ntohl_some [of 1 rx] by (auto simp: local_def rx_disconnect_def apf_sizes)

lemma local_open_confirmation: "n \<le> length rx \<Longrightarrow> local rx_open_confirmation rx n"
  using ntohl_some [of 1 rx] ntohl_some [of 5 rx] ntohl_some [of 9 rx]
  by (auto simp: local_def rx_open_confirmation_def apf_sizes)

lemma local_open_failure: "n \<le> length rx \<Longrightarrow> local rx_open_failure rx n"
  using ntohl_some [of 1 rx] ntohl_some [of 5 rx] by (auto simp: local_def rx_open_failure_def apf_sizes)

lemma local_channel_close: "n \<le> length rx \<Longrightarrow> local rx_channel_close rx n"
  using ntohl_some [of 1 rx] by (auto simp: local_def rx_channel_close_def apf_sizes)

lemma local_window_adjust: "n \<le> length rx \<Longrightarrow> local rx_window_adjust rx n"
  using ntohl_some [of 1 rx] ntohl_some [of 5 rx] by (auto simp: local_def rx_window_adjust_def apf_sizes)

lemma local_protocol_version: "n \<le> length rx \<Longrightarrow> local rx_protocol_version rx n"
  using ntohl_some [of 1 rx] ntohl_some [of 5 rx] ntohl_some [of 9 rx]
  by (auto simp: local_def rx_protocol_version_def apf_sizes)

lemma local_channel_data: "n \<le> length rx \<Longrightarrow> local rx_channel_data rx n"
  using ntohl_some [of 1 rx] ntohl_some [of 5 rx]
  by (auto simp: local_def rx_channel_data_def apf_sizes get_bytes_some take_drop)

lemma local_userauth_request:
  assumes n: "n \<le> length rx" "1 \<le> n"
  shows "local rx_userauth_request rx n"
proof (cases rule: get_checked_local [OF n(1) n(2), case_names bad1 ok1])
  case (ok1 s1 c1)
  note ok1' = ok1
  show ?thesis
  proof (cases rule: get_checked_local [OF n(1) ok1(3), case_names bad2 ok2])
    case (ok2 s2 c2)
    show ?thesis
    proof (cases rule: get_checked_local [OF n(1) ok2(3), case_names bad3 ok3])
      case (ok3 s3 c3)
      have eq: "\<exists>b. (if length APF_AUTH_PASSWORD = length s3 then strnicmp_eq s3 0 APF_AUTH_PASSWORD else Some False) = Some b"
        using strnicmp_some [of 0 APF_AUTH_PASSWORD s3] by auto
      show ?thesis
      proof (cases "n - c3 < 5")
        case True
        with eq ok1' ok2 ok3 show ?thesis by (auto simp: local_def rx_userauth_request_def)
      next
        case False
        then have "Suc c3 + 4 \<le> length rx"
          using n by linarith
        from ntohl_some [OF this] obtain w where w: "ntohl rx (Suc c3) = Some w" by blast
        have "unat w + (Suc c3 + 4) \<le> n" if "\<not> n - (5 + c3) < unat w"
          using that False by simp
        with eq ok1' ok2 ok3 n False w show ?thesis
          by (auto simp: local_def rx_userauth_request_def Let_def get_bytes_some take_drop)
      qed
    qed (use ok1' ok2 in \<open>simp_all add: local_def rx_userauth_request_def\<close>)
  qed (use ok1' in \<open>simp_all add: local_def rx_userauth_request_def\<close>)
qed (simp_all add: local_def rx_userauth_request_def)

text \<open>The message types whose dispatch checks the bytes it reads.\<close>

definition checked_type :: "u8 \<Rightarrow> bool" where
  "checked_type t \<longleftrightarrow> t \<notin> {APF_SERVICE_REQUEST, APF_GLOBAL_REQUEST, APF_CHANNEL_OPEN}"

lemma checked_dispatch:
  assumes n: "0 < n" "n \<le> length rx" and t: "checked_type (rx ! 0)"
  shows "local rx_message rx n"
proof -
  have rd: "rd rx 0 = Some (rx ! 0)" "rd (take n rx) 0 = Some (rx ! 0)"
    using n by (auto simp: rd_def)
  note locals = local_disconnect [OF n(2)] local_userauth_request [OF n(2)] local_open_confirmation [OF n(2)]
    local_open_failure [OF n(2)] local_channel_close [OF n(2)] local_channel_data [OF n(2)]
    local_window_adjust [OF n(2)] local_protocol_version [OF n(2)]
  show ?thesis
    using t n locals unfolding local_def rx_message_def rd checked_type_def bind.bind_lunit
    by (simp del: not_None_eq)
qed

lemma strnicmp_same: "strnicmp_eq (pre @ cs @ rest) (length pre) cs = Some True"
proof (induction cs arbitrary: pre)
  case (Cons c cs)
  from Cons [of "pre @ [c]"] show ?case by (simp add: rd_append)
qed simp

lemma get_address_at:
  assumes "length address < 2 ^ 32"
  shows "get_address (pre @ htonl (of_nat (length address)) @ address @ htonl port @ rest) (length pre) =
    Some (address, port, length pre + 8 + length address)"
proof -
  let ?buf = "pre @ htonl (of_nat (length address)) @ address @ htonl port @ rest"
  have "get_bytes ?buf (length pre + 4) (length address) = Some address"
    using get_bytes_at [of "length pre + 4" "pre @ htonl (of_nat (length address))" "length address" address] by simp
  moreover have "ntohl ?buf (length pre + 4 + length address) = Some port"
    using ntohl_at [of "length pre + 4 + length address" "pre @ htonl (of_nat (length address)) @ address"] by simp
  ultimately show ?thesis
    using assms by (simp add: get_address_def ntohl_at unat_len_32)
qed

lemma get_address_short:
  assumes "length address < 2 ^ 32 - 1"
  shows "get_address (pre @ htonl (of_nat (Suc (length address))) @ address) (length pre) = None"
proof -
  have "unat (of_nat (Suc (length address)) :: u32) = Suc (length address)"
    using assms by (subst unat_of_nat) simp
  then show ?thesis
    by (simp add: get_address_def ntohl_at get_bytes_def del: of_nat_Suc)
qed

subsection \<open>The connection's invariant\<close>

lemma unat_ucast_32_64: "unat (ucast (w :: u32) :: u64) = unat w"
proof -
  have "unat w < 18446744073709551616"
    using unat_less_32 [of w] by simp
  then show ?thesis
    by (simp add: unsigned_ucast_eq take_bit_eq_mod)
qed

definition lme_ok :: "lme_connection \<Rightarrow> bool" where
  "lme_ok c \<longleftrightarrow> initState c \<in> {INIT_STATE_DISCONNECTED, INIT_STATE_CONNECTED} \<and>
     (initState c = INIT_STATE_CONNECTED \<longrightarrow> heciOpen c \<and> (\<exists>tx. txBuffer c = Some tx \<and> length tx = bufferSize c)) \<and>
     (initState c = INIT_STATE_DISCONNECTED \<longrightarrow> \<not> heciOpen c)"

lemma sendMessage_ok [simp]: "lme_ok (snd (sendMessage hs buf c)) \<longleftrightarrow> lme_ok c"
  by (simp add: sendMessage_def lme_ok_def)

lemma sendWhole_ok [simp]: "lme_ok (snd (sendWhole hs buf c)) \<longleftrightarrow> lme_ok c"
  by (simp add: sendWhole_def sendMessage_def lme_ok_def split: prod.splits)

lemma Disconnect_ok [simp]: "lme_ok (snd (lme_Disconnect hs r c)) \<longleftrightarrow> lme_ok c"
  by (simp add: lme_Disconnect_def sendMessage_def lme_ok_def split: prod.splits)

lemma Deinit_ok [simp]: "lme_ok (fst (lme_Deinit sig c))"
  by (simp add: lme_Deinit_def DeinitInternal_def lme_ok_def)

lemma Init_ok: "lme_ok c \<Longrightarrow> lme_ok (snd (lme_Init hi junk spawned started port_ok c))"
  by (cases hi) (auto simp: lme_Init_def lme_Deinit_def DeinitInternal_def lme_ok_def Let_def)

lemma channel_data_step:
  assumes "lme_ok c" and "IsInitialized c" and "9 \<le> bufferSize c" and "bufferSize c < 2 ^ 64" and "unat len \<le> length d"
  shows "if unat len + 9 \<le> bufferSize c
    then (\<exists>res c'. lme_ChannelData hs r len d c = Some (res, c') \<and> lme_ok c'
      \<and> bufferSize c' = bufferSize c \<and> sent c' = sent c @ [enc_channel_data r (take (unat len) d)])
    else lme_ChannelData hs r len d c = Some (- 1, c)"
proof -
  have conn: "initState c = INIT_STATE_CONNECTED"
    using assms(2) by (simp add: IsInitialized_def)
  with assms(1) obtain tx where tx: "txBuffer c = Some tx" "length tx = bufferSize c"
    by (auto simp: lme_ok_def)
  have le: "(9 :: u64) \<le> of_nat (bufferSize c)"
    using assms(3,4) by (simp add: word_le_nat_alt unat_of_nat_64)
  have room: "unat (of_nat (bufferSize c) - of_nat sizeof_channel_data :: u64) = bufferSize c - 9"
    using unat_sub [OF le] assms(4) by (simp add: sizeof_channel_data_def unat_of_nat_64)
  have cmp: "ucast len > (of_nat (bufferSize c) - of_nat sizeof_channel_data :: u64) \<longleftrightarrow> \<not> unat len + 9 \<le> bufferSize c"
    using assms(3) unfolding word_less_nat_alt room by (simp add: unat_ucast_32_64) arith
  show ?thesis
  proof (cases "unat len + 9 \<le> bufferSize c")
    case True
    then have "length (enc_channel_data r (take (unat len) d)) \<le> length tx"
      using tx(2) by (simp add: enc_channel_data_def)
    then show ?thesis
      using True cmp conn tx assms
      by (auto simp: lme_ChannelData_def get_bytes_some Let_def sendMessage_def lme_ok_def)
  next
    case False
    then show ?thesis
      using cmp conn by (simp add: lme_ChannelData_def)
  qed
qed

subsection \<open>Properties\<close>



text \<open>A channel data message cut short at any point is rejected, and two data messages one of which is a
  prefix of the other are the same message.\<close>

theorem channel_data_cut_short:
  assumes "length d < 2 ^ 32" and "length e < 2 ^ 32"
  shows "(\<forall>n\<in>{1..<9 + length d}. rx_message (enc_channel_data r d @ rest) n = Some Bad)
    \<and> (enc_channel_data r d @ x = enc_channel_data q e @ y \<longrightarrow> r = q \<and> d = e)"
  using channel_data.truncated [of "(r, d)" _ rest] channel_data.enc_prefix_free [of "(r, d)" "(q, e)" x y] assms
  by (simp add: enc_channel_data_def)

lemma channel_data_cut_short_witness:
  "rx_message (enc_channel_data 3 [1, 2]) 10 = Some Bad"
  using channel_data_cut_short [of "[1, 2]" "[]" 3 "[]" "[]" 0 "[]"] by simp

text \<open>C15. For every message type but service requests, global requests and channel opens, the dispatch never
  reads outside the buffer, and its result is decided by the bytes just read alone: what earlier messages
  left behind them has no influence.\<close>

theorem rx_reads_only_message:
  assumes "0 < n" and "n \<le> length rx" and "checked_type (rx ! 0)"
  shows "rx_message rx n \<noteq> None \<and> rx_message rx n = rx_message (take n rx) n"
  using checked_dispatch [OF assms] by (simp add: local_def)

lemma rx_reads_only_message_witness: "rx_message [97, 0, 0, 0, 7, 1, 2] 5 = rx_message [97, 0, 0, 0, 7] 5"
  using rx_reads_only_message [of 5 "[97, 0, 0, 0, 7, 1, 2]"] by (simp add: checked_type_def apf_codes)

text \<open>A service request may claim a name one byte longer than the message: the guard counts the size of an
  enumeration constant, four, for the five bytes of the header, and the name delivered ends with whatever
  byte an earlier message left in the buffer.\<close>

theorem service_request_stale_byte:
  assumes "length name < 2 ^ 32 - 1"
  shows "rx_message ([APF_SERVICE_REQUEST] @ htonl (of_nat (length name + 1)) @ name @ stale # rest) (5 + length name) =
    Some (Deliver (Service_request_msg (name @ [stale])))"
proof -
  have "unat (of_nat (length name + 1) :: u32) = length (name @ [stale])"
    using assms by (subst unat_of_nat) simp
  moreover have "get_bytes (name @ stale # rest) 0 (length (name @ [stale])) = Some (name @ [stale])"
    using get_bytes_here [of "name @ [stale]" rest] by simp
  ultimately show ?thesis
    by (simp add: rx_message_def apf_codes wire_reads rx_service_request_def del: of_nat_Suc of_nat_add)
qed

lemma service_request_stale_byte_witness:
  "rx_message ([APF_SERVICE_REQUEST] @ htonl 2 @ [65] @ [90, 1]) 6 = Some (Deliver (Service_request_msg [65, 90]))"
  using service_request_stale_byte [of "[65]" 90 "[1]"] by simp

text \<open>A forwarding request that ends right after its name passes the length check; its address and port are
  then read from what an earlier message left in the buffer, and a length field found there that exceeds
  the buffer makes the dispatch read outside it.\<close>

theorem tcp_forward_reads_stale:
  assumes "length address < 2 ^ 32 - 1"
  shows "rx_message ([APF_GLOBAL_REQUEST] @ htonl 13 @ APF_GLOBAL_REQUEST_STR_TCP_FORWARD_REQUEST @ [1]
      @ htonl (of_nat (length address)) @ address @ htonl port @ rest) 19 = Some (Deliver (Tcp_forward_msg address port))
    \<and> rx_message ([APF_GLOBAL_REQUEST] @ htonl 13 @ APF_GLOBAL_REQUEST_STR_TCP_FORWARD_REQUEST @ [1]
      @ htonl (of_nat (Suc (length address))) @ address) 19 = None"
proof -
  let ?pre = "[APF_GLOBAL_REQUEST] @ htonl 13 @ APF_GLOBAL_REQUEST_STR_TCP_FORWARD_REQUEST @ [1]"
  have name: "length APF_GLOBAL_REQUEST_STR_TCP_FORWARD_REQUEST = 13" "length ?pre = 19"
    by (simp_all add: apf_strings)
  have eq: "strnicmp_eq (?pre @ x) 5 APF_GLOBAL_REQUEST_STR_TCP_FORWARD_REQUEST = Some True" for x
    using strnicmp_same [of "[APF_GLOBAL_REQUEST] @ htonl 13" APF_GLOBAL_REQUEST_STR_TCP_FORWARD_REQUEST "1 # x"] by simp
  have dispatch: "rx_message (?pre @ x) 19 =
      Option.bind (get_address (?pre @ x) 19) (\<lambda>(a, p, _). Some (Deliver (Tcp_forward_msg a p)))" for x
    using eq [of x] name(1) by (simp add: rx_message_def apf_codes rd_Cons ntohl_ucons rx_global_request_def apf_sizes)
  show ?thesis
    using dispatch [of "htonl (of_nat (length address)) @ address @ htonl port @ rest"]
      dispatch [of "htonl (of_nat (Suc (length address))) @ address"]
      get_address_at [of address ?pre port rest] get_address_short [of address ?pre] assms name
    by (simp del: of_nat_Suc)
qed

lemma tcp_forward_reads_stale_witness:
  "rx_message ([APF_GLOBAL_REQUEST] @ htonl 13 @ APF_GLOBAL_REQUEST_STR_TCP_FORWARD_REQUEST @ [1] @ htonl 2 @ [65]) 19 = None"
  using tcp_forward_reads_stale [of "[65]"] by simp

lemma emit_all:
  "length buf + length field \<le> sz \<Longrightarrow> emit sz field buf = Some (buf @ field)"
  by (simp add: emit_def)

text \<open>The request to open a forwarded channel never runs into its overflow check, fills the buffer allocated
  for it exactly, and carries the channel number, the window and both addresses at the places the
  protocol gives them.\<close>

theorem open_forwarded_exact:
  "\<exists>buf. enc_open_forwarded ch ip port oip oport = Some buf \<and> length buf = forwarded_size ip oip
    \<and> ntohl buf 20 = Some ch \<and> ntohl buf 24 = Some RX_WINDOW_SIZE
    \<and> ntohl buf 32 = Some (of_nat (length ip)) \<and> get_bytes buf 36 (length ip) = Some ip
    \<and> ntohl buf (36 + length ip) = Some port
    \<and> get_bytes buf (44 + length ip) (length oip) = Some oip
    \<and> ntohl buf (44 + length ip + length oip) = Some oport"
proof -
  let ?h = "[APF_CHANNEL_OPEN] @ htonl 15 @ APF_OPEN_CHANNEL_REQUEST_FORWARDED"
  let ?b1 = "?h @ htonl ch @ htonl RX_WINDOW_SIZE @ replicate 4 255 @ htonl (of_nat (length ip)) @ ip"
  let ?b = "?b1 @ htonl port @ htonl (of_nat (length oip)) @ oip @ htonl oport"
  have name: "length APF_OPEN_CHANNEL_REQUEST_FORWARDED = 15" "length ?h = 20"
    by (simp_all add: apf_strings)
  have e: "enc_open_forwarded ch ip port oip oport = Some ?b"
    by (simp add: enc_open_forwarded_def emit_all forwarded_size_def name)
  have "ntohl ?b 20 = Some ch" "ntohl ?b 24 = Some RX_WINDOW_SIZE" "ntohl ?b 32 = Some (of_nat (length ip))"
    "get_bytes ?b 36 (length ip) = Some ip"
    using ntohl_at [of 20 ?h] ntohl_at [of 24 "?h @ htonl ch"]
      ntohl_at [of 32 "?h @ htonl ch @ htonl RX_WINDOW_SIZE @ replicate 4 255"]
      get_bytes_at [of 36 "?h @ htonl ch @ htonl RX_WINDOW_SIZE @ replicate 4 255 @ htonl (of_nat (length ip))"] name
    by simp_all
  moreover have "ntohl ?b (36 + length ip) = Some port" "get_bytes ?b (44 + length ip) (length oip) = Some oip"
    "ntohl ?b (44 + length ip + length oip) = Some oport"
    using ntohl_at [of "36 + length ip" ?b1] name
      get_bytes_at [of "44 + length ip" "?b1 @ htonl port @ htonl (of_nat (length oip))" "length oip" oip]
      ntohl_at [of "44 + length ip + length oip" "?b1 @ htonl port @ htonl (of_nat (length oip)) @ oip" oport "[]"]
    by simp_all
  ultimately show ?thesis
    using e name by (simp add: forwarded_size_def)
qed

text \<open>\<open>Init\<close> leaves the connection either up, with the driver open and a transmit buffer of the driver's
  size, or down with the driver closed; it reports success exactly in the first case.\<close>

theorem lme_init_correct:
  assumes "lme_ok c" and "lme_Init hi junk spawned started port_ok c = (res, c')"
  shows "lme_ok c' \<and> (res \<longleftrightarrow> IsInitialized c') \<and> (res \<longleftrightarrow> hi = Heci_ok \<and> spawned \<and> started \<and> port_ok)
    \<and> (clientNotFound c' \<longleftrightarrow> hi = Heci_no_client) \<and> sent c' = sent c"
  using Init_ok [OF assms(1), of hi junk spawned started port_ok] assms
  by (cases hi) (auto simp: lme_Init_def lme_Deinit_def DeinitInternal_def lme_ok_def Let_def IsInitialized_def split: if_splits)

lemma lme_init_correct_witness:
  "lme_ok (LMEConnection 20) \<and> IsInitialized (snd (lme_Init Heci_ok (\<lambda>_. 0) True True True (LMEConnection 20)))"
proof -
  have ok: "lme_ok (LMEConnection 20)"
    by (simp add: lme_ok_def LMEConnection_def)
  obtain res c' where r: "lme_Init Heci_ok (\<lambda>_. 0) True True True (LMEConnection 20) = (res, c')"
    by (cases "lme_Init Heci_ok (\<lambda>_. 0) True True True (LMEConnection 20)")
  from lme_init_correct [OF ok r] have "IsInitialized c'" by blast
  with r ok show ?thesis by simp
qed

text \<open>On a connection whose driver takes at least a data header, sending channel data stays inside the
  transmit buffer for every length: a payload that does not fit is refused and nothing is sent, any other
  goes out as one data message.\<close>

theorem channel_data_in_bounds:
  assumes "lme_ok c" and "IsInitialized c" and "9 \<le> bufferSize c" and "bufferSize c < 2 ^ 64" and "unat len \<le> length d"
  shows "if unat len + 9 \<le> bufferSize c
    then (\<exists>res c'. lme_ChannelData hs r len d c = Some (res, c') \<and> lme_ok c'
      \<and> sent c' = sent c @ [enc_channel_data r (take (unat len) d)])
    else lme_ChannelData hs r len d c = Some (- 1, c)"
  using channel_data_step [OF assms, of hs r] by (auto split: if_splits)

lemma channel_data_in_bounds_witness:
  "lme_ChannelData (\<lambda>_. None) 5 3 [1, 2, 3] (LMEConnection 11\<lparr>initState := INIT_STATE_CONNECTED, heciOpen := True,
    txBuffer := Some (replicate 11 0)\<rparr>) = Some (- 1, LMEConnection 11\<lparr>initState := INIT_STATE_CONNECTED,
    heciOpen := True, txBuffer := Some (replicate 11 0)\<rparr>)"
  using channel_data_in_bounds [of "LMEConnection 11\<lparr>initState := INIT_STATE_CONNECTED, heciOpen := True,
    txBuffer := Some (replicate 11 0)\<rparr>" 3 "[1, 2, 3]" "\<lambda>_. None" 5]
  by (simp add: lme_ok_def LMEConnection_def IsInitialized_def)

end
