(* ===== verification/Protocol_Link.thy ===== *)
theory Protocol_Link
  imports Protocol_Safety Lme_Correct
begin

text \<open>
  Every operation of the protocol leaves the connection to the engine in one of its two states: down with the
  driver closed, or up with a transmit buffer of the driver's size.
\<close>

definition link :: "lme_connection \<Rightarrow> bool" where
  "link c \<longleftrightarrow> lme_ok c \<and> 9 \<le> bufferSize c \<and> bufferSize c < 2 ^ 64"

named_theorems link_frame \<open>operations that keep the connection in order\<close>

lemma link_sendMessage [simp]: "link (snd (sendMessage hs buf c)) = link c"
  by (auto simp: sendMessage_def link_def lme_ok_def)

lemma link_sendWhole [simp]: "link (snd (sendWhole hs buf c)) = link c"
  by (auto simp: sendWhole_def sendMessage_def link_def lme_ok_def split: prod.splits)

lemma link_senders [simp]:
  "link (snd (lme_Disconnect hs reason c)) = link c" "link (snd (ServiceAccept hs name c)) = link c"
  "link (snd (UserAuthSuccess hs c)) = link c" "link (snd (ProtocolVersion hs a b t c)) = link c"
  "link (snd (TcpForwardReplySuccess hs port c)) = link c" "link (snd (TcpForwardReplyFailure hs c)) = link c"
  "link (snd (TcpForwardCancelReplySuccess hs c)) = link c" "link (snd (TcpForwardCancelReplyFailure hs c)) = link c"
  "link (snd (ChannelOpenReplaySuccess hs r s c)) = link c" "link (snd (ChannelOpenReplayFailure hs r n c)) = link c"
  "link (snd (lme_ChannelClose hs r c)) = link c" "link (snd (ChannelWindowAdjust hs r n c)) = link c"
  by (simp_all add: ServiceAccept_def UserAuthSuccess_def ProtocolVersion_def TcpForwardReplySuccess_def
      TcpForwardReplyFailure_def TcpForwardCancelReplySuccess_def TcpForwardCancelReplyFailure_def
      ChannelOpenReplaySuccess_def ChannelOpenReplayFailure_def lme_ChannelClose_def ChannelWindowAdjust_def)
    (auto simp: lme_Disconnect_def sendMessage_def link_def lme_ok_def split: prod.splits)

lemma link_open_forwarded [simp]: "link (snd (ChannelOpenForwardedRequest hs s a port b q c)) = link c"
  by (auto simp: ChannelOpenForwardedRequest_def sendMessage_def link_def lme_ok_def split: option.splits prod.splits)

lemma link_Deinit [simp]: "link c \<Longrightarrow> link (fst (lme_Deinit b c))"
  by (auto simp: link_def) (simp_all add: lme_Deinit_def DeinitInternal_def)

lemma link_Init: "link c \<Longrightarrow> link (snd (lme_Init hi junk spawned started opened c))"
  using Init_ok [of c hi junk spawned started opened]
  by (cases hi) (auto simp: link_def lme_Init_def lme_Deinit_def DeinitInternal_def Let_def)

subsection \<open>What leaves the connection alone\<close>

lemma lme_closeSockets [simp]: "lme (closeSockets ss p) = lme p"
  by (simp add: closeSockets_eq)

lemma lme_outputs [simp]:
  "lme (effect_out x p) = lme p" "lme (signalSelect p) = lme p" "lme (SignalSelect p) = lme p" "lme (closeSocket s p) = lme p"
  "lme (put_channel k c p) = lme p" "lme (erase_channel k p) = lme p" "lme (set_request r q p) = lme p"
  "lme (deinit_channels p) = lme p" "lme (deinit_rest p) = lme p" "lme (deinit_lme p) = fst (lme_Deinit False (lme p))"
  "lme (on_lme f p) = snd (f (lme p))"
  by (simp_all add: effect_out_def signalSelect_def SignalSelect_def closeSocket_def put_channel_def erase_channel_def
      set_request_def deinit_channels_def deinit_rest_def deinit_lme_def on_lme_def)

lemma lme_createSocket: "createSocket a st p = (x, p') \<Longrightarrow> lme p' = lme p"
  by (auto simp: createSocket_def split: if_splits prod.splits bool.splits)

lemma lme_server: "createServerSocket as p = (x, p') \<Longrightarrow> lme p' = lme p"
proof -
  have "lme (snd (server_loop l vs st p)) = lme p" for l vs st
    by (induction l vs st p rule: server_loop.induct) (auto dest: lme_createSocket split: prod.splits)
  then show "createServerSocket as p = (x, p') \<Longrightarrow> lme p' = lme p"
    by (auto simp: createServerSocket_def split: option.splits) (metis snd_conv)
qed

lemma lme_connect: "connect as p = (s, p') \<Longrightarrow> lme p' = lme p"
proof -
  have "lme (snd (connect_loop as s p)) = lme p" for s
    by (induction as s p rule: connect_loop.induct) (auto dest: lme_createSocket split: prod.splits)
  then show "connect as p = (s, p') \<Longrightarrow> lme p' = lme p"
    unfolding connect_def by (metis snd_conv)
qed

lemma lme_failure_reported: "failure_reported port p = (b, p') \<Longrightarrow> lme p' = lme p"
  by (auto simp: failure_reported_def split: option.splits)

lemma lme_updateIPFQDN [simp]: "lme (prot_updateIPFQDN w fqdn p) = lme p"
  by (auto simp: prot_updateIPFQDN_def Let_def split: prod.splits)

lemma lme_rx_effects [simp]: "lme (rx_effects c d out p) = lme p"
proof -
  have "lme (fold (\<lambda>a. effect_out (Published a)) out p) = lme p"
    by (induction out arbitrary: p) simp_all
  then show ?thesis by (auto simp: rx_effects_def split: channel_kind.splits)
qed

lemma lme_delete: "delete_request r p = Some p' \<Longrightarrow> lme p' = lme p"
  by (auto simp: delete_request_def bind_eq_Some_conv)

lemma lme_close:
  assumes "closePortForwardRequest r p = Some p'"
  shows "lme p' = lme p"
proof -
  from assms obtain q where q: "get_request r p = Some q"
    by (cases "get_request r p") (simp_all add: closePortForwardRequest_def)
  show ?thesis
  proof (cases "delete_request r p")
    case (Some p1)
    from lme_delete [OF this] Some q assms show ?thesis
      by (auto simp: closePortForwardRequest_def Let_def split: option.splits if_splits)
  qed (use q assms in \<open>auto simp: closePortForwardRequest_def split: option.splits if_splits\<close>)
qed

lemma lme_close_request: "close_request r p = Some p' \<Longrightarrow> lme p' = lme p"
  by (auto simp: close_request_def dest: lme_close split: option.splits)

lemma lme_delete_all: "foldM delete_request rs p = Some p' \<Longrightarrow> lme p' = lme p"
  by (rule foldM_keep [where I = "\<lambda>t. lme t = lme p"]) (auto dest: lme_delete)

lemma lme_deinit_port: "deinit_port rs p = Some p' \<Longrightarrow> lme p' = lme p"
  by (auto simp: deinit_port_def bind_eq_Some_conv dest: lme_delete_all split: list.splits simp del: foldM.simps)

lemma lme_deinit_all: "foldM deinit_port rss p = Some p' \<Longrightarrow> lme p' = lme p"
  by (rule foldM_keep [where I = "\<lambda>t. lme t = lme p"]) (auto dest: lme_deinit_port)

lemma lme_Deinit_prot: "prot_Deinit p = Some p' \<Longrightarrow> lme p' = fst (lme_Deinit False (lme p))"
  by (auto simp: prot_Deinit_def deinit_ports_def bind_eq_Some_conv dest: lme_deinit_all)

subsection \<open>The handlers\<close>

lemma link_Deinit_prot: "prot_Deinit p = Some p' \<Longrightarrow> link (lme p) \<Longrightarrow> link (lme p')"
  by (simp add: lme_Deinit_prot)

lemma link_drop: "drop_connection hs reason p = Some p' \<Longrightarrow> link (lme p) \<Longrightarrow> link (lme p')"
  by (auto simp: drop_connection_def dest: link_Deinit_prot)

lemma lme_activate: "activate_pending rs p = Some p' \<Longrightarrow> lme p' = lme p"
  unfolding activate_pending_def
  by (rule foldM_keep [where I = "\<lambda>t. lme t = lme p"]) (auto simp: bind_eq_Some_conv split: if_splits)

lemma lme_updateEnterprise: "updateEnterpriseAccessStatus reply m b p = Some p' \<Longrightarrow> lme p' = lme p"
  by (auto simp: updateEnterpriseAccessStatus_def bind_eq_Some_conv Let_def dest: lme_activate split: prod.splits if_splits)

lemma lme_checkRemoteSupport: "checkRemoteSupport w b p = Some p' \<Longrightarrow> lme p' = lme p"
  by (auto simp: checkRemoteSupport_def Let_def dest: lme_updateEnterprise split: option.splits if_splits)

lemma lme_checkRemoteAccess: "checkRemoteAccessStatus p = Some p' \<Longrightarrow> lme p' = lme p"
  by (auto simp: checkRemoteAccessStatus_def bind_eq_Some_conv split: if_splits)

lemmas lme_dests = link_drop link_Deinit_prot lme_close lme_close_request lme_checkRemoteSupport lme_checkRemoteAccess
  lme_connect lme_server lme_failure_reported

lemma link_forward_failed: "forward_failed hs port p = Some (st, p') \<Longrightarrow> link (lme p) \<Longrightarrow> link (lme p')"
  by (auto simp: forward_failed_def bind_eq_Some_conv Let_def dest!: lme_dests(9) split: prod.splits if_splits elim!: link_drop)

lemma link_forward_added: "forward_added w a port lcl vs p = Some (st, p') \<Longrightarrow> link (lme p) \<Longrightarrow> link (lme p')"
  by (auto simp: forward_added_def alloc_request_def bind_eq_Some_conv Let_def dest!: lme_dests(5,9) split: prod.splits if_splits)

lemma lme_lookup: "forward_lookup a port p = Some (b, vs, p') \<Longrightarrow> lme p' = lme p"
  by (auto simp: forward_lookup_def bind_eq_Some_conv split: option.splits list.splits)

lemma link_tcp_forward:
  assumes "on_tcp_forward w a port p = Some (st, p')" and "link (lme p)"
  shows "link (lme p')"
proof -
  from assms(1) obtain b vs p1 where l: "forward_lookup a port p = Some (b, vs, p1)"
    by (auto simp: on_tcp_forward_def Let_def bind_eq_Some_conv)
  obtain vs' st' p2 where c: "createServerSocket (listen_addrs w port) p1 = ((vs', st'), p2)"
    by (metis prod.exhaust)
  from lme_lookup [OF l] lme_server [OF c] assms(2) have "link (lme p1)" "link (lme p2)" by simp_all
  with assms(1) l c show ?thesis
    by (auto simp: on_tcp_forward_def Let_def elim: link_forward_failed link_forward_added split: if_splits)
qed

lemma link_cancel:
  assumes "on_tcp_forward_cancel hs a port p = Some p'" and "link (lme p)"
  shows "link (lme p')"
proof (cases "map_of (openPorts p) port")
  case (Some rs)
  with assms(1) obtain x where x: "find_forward a rs p = Some x"
    by (auto simp: on_tcp_forward_cancel_def bind_eq_Some_conv)
  show ?thesis
  proof (cases x)
    case None
    with Some x assms show ?thesis by (auto simp: on_tcp_forward_cancel_def)
  next
    case r: (Some r)
    with Some x assms(1) obtain q p1 p2 where q: "get_request r p = Some q"
      and p1: "(if channelCount q = 0 then closePortForwardRequest r (set_request r (q\<lparr>pf_status := NOT_ACTIVE\<rparr>) p)
        else Some (set_request r (q\<lparr>pf_status := NOT_ACTIVE\<rparr>) p)) = Some p1"
      and p2: "(if isRemoteAPFAddress a then checkRemoteAccessStatus p1 else Some p1) = Some p2"
      and p': "p' = on_lme (TcpForwardCancelReplySuccess hs) p2"
      by (auto simp: on_tcp_forward_cancel_def Let_def bind_eq_Some_conv simp del: if_split)
    have "lme p1 = lme p" using p1 by (auto dest!: lme_close split: if_splits)
    moreover have "lme p2 = lme p1" using p2 by (auto dest!: lme_checkRemoteAccess split: if_splits)
    ultimately show ?thesis using p' assms(2) by simp
  qed
qed (use assms in \<open>auto simp: on_tcp_forward_cancel_def\<close>)

lemma lme_release: "release_channel k c p = Some (r, p') \<Longrightarrow> lme p' = lme p"
  by (auto simp: release_channel_def bind_eq_Some_conv Let_def split: if_splits)

lemma link_open_failure: "on_open_failure k p = Some p' \<Longrightarrow> link (lme p) \<Longrightarrow> link (lme p')"
  by (auto simp: on_open_failure_def open_failure_channels_def bind_eq_Some_conv
    dest!: lme_release lme_close_request split: option.splits)

lemma link_close_channels: "close_channels hs k p = Some (r, p') \<Longrightarrow> link (lme p) \<Longrightarrow> link (lme p')"
  by (auto simp: close_channels_def Let_def dest!: lme_release split: option.splits if_splits)

lemma link_channel_close: "on_channel_close hs k p = Some p' \<Longrightarrow> link (lme p) \<Longrightarrow> link (lme p')"
  by (auto simp: on_channel_close_def bind_eq_Some_conv dest!: lme_close_request dest: link_close_channels)

lemma link_udp: "on_udp_send_to w a port d p = Some p' \<Longrightarrow> link (lme p) \<Longrightarrow> link (lme p')"
  by (auto simp: on_udp_send_to_def dest!: lme_connect split: option.splits prod.splits if_splits)

lemma link_channel_open: "on_channel_open w sender win a port p = Some p' \<Longrightarrow> link (lme p) \<Longrightarrow> link (lme p')"
  by (auto simp: on_channel_open_def open_channel_def Let_def dest!: lme_connect split: option.splits prod.splits if_splits)

lemma link_open_confirmation: "on_open_confirmation k sender win p = Some p' \<Longrightarrow> link (lme p) \<Longrightarrow> link (lme p')"
  by (auto simp: on_open_confirmation_def Let_def split: option.splits)

lemma link_window_adjust: "on_window_adjust k n p = Some p' \<Longrightarrow> link (lme p) \<Longrightarrow> link (lme p')"
  by (auto simp: on_window_adjust_def split: option.splits)

lemma link_channel_data: "on_channel_data w k d p = Some p' \<Longrightarrow> link (lme p) \<Longrightarrow> link (lme p')"
  by (auto simp: on_channel_data_def Let_def split: option.splits prod.splits if_splits)

lemma link_service_request: "on_service_request hs name p = Some p' \<Longrightarrow> link (lme p) \<Longrightarrow> link (lme p')"
  by (auto simp: on_service_request_def Let_def elim: link_drop split: if_splits)

lemma link_userauth: "on_userauth_request hs p = Some p' \<Longrightarrow> link (lme p) \<Longrightarrow> link (lme p')"
  by (auto simp: on_userauth_request_def)

lemma link_protocol_version: "on_protocol_version hs major minor p = Some p' \<Longrightarrow> link (lme p) \<Longrightarrow> link (lme p')"
  by (auto simp: on_protocol_version_def Let_def elim!: link_drop split: if_splits)

lemmas link_handlers = link_service_request link_userauth link_tcp_forward link_cancel link_udp link_channel_open
  link_open_confirmation link_open_failure link_channel_close link_channel_data link_window_adjust link_Deinit_prot
  link_protocol_version

lemma link_handle_message: "handle_message w m p = Some (st, p') \<Longrightarrow> link (lme p) \<Longrightarrow> link (lme p')"
  by (cases m) (auto simp: handle_message_def Let_def dest: link_handlers)

lemma link_check: "checkProtocolFlow hs m p = Some (b, p') \<Longrightarrow> link (lme p) \<Longrightarrow> link (lme p')"
  by (auto simp: checkProtocolFlow_def bind_eq_Some_conv elim: link_drop split: flow.splits if_splits)

lemma link_LmeReceive:
  assumes e: "LmeReceive w len m p = Some (st, p')" and "link (lme p)"
  shows "link (lme p')"
proof (cases "len = Shorter_than_header \<or> message_flow m = Not_allowed")
  case True
  with assms show ?thesis
    by (auto simp: LmeReceive_def Let_def elim: link_drop link_handle_message split: if_splits)
next
  case False
  with e obtain b p1 where c: "checkProtocolFlow (heci w) m p = Some (b, p1)"
    by (cases "checkProtocolFlow (heci w) m p") (auto simp: LmeReceive_def Let_def split: flow.splits)
  from link_check [OF c] assms(2) have "link (lme p1)" .
  with False e c show ?thesis
    by (auto simp: LmeReceive_def Let_def elim: link_drop link_handle_message split: flow.splits if_splits)
qed

lemma link_accept: "acceptConnection hs m a port p = Some (b, p') \<Longrightarrow> link (lme p) \<Longrightarrow> link (lme p')"
proof (rule ccontr)
  assume e: "acceptConnection hs m a port p = Some (b, p')" and l: "link (lme p)" "\<not> link (lme p')"
  then obtain x where x: "findFWReq m a port p = Some x"
    by (cases "findFWReq m a port p") (auto simp: acceptConnection_def split: if_splits)
  show False
  proof (cases x)
    case (Some r)
    with e l x obtain q where q: "get_request r p = Some q"
      by (cases "get_request r p") (auto simp: acceptConnection_def split: if_splits)
    obtain ok c where o': "ChannelOpenForwardedRequest hs (acc_socket a) (if acc_inet a then str ''127.0.0.1'' else str ''::1'') port
        (if pf_local q then (if acc_inet a then str ''127.0.0.1'' else str ''::1'') else takeWhile (\<lambda>b. b \<noteq> 37) (acc_address a))
        (ucast (acc_port a)) (lme p) = (ok, c)"
      by fastforce
    then have "link c" using l(1) by (metis link_open_forwarded snd_conv)
    with e l x Some q o' show False
      by (auto simp: acceptConnection_def Let_def split: if_splits)
  qed (use e l x in \<open>auto simp: acceptConnection_def split: if_splits\<close>)
qed

lemma link_rx_end: "link (lme (rx_end hs s c res p)) = link (lme p)"
  by (auto simp: rx_end_def split: option.splits)

text \<open>What \<^verbatim>\<open>recv\<close> promises: at most the length asked for, and the bytes it counts.\<close>

definition recv_result :: "nat \<Rightarrow> int \<Rightarrow> bytes \<Rightarrow> bool" where
  "recv_result len res d \<longleftrightarrow> res \<le> int len \<and> (0 < res \<longrightarrow> nat res \<le> length d)"

lemma unat_of_int_32: "0 < n \<Longrightarrow> n < 2 ^ 32 \<Longrightarrow> unat (of_int n :: u32) = nat n"
  by (simp add: unat_eq_nat_uint uint_word_of_int_eq take_bit_int_eq_self)

lemma rx_forward_defined:
  assumes l: "link (lme p)" and r: "recv_result len res d" "len < 2 ^ 32"
  shows "\<exists>l'. rx_forward hs c res d p = Some (p\<lparr>lme := l'\<rparr>) \<and> link l'"
proof (cases "0 < res")
  case True
  then have n: "unat (of_int res :: u32) = nat res"
    using r unat_of_int_32 [of res] by (simp add: recv_result_def)
  show ?thesis
  proof (cases "IsInitialized (lme p)")
    case up: True
    have "unat (of_int res :: u32) \<le> length d" using r True by (simp add: recv_result_def n)
    moreover have "lme_ok (lme p)" "9 \<le> bufferSize (lme p)" "bufferSize (lme p) < 2 ^ 64" using l by (simp_all add: link_def)
    ultimately have b: "if unat (of_int res :: u32) + 9 \<le> bufferSize (lme p)
      then (\<exists>r' c'. lme_ChannelData hs (recipientChannel c) (of_int res) d (lme p) = Some (r', c') \<and> lme_ok c'
        \<and> bufferSize c' = bufferSize (lme p))
      else lme_ChannelData hs (recipientChannel c) (of_int res) d (lme p) = Some (- 1, lme p)"
      using channel_data_step [OF _ up] by metis
    have "\<exists>r' l'. lme_ChannelData hs (recipientChannel c) (of_int res) d (lme p) = Some (r', l') \<and> link l'"
    proof (cases "unat (of_int res :: u32) + 9 \<le> bufferSize (lme p)")
      case True
      with b l show ?thesis by (auto simp: link_def)
    qed (use b l in auto)
    then show ?thesis
      using True by (auto simp: rx_forward_def)
  next
    case False
    with True l show ?thesis
      by (auto simp: rx_forward_def lme_ChannelData_def IsInitialized_def intro!: exI [of _ "lme p"])
  qed
next
  case False
  with l show ?thesis by (auto simp: rx_forward_def intro!: exI [of _ "lme p"])
qed

end
