(* ===== verification/Protocol_Machine.thy ===== *)
theory Protocol_Machine
  imports Protocol_Link
begin

text \<open>
  The protocol as the threads run it. The receive thread handles the engine's messages; a message that ends a
  channel, and \<^verbatim>\<open>Deinit\<close>, release the locks in between. The select thread accepts connections and moves data:
  it copies the channel, reads from the socket and sends without a lock, and then updates the channel. The
  adapter thread reports new suffixes. One step is one critical section; a result \<^term>\<open>None\<close> is the use of a
  deleted request.
\<close>

datatype rx_phase = Rx_idle | Rx_closing addr | Rx_deinit

datatype select_phase = Select_idle | Copied SOCKET channel | Received SOCKET channel int

record machine =
  prot :: protocol
  rx_thread :: rx_phase
  select_thread :: select_phase

definition to_machine :: "machine \<Rightarrow> rx_phase \<Rightarrow> select_phase \<Rightarrow> protocol option \<Rightarrow> machine option" where
  "to_machine m rx sel r = map_option (\<lambda>p. m\<lparr>prot := p, rx_thread := rx, select_thread := sel\<rparr>) r"

text \<open>The first section of a message that ends a channel.\<close>

definition end_channel :: "os \<Rightarrow> lme_message \<Rightarrow> protocol \<Rightarrow> (addr option \<times> protocol) option" where
  "end_channel w msg p = do {
     (ok, p) \<leftarrow> checkProtocolFlow (heci w) msg p;
     if \<not> ok then Some (None, p)
     else case msg of
         Open_failure_msg k _ \<Rightarrow> open_failure_channels k p
       | Channel_close_msg k \<Rightarrow> close_channels (heci w) k p
       | _ \<Rightarrow> Some (None, p) }"

definition ends_channel :: "lme_message \<Rightarrow> bool" where
  "ends_channel msg = (case msg of Open_failure_msg _ _ \<Rightarrow> True | Channel_close_msg _ \<Rightarrow> True | _ \<Rightarrow> False)"

definition rx_closing :: "addr option \<Rightarrow> rx_phase" where
  "rx_closing r = (case r of None \<Rightarrow> Rx_idle | Some r \<Rightarrow> Rx_closing r)"

text \<open>The messages the receive thread handles while \<^verbatim>\<open>Init\<close> waits for the port.\<close>

definition receive_all :: "(os \<times> fit \<times> lme_message) list \<Rightarrow> protocol \<Rightarrow> protocol option" where
  "receive_all = foldM (\<lambda>(w, len, msg) p. map_option snd (LmeReceive w len msg p))"

inductive mstep :: "machine \<Rightarrow> machine option \<Rightarrow> bool" where
  message: "rx_thread m = Rx_idle \<Longrightarrow>
    mstep m (to_machine m Rx_idle (select_thread m) (map_option snd (LmeReceive w len msg (prot m))))"
| ended: "rx_thread m = Rx_idle \<Longrightarrow> ends_channel msg \<Longrightarrow>
    mstep m (map_option (\<lambda>(r, p). m\<lparr>prot := p, rx_thread := rx_closing r\<rparr>) (end_channel w msg (prot m)))"
| close: "rx_thread m = Rx_closing r \<Longrightarrow>
    mstep m (to_machine m Rx_idle (select_thread m) (closePortForwardRequest r (prot m)))"
| deinit: "rx_thread m = Rx_idle \<Longrightarrow>
    mstep m (to_machine m Rx_deinit (select_thread m)
      (Some (deinit_channels (deinit_lme (on_lme (lme_Disconnect hs reason) (prot m))))))"
| deinit_end: "rx_thread m = Rx_deinit \<Longrightarrow>
    mstep m (to_machine m Rx_idle (select_thread m) (map_option deinit_rest (deinit_ports (prot m))))"
| lost: "rx_thread m = Rx_idle \<Longrightarrow>
    mstep m (to_machine m Rx_idle (select_thread m)
      (Some (SignalSelect ((prot m)\<lparr>lme := fst (lme_Deinit True (lme (prot m)))\<rparr>))))"
| suffixes: "mstep m (to_machine m (rx_thread m) (select_thread m) (updateEnterpriseAccessStatus reply sm False (prot m)))"
| accept: "select_thread m = Select_idle \<Longrightarrow> counters_free (prot m) \<Longrightarrow>
    mstep m (to_machine m (rx_thread m) Select_idle (map_option snd (acceptConnection hs sm a port (prot m))))"
| copy: "select_thread m = Select_idle \<Longrightarrow> rx_begin s (prot m) = Some c \<Longrightarrow>
    mstep m (to_machine m (rx_thread m) (Copied s c) (Some (prot m)))"
| receive: "select_thread m = Copied s c \<Longrightarrow> recv_result (rx_length c (prot m)) res d \<Longrightarrow>
    mstep m (to_machine m (rx_thread m) (Received s c res) (rx_forward hs c res d (prot m)))"
| received: "select_thread m = Received s c res \<Longrightarrow>
    mstep m (to_machine m (rx_thread m) Select_idle (Some (rx_end hs s c res (prot m))))"
| init: "select_thread m = Select_idle \<Longrightarrow> rx_thread m = Rx_idle \<Longrightarrow>
    mstep m (to_machine m Rx_idle Select_idle
      (map_option snd (prot_Init w hi junk spawned started (receive_all msgs) opened adapters (prot m))))"

inductive_cases mstepE: "mstep m r"

definition machine0 :: "nat \<Rightarrow> machine" where
  "machine0 n = \<lparr>prot = Protocol n, rx_thread = Rx_idle, select_thread = Select_idle\<rparr>"

inductive reachable :: "nat \<Rightarrow> machine \<Rightarrow> bool" for n where
  start: "reachable n (machine0 n)"
| steps: "reachable n m \<Longrightarrow> mstep m (Some m') \<Longrightarrow> reachable n m'"

subsection \<open>The invariant\<close>

definition machine_ok :: "machine \<Rightarrow> bool" where
  "machine_ok m \<longleftrightarrow> prot_ok (prot m) \<and> link (lme (prot m)) \<and>
     (case rx_thread m of
        Rx_idle \<Rightarrow> True
      | Rx_closing r \<Rightarrow> closable r (prot m)
      | Rx_deinit \<Rightarrow> openChannels (prot m) = [] \<and> initState (lme (prot m)) = INIT_STATE_DISCONNECTED)"

definition machine_keeps :: "machine option \<Rightarrow> bool" where
  "machine_keeps r \<longleftrightarrow> (case r of None \<Rightarrow> False | Some m \<Rightarrow> machine_ok m)"

lemma keeps_idle:
  assumes "keeps r" and "\<And>p'. r = Some p' \<Longrightarrow> link (lme p')"
  shows "machine_keeps (to_machine m Rx_idle sel r)"
  using assms by (auto simp: machine_keeps_def machine_ok_def to_machine_def keeps_def split: option.splits)

lemma keeps_fst: "keeps2 r \<Longrightarrow> keeps (map_option snd r)"
  by (auto simp: keeps_def keeps2_def split: option.splits)

lemma machine_okD:
  "machine_ok m \<Longrightarrow> prot_ok (prot m)" "machine_ok m \<Longrightarrow> link (lme (prot m))"
  by (simp_all add: machine_ok_def)

text \<open>The steps of the other threads between two sections of the receive thread.\<close>

definition undisturbed :: "protocol \<Rightarrow> protocol \<Rightarrow> bool" where
  "undisturbed p p' \<longleftrightarrow> (\<forall>r. closable r p \<longrightarrow> closable r p') \<and>
     (openChannels p = [] \<and> initState (lme p) = INIT_STATE_DISCONNECTED \<longrightarrow>
      openChannels p' = [] \<and> initState (lme p') = INIT_STATE_DISCONNECTED)"

lemma keeps_other:
  assumes "machine_ok m" "keeps r" "\<And>p'. r = Some p' \<Longrightarrow> link (lme p') \<and> undisturbed (prot m) p'"
  shows "machine_keeps (to_machine m (rx_thread m) sel r)"
  using assms by (cases r) (auto simp: machine_keeps_def machine_ok_def to_machine_def keeps_def undisturbed_def split: rx_phase.splits)

lemma undisturbed_same:
  "requests p' = requests p \<Longrightarrow> openChannels p' = openChannels p \<Longrightarrow> initState (lme p') = initState (lme p) \<Longrightarrow> undisturbed p p'"
  by (simp add: undisturbed_def closable_def get_request_def)

lemma closable_activate: "activate_pending rs p = Some p' \<Longrightarrow> closable r p \<Longrightarrow> closable r p'"
  unfolding activate_pending_def
proof (rule foldM_keep [where I = "closable r"], assumption+)
  fix x s t assume "closable r s" "do { q \<leftarrow> get_request x s;
     Some (if pf_status q = PENDING_REQUEST then set_request x (q\<lparr>pf_status := LISTENING\<rparr>) s else s) } = Some t"
  then show "closable r t"
    by (auto simp: closable_def get_request_def set_request_def bind_eq_Some_conv split: if_splits)
qed

lemma channels_activate: "activate_pending rs p = Some p' \<Longrightarrow> openChannels p' = openChannels p"
  unfolding activate_pending_def
  by (rule foldM_keep [where I = "\<lambda>t. openChannels t = openChannels p"])
    (auto simp: bind_eq_Some_conv set_request_def split: if_splits)

lemma closable_frame: "requests p' = requests p \<Longrightarrow> closable r p' = closable r p"
  by (simp add: closable_def get_request_def)

lemma undisturbed_suffixes: "updateEnterpriseAccessStatus reply sm b p = Some p' \<Longrightarrow> undisturbed p p'"
proof -
  assume e: "updateEnterpriseAccessStatus reply sm b p = Some p'"
  obtain raccess ip where s: "shared_suffix (AMTDNSSuffixes p) sm = (raccess, ip)" by fastforce
  define p1 where "p1 = p\<lparr>remoteAccessCurrentlyPossible := raccess\<rparr>"
  show ?thesis
  proof (cases "\<not> b \<and> raccess = remoteAccessCurrentlyPossible p")
    case True
    with e s have "p' = p" by (simp add: updateEnterpriseAccessStatus_def)
    then show ?thesis by (simp add: undisturbed_def)
  next
    case False
    have "\<exists>p2. (if raccess then activate_pending (concat (map snd (openPorts p1))) p1 else Some p1) = Some p2
        \<and> requests p' = requests p2 \<and> openChannels p' = openChannels p2 \<and> lme p' = lme p2"
      using e s False
      by (auto simp: updateEnterpriseAccessStatus_def Let_def p1_def [symmetric] bind_eq_Some_conv effect_out_def
        signalSelect_def split: if_splits)
    then obtain p2 where p2: "(if raccess then activate_pending (concat (map snd (openPorts p1))) p1 else Some p1) = Some p2"
      "requests p' = requests p2" "openChannels p' = openChannels p2" "lme p' = lme p2" by blast
    then have "(\<forall>r. closable r p1 \<longrightarrow> closable r p2) \<and> openChannels p2 = openChannels p1 \<and> lme p2 = lme p1"
      by (auto dest: closable_activate channels_activate lme_activate split: if_splits)
    then show ?thesis
      using closable_frame [OF p2(2)] closable_frame [of p1 p] p2(3,4) by (auto simp: undisturbed_def p1_def)
  qed
qed

lemma undisturbed_accept:
  assumes e: "acceptConnection hs sm a port p = Some (b, p')" and x: "prot_ok p"
  shows "undisturbed p p'"
proof (cases "acc_socket a = INVALID_SOCKET")
  case False
  from findFWReq_defined [OF x] obtain f where f: "findFWReq sm a port p = Some f"
    "\<forall>r. f = Some r \<longrightarrow> (\<exists>q. get_request r p = Some q \<and> pf_status q = LISTENING)" by blast
  show ?thesis
  proof (cases f)
    case None
    with e f False show ?thesis
      by (auto simp: acceptConnection_def undisturbed_same closeSocket_def effect_out_def)
  next
    case (Some r)
    with f obtain q where q: "get_request r p = Some q" "pf_status q = LISTENING" by blast
    obtain ok l where send: "ChannelOpenForwardedRequest hs (acc_socket a) (if acc_inet a then str ''127.0.0.1'' else str ''::1'') port
        (if pf_local q then (if acc_inet a then str ''127.0.0.1'' else str ''::1'') else takeWhile (\<lambda>b. b \<noteq> 37) (acc_address a))
        (ucast (acc_port a)) (lme p) = (ok, l)"
      by fastforce
    have down: "initState (lme p) = INIT_STATE_DISCONNECTED \<Longrightarrow> \<not> ok \<and> l = lme p"
      using send by (simp add: ChannelOpenForwardedRequest_def)
    let ?p = "(set_request r (IncreaseChannelCount q) p)\<lparr>lme := l\<rparr>"
    have p': "p' = closeSocket (acc_socket a) ?p \<and> \<not> ok \<or>
        p' = put_channel (acc_socket a) (new_channel SocketChannel r (acc_socket a)) ?p \<and> ok"
      using e f(1) Some q(1) False send by (auto simp: acceptConnection_def Let_def set_request_def split: if_splits)
    then have R: "requests p' = map_put r (IncreaseChannelCount q) (requests p)"
      by (auto simp: closeSocket_def effect_out_def put_channel_def set_request_def)
    have "closable r' p \<Longrightarrow> closable r' p'" for r'
      using q by (auto simp: closable_def get_request_def R IncreaseChannelCount_def)
    moreover have "initState (lme p) = INIT_STATE_DISCONNECTED \<Longrightarrow> openChannels p' = openChannels p \<and> lme p' = lme p"
      using p' down by (auto simp: closeSocket_def effect_out_def set_request_def)
    ultimately show ?thesis by (auto simp: undisturbed_def)
  qed
qed (use e in \<open>auto simp: acceptConnection_def undisturbed_def\<close>)

lemma undisturbed_forward: "rx_forward hs c res d p = Some p' \<Longrightarrow> undisturbed p p'"
  by (auto simp: rx_forward_def bind_eq_Some_conv undisturbed_def closable_def get_request_def lme_ChannelData_def
    split: if_splits)

lemma undisturbed_rx_end: "undisturbed p (rx_end hs s c res p)"
  by (auto simp: rx_end_def undisturbed_def closable_def get_request_def put_channel_def on_lme_def split: option.splits)

lemma keeps_rx_end: "prot_ok p \<Longrightarrow> prot_ok (rx_end hs s c res p)"
  by (auto simp: rx_end_def RemoveBytesTxWindow_def intro!: prot_ok_put_channel split: option.splits)

lemma keeps_receive_all:
  "prot_ok p \<Longrightarrow> link (lme p) \<Longrightarrow> \<exists>p'. receive_all msgs p = Some p' \<and> prot_ok p' \<and> link (lme p')"
  unfolding receive_all_def
proof (rule foldM_rule)
  fix x :: "os \<times> fit \<times> lme_message" and t assume x: "prot_ok t \<and> link (lme t)"
  obtain w len msg where e: "x = (w, len, msg)" by (cases x)
  from keeps2D [OF keeps_LmeReceive] x obtain st t' where "LmeReceive w len msg t = Some (st, t')" "prot_ok t'" by blast
  with link_LmeReceive x e show "\<exists>u. (case x of (w, len, msg) \<Rightarrow> \<lambda>p. map_option snd (LmeReceive w len msg p)) t = Some u \<and>
      (prot_ok u \<and> link (lme u))" by auto
qed simp

lemma keeps_Init:
  assumes ok: "prot_ok p" "link (lme p)"
  shows "\<exists>b p'. prot_Init w hi junk spawned started (receive_all msgs) opened adapters p = Some (b, p') \<and> prot_ok p' \<and> link (lme p')"
proof -
  have down: "\<exists>q'. prot_Deinit q = Some q' \<and> prot_ok q' \<and> link (lme q')" if "prot_ok q" "link (lme q)" for q
    using keeps_Deinit [OF that(1)] link_Deinit_prot [OF _ that(2)] by (auto simp: keeps_def split: option.splits)
  obtain p1 where p1: "prot_Deinit p = Some p1" "prot_ok p1" "link (lme p1)" using down [OF ok] by blast
  obtain up c where c: "lme_Init hi junk spawned started True (lme p1) = (up, c)" by fastforce
  have "link c" using link_Init [OF p1(3), of hi junk spawned started True] c by simp
  then obtain p2 where p2: "receive_all msgs (p1\<lparr>lme := c\<rparr>) = Some p2" "prot_ok p2" "link (lme p2)"
    using keeps_receive_all [of "p1\<lparr>lme := c\<rparr>" msgs] p1(2) by (auto simp: prot_ok_def store_frame)
  define p3 where "p3 = (if handshakingStatus p2 = NOT_INITIATED
             then (on_lme (ProtocolVersion (heci w) (fst MAX_PROT_VERSION) (snd MAX_PROT_VERSION) LME_REQUEST) p2)
               \<lparr>handshakingStatus := INITIATED\<rparr> else p2)"
  have p3: "prot_ok p3" "link (lme p3)" using p2(2,3) by (auto simp: p3_def prot_ok_def store_frame)
  define p4 where "p4 = p3\<lparr>rxSocketBufferSize := bufferSize (lme p3) - sizeof_channel_data\<rparr>"
  have p4: "prot_ok p4" "link (lme p4)" using p3 by (auto simp: p4_def prot_ok_def store_frame)
  then obtain p5 where p5: "checkRemoteSupport w True p4 = Some p5" "prot_ok p5"
    using keeps_checkRemoteSupport [OF p4(1), of w True] by (auto simp: keeps_def split: option.splits)
  with lme_checkRemoteSupport [OF p5(1)] p4 have "link (lme p5)" by simp
  moreover obtain p6 where p6: "prot_Deinit p3 = Some p6" "prot_ok p6" "link (lme p6)" using down [OF p3] by blast
  ultimately show ?thesis
    using p1 c \<open>link c\<close> p2 p3 p5 unfolding prot_Init_def
    by (auto simp: Let_def p3_def [symmetric] p4_def [symmetric] prot_ok_def store_frame)
qed

lemma keeps_end_channel:
  assumes "prot_ok p" "link (lme p)"
  shows "\<exists>r p'. end_channel w msg p = Some (r, p') \<and> prot_ok p' \<and> link (lme p') \<and> (\<forall>x. r = Some x \<longrightarrow> closable x p')"
proof -
  obtain ok p1 where c: "checkProtocolFlow (heci w) msg p = Some (ok, p1)" "prot_ok p1"
    using keeps2D [OF keeps_check [OF assms(1)]] by blast
  have l: "link (lme p1)" using link_check [OF c(1) assms(2)] .
  have fail: "\<exists>r p'. open_failure_channels k p1 = Some (r, p') \<and> prot_ok p' \<and> link (lme p') \<and> (\<forall>x. r = Some x \<longrightarrow> closable x p')" for k
  proof (cases "map_of (openChannels p1) k")
    case (Some c)
    from release_ok [OF c(2) Some] obtain r p' where "release_channel k c p1 = Some (r, p')" "prot_ok p'"
      "\<forall>x. r = Some x \<longrightarrow> closable x p'" by blast
    with Some lme_release [of k c p1 r p'] l show ?thesis by (simp add: open_failure_channels_def)
  qed (use c l in \<open>simp add: open_failure_channels_def\<close>)
  have close: "\<exists>r p'. close_channels (heci w) k p1 = Some (r, p') \<and> prot_ok p' \<and> link (lme p') \<and> (\<forall>x. r = Some x \<longrightarrow> closable x p')" for k
  proof (cases "map_of (openChannels p1) k")
    case (Some c)
    define p2 where "p2 = (if status c = OPEN then on_lme (lme_ChannelClose (heci w) (recipientChannel c)) p1 else p1)"
    have p2: "prot_ok p2" "link (lme p2)" "map_of (openChannels p2) k = Some c"
      using c(2) l Some by (auto simp: p2_def on_lme_def prot_ok_def store_def)
    from release_ok [OF p2(1,3)] obtain r p' where "release_channel k c p2 = Some (r, p')" "prot_ok p'"
      "\<forall>x. r = Some x \<longrightarrow> closable x p'" by blast
    with Some lme_release [of k c p2 r p'] p2 show ?thesis by (simp add: close_channels_def Let_def p2_def [symmetric])
  qed (use c l in \<open>simp add: close_channels_def\<close>)
  show ?thesis
    using c l fail close by (cases msg) (auto simp: end_channel_def)
qed

lemma keeps_deinit_sections:
  assumes "prot_ok p" "link (lme p)"
  shows "prot_ok (deinit_channels (deinit_lme p))" "link (lme (deinit_channels (deinit_lme p)))"
    "openChannels (deinit_channels (deinit_lme p)) = []" "initState (lme (deinit_channels (deinit_lme p))) = INIT_STATE_DISCONNECTED"
  using assms prot_ok_deinit_channels [of "deinit_lme p"]
  by (simp_all add: prot_ok_frame [OF store_outputs(6)]) (simp_all add: deinit_channels_def lme_Deinit_def DeinitInternal_def)

lemma keeps_deinit_end:
  assumes "prot_ok p" "link (lme p)" "openChannels p = []"
  shows "\<exists>p'. deinit_ports p = Some p' \<and> prot_ok (deinit_rest p') \<and> link (lme (deinit_rest p'))"
  using deinit_ports_eq [OF assms(1)] assms by (simp add: prot_ok_def store_def deinit_rest_def store_ok_def)

lemma machine_step:
  assumes "mstep m r" and ok: "machine_ok m"
  shows "machine_keeps r"
  using assms(1)
proof cases
  case (message w len msg)
  with ok show ?thesis
    using keeps_fst [OF keeps_LmeReceive [OF machine_okD(1) [OF ok], of w len msg]] link_LmeReceive [OF _ machine_okD(2) [OF ok], of w len msg]
    by (auto intro!: keeps_idle)
next
  case (ended msg w)
  from keeps_end_channel [OF machine_okD [OF ok], of w msg] obtain r' p' where
    "end_channel w msg (prot m) = Some (r', p')" "prot_ok p'" "link (lme p')" "\<forall>x. r' = Some x \<longrightarrow> closable x p'" by blast
  with ended show ?thesis
    by (auto simp: machine_keeps_def machine_ok_def rx_closing_def split: option.splits)
next
  case (close x)
  with ok have "closable x (prot m)" by (simp add: machine_ok_def)
  with close show ?thesis
    using keeps_close [OF machine_okD(1) [OF ok]] lme_close machine_okD(2) [OF ok] by (auto intro!: keeps_idle)
next
  case (deinit hs reason)
  then show ?thesis
    using keeps_deinit_sections [of "on_lme (lme_Disconnect hs reason) (prot m)"] machine_okD [OF ok]
    by (simp add: to_machine_def machine_keeps_def machine_ok_def)
next
  case deinit_end
  with ok have "openChannels (prot m) = []" by (simp add: machine_ok_def)
  from keeps_deinit_end [OF machine_okD [OF ok] this] machine_okD [OF ok] deinit_end show ?thesis
    by (auto simp: to_machine_def machine_keeps_def machine_ok_def)
next
  case lost
  then show ?thesis
    using machine_okD [OF ok] by (auto simp: to_machine_def machine_keeps_def machine_ok_def) (simp add: prot_ok_def store_frame)
next
  case (suffixes reply sm)
  then show ?thesis
    using keeps_other [OF ok keeps_updateEnterprise [OF machine_okD(1) [OF ok]]] lme_updateEnterprise machine_okD(2) [OF ok]
      undisturbed_suffixes by metis
next
  case (accept hs sm a port)
  show ?thesis
    unfolding accept(1)
    using keeps_fst [OF keeps_accept [OF machine_okD(1) [OF ok] accept(3), of hs sm a port]]
      link_accept [OF _ machine_okD(2) [OF ok]] undisturbed_accept [OF _ machine_okD(1) [OF ok]]
    by (intro keeps_other [OF ok]) auto
next
  case (copy s c)
  show ?thesis
    unfolding copy(1) by (rule keeps_other [OF ok]) (use machine_okD [OF ok] in \<open>auto simp: undisturbed_def\<close>)
next
  case (receive s c res d hs)
  have "rx_length c (prot m) < 2 ^ 32"
    using unat_less_32 [of "txWindow c"] by (simp add: rx_length_def)
  from rx_forward_defined [OF machine_okD(2) [OF ok] receive(3) this, of hs c] obtain l' where
    "rx_forward hs c res d (prot m) = Some ((prot m)\<lparr>lme := l'\<rparr>)" "link l'" by blast
  with undisturbed_forward show ?thesis
    unfolding receive(1) by (intro keeps_other [OF ok]) (use machine_okD(1) [OF ok] in \<open>auto simp: prot_ok_def store_frame\<close>)
next
  case (received s c res hs)
  show ?thesis
    unfolding received(1)
    by (rule keeps_other [OF ok]) (use machine_okD [OF ok] in \<open>auto simp: keeps_rx_end link_rx_end undisturbed_rx_end\<close>)
next
  case (init w hi junk spawned started msgs opened adapters)
  from keeps_Init [OF machine_okD [OF ok], of w hi junk spawned started msgs opened adapters] machine_okD(1,2) [OF ok]
  show ?thesis unfolding init(1) by (intro keeps_idle) auto
qed

lemma machine_start: "9 \<le> n \<Longrightarrow> n < 2 ^ 64 \<Longrightarrow> machine_ok (machine0 n)"
  using store_Protocol [of n] by (simp add: machine_ok_def machine0_def link_def Protocol_def LMEConnection_def lme_ok_def)

lemma reachable_ok: "reachable n m \<Longrightarrow> 9 \<le> n \<Longrightarrow> n < 2 ^ 64 \<Longrightarrow> machine_ok m"
  by (induction rule: reachable.induct) (auto simp: machine_start machine_keeps_def dest: machine_step)

end
