(* ===== verification/Protocol_Properties.thy ===== *)
theory Protocol_Properties
  imports Protocol_Machine
begin

text \<open>
  What the port forwarding protocol guarantees: no thread uses a deleted request, \<^verbatim>\<open>Deinit\<close> releases
  everything, nothing is served before the session is agreed on, data is relayed within the windows, and a
  cancelled forward leaves no trace; and the places where the code falls short.
\<close>

text \<open>A system for the examples: nothing resolves, every name and file is missing.\<close>

definition os0 :: os where
  "os0 = \<lparr>heci = (\<lambda>bs. Some (int (length bs))), time_now = [], resolve = (\<lambda>_ _. None), listen_addrs = (\<lambda>_. None),
     local_socket = INVALID_SOCKET, send_result = (\<lambda>_ bs. int (length bs)), local_name = None, hosts_file = None,
     hosts_junk = 0, hosts_writable = False, dns_reply = None, local_suffixes = [], access_answer = Access_exception\<rparr>"









subsection \<open>All threads\<close>





text \<open>A message that ends a channel is handled as its two critical sections one after the other: the whole
  handler is the first section followed by the closing of the request it left.\<close>

theorem ending_in_two_sections:
  assumes "ends_channel msg"
  shows "map_option snd (LmeReceive w Whole msg p) = do { (r, p) \<leftarrow> end_channel w msg p; close_request r p }"
proof (cases "checkProtocolFlow (heci w) msg p")
  case (Some x)
  obtain ok p1 where x: "x = (ok, p1)" by (cases x)
  have id: "map_option snd (map_option (Pair (0::int)) r) = r" for r :: "protocol option"
    by (cases r) simp_all
  from assms Some x show ?thesis
    by (cases msg) (auto simp: ends_channel_def LmeReceive_def Let_def message_flow_def end_channel_def handle_message_def
      on_open_failure_def on_channel_close_def close_request_def id)
qed (use assms in \<open>cases msg; simp add: ends_channel_def LmeReceive_def Let_def message_flow_def end_channel_def\<close>)

lemma ending_in_two_sections_witness:
  "map_option snd (LmeReceive os0 Whole (Channel_close_msg 7) (Protocol 20)) =
    do { (r, p) \<leftarrow> end_channel os0 (Channel_close_msg 7) (Protocol 20); close_request r p }"
  by (rule ending_in_two_sections) (simp add: ends_channel_def)

subsection \<open>Session\<close>

text \<open>C6. \<^verbatim>\<open>Deinit\<close> succeeds in every consistent state: no port, channel or request is left, the connection is down,
  the handshake has to start anew, and the sockets closed are exactly the channels' and, once per port, the
  listening ones.\<close>

theorem deinit_releases_all:
  assumes "prot_ok p"
  shows "\<exists>p'. prot_Deinit p = Some p' \<and> openPorts p' = [] \<and> openChannels p' = [] \<and> requests p' = []
    \<and> \<not> IsInitialized (lme p') \<and> handshakingStatus p' = NOT_INITIATED \<and> pfwdService p' = NOT_STARTED
    \<and> effects p' = effects p @ closes (owned_sockets p)"
  using deinit_eq [OF assms]
  by (simp add: deinit_rest_def deinit_lme_def lme_Deinit_def DeinitInternal_def IsInitialized_def)

lemma deinit_releases_all_witness: "\<exists>p'. prot_Deinit (Protocol 20) = Some p' \<and> openPorts p' = []"
  using deinit_releases_all [OF store_Protocol [of 20]] by blast

text \<open>C5. A message of the forwarding service that arrives before the version is agreed on and the service
  started has no effect but to drop the connection: nothing is opened, sent or published, and everything is
  released.\<close>

theorem service_needs_session:
  assumes "prot_ok p" and "message_flow msg = Needs_service"
    and "\<not> (handshakingStatus p = AGREED \<and> pfwdService p = STARTED)"
  shows "\<exists>st p'. LmeReceive w len msg p = Some (st, p') \<and> st \<ge> 0 \<and> openPorts p' = [] \<and> openChannels p' = []
    \<and> \<not> IsInitialized (lme p') \<and> effects p' = effects p @ closes (owned_sockets p)"
proof -
  have own: "owned_sockets (on_lme f p) = owned_sockets p" for f
    by (simp add: owned_sockets_def on_lme_def)
  have "prot_ok (on_lme (lme_Disconnect (heci w) APF_DISCONNECT_PROTOCOL_ERROR) p)" using assms(1) by simp
  from deinit_eq [OF this] have "\<exists>p'. drop_connection (heci w) APF_DISCONNECT_PROTOCOL_ERROR p = Some p' \<and> openPorts p' = []
      \<and> openChannels p' = [] \<and> \<not> IsInitialized (lme p') \<and> effects p' = effects p @ closes (owned_sockets p)"
    by (simp add: drop_connection_def own deinit_rest_def deinit_lme_def lme_Deinit_def DeinitInternal_def IsInitialized_def)
      (simp add: on_lme_def)
  then show ?thesis
    using assms(2,3) by (cases len) (auto simp: LmeReceive_def Let_def checkProtocolFlow_def)
qed

lemma service_needs_session_witness:
  "\<exists>st p'. LmeReceive os0 Whole (Tcp_forward_msg (str ''0.0.0.0'') 16992) (Protocol 20) = Some (st, p') \<and> openPorts p' = []"
  using service_needs_session [OF store_Protocol [of 20], of "Tcp_forward_msg (str ''0.0.0.0'') 16992" os0 Whole]
  by (auto simp: message_flow_def Protocol_def)

text \<open>The signed reading of a difference of unsigned numbers.\<close>

lemma sint_32: "sint (w::u32) = (if uint w < 2147483648 then uint w else uint w - 4294967296)"
proof -
  have u: "0 \<le> uint w" "uint w < 4294967296" using uint_lt2p [of w] by simp_all
  have s: "sint w = (uint w + 2147483648) mod 4294967296 - 2147483648"
    by (simp add: sint_uint signed_take_bit_eq_take_bit_shift take_bit_eq_mod)
  show ?thesis
  proof (cases "uint w < 2147483648")
    case True
    with u have "(uint w + 2147483648) mod 4294967296 = uint w + 2147483648" by (intro mod_pos_pos_trivial) simp_all
    with s True show ?thesis by simp
  next
    case False
    have "(uint w + 2147483648) mod 4294967296 = (uint w - 2147483648 + 4294967296) mod 4294967296" by (simp add: add.commute)
    also have "\<dots> = (uint w - 2147483648) mod 4294967296" by (rule mod_add_self2)
    also have "\<dots> = uint w - 2147483648" using u False by (intro mod_pos_pos_trivial) simp_all
    finally show ?thesis using s False by simp
  qed
qed

lemma sint_one_minus: "0 < sint (1 - b :: u32) \<longleftrightarrow> b = 0 \<or> 2147483650 \<le> uint b"
  and sint_zero_minus: "0 < sint (0 - b :: u32) \<longleftrightarrow> 2147483649 \<le> uint b"
proof -
  have u: "0 \<le> uint b" "uint b < 4294967296" using uint_lt2p [of b] by simp_all
  have z: "b = 0 \<longleftrightarrow> uint b = 0" by (simp add: uint_0_iff)
  have o: "uint (1 - b) = (if uint b \<le> 1 then 1 - uint b else 4294967297 - uint b)"
    using uint_sub_if' [of 1 b] by simp
  have n: "uint (0 - b) = (if uint b \<le> 0 then 0 - uint b else 4294967296 - uint b)"
    using uint_sub_if' [of 0 b] by simp
  have k1: "0 \<le> x \<Longrightarrow> x < 4294967296 \<Longrightarrow> (0 < (if (if x \<le> 1 then 1 - x else 4294967297 - x) < 2147483648
      then (if x \<le> 1 then 1 - x else 4294967297 - x) else (if x \<le> 1 then 1 - x else 4294967297 - x) - 4294967296))
      = (x = 0 \<or> 2147483650 \<le> x)" for x :: int
    by (cases "x \<le> 1") auto
  have k2: "0 \<le> x \<Longrightarrow> x < 4294967296 \<Longrightarrow> (0 < (if (if x \<le> 0 then 0 - x else 4294967296 - x) < 2147483648
      then (if x \<le> 0 then 0 - x else 4294967296 - x) else (if x \<le> 0 then 0 - x else 4294967296 - x) - 4294967296))
      = (2147483649 \<le> x)" for x :: int
    by (cases "x \<le> 0") auto
  show "0 < sint (1 - b :: u32) \<longleftrightarrow> b = 0 \<or> 2147483650 \<le> uint b"
    unfolding sint_32 o z by (rule k1 [OF u])
  show "0 < sint (0 - b :: u32) \<longleftrightarrow> 2147483649 \<le> uint b"
    unfolding sint_32 n by (rule k2 [OF u])
qed
lemma too_old: "0 < VersionCompare (fst MIN_PROT_VERSION) (snd MIN_PROT_VERSION) major minor \<longleftrightarrow>
    major = 0 \<or> 2147483650 \<le> uint major \<or> (major = 1 \<and> 2147483649 \<le> uint minor)"
proof -
  have "sint (1 - major) = 0 \<longleftrightarrow> major = 1"
    unfolding signed_eq_0_iff right_minus_eq by (rule eq_commute)
  then show ?thesis
    using sint_one_minus [of major] sint_zero_minus [of minor] by (auto simp: VersionCompare_def MIN_PROT_VERSION_def Let_def)
qed

text \<open>The version handshake: the engine's version is accepted exactly when the wrapping comparison with 1.0 is
  not positive, so that 0.x is refused, and also every version so high that the signed difference wraps; an
  accepted version is always recorded as 1.0, a refused one drops the connection.\<close>

theorem version_handshake:
  assumes "prot_ok p" and "rejected = (major = 0 \<or> 2147483650 \<le> uint major \<or> (major = 1 \<and> 2147483649 \<le> uint minor))"
  shows "\<exists>p'. LmeReceive w Whole (Protocol_version_msg major minor trigger) p = Some (0, p') \<and>
    (if rejected then handshakingStatus p' = NOT_INITIATED \<and> AmtProtVersion p' = (0, 0) \<and> openPorts p' = [] \<and> \<not> IsInitialized (lme p')
     else handshakingStatus p' = AGREED \<and> AmtProtVersion p' = (1, 0) \<and> openPorts p' = openPorts p)"
proof -
  define p1 where "p1 = (if handshakingStatus p = INITIATED then p
    else on_lme (ProtocolVersion (heci w) (fst MAX_PROT_VERSION) (snd MAX_PROT_VERSION) LME_REQUEST) p)"
  have p1: "prot_ok p1" "openPorts p1 = openPorts p"
    using assms(1) by (simp_all add: p1_def) (simp add: on_lme_def)
  have r: "rejected = (0 < VersionCompare (fst MIN_PROT_VERSION) (snd MIN_PROT_VERSION) major minor)"
    unfolding assms(2) too_old ..
  have e: "LmeReceive w Whole (Protocol_version_msg major minor trigger) p = map_option (Pair 0)
      (if rejected then drop_connection (heci w) APF_DISCONNECT_PROTOCOL_VERSION_NOT_SUPPORTED p1
       else Some (p1\<lparr>AmtProtVersion := (1, 0), handshakingStatus := AGREED\<rparr>))"
    by (simp add: LmeReceive_def message_flow_def handle_message_def on_protocol_version_def Let_def p1_def [symmetric] r
      del: prod.collapse) (simp add: MIN_PROT_VERSION_def MAX_PROT_VERSION_def)
  have "prot_ok (on_lme (lme_Disconnect (heci w) APF_DISCONNECT_PROTOCOL_VERSION_NOT_SUPPORTED) p1)" using p1 by simp
  from deinit_eq [OF this] show ?thesis
    using p1 by (simp add: e drop_connection_def deinit_rest_def deinit_lme_def lme_Deinit_def DeinitInternal_def IsInitialized_def)
qed

lemma version_handshake_witness:
  "\<exists>p'. LmeReceive os0 Whole (Protocol_version_msg 0x80000002 0 0) (Protocol 20) = Some (0, p') \<and> handshakingStatus p' = NOT_INITIATED"
  using version_handshake [OF store_Protocol [of 20], of True "0x80000002" 0 os0 0] by auto

subsection \<open>Data\<close>

text \<open>C3. A channel data message within the window reaches the socket of its channel: from the bytes received from
  the engine to the bytes handed to \<^verbatim>\<open>send\<close>, with the engine's window raised by the whole length in reply,
  whatever \<^verbatim>\<open>send\<close> answers: a short write or an error loses the rest of the data.\<close>

theorem data_delivered:
  assumes "handshakingStatus p = AGREED" and "pfwdService p = STARTED" and "initState (lme p) = INIT_STATE_CONNECTED"
    and c: "map_of (openChannels p) k = Some c" "status c = OPEN" "kind c = SocketChannel" "length d \<le> unat (rxWindow c)"
  shows "\<exists>p'. lme_thread_turn w (9 + int (length d)) False (enc_channel_data k d @ rest) p = Some (True, False, p')
    \<and> effects p' = effects p @ [Socket_sent (socket c) d]
    \<and> sent (lme p') = sent (lme p) @ [enc_window_adjust (recipientChannel c) (of_nat (length d))]
    \<and> (\<forall>k'. map_of (openChannels p') k' = map_of (openChannels p) k')"
proof -
  have len: "length d < 2 ^ 32" using c(4) unat_less_32 [of "rxWindow c"] by linarith
  have n: "nat (9 + int (length d)) = 9 + length d" by simp
  have rx: "rx_turn (9 + int (length d)) False (enc_channel_data k d @ rest) = Some (Turn (Deliver (Channel_data_msg k d)))"
    using channel_data.delivered [of "(k, d)" rest] len
    by (simp add: rx_turn_def n enc_channel_data_def)
  define p1 where "p1 = on_lme (ChannelWindowAdjust (heci w) (recipientChannel c) (of_nat (length d)))
    (effect_out (Socket_sent (socket c) d) (put_channel k c p))"
  have "on_channel_data w k d p = Some p1"
    using c by (simp add: on_channel_data_def ProcessRx_def rx_effects_def Let_def p1_def)
  then have "lme_thread_turn w (9 + int (length d)) False (enc_channel_data k d @ rest) p = Some (True, False, p1)"
    using assms(1,2) by (simp add: lme_thread_turn_def rx LmeReceive_def message_flow_def checkProtocolFlow_def
      handle_message_def Let_def)
  moreover have "sent (lme p1) = sent (lme p) @ [enc_window_adjust (recipientChannel c) (of_nat (length d))]"
    using assms(3) by (simp add: p1_def ChannelWindowAdjust_def sendWhole_def sendMessage_def)
  ultimately show ?thesis
    using c(1) by (simp add: p1_def) (simp add: on_lme_def effect_out_def put_channel_def)
qed

text \<open>A session with one open channel, for the examples.\<close>

definition session1 :: protocol where
  "session1 = (Protocol 20)\<lparr>handshakingStatus := AGREED, pfwdService := STARTED, rxSocketBufferSize := 11,
     lme := (LMEConnection 20)\<lparr>initState := INIT_STATE_CONNECTED, heciOpen := True, txBuffer := Some (replicate 20 0)\<rparr>,
     openChannels := [(5, (new_channel SocketChannel NULL 5)\<lparr>status := OPEN, txWindow := 4\<rparr>)]\<rparr>"

lemma data_delivered_witness:
  "\<exists>p'. lme_thread_turn (os0\<lparr>send_result := (\<lambda>_ _. 0)\<rparr>) 11 False (enc_channel_data 5 [1, 2]) session1 = Some (True, False, p')
    \<and> effects p' = [Socket_sent 5 [1, 2]]"
  using data_delivered [of session1 5 "(new_channel SocketChannel NULL 5)\<lparr>status := OPEN, txWindow := 4\<rparr>" "[1, 2]"
      "os0\<lparr>send_result := (\<lambda>_ _. 0)\<rparr>" "[]"]
  by (auto simp: session1_def new_channel_def LMS_WINDOW_SIZE_def Protocol_def)

text \<open>C4. What is read from a channel's socket goes to the engine as one data message with exactly the bytes read,
  never more than the engine's window, and the window shrinks by exactly that number.\<close>

theorem read_within_window:
  assumes l: "link (lme p)" "initState (lme p) = INIT_STATE_CONNECTED" "rxSocketBufferSize p + 9 \<le> bufferSize (lme p)"
    and c: "map_of (openChannels p) s = Some c" "kind c = SocketChannel"
    and r: "recv (rx_length c p) = (res, d)" "recv_result (rx_length c p) res d" "0 < res"
  shows "\<exists>p' c'. rxFromSocket hs recv s p = Some p'
    \<and> sent (lme p') = sent (lme p) @ [enc_channel_data (recipientChannel c) (take (nat res) d)]
    \<and> map_of (openChannels p') s = Some c' \<and> nat res \<le> unat (txWindow c)
    \<and> unat (txWindow c') + nat res = unat (txWindow c)"
proof -
  have le: "nat res \<le> rxSocketBufferSize p" "nat res \<le> unat (txWindow c)" "nat res \<le> length d"
    using r by (auto simp: recv_result_def rx_length_def)
  then have n: "unat (of_int res :: u32) = nat res"
    using r(3) unat_less_32 [of "txWindow c"] unat_of_int_32 [of res] by simp
  have up: "IsInitialized (lme p)" using l(2) by (simp add: IsInitialized_def)
  have "lme_ok (lme p)" "9 \<le> bufferSize (lme p)" "bufferSize (lme p) < 2 ^ 64" using l(1) by (simp_all add: link_def)
  from channel_data_step [OF this(1) up this(2,3), of "of_int res" d hs "recipientChannel c"] obtain a l' where
    cd: "lme_ChannelData hs (recipientChannel c) (of_int res) d (lme p) = Some (a, l')"
      "sent l' = sent (lme p) @ [enc_channel_data (recipientChannel c) (take (nat res) d)]"
    using le l(3) n by auto
  define c' where "c' = RemoveBytesTxWindow (of_int res) c"
  have begin': "rx_begin s p = Some c" using c by (simp add: rx_begin_def)
  have "rxFromSocket hs recv s p = Some (put_channel s c' (p\<lparr>lme := l'\<rparr>))"
    using r(1,3) cd(1) c(1) by (simp add: rxFromSocket_def begin' rx_forward_def rx_end_def c'_def)
  moreover have "unat (txWindow c') + nat res = unat (txWindow c)"
    using le(2) by (simp add: c'_def RemoveBytes_exact n)
  ultimately show ?thesis
    using cd(2) le(2) by (auto simp: put_channel_def)
qed

lemma read_within_window_witness:
  "\<exists>p' c'. rxFromSocket (\<lambda>_. None) (\<lambda>_. (2, [1, 2, 3])) 5 session1 = Some p' \<and> sent (lme p') = [enc_channel_data 0 [1, 2]]
    \<and> map_of (openChannels p') 5 = Some c' \<and> unat (txWindow c') = 2"
proof -
  define c where "c = (new_channel SocketChannel NULL 5)\<lparr>status := OPEN, txWindow := 4\<rparr>"
  have s: "lme session1 = (LMEConnection 20)\<lparr>initState := INIT_STATE_CONNECTED, heciOpen := True, txBuffer := Some (replicate 20 0)\<rparr>"
    "rxSocketBufferSize session1 = 11" "map_of (openChannels session1) 5 = Some c"
    by (simp_all add: session1_def c_def)
  have c: "kind c = SocketChannel" "rx_length c session1 = 4" "recipientChannel c = 0" "unat (txWindow c) = 4"
    by (simp_all add: c_def new_channel_def rx_length_def s(2))
  have "link (lme session1)" by (simp add: s link_def lme_ok_def LMEConnection_def)
  from read_within_window [OF this _ _ s(3) c(1), of "\<lambda>_. (2, [1, 2, 3])" 2 "[1, 2, 3]" "\<lambda>_. None"]
  show ?thesis
    by (simp add: s c recv_result_def) (auto simp: LMEConnection_def)
qed

subsection \<open>Forwarding requests\<close>




subsection \<open>Where the code falls short\<close>

lemma store_checkRemoteAccess: "checkRemoteAccessStatus p = Some p' \<Longrightarrow> store p' = store p"
  by (auto simp: checkRemoteAccessStatus_def bind_eq_Some_conv store_frame split: if_splits)

text \<open>A connection whose announcement to the engine fails keeps its request alive for good: the count that was
  raised is not lowered, so that when the engine cancels the forward, the request stays allocated and the
  port keeps listening, although no channel belongs to it.\<close>

theorem failed_accept_leaks:
  assumes ok: "prot_ok p" and a: "acc_socket a \<noteq> INVALID_SOCKET"
    and r: "findFWReq sm a port p = Some (Some r)" "get_request r p = Some q" "map_of (openPorts p) (pf_port q) = Some [r]"
      "channelCount q = 0" "pf_status q = LISTENING"
  shows "\<exists>p1 p2 q'. acceptConnection (\<lambda>_. None) sm a port p = Some (False, p1)
    \<and> on_tcp_forward_cancel hs (bindedAddress q) (pf_port q) p1 = Some p2
    \<and> openChannels p2 = openChannels p \<and> get_request r p2 = Some q' \<and> pf_status q' = NOT_ACTIVE
    \<and> map_of (openPorts p2) (pf_port q) = Some [r]"
proof -
  have "\<exists>l. ChannelOpenForwardedRequest (\<lambda>_. None) s x n y t (lme p) = (False, l)" for s x n y t
    by (auto simp: ChannelOpenForwardedRequest_def sendMessage_def split: option.split)
  then obtain l where send: "ChannelOpenForwardedRequest (\<lambda>_. None) (acc_socket a) (if acc_inet a then str ''127.0.0.1'' else str ''::1'') port
        (if pf_local q then (if acc_inet a then str ''127.0.0.1'' else str ''::1'') else takeWhile (\<lambda>b. b \<noteq> 37) (acc_address a))
        (ucast (acc_port a)) (lme p) = (False, l)" by blast
  define q1 where "q1 = IncreaseChannelCount q"
  define p1 where "p1 = closeSocket (acc_socket a) ((set_request r q1 p)\<lparr>lme := l\<rparr>)"
  have acc: "acceptConnection (\<lambda>_. None) sm a port p = Some (False, p1)"
    using a r send by (simp add: acceptConnection_def Let_def p1_def q1_def set_request_def)
  have q1: "bindedAddress q1 = bindedAddress q" "pf_status q1 = LISTENING" "channelCount q1 = 1" "pf_port q1 = pf_port q"
    using r(4,5) by (simp_all add: q1_def IncreaseChannelCount_def)
  have store1: "store p1 = (openPorts p, openChannels p, map_put r q1 (requests p), next_request p)"
    by (simp add: p1_def store_frame) (simp add: store_def set_request_def)
  then have P1: "openPorts p1 = openPorts p" "get_request r p1 = Some q1"
    by (simp_all add: store_def get_request_def)
  have ok1: "prot_ok p1"
    using prot_ok_set_request [OF ok r(2), of q1] store1 r(4) by (simp add: q1_def IncreaseChannelCount_def prot_ok_def store_def set_request_def)
  define p2 where "p2 = set_request r (q1\<lparr>pf_status := NOT_ACTIVE\<rparr>) p1"
  have ok2: "prot_ok p2" using prot_ok_set_request [OF ok1 P1(2)] by (simp add: p2_def)
  obtain p3 where p3: "(if isRemoteAPFAddress (bindedAddress q) then checkRemoteAccessStatus p2 else Some p2) = Some p3"
    using keeps_checkRemoteAccessStatus [OF ok2]
    by (cases "isRemoteAPFAddress (bindedAddress q)") (auto simp: keeps_def split: option.splits)
  then have "store p3 = store p2" by (auto dest: store_checkRemoteAccess split: if_splits)
  moreover have "store p2 = (openPorts p, openChannels p, map_put r (q1\<lparr>pf_status := NOT_ACTIVE\<rparr>) (requests p), next_request p)"
    using store1 by (simp add: p2_def store_def set_request_def)
  moreover have "on_tcp_forward_cancel hs (bindedAddress q) (pf_port q) p1 = Some (on_lme (TcpForwardCancelReplySuccess hs) p3)"
    using r(3) P1 q1 p3 by (simp add: on_tcp_forward_cancel_def Let_def p2_def [symmetric])
  moreover have "openPorts (on_lme f p3) = openPorts p3" "openChannels (on_lme f p3) = openChannels p3"
    "get_request r (on_lme f p3) = map_of (requests p3) r" for f
    by (simp_all add: on_lme_def get_request_def)
  ultimately show ?thesis
    using acc r(3) by (auto simp: store_def)
qed

definition listening1 :: protocol where
  "listening1 = (Protocol 20)\<lparr>openPorts := [(16992, [1])], next_request := 2,
     requests := [(1, (new_request (str ''127.0.0.1'') 16992 [9] isLocalCallback True)\<lparr>pf_status := LISTENING\<rparr>)]\<rparr>"

definition loopback1 :: accepted where
  "loopback1 = \<lparr>acc_socket = 7, acc_inet = True, acc_peer = Some \<lparr>ss_family = AF_INET, ss_port = 4000, sin_addr = INADDR_LOOPBACK_net,
     sin6_flowinfo = 0, sin6_addr = [], sin6_scope_id = 0\<rparr>, acc_name = None, acc_address = [], acc_port = 0\<rparr>"

lemma listening1_ok: "prot_ok listening1"
  by (auto simp: listening1_def prot_ok_def store_def store_ok_def map_ok_def port_ok_def request_ok_def new_request_def
    Protocol_def split: if_splits)

lemma failed_accept_leaks_witness:
  "\<exists>p1 p2 q'. acceptConnection (\<lambda>_. None) [] loopback1 16992 listening1 = Some (False, p1)
    \<and> on_tcp_forward_cancel (\<lambda>_. None) (str ''127.0.0.1'') 16992 p1 = Some p2
    \<and> get_request 1 p2 = Some q' \<and> pf_status q' = NOT_ACTIVE \<and> map_of (openPorts p2) 16992 = Some [1]"
proof -
  define q where "q = (new_request (str ''127.0.0.1'') 16992 [9] isLocalCallback True)\<lparr>pf_status := LISTENING\<rparr>"
  have q: "get_request 1 listening1 = Some q" "map_of (openPorts listening1) 16992 = Some [1]" "pf_port q = 16992"
    "channelCount q = 0" "pf_status q = LISTENING" "bindedAddress q = str ''127.0.0.1''" "pf_cb q = isLocalCallback"
    by (simp_all add: listening1_def get_request_def q_def new_request_def)
  have "findFWReq [] loopback1 16992 listening1 = Some (Some 1)"
    using q by (simp add: findFWReq_def IsConnectionPermitted_def loopback1_def isLocal_def Let_def)
  moreover have "acc_socket loopback1 \<noteq> INVALID_SOCKET" by (simp add: loopback1_def INVALID_SOCKET_def)
  ultimately show ?thesis
    using failed_accept_leaks [OF listening1_ok _ _ q(1) _ q(4,5), of loopback1 "[]" 16992 "\<lambda>_. None"] q by auto
qed



end
