(* ===== verification/Mei_Parser.thy ===== *)
theory Mei_Parser
  imports Apf
begin

text \<open>
  The parser of the firmware's replies (\<^verbatim>\<open>MEIClient/Include/MEIparser.h\<close>, \<^verbatim>\<open>src/MEIparser.cpp\<close>) and its strings
  (\<^verbatim>\<open>AMTHIClient/Src/AmtAnsiString.cpp\<close>). A pair of iterators \<^verbatim>\<open>itr, end\<close> is the list of the bytes between
  them. A simple C++ type is its size with the way its bytes are read; the target is little endian with
  64-bit \<^verbatim>\<open>size_t\<close> and 32-bit \<^verbatim>\<open>int\<close>. A result is a value, an exception, or \<open>Undefined\<close>: a read or write outside an
  object. That \<^verbatim>\<open>resize\<close> finds the memory it asks for is taken for granted.
\<close>

type_synonym u16 = "16 word"

datatype mei_exception =
    MEIClientException string u32
  | MEIClientExceptionZeroBuffer string
  | AMTHIErrorException u32
  | MKHIErrorException u32
  | FWUpdateErrorException u32
  | HOTHAMErrorException u32
  | HECIException string int
  | HeciNoClientException int
  | Invalid_argument string

datatype 'a mei = Returned 'a | Raised mei_exception | Undefined

type_synonym 'a parser = "bytes \<Rightarrow> ('a \<times> bytes) mei"

text \<open>Sequencing of parsers; a result that does not depend on the input is a parser that leaves it alone.\<close>

definition returnP :: "'a \<Rightarrow> 'a parser" where
  "returnP a bs = Returned (a, bs)"

definition bindP :: "'a parser \<Rightarrow> ('a \<Rightarrow> 'b parser) \<Rightarrow> 'b parser" where
  "bindP p f bs = (case p bs of Returned (a, rest) \<Rightarrow> f a rest | Raised e \<Rightarrow> Raised e | Undefined \<Rightarrow> Undefined)"

definition liftP :: "'a mei \<Rightarrow> 'a parser" where
  "liftP r bs = (case r of Returned a \<Rightarrow> Returned (a, bs) | Raised e \<Rightarrow> Raised e | Undefined \<Rightarrow> Undefined)"

definition too_small :: mei_exception where
  "too_small = MEIClientException ''Error: Buffer size is too small!'' 0"

subsection \<open>Simple types\<close>

type_synonym 'a simple = "nat \<times> (bytes \<Rightarrow> 'a)"

definition put16 :: "u16 \<Rightarrow> bytes" where
  "put16 w = [ucast w, ucast (drop_bit 8 w)]"

definition get16 :: "bytes \<Rightarrow> u16" where
  "get16 bs = ucast (bs ! 0) OR push_bit 8 (ucast (bs ! 1))"

definition put32 :: "u32 \<Rightarrow> bytes" where
  "put32 w = [ucast w, ucast (drop_bit 8 w), ucast (drop_bit 16 w), ucast (drop_bit 24 w)]"

definition get32 :: "bytes \<Rightarrow> u32" where
  "get32 bs = ucast (bs ! 0) OR push_bit 8 (ucast (bs ! 1)) OR push_bit 16 (ucast (bs ! 2)) OR push_bit 24 (ucast (bs ! 3))"

definition uint8_t :: "u8 simple" where "uint8_t = (1, \<lambda>bs. bs ! 0)"
definition uint16_t :: "u16 simple" where "uint16_t = (2, get16)"
definition uint32_t :: "u32 simple" where "uint32_t = (4, get32)"
definition uint8_array :: "nat \<Rightarrow> bytes simple" where "uint8_array n = (n, \<lambda>bs. bs)"

definition sizeof :: "'a simple \<Rightarrow> nat" where "sizeof T = fst T"

definition parseData :: "'a simple \<Rightarrow> 'a parser" where
  "parseData T bs = (if length bs < sizeof T then Raised too_small
     else Returned (snd T (take (sizeof T) bs), drop (sizeof T) bs))"

text \<open>\<^verbatim>\<open>std::copy\<close> of \<open>bytes_n\<close> bytes into an object of \<open>room\<close> bytes.\<close>

definition copies :: "u64 \<Rightarrow> nat \<Rightarrow> bytes \<Rightarrow> (bytes \<times> bytes) mei" where
  "copies bytes_n room bs = (if unat bytes_n \<le> length bs \<and> unat bytes_n \<le> room
     then Returned (take (unat bytes_n) bs, drop (unat bytes_n) bs) else Undefined)"

definition elements :: "'a simple \<Rightarrow> nat \<Rightarrow> bytes \<Rightarrow> 'a list" where
  "elements T n bs = map (\<lambda>i. snd T (take (sizeof T) (drop (sizeof T * i) bs))) [0..<n]"

definition as_int :: "u64 \<Rightarrow> int" where
  "as_int n = sint (ucast n :: u32)"

text \<open>\<open>arr\<close> is the array before the call.\<close>

definition parseArray :: "'a simple \<Rightarrow> 'a list \<Rightarrow> u32 \<Rightarrow> 'a list parser" where
  "parseArray T arr count bs =
     (let bytes_n = of_nat (sizeof T) * of_int (sint count) :: u64 in
      if int (length bs) < as_int bytes_n then Raised too_small
      else bindP (copies bytes_n (sizeof T * length arr)) (\<lambda>d.
        let n = length d div sizeof T in returnP (elements T n d @ drop n arr)) bs)"

definition parseBool :: "bool parser" where
  "parseBool = bindP (parseData uint32_t) (\<lambda>tmp. returnP (tmp = 1))"

definition parse_counted :: "'a simple \<Rightarrow> u64 \<Rightarrow> 'a list parser" where
  "parse_counted T count bs =
     (let bytes_n = of_nat (sizeof T) * count in
      if int (length bs) < as_int bytes_n then Raised too_small
      else if count = 0 then Returned ([], bs)
      else bindP (copies bytes_n (sizeof T * unat count)) (\<lambda>d. returnP (elements T (unat count) d)) bs)"

definition parseSimpleArray32 :: "'a simple \<Rightarrow> 'a list parser" where
  "parseSimpleArray32 T = bindP (parseData uint32_t) (\<lambda>count. parse_counted T (ucast count))"

definition parseSimpleArray16 :: "'a simple \<Rightarrow> 'a list parser" where
  "parseSimpleArray16 T = bindP (parseData uint16_t) (\<lambda>count. parse_counted T (ucast count))"

primrec parse_times :: "'a parser \<Rightarrow> nat \<Rightarrow> 'a list parser" where
  "parse_times p 0 = returnP []"
| "parse_times p (Suc n) = bindP p (\<lambda>x. bindP (parse_times p n) (\<lambda>xs. returnP (x # xs)))"

definition parseComplexArray :: "'a parser \<Rightarrow> 'a list parser" where
  "parseComplexArray p = bindP (parseData uint32_t) (\<lambda>count. if count = 0 then returnP [] else parse_times p (unat count))"

text \<open>A \<^verbatim>\<open>std::string\<close> made from a \<^verbatim>\<open>char\<close> array reads on until a zero byte.\<close>

definition c_string :: "bytes \<Rightarrow> bytes mei" where
  "c_string d = (if 0 \<in> set d then Returned (takeWhile (\<lambda>b. b \<noteq> 0) d) else Undefined)"

subsection \<open>\<^verbatim>\<open>AmtAnsiString\<close>\<close>

record AmtAnsiString =
  m_str :: bytes
  m_nullTerminated :: bool

text \<open>Deserialisation: the count is \<^verbatim>\<open>*first\<close>, one byte, and the string is everything up to \<^verbatim>\<open>last\<close>; \<^verbatim>\<open>first\<close>
  is moved past the count only.\<close>

definition parse_AmtAnsiString :: "bool \<Rightarrow> AmtAnsiString parser" where
  "parse_AmtAnsiString nt bs =
     (if length bs < 2 then Raised too_small
      else let count = ucast (bs ! 0) :: u16; bs' = drop 2 bs in
        if count = 0 then Returned (\<lparr>m_str = [], m_nullTerminated = nt\<rparr>, bs')
        else if length bs' < unat count then Raised too_small
        else Returned (\<lparr>m_str = bs', m_nullTerminated = nt\<rparr>, bs'))"

definition new_AmtAnsiString :: "bytes \<Rightarrow> bool \<Rightarrow> AmtAnsiString mei" where
  "new_AmtAnsiString s nt = (if 65535 \<le> length s then Raised (MEIClientException ''Error: str is too long!'' 0)
     else Returned \<lparr>m_str = s, m_nullTerminated = nt\<rparr>)"

definition ansi_size :: "AmtAnsiString \<Rightarrow> u32" where
  "ansi_size s = of_nat (if m_nullTerminated s then length (m_str s) + 1 else length (m_str s))"

definition ansi_bufSize :: "AmtAnsiString \<Rightarrow> u32" where
  "ansi_bufSize s = ansi_size s + 2"

definition ansi_serialize :: "AmtAnsiString \<Rightarrow> bytes" where
  "ansi_serialize s = (let len = of_nat (length (m_str s)) + (if m_nullTerminated s then 1 else 0) :: u16 in
     put16 len @ m_str s @ replicate (unat len - length (m_str s)) 0)"

definition parseString :: "bytes parser" where
  "parseString = bindP (parse_AmtAnsiString True) (\<lambda>s. returnP (m_str s))"

end
