(* ===== verification/Mei_Parser_Correct.thy ===== *)
theory Mei_Parser_Correct
  imports Mei_Parser
begin

text \<open>
  What the parser guarantees. A simple type whose bytes are a faithful image of its values is the locale
  \<open>simple_type\<close>; a reply format whose parser inverts an encoding is \<open>response\<close>, and \<open>final_response\<close> when it is
  the last item of a message, where bytes may be left. A parser that is never undefined is \<open>defined\<close>.
\<close>

named_theorems parse_simps \<open>evaluation of parsers\<close>
named_theorems parse_defined \<open>parsers that are never undefined\<close>

lemma returnP_simp [parse_simps]: "returnP a bs = Returned (a, bs)"
  by (simp add: returnP_def)

lemma bindP_Returned [parse_simps]: "p bs = Returned (a, rest) \<Longrightarrow> bindP p f bs = f a rest"
  by (simp add: bindP_def)

lemma bindP_Raised: "p bs = Raised e \<Longrightarrow> bindP p f bs = Raised e"
  by (simp add: bindP_def)

lemma bindP_Undefined: "p bs = Undefined \<Longrightarrow> bindP p f bs = Undefined"
  by (simp add: bindP_def)

lemma liftP_Returned [parse_simps]: "liftP (Returned a) bs = Returned (a, bs)"
  by (simp add: liftP_def)

lemma bindP_assoc: "bindP (bindP p f) g = bindP p (\<lambda>a. bindP (f a) g)"
  by (rule ext) (auto simp: bindP_def split: mei.splits prod.splits)

subsection \<open>Simple types\<close>

lemma length_put16 [simp]: "length (put16 w) = 2"
  by (simp add: put16_def)

lemma length_put32 [simp]: "length (put32 w) = 4"
  by (simp add: put32_def)

lemma get16_put16 [simp]: "get16 (put16 w @ rest) = w"
  unfolding get16_def put16_def
  by (rule bit_word_eqI) (auto simp: bit_simps)

lemma get32_put32 [simp]: "get32 (put32 w @ rest) = w"
  unfolding get32_def put32_def
proof (rule bit_word_eqI)
  fix n assume "n < LENGTH(32)"
  then consider "n < 8" | "8 \<le> n" "n < 16" | "16 \<le> n" "n < 24" | "24 \<le> n" "n < 32" by fastforce
  then show "bit (ucast (([ucast w, ucast (drop_bit 8 w), ucast (drop_bit 16 w), ucast (drop_bit 24 w)] @ rest) ! 0) OR
      push_bit 8 (ucast (([ucast w, ucast (drop_bit 8 w), ucast (drop_bit 16 w), ucast (drop_bit 24 w)] @ rest) ! 1)) OR
      push_bit 16 (ucast (([ucast w, ucast (drop_bit 8 w), ucast (drop_bit 16 w), ucast (drop_bit 24 w)] @ rest) ! 2)) OR
      push_bit 24 (ucast (([ucast w, ucast (drop_bit 8 w), ucast (drop_bit 16 w), ucast (drop_bit 24 w)] @ rest) ! 3)) :: u32) n = bit w n"
    by cases (auto simp: bit_simps)
qed

lemmas get_put_end [simp] = get16_put16 [of _ "[]", simplified] get32_put32 [of _ "[]", simplified]

lemma as_int_of_nat: "n < 2147483648 \<Longrightarrow> as_int (of_nat n) = int n"
proof -
  assume n: "n < 2147483648"
  then have "(ucast (of_nat n :: u64) :: u32) = of_nat n" by (simp add: unsigned_of_nat take_bit_nat_eq_self)
  moreover have "signed_take_bit 31 (int n) = int n" using n by (intro signed_take_bit_int_eq_self) simp_all
  ultimately show ?thesis by (simp add: as_int_def signed_of_nat)
qed

locale simple_type =
  fixes T :: "'a simple" and enc :: "'a \<Rightarrow> bytes" and ok :: "'a \<Rightarrow> bool"
  assumes enc_size: "ok a \<Longrightarrow> length (enc a) = sizeof T"
    and enc_read: "ok a \<Longrightarrow> snd T (enc a) = a"
    and nonempty: "0 < sizeof T"
begin

lemma parseData_enc: "ok a \<Longrightarrow> parseData T (enc a @ rest) = Returned (a, rest)"
  using enc_size [of a] enc_read [of a] by (simp add: parseData_def)

lemma length_concat_enc: "list_all ok as \<Longrightarrow> length (concat (map enc as)) = sizeof T * length as"
  by (induction as) (simp_all add: enc_size)

lemma elements_enc: "list_all ok as \<Longrightarrow> elements T (length as) (concat (map enc as) @ rest) = as"
proof (induction as)
  case (Cons a as)
  have "elements T (Suc (length as)) (enc a @ bs) = a # elements T (length as) bs" for bs
    using enc_size [of a] enc_read [of a] Cons.prems
    by (simp add: elements_def upt_conv_Cons map_Suc_upt [symmetric] comp_def del: upt_Suc)
  with Cons show ?case by simp
qed (simp add: elements_def)

lemma parse_counted_enc:
  assumes "sizeof T * length as < 2 ^ 31" and "list_all ok as"
  shows "parse_counted T (of_nat (length as)) (concat (map enc as) @ rest) = Returned (as, rest)"
proof (cases "as = []")
  case False
  let ?n = "of_nat (sizeof T) * of_nat (length as) :: u64"
  have n: "?n = of_nat (sizeof T * length as)" by simp
  have small: "sizeof T * length as < 2147483648" using assms by simp
  then have u: "unat ?n = sizeof T * length as"
    unfolding n by (subst unat_of_nat) simp
  have "length as \<le> sizeof T * length as" using nonempty by simp
  also note small
  finally have "length as < 2147483648" .
  then have c: "unat (of_nat (length as) :: u64) = length as" by (intro unat_of_nat_64) simp
  then have c0: "(of_nat (length as) :: u64) \<noteq> 0" using False by (metis length_0_conv unat_0)
  have "as_int ?n = int (sizeof T * length as)" unfolding n by (rule as_int_of_nat [OF small])
  then show ?thesis
    using False u c c0 assms(2) length_concat_enc [of as] elements_enc [of as "[]"]
    by (simp add: parse_counted_def Let_def copies_def bindP_def returnP_def)
qed (simp add: parse_counted_def as_int_def)

lemma parseSimpleArray32_enc:
  assumes "sizeof T * length as < 2 ^ 31" and "list_all ok as"
  shows "parseSimpleArray32 T (put32 (of_nat (length as)) @ concat (map enc as) @ rest) = Returned (as, rest)"
proof -
  have "length as \<le> sizeof T * length as" using nonempty by simp
  also have "\<dots> < 2147483648" using assms by simp
  finally have "length as < 2147483648" .
  then have "ucast (of_nat (length as) :: u32) = (of_nat (length as) :: u64)" by (simp add: unsigned_of_nat take_bit_nat_eq_self)
  with parse_counted_enc [OF assms, of rest] show ?thesis
    by (simp add: parseSimpleArray32_def bindP_def parseData_def uint32_t_def sizeof_def)
qed

end

interpretation u8: simple_type uint8_t "\<lambda>b. [b]" "\<lambda>_. True"
  by unfold_locales (simp_all add: uint8_t_def sizeof_def)

interpretation u16: simple_type uint16_t put16 "\<lambda>_. True"
  by unfold_locales (simp_all add: uint16_t_def sizeof_def)

interpretation u32: simple_type uint32_t put32 "\<lambda>_. True"
  by unfold_locales (simp_all add: uint32_t_def sizeof_def)

lemma simple_bytes: "0 < n \<Longrightarrow> simple_type (uint8_array n) (\<lambda>d. d) (\<lambda>d. length d = n)"
  by unfold_locales (simp_all add: uint8_array_def sizeof_def)

lemmas bytes_enc = simple_type.parseData_enc [OF simple_bytes]

lemmas simple_enc [parse_simps] = u8.parseData_enc [simplified] u16.parseData_enc [simplified] u32.parseData_enc [simplified]

definition put_bool :: "bool \<Rightarrow> bytes" where
  "put_bool b = put32 (if b then 1 else 0)"

lemma length_put_bool [simp]: "length (put_bool b) = 4"
  by (simp add: put_bool_def)

lemma parseBool_enc [parse_simps]: "parseBool (put_bool b @ rest) = Returned (b, rest)"
  by (simp add: parseBool_def put_bool_def parse_simps)

subsection \<open>Reply formats\<close>

locale final_response =
  fixes parse :: "'a parser" and enc :: "'a \<Rightarrow> bytes" and ok :: "'a \<Rightarrow> bool"
  assumes final_enc: "ok a \<Longrightarrow> \<exists>rest. parse (enc a) = Returned (a, rest)"

locale response =
  fixes parse :: "'a parser" and enc :: "'a \<Rightarrow> bytes" and ok :: "'a \<Rightarrow> bool"
  assumes parse_enc: "ok a \<Longrightarrow> parse (enc a @ rest) = Returned (a, rest)"
begin

lemma parse_times_enc:
  "list_all ok as \<Longrightarrow> parse_times parse (length as) (concat (map enc as) @ rest) = Returned (as, rest)"
  by (induction as) (simp_all add: bindP_def returnP_def parse_enc)

lemma parseComplexArray_enc:
  assumes "length as < 2 ^ 32" and "list_all ok as"
  shows "parseComplexArray parse (put32 (of_nat (length as)) @ concat (map enc as) @ rest) = Returned (as, rest)"
proof (cases "as = []")
  case False
  have "unat (of_nat (length as) :: u32) = length as" using assms by (simp add: unat_of_nat)
  moreover from this False have "(of_nat (length as) :: u32) \<noteq> 0" by (metis length_0_conv unat_0)
  ultimately show ?thesis
    using parse_times_enc [OF assms(2)] by (simp add: parseComplexArray_def bindP_def parse_simps)
qed (simp add: parseComplexArray_def bindP_def parse_simps)

lemma enc_inj: "ok a \<Longrightarrow> ok b \<Longrightarrow> enc a = enc b \<Longrightarrow> a = b"
  using parse_enc [of a "[]"] parse_enc [of b "[]"] by simp

end

sublocale response \<subseteq> final_response
proof
  show "ok a \<Longrightarrow> \<exists>rest. parse (enc a) = Returned (a, rest)" for a
    using parse_enc [of a "[]"] by auto
qed

sublocale simple_type \<subseteq> response "parseData T" enc ok
  by unfold_locales (rule parseData_enc)

subsection \<open>Parsers that are never undefined\<close>

definition defined :: "'a parser \<Rightarrow> bool" where
  "defined p \<longleftrightarrow> (\<forall>bs. p bs \<noteq> Undefined)"

lemma definedI: "(\<And>bs. p bs \<noteq> Undefined) \<Longrightarrow> defined p"
  by (simp add: defined_def)

lemma defined_returnP [parse_defined]: "defined (returnP a)"
  by (simp add: defined_def returnP_def)

lemma defined_bindP [parse_defined]: "defined p \<Longrightarrow> (\<And>a. defined (f a)) \<Longrightarrow> defined (bindP p f)"
  by (auto simp: defined_def bindP_def split: mei.splits)

lemma defined_parseData [parse_defined]: "defined (parseData T)"
  by (simp add: defined_def parseData_def)

lemma defined_parseBool [parse_defined]: "defined parseBool"
  unfolding parseBool_def by (intro parse_defined)

lemma defined_parseString [parse_defined]: "defined parseString"
  unfolding parseString_def
  by (intro parse_defined) (simp add: defined_def parse_AmtAnsiString_def Let_def)

lemma defined_if [parse_defined]: "defined p \<Longrightarrow> defined q \<Longrightarrow> defined (if b then p else q)"
  by simp

lemma defined_liftP [parse_defined]: "r \<noteq> Undefined \<Longrightarrow> defined (liftP r)"
  by (cases r) (simp_all add: defined_def liftP_def)

lemma defined_parse_times [parse_defined]: "defined p \<Longrightarrow> defined (parse_times p n)"
  by (induction n) (auto intro!: parse_defined)

lemma defined_parseComplexArray [parse_defined]: "defined p \<Longrightarrow> defined (parseComplexArray p)"
  unfolding parseComplexArray_def by (intro parse_defined)

lemma unat_size_count:
  assumes "unat count < 2 ^ 32" and "sizeof T * unat count < 2 ^ 64"
  shows "unat (of_nat (sizeof T) * count :: u64) = sizeof T * unat count"
proof -
  have "of_nat (sizeof T) * count = (of_nat (sizeof T * unat count) :: u64)" by simp
  then show ?thesis by (simp only: unat_of_nat_64 [OF assms(2)])
qed

lemma parse_counted_Undefined:
  assumes "sizeof T * unat count < 2 ^ 64" and "unat count < 2 ^ 32"
  shows "parse_counted T count bs = Undefined \<longleftrightarrow>
    as_int (of_nat (sizeof T) * count) \<le> int (length bs) \<and> length bs < sizeof T * unat count"
proof -
  have u: "unat (of_nat (sizeof T) * count) = sizeof T * unat count" by (rule unat_size_count [OF assms(2,1)])
  show ?thesis
    by (auto simp: parse_counted_def Let_def bindP_def copies_def u returnP_def)
qed

lemma parse_counted_small:
  assumes "sizeof T * unat count < 2 ^ 31" and "unat count < 2 ^ 32"
  shows "parse_counted T count bs \<noteq> Undefined"
proof -
  have "of_nat (sizeof T) * count = (of_nat (sizeof T * unat count) :: u64)" by simp
  moreover have "as_int (of_nat (sizeof T * unat count)) = int (sizeof T * unat count)"
    using assms by (intro as_int_of_nat) simp
  ultimately have eq: "as_int (of_nat (sizeof T) * count) = int (sizeof T * unat count)" by (simp only:)
  have small: "sizeof T * unat count < 2 ^ 64" using assms(1) by simp
  show ?thesis unfolding parse_counted_Undefined [OF small assms(2)] eq of_nat_le_iff by simp
qed

lemma defined_parseSimpleArray16 [parse_defined]:
  assumes "sizeof T < 2 ^ 15"
  shows "defined (parseSimpleArray16 T)"
  unfolding parseSimpleArray16_def
proof (intro parse_defined definedI parse_counted_small)
  fix count :: u16
  have c: "unat count < 2 ^ 16" using unsigned_less [of count] by simp
  from c have "unat count < 2 ^ 64" by simp
  then have "unat (ucast count :: u64) = unat count" by (simp add: unsigned_ucast_eq take_bit_nat_eq_self)
  moreover have "sizeof T * unat count \<le> 32768 * 65535" using c assms by (intro mult_le_mono) simp_all
  ultimately show "sizeof T * unat (ucast count :: u64) < 2 ^ 31" "unat (ucast count :: u64) < 2 ^ 32"
    using assms c by simp_all
qed

end
