(* ===== verification/Mei_Command.thy ===== *)
theory Mei_Command
  imports Mei_Parser
begin

text \<open>
  The path of a command to the firmware: the driver handle of \<^verbatim>\<open>MEIClient/src/heci.cpp\<close>, the exchange of
  \<^verbatim>\<open>MEIClient/src/MEICommand.cpp\<close>, and the request and reply frames of the five clients (\<^verbatim>\<open>AMTHICommand\<close>,
  \<^verbatim>\<open>MKHICommand\<close>, \<^verbatim>\<open>FWUpdateCommand\<close>, \<^verbatim>\<open>HOTHAMCommand\<close>, \<^verbatim>\<open>ManageabilityCommand\<close>). The metee library is a parameter: its
  answers are the fields of \<open>tee\<close> (\<^verbatim>\<open>TeeRead\<close> answers with the bytes it put into the buffer), and the calls made
  to it are recorded in order.
\<close>

datatype mei_client = HECI_AMTHI_GUID | HECI_WATCHDOG_GUID | FW_UPDATE_GUID | HECI_MKHI_GUID | HECI_HOTHAM_GUID | LME_GUID

record tee =
  TEE_IS_SUCCESS :: "int \<Rightarrow> bool"
  TEE_CLIENT_NOT_FOUND :: int
  TEE_INTERNAL_ERROR :: int
  TeeInit :: "string \<Rightarrow> int"
  TeeConnect :: "string \<Rightarrow> int"
  maxMsgLen :: u32
  TeeWrite :: "bytes \<Rightarrow> int \<times> u32"
  TeeRead :: "nat \<Rightarrow> int \<times> bytes"

datatype tee_call = Init_call string | Connect_call string | Disconnect_call string | Write_call bytes | Read_call nat nat

text \<open>The handle: the device it is connected to, and the size of its messages.\<close>

record heci =
  device :: "string option"
  bufSize :: u32
  calls :: "tee_call list"

definition HECI :: heci where
  "HECI = \<lparr>device = None, bufSize = 0, calls = []\<rparr>"

definition called :: "tee_call \<Rightarrow> heci \<Rightarrow> heci" where
  "called c h = h\<lparr>calls := calls h @ [c]\<rparr>"

definition devices :: "string list" where
  "devices = [''/dev/mei0'', ''/dev/mei1'', ''/dev/mei2'', ''/dev/mei3'']"

text \<open>The loop of \<^verbatim>\<open>Init\<close>: \<open>ret\<close> is the last status, \<open>nf\<close> tells whether a device has no such client.\<close>

primrec try_devices :: "tee \<Rightarrow> string list \<Rightarrow> int \<Rightarrow> bool \<Rightarrow> heci \<Rightarrow> unit mei \<times> heci" where
  "try_devices t [] ret nf h = (if nf then Raised (HeciNoClientException (TEE_CLIENT_NOT_FOUND t))
     else Raised (HECIException ''Error in connecting to HECI. '' ret), h\<lparr>device := None\<rparr>)"
| "try_devices t (d # ds) ret nf h =
     (let h = called (Init_call d) h; ret = TeeInit t d in
      if \<not> TEE_IS_SUCCESS t ret then try_devices t ds ret nf h
      else let h = called (Connect_call d) h; ret = TeeConnect t d in
        if \<not> TEE_IS_SUCCESS t ret then
          try_devices t ds ret (nf \<or> ret = TEE_CLIENT_NOT_FOUND t) (called (Disconnect_call d) h)
        else (Returned (), h\<lparr>device := Some d, bufSize := maxMsgLen t\<rparr>))"

definition heci_Init :: "tee \<Rightarrow> heci \<Rightarrow> unit mei \<times> heci" where
  "heci_Init t h = (if device h \<noteq> None then (Returned (), h)
     else try_devices t devices (TEE_INTERNAL_ERROR t) False h)"

definition heci_Deinit :: "heci \<Rightarrow> heci" where
  "heci_Deinit h = (case device h of None \<Rightarrow> h | Some d \<Rightarrow> (called (Disconnect_call d) h)\<lparr>device := None\<rparr>)"

definition ReceiveHeciMessage :: "tee \<Rightarrow> nat \<Rightarrow> nat \<Rightarrow> heci \<Rightarrow> bytes mei \<times> heci" where
  "ReceiveHeciMessage t len timeout h =
     (if device h = None then (Raised (HECIException ''Not initialized'' (TEE_INTERNAL_ERROR t)), h)
      else let h = called (Read_call len timeout) h; (ret, got) = TeeRead t len in
        if \<not> TEE_IS_SUCCESS t ret then (Raised (HECIException ''Read failed'' ret), h) else (Returned got, h))"

definition SendHeciMessage :: "tee \<Rightarrow> bytes \<Rightarrow> heci \<Rightarrow> u32 mei \<times> heci" where
  "SendHeciMessage t buf h =
     (if device h = None then (Raised (HECIException ''Not initialized'' (TEE_INTERNAL_ERROR t)), h)
      else let h = called (Write_call buf) h; (ret, n) = TeeWrite t buf in
        if \<not> TEE_IS_SUCCESS t ret then (Raised (HECIException ''Write failed'' ret), h) else (Returned n, h))"

text \<open>\<^verbatim>\<open>MEICommand::Transact\<close>; the handle is destroyed, hence closed, on every way out. A driver that announces
  messages of no bytes makes \<^verbatim>\<open>&readBuffer[0]\<close> undefined.\<close>

definition transact_body :: "tee \<Rightarrow> bytes \<Rightarrow> (bytes \<Rightarrow> 'a mei) \<Rightarrow> heci \<Rightarrow> 'a mei \<times> heci" where
  "transact_body t request parseResponse h = (case heci_Init t h of
     (Returned _, h) \<Rightarrow> (case SendHeciMessage t request h of
        (Returned n, h) \<Rightarrow>
          if unat n \<noteq> length request then (Raised (MEIClientException ''Error: send message failed'' 0), h)
          else if bufSize h = 0 then (Undefined, h)
          else (case ReceiveHeciMessage t (unat (bufSize h)) 15000 h of
             (Returned got, h) \<Rightarrow>
               (if got \<noteq> [] then parseResponse got
                else Raised (MEIClientExceptionZeroBuffer ''Error: Failed on RecieveResponse''), h)
           | (Raised e, h) \<Rightarrow> (Raised e, h)
           | (Undefined, h) \<Rightarrow> (Undefined, h))
      | (Raised e, h) \<Rightarrow> (Raised e, h)
      | (Undefined, h) \<Rightarrow> (Undefined, h))
   | (Raised e, h) \<Rightarrow> (Raised e, h)
   | (Undefined, h) \<Rightarrow> (Undefined, h))"

definition Transact :: "tee \<Rightarrow> bytes \<Rightarrow> (bytes \<Rightarrow> 'a mei) \<Rightarrow> 'a mei \<times> tee_call list" where
  "Transact t request parseResponse =
     (let (r, h) = transact_body t request parseResponse HECI in (r, calls (heci_Deinit h)))"

text \<open>What a parser makes of the bytes behind the header; bytes left over are ignored.\<close>

definition generate_response :: "'a parser \<Rightarrow> bytes \<Rightarrow> 'a mei" where
  "generate_response p bs = (case p bs of Returned (a, rest) \<Rightarrow> Returned a | Raised e \<Rightarrow> Raised e | Undefined \<Rightarrow> Undefined)"

subsection \<open>AMTHI\<close>

record amthi_request =
  requestHeaderCommandNumber :: u32
  requestDataSize :: u32
  SerializeData :: bytes

definition AMT_MAJOR_VERSION :: u8 where "AMT_MAJOR_VERSION = 1"
definition AMT_MINOR_VERSION :: u8 where "AMT_MINOR_VERSION = 1"

definition sizeof_AMTHI_MESSAGE_HEADER :: nat where "sizeof_AMTHI_MESSAGE_HEADER = 12"

definition AMTHI_header :: "u32 \<Rightarrow> u32 \<Rightarrow> bytes" where
  "AMTHI_header cmd len = [AMT_MAJOR_VERSION, AMT_MINOR_VERSION] @ put16 0 @ put32 cmd @ put32 len"

definition AMTHI_Serialize :: "amthi_request \<Rightarrow> bytes" where
  "AMTHI_Serialize r = AMTHI_header (requestHeaderCommandNumber r) (requestDataSize r) @ SerializeData r"

definition AMTHI_verifyHeaderAndStatus :: "u32 \<Rightarrow> bytes \<Rightarrow> nat mei" where
  "AMTHI_verifyHeaderAndStatus cmd buffer =
     (if length buffer < sizeof_AMTHI_MESSAGE_HEADER + 4
      then Raised (MEIClientException ''Error: response buffer too short.'' 0)
      else if get32 (drop 4 buffer) \<noteq> cmd \<or> unat (get32 (drop 8 buffer)) \<noteq> length buffer - sizeof_AMTHI_MESSAGE_HEADER
      then Raised (MEIClientException ''Error: AMTHI Command number is incorrect.'' 0)
      else let status = get32 (drop sizeof_AMTHI_MESSAGE_HEADER buffer) in
        if status \<noteq> 0 then Raised (AMTHIErrorException status) else Returned (sizeof_AMTHI_MESSAGE_HEADER + 4))"

definition AMTHICommandResponse :: "'a parser \<Rightarrow> u32 \<Rightarrow> bytes \<Rightarrow> 'a mei" where
  "AMTHICommandResponse parse cmd buffer = (case AMTHI_verifyHeaderAndStatus cmd buffer of
     Returned n \<Rightarrow> generate_response parse (drop n buffer) | Raised e \<Rightarrow> Raised e | Undefined \<Rightarrow> Undefined)"

definition AMTHICommand :: "tee \<Rightarrow> amthi_request \<Rightarrow> 'a parser \<Rightarrow> u32 \<Rightarrow> 'a mei \<times> tee_call list" where
  "AMTHICommand t r parse cmd = Transact t (AMTHI_Serialize r) (AMTHICommandResponse parse cmd)"

subsection \<open>MKHI\<close>

text \<open>The header word: group in bits 0 to 7, command in 8 to 14, the response bit 15, the result in 24 to 31.\<close>

definition MKHI_header :: "u32 \<Rightarrow> u32 \<Rightarrow> u32" where
  "MKHI_header command gid = (push_bit 8 (take_bit 7 command)) OR take_bit 8 gid"

definition hdr_GroupId :: "u32 \<Rightarrow> u32" where "hdr_GroupId d = take_bit 8 d"
definition hdr_Command :: "u32 \<Rightarrow> u32" where "hdr_Command d = take_bit 7 (drop_bit 8 d)"
definition hdr_IsResponse :: "u32 \<Rightarrow> u32" where "hdr_IsResponse d = take_bit 1 (drop_bit 15 d)"
definition hdr_Result :: "u32 \<Rightarrow> u32" where "hdr_Result d = take_bit 8 (drop_bit 24 d)"

record mkhi_request =
  mkhi_command :: u32
  mkhi_group :: u32
  mkhi_data :: bytes

definition MKHI_Serialize :: "mkhi_request \<Rightarrow> bytes" where
  "MKHI_Serialize r = put32 (MKHI_header (mkhi_command r) (mkhi_group r)) @ mkhi_data r"

definition MKHI_verifyHeaderAndStatus :: "u32 \<Rightarrow> u32 \<Rightarrow> bytes \<Rightarrow> nat mei" where
  "MKHI_verifyHeaderAndStatus cmd gid buffer =
     (if length buffer < 4 then Raised (MEIClientException ''Error: response buffer too short'' 0)
      else let header = get32 buffer in
        if hdr_Command header \<noteq> cmd \<or> hdr_GroupId header \<noteq> gid \<or> hdr_IsResponse header \<noteq> 1
        then Raised (MEIClientException ''Error: MKHI Command number/Group ID/ is response is incorrect'' 0)
        else if hdr_Result header \<noteq> 0 then Raised (MKHIErrorException (hdr_Result header))
        else Returned 4)"

definition MKHICommandResponse :: "'a parser \<Rightarrow> u32 \<Rightarrow> u32 \<Rightarrow> bytes \<Rightarrow> 'a mei" where
  "MKHICommandResponse parse cmd gid buffer = (case MKHI_verifyHeaderAndStatus cmd gid buffer of
     Returned n \<Rightarrow> generate_response parse (drop n buffer) | Raised e \<Rightarrow> Raised e | Undefined \<Rightarrow> Undefined)"

text \<open>The reply to a rule request repeats the rule and carries the length of its data.\<close>

definition MKHIGetRule_verifyHeaderAndStatus :: "nat \<Rightarrow> u32 \<Rightarrow> u32 \<Rightarrow> u32 \<Rightarrow> bytes \<Rightarrow> nat mei" where
  "MKHIGetRule_verifyHeaderAndStatus sizeofT cmd gid rule buffer =
     (if length buffer < 9 then Raised (MEIClientException ''Error: response buffer too short'' 0)
      else let header = get32 buffer in
        if hdr_Command header \<noteq> cmd \<or> hdr_GroupId header \<noteq> gid \<or> hdr_IsResponse header \<noteq> 1
        then Raised (MEIClientException ''Error: MKHI Command number/Group ID/ is response is incorrect'' header)
        else if hdr_Result header \<noteq> 0 then Raised (MKHIErrorException (hdr_Result header))
        else if get32 (drop 4 buffer) \<noteq> rule
        then Raised (MEIClientException ''Error: MKHI RuleID is incorrect'' (get32 (drop 4 buffer)))
        else if unat (buffer ! 8) \<noteq> sizeofT
        then Raised (MEIClientException ''Error: MKHI RuleDataLen is incorrect'' (ucast (buffer ! 8)))
        else Returned 9)"

definition MKHIGetRuleCommandResponse :: "nat \<Rightarrow> 'a parser \<Rightarrow> u32 \<Rightarrow> u32 \<Rightarrow> u32 \<Rightarrow> bytes \<Rightarrow> 'a mei" where
  "MKHIGetRuleCommandResponse sizeofT parse cmd gid rule buffer =
     (case MKHIGetRule_verifyHeaderAndStatus sizeofT cmd gid rule buffer of
        Returned n \<Rightarrow> generate_response parse (drop n buffer) | Raised e \<Rightarrow> Raised e | Undefined \<Rightarrow> Undefined)"

subsection \<open>Firmware update, HOTHAM and manageability\<close>

definition FWUpdate_Serialize :: "u32 \<Rightarrow> bytes \<Rightarrow> bytes" where
  "FWUpdate_Serialize messageID d = put32 messageID @ d"

definition FWUpdate_verifyHeaderAndStatus :: "u32 \<Rightarrow> bytes \<Rightarrow> nat mei" where
  "FWUpdate_verifyHeaderAndStatus cmd buffer =
     (if length buffer < 8 then Raised (MEIClientException ''Error: response buffer to short.'' 0)
      else if get32 buffer \<noteq> cmd then Raised (MEIClientException ''Error: FWUpdate Command number is incorrect.'' 0)
      else let status = get32 (drop 4 buffer) in
        if status \<noteq> 0 then Raised (FWUpdateErrorException status) else Returned 8)"

definition FWUpdateCommandResponse :: "'a parser \<Rightarrow> u32 \<Rightarrow> bytes \<Rightarrow> 'a mei" where
  "FWUpdateCommandResponse parse cmd buffer = (case FWUpdate_verifyHeaderAndStatus cmd buffer of
     Returned n \<Rightarrow> generate_response parse (drop n buffer) | Raised e \<Rightarrow> Raised e | Undefined \<Rightarrow> Undefined)"

text \<open>The HOTHAM request word: class in bits 0 and 1, target in 2 to 4, code in 8 to 15; the response code
  is in bits 8 to 15.\<close>

definition HOTHAM_RESPONSE_STATUS_SUCCESS :: u32 where "HOTHAM_RESPONSE_STATUS_SUCCESS = 0x10"
definition HOTHAM_COMMAND_CODE :: u8 where "HOTHAM_COMMAND_CODE = 2"

definition HOTHAM_header :: "u8 \<Rightarrow> u8 \<Rightarrow> u32" where
  "HOTHAM_header reqCode msgClass = push_bit 8 (ucast reqCode) OR take_bit 2 (ucast msgClass) OR push_bit 2 1"

definition HOTHAM_Serialize :: "u8 \<Rightarrow> u8 \<Rightarrow> bytes \<Rightarrow> bytes" where
  "HOTHAM_Serialize reqCode msgClass d = put32 (HOTHAM_header reqCode msgClass) @ d"

definition HOTHAM_verifyHeaderAndStatus :: "bytes \<Rightarrow> nat mei" where
  "HOTHAM_verifyHeaderAndStatus buffer =
     (if length buffer < 4 then Raised (MEIClientException ''Error: response buffer too short'' 0)
      else let code = take_bit 8 (drop_bit 8 (get32 buffer)) in
        if code \<noteq> HOTHAM_RESPONSE_STATUS_SUCCESS then Raised (HOTHAMErrorException code) else Returned 4)"

definition HOTHAMCommandResponse :: "'a parser \<Rightarrow> bytes \<Rightarrow> 'a mei" where
  "HOTHAMCommandResponse parse buffer = (case HOTHAM_verifyHeaderAndStatus buffer of
     Returned n \<Rightarrow> generate_response parse (drop n buffer) | Raised e \<Rightarrow> Raised e | Undefined \<Rightarrow> Undefined)"

record manageability_request =
  mng_CMD :: u8
  mng_SubCMD :: u8
  mng_dataSize :: u8
  mng_data :: bytes

definition MNG_HEADER_VERSION :: u8 where "MNG_HEADER_VERSION = 0x10"

definition Manageability_Serialize :: "manageability_request \<Rightarrow> bytes" where
  "Manageability_Serialize r = [mng_CMD r, 2 + mng_dataSize r, mng_SubCMD r, MNG_HEADER_VERSION] @ mng_data r"

text \<open>The reply of the manageability client has no header that is looked at.\<close>

definition ManageabilityCommandResponse :: "'a parser \<Rightarrow> bytes \<Rightarrow> 'a mei" where
  "ManageabilityCommandResponse parse buffer = generate_response parse buffer"

end
