(* ===== verification/Amthi_Query.thy ===== *)
theory Amthi_Query
  imports Mei_Command
begin

text \<open>
  The queries of the AMTHI client (\<^verbatim>\<open>MEIClient/AMTHIClient/Include/Get*Command.h\<close> and their sources): for each
  command the structure of its reply with its parser, its request, and the command itself, which builds the
  request, exchanges it and keeps the parsed reply. A field name that several structures share has the
  command's name in front. \<^verbatim>\<open>AMT_BOOLEAN\<close> is a 32-bit word.
\<close>

definition AMT_TRUE :: u32 where "AMT_TRUE = 1"
definition AMT_FALSE :: u32 where "AMT_FALSE = 0"

text \<open>A request without data.\<close>

definition plain_request :: "u32 \<Rightarrow> amthi_request" where
  "plain_request cmd = \<lparr>requestHeaderCommandNumber = cmd, requestDataSize = 0, SerializeData = []\<rparr>"

definition word_request :: "u32 \<Rightarrow> u32 \<Rightarrow> amthi_request" where
  "word_request cmd w = \<lparr>requestHeaderCommandNumber = cmd, requestDataSize = 4, SerializeData = put32 w\<rparr>"

text \<open>\<^verbatim>\<open>CFG_IP_ADDR\<close> and its \<^verbatim>\<open>toString\<close>.\<close>

definition CFG_IP_ADDR_LEN_MAX :: nat where "CFG_IP_ADDR_LEN_MAX = 46"

definition CFG_IP_ADDR_toString :: "bytes \<Rightarrow> bytes mei" where
  "CFG_IP_ADDR_toString address = c_string address"

definition parse_CFG_IP_ADDR :: "bytes parser" where
  "parse_CFG_IP_ADDR = bindP (parseData (uint8_array CFG_IP_ADDR_LEN_MAX)) (\<lambda>a. liftP (CFG_IP_ADDR_toString a))"

subsection \<open>GetAMTState\<close>

record AMT_STATE_RESPONSE =
  StateDataIdentifier :: bytes
  StateData :: bytes

definition parse_AMT_STATE_RESPONSE :: "AMT_STATE_RESPONSE parser" where
  "parse_AMT_STATE_RESPONSE =
     bindP (parseData (uint8_array 16)) (\<lambda>uuid.
     bindP (parseData uint32_t) (\<lambda>arraySize.
     if arraySize \<noteq> 5 then liftP (Raised (MEIClientException ''Error: Wrong buffer size!'' 0))
     else bindP (parseArray uint8_t (replicate 5 0) 5) (\<lambda>d.
     returnP \<lparr>StateDataIdentifier = uuid, StateData = d\<rparr>)))"

definition GetAMTStateRequest :: "bytes \<Rightarrow> amthi_request" where
  "GetAMTStateRequest uuid = \<lparr>requestHeaderCommandNumber = 0x01000001, requestDataSize = 16, SerializeData = uuid\<rparr>"

definition GetAMTStateCommand :: "tee \<Rightarrow> bytes \<Rightarrow> AMT_STATE_RESPONSE mei \<times> tee_call list" where
  "GetAMTStateCommand t uuid = AMTHICommand t (GetAMTStateRequest uuid) parse_AMT_STATE_RESPONSE 0x01800001"

definition AMT_UUID_LINK_STATE :: bytes where
  "AMT_UUID_LINK_STATE = replicate 15 0 @ [1]"

subsection \<open>GetCertificateHashEntry\<close>

record GET_CERTIFICATE_HASH_ENTRY_RESPONSE =
  IsDefault :: bool
  IsActive :: bool
  CertificateHash :: bytes
  HashAlgorithm :: u8
  hash_Name :: bytes

definition CERT_HASH_MAX_LENGTH :: u32 where "CERT_HASH_MAX_LENGTH = 64"

definition parse_GET_CERTIFICATE_HASH_ENTRY_RESPONSE :: "GET_CERTIFICATE_HASH_ENTRY_RESPONSE parser" where
  "parse_GET_CERTIFICATE_HASH_ENTRY_RESPONSE =
     bindP parseBool (\<lambda>isDefault. bindP parseBool (\<lambda>isActive.
     bindP (parseArray uint8_t (replicate 64 0) CERT_HASH_MAX_LENGTH) (\<lambda>hash.
     bindP (parseData uint8_t) (\<lambda>alg. bindP parseString (\<lambda>name.
     returnP \<lparr>IsDefault = isDefault, IsActive = isActive, CertificateHash = hash, HashAlgorithm = alg, hash_Name = name\<rparr>)))))"

definition GetCertificateHashEntryRequest :: "u32 \<Rightarrow> amthi_request" where
  "GetCertificateHashEntryRequest hashHandle = word_request 0x0400002D hashHandle"

definition GetCertificateHashEntryCommand :: "tee \<Rightarrow> u32 \<Rightarrow> GET_CERTIFICATE_HASH_ENTRY_RESPONSE mei \<times> tee_call list" where
  "GetCertificateHashEntryCommand t hashHandle =
     AMTHICommand t (GetCertificateHashEntryRequest hashHandle) parse_GET_CERTIFICATE_HASH_ENTRY_RESPONSE 0x0480002D"

subsection \<open>GetCodeVersion\<close>

record AMT_VERSION_TYPE =
  version_Description :: bytes
  version_Version :: bytes

definition AMT_UNICODE_STRING :: "(u16 \<times> bytes) simple" where
  "AMT_UNICODE_STRING = (22, \<lambda>bs. (get16 bs, drop 2 bs))"

definition parse_AMT_VERSION_TYPE :: "AMT_VERSION_TYPE parser" where
  "parse_AMT_VERSION_TYPE =
     bindP (parseData AMT_UNICODE_STRING) (\<lambda>description. bindP (parseData AMT_UNICODE_STRING) (\<lambda>version.
     bindP (liftP (c_string (snd description))) (\<lambda>d. bindP (liftP (c_string (snd version))) (\<lambda>v.
     returnP \<lparr>version_Description = d, version_Version = v\<rparr>))))"

record CODE_VERSIONS =
  code_BiosVersion :: bytes
  Versions :: "AMT_VERSION_TYPE list"

definition BIOS_VERSION_LEN :: u32 where "BIOS_VERSION_LEN = 65"

definition parse_CODE_VERSIONS :: "CODE_VERSIONS parser" where
  "parse_CODE_VERSIONS =
     bindP (parseArray uint8_t (replicate 65 0) BIOS_VERSION_LEN) (\<lambda>bios.
     bindP (parseComplexArray parse_AMT_VERSION_TYPE) (\<lambda>vs.
     returnP \<lparr>code_BiosVersion = bios, Versions = vs\<rparr>))"

definition GetCodeVersionRequest :: amthi_request where
  "GetCodeVersionRequest = plain_request 0x0400001A"

definition GetCodeVersionCommand :: "tee \<Rightarrow> CODE_VERSIONS mei \<times> tee_call list" where
  "GetCodeVersionCommand t = AMTHICommand t GetCodeVersionRequest parse_CODE_VERSIONS 0x0480001A"

subsection \<open>GetConfigServerData\<close>

record CFG_GET_CONFIG_SERVER_DATA_RESPONSE =
  ServerPort :: u16
  ServerAddr :: bytes
  server_FQDN :: bytes

definition parse_CFG_GET_CONFIG_SERVER_DATA_RESPONSE :: "CFG_GET_CONFIG_SERVER_DATA_RESPONSE parser" where
  "parse_CFG_GET_CONFIG_SERVER_DATA_RESPONSE =
     bindP (parseData uint16_t) (\<lambda>p. bindP parse_CFG_IP_ADDR (\<lambda>a. bindP parseString (\<lambda>n.
     returnP \<lparr>ServerPort = p, ServerAddr = a, server_FQDN = n\<rparr>)))"

definition GetConfigServerDataRequest :: amthi_request where
  "GetConfigServerDataRequest = plain_request 0x0400004E"

definition GetConfigServerDataCommand :: "tee \<Rightarrow> CFG_GET_CONFIG_SERVER_DATA_RESPONSE mei \<times> tee_call list" where
  "GetConfigServerDataCommand t =
     AMTHICommand t GetConfigServerDataRequest parse_CFG_GET_CONFIG_SERVER_DATA_RESPONSE 0x0480004E"

subsection \<open>GetCurrentPowerPolicy, GetDNSSuffix, GetDNSSuffixList\<close>

definition parse_GetCurrentPowerPolicy_RESPONSE :: "bytes parser" where
  "parse_GetCurrentPowerPolicy_RESPONSE = parseString"

definition GetCurrentPowerPolicyRequest :: amthi_request where
  "GetCurrentPowerPolicyRequest = plain_request 0x04000047"

definition GetCurrentPowerPolicyCommand :: "tee \<Rightarrow> bytes mei \<times> tee_call list" where
  "GetCurrentPowerPolicyCommand t = AMTHICommand t GetCurrentPowerPolicyRequest parse_GetCurrentPowerPolicy_RESPONSE 0x04800047"

definition parse_GetDNSSuffix_RESPONSE :: "bytes parser" where
  "parse_GetDNSSuffix_RESPONSE = parseString"

definition GetDNSSuffixRequest :: amthi_request where
  "GetDNSSuffixRequest = plain_request 0x04000036"

definition GetDNSSuffixCommand :: "tee \<Rightarrow> bytes mei \<times> tee_call list" where
  "GetDNSSuffixCommand t = AMTHICommand t GetDNSSuffixRequest parse_GetDNSSuffix_RESPONSE 0x04800036"

definition parse_GET_DNS_SUFFIX_LIST_RESPONSE :: "bytes parser" where
  "parse_GET_DNS_SUFFIX_LIST_RESPONSE = parseSimpleArray16 uint8_t"

definition GetDNSSuffixListRequest :: amthi_request where
  "GetDNSSuffixListRequest = plain_request 0x0400003E"

definition GetDNSSuffixListCommand :: "tee \<Rightarrow> bytes mei \<times> tee_call list" where
  "GetDNSSuffixListCommand t = AMTHICommand t GetDNSSuffixListRequest parse_GET_DNS_SUFFIX_LIST_RESPONSE 0x0480003E"

subsection \<open>EnumerateHashHandles\<close>

definition parse_ENUMERATE_HASH_HANDLES_RESPONSE :: "u32 list parser" where
  "parse_ENUMERATE_HASH_HANDLES_RESPONSE = parseSimpleArray32 uint32_t"

definition EnumerateHashHandlesRequest :: amthi_request where
  "EnumerateHashHandlesRequest = plain_request 0x0400002C"

definition EnumerateHashHandlesCommand :: "tee \<Rightarrow> u32 list mei \<times> tee_call list" where
  "EnumerateHashHandlesCommand t = AMTHICommand t EnumerateHashHandlesRequest parse_ENUMERATE_HASH_HANDLES_RESPONSE 0x0480002C"

subsection \<open>States selected by an identifier: EAC, KVM, redirection sessions, system defense, web UI\<close>

record GET_EAC_STATE_RESPONSE =
  eac_RequestId :: u32
  EacEnabled :: u32

definition parse_GET_EAC_STATE_RESPONSE :: "GET_EAC_STATE_RESPONSE parser" where
  "parse_GET_EAC_STATE_RESPONSE = bindP (parseData uint32_t) (\<lambda>i. bindP (parseData uint32_t) (\<lambda>b.
     returnP \<lparr>eac_RequestId = i, EacEnabled = b\<rparr>))"

definition GetEACStateRequest :: amthi_request where
  "GetEACStateRequest = word_request 0x04000049 3"

definition GetEACStateCommand :: "tee \<Rightarrow> GET_EAC_STATE_RESPONSE mei \<times> tee_call list" where
  "GetEACStateCommand t = AMTHICommand t GetEACStateRequest parse_GET_EAC_STATE_RESPONSE 0x04800049"

record KVM_STATUS =
  KvmSessionIsActive :: u32
  WaitForOpt :: u32
  kvm_Reserved :: u32

definition KVM_STATUS :: "KVM_STATUS simple" where
  "KVM_STATUS = (4, \<lambda>bs. let w = get32 bs in
     \<lparr>KvmSessionIsActive = take_bit 1 w, WaitForOpt = take_bit 1 (drop_bit 1 w), kvm_Reserved = drop_bit 2 w\<rparr>)"

record GET_KVM_SESSION_STATE_RESPONSE =
  kvm_RequestId :: u32
  kvmStatus :: KVM_STATUS

definition parse_GET_KVM_SESSION_STATE_RESPONSE :: "GET_KVM_SESSION_STATE_RESPONSE parser" where
  "parse_GET_KVM_SESSION_STATE_RESPONSE = bindP (parseData uint32_t) (\<lambda>i. bindP (parseData KVM_STATUS) (\<lambda>k.
     returnP \<lparr>kvm_RequestId = i, kvmStatus = k\<rparr>))"

definition GetKVMSessionStateRequest :: amthi_request where
  "GetKVMSessionStateRequest = word_request 0x04000049 4"

definition GetKVMSessionStateCommand :: "tee \<Rightarrow> GET_KVM_SESSION_STATE_RESPONSE mei \<times> tee_call list" where
  "GetKVMSessionStateCommand t = AMTHICommand t GetKVMSessionStateRequest parse_GET_KVM_SESSION_STATE_RESPONSE 0x04800049"

record GET_REDIRECTION_SESSIONS_STATE_RESPONSE =
  redirection_RequestId :: u32
  IderOpen :: u32
  SolOpen :: u32
  redirection_Reserved :: u32

definition parse_GET_REDIRECTION_SESSIONS_STATE_RESPONSE :: "GET_REDIRECTION_SESSIONS_STATE_RESPONSE parser" where
  "parse_GET_REDIRECTION_SESSIONS_STATE_RESPONSE =
     bindP (parseData uint32_t) (\<lambda>i. bindP (parseData uint32_t) (\<lambda>a. bindP (parseData uint32_t) (\<lambda>b.
     bindP (parseData uint32_t) (\<lambda>c.
     returnP \<lparr>redirection_RequestId = i, IderOpen = a, SolOpen = b, redirection_Reserved = c\<rparr>))))"

definition GetRedirectionSessionsStateRequest :: amthi_request where
  "GetRedirectionSessionsStateRequest = word_request 0x04000049 0"

definition GetRedirectionSessionsStateCommand :: "tee \<Rightarrow> GET_REDIRECTION_SESSIONS_STATE_RESPONSE mei \<times> tee_call list" where
  "GetRedirectionSessionsStateCommand t =
     AMTHICommand t GetRedirectionSessionsStateRequest parse_GET_REDIRECTION_SESSIONS_STATE_RESPONSE 0x04800049"

record GET_SYSTEM_DEFENSE_STATE_RESPONSE =
  defense_RequestId :: u32
  SystemDefenseActivated :: u32

definition parse_GET_SYSTEM_DEFENSE_STATE_RESPONSE :: "GET_SYSTEM_DEFENSE_STATE_RESPONSE parser" where
  "parse_GET_SYSTEM_DEFENSE_STATE_RESPONSE = bindP (parseData uint32_t) (\<lambda>i. bindP (parseData uint32_t) (\<lambda>b.
     returnP \<lparr>defense_RequestId = i, SystemDefenseActivated = b\<rparr>))"

definition GetSystemDefenseStateRequest :: amthi_request where
  "GetSystemDefenseStateRequest = word_request 0x04000049 1"

definition GetSystemDefenseStateCommand :: "tee \<Rightarrow> GET_SYSTEM_DEFENSE_STATE_RESPONSE mei \<times> tee_call list" where
  "GetSystemDefenseStateCommand t =
     AMTHICommand t GetSystemDefenseStateRequest parse_GET_SYSTEM_DEFENSE_STATE_RESPONSE 0x04800049"

record GET_WEB_UI_STATE_RESPONSE =
  web_RequestId :: u32
  WebUiEnabled :: u32

definition parse_GET_WEB_UI_STATE_RESPONSE :: "GET_WEB_UI_STATE_RESPONSE parser" where
  "parse_GET_WEB_UI_STATE_RESPONSE = bindP (parseData uint32_t) (\<lambda>i. bindP (parseData uint32_t) (\<lambda>b.
     returnP \<lparr>web_RequestId = i, WebUiEnabled = b\<rparr>))"

definition GetWebUIStateRequest :: amthi_request where
  "GetWebUIStateRequest = word_request 0x04000049 2"

definition GetWebUIStateCommand :: "tee \<Rightarrow> GET_WEB_UI_STATE_RESPONSE mei \<times> tee_call list" where
  "GetWebUIStateCommand t = AMTHICommand t GetWebUIStateRequest parse_GET_WEB_UI_STATE_RESPONSE 0x04800049"

end
