(* ===== verification/Amthi_Settings.thy ===== *)
theory Amthi_Settings
  imports Amthi_Query
begin

text \<open>
  The queries of the AMTHI client about network, provisioning and security settings, from \<^verbatim>\<open>GetFQDNCommand.h\<close>
  to \<^verbatim>\<open>GetZeroTouchEnabledCommand.h\<close>. Bit fields are the words that \<^const>\<open>take_bit\<close> cuts out, lowest bit first.
\<close>

subsection \<open>GetFQDN\<close>

record GET_FQDN_RESPONSE =
  SharedFQDN :: bool
  DDNSUpdateEnabled :: bool
  DDNSPeriodicUpdateInterval :: u32
  DDNSTTL :: u32
  HostNameLength :: u32
  fqdn_FQDN :: bytes

definition parse_GET_FQDN_RESPONSE :: "GET_FQDN_RESPONSE parser" where
  "parse_GET_FQDN_RESPONSE =
     bindP (parseData uint32_t) (\<lambda>b1. bindP (parseData uint32_t) (\<lambda>b2. bindP (parseData uint32_t) (\<lambda>i.
     bindP (parseData uint32_t) (\<lambda>ttl. bindP (parseData uint32_t) (\<lambda>len. bindP parseString (\<lambda>name.
     returnP \<lparr>SharedFQDN = (b1 = AMT_TRUE), DDNSUpdateEnabled = (b2 = AMT_TRUE), DDNSPeriodicUpdateInterval = i,
       DDNSTTL = ttl, HostNameLength = len, fqdn_FQDN = name\<rparr>))))))"

definition GetFQDNRequest :: amthi_request where
  "GetFQDNRequest = plain_request 0x04000056"

definition GetFQDNCommand :: "tee \<Rightarrow> GET_FQDN_RESPONSE mei \<times> tee_call list" where
  "GetFQDNCommand t = AMTHICommand t GetFQDNRequest parse_GET_FQDN_RESPONSE 0x04800056"

subsection \<open>GetIPv6LanInterfaceStatus\<close>

record CFG_IPv6_ADDR_INFO =
  v6_Address :: bytes
  v6_Type :: u32
  v6_State :: u32

definition parse_CFG_IPv6_ADDR_INFO :: "CFG_IPv6_ADDR_INFO parser" where
  "parse_CFG_IPv6_ADDR_INFO =
     bindP parse_CFG_IP_ADDR (\<lambda>a. bindP (parseData uint32_t) (\<lambda>ty. bindP (parseData uint32_t) (\<lambda>st.
     returnP \<lparr>v6_Address = a, v6_Type = ty, v6_State = st\<rparr>)))"

record GET_IPv6_LAN_INTERFACE_STATUS_RESPONSE =
  IPv6DefaultRouter :: bytes
  v6_PrimaryDNS :: bytes
  v6_SecondaryDNS :: bytes
  IPv6Addresses :: "CFG_IPv6_ADDR_INFO list"

definition parse_GET_IPv6_LAN_INTERFACE_STATUS_RESPONSE :: "GET_IPv6_LAN_INTERFACE_STATUS_RESPONSE parser" where
  "parse_GET_IPv6_LAN_INTERFACE_STATUS_RESPONSE =
     bindP parse_CFG_IP_ADDR (\<lambda>router. bindP parse_CFG_IP_ADDR (\<lambda>dns1. bindP parse_CFG_IP_ADDR (\<lambda>dns2.
     bindP (parseComplexArray parse_CFG_IPv6_ADDR_INFO) (\<lambda>as.
     returnP \<lparr>IPv6DefaultRouter = router, v6_PrimaryDNS = dns1, v6_SecondaryDNS = dns2, IPv6Addresses = as\<rparr>))))"

definition GetIPv6LanInterfaceStatusRequest :: "u32 \<Rightarrow> amthi_request" where
  "GetIPv6LanInterfaceStatusRequest interfaceIndex = word_request 0x04000052 interfaceIndex"

definition GetIPv6LanInterfaceStatusCommand ::
  "tee \<Rightarrow> u32 \<Rightarrow> GET_IPv6_LAN_INTERFACE_STATUS_RESPONSE mei \<times> tee_call list" where
  "GetIPv6LanInterfaceStatusCommand t interfaceIndex =
     AMTHICommand t (GetIPv6LanInterfaceStatusRequest interfaceIndex) parse_GET_IPv6_LAN_INTERFACE_STATUS_RESPONSE 0x04800052"

subsection \<open>GetLanInterfaceSettings\<close>

record LAN_SETTINGS =
  lan_Enabled :: u32
  lan_Ipv4Address :: u32
  lan_DhcpEnabled :: u32
  lan_DhcpIpMode :: u8
  lan_LinkStatus :: u8
  lan_MacAddress :: bytes

definition LAN_SETTINGS :: "LAN_SETTINGS simple" where
  "LAN_SETTINGS = (20, \<lambda>bs. \<lparr>lan_Enabled = get32 bs, lan_Ipv4Address = get32 (drop 4 bs), lan_DhcpEnabled = get32 (drop 8 bs),
     lan_DhcpIpMode = bs ! 12, lan_LinkStatus = bs ! 13, lan_MacAddress = drop 14 bs\<rparr>)"

definition parse_LAN_SETTINGS :: "LAN_SETTINGS parser" where
  "parse_LAN_SETTINGS = parseData LAN_SETTINGS"

definition GetLanInterfaceSettingRequest :: "u32 \<Rightarrow> amthi_request" where
  "GetLanInterfaceSettingRequest interfaceSettings = word_request 0x04000048 interfaceSettings"

definition GetLanInterfaceSettingsCommand :: "tee \<Rightarrow> u32 \<Rightarrow> LAN_SETTINGS mei \<times> tee_call list" where
  "GetLanInterfaceSettingsCommand t interfaceSettings =
     AMTHICommand t (GetLanInterfaceSettingRequest interfaceSettings) parse_LAN_SETTINGS 0x04800048"

subsection \<open>GetLastHostResetReason\<close>

record LAST_HOST_RESET_REASON_RESPONSE =
  reset_Reason :: u32
  RemoteControlTimeStamp :: u32

definition LAST_HOST_RESET_REASON_RESPONSE :: "LAST_HOST_RESET_REASON_RESPONSE simple" where
  "LAST_HOST_RESET_REASON_RESPONSE = (8, \<lambda>bs. \<lparr>reset_Reason = get32 bs, RemoteControlTimeStamp = get32 (drop 4 bs)\<rparr>)"

definition parse_LAST_HOST_RESET_REASON_RESPONSE :: "LAST_HOST_RESET_REASON_RESPONSE parser" where
  "parse_LAST_HOST_RESET_REASON_RESPONSE = parseData LAST_HOST_RESET_REASON_RESPONSE"

definition GetLastHostResetReasonRequest :: amthi_request where
  "GetLastHostResetReasonRequest = plain_request 0x0400004A"

definition GetLastHostResetReasonCommand :: "tee \<Rightarrow> LAST_HOST_RESET_REASON_RESPONSE mei \<times> tee_call list" where
  "GetLastHostResetReasonCommand t =
     AMTHICommand t GetLastHostResetReasonRequest parse_LAST_HOST_RESET_REASON_RESPONSE 0x0480004A"

subsection \<open>GetLocalSystemAccount\<close>

record GET_LOCAL_SYSTEM_ACCOUNT_RESPONSE =
  UserName :: bytes
  Password :: bytes

text \<open>The array is ended by a zero byte before it is made a string.\<close>

definition terminated_string :: "bytes \<Rightarrow> bytes" where
  "terminated_string d = takeWhile (\<lambda>b. b \<noteq> 0) (butlast d @ [0])"

definition parse_GET_LOCAL_SYSTEM_ACCOUNT_RESPONSE :: "GET_LOCAL_SYSTEM_ACCOUNT_RESPONSE parser" where
  "parse_GET_LOCAL_SYSTEM_ACCOUNT_RESPONSE =
     bindP (parseData (uint8_array 33)) (\<lambda>u. bindP (parseData (uint8_array 33)) (\<lambda>p.
     returnP \<lparr>UserName = terminated_string u, Password = terminated_string p\<rparr>))"

definition GetLocalSystemAccountRequest :: amthi_request where
  "GetLocalSystemAccountRequest =
     \<lparr>requestHeaderCommandNumber = 0x04000067, requestDataSize = 40, SerializeData = replicate 40 0\<rparr>"

definition GetLocalSystemAccountCommand :: "tee \<Rightarrow> GET_LOCAL_SYSTEM_ACCOUNT_RESPONSE mei \<times> tee_call list" where
  "GetLocalSystemAccountCommand t =
     AMTHICommand t GetLocalSystemAccountRequest parse_GET_LOCAL_SYSTEM_ACCOUNT_RESPONSE 0x04800067"

subsection \<open>GetMESetupAuditRecord\<close>

record TIME_DATE =
  Year :: u16
  Month :: u16
  DayOfWeek :: u16
  Day :: u16
  Hour :: u16
  Minute :: u16
  Second :: u16

definition TIME_DATE :: "TIME_DATE simple" where
  "TIME_DATE = (14, \<lambda>bs. \<lparr>Year = get16 bs, Month = get16 (drop 2 bs), DayOfWeek = get16 (drop 4 bs),
     Day = get16 (drop 6 bs), Hour = get16 (drop 8 bs), Minute = get16 (drop 10 bs), Second = get16 (drop 12 bs)\<rparr>)"

record GetMESetupAuditRecord_RESPONSE =
  ProvisioningTLSMode :: u8
  SecureDNS :: bool
  HostInitiated :: bool
  SelectedHashType :: u32
  SelectedHashData :: bytes
  CaCertificateSerials :: bytes
  AdditionalCaSerialNums :: bool
  IsOemDefault :: bool
  IsTimeValid :: bool
  ProvServerIP :: bytes
  TlsStartTime :: TIME_DATE
  ProvServerFQDN :: bytes

definition parse_GetMESetupAuditRecord_RESPONSE :: "GetMESetupAuditRecord_RESPONSE parser" where
  "parse_GetMESetupAuditRecord_RESPONSE =
     bindP (parseData uint8_t) (\<lambda>mode. bindP parseBool (\<lambda>dns. bindP parseBool (\<lambda>host.
     bindP (parseData uint32_t) (\<lambda>hash. bindP (parseData (uint8_array 64)) (\<lambda>hashData.
     bindP (parseData (uint8_array 48)) (\<lambda>serials. bindP parseBool (\<lambda>more. bindP parseBool (\<lambda>oem.
     bindP parseBool (\<lambda>valid. bindP (parseData (uint8_array CFG_IP_ADDR_LEN_MAX)) (\<lambda>ip.
     bindP (liftP (CFG_IP_ADDR_toString ip)) (\<lambda>addr. bindP (parseData TIME_DATE) (\<lambda>start.
     bindP parseString (\<lambda>name.
     returnP \<lparr>ProvisioningTLSMode = mode, SecureDNS = dns, HostInitiated = host, SelectedHashType = hash,
       SelectedHashData = hashData, CaCertificateSerials = serials, AdditionalCaSerialNums = more, IsOemDefault = oem,
       IsTimeValid = valid, ProvServerIP = addr, TlsStartTime = start, ProvServerFQDN = name\<rparr>)))))))))))))"

definition GetMESetupAuditRecordRequest :: amthi_request where
  "GetMESetupAuditRecordRequest = plain_request 0x04000050"

definition GetMESetupAuditRecordCommand :: "tee \<Rightarrow> GetMESetupAuditRecord_RESPONSE mei \<times> tee_call list" where
  "GetMESetupAuditRecordCommand t =
     AMTHICommand t GetMESetupAuditRecordRequest parse_GetMESetupAuditRecord_RESPONSE 0x04800050"

subsection \<open>GetPID, GetProvisioningMode, GetProvisioningState, GetProvisioningTlsMode\<close>

definition parse_GET_PID_RESPONSE :: "bytes parser" where
  "parse_GET_PID_RESPONSE = parseData (uint8_array 8)"

definition GetPIDRequest :: amthi_request where
  "GetPIDRequest = plain_request 0x0400003B"

definition GetPIDCommand :: "tee \<Rightarrow> bytes mei \<times> tee_call list" where
  "GetPIDCommand t = AMTHICommand t GetPIDRequest parse_GET_PID_RESPONSE 0x0480003B"

record PROVISIONING_MODE_SETTINGS =
  ProvisioningMode :: u32
  LegacyMode :: bool

definition parse_PROVISIONING_MODE_SETTINGS :: "PROVISIONING_MODE_SETTINGS parser" where
  "parse_PROVISIONING_MODE_SETTINGS = bindP (parseData uint32_t) (\<lambda>mode. bindP parseBool (\<lambda>legacy.
     returnP \<lparr>ProvisioningMode = mode, LegacyMode = legacy\<rparr>))"

definition GetProvisioningModeRequest :: amthi_request where
  "GetProvisioningModeRequest = plain_request 0x04000008"

definition GetProvisioningModeCommand :: "tee \<Rightarrow> PROVISIONING_MODE_SETTINGS mei \<times> tee_call list" where
  "GetProvisioningModeCommand t = AMTHICommand t GetProvisioningModeRequest parse_PROVISIONING_MODE_SETTINGS 0x04800008"

definition parse_CFG_PROVISIONING_STATE :: "u32 parser" where
  "parse_CFG_PROVISIONING_STATE = parseData uint32_t"

definition GetProvisioningStateRequest :: amthi_request where
  "GetProvisioningStateRequest = plain_request 0x04000011"

definition GetProvisioningStateCommand :: "tee \<Rightarrow> u32 mei \<times> tee_call list" where
  "GetProvisioningStateCommand t = AMTHICommand t GetProvisioningStateRequest parse_CFG_PROVISIONING_STATE 0x04800011"

definition parse_PROV_TLS_MODE_RESPONSE :: "u32 parser" where
  "parse_PROV_TLS_MODE_RESPONSE = parseData uint32_t"

definition GetProvisioningTLSModeRequest :: amthi_request where
  "GetProvisioningTLSModeRequest = plain_request 0x0400002B"

definition GetProvisioningTLSModeCommand :: "tee \<Rightarrow> u32 mei \<times> tee_call list" where
  "GetProvisioningTLSModeCommand t = AMTHICommand t GetProvisioningTLSModeRequest parse_PROV_TLS_MODE_RESPONSE 0x0480002B"

subsection \<open>GetRedirectionState\<close>

record REDIRECTION_STATE =
  redir_SOLEnabled :: bool
  redir_IDEREnabled :: bool
  redir_KVMEnabled :: bool

definition parse_REDIRECTION_STATE :: "REDIRECTION_STATE parser" where
  "parse_REDIRECTION_STATE = bindP (parseData uint32_t) (\<lambda>w.
     returnP \<lparr>redir_SOLEnabled = (take_bit 1 w \<noteq> 0), redir_IDEREnabled = (take_bit 1 (drop_bit 1 w) \<noteq> 0),
       redir_KVMEnabled = (take_bit 1 (drop_bit 2 w) \<noteq> 0)\<rparr>)"

definition GetRedirectionStateRequest :: amthi_request where
  "GetRedirectionStateRequest = plain_request 0x04000058"

definition GetRedirectionStateCommand :: "tee \<Rightarrow> REDIRECTION_STATE mei \<times> tee_call list" where
  "GetRedirectionStateCommand t = AMTHICommand t GetRedirectionStateRequest parse_REDIRECTION_STATE 0x04800058"

subsection \<open>GetRemoteAccessConnectionStatus\<close>

record REMOTE_ACCESS_STATUS =
  AmtNetworkConnectionStatus :: u32
  RemoteAccessConnectionStatus :: u32
  RemoteAccessConnectionTrigger :: u32
  MpsHostname :: bytes

definition parse_REMOTE_ACCESS_STATUS :: "REMOTE_ACCESS_STATUS parser" where
  "parse_REMOTE_ACCESS_STATUS =
     bindP (parseData uint32_t) (\<lambda>net. bindP (parseData uint32_t) (\<lambda>st. bindP (parseData uint32_t) (\<lambda>trigger.
     bindP parseString (\<lambda>name.
     returnP \<lparr>AmtNetworkConnectionStatus = net, RemoteAccessConnectionStatus = st,
       RemoteAccessConnectionTrigger = trigger, MpsHostname = name\<rparr>))))"

definition GetRemoteAccessConnectionStatusRequest :: amthi_request where
  "GetRemoteAccessConnectionStatusRequest = plain_request 0x04000046"

definition GetRemoteAccessConnectionStatusCommand :: "tee \<Rightarrow> REMOTE_ACCESS_STATUS mei \<times> tee_call list" where
  "GetRemoteAccessConnectionStatusCommand t =
     AMTHICommand t GetRemoteAccessConnectionStatusRequest parse_REMOTE_ACCESS_STATUS 0x04800046"

subsection \<open>GetSecurityParameters\<close>

record SECURITY_PARAMETERS =
  EnterpriseMode :: bool
  TLSEnabled :: bool
  HWCryptoEnabled :: bool
  sec_ProvisioningState :: u32
  NetworkInterfaceEnabled :: bool
  sec_SOLEnabled :: bool
  sec_IDEREnabled :: bool
  FWUpdateEnabled :: bool
  LinkIsUp :: bool
  KvmEnabled :: bool

text \<open>The structure of 17 words.\<close>

definition words17 :: "u32 list simple" where
  "words17 = (68, \<lambda>bs. map (\<lambda>i. get32 (drop (4 * i) bs)) [0..<17])"

definition parse_SECURITY_PARAMETERS :: "SECURITY_PARAMETERS parser" where
  "parse_SECURITY_PARAMETERS = bindP (parseData words17) (\<lambda>tmp.
     returnP \<lparr>EnterpriseMode = (tmp ! 0 = AMT_TRUE), TLSEnabled = (tmp ! 1 = AMT_TRUE), HWCryptoEnabled = (tmp ! 2 = AMT_TRUE),
       sec_ProvisioningState = tmp ! 3, NetworkInterfaceEnabled = (tmp ! 4 = AMT_TRUE), sec_SOLEnabled = (tmp ! 5 = AMT_TRUE),
       sec_IDEREnabled = (tmp ! 6 = AMT_TRUE), FWUpdateEnabled = (tmp ! 7 = AMT_TRUE), LinkIsUp = (tmp ! 8 = AMT_TRUE),
       KvmEnabled = (tmp ! 9 = AMT_TRUE)\<rparr>)"

definition GetSecurityParametersRequest :: amthi_request where
  "GetSecurityParametersRequest = plain_request 0x0400001B"

definition GetSecurityParametersCommand :: "tee \<Rightarrow> SECURITY_PARAMETERS mei \<times> tee_call list" where
  "GetSecurityParametersCommand t = AMTHICommand t GetSecurityParametersRequest parse_SECURITY_PARAMETERS 0x0480001B"

subsection \<open>GetTcpipParameters\<close>

record TCPIP_PARAMETERS =
  DhcpMode :: u32
  LocalAddress :: u32
  SubnetMask :: u32
  DefaultGatewayAddress :: u32
  PrimaryDnsAddress :: u32
  SecondaryDnsAddress :: u32
  tcpip_DomainName :: bytes

definition parse_TCPIP_PARAMETERS :: "TCPIP_PARAMETERS parser" where
  "parse_TCPIP_PARAMETERS =
     bindP (parseData uint32_t) (\<lambda>mode. bindP (parseData uint32_t) (\<lambda>local. bindP (parseData uint32_t) (\<lambda>mask.
     bindP (parseData uint32_t) (\<lambda>gateway. bindP (parseData uint32_t) (\<lambda>dns1. bindP (parseData uint32_t) (\<lambda>dns2.
     bindP parseString (\<lambda>domain.
     returnP \<lparr>DhcpMode = mode, LocalAddress = local, SubnetMask = mask, DefaultGatewayAddress = gateway,
       PrimaryDnsAddress = dns1, SecondaryDnsAddress = dns2, tcpip_DomainName = domain\<rparr>)))))))"

definition GetTcpipParametersRequest :: amthi_request where
  "GetTcpipParametersRequest = plain_request 0x04000006"

definition GetTcpipParametersCommand :: "tee \<Rightarrow> TCPIP_PARAMETERS mei \<times> tee_call list" where
  "GetTcpipParametersCommand t = AMTHICommand t GetTcpipParametersRequest parse_TCPIP_PARAMETERS 0x04800006"

subsection \<open>GetUUID, GetUserInitiatedEnabledInterfaces, GetZeroTouchEnabled\<close>

definition parse_GET_UUID_RESPONSE :: "bytes parser" where
  "parse_GET_UUID_RESPONSE = parseData (uint8_array 16)"

definition GetUUIDRequest :: amthi_request where
  "GetUUIDRequest = plain_request 0x0400005C"

definition GetUUIDCommand :: "tee \<Rightarrow> bytes mei \<times> tee_call list" where
  "GetUUIDCommand t = AMTHICommand t GetUUIDRequest parse_GET_UUID_RESPONSE 0x0480005C"

record EnabledInterfacesFields =
  interfaces_Bios :: u32
  OS_Agent :: u32
  interfaces_reserved :: u32

definition EnabledInterfacesFields :: "EnabledInterfacesFields simple" where
  "EnabledInterfacesFields = (4, \<lambda>bs. let w = get32 bs in
     \<lparr>interfaces_Bios = take_bit 1 w, OS_Agent = take_bit 1 (drop_bit 1 w), interfaces_reserved = drop_bit 2 w\<rparr>)"

definition parse_GET_USER_INITIATED_ENABLED_INTERFACES_RESPONSE :: "EnabledInterfacesFields parser" where
  "parse_GET_USER_INITIATED_ENABLED_INTERFACES_RESPONSE = parseData EnabledInterfacesFields"

definition GetUserInitiatedEnabledInterfacesRequest :: amthi_request where
  "GetUserInitiatedEnabledInterfacesRequest = plain_request 0x0400004D"

definition GetUserInitiatedEnabledInterfacesCommand :: "tee \<Rightarrow> EnabledInterfacesFields mei \<times> tee_call list" where
  "GetUserInitiatedEnabledInterfacesCommand t =
     AMTHICommand t GetUserInitiatedEnabledInterfacesRequest parse_GET_USER_INITIATED_ENABLED_INTERFACES_RESPONSE 0x0480004D"

definition parse_ZTC_ENABLED_STATUS :: "bool parser" where
  "parse_ZTC_ENABLED_STATUS = parseBool"

definition GetZeroTouchEnabledRequest :: amthi_request where
  "GetZeroTouchEnabledRequest = plain_request 0x04000030"

definition GetZeroTouchEnabledCommand :: "tee \<Rightarrow> bool mei \<times> tee_call list" where
  "GetZeroTouchEnabledCommand t = AMTHICommand t GetZeroTouchEnabledRequest parse_ZTC_ENABLED_STATUS 0x04800030"

end
