(* ===== verification/Amthi_Action.thy ===== *)
theory Amthi_Action
  imports Amthi_Settings
begin

text \<open>
  The commands of the AMTHI client that change something: \<^verbatim>\<open>Open-\<close>, \<^verbatim>\<open>CloseUserInitiatedConnection\<close>, \<^verbatim>\<open>Set*\<close>, \<^verbatim>\<open>Start-\<close>,
  \<^verbatim>\<open>StopConfiguration\<close>, \<^verbatim>\<open>Unprovision\<close>. A request whose constructor throws is an exception, and nothing is
  exchanged. Their replies carry nothing behind the status, with one exception. The type
  \<open>amthi_client_request\<close> lists every request a client of the class library can make.
\<close>

definition no_data :: "unit parser" where
  "no_data = returnP ()"

definition with_request :: "amthi_request mei \<Rightarrow> (amthi_request \<Rightarrow> 'a mei \<times> tee_call list) \<Rightarrow> 'a mei \<times> tee_call list" where
  "with_request r f = (case r of Returned q \<Rightarrow> f q | Raised e \<Rightarrow> (Raised e, []) | Undefined \<Rightarrow> (Undefined, []))"

text \<open>A request that carries one \<^verbatim>\<open>AmtAnsiString\<close>.\<close>

definition string_request :: "u32 \<Rightarrow> AmtAnsiString \<Rightarrow> amthi_request" where
  "string_request cmd s = \<lparr>requestHeaderCommandNumber = cmd, requestDataSize = ansi_bufSize s, SerializeData = ansi_serialize s\<rparr>"

definition map_mei :: "('a \<Rightarrow> 'b) \<Rightarrow> 'a mei \<Rightarrow> 'b mei" where
  "map_mei f r = (case r of Returned a \<Rightarrow> Returned (f a) | Raised e \<Rightarrow> Raised e | Undefined \<Rightarrow> Undefined)"

subsection \<open>Without data\<close>

definition CloseUserInitiatedConnectionRequest :: amthi_request where
  "CloseUserInitiatedConnectionRequest = plain_request 0x04000045"

definition CloseUserInitiatedConnectionCommand :: "tee \<Rightarrow> unit mei \<times> tee_call list" where
  "CloseUserInitiatedConnectionCommand t = AMTHICommand t CloseUserInitiatedConnectionRequest no_data 0x04800045"

definition OpenUserInitiatedConnectionRequest :: amthi_request where
  "OpenUserInitiatedConnectionRequest = plain_request 0x04000044"

definition OpenUserInitiatedConnectionCommand :: "tee \<Rightarrow> unit mei \<times> tee_call list" where
  "OpenUserInitiatedConnectionCommand t = AMTHICommand t OpenUserInitiatedConnectionRequest no_data 0x04800044"

definition StopConfigurationRequest :: amthi_request where
  "StopConfigurationRequest = plain_request 0x0400005E"

definition StopConfigurationCommand :: "tee \<Rightarrow> unit mei \<times> tee_call list" where
  "StopConfigurationCommand t = AMTHICommand t StopConfigurationRequest no_data 0x0480005E"

subsection \<open>With a word or a structure\<close>

text \<open>\<^verbatim>\<open>SerializeData\<close> copies the \<^verbatim>\<open>bool\<close>, one byte; the size announced is the structure's.\<close>

definition CFG_SetOverrideProsetAdapterSwitchingCommandRequest :: "bool \<Rightarrow> amthi_request" where
  "CFG_SetOverrideProsetAdapterSwitchingCommandRequest overrideEnabled =
     \<lparr>requestHeaderCommandNumber = 0x4000086, requestDataSize = 4, SerializeData = [if overrideEnabled then 1 else 0]\<rparr>"

definition parse_CFG_SET_OVERRIDE_RESPONSE :: "u32 parser" where
  "parse_CFG_SET_OVERRIDE_RESPONSE = parseData uint32_t"

definition CFG_SetOverrideProsetAdapterSwitchingCommand :: "tee \<Rightarrow> bool \<Rightarrow> u32 mei \<times> tee_call list" where
  "CFG_SetOverrideProsetAdapterSwitchingCommand t overrideEnabled =
     AMTHICommand t (CFG_SetOverrideProsetAdapterSwitchingCommandRequest overrideEnabled) parse_CFG_SET_OVERRIDE_RESPONSE 0x4800086"

definition HOST_IP_ADDRESS_SIZE :: nat where "HOST_IP_ADDRESS_SIZE = 16"

definition SetEnterpriseAccessRequest :: "u8 \<Rightarrow> bytes \<Rightarrow> u8 \<Rightarrow> amthi_request mei" where
  "SetEnterpriseAccessRequest flags hostIP access =
     (if length hostIP \<noteq> HOST_IP_ADDRESS_SIZE then Raised (Invalid_argument ''HostIPAddress should have 16 byte length'')
      else Returned \<lparr>requestHeaderCommandNumber = 0x0400003F, requestDataSize = 18,
        SerializeData = [flags] @ hostIP @ [access]\<rparr>)"

definition SetEnterpriseAccessCommand :: "tee \<Rightarrow> u8 \<Rightarrow> bytes \<Rightarrow> u8 \<Rightarrow> unit mei \<times> tee_call list" where
  "SetEnterpriseAccessCommand t flags hostIP access =
     with_request (SetEnterpriseAccessRequest flags hostIP access) (\<lambda>r. AMTHICommand t r no_data 0x0480003F)"

definition StartConfigurationExRequest :: "bool \<Rightarrow> amthi_request" where
  "StartConfigurationExRequest iPv6Enable = word_request 0x04000062 (if iPv6Enable then AMT_TRUE else AMT_FALSE)"

definition StartConfigurationExCommand :: "tee \<Rightarrow> bool \<Rightarrow> unit mei \<times> tee_call list" where
  "StartConfigurationExCommand t iPv6Enable = AMTHICommand t (StartConfigurationExRequest iPv6Enable) no_data 0x04800062"

datatype CFG_PROVISIONING_MODE = CFG_PROVISIONING_MODE_NONE | CFG_PROVISIONING_MODE_ENTERPRISE

definition mode_value :: "CFG_PROVISIONING_MODE \<Rightarrow> u32" where
  "mode_value m = (case m of CFG_PROVISIONING_MODE_NONE \<Rightarrow> 0 | CFG_PROVISIONING_MODE_ENTERPRISE \<Rightarrow> 1)"

definition UnprovisionRequest :: "CFG_PROVISIONING_MODE \<Rightarrow> amthi_request" where
  "UnprovisionRequest mode = word_request 0x04000010 (mode_value mode)"

definition UnprovisionCommand :: "tee \<Rightarrow> CFG_PROVISIONING_MODE \<Rightarrow> unit mei \<times> tee_call list" where
  "UnprovisionCommand t mode = AMTHICommand t (UnprovisionRequest mode) no_data 0x04800010"

subsection \<open>With a string\<close>

definition SetDNSSuffixRequest :: "bytes \<Rightarrow> amthi_request mei" where
  "SetDNSSuffixRequest suffix = map_mei (string_request 0x0400002F) (new_AmtAnsiString suffix False)"

definition SetDNSSuffixCommand :: "tee \<Rightarrow> bytes \<Rightarrow> unit mei \<times> tee_call list" where
  "SetDNSSuffixCommand t suffix = with_request (SetDNSSuffixRequest suffix) (\<lambda>r. AMTHICommand t r no_data 0x0480002F)"

definition SetHostFQDNRequest :: "bytes \<Rightarrow> amthi_request mei" where
  "SetHostFQDNRequest name = map_mei (string_request 0x0400005B) (new_AmtAnsiString name True)"

definition SetHostFQDNCommand :: "tee \<Rightarrow> bytes \<Rightarrow> unit mei \<times> tee_call list" where
  "SetHostFQDNCommand t name = with_request (SetHostFQDNRequest name) (\<lambda>r. AMTHICommand t r no_data 0x0480005B)"

definition MIN_OTP_BUFFER_LENGTH :: u32 where "MIN_OTP_BUFFER_LENGTH = 8"
definition MAX_OTP_BUFFER_LENGTH :: u32 where "MAX_OTP_BUFFER_LENGTH = 32"

definition SetProvisioningServerOTPRequest :: "bytes \<Rightarrow> amthi_request mei" where
  "SetProvisioningServerOTPRequest otp = (case new_AmtAnsiString otp True of
     Returned s \<Rightarrow> if ansi_size s > MAX_OTP_BUFFER_LENGTH \<or> ansi_size s < MIN_OTP_BUFFER_LENGTH
       then Raised (MEIClientException ''Error: OTP string not in the right size.'' 0)
       else Returned (string_request 0x0400002A s)
   | Raised e \<Rightarrow> Raised e
   | Undefined \<Rightarrow> Undefined)"

definition SetProvisioningServerOTPCommand :: "tee \<Rightarrow> bytes \<Rightarrow> unit mei \<times> tee_call list" where
  "SetProvisioningServerOTPCommand t otp =
     with_request (SetProvisioningServerOTPRequest otp) (\<lambda>r. AMTHICommand t r no_data 0x0480002A)"

subsection \<open>Every request\<close>

datatype amthi_client_request =
    Get_AMT_state bytes | Get_certificate_hash_entry u32 | Get_code_version | Get_config_server_data
  | Get_current_power_policy | Get_DNS_suffix | Get_DNS_suffix_list | Enumerate_hash_handles | Get_EAC_state
  | Get_KVM_session_state | Get_redirection_sessions_state | Get_system_defense_state | Get_web_UI_state | Get_FQDN
  | Get_IPv6_lan_interface_status u32 | Get_lan_interface_settings u32 | Get_last_host_reset_reason
  | Get_local_system_account | Get_ME_setup_audit_record | Get_PID | Get_provisioning_mode | Get_provisioning_state
  | Get_provisioning_TLS_mode | Get_redirection_state | Get_remote_access_connection_status | Get_security_parameters
  | Get_tcpip_parameters | Get_UUID | Get_user_initiated_enabled_interfaces | Get_zero_touch_enabled
  | Close_user_initiated_connection | Open_user_initiated_connection | Stop_configuration
  | Set_override_proset_adapter_switching bool | Set_enterprise_access u8 bytes u8 | Start_configuration_ex bool
  | Unprovision CFG_PROVISIONING_MODE | Set_DNS_suffix bytes | Set_host_FQDN bytes | Set_provisioning_server_OTP bytes

fun make_request :: "amthi_client_request \<Rightarrow> amthi_request mei" where
  "make_request (Get_AMT_state uuid) = Returned (GetAMTStateRequest uuid)"
| "make_request (Get_certificate_hash_entry h) = Returned (GetCertificateHashEntryRequest h)"
| "make_request Get_code_version = Returned GetCodeVersionRequest"
| "make_request Get_config_server_data = Returned GetConfigServerDataRequest"
| "make_request Get_current_power_policy = Returned GetCurrentPowerPolicyRequest"
| "make_request Get_DNS_suffix = Returned GetDNSSuffixRequest"
| "make_request Get_DNS_suffix_list = Returned GetDNSSuffixListRequest"
| "make_request Enumerate_hash_handles = Returned EnumerateHashHandlesRequest"
| "make_request Get_EAC_state = Returned GetEACStateRequest"
| "make_request Get_KVM_session_state = Returned GetKVMSessionStateRequest"
| "make_request Get_redirection_sessions_state = Returned GetRedirectionSessionsStateRequest"
| "make_request Get_system_defense_state = Returned GetSystemDefenseStateRequest"
| "make_request Get_web_UI_state = Returned GetWebUIStateRequest"
| "make_request Get_FQDN = Returned GetFQDNRequest"
| "make_request (Get_IPv6_lan_interface_status i) = Returned (GetIPv6LanInterfaceStatusRequest i)"
| "make_request (Get_lan_interface_settings i) = Returned (GetLanInterfaceSettingRequest i)"
| "make_request Get_last_host_reset_reason = Returned GetLastHostResetReasonRequest"
| "make_request Get_local_system_account = Returned GetLocalSystemAccountRequest"
| "make_request Get_ME_setup_audit_record = Returned GetMESetupAuditRecordRequest"
| "make_request Get_PID = Returned GetPIDRequest"
| "make_request Get_provisioning_mode = Returned GetProvisioningModeRequest"
| "make_request Get_provisioning_state = Returned GetProvisioningStateRequest"
| "make_request Get_provisioning_TLS_mode = Returned GetProvisioningTLSModeRequest"
| "make_request Get_redirection_state = Returned GetRedirectionStateRequest"
| "make_request Get_remote_access_connection_status = Returned GetRemoteAccessConnectionStatusRequest"
| "make_request Get_security_parameters = Returned GetSecurityParametersRequest"
| "make_request Get_tcpip_parameters = Returned GetTcpipParametersRequest"
| "make_request Get_UUID = Returned GetUUIDRequest"
| "make_request Get_user_initiated_enabled_interfaces = Returned GetUserInitiatedEnabledInterfacesRequest"
| "make_request Get_zero_touch_enabled = Returned GetZeroTouchEnabledRequest"
| "make_request Close_user_initiated_connection = Returned CloseUserInitiatedConnectionRequest"
| "make_request Open_user_initiated_connection = Returned OpenUserInitiatedConnectionRequest"
| "make_request Stop_configuration = Returned StopConfigurationRequest"
| "make_request (Set_override_proset_adapter_switching b) = Returned (CFG_SetOverrideProsetAdapterSwitchingCommandRequest b)"
| "make_request (Set_enterprise_access f ip a) = SetEnterpriseAccessRequest f ip a"
| "make_request (Start_configuration_ex b) = Returned (StartConfigurationExRequest b)"
| "make_request (Unprovision m) = Returned (UnprovisionRequest m)"
| "make_request (Set_DNS_suffix s) = SetDNSSuffixRequest s"
| "make_request (Set_host_FQDN s) = SetHostFQDNRequest s"
| "make_request (Set_provisioning_server_OTP s) = SetProvisioningServerOTPRequest s"

end
