(* ===== verification/Mei_Clients.thy ===== *)
theory Mei_Clients
  imports Mei_Command
begin

text \<open>
  The commands of the kernel client (\<^verbatim>\<open>MKHIClient\<close>), the firmware update client (\<^verbatim>\<open>FWUpdateClient\<close>), HOTHAM
  (\<^verbatim>\<open>HOTHAMClient\<close>) and the manageability client (\<^verbatim>\<open>ManageabilityClient\<close>). A response object of \<^verbatim>\<open>MKHICommandResponse\<close>
  starts zeroed (\<^verbatim>\<open>m_result()\<close>); the one of \<^verbatim>\<open>HOTHAMCommandResponse\<close> does not, and what its parser leaves
  alone is the parameter \<open>junk\<close>.
\<close>

subsection \<open>MKHI: groups and rules\<close>

definition MKHI_FWCAPS_GROUP_ID :: u32 where "MKHI_FWCAPS_GROUP_ID = 3"
definition MKHI_GEN_GROUP_ID :: u32 where "MKHI_GEN_GROUP_ID = 0xff"

definition MAKE_ME_RULE_ID :: "u32 \<Rightarrow> u32 \<Rightarrow> u32" where
  "MAKE_ME_RULE_ID featureId ruleId = push_bit 16 featureId OR ruleId"

definition ME_RULE_FEATURE_ID :: u32 where "ME_RULE_FEATURE_ID = 0"
definition MEFWCAPS_FW_SKU_RULE :: u32 where "MEFWCAPS_FW_SKU_RULE = 0"
definition MEFWCAPS_ME_FW_UPDATE_RULE_ID :: u32 where "MEFWCAPS_ME_FW_UPDATE_RULE_ID = MAKE_ME_RULE_ID ME_RULE_FEATURE_ID 7"
definition MEFWCAPS_PCV_OEM_PLAT_TYPE_CFG_RULE_ID :: u32 where
  "MEFWCAPS_PCV_OEM_PLAT_TYPE_CFG_RULE_ID = MAKE_ME_RULE_ID ME_RULE_FEATURE_ID 29"
definition MEFWCAPS_FEATURE_ENABLE_RULE :: u32 where "MEFWCAPS_FEATURE_ENABLE_RULE = 32"
definition MEFWCAPS_AVAILABLE_BITMAP_RULE_ID :: u32 where
  "MEFWCAPS_AVAILABLE_BITMAP_RULE_ID = MAKE_ME_RULE_ID ME_RULE_FEATURE_ID 39"

definition MKHICommand :: "tee \<Rightarrow> mkhi_request \<Rightarrow> (bytes \<Rightarrow> 'a mei) \<Rightarrow> 'a mei \<times> tee_call list" where
  "MKHICommand t r parseResponse = Transact t (MKHI_Serialize r) parseResponse"

definition general_request :: "u32 \<Rightarrow> bytes \<Rightarrow> mkhi_request" where
  "general_request cmd d = \<lparr>mkhi_command = cmd, mkhi_group = MKHI_GEN_GROUP_ID, mkhi_data = d\<rparr>"

definition rule_request :: "u32 \<Rightarrow> mkhi_request" where
  "rule_request rule = \<lparr>mkhi_command = 2, mkhi_group = MKHI_FWCAPS_GROUP_ID, mkhi_data = put32 rule\<rparr>"

text \<open>\<^verbatim>\<open>GetEOPStateCommand\<close>: the state word, whose lowest byte is the end-of-POST state.\<close>

definition parse_GET_EOP_STATE_RESPONSE :: "u32 parser" where
  "parse_GET_EOP_STATE_RESPONSE = parseData uint32_t"

definition EopState :: "u32 \<Rightarrow> u8" where "EopState w = ucast w"

definition GetEOPStateRequest :: mkhi_request where
  "GetEOPStateRequest = general_request 0x1D []"

definition GetEOPStateCommand :: "tee \<Rightarrow> u32 mei \<times> tee_call list" where
  "GetEOPStateCommand t =
     MKHICommand t GetEOPStateRequest (MKHICommandResponse parse_GET_EOP_STATE_RESPONSE 0x1D MKHI_GEN_GROUP_ID)"

text \<open>\<^verbatim>\<open>GetFWCapsCommand\<close>\<close>

datatype CapsRule = FEATURES_CAPABLE | FEATURES_ENABLED | FEATURES_AVAILABLE

definition CapsRule_value :: "CapsRule \<Rightarrow> u32" where
  "CapsRule_value r = (case r of FEATURES_CAPABLE \<Rightarrow> MEFWCAPS_FW_SKU_RULE | FEATURES_ENABLED \<Rightarrow> MEFWCAPS_FEATURE_ENABLE_RULE
     | FEATURES_AVAILABLE \<Rightarrow> MEFWCAPS_AVAILABLE_BITMAP_RULE_ID)"

definition parse_MEFWCAPS_SKU_MKHI :: "u32 parser" where
  "parse_MEFWCAPS_SKU_MKHI = parseData uint32_t"

definition GetFWCapsRequest :: "CapsRule \<Rightarrow> mkhi_request" where
  "GetFWCapsRequest rule = rule_request (CapsRule_value rule)"

definition GetFWCapsCommand :: "tee \<Rightarrow> CapsRule \<Rightarrow> u32 mei \<times> tee_call list" where
  "GetFWCapsCommand t rule = MKHICommand t (GetFWCapsRequest rule)
     (MKHIGetRuleCommandResponse 4 parse_MEFWCAPS_SKU_MKHI 2 MKHI_FWCAPS_GROUP_ID (CapsRule_value rule))"

text \<open>\<^verbatim>\<open>GetFWUpdateStateCommand\<close>\<close>

definition parse_FW_UPDATE_STATE :: "u32 parser" where
  "parse_FW_UPDATE_STATE = parseData uint32_t"

definition GetFWUpdateStateRequest :: mkhi_request where
  "GetFWUpdateStateRequest = rule_request MEFWCAPS_ME_FW_UPDATE_RULE_ID"

definition GetFWUpdateStateCommand :: "tee \<Rightarrow> u32 mei \<times> tee_call list" where
  "GetFWUpdateStateCommand t = MKHICommand t GetFWUpdateStateRequest
     (MKHIGetRuleCommandResponse 4 parse_FW_UPDATE_STATE 2 MKHI_FWCAPS_GROUP_ID MEFWCAPS_ME_FW_UPDATE_RULE_ID)"

text \<open>\<^verbatim>\<open>GetFWVersionCommand\<close>\<close>

record GET_FW_VER_RESPONSE =
  FTMinor :: u16
  FTMajor :: u16
  FTBuildNo :: u16
  FTHotFix :: u16
  NFTMinor :: u16
  NFTMajor :: u16
  NFTBuildNo :: u16
  NFTHotFix :: u16

definition parse_GET_FW_VER_RESPONSE :: "GET_FW_VER_RESPONSE parser" where
  "parse_GET_FW_VER_RESPONSE =
     bindP (parseData uint16_t) (\<lambda>a. bindP (parseData uint16_t) (\<lambda>b. bindP (parseData uint16_t) (\<lambda>c.
     bindP (parseData uint16_t) (\<lambda>d. bindP (parseData uint16_t) (\<lambda>e. bindP (parseData uint16_t) (\<lambda>f.
     bindP (parseData uint16_t) (\<lambda>g. bindP (parseData uint16_t) (\<lambda>h.
     returnP \<lparr>FTMinor = a, FTMajor = b, FTBuildNo = c, FTHotFix = d, NFTMinor = e, NFTMajor = f, NFTBuildNo = g,
       NFTHotFix = h\<rparr>))))))))"

definition GetFWVersionRequest :: mkhi_request where
  "GetFWVersionRequest = general_request 0x02 []"

definition GetFWVersionCommand :: "tee \<Rightarrow> GET_FW_VER_RESPONSE mei \<times> tee_call list" where
  "GetFWVersionCommand t =
     MKHICommand t GetFWVersionRequest (MKHICommandResponse parse_GET_FW_VER_RESPONSE 0x02 MKHI_GEN_GROUP_ID)"

text \<open>\<^verbatim>\<open>GetImageFWVersionCommand\<close>: an array of 20 entries, of which the reply fills as many as it says.\<close>

record FLASH_PARTITION_DATA =
  ModuleName :: bytes
  fp_Version :: "u16 \<times> u16 \<times> u16 \<times> u16"
  VendorId :: u32
  fp_Reserved :: bytes

definition FLASH_PARTITION_DATA :: "FLASH_PARTITION_DATA simple" where
  "FLASH_PARTITION_DATA = (88, \<lambda>bs. \<lparr>ModuleName = take 12 bs,
     fp_Version = (get16 (drop 12 bs), get16 (drop 14 bs), get16 (drop 16 bs), get16 (drop 18 bs)),
     VendorId = get32 (drop 20 bs), fp_Reserved = drop 24 bs\<rparr>)"

definition empty_partition :: FLASH_PARTITION_DATA where
  "empty_partition = \<lparr>ModuleName = replicate 12 0, fp_Version = (0, 0, 0, 0), VendorId = 0, fp_Reserved = replicate 64 0\<rparr>"

definition MAXIMUM_IPU_SUPPORTED :: nat where "MAXIMUM_IPU_SUPPORTED = 20"

record GET_IMAGE_FW_VERSION_RESPONSE =
  NumOfModules :: u32
  ManifestData :: "FLASH_PARTITION_DATA list"

definition parse_GET_IMAGE_FW_VERSION_RESPONSE :: "GET_IMAGE_FW_VERSION_RESPONSE parser" where
  "parse_GET_IMAGE_FW_VERSION_RESPONSE = bindP (parseData uint32_t) (\<lambda>n.
     bindP (parseArray FLASH_PARTITION_DATA (replicate MAXIMUM_IPU_SUPPORTED empty_partition) n) (\<lambda>d.
     returnP \<lparr>NumOfModules = n, ManifestData = d\<rparr>))"

definition GetImageFWVersionRequest :: "u32 \<Rightarrow> mkhi_request" where
  "GetImageFWVersionRequest partitionId = general_request 0x1C (put32 partitionId)"

definition GetImageFWVersionCommand :: "tee \<Rightarrow> u32 \<Rightarrow> GET_IMAGE_FW_VERSION_RESPONSE mei \<times> tee_call list" where
  "GetImageFWVersionCommand t partitionId = MKHICommand t (GetImageFWVersionRequest partitionId)
     (MKHICommandResponse parse_GET_IMAGE_FW_VERSION_RESPONSE 0x1C MKHI_GEN_GROUP_ID)"

text \<open>\<^verbatim>\<open>GetImageTypeCommand\<close>, \<^verbatim>\<open>GetMeasuredBootStateCommand\<close>: the header in the structure is not filled.\<close>

record MKHI_IMAGE_TYPE =
  image_Header :: u32
  ImageSignData :: u32

definition parse_MKHI_IMAGE_TYPE :: "MKHI_IMAGE_TYPE parser" where
  "parse_MKHI_IMAGE_TYPE = bindP (parseData uint32_t) (\<lambda>d. returnP \<lparr>image_Header = 0, ImageSignData = d\<rparr>)"

definition GetImageTypeRequest :: mkhi_request where
  "GetImageTypeRequest = general_request 0x18 []"

definition GetImageTypeCommand :: "tee \<Rightarrow> MKHI_IMAGE_TYPE mei \<times> tee_call list" where
  "GetImageTypeCommand t =
     MKHICommand t GetImageTypeRequest (MKHICommandResponse parse_MKHI_IMAGE_TYPE 0x18 MKHI_GEN_GROUP_ID)"

record MKHI_MEASURED_BOOT_STATE =
  boot_Header :: u32
  boot_State :: u8

definition parse_MKHI_MEASURED_BOOT_STATE :: "MKHI_MEASURED_BOOT_STATE parser" where
  "parse_MKHI_MEASURED_BOOT_STATE = bindP (parseData uint8_t) (\<lambda>d. returnP \<lparr>boot_Header = 0, boot_State = d\<rparr>)"

definition GetMeasuredBootStateRequest :: mkhi_request where
  "GetMeasuredBootStateRequest = general_request 0x23 []"

definition GetMeasuredBootStateCommand :: "tee \<Rightarrow> MKHI_MEASURED_BOOT_STATE mei \<times> tee_call list" where
  "GetMeasuredBootStateCommand t = MKHICommand t GetMeasuredBootStateRequest
     (MKHICommandResponse parse_MKHI_MEASURED_BOOT_STATE 0x23 MKHI_GEN_GROUP_ID)"

text \<open>\<^verbatim>\<open>GetPlatformTypeCommand\<close>: one word of bit fields.\<close>

record MKHI_PLATFORM_TYPE =
  Mobile :: u32
  Desktop :: u32
  Server :: u32
  WorkStn :: u32
  platform_Rsvd2 :: u32
  PV :: u32
  SuperSKU :: u32
  ProdSigned :: u32
  ImageType :: u32
  Brand :: u32
  CpuType :: u32
  Chipset :: u32
  CpuBrandClass :: u32
  PchNetInfraFuses :: u32
  platform_Rsvd1 :: u32

definition bits :: "nat \<Rightarrow> nat \<Rightarrow> u32 \<Rightarrow> u32" where
  "bits i n w = take_bit n (drop_bit i w)"

definition MKHI_PLATFORM_TYPE :: "MKHI_PLATFORM_TYPE simple" where
  "MKHI_PLATFORM_TYPE = (4, \<lambda>bs. let w = get32 bs in
     \<lparr>Mobile = bits 0 1 w, Desktop = bits 1 1 w, Server = bits 2 1 w, WorkStn = bits 3 1 w, platform_Rsvd2 = bits 4 1 w,
      PV = bits 5 1 w, SuperSKU = bits 6 1 w, ProdSigned = bits 7 1 w, ImageType = bits 8 4 w, Brand = bits 12 4 w,
      CpuType = bits 16 4 w, Chipset = bits 20 4 w, CpuBrandClass = bits 24 4 w, PchNetInfraFuses = bits 28 3 w,
      platform_Rsvd1 = bits 31 1 w\<rparr>)"

definition parse_MKHI_PLATFORM_TYPE :: "MKHI_PLATFORM_TYPE parser" where
  "parse_MKHI_PLATFORM_TYPE = parseData MKHI_PLATFORM_TYPE"

definition GetPlatformTypeRequest :: mkhi_request where
  "GetPlatformTypeRequest = rule_request MEFWCAPS_PCV_OEM_PLAT_TYPE_CFG_RULE_ID"

definition GetPlatformTypeCommand :: "tee \<Rightarrow> MKHI_PLATFORM_TYPE mei \<times> tee_call list" where
  "GetPlatformTypeCommand t = MKHICommand t GetPlatformTypeRequest
     (MKHIGetRuleCommandResponse 4 parse_MKHI_PLATFORM_TYPE 2 MKHI_FWCAPS_GROUP_ID MEFWCAPS_PCV_OEM_PLAT_TYPE_CFG_RULE_ID)"

subsection \<open>Firmware update\<close>

record GET_INFO_RESPONSE =
  MEBxVersion :: "u16 \<times> u16 \<times> u16 \<times> u16"
  FlashOverridePolicy :: u32
  MangeabilityMode :: u32
  BiosBootState :: u32
  info_CryptoFuse :: u32
  info_FlashProtection :: u32
  FwOverrideQualifier :: u32
  MeResetReason :: u32
  FwOverrideCounter :: u32
  info_BiosVersion :: bytes

definition GET_INFO_RESPONSE :: "GET_INFO_RESPONSE simple" where
  "GET_INFO_RESPONSE = (44, \<lambda>bs. let w = get32 (drop 20 bs) in
     \<lparr>MEBxVersion = (get16 bs, get16 (drop 2 bs), get16 (drop 4 bs), get16 (drop 6 bs)),
      FlashOverridePolicy = get32 (drop 8 bs), MangeabilityMode = get32 (drop 12 bs), BiosBootState = get32 (drop 16 bs),
      info_CryptoFuse = bits 0 1 w, info_FlashProtection = bits 1 1 w, FwOverrideQualifier = bits 2 2 w,
      MeResetReason = bits 4 2 w, FwOverrideCounter = bits 6 8 w, info_BiosVersion = drop 24 bs\<rparr>)"

definition parse_GET_INFO_RESPONSE :: "GET_INFO_RESPONSE parser" where
  "parse_GET_INFO_RESPONSE = parseData GET_INFO_RESPONSE"

definition FWUGetInfoRequest :: bytes where
  "FWUGetInfoRequest = FWUpdate_Serialize 0x08 []"

definition FWUGetInfoCommand :: "tee \<Rightarrow> GET_INFO_RESPONSE mei \<times> tee_call list" where
  "FWUGetInfoCommand t = Transact t FWUGetInfoRequest (FWUpdateCommandResponse parse_GET_INFO_RESPONSE 0x09)"

subsection \<open>HOTHAM\<close>

record GET_FLOG_RESP =
  flog_header :: u32
  flog_response :: u32

definition parse_GET_FLOG_RESP :: "u32 \<Rightarrow> GET_FLOG_RESP parser" where
  "parse_GET_FLOG_RESP junk = bindP (parseData uint32_t) (\<lambda>r. returnP \<lparr>flog_header = junk, flog_response = r\<rparr>)"

definition HTMGetFatalErrorsRequest :: bytes where
  "HTMGetFatalErrorsRequest = HOTHAM_Serialize 0x80 HOTHAM_COMMAND_CODE []"

definition HTMGetFatalErrorsCommand :: "tee \<Rightarrow> u32 \<Rightarrow> GET_FLOG_RESP mei \<times> tee_call list" where
  "HTMGetFatalErrorsCommand t junk = Transact t HTMGetFatalErrorsRequest (HOTHAMCommandResponse (parse_GET_FLOG_RESP junk))"

subsection \<open>Manageability\<close>

definition parse_ChangeToAMT_RESPONSE :: "u32 parser" where
  "parse_ChangeToAMT_RESPONSE = parseData uint32_t"

definition MNGChangeToAMTRequest :: manageability_request where
  "MNGChangeToAMTRequest = \<lparr>mng_CMD = 0x05, mng_SubCMD = 0x52, mng_dataSize = 0, mng_data = []\<rparr>"

definition MNGChangeToAMTCommand :: "tee \<Rightarrow> u32 mei \<times> tee_call list" where
  "MNGChangeToAMTCommand t =
     Transact t (Manageability_Serialize MNGChangeToAMTRequest) (ManageabilityCommandResponse parse_ChangeToAMT_RESPONSE)"

definition parse_IsChangedEnabledResponse :: "u32 parser" where
  "parse_IsChangedEnabledResponse = parseData uint32_t"

definition MNGIsChangeToAMTEnabledRequest :: manageability_request where
  "MNGIsChangeToAMTEnabledRequest = \<lparr>mng_CMD = 0x05, mng_SubCMD = 0x51, mng_dataSize = 0, mng_data = []\<rparr>"

definition MNGIsChangeToAMTEnabledCommand :: "tee \<Rightarrow> u32 mei \<times> tee_call list" where
  "MNGIsChangeToAMTEnabledCommand t = Transact t (Manageability_Serialize MNGIsChangeToAMTEnabledRequest)
     (ManageabilityCommandResponse parse_IsChangedEnabledResponse)"

end
