(* ===== verification/Mei_Correct.thy ===== *)
theory Mei_Correct
  imports Mei_Parser_Correct Amthi_Action Mei_Clients
begin

text \<open>
  The facts behind the properties of the firmware clients: the driver handle is closed on every way out, the
  frames of the replies, the formats of the structures as interpretations of \<open>response\<close> and \<open>final_response\<close>,
  and which parsers can be undefined.
\<close>

subsection \<open>The handle\<close>

text \<open>A sequence of calls in which every connected device is disconnected before the next is tried, and
  messages go to a connected device only. The first argument is the device connected before.\<close>

fun bracketed :: "string option \<Rightarrow> tee_call list \<Rightarrow> bool" where
  "bracketed c [] \<longleftrightarrow> c = None"
| "bracketed c (Init_call d # cs) \<longleftrightarrow> c = None \<and> bracketed None cs"
| "bracketed c (Connect_call d # cs) \<longleftrightarrow> c = None \<and> bracketed (Some d) cs"
| "bracketed c (Disconnect_call d # cs) \<longleftrightarrow> c = Some d \<and> bracketed None cs"
| "bracketed c (Write_call b # cs) \<longleftrightarrow> c \<noteq> None \<and> bracketed c cs"
| "bracketed c (Read_call n s # cs) \<longleftrightarrow> c \<noteq> None \<and> bracketed c cs"

text \<open>Calls after which the device \<open>c\<close> is connected.\<close>

definition leads_to :: "tee_call list \<Rightarrow> string option \<Rightarrow> bool" where
  "leads_to cs c \<longleftrightarrow> (\<forall>ds. bracketed c ds \<longrightarrow> bracketed None (cs @ ds))"

definition heci_ok :: "heci \<Rightarrow> bool" where
  "heci_ok h \<longleftrightarrow> leads_to (calls h) (device h)"

lemma leads_to_step: "leads_to cs c \<Longrightarrow> (\<And>ds. bracketed c' ds \<Longrightarrow> bracketed c (x # ds)) \<Longrightarrow> leads_to (cs @ [x]) c'"
  by (simp add: leads_to_def)

lemma try_devices_ok:
  "leads_to (calls h) None \<Longrightarrow> heci_ok (snd (try_devices t ds ret nf h))"
proof (induction ds arbitrary: ret nf h)
  case Nil
  then show ?case by (simp add: heci_ok_def)
next
  case (Cons d ds)
  have init: "leads_to (calls h @ [Init_call d]) None" by (rule leads_to_step [OF Cons.prems]) simp
  have conn: "leads_to (calls h @ [Init_call d, Connect_call d]) (Some d)"
    using leads_to_step [OF init, of "Some d" "Connect_call d"] by simp
  have disc: "leads_to (calls h @ [Init_call d, Connect_call d, Disconnect_call d]) None"
    using leads_to_step [OF conn, of None "Disconnect_call d"] by simp
  show ?case
    using Cons.IH init conn disc by (auto simp: Let_def called_def heci_ok_def)
qed

lemma heci_Init_ok: "heci_ok h \<Longrightarrow> heci_ok (snd (heci_Init t h))"
  using try_devices_ok [of h] by (auto simp: heci_Init_def heci_ok_def)

lemma called_ok: "heci_ok h \<Longrightarrow> device h \<noteq> None \<Longrightarrow> (\<And>c ds. bracketed c (x # ds) = (c \<noteq> None \<and> bracketed c ds)) \<Longrightarrow> heci_ok (called x h)"
  by (simp add: heci_ok_def called_def leads_to_def)

lemma SendHeciMessage_ok: "heci_ok h \<Longrightarrow> heci_ok (snd (SendHeciMessage t b h))"
  by (auto simp: SendHeciMessage_def Let_def called_ok split: prod.splits)

lemma ReceiveHeciMessage_ok: "heci_ok h \<Longrightarrow> heci_ok (snd (ReceiveHeciMessage t n s h))"
  by (auto simp: ReceiveHeciMessage_def Let_def called_ok split: prod.splits)

lemma transact_body_ok:
  assumes "heci_ok h"
  shows "heci_ok (snd (transact_body t req p h))"
proof -
  obtain r1 h1 where 1: "heci_Init t h = (r1, h1)" by fastforce
  obtain r2 h2 where 2: "SendHeciMessage t req h1 = (r2, h2)" by fastforce
  obtain r3 h3 where 3: "ReceiveHeciMessage t (unat (bufSize h2)) 15000 h2 = (r3, h3)" by fastforce
  have "heci_ok h1" using heci_Init_ok [OF assms, of t] 1 by simp
  moreover from this have "heci_ok h2" using SendHeciMessage_ok [of h1 t req] 2 by simp
  moreover from this have "heci_ok h3" using ReceiveHeciMessage_ok [of h2 t] 3 by (metis snd_conv)
  ultimately show ?thesis
    using 1 2 3 by (auto simp: transact_body_def split: mei.splits)
qed

lemma HECI_ok: "heci_ok HECI"
  by (simp add: heci_ok_def HECI_def leads_to_def)

lemma bracketed_Deinit: "heci_ok h \<Longrightarrow> bracketed None (calls (heci_Deinit h))"
  by (cases "device h") (auto simp: heci_ok_def heci_Deinit_def called_def leads_to_def dest: spec [of _ "[]"])

subsection \<open>A working driver\<close>

text \<open>Some device is connected; the message is taken as a whole, and the reply is put into the buffer.\<close>

definition usable :: "tee \<Rightarrow> string \<Rightarrow> bool" where
  "usable t d \<longleftrightarrow> TEE_IS_SUCCESS t (TeeInit t d) \<and> TEE_IS_SUCCESS t (TeeConnect t d)"

definition client_missing :: "tee \<Rightarrow> string \<Rightarrow> bool" where
  "client_missing t d \<longleftrightarrow> TEE_IS_SUCCESS t (TeeInit t d) \<and> \<not> TEE_IS_SUCCESS t (TeeConnect t d)
     \<and> TeeConnect t d = TEE_CLIENT_NOT_FOUND t"

definition answers :: "tee \<Rightarrow> bytes \<Rightarrow> bytes \<Rightarrow> bool" where
  "answers t request reply \<longleftrightarrow>
     list_ex (usable t) devices \<and> maxMsgLen t \<noteq> 0 \<and> (case TeeWrite t request of (st, n) \<Rightarrow> TEE_IS_SUCCESS t st \<and> unat n = length request)
   \<and> (case TeeRead t (unat (maxMsgLen t)) of (st, got) \<Rightarrow> TEE_IS_SUCCESS t st \<and> got = reply)"

lemma try_devices_result:
  "device (snd (try_devices t ds ret nf h)) = List.find (usable t) ds
    \<and> (fst (try_devices t ds ret nf h) = Returned () \<longleftrightarrow> list_ex (usable t) ds)
    \<and> (fst (try_devices t ds ret nf h) = Raised (HeciNoClientException (TEE_CLIENT_NOT_FOUND t)) \<longleftrightarrow>
       \<not> list_ex (usable t) ds \<and> (nf \<or> list_ex (client_missing t) ds))"
  by (induction ds arbitrary: ret nf h) (auto simp: Let_def usable_def client_missing_def)

lemma try_devices_connects:
  "list_ex (usable t) ds
   \<Longrightarrow> \<exists>d h'. try_devices t ds ret nf h = (Returned (), h') \<and> device h' = Some d \<and> bufSize h' = maxMsgLen t"
  by (induction ds arbitrary: ret nf h) (auto simp: Let_def usable_def)

lemma Transact_answered:
  assumes "answers t request reply" and "reply \<noteq> []"
  shows "fst (Transact t request p) = p reply"
proof -
  from assms obtain d h where h: "heci_Init t HECI = (Returned (), h)" "device h = Some d" "bufSize h = maxMsgLen t"
    using try_devices_connects [of t devices "TEE_INTERNAL_ERROR t" False HECI]
    by (auto simp: answers_def heci_Init_def HECI_def)
  obtain st n where w: "TeeWrite t request = (st, n)" by fastforce
  obtain st' got where r: "TeeRead t (unat (maxMsgLen t)) = (st', got)" by fastforce
  show ?thesis
    using assms h w r
    by (simp add: Transact_def transact_body_def SendHeciMessage_def ReceiveHeciMessage_def answers_def called_def
      split_beta)
qed

subsection \<open>The frame of an AMTHI reply\<close>

definition amthi_reply :: "bytes \<Rightarrow> u32 \<Rightarrow> u32 \<Rightarrow> u32 \<Rightarrow> bytes \<Rightarrow> bytes" where
  "amthi_reply version cmd len status d = version @ put32 cmd @ put32 len @ put32 status @ d"

lemma AMTHI_reply_frame:
  assumes "length version = 4"
  shows "AMTHICommandResponse parse cmd (amthi_reply version c len status d) =
    (if c \<noteq> cmd \<or> unat len \<noteq> 4 + length d then Raised (MEIClientException ''Error: AMTHI Command number is incorrect.'' 0)
     else if status \<noteq> 0 then Raised (AMTHIErrorException status) else generate_response parse d)"
  using assms
  by (simp add: AMTHICommandResponse_def AMTHI_verifyHeaderAndStatus_def amthi_reply_def sizeof_AMTHI_MESSAGE_HEADER_def Let_def)

text \<open>The frame the firmware sends for a successful command.\<close>

definition amthi_ok :: "u32 \<Rightarrow> bytes \<Rightarrow> bytes" where
  "amthi_ok cmd d = amthi_reply [1, 1, 0, 0] cmd (of_nat (4 + length d)) 0 d"

lemma amthi_ok_nonempty [simp]: "amthi_ok cmd d \<noteq> []"
  by (simp add: amthi_ok_def amthi_reply_def)

lemma AMTHI_ok_frame:
  "length d < 2 ^ 31 \<Longrightarrow> AMTHICommandResponse parse cmd (amthi_ok cmd d) = generate_response parse d"
proof -
  assume d: "length d < 2 ^ 31"
  then have "unat (of_nat (4 + length d) :: u32) = 4 + length d" by (subst unat_of_nat) simp
  then show ?thesis by (simp add: amthi_ok_def AMTHI_reply_frame)
qed

context final_response
begin

lemma generate_enc: "ok a \<Longrightarrow> generate_response parse (enc a) = Returned a"
  using final_enc [of a] by (auto simp: generate_response_def)

text \<open>A command whose exchange succeeds returns what the firmware encoded.\<close>

lemma AMTHICommand_enc:
  assumes "answers t (AMTHI_Serialize r) (amthi_ok cmd (enc a))" and "ok a" and "length (enc a) < 2 ^ 31"
  shows "fst (AMTHICommand t r parse cmd) = Returned a"
  unfolding AMTHICommand_def
  by (simp add: Transact_answered [OF assms(1)] AMTHI_ok_frame [OF assms(3)] generate_enc [OF assms(2)])

end

end
