(* ===== verification/Mei_Formats.thy ===== *)
theory Mei_Formats
  imports Mei_Correct
begin

text \<open>
  The wire formats of the replies: an encoding for each structure, and its parser as the inverse. Texts of fixed
  size are padded with zeros; counted texts end a message. These are the interpretations of the contracts
  \<open>response\<close> and \<open>final_response\<close> on the parsers of the clients.
\<close>

subsection \<open>Texts\<close>

definition padded :: "nat \<Rightarrow> bytes \<Rightarrow> bytes" where
  "padded n s = s @ replicate (n - length s) 0"

definition text_ok :: "nat \<Rightarrow> bytes \<Rightarrow> bool" where
  "text_ok n s \<longleftrightarrow> length s < n \<and> 0 \<notin> set s"

lemma length_padded [simp]: "text_ok n s \<Longrightarrow> length (padded n s) = n"
  by (simp add: padded_def text_ok_def)

lemma c_string_padded [simp]: "text_ok n s \<Longrightarrow> c_string (padded n s) = Returned s"
proof -
  assume ok: "text_ok n s"
  then obtain k where k: "n - length s = Suc k" by (metis Suc_diff_Suc text_ok_def)
  from ok have "\<forall>b\<in>set s. b \<noteq> 0" by (auto simp: text_ok_def)
  with k show ?thesis by (simp add: c_string_def padded_def takeWhile_append2)
qed

lemma terminated_padded [simp]: "text_ok n s \<Longrightarrow> terminated_string (padded n s) = s"
proof -
  assume ok: "text_ok n s"
  then obtain k where k: "n - length s = Suc k" by (metis Suc_diff_Suc text_ok_def)
  from ok have "\<forall>b\<in>set s. b \<noteq> 0" by (auto simp: text_ok_def)
  moreover have "butlast (replicate (Suc k) (0 :: u8)) @ [0] = replicate (Suc k) 0"
    by (metis append_butlast_last_id last_replicate old.nat.distinct(2) replicate_empty)
  ultimately show ?thesis
    using k by (simp add: terminated_string_def padded_def butlast_append takeWhile_append2 del: replicate_Suc)
qed

lemma parse_CFG_IP_ADDR_enc [parse_simps]:
  "text_ok 46 s \<Longrightarrow> parse_CFG_IP_ADDR (padded 46 s @ rest) = Returned (s, rest)"
  using bytes_enc [of 46 "padded 46 s" rest]
  by (simp add: parse_CFG_IP_ADDR_def CFG_IP_ADDR_LEN_MAX_def CFG_IP_ADDR_toString_def parse_simps)

text \<open>A counted text, where its deserialisation is right: its length is not a positive multiple of 256.\<close>

definition enc_string :: "bytes \<Rightarrow> bytes" where
  "enc_string s = put16 (of_nat (length s)) @ s"

definition string_ok :: "bytes \<Rightarrow> bool" where
  "string_ok s \<longleftrightarrow> length s < 65536 \<and> (s = [] \<or> length s mod 256 \<noteq> 0)"

lemma low_byte_16: "(ucast (of_nat n :: u16) :: u8) = of_nat n"
  by (simp add: unsigned_of_nat word_of_nat_eq_iff take_bit_of_nat)

lemma unat_low_byte: "unat (ucast (of_nat n :: u8) :: u16) = n mod 256"
proof -
  have "unat (of_nat n :: u8) = n mod 256" by (simp add: unat_of_nat)
  moreover have "n mod 256 < 65536" by (rule less_trans [of _ 256]) simp_all
  ultimately show ?thesis by (simp add: unsigned_ucast_eq take_bit_nat_eq_self)
qed

lemma low_byte_0_iff: "(ucast (of_nat n :: u8) :: u16) = 0 \<longleftrightarrow> n mod 256 = 0"
  by (metis unat_low_byte unat_eq_0)

text \<open>What the deserialisation makes of a counted text, whatever its length and whatever follows it.\<close>

lemma parse_AmtAnsiString_exact:
  "parse_AmtAnsiString nt (enc_string s @ rest) = Returned
     (\<lparr>m_str = (if length s mod 256 = 0 then [] else s @ rest), m_nullTerminated = nt\<rparr>, s @ rest)"
proof -
  have first: "(enc_string s @ rest) ! 0 = of_nat (length s)" "drop 2 (enc_string s @ rest) = s @ rest"
    by (simp_all add: enc_string_def put16_def low_byte_16)
  have "length s mod 256 \<le> length s" by simp
  then show ?thesis
    unfolding parse_AmtAnsiString_def Let_def first low_byte_0_iff unat_low_byte by (auto simp: enc_string_def)
qed

lemma parseString_enc:
  "string_ok s \<Longrightarrow> parseString (enc_string s) = Returned (s, s)"
  using parse_AmtAnsiString_exact [of True s "[]"]
  by (auto simp: parseString_def bindP_def returnP_def string_ok_def)

interpretation counted: final_response parseString enc_string string_ok
  by unfold_locales (auto simp: parseString_enc)

lemma final_string:
  "string_ok s \<Longrightarrow> \<exists>rest. bindP parseString (\<lambda>s. returnP (f s)) (enc_string s) = Returned (f s, rest)"
  by (simp add: parseString_enc parse_simps)

subsection \<open>Arrays\<close>

text \<open>\<^verbatim>\<open>parseArray\<close> with a count that is not too large: too few bytes are an exception, too many elements overflow
  the array.\<close>

lemma parseArray_exact:
  assumes "sizeof T * unat n < 2 ^ 31" and "0 < sizeof T"
  shows "parseArray T arr n bs =
    (if length bs < sizeof T * unat n then Raised too_small
     else if length arr < unat n then Undefined
     else Returned (elements T (unat n) (take (sizeof T * unat n) bs) @ drop (unat n) arr, drop (sizeof T * unat n) bs))"
proof -
  let ?k = "sizeof T * unat n"
  have "unat n \<le> ?k" using assms(2) by simp
  also have "\<dots> < 2147483648" using assms(1) by simp
  finally have "int (unat n) < 2147483648" by linarith
  then have "uint n < 2147483648" "- 2147483648 \<le> uint n" using uint_ge_0 [of n] by (simp, linarith)
  then have "signed_take_bit 31 (int (unat n)) = int (unat n)" by (intro signed_take_bit_int_eq_self) simp_all
  moreover have "sint (of_nat (unat n) :: u32) = signed_take_bit 31 (int (unat n))" by (subst signed_of_nat) simp
  ultimately have "sint n = int (unat n)" by simp
  then have count: "of_nat (sizeof T) * of_int (sint n) = (of_nat ?k :: u64)" by simp
  have small: "?k < 2147483648" using assms(1) by simp
  then have "?k < 2 ^ 64" by simp
  then have u: "unat (of_nat ?k :: u64) = ?k" by (rule unat_of_nat_64)
  have room: "?k \<le> sizeof T * length arr \<longleftrightarrow> \<not> length arr < unat n" using assms(2) by auto
  show ?thesis
    unfolding parseArray_def Let_def count as_int_of_nat [OF small] of_nat_less_iff copies_def bindP_def u
    using assms(2) room by (auto simp: returnP_def)
qed

context simple_type
begin

lemma parseArray_enc:
  assumes "sizeof T * length as < 2 ^ 31" and "list_all ok as" and "length as \<le> length arr"
  shows "parseArray T arr (of_nat (length as)) (concat (map enc as) @ rest) = Returned (as @ drop (length as) arr, rest)"
proof -
  have "length as \<le> sizeof T * length as" using nonempty by simp
  also note assms(1)
  finally have "unat (of_nat (length as) :: u32) = length as" by (simp add: unat_of_nat)
  then show ?thesis
    using assms nonempty elements_enc [of as "[]"] length_concat_enc [of as] by (simp add: parseArray_exact)
qed

end

lemma parseArray_bytes [parse_simps]:
  assumes "length d = unat n" and "length arr = unat n" and "unat n < 2 ^ 31"
  shows "parseArray uint8_t arr n (d @ rest) = Returned (d, rest)"
proof -
  have "n = of_nat (length d)" using assms(1) by simp
  then show ?thesis
    using u8.parseArray_enc [of d arr rest] assms by (simp add: uint8_t_def sizeof_def list_all_iff)
qed

subsection \<open>Structures\<close>

lemma sizeof_words [simp]: "sizeof uint8_t = 1" "sizeof uint16_t = 2" "sizeof uint32_t = 4" "sizeof (uint8_array n) = n"
  by (simp_all add: sizeof_def uint8_t_def uint16_t_def uint32_t_def uint8_array_def)

lemma bytes_parse [parse_simps]:
  "length d = n \<Longrightarrow> 0 < n \<Longrightarrow> parseData (uint8_array n) (d @ rest) = Returned (d, rest)"
  by (rule bytes_enc)

lemma parse_words_end [parse_simps]:
  "parseData uint32_t (put32 w) = Returned (w, [])" "parseData uint16_t (put16 h) = Returned (h, [])"
  "parseData uint8_t [b] = Returned (b, [])" "parseBool (put_bool c) = Returned (c, [])"
  using simple_enc(3) [of w "[]"] simple_enc(2) [of h "[]"] simple_enc(1) [of b "[]"] parseBool_enc [of c "[]"] by simp_all

lemma parseData_cons [parse_simps]: "parseData uint8_t (b # rest) = Returned (b, rest)"
  using simple_enc(1) [of b rest] by simp

text \<open>A text at the end of a structure.\<close>

lemma parse_final_string [parse_simps]: "string_ok s \<Longrightarrow> bindP parseString f (enc_string s) = f s s"
  by (simp add: parseString_enc bindP_def)

lemma ex_returnP [simp]: "\<exists>rest. returnP a bs = Returned (a, rest)"
  by (simp add: returnP_def)

definition enc_AMT_STATE :: "AMT_STATE_RESPONSE \<Rightarrow> bytes" where
  "enc_AMT_STATE a = StateDataIdentifier a @ put32 5 @ StateData a"

interpretation amt_state: response parse_AMT_STATE_RESPONSE enc_AMT_STATE
    "\<lambda>a. length (StateDataIdentifier a) = 16 \<and> length (StateData a) = 5"
  by unfold_locales (simp add: parse_AMT_STATE_RESPONSE_def enc_AMT_STATE_def parse_simps)

definition enc_CERTIFICATE_HASH :: "GET_CERTIFICATE_HASH_ENTRY_RESPONSE \<Rightarrow> bytes" where
  "enc_CERTIFICATE_HASH a = put_bool (IsDefault a) @ put_bool (IsActive a) @ CertificateHash a @ [HashAlgorithm a]
     @ enc_string (hash_Name a)"

interpretation certificate_hash: final_response parse_GET_CERTIFICATE_HASH_ENTRY_RESPONSE enc_CERTIFICATE_HASH
    "\<lambda>a. length (CertificateHash a) = 64 \<and> string_ok (hash_Name a)"
  by unfold_locales
    (simp add: parse_GET_CERTIFICATE_HASH_ENTRY_RESPONSE_def enc_CERTIFICATE_HASH_def CERT_HASH_MAX_LENGTH_def parse_simps)

definition enc_AMT_VERSION :: "AMT_VERSION_TYPE \<Rightarrow> bytes" where
  "enc_AMT_VERSION v = put16 (of_nat (length (version_Description v))) @ padded 20 (version_Description v)
     @ put16 (of_nat (length (version_Version v))) @ padded 20 (version_Version v)"

interpretation unicode_string: simple_type AMT_UNICODE_STRING "\<lambda>(n, d). put16 n @ d" "\<lambda>(n, d). length d = 20"
  by unfold_locales (auto simp: AMT_UNICODE_STRING_def sizeof_def)

lemma unicode_string_enc [parse_simps]:
  "length d = 20 \<Longrightarrow> parseData AMT_UNICODE_STRING (put16 n @ d @ rest) = Returned ((n, d), rest)"
  using unicode_string.parseData_enc [of "(n, d)" rest] by simp

interpretation amt_version: response parse_AMT_VERSION_TYPE enc_AMT_VERSION
    "\<lambda>v. text_ok 20 (version_Description v) \<and> text_ok 20 (version_Version v)"
  by unfold_locales (simp add: parse_AMT_VERSION_TYPE_def enc_AMT_VERSION_def parse_simps)

definition enc_CODE_VERSIONS :: "CODE_VERSIONS \<Rightarrow> bytes" where
  "enc_CODE_VERSIONS a = code_BiosVersion a @ put32 (of_nat (length (Versions a))) @ concat (map enc_AMT_VERSION (Versions a))"

definition code_versions_ok :: "CODE_VERSIONS \<Rightarrow> bool" where
  "code_versions_ok a \<longleftrightarrow> length (code_BiosVersion a) = 65 \<and> length (Versions a) < 2 ^ 32 \<and>
     list_all (\<lambda>v. text_ok 20 (version_Description v) \<and> text_ok 20 (version_Version v)) (Versions a)"

interpretation code_versions: response parse_CODE_VERSIONS enc_CODE_VERSIONS code_versions_ok
  by unfold_locales
    (simp add: parse_CODE_VERSIONS_def enc_CODE_VERSIONS_def code_versions_ok_def BIOS_VERSION_LEN_def
      amt_version.parseComplexArray_enc parse_simps)

definition enc_CONFIG_SERVER :: "CFG_GET_CONFIG_SERVER_DATA_RESPONSE \<Rightarrow> bytes" where
  "enc_CONFIG_SERVER a = put16 (ServerPort a) @ padded 46 (ServerAddr a) @ enc_string (server_FQDN a)"

interpretation config_server: final_response parse_CFG_GET_CONFIG_SERVER_DATA_RESPONSE enc_CONFIG_SERVER
    "\<lambda>a. text_ok 46 (ServerAddr a) \<and> string_ok (server_FQDN a)"
  by unfold_locales (simp add: parse_CFG_GET_CONFIG_SERVER_DATA_RESPONSE_def enc_CONFIG_SERVER_def parse_simps)

definition enc_hash_handles :: "u32 list \<Rightarrow> bytes" where
  "enc_hash_handles ws = put32 (of_nat (length ws)) @ concat (map put32 ws)"

interpretation hash_handles: response parse_ENUMERATE_HASH_HANDLES_RESPONSE enc_hash_handles "\<lambda>ws. length ws < 2 ^ 29"
  by unfold_locales
    (simp add: parse_ENUMERATE_HASH_HANDLES_RESPONSE_def enc_hash_handles_def u32.parseSimpleArray32_enc list_all_iff)

definition enc_two_words :: "u32 \<Rightarrow> u32 \<Rightarrow> bytes" where
  "enc_two_words a b = put32 a @ put32 b"

interpretation eac_state: response parse_GET_EAC_STATE_RESPONSE "\<lambda>a. enc_two_words (eac_RequestId a) (EacEnabled a)" "\<lambda>_. True"
  by unfold_locales (simp add: parse_GET_EAC_STATE_RESPONSE_def enc_two_words_def parse_simps)

interpretation defense_state: response parse_GET_SYSTEM_DEFENSE_STATE_RESPONSE
    "\<lambda>a. enc_two_words (defense_RequestId a) (SystemDefenseActivated a)" "\<lambda>_. True"
  by unfold_locales (simp add: parse_GET_SYSTEM_DEFENSE_STATE_RESPONSE_def enc_two_words_def parse_simps)

interpretation web_state: response parse_GET_WEB_UI_STATE_RESPONSE "\<lambda>a. enc_two_words (web_RequestId a) (WebUiEnabled a)" "\<lambda>_. True"
  by unfold_locales (simp add: parse_GET_WEB_UI_STATE_RESPONSE_def enc_two_words_def parse_simps)

interpretation redirection_sessions: response parse_GET_REDIRECTION_SESSIONS_STATE_RESPONSE
    "\<lambda>a. put32 (redirection_RequestId a) @ put32 (IderOpen a) @ put32 (SolOpen a) @ put32 (redirection_Reserved a)" "\<lambda>_. True"
  by unfold_locales (simp add: parse_GET_REDIRECTION_SESSIONS_STATE_RESPONSE_def parse_simps)

definition enc_FQDN :: "GET_FQDN_RESPONSE \<Rightarrow> bytes" where
  "enc_FQDN a = put_bool (SharedFQDN a) @ put_bool (DDNSUpdateEnabled a) @ put32 (DDNSPeriodicUpdateInterval a)
     @ put32 (DDNSTTL a) @ put32 (HostNameLength a) @ enc_string (fqdn_FQDN a)"

interpretation fqdn: final_response parse_GET_FQDN_RESPONSE enc_FQDN "\<lambda>a. string_ok (fqdn_FQDN a)"
  by unfold_locales (simp add: parse_GET_FQDN_RESPONSE_def enc_FQDN_def put_bool_def AMT_TRUE_def parse_simps)

definition enc_IPv6_ADDR :: "CFG_IPv6_ADDR_INFO \<Rightarrow> bytes" where
  "enc_IPv6_ADDR a = padded 46 (v6_Address a) @ put32 (v6_Type a) @ put32 (v6_State a)"

interpretation ipv6_addr: response parse_CFG_IPv6_ADDR_INFO enc_IPv6_ADDR "\<lambda>a. text_ok 46 (v6_Address a)"
  by unfold_locales (simp add: parse_CFG_IPv6_ADDR_INFO_def enc_IPv6_ADDR_def parse_simps)

definition enc_IPv6_STATUS :: "GET_IPv6_LAN_INTERFACE_STATUS_RESPONSE \<Rightarrow> bytes" where
  "enc_IPv6_STATUS a = padded 46 (IPv6DefaultRouter a) @ padded 46 (v6_PrimaryDNS a) @ padded 46 (v6_SecondaryDNS a)
     @ put32 (of_nat (length (IPv6Addresses a))) @ concat (map enc_IPv6_ADDR (IPv6Addresses a))"

definition ipv6_status_ok :: "GET_IPv6_LAN_INTERFACE_STATUS_RESPONSE \<Rightarrow> bool" where
  "ipv6_status_ok a \<longleftrightarrow> text_ok 46 (IPv6DefaultRouter a) \<and> text_ok 46 (v6_PrimaryDNS a) \<and> text_ok 46 (v6_SecondaryDNS a)
     \<and> length (IPv6Addresses a) < 2 ^ 32 \<and> list_all (\<lambda>i. text_ok 46 (v6_Address i)) (IPv6Addresses a)"

interpretation ipv6_status: response parse_GET_IPv6_LAN_INTERFACE_STATUS_RESPONSE enc_IPv6_STATUS ipv6_status_ok
  by unfold_locales
    (simp add: parse_GET_IPv6_LAN_INTERFACE_STATUS_RESPONSE_def enc_IPv6_STATUS_def ipv6_status_ok_def
      ipv6_addr.parseComplexArray_enc parse_simps)

definition enc_LAN_SETTINGS :: "LAN_SETTINGS \<Rightarrow> bytes" where
  "enc_LAN_SETTINGS a = put32 (lan_Enabled a) @ put32 (lan_Ipv4Address a) @ put32 (lan_DhcpEnabled a)
     @ [lan_DhcpIpMode a, lan_LinkStatus a] @ lan_MacAddress a"

interpretation lan_settings: simple_type LAN_SETTINGS enc_LAN_SETTINGS "\<lambda>a. length (lan_MacAddress a) = 6"
  by unfold_locales (simp_all add: LAN_SETTINGS_def enc_LAN_SETTINGS_def sizeof_def nth_append)

definition enc_LAST_HOST_RESET :: "LAST_HOST_RESET_REASON_RESPONSE \<Rightarrow> bytes" where
  "enc_LAST_HOST_RESET a = put32 (reset_Reason a) @ put32 (RemoteControlTimeStamp a)"

interpretation last_host_reset: simple_type LAST_HOST_RESET_REASON_RESPONSE enc_LAST_HOST_RESET "\<lambda>_. True"
  by unfold_locales (simp_all add: LAST_HOST_RESET_REASON_RESPONSE_def enc_LAST_HOST_RESET_def sizeof_def)

definition enc_LOCAL_ACCOUNT :: "GET_LOCAL_SYSTEM_ACCOUNT_RESPONSE \<Rightarrow> bytes" where
  "enc_LOCAL_ACCOUNT a = padded 33 (UserName a) @ padded 33 (Password a)"

interpretation local_account: response parse_GET_LOCAL_SYSTEM_ACCOUNT_RESPONSE enc_LOCAL_ACCOUNT
    "\<lambda>a. text_ok 33 (UserName a) \<and> text_ok 33 (Password a)"
  by unfold_locales (simp add: parse_GET_LOCAL_SYSTEM_ACCOUNT_RESPONSE_def enc_LOCAL_ACCOUNT_def parse_simps)

definition enc_TIME_DATE :: "TIME_DATE \<Rightarrow> bytes" where
  "enc_TIME_DATE a = put16 (Year a) @ put16 (Month a) @ put16 (DayOfWeek a) @ put16 (Day a) @ put16 (Hour a)
     @ put16 (Minute a) @ put16 (Second a)"

interpretation time_date: simple_type TIME_DATE enc_TIME_DATE "\<lambda>_. True"
  by unfold_locales (simp_all add: TIME_DATE_def enc_TIME_DATE_def sizeof_def)

definition enc_AUDIT_RECORD :: "GetMESetupAuditRecord_RESPONSE \<Rightarrow> bytes" where
  "enc_AUDIT_RECORD a = [ProvisioningTLSMode a] @ put_bool (SecureDNS a) @ put_bool (HostInitiated a)
     @ put32 (SelectedHashType a) @ SelectedHashData a @ CaCertificateSerials a @ put_bool (AdditionalCaSerialNums a)
     @ put_bool (IsOemDefault a) @ put_bool (IsTimeValid a) @ padded 46 (ProvServerIP a) @ enc_TIME_DATE (TlsStartTime a)
     @ enc_string (ProvServerFQDN a)"

interpretation audit_record: final_response parse_GetMESetupAuditRecord_RESPONSE enc_AUDIT_RECORD
    "\<lambda>a. length (SelectedHashData a) = 64 \<and> length (CaCertificateSerials a) = 48 \<and> text_ok 46 (ProvServerIP a)
      \<and> string_ok (ProvServerFQDN a)"
  by unfold_locales
    (simp add: parse_GetMESetupAuditRecord_RESPONSE_def enc_AUDIT_RECORD_def CFG_IP_ADDR_LEN_MAX_def CFG_IP_ADDR_toString_def
      time_date.parseData_enc parse_simps)

interpretation provisioning_mode: response parse_PROVISIONING_MODE_SETTINGS
    "\<lambda>a. put32 (ProvisioningMode a) @ put_bool (LegacyMode a)" "\<lambda>_. True"
  by unfold_locales (simp add: parse_PROVISIONING_MODE_SETTINGS_def parse_simps)

definition enc_REMOTE_ACCESS :: "REMOTE_ACCESS_STATUS \<Rightarrow> bytes" where
  "enc_REMOTE_ACCESS a = put32 (AmtNetworkConnectionStatus a) @ put32 (RemoteAccessConnectionStatus a)
     @ put32 (RemoteAccessConnectionTrigger a) @ enc_string (MpsHostname a)"

interpretation remote_access: final_response parse_REMOTE_ACCESS_STATUS enc_REMOTE_ACCESS "\<lambda>a. string_ok (MpsHostname a)"
  by unfold_locales (simp add: parse_REMOTE_ACCESS_STATUS_def enc_REMOTE_ACCESS_def parse_simps)

definition enc_TCPIP :: "TCPIP_PARAMETERS \<Rightarrow> bytes" where
  "enc_TCPIP a = put32 (DhcpMode a) @ put32 (LocalAddress a) @ put32 (SubnetMask a) @ put32 (DefaultGatewayAddress a)
     @ put32 (PrimaryDnsAddress a) @ put32 (SecondaryDnsAddress a) @ enc_string (tcpip_DomainName a)"

interpretation tcpip: final_response parse_TCPIP_PARAMETERS enc_TCPIP "\<lambda>a. string_ok (tcpip_DomainName a)"
  by unfold_locales (simp add: parse_TCPIP_PARAMETERS_def enc_TCPIP_def parse_simps)

definition enc_FW_VER :: "GET_FW_VER_RESPONSE \<Rightarrow> bytes" where
  "enc_FW_VER a = put16 (FTMinor a) @ put16 (FTMajor a) @ put16 (FTBuildNo a) @ put16 (FTHotFix a) @ put16 (NFTMinor a)
     @ put16 (NFTMajor a) @ put16 (NFTBuildNo a) @ put16 (NFTHotFix a)"

interpretation fw_ver: response parse_GET_FW_VER_RESPONSE enc_FW_VER "\<lambda>_. True"
  by unfold_locales (simp add: parse_GET_FW_VER_RESPONSE_def enc_FW_VER_def parse_simps)

definition enc_PARTITION :: "FLASH_PARTITION_DATA \<Rightarrow> bytes" where
  "enc_PARTITION a = (case fp_Version a of (major, minor, hotfix, build) \<Rightarrow>
     ModuleName a @ put16 major @ put16 minor @ put16 hotfix @ put16 build @ put32 (VendorId a) @ fp_Reserved a)"

interpretation partition: simple_type FLASH_PARTITION_DATA enc_PARTITION
    "\<lambda>a. length (ModuleName a) = 12 \<and> length (fp_Reserved a) = 64"
  by unfold_locales (auto simp: FLASH_PARTITION_DATA_def enc_PARTITION_def sizeof_def split: prod.splits)

lemma sizeof_PARTITION [simp]: "sizeof FLASH_PARTITION_DATA = 88"
  by (simp add: sizeof_def FLASH_PARTITION_DATA_def)

subsection \<open>Parsers that are never undefined\<close>

lemma defined_bytes_array: "unat n < 2 ^ 31 \<Longrightarrow> length arr = unat n \<Longrightarrow> defined (parseArray uint8_t arr n)"
  by (rule definedI) (simp add: parseArray_exact)

lemmas amthi_parsers = parse_AMT_STATE_RESPONSE_def parse_GET_CERTIFICATE_HASH_ENTRY_RESPONSE_def
  parse_GetCurrentPowerPolicy_RESPONSE_def parse_GetDNSSuffix_RESPONSE_def parse_GET_DNS_SUFFIX_LIST_RESPONSE_def
  parse_GET_EAC_STATE_RESPONSE_def parse_GET_KVM_SESSION_STATE_RESPONSE_def parse_GET_REDIRECTION_SESSIONS_STATE_RESPONSE_def
  parse_GET_SYSTEM_DEFENSE_STATE_RESPONSE_def parse_GET_WEB_UI_STATE_RESPONSE_def parse_GET_FQDN_RESPONSE_def
  parse_LAN_SETTINGS_def parse_LAST_HOST_RESET_REASON_RESPONSE_def parse_GET_LOCAL_SYSTEM_ACCOUNT_RESPONSE_def
  parse_GET_PID_RESPONSE_def parse_PROVISIONING_MODE_SETTINGS_def parse_CFG_PROVISIONING_STATE_def
  parse_PROV_TLS_MODE_RESPONSE_def parse_REDIRECTION_STATE_def parse_REMOTE_ACCESS_STATUS_def parse_SECURITY_PARAMETERS_def
  parse_TCPIP_PARAMETERS_def parse_GET_UUID_RESPONSE_def parse_GET_USER_INITIATED_ENABLED_INTERFACES_RESPONSE_def
  parse_ZTC_ENABLED_STATUS_def parse_CFG_SET_OVERRIDE_RESPONSE_def no_data_def

lemma generate_defined: "defined p \<Longrightarrow> generate_response p bs \<noteq> Undefined"
  by (auto simp: defined_def generate_response_def split: mei.splits)

lemma AMTHI_defined: "defined p \<Longrightarrow> AMTHICommandResponse p cmd buffer \<noteq> Undefined"
  by (auto simp: AMTHICommandResponse_def AMTHI_verifyHeaderAndStatus_def Let_def generate_defined split: mei.splits)

text \<open>An address without a zero byte is read past its end.\<close>

lemma parse_CFG_IP_ADDR_Undefined: "parse_CFG_IP_ADDR bs = Undefined \<longleftrightarrow> 46 \<le> length bs \<and> 0 \<notin> set (take 46 bs)"
  by (auto simp: parse_CFG_IP_ADDR_def parseData_def bindP_def liftP_def CFG_IP_ADDR_LEN_MAX_def CFG_IP_ADDR_toString_def
    c_string_def uint8_array_def sizeof_def split: mei.splits)

end
