(* ===== verification/Mei_Properties.thy ===== *)
theory Mei_Properties
  imports Mei_Formats
begin

text \<open>
  What the firmware clients guarantee: the driver handle is closed whatever happens, requests announce their
  size, replies are taken only for the command that was sent and with its status, and arbitrary bytes from the
  firmware end in a value or an exception; and the replies for which they do not.
\<close>

text \<open>A driver whose first device works and that answers \<open>reply\<close>, for the examples.\<close>

definition tee1 :: "bytes \<Rightarrow> tee" where
  "tee1 reply = \<lparr>TEE_IS_SUCCESS = (\<lambda>s. s = 0), TEE_CLIENT_NOT_FOUND = 5, TEE_INTERNAL_ERROR = 1, TeeInit = (\<lambda>_. 0),
     TeeConnect = (\<lambda>_. 0), maxMsgLen = 5120, TeeWrite = (\<lambda>b. (0, of_nat (length b))), TeeRead = (\<lambda>_. (0, reply))\<rparr>"

lemma tee1_answers: "length request < 2 ^ 32 \<Longrightarrow> answers (tee1 reply) request reply"
  by (simp add: answers_def tee1_def devices_def usable_def unat_of_nat)

subsection \<open>The exchange\<close>

text \<open>C10. Whatever the driver and the firmware answer, and whatever the parser of the reply does, an exchange
  leaves no device connected: each connect is followed by its disconnect before another device is tried, and
  messages are written and read only in between.\<close>

theorem mei_handle_closed: "bracketed None (snd (Transact t request parse))"
  using bracketed_Deinit [OF transact_body_ok [OF HECI_ok, of t request parse]]
  by (simp add: Transact_def split_beta)

text \<open>\<^verbatim>\<open>HECI::Init\<close> succeeds when some device can be initialised and connected, and then with the first such
  one; otherwise the exception says that there is no such client exactly when some device said so.\<close>

theorem heci_init_outcome:
  "device (snd (heci_Init t HECI)) = List.find (usable t) devices
    \<and> (fst (heci_Init t HECI) = Returned () \<longleftrightarrow> list_ex (usable t) devices)
    \<and> (fst (heci_Init t HECI) = Raised (HeciNoClientException (TEE_CLIENT_NOT_FOUND t)) \<longleftrightarrow>
       \<not> list_ex (usable t) devices \<and> list_ex (client_missing t) devices)"
  using try_devices_result [of t devices] by (simp add: heci_Init_def HECI_def)

subsection \<open>Requests\<close>

lemmas amthi_request_defs = GetAMTStateRequest_def GetCertificateHashEntryRequest_def GetCodeVersionRequest_def
  GetConfigServerDataRequest_def GetCurrentPowerPolicyRequest_def GetDNSSuffixRequest_def GetDNSSuffixListRequest_def
  EnumerateHashHandlesRequest_def GetEACStateRequest_def GetKVMSessionStateRequest_def GetRedirectionSessionsStateRequest_def
  GetSystemDefenseStateRequest_def GetWebUIStateRequest_def GetFQDNRequest_def GetIPv6LanInterfaceStatusRequest_def
  GetLanInterfaceSettingRequest_def GetLastHostResetReasonRequest_def GetLocalSystemAccountRequest_def
  GetMESetupAuditRecordRequest_def GetPIDRequest_def GetProvisioningModeRequest_def GetProvisioningStateRequest_def
  GetProvisioningTLSModeRequest_def GetRedirectionStateRequest_def GetRemoteAccessConnectionStatusRequest_def
  GetSecurityParametersRequest_def GetTcpipParametersRequest_def GetUUIDRequest_def
  GetUserInitiatedEnabledInterfacesRequest_def GetZeroTouchEnabledRequest_def CloseUserInitiatedConnectionRequest_def
  OpenUserInitiatedConnectionRequest_def StopConfigurationRequest_def CFG_SetOverrideProsetAdapterSwitchingCommandRequest_def
  SetEnterpriseAccessRequest_def StartConfigurationExRequest_def UnprovisionRequest_def SetDNSSuffixRequest_def
  SetHostFQDNRequest_def SetProvisioningServerOTPRequest_def
  plain_request_def word_request_def string_request_def map_mei_def new_AmtAnsiString_def

text \<open>C11. The length in the header of every request is the length of the data behind it, for every command of the
  AMTHI client but one: switching the ProSet adapter announces four bytes and sends one.\<close>

theorem amthi_requests_well_formed:
  assumes "make_request c = Returned r" and "\<And>uuid. c = Get_AMT_state uuid \<Longrightarrow> length uuid = 16"
  shows "length (AMTHI_Serialize r) = 12 + length (SerializeData r)
    \<and> get32 (drop 8 (AMTHI_Serialize r)) = requestDataSize r
    \<and> (unat (requestDataSize r) = length (SerializeData r) \<longleftrightarrow> (\<nexists>b. c = Set_override_proset_adapter_switching b))"
proof -
  have ansi: "unat (ansi_bufSize s) = length (ansi_serialize s)" if "length (m_str s) < 65535" for s
  proof -
    let ?n = "length (m_str s) + (if m_nullTerminated s then 1 else 0)"
    have "unat (of_nat ?n :: u16) = ?n" using that by (simp add: unat_of_nat del: of_nat_add)
    then have u: "unat (of_nat (length (m_str s)) + (if m_nullTerminated s then 1 else 0) :: u16) = ?n"
      by (cases "m_nullTerminated s") (simp_all add: add.commute)
    have "ansi_bufSize s = of_nat (?n + 2)" by (simp add: ansi_bufSize_def ansi_size_def)
    moreover have "unat (of_nat (?n + 2) :: u32) = ?n + 2" using that by (subst unat_of_nat) simp
    ultimately show ?thesis using u by (simp add: ansi_serialize_def Let_def)
  qed
  have "unat (requestDataSize r) = length (SerializeData r) \<longleftrightarrow> (\<nexists>b. c = Set_override_proset_adapter_switching b)"
    using assms
    by (cases c) (auto simp: amthi_request_defs HOST_IP_ADDRESS_SIZE_def ansi split: mei.splits if_splits)
  then show ?thesis
    by (simp add: AMTHI_Serialize_def AMTHI_header_def)
qed

lemma amthi_requests_well_formed_witness:
  "\<exists>r. make_request (Set_host_FQDN [104, 111]) = Returned r \<and> unat (requestDataSize r) = length (SerializeData r)"
proof -
  obtain r where r: "make_request (Set_host_FQDN [104, 111]) = Returned r"
    by (simp add: amthi_request_defs)
  from amthi_requests_well_formed [OF r] r show ?thesis by auto
qed

subsection \<open>Replies\<close>

text \<open>C12. An AMTHI reply is taken only when it is for the command that was sent and its length is the length in
  its header; then a status other than success is thrown with its value, and success hands all data behind the
  status to the parser. A buffer too short for a status is refused.\<close>

theorem amthi_reply_cases:
  assumes "length version = 4" and "length b < 16"
  shows "AMTHICommandResponse parse cmd (amthi_reply version c len status d) =
     (if c \<noteq> cmd \<or> unat len \<noteq> 4 + length d then Raised (MEIClientException ''Error: AMTHI Command number is incorrect.'' 0)
      else if status \<noteq> 0 then Raised (AMTHIErrorException status) else generate_response parse d)
    \<and> AMTHICommandResponse parse cmd b = Raised (MEIClientException ''Error: response buffer too short.'' 0)"
  using AMTHI_reply_frame [OF assms(1), of parse cmd c len status d] assms(2)
  by (simp add: AMTHICommandResponse_def AMTHI_verifyHeaderAndStatus_def sizeof_AMTHI_MESSAGE_HEADER_def)

lemma amthi_reply_cases_witness:
  "AMTHICommandResponse parse_GET_UUID_RESPONSE 0x0480005C (amthi_reply [1, 1, 0, 0] 0x0480005C 4 2065 []) =
     Raised (AMTHIErrorException 2065)"
  using amthi_reply_cases [of "[1, 1, 0, 0]" "[]" parse_GET_UUID_RESPONSE "0x0480005C" "0x0480005C" 4 2065 "[]"] by simp

text \<open>Against a working driver the version query returns exactly the versions the firmware encoded, whatever
  their number and texts.\<close>

theorem code_versions_reported:
  assumes "answers t (AMTHI_Serialize GetCodeVersionRequest) (amthi_ok 0x0480001A (enc_CODE_VERSIONS v))"
    and "code_versions_ok v" and "length (enc_CODE_VERSIONS v) < 2 ^ 31"
  shows "fst (GetCodeVersionCommand t) = Returned v"
  unfolding GetCodeVersionCommand_def by (rule code_versions.AMTHICommand_enc [OF assms])

definition versions1 :: CODE_VERSIONS where
  "versions1 = \<lparr>code_BiosVersion = replicate 65 32, Versions = [\<lparr>version_Description = str ''Flash'', version_Version = str ''16.1''\<rparr>,
     \<lparr>version_Description = str ''Netstack'', version_Version = []\<rparr>]\<rparr>"

lemma code_versions_reported_witness:
  "fst (GetCodeVersionCommand (tee1 (amthi_ok 0x0480001A (enc_CODE_VERSIONS versions1)))) = Returned versions1"
proof -
  have ok: "code_versions_ok versions1"
    by (simp add: code_versions_ok_def versions1_def text_ok_def str_def)
  have len: "length (enc_CODE_VERSIONS versions1) < 2 ^ 31"
    by (simp add: enc_CODE_VERSIONS_def versions1_def enc_AMT_VERSION_def padded_def)
  have "length (AMTHI_Serialize GetCodeVersionRequest) < 2 ^ 32"
    by (simp add: AMTHI_Serialize_def AMTHI_header_def GetCodeVersionRequest_def plain_request_def)
  from code_versions_reported [OF tee1_answers [OF this] ok len] show ?thesis .
qed









text \<open>What \<^verbatim>\<open>AmtAnsiString\<close> reads back from its own serialisation: the string with its terminating zero and
  everything behind it in the buffer, or nothing at all when the length written is a multiple of 256.\<close>

theorem ansi_string_round_trip:
  assumes "new_AmtAnsiString s nt = Returned a"
  shows "parse_AmtAnsiString b (ansi_serialize a @ rest) =
    (let t = s @ (if nt then [0] else []) in
     Returned (\<lparr>m_str = (if length t mod 256 = 0 then [] else t @ rest), m_nullTerminated = b\<rparr>, t @ rest))"
proof -
  from assms have a: "a = \<lparr>m_str = s, m_nullTerminated = nt\<rparr>" and len: "length s < 65535"
    by (auto simp: new_AmtAnsiString_def split: if_splits)
  let ?t = "s @ (if nt then [0] else [])"
  have "unat (of_nat (length ?t) :: u16) = length ?t" using len by (simp add: unat_of_nat del: of_nat_add of_nat_Suc)
  moreover have "of_nat (length s) + (if nt then 1 else 0) = (of_nat (length ?t) :: u16)" by (simp add: add.commute)
  ultimately have "ansi_serialize a = enc_string ?t"
    by (auto simp: ansi_serialize_def enc_string_def a Let_def)
  then show ?thesis
    using parse_AmtAnsiString_exact [of b ?t rest] by (simp add: Let_def)
qed

lemma ansi_string_round_trip_witness:
  "parse_AmtAnsiString True (ansi_serialize \<lparr>m_str = replicate 255 97, m_nullTerminated = True\<rparr>) =
     Returned (\<lparr>m_str = [], m_nullTerminated = True\<rparr>, replicate 255 97 @ [0])"
  using ansi_string_round_trip [of "replicate 255 97" True "\<lparr>m_str = replicate 255 97, m_nullTerminated = True\<rparr>" True "[]"]
  by (simp add: new_AmtAnsiString_def Let_def)

subsection \<open>Replies that are not contained\<close>

lemma as_int_negative:
  assumes "2147483648 \<le> n" and "n < 4294967296"
  shows "as_int (of_nat n) < 0"
proof -
  have "(ucast (of_nat n :: u64) :: u32) = of_nat n" using assms by (simp add: unsigned_of_nat take_bit_nat_eq_self)
  moreover have "signed_take_bit 31 (int n) = take_bit 32 (int n) - 4294967296 * of_bool (bit (int n) 31)"
    using signed_take_bit_eq_take_bit_minus [of 31 "int n"] by simp
  moreover have "take_bit 32 (int n) = int n" using assms by (simp add: take_bit_int_eq_self)
  moreover have "bit (int n) 31"
  proof -
    have "n div 2147483648 = 1" using assms by (intro div_nat_eqI) simp_all
    then have "int n div 2147483648 = 1" by (metis of_nat_1 of_nat_div of_nat_numeral)
    then show ?thesis by (simp add: bit_iff_odd)
  qed
  ultimately show ?thesis using assms by (simp add: as_int_def signed_of_nat)
qed

lemma hash_handles_Undefined:
  "parse_ENUMERATE_HASH_HANDLES_RESPONSE (put32 count @ d) = Undefined \<longleftrightarrow>
      as_int (of_nat (4 * unat count)) \<le> int (length d) \<and> length d < 4 * unat count"
proof -
  have c: "unat count < 2 ^ 32" by (rule unat_less_32)
  then have "unat count < 2 ^ 64" by simp
  then have u: "unat (ucast count :: u64) = unat count" by (simp add: unsigned_ucast_eq take_bit_nat_eq_self)
  have small: "sizeof uint32_t * unat (ucast count :: u64) < 2 ^ 64" using c unfolding u by simp
  have "ucast count = (of_nat (unat count) :: u64)" by simp
  then have "of_nat (sizeof uint32_t) * ucast count = (of_nat (4 * unat count) :: u64)" by simp
  moreover have "parse_ENUMERATE_HASH_HANDLES_RESPONSE (put32 count @ d) = parse_counted uint32_t (ucast count) d"
    by (simp add: parse_ENUMERATE_HASH_HANDLES_RESPONSE_def parseSimpleArray32_def bindP_def parse_simps)
  ultimately show ?thesis
    using parse_counted_Undefined [OF small, of d] c unfolding u by simp
qed

text \<open>The size check of a counted array is made on an \<^verbatim>\<open>int\<close>: the reply to the query for hash handles is read
  past its end exactly when four times its count is more than the bytes that follow, but not so when cut to a
  signed 32-bit number. A correctly framed reply with a count from $2^{29}$ up to $2^{30}$ does so.\<close>

theorem hash_handles_overrun:
  assumes "0x20000000 \<le> count" and "count \<le> 0x3FFFFFFF" and "length d < 0x7FFFFFF0"
  shows "fst (EnumerateHashHandlesCommand (tee1 (amthi_ok 0x0480002C (put32 count @ d)))) = Undefined
    \<and> (parse_ENUMERATE_HASH_HANDLES_RESPONSE (put32 n @ d) = Undefined \<longleftrightarrow>
       as_int (of_nat (4 * unat n)) \<le> int (length d) \<and> length d < 4 * unat n)"
proof -
  have "unat (0x20000000 :: u32) \<le> unat count" "unat count \<le> unat (0x3FFFFFFF :: u32)"
    using assms(1,2) by (simp_all only: word_le_nat_alt)
  then have b: "2147483648 \<le> 4 * unat count" "4 * unat count < 4294967296" by simp_all
  have undef: "parse_ENUMERATE_HASH_HANDLES_RESPONSE (put32 count @ d) = Undefined"
    unfolding hash_handles_Undefined using as_int_negative [OF b] b(1) assms(3) by simp
  have len: "length (AMTHI_Serialize EnumerateHashHandlesRequest) < 2 ^ 32"
    by (simp add: AMTHI_Serialize_def AMTHI_header_def EnumerateHashHandlesRequest_def plain_request_def)
  have "fst (EnumerateHashHandlesCommand (tee1 (amthi_ok 0x0480002C (put32 count @ d)))) =
      generate_response parse_ENUMERATE_HASH_HANDLES_RESPONSE (put32 count @ d)"
    using assms(3) by (simp add: EnumerateHashHandlesCommand_def AMTHICommand_def AMTHI_ok_frame
      Transact_answered [OF tee1_answers [OF len]])
  then show ?thesis using undef hash_handles_Undefined by (simp add: generate_response_def)
qed

lemma hash_handles_overrun_witness:
  "fst (EnumerateHashHandlesCommand (tee1 (amthi_ok 0x0480002C (put32 0x20000000 @ [])))) = Undefined"
  using hash_handles_overrun [of "0x20000000" "[]"] by simp

text \<open>The reply to the query for firmware image versions fills an array of 20 entries. A reply with more modules,
  each of its 88 bytes present, overflows it; fewer bytes than announced are an exception, and otherwise the
  entries are those of the reply, the rest staying zero.\<close>

theorem image_versions_overflow:
  assumes "list_all (\<lambda>m. length (ModuleName m) = 12 \<and> length (fp_Reserved m) = 64) ms" and "length ms < 0x1000000"
  shows "parse_GET_IMAGE_FW_VERSION_RESPONSE (put32 (of_nat (length ms)) @ concat (map enc_PARTITION ms) @ rest) =
     (if length ms > 20 then Undefined
      else Returned (\<lparr>NumOfModules = of_nat (length ms), ManifestData = ms @ replicate (20 - length ms) empty_partition\<rparr>, rest))
    \<and> (length d < 88 * length ms \<longrightarrow>
       parse_GET_IMAGE_FW_VERSION_RESPONSE (put32 (of_nat (length ms)) @ d) = Raised too_small)"
proof -
  have u: "unat (of_nat (length ms) :: u32) = length ms" using assms(2) by (simp add: unat_of_nat)
  have small: "sizeof FLASH_PARTITION_DATA * unat (of_nat (length ms) :: u32) < 2 ^ 31" using assms(2) u by simp
  have len: "length (concat (map enc_PARTITION ms)) = 88 * length ms"
    using partition.length_concat_enc [OF assms(1)] by simp
  show ?thesis
    using parseArray_exact [OF small] u len partition.elements_enc [OF assms(1), of "[]"]
    by (simp add: parse_GET_IMAGE_FW_VERSION_RESPONSE_def bindP_def parse_simps MAXIMUM_IPU_SUPPORTED_def)
qed

lemma image_versions_overflow_witness:
  "parse_GET_IMAGE_FW_VERSION_RESPONSE (put32 (of_nat (length (replicate 21 empty_partition)))
     @ concat (map enc_PARTITION (replicate 21 empty_partition)) @ []) = Undefined"
  using image_versions_overflow [of "replicate 21 empty_partition" "[]"] by (simp add: empty_partition_def list_all_iff)

subsection \<open>Kernel client\<close>

lemma take_bit_small: "unat (w :: u32) < 2 ^ k \<Longrightarrow> take_bit k w = w"
proof -
  assume "unat w < 2 ^ k"
  then have "unat (take_bit k w) = unat w" by (simp add: unsigned_take_bit_eq take_bit_nat_eq_self)
  then show ?thesis by (simp only: word_eq_iff_unsigned [where 'a = nat])
qed

text \<open>C14. The header of a kernel request carries its command and group, and the reply that repeats it with the
  response bit and a result is the answer to it: its data when the result is success, the result as an
  exception otherwise; the request itself, sent back, is refused.\<close>

theorem mkhi_reply_matches_request:
  assumes "command < 128" and "gid < 256" and "res < 256"
  shows "hdr_Command (MKHI_header command gid) = command \<and> hdr_GroupId (MKHI_header command gid) = gid
    \<and> MKHICommandResponse parse command gid (put32 (MKHI_header command gid OR push_bit 15 1 OR push_bit 24 res) @ d) =
        (if res = 0 then generate_response parse d else Raised (MKHIErrorException res))
    \<and> MKHICommandResponse parse command gid (put32 (MKHI_header command gid) @ d) =
        Raised (MEIClientException ''Error: MKHI Command number/Group ID/ is response is incorrect'' 0)"
proof -
  define h where "h = MKHI_header command gid"
  have "unat command < unat (128 :: u32)" "unat gid < unat (256 :: u32)" "unat res < unat (256 :: u32)"
    using assms(1,2,3) by (simp_all only: word_less_nat_alt)
  then have t: "take_bit 7 command = command" "take_bit 8 gid = gid" "take_bit 8 res = res"
    by (simp_all add: take_bit_small)
  have c: "\<not> bit command n" if "7 \<le> n" for n using that t(1) by (metis bit_take_bit_iff not_less)
  have g: "\<not> bit gid n" if "8 \<le> n" for n using that t(2) by (metis bit_take_bit_iff not_less)
  have r: "\<not> bit res n" if "8 \<le> n" for n using that t(3) by (metis bit_take_bit_iff not_less)
  have d: "n < 7 \<and> n < 24" if "bit command n" for n using that c [of n] by (cases "7 \<le> n") simp_all
  have e: "n < 8" if "bit res n" for n using that r [of n] by (cases "8 \<le> n") simp_all
  have "hdr_Command h = command" "hdr_GroupId h = gid" "hdr_IsResponse h = 0"
    unfolding h_def MKHI_header_def hdr_Command_def hdr_GroupId_def hdr_IsResponse_def
    by (auto intro!: bit_word_eqI simp: bit_simps t c g not_less even_drop_bit_iff_not_bit dest: d)
  moreover let ?h = "h OR push_bit 15 1 OR push_bit 24 res"
  have "hdr_Command ?h = command" "hdr_GroupId ?h = gid" "hdr_IsResponse ?h = 1" "hdr_Result ?h = res"
    unfolding h_def MKHI_header_def hdr_Command_def hdr_GroupId_def hdr_IsResponse_def hdr_Result_def
    by (auto intro!: bit_word_eqI simp: bit_simps t c g r not_less even_drop_bit_iff_not_bit dest: d e)
  ultimately show ?thesis
    by (simp add: h_def [symmetric] MKHICommandResponse_def MKHI_verifyHeaderAndStatus_def Let_def)
qed

lemma mkhi_reply_matches_request_witness:
  "MKHICommandResponse parse_GET_EOP_STATE_RESPONSE 0x1D 0xff (put32 (MKHI_header 0x1D 0xff OR push_bit 15 1 OR push_bit 24 0x81)) =
     Raised (MKHIErrorException 0x81)"
  using mkhi_reply_matches_request [of "0x1D" "0xff" "0x81" parse_GET_EOP_STATE_RESPONSE "[]"] by simp

end
