(* ===== verification/Services.thy ===== *)
theory Services
  imports Prelude "HOL-Library.List_Lexorder" "HOL-Library.Char_ord"
begin

text \<open>
  The services of the manager (\<^verbatim>\<open>UNS/GMS_COMMON/servicesNames.h\<close>), the sorted sets of them the configurator
  keeps, and \<^verbatim>\<open>Configurator/LoadedServices\<close>. A name is a constructor; the constructors are ordered as their texts
  are, so that an iteration over a \<^verbatim>\<open>NamesSet\<close> is one over a sorted list.
\<close>

datatype service =
    AMT_ENABLE_LAST_SERVICE
  | COM_EVENT_HANDLER
  | GMS_CONFIGURATOR
  | GMS_DBUSSERVICE
  | EVENT_MANAGER
  | FIRST_SERVICE
  | HISTORY_EVENT_HANDLER
  | GMS_HOSTCHANGESNOTIFICATIONSERVICE
  | GMS_IPREFRESHSERVICE
  | LAST_SERVICE
  | GMS_PARTIALFWUPDATESERVICE
  | GMS_PORTFORWARDINGSERVICE
  | POWER_OPERATIONS_SERVICE
  | GMS_SHAREDSTATICIPSERVICE
  | STATUS_EVENT_HANDLER
  | GMS_TIMESYNCSERVICE
  | WMI_EVENT_HANDLER
  | WAITING_FOR_PFW_LAST_SERVICE
  | GMS_WIFIPROFILESYNCSERVICE
  | WINLOG_EVENT_HANDLER

primrec service_text :: "service \<Rightarrow> string" where
  "service_text AMT_ENABLE_LAST_SERVICE = ''AmtEnableLastService''"
| "service_text COM_EVENT_HANDLER = ''COMEventHandler''"
| "service_text GMS_CONFIGURATOR = ''Configurator''"
| "service_text GMS_DBUSSERVICE = ''DBusService''"
| "service_text EVENT_MANAGER = ''EventManager''"
| "service_text FIRST_SERVICE = ''FirstService''"
| "service_text HISTORY_EVENT_HANDLER = ''HistoryEventHandler''"
| "service_text GMS_HOSTCHANGESNOTIFICATIONSERVICE = ''HostChangesNotificationService''"
| "service_text GMS_IPREFRESHSERVICE = ''IPRefreshService''"
| "service_text LAST_SERVICE = ''LastService''"
| "service_text GMS_PARTIALFWUPDATESERVICE = ''PartialFWUpdateService''"
| "service_text GMS_PORTFORWARDINGSERVICE = ''PortForwardingService''"
| "service_text POWER_OPERATIONS_SERVICE = ''PowerOperationsService''"
| "service_text GMS_SHAREDSTATICIPSERVICE = ''SharedStaticIPService''"
| "service_text STATUS_EVENT_HANDLER = ''StatusEventHandler''"
| "service_text GMS_TIMESYNCSERVICE = ''TimeSyncService''"
| "service_text WMI_EVENT_HANDLER = ''WMIEventHandler''"
| "service_text WAITING_FOR_PFW_LAST_SERVICE = ''WaitingForPfwLastService''"
| "service_text GMS_WIFIPROFILESYNCSERVICE = ''WiFiProfileSyncService''"
| "service_text WINLOG_EVENT_HANDLER = ''WinLogEventHandler''"

definition all_services :: "service list" where
  "all_services = [AMT_ENABLE_LAST_SERVICE, COM_EVENT_HANDLER, GMS_CONFIGURATOR, GMS_DBUSSERVICE, EVENT_MANAGER,
     FIRST_SERVICE, HISTORY_EVENT_HANDLER, GMS_HOSTCHANGESNOTIFICATIONSERVICE, GMS_IPREFRESHSERVICE, LAST_SERVICE,
     GMS_PARTIALFWUPDATESERVICE, GMS_PORTFORWARDINGSERVICE, POWER_OPERATIONS_SERVICE, GMS_SHAREDSTATICIPSERVICE,
     STATUS_EVENT_HANDLER, GMS_TIMESYNCSERVICE, WMI_EVENT_HANDLER, WAITING_FOR_PFW_LAST_SERVICE,
     GMS_WIFIPROFILESYNCSERVICE, WINLOG_EVENT_HANDLER]"

primrec service_rank :: "service \<Rightarrow> nat" where
  "service_rank AMT_ENABLE_LAST_SERVICE = 0"
| "service_rank COM_EVENT_HANDLER = 1"
| "service_rank GMS_CONFIGURATOR = 2"
| "service_rank GMS_DBUSSERVICE = 3"
| "service_rank EVENT_MANAGER = 4"
| "service_rank FIRST_SERVICE = 5"
| "service_rank HISTORY_EVENT_HANDLER = 6"
| "service_rank GMS_HOSTCHANGESNOTIFICATIONSERVICE = 7"
| "service_rank GMS_IPREFRESHSERVICE = 8"
| "service_rank LAST_SERVICE = 9"
| "service_rank GMS_PARTIALFWUPDATESERVICE = 10"
| "service_rank GMS_PORTFORWARDINGSERVICE = 11"
| "service_rank POWER_OPERATIONS_SERVICE = 12"
| "service_rank GMS_SHAREDSTATICIPSERVICE = 13"
| "service_rank STATUS_EVENT_HANDLER = 14"
| "service_rank GMS_TIMESYNCSERVICE = 15"
| "service_rank WMI_EVENT_HANDLER = 16"
| "service_rank WAITING_FOR_PFW_LAST_SERVICE = 17"
| "service_rank GMS_WIFIPROFILESYNCSERVICE = 18"
| "service_rank WINLOG_EVENT_HANDLER = 19"

lemma service_rank_inj: "service_rank s = service_rank t \<Longrightarrow> s = t"
  by (cases s; cases t) simp_all

instantiation service :: linorder
begin

definition "s \<le> t \<longleftrightarrow> service_rank s \<le> service_rank t"

definition "s < t \<longleftrightarrow> service_rank s < service_rank t"

instance
  by standard (auto simp: less_eq_service_def less_service_def dest: service_rank_inj)

end

lemma all_services_all: "s \<in> set all_services"
  by (cases s) (simp_all add: all_services_def)

text \<open>The order of the constructors is the order of the texts.\<close>

lemma texts_sorted: "sorted_wrt (<) (map service_text all_services)" "sorted_wrt (<) all_services"
proof -
  have "successively (<) (map service_text all_services)" "successively (<) all_services"
    by (simp_all add: all_services_def less_char_def less_service_def)
  then show "sorted_wrt (<) (map service_text all_services)" "sorted_wrt (<) all_services"
    by (simp_all add: successively_conv_sorted_wrt)
qed

lemma service_less_text: "s < t \<longleftrightarrow> service_text s < service_text t"
proof -
  obtain i where i: "i < length all_services" "s = all_services ! i" by (metis all_services_all in_set_conv_nth)
  obtain j where j: "j < length all_services" "t = all_services ! j" by (metis all_services_all in_set_conv_nth)
  have mono: "all_services ! a < all_services ! b \<and> service_text (all_services ! a) < service_text (all_services ! b)"
    if "a < b" "b < length all_services" for a b
    using sorted_wrt_nth_less [OF texts_sorted(1), of a b] sorted_wrt_nth_less [OF texts_sorted(2), of a b] that by simp
  consider "i < j" | "i = j" | "j < i" by linarith
  then show ?thesis
  proof cases
    case 1
    with mono [of i j] i j show ?thesis by simp
  next
    case 3
    with mono [of j i] i j have "t < s" "service_text t < service_text s" by simp_all
    then show ?thesis by (metis less_asym)
  qed (use i j in simp)
qed

subsection \<open>Sets of names\<close>

type_synonym names = "service list"

definition names_insert :: "service \<Rightarrow> names \<Rightarrow> names" where
  "names_insert s xs = (if s \<in> set xs then xs else insort s xs)"

definition names_erase :: "service \<Rightarrow> names \<Rightarrow> names" where
  "names_erase s xs = filter (\<lambda>x. x \<noteq> s) xs"

lemma set_names_insert [simp]: "set (names_insert s xs) = insert s (set xs)"
  by (auto simp: names_insert_def set_insort_key)

lemma set_names_erase [simp]: "set (names_erase s xs) = set xs - {s}"
  by (auto simp: names_erase_def)

lemma sorted_names_insert: "sorted xs \<Longrightarrow> distinct xs \<Longrightarrow> sorted (names_insert s xs) \<and> distinct (names_insert s xs)"
  by (simp add: names_insert_def sorted_insort distinct_insort)

lemma sorted_names_erase: "sorted xs \<Longrightarrow> distinct xs \<Longrightarrow> sorted (names_erase s xs) \<and> distinct (names_erase s xs)"
  by (simp add: names_erase_def sorted_wrt_filter)

subsection \<open>Loaded services\<close>

record loaded_services =
  m_loadedServices :: names
  m_activeServices :: names
  m_lockedServices :: names
  m_servicesToLoad :: names
  m_servicesToWaitForPfw :: names

definition LoadedServices :: loaded_services where
  "LoadedServices = \<lparr>m_loadedServices = [], m_activeServices = [], m_lockedServices = [], m_servicesToLoad = [],
     m_servicesToWaitForPfw = []\<rparr>"

definition LockService :: "service \<Rightarrow> loaded_services \<Rightarrow> loaded_services" where
  "LockService s x = x\<lparr>m_lockedServices := names_insert s (m_lockedServices x)\<rparr>"

definition UnlockService :: "service \<Rightarrow> loaded_services \<Rightarrow> loaded_services" where
  "UnlockService s x = x\<lparr>m_lockedServices := names_erase s (m_lockedServices x)\<rparr>"

definition RemoveService :: "service \<Rightarrow> loaded_services \<Rightarrow> loaded_services" where
  "RemoveService s x = UnlockService s
     (x\<lparr>m_loadedServices := names_erase s (m_loadedServices x), m_activeServices := names_erase s (m_activeServices x)\<rparr>)"

definition AddService :: "service \<Rightarrow> bool \<Rightarrow> loaded_services \<Rightarrow> loaded_services" where
  "AddService s isActive x = UnlockService s
     (x\<lparr>m_loadedServices := names_insert s (m_loadedServices x),
        m_activeServices := (if isActive then names_insert s (m_activeServices x) else m_activeServices x)\<rparr>)"

definition SetActive :: "service \<Rightarrow> bool \<Rightarrow> loaded_services \<Rightarrow> loaded_services" where
  "SetActive s isActive x = UnlockService s
     (if isActive then
        (if s \<in> set (m_loadedServices x) then x\<lparr>m_activeServices := names_insert s (m_activeServices x)\<rparr> else x)
      else x\<lparr>m_activeServices := names_erase s (m_activeServices x)\<rparr>)"

definition SetServicesToLoad :: "names \<Rightarrow> loaded_services \<Rightarrow> loaded_services" where
  "SetServicesToLoad ss x = x\<lparr>m_servicesToLoad := fold names_insert ss []\<rparr>"

definition AddServiceToLoad :: "service \<Rightarrow> loaded_services \<Rightarrow> loaded_services" where
  "AddServiceToLoad s x = x\<lparr>m_servicesToLoad := names_insert s (m_servicesToLoad x)\<rparr>"

definition RemoveServiceToLoad :: "service \<Rightarrow> loaded_services \<Rightarrow> loaded_services" where
  "RemoveServiceToLoad s x = x\<lparr>m_servicesToLoad := names_erase s (m_servicesToLoad x)\<rparr>"

definition ClearServicesToLoad :: "loaded_services \<Rightarrow> loaded_services" where
  "ClearServicesToLoad x = x\<lparr>m_servicesToLoad := []\<rparr>"

definition AddServiceToWaitForPfw :: "service \<Rightarrow> loaded_services \<Rightarrow> loaded_services" where
  "AddServiceToWaitForPfw s x = x\<lparr>m_servicesToWaitForPfw := names_insert s (m_servicesToWaitForPfw x)\<rparr>"

definition ClearServicesToWaitForPfw :: "loaded_services \<Rightarrow> loaded_services" where
  "ClearServicesToWaitForPfw x = x\<lparr>m_servicesToWaitForPfw := []\<rparr>"

definition IsActive :: "service \<Rightarrow> loaded_services \<Rightarrow> bool" where
  "IsActive s x \<longleftrightarrow> s \<in> set (m_activeServices x)"

definition IsLoaded :: "service \<Rightarrow> loaded_services \<Rightarrow> bool" where
  "IsLoaded s x \<longleftrightarrow> s \<in> set (m_loadedServices x)"

definition IsLocked :: "service \<Rightarrow> loaded_services \<Rightarrow> bool" where
  "IsLocked s x \<longleftrightarrow> s \<in> set (m_lockedServices x)"

definition ToBeLoaded :: "service \<Rightarrow> loaded_services \<Rightarrow> bool" where
  "ToBeLoaded s x \<longleftrightarrow> s \<in> set (m_servicesToLoad x)"

text \<open>The groups of \<^verbatim>\<open>ServiceNamesList::Read\<close>, in a build for Linux without \<^verbatim>\<open>DEBUG\<close>.\<close>

datatype names_group = EVENT_HANDLERS_GROUP | SKU_5_GROUP | SKU_1_5_GROUP | MANAGABILITY_GROUP | SKU_5_NO_LME_GROUP
  | DUMMY_SERVICES

definition event_handlers :: names where
  "event_handlers = [WINLOG_EVENT_HANDLER, GMS_DBUSSERVICE, HISTORY_EVENT_HANDLER, STATUS_EVENT_HANDLER]"

definition Read_group :: "names_group \<Rightarrow> names" where
  "Read_group g = (case g of
     EVENT_HANDLERS_GROUP \<Rightarrow> event_handlers
   | SKU_1_5_GROUP \<Rightarrow> [GMS_DBUSSERVICE]
   | SKU_5_GROUP \<Rightarrow> event_handlers @ [GMS_PORTFORWARDINGSERVICE, GMS_HOSTCHANGESNOTIFICATIONSERVICE]
   | MANAGABILITY_GROUP \<Rightarrow> [GMS_SHAREDSTATICIPSERVICE, POWER_OPERATIONS_SERVICE, GMS_TIMESYNCSERVICE]
   | SKU_5_NO_LME_GROUP \<Rightarrow> event_handlers
   | DUMMY_SERVICES \<Rightarrow> [FIRST_SERVICE, LAST_SERVICE])"

datatype status_type = STATUS_UNLOADCOMPLETE | STATUS_LOADCOMPLETE | STATUS_SUSPENDCOMPLETE | STATUS_RESUMECOMPLETE
  | SERVICE_STATUS_UNKNOWN

end
