(* ===== verification/Service_Task.thy ===== *)
theory Service_Task
  imports Protocol_Machine Services
begin

text \<open>
  The task that runs the protocol (\<^verbatim>\<open>UNS/PortForwardingService/PortForwardingService.cpp\<close>): the loop of
  \<^verbatim>\<open>LMS_Thread_Impl::svc\<close> with its retries, and the handlers of the service around it. The state is that of the
  two objects; \<open>posts\<close> records the messages to the configurator and the entries of the event log. One turn of
  the loop takes what the driver, the sockets and the other threads do in it from a record \<open>turn\<close>.
\<close>

datatype post =
    Port_forwarding_started
  | Port_forwarding_stopped bool
  | Service_status status_type
  | Warning_log string
  | Debug_log string

record pfw_service =
  m_prot :: protocol
  m_suspended :: bool
  m_unregisterDeviceEvents :: bool
  m_needBroadcastStarted :: bool
  m_needBroadcastResumed :: bool
  m_needBroadcastPfwActivated :: bool
  posts :: "post list"

definition PortForwardingService :: "nat \<Rightarrow> pfw_service" where
  "PortForwardingService bufsize = \<lparr>m_prot = Protocol bufsize, m_suspended = False, m_unregisterDeviceEvents = False,
     m_needBroadcastStarted = True, m_needBroadcastResumed = False, m_needBroadcastPfwActivated = False, posts = []\<rparr>"

definition post :: "post \<Rightarrow> pfw_service \<Rightarrow> pfw_service" where
  "post x s = s\<lparr>posts := posts s @ [x]\<rparr>"

definition AddWarningToMessageLog :: "string \<Rightarrow> pfw_service \<Rightarrow> pfw_service" where
  "AddWarningToMessageLog msg = post (Warning_log msg)"

definition AddDebugToMessageLog :: "string \<Rightarrow> pfw_service \<Rightarrow> pfw_service" where
  "AddDebugToMessageLog msg = post (Debug_log msg)"

text \<open>The guard names \<^verbatim>\<open>m_needBroadcastStarted\<close> twice.\<close>

definition BroadcastActive :: "pfw_service \<Rightarrow> pfw_service" where
  "BroadcastActive s =
     (if \<not> m_needBroadcastStarted s \<and> \<not> m_needBroadcastStarted s \<and> \<not> m_needBroadcastPfwActivated s then s
      else post Port_forwarding_started
        (s\<lparr>m_needBroadcastStarted := False, m_needBroadcastResumed := False, m_needBroadcastPfwActivated := False\<rparr>))"

definition BroadcastFailure :: "bool \<Rightarrow> pfw_service \<Rightarrow> pfw_service" where
  "BroadcastFailure publishFailure s =
     (if m_needBroadcastPfwActivated s then s
      else post (Port_forwarding_stopped publishFailure) (s\<lparr>m_needBroadcastPfwActivated := True\<rparr>))"

definition task_Deinit :: "pfw_service \<Rightarrow> pfw_service option" where
  "task_Deinit s = do { p \<leftarrow> prot_Deinit (m_prot s); Some (s\<lparr>m_prot := p\<rparr>) }"

subsection \<open>The handlers\<close>

definition OnHeciDisable :: "pfw_service \<Rightarrow> pfw_service option" where
  "OnHeciDisable s = task_Deinit (BroadcastFailure False (s\<lparr>m_suspended := True\<rparr>))"

definition OnHeciEnable :: "pfw_service \<Rightarrow> pfw_service" where
  "OnHeciEnable s = s\<lparr>m_suspended := False\<rparr>"

definition sendStatusChanged :: "status_type \<Rightarrow> pfw_service \<Rightarrow> pfw_service" where
  "sendStatusChanged st = post (Service_status st)"

definition pfw_init :: "pfw_service \<Rightarrow> pfw_service" where
  "pfw_init s = sendStatusChanged STATUS_LOADCOMPLETE s"

definition pfw_suspend :: "pfw_service \<Rightarrow> pfw_service option" where
  "pfw_suspend s = do { s \<leftarrow> OnHeciDisable s; Some (s\<lparr>m_needBroadcastResumed := True\<rparr>) }"

definition pfw_resume :: "pfw_service \<Rightarrow> pfw_service" where
  "pfw_resume s = sendStatusChanged STATUS_RESUMECOMPLETE (OnHeciEnable s)"

text \<open>\<^verbatim>\<open>OnStop\<close> up to its wait for the thread, and behind it.\<close>

definition OnStop_request :: "pfw_service \<Rightarrow> pfw_service" where
  "OnStop_request s = s\<lparr>m_unregisterDeviceEvents := True, m_prot := SignalSelect (m_prot s)\<rparr>"

definition OnStop_done :: "pfw_service \<Rightarrow> pfw_service" where
  "OnStop_done s = sendStatusChanged STATUS_UNLOADCOMPLETE s"

text \<open>What the other threads do: the handlers above, the messages of the service's queue, and the receive
  thread of the connection.\<close>

datatype other_op =
    Op_suspend
  | Op_resume
  | Op_CloseHeciHandle
  | Op_NotifyHeciEnable
  | MB_SUSPEND_SERVICE
  | MB_MEI_DISABLE_FAILED
  | MB_unknown
  | Op_stop_request
  | Engine_message os fit lme_message
  | Connection_lost

definition other_step :: "other_op \<Rightarrow> pfw_service \<Rightarrow> pfw_service option" where
  "other_step a s = (case a of
     Op_suspend \<Rightarrow> pfw_suspend s
   | Op_resume \<Rightarrow> Some (pfw_resume s)
   | Op_CloseHeciHandle \<Rightarrow> OnHeciDisable s
   | Op_NotifyHeciEnable \<Rightarrow> Some (OnHeciEnable s)
   | MB_SUSPEND_SERVICE \<Rightarrow> Some (sendStatusChanged STATUS_SUSPENDCOMPLETE s)
   | MB_MEI_DISABLE_FAILED \<Rightarrow> Some (OnHeciEnable s)
   | MB_unknown \<Rightarrow> Some s
   | Op_stop_request \<Rightarrow> Some (OnStop_request s)
   | Engine_message w len msg \<Rightarrow> do { (_, p) \<leftarrow> LmeReceive w len msg (m_prot s); Some (s\<lparr>m_prot := p\<rparr>) }
   | Connection_lost \<Rightarrow> Some (s\<lparr>m_prot := SignalSelect ((m_prot s)\<lparr>lme := fst (lme_Deinit True (lme (m_prot s)))\<rparr>)\<rparr>))"

definition others :: "other_op list \<Rightarrow> pfw_service \<Rightarrow> pfw_service option" where
  "others = foldM other_step"

subsection \<open>The loop\<close>

definition MAX_CONNECT_RETRIES :: nat where "MAX_CONNECT_RETRIES = 35"

record svc_locals =
  connected_once :: bool
  warningMessageWasShown :: bool
  alreadyFailed :: bool
  secondTryConnectionLost :: bool
  secondTryConnectionFailed :: bool
  counter :: nat
  publishFailure :: bool

definition svc_locals0 :: svc_locals where
  "svc_locals0 = \<lparr>connected_once = False, warningMessageWasShown = False, alreadyFailed = False,
     secondTryConnectionLost = False, secondTryConnectionFailed = False, counter = 1, publishFailure = False\<rparr>"

text \<open>One turn: whether the thread is cancelled, the arguments of \<^verbatim>\<open>Init\<close>, of \<^verbatim>\<open>CreateSockets\<close> and of \<^verbatim>\<open>Select\<close>,
  and what the other threads do during the three waits.\<close>

record turn =
  cancelled :: bool
  t_os :: os
  t_heci :: heci_init
  t_junk :: "nat \<Rightarrow> u8"
  t_spawned :: bool
  t_started :: bool
  t_messages :: "(os \<times> fit \<times> lme_message) list"
  t_port :: bool
  t_adapters :: bool
  retry_wait :: "other_op list"
  settle_wait :: "other_op list"
  t_pipe :: bool
  t_localDNS :: SuffixMap
  t_answer :: select_answer
  select_wait :: "other_op list"

definition task_Init :: "turn \<Rightarrow> pfw_service \<Rightarrow> (bool \<times> pfw_service) option" where
  "task_Init t s = (if m_suspended s then Some (False, s)
     else do {
       (ok, p) \<leftarrow> prot_Init (t_os t) (t_heci t) (t_junk t) (t_spawned t) (t_started t) (receive_all (t_messages t))
         (t_port t) (t_adapters t) (m_prot s);
       Some (ok, s\<lparr>m_prot := p\<rparr>) })"

text \<open>The connection was there and is gone.\<close>

definition connection_gone :: "svc_locals \<Rightarrow> pfw_service \<Rightarrow> svc_locals \<times> pfw_service" where
  "connection_gone l s =
     (if \<not> connected_once l then (l, s)
      else if \<not> m_suspended s \<and> \<not> warningMessageWasShown l \<and> \<not> selfDisconnect (lme (m_prot s))
      then (l\<lparr>secondTryConnectionLost := True, connected_once := False\<rparr>, BroadcastFailure False s)
      else (l\<lparr>connected_once := False\<rparr>, s))"

text \<open>What an attempt that failed logs: a warning at the second failure.\<close>

definition attempt_failed :: "svc_locals \<Rightarrow> pfw_service \<Rightarrow> svc_locals \<times> pfw_service" where
  "attempt_failed l s =
     (if \<not> warningMessageWasShown l \<and> \<not> selfDisconnect (lme (m_prot s)) \<and> \<not> m_suspended s
         \<and> \<not> prot_clientNotFound (m_prot s) then
        (if secondTryConnectionFailed l then
           (l\<lparr>warningMessageWasShown := True\<rparr>,
            AddWarningToMessageLog (if secondTryConnectionLost l then ''LMS lost connection to Intel(R) MEI driver''
              else ''LMS cannot connect to Intel(R) MEI driver'') s)
         else (l\<lparr>secondTryConnectionFailed := True\<rparr>, s))
      else (l, s))"

definition connected_again :: "svc_locals \<Rightarrow> pfw_service \<Rightarrow> svc_locals \<times> pfw_service" where
  "connected_again l s =
     (if warningMessageWasShown l
      then (l\<lparr>secondTryConnectionLost := False, secondTryConnectionFailed := False, warningMessageWasShown := False\<rparr>,
        AddDebugToMessageLog ''Port Forwarding Service connected to Intel(R) MEI driver'' s)
      else (l, s))"

text \<open>The second half of a turn, from the sockets on. The flag of the result tells whether the loop goes on.\<close>

definition serve :: "turn \<Rightarrow> svc_locals \<Rightarrow> pfw_service \<Rightarrow> (bool \<times> svc_locals \<times> pfw_service) option" where
  "serve t l s =
     (let (ok, p) = (if sockets_active (m_prot s) then (True, m_prot s) else CreateSockets (t_pipe t) (m_prot s));
          s = s\<lparr>m_prot := p\<rparr>
      in if \<not> ok then
           Some (True, if alreadyFailed l then (l, s)
             else (l\<lparr>alreadyFailed := True\<rparr>, AddWarningToMessageLog ''Cannot create a network connection'' s))
         else do {
           let s = BroadcastActive s;
           s' \<leftarrow> others (select_wait t) s;
           (res, p) \<leftarrow> Select (heci (t_os t)) (t_localDNS t) (t_answer t) (\<lambda>_. m_prot s') (m_prot s);
           let s = s'\<lparr>m_prot := p\<rparr>;
           s \<leftarrow> (if res < 0 then task_Deinit (BroadcastFailure False s) else Some s);
           Some (True, l, s) })"

definition svc_turn :: "turn \<Rightarrow> svc_locals \<times> pfw_service \<Rightarrow> (bool \<times> svc_locals \<times> pfw_service) option" where
  "svc_turn t st = (case st of (l, s) \<Rightarrow>
     if cancelled t then Some (False, l, s)
     else if IsInitialized (lme (m_prot s)) then serve t l s
     else let (l, s) = connection_gone l s in do {
       (ok, s) \<leftarrow> task_Init t s;
       if \<not> ok then do {
         let (l, s) = attempt_failed l s;
         s \<leftarrow> others (retry_wait t) s;
         Some (if m_suspended s then (True, l, s)
           else if counter l \<ge> MAX_CONNECT_RETRIES then (False, l\<lparr>publishFailure := True\<rparr>, s)
           else (True, l\<lparr>counter := counter l + 1\<rparr>, s)) }
       else do {
         let l = l\<lparr>connected_once := True, counter := 1\<rparr>;
         s \<leftarrow> others (settle_wait t) s;
         if \<not> IsInitialized (lme (m_prot s)) then Some (True, l, s)
         else let (l, s) = connected_again l s in serve t l s } })"

text \<open>The end of the thread, and the thread over the turns it is given: the flag tells whether it still runs.\<close>

definition svc_end :: "svc_locals \<times> pfw_service \<Rightarrow> pfw_service option" where
  "svc_end st = (case st of (l, s) \<Rightarrow> task_Deinit (BroadcastFailure (publishFailure l) s))"

primrec svc_turns :: "turn list \<Rightarrow> svc_locals \<times> pfw_service \<Rightarrow> (bool \<times> svc_locals \<times> pfw_service) option" where
  "svc_turns [] st = Some (True, st)"
| "svc_turns (t # ts) st = do {
     (go, st) \<leftarrow> svc_turn t st;
     if go then svc_turns ts st else Some (False, st) }"

definition svc :: "turn list \<Rightarrow> pfw_service \<Rightarrow> (bool \<times> pfw_service) option" where
  "svc ts s = do {
     (go, l, s) \<leftarrow> svc_turns ts (svc_locals0, s);
     if go then Some (True, s) else do { s \<leftarrow> svc_end (l, s); Some (False, s) } }"

end
