(* ===== verification/Service_Correct.thy ===== *)
theory Service_Correct
  imports Service_Task
begin

text \<open>
  Lemmas on the task that runs the protocol: the announcements it makes to the configurator, which the three
  flags summarise, and a turn in which the driver cannot be reached.
\<close>

subsection \<open>Announcements\<close>

fun announcement :: "post \<Rightarrow> bool option" where
  "announcement Port_forwarding_started = Some True"
| "announcement (Port_forwarding_stopped b) = Some False"
| "announcement _ = None"

definition announcements :: "post list \<Rightarrow> bool list" where
  "announcements ps = List.map_filter announcement ps"

lemma announcements_simps [simp]:
  "announcements [] = []"
  "announcements (ps @ qs) = announcements ps @ announcements qs"
  "announcements [Port_forwarding_started] = [True]" "announcements [Port_forwarding_stopped b] = [False]"
  "announcements [Service_status st] = []" "announcements [Warning_log m] = []" "announcements [Debug_log m] = []"
  by (auto simp: announcements_def List.map_filter_def)

text \<open>What the flags say of the announcements made: none yet, the last was a start, the last was a stop.\<close>

definition flags_agree :: "pfw_service \<Rightarrow> bool" where
  "flags_agree s \<longleftrightarrow> (let as = announcements (posts s) in distinct_adj as \<and>
     (if as = [] then m_needBroadcastStarted s \<and> \<not> m_needBroadcastPfwActivated s
      else if last as then \<not> m_needBroadcastStarted s \<and> \<not> m_needBroadcastPfwActivated s
      else m_needBroadcastPfwActivated s))"

named_theorems flags_simps \<open>operations that announce nothing, and those that do\<close>

lemma flags_frame:
  "announcements (posts s') = announcements (posts s) \<Longrightarrow> m_needBroadcastStarted s' = m_needBroadcastStarted s \<Longrightarrow>
   m_needBroadcastPfwActivated s' = m_needBroadcastPfwActivated s \<Longrightarrow> flags_agree s' = flags_agree s"
  by (simp add: flags_agree_def)

lemma flags_logs [flags_simps]:
  "flags_agree (AddWarningToMessageLog m s) = flags_agree s" "flags_agree (AddDebugToMessageLog m s) = flags_agree s"
  "flags_agree (sendStatusChanged st s) = flags_agree s" "flags_agree (OnHeciEnable s) = flags_agree s"
  "flags_agree (OnStop_request s) = flags_agree s" "flags_agree (s\<lparr>m_prot := p\<rparr>) = flags_agree s"
  "flags_agree (s\<lparr>m_suspended := b\<rparr>) = flags_agree s" "flags_agree (s\<lparr>m_needBroadcastResumed := b\<rparr>) = flags_agree s"
  by (rule flags_frame; simp add: AddWarningToMessageLog_def AddDebugToMessageLog_def sendStatusChanged_def post_def
    OnHeciEnable_def OnStop_request_def)+

lemma flags_active [flags_simps]: "flags_agree s \<Longrightarrow> flags_agree (BroadcastActive s)"
  by (auto simp: flags_agree_def BroadcastActive_def post_def Let_def distinct_adj_append_iff split: if_splits)

lemma flags_failure [flags_simps]: "flags_agree s \<Longrightarrow> flags_agree (BroadcastFailure b s)"
  by (auto simp: flags_agree_def BroadcastFailure_def post_def Let_def distinct_adj_append_iff split: if_splits)

lemma flags_task_Deinit: "task_Deinit s = Some s' \<Longrightarrow> flags_agree s' = flags_agree s"
  by (auto simp: task_Deinit_def bind_eq_Some_conv flags_simps)

lemma flags_OnHeciDisable: "OnHeciDisable s = Some s' \<Longrightarrow> flags_agree s \<Longrightarrow> flags_agree s'"
  by (auto simp: OnHeciDisable_def flags_simps dest!: flags_task_Deinit)

lemma flags_other: "other_step a s = Some s' \<Longrightarrow> flags_agree s \<Longrightarrow> flags_agree s'"
  by (auto simp: other_step_def flags_simps pfw_suspend_def pfw_resume_def bind_eq_Some_conv
    dest: flags_OnHeciDisable split: other_op.splits)

lemma flags_others: "others as s = Some s' \<Longrightarrow> flags_agree s \<Longrightarrow> flags_agree s'"
  unfolding others_def by (erule foldM_keep [where I = flags_agree], assumption, rule flags_other)

lemma flags_Init: "task_Init t s = Some (ok, s') \<Longrightarrow> flags_agree s' = flags_agree s"
  by (auto simp: task_Init_def bind_eq_Some_conv flags_simps split: if_splits prod.splits)

lemma flags_gone: "connection_gone l s = (l', s') \<Longrightarrow> flags_agree s \<Longrightarrow> flags_agree s'"
  by (auto simp: connection_gone_def flags_simps split: if_splits)

lemma flags_attempt: "attempt_failed l s = (l', s') \<Longrightarrow> flags_agree s' = flags_agree s"
  by (auto simp: attempt_failed_def flags_simps split: if_splits)

lemma flags_again: "connected_again l s = (l', s') \<Longrightarrow> flags_agree s' = flags_agree s"
  by (auto simp: connected_again_def flags_simps split: if_splits)

lemma flags_serve: "serve t l s = Some (go, l', s') \<Longrightarrow> flags_agree s \<Longrightarrow> flags_agree s'"
  by (auto simp: serve_def Let_def bind_eq_Some_conv flags_simps dest!: flags_others flags_task_Deinit
    split: if_splits prod.splits)

lemma flags_turn:
  assumes t: "svc_turn t (l, s) = Some (go, l', s')" and ok: "flags_agree s"
  shows "flags_agree s'"
proof (cases "cancelled t \<or> IsInitialized (lme (m_prot s))")
  case True
  with t ok show ?thesis by (auto simp: svc_turn_def dest: flags_serve split: if_splits)
next
  case False
  obtain l1 s1 where 1: "connection_gone l s = (l1, s1)" by fastforce
  from t False 1 obtain up s2 where 2: "task_Init t s1 = Some (up, s2)"
    by (auto simp: svc_turn_def bind_eq_Some_conv)
  have ok2: "flags_agree s2" using flags_Init [OF 2] flags_gone [OF 1 ok] by simp
  show ?thesis
  proof (cases up)
    case True
    from t False 1 2 True obtain s3 where 3: "others (settle_wait t) s2 = Some s3"
      by (auto simp: svc_turn_def bind_eq_Some_conv Let_def)
    obtain l4 s4 where 4: "connected_again (l1\<lparr>connected_once := True, counter := 1\<rparr>) s3 = (l4, s4)" by fastforce
    have "flags_agree s3" "flags_agree s4" using flags_others [OF 3 ok2] flags_again [OF 4] by simp_all
    with t False 1 2 True 3 4 show ?thesis by (auto simp: svc_turn_def Let_def dest: flags_serve split: if_splits)
  next
    case failed: False
    obtain l3 s3 where 3: "attempt_failed l1 s2 = (l3, s3)" by fastforce
    have "flags_agree s3" using flags_attempt [OF 3] ok2 by simp
    with t False 1 2 failed 3 show ?thesis
      by (auto simp: svc_turn_def bind_eq_Some_conv dest: flags_others split: if_splits)
  qed
qed

text \<open>The task under the turns of its loop and the steps of the other threads between them.\<close>

inductive task_reachable :: "nat \<Rightarrow> svc_locals \<times> pfw_service \<Rightarrow> bool" for n where
  start: "task_reachable n (svc_locals0, PortForwardingService n)"
| turns: "task_reachable n st \<Longrightarrow> svc_turn t st = Some (go, st') \<Longrightarrow> task_reachable n st'"
| other: "task_reachable n (l, s) \<Longrightarrow> other_step a s = Some s' \<Longrightarrow> task_reachable n (l, s')"

lemma flags_start: "flags_agree (PortForwardingService n)"
  by (simp add: flags_agree_def PortForwardingService_def)

lemma flags_reachable: "task_reachable n st \<Longrightarrow> flags_agree (snd st)"
proof (induction rule: task_reachable.induct)
  case (turns st t go st')
  then show ?case by (cases st; cases st') (auto dest: flags_turn)
qed (auto simp: flags_start dest: flags_other)

lemma flags_end: "svc_end st = Some s \<Longrightarrow> flags_agree (snd st) \<Longrightarrow> flags_agree s"
  by (cases st) (auto simp: svc_end_def flags_simps dest: flags_task_Deinit)

subsection \<open>A driver that cannot be reached\<close>

definition unreachable :: "turn \<Rightarrow> bool" where
  "unreachable t \<longleftrightarrow> \<not> cancelled t \<and> t_heci t \<noteq> Heci_ok \<and> retry_wait t = []"

definition disconnected :: "pfw_service \<Rightarrow> bool" where
  "disconnected s \<longleftrightarrow> prot_ok (m_prot s) \<and> link (lme (m_prot s)) \<and> \<not> m_suspended s \<and>
     initState (lme (m_prot s)) = INIT_STATE_DISCONNECTED"

lemma disconnected_frame:
  "m_prot s' = m_prot s \<Longrightarrow> m_suspended s' = m_suspended s \<Longrightarrow> disconnected s' = disconnected s"
  by (simp add: disconnected_def)

lemma Deinit_disconnects:
  assumes "prot_ok p" "link (lme p)"
  obtains p' where "prot_Deinit p = Some p'" "prot_ok p'" "link (lme p')" "initState (lme p') = INIT_STATE_DISCONNECTED"
proof -
  obtain p' where p': "prot_Deinit p = Some p'" "prot_ok p'"
    using keeps_Deinit [OF assms(1)] by (auto simp: keeps_def split: option.splits)
  moreover have "initState (lme p') = INIT_STATE_DISCONNECTED"
    using p'(1) deinit_ports_eq [OF keeps_deinit_sections(1) [OF assms]] keeps_deinit_sections(4) [OF assms]
    by (auto simp: prot_Deinit_def bind_eq_Some_conv deinit_rest_def)
  ultimately show ?thesis using that link_Deinit_prot [OF p'(1) assms(2)] by blast
qed

lemma failing_Init:
  assumes t: "unreachable t" and s: "disconnected s"
  obtains s' where "task_Init t s = Some (False, s')" "disconnected s'" "s' = s\<lparr>m_prot := m_prot s'\<rparr>"
    "\<not> selfDisconnect (lme (m_prot s'))" "prot_clientNotFound (m_prot s') \<longleftrightarrow> t_heci t = Heci_no_client"
proof -
  obtain p where p: "prot_Deinit (m_prot s) = Some p" "prot_ok p" "link (lme p)"
    "initState (lme p) = INIT_STATE_DISCONNECTED"
    using Deinit_disconnects [of "m_prot s"] s by (auto simp: disconnected_def)
  obtain c where c: "lme_Init (t_heci t) (t_junk t) (t_spawned t) (t_started t) True (lme p) = (False, c)"
    "initState c = INIT_STATE_DISCONNECTED" "\<not> selfDisconnect c" "clientNotFound c \<longleftrightarrow> t_heci t = Heci_no_client"
    using t p(4) by (cases "t_heci t") (auto simp: unreachable_def lme_Init_def Let_def)
  have "link c" using link_Init [OF p(3), of "t_heci t" "t_junk t" "t_spawned t" "t_started t" True] c(1) by simp
  let ?p = "p\<lparr>lme := c, prot_clientNotFound := clientNotFound c\<rparr>"
  have "task_Init t s = Some (False, s\<lparr>m_prot := ?p\<rparr>)"
    using s p c by (simp add: task_Init_def disconnected_def prot_Init_def)
  moreover have "disconnected (s\<lparr>m_prot := ?p\<rparr>)"
    using s p c \<open>link c\<close> by (simp add: disconnected_def prot_ok_def store_frame)
  ultimately show ?thesis using that [of "s\<lparr>m_prot := ?p\<rparr>"] c by simp
qed

text \<open>A connection is found lost, and not by the service's own disconnect.\<close>

definition lost :: "svc_locals \<Rightarrow> pfw_service \<Rightarrow> bool" where
  "lost l s \<longleftrightarrow> connected_once l \<and> \<not> warningMessageWasShown l \<and> \<not> selfDisconnect (lme (m_prot s))"

text \<open>One such turn: the counter is raised, and at the bound the loop is left. The only announcement is the one
  of a connection that was there.\<close>

lemma failing_turn:
  assumes t: "unreachable t" and s: "disconnected s"
  obtains l' s' where
    "svc_turn t (l, s) = Some (counter l < MAX_CONNECT_RETRIES,
       if counter l < MAX_CONNECT_RETRIES then l'\<lparr>counter := counter l + 1\<rparr> else l'\<lparr>publishFailure := True\<rparr>, s')"
    "disconnected s'" "\<not> connected_once l'"
    "m_needBroadcastPfwActivated s' \<longleftrightarrow> m_needBroadcastPfwActivated s \<or> lost l s"
    "\<exists>ps. posts s' = posts s @ ps \<and> Port_forwarding_stopped True \<notin> set ps"
proof -
  obtain l1 s1 where 1: "connection_gone l s = (l1, s1)" by fastforce
  have s1: "disconnected s1" "\<not> connected_once l1" "counter l1 = counter l"
    "m_needBroadcastPfwActivated s1 \<longleftrightarrow> m_needBroadcastPfwActivated s \<or> lost l s"
    "\<exists>ps. posts s1 = posts s @ ps \<and> Port_forwarding_stopped True \<notin> set ps"
    using 1 s by (auto simp: connection_gone_def BroadcastFailure_def post_def disconnected_def lost_def split: if_splits)
  obtain s2 where s2: "task_Init t s1 = Some (False, s2)" "disconnected s2" "s2 = s1\<lparr>m_prot := m_prot s2\<rparr>"
    using failing_Init [OF t s1(1)] by blast
  have same: "posts s2 = posts s1" "m_needBroadcastPfwActivated s2 = m_needBroadcastPfwActivated s1"
    using arg_cong [OF s2(3), of posts] arg_cong [OF s2(3), of m_needBroadcastPfwActivated] by simp_all
  obtain l3 s3 where 3: "attempt_failed l1 s2 = (l3, s3)" by fastforce
  have s3: "disconnected s3" "\<not> connected_once l3" "counter l3 = counter l"
    "m_needBroadcastPfwActivated s3 = m_needBroadcastPfwActivated s2"
    "\<exists>ps. posts s3 = posts s2 @ ps \<and> Port_forwarding_stopped True \<notin> set ps"
    using 3 s1 s2(2) by (auto simp: attempt_failed_def AddWarningToMessageLog_def post_def disconnected_def split: if_splits)
  have "svc_turn t (l, s) = Some (counter l < MAX_CONNECT_RETRIES,
       if counter l < MAX_CONNECT_RETRIES then l3\<lparr>counter := counter l + 1\<rparr> else l3\<lparr>publishFailure := True\<rparr>, s3)"
    using t s s1 s2 s3 1 3
    by (auto simp: svc_turn_def unreachable_def disconnected_def IsInitialized_def others_def)
  moreover have "\<exists>ps. posts s3 = posts s @ ps \<and> Port_forwarding_stopped True \<notin> set ps"
    using s1(5) s3(5) same(1) by auto
  ultimately show ?thesis
    using that [of l3 s3] s1(4) s3(1,2,4) same(2) by simp
qed

lemma failing_turns:
  assumes t: "\<And>i. unreachable (\<tau> i)"
  shows "disconnected s \<Longrightarrow> counter l + k = MAX_CONNECT_RETRIES \<Longrightarrow>
    (\<forall>j\<le>k. \<exists>st. svc_turns (map \<tau> [m..<m + j]) (l, s) = Some (True, st)) \<and>
    (\<exists>l' s'. svc_turns (map \<tau> [m..<m + Suc k]) (l, s) = Some (False, l', s') \<and> publishFailure l' \<and> disconnected s' \<and>
      (m_needBroadcastPfwActivated s' \<longleftrightarrow> m_needBroadcastPfwActivated s \<or> lost l s) \<and>
      (\<exists>ps. posts s' = posts s @ ps \<and> Port_forwarding_stopped True \<notin> set ps))"
proof (induction k arbitrary: l s m)
  case 0
  obtain l' s' where
    "svc_turn (\<tau> m) (l, s) = Some (counter l < MAX_CONNECT_RETRIES, if counter l < MAX_CONNECT_RETRIES
       then l'\<lparr>counter := counter l + 1\<rparr> else l'\<lparr>publishFailure := True\<rparr>, s')" "disconnected s'"
    "m_needBroadcastPfwActivated s' \<longleftrightarrow> m_needBroadcastPfwActivated s \<or> lost l s"
    "\<exists>ps. posts s' = posts s @ ps \<and> Port_forwarding_stopped True \<notin> set ps"
    by (rule failing_turn [OF t [of m] 0(1), of l])
  with 0(2) show ?case by (simp add: upt_conv_Cons)
next
  case (Suc k)
  from failing_turn [OF t [of m] Suc.prems(1), of l] Suc.prems(2) obtain l' s' where
    first: "svc_turn (\<tau> m) (l, s) = Some (True, l'\<lparr>counter := counter l + 1\<rparr>, s')" "disconnected s'" "\<not> connected_once l'"
      "m_needBroadcastPfwActivated s' \<longleftrightarrow> m_needBroadcastPfwActivated s \<or> lost l s"
      "\<exists>ps. posts s' = posts s @ ps \<and> Port_forwarding_stopped True \<notin> set ps"
    by auto
  let ?l = "l'\<lparr>counter := counter l + 1\<rparr>"
  have l: "counter ?l + k = MAX_CONNECT_RETRIES" "\<not> lost ?l s'" using Suc.prems(2) first(3) by (simp_all add: lost_def)
  have up: "[m..<m + Suc j] = m # [Suc m..<Suc m + j]" for j by (simp add: upt_conv_Cons)
  have rest: "svc_turns (map \<tau> [m..<m + Suc j]) (l, s) = svc_turns (map \<tau> [Suc m..<Suc m + j]) (?l, s')" for j
    unfolding up using first(1) by simp
  note IH = Suc.IH [OF first(2) l(1), of "Suc m"]
  have "\<exists>st. svc_turns (map \<tau> [m..<m + j]) (l, s) = Some (True, st)" if "j \<le> Suc k" for j
  proof (cases j)
    case (Suc i)
    with that IH show ?thesis by (simp only: rest Suc)
  qed simp
  moreover from IH l(2) first(4,5) obtain l'' s'' where
    "svc_turns (map \<tau> [m..<m + Suc (Suc k)]) (l, s) = Some (False, l'', s'')" "publishFailure l''" "disconnected s''"
    "m_needBroadcastPfwActivated s'' \<longleftrightarrow> m_needBroadcastPfwActivated s \<or> lost l s"
    "\<exists>ps. posts s'' = posts s @ ps \<and> Port_forwarding_stopped True \<notin> set ps"
    unfolding rest [of "Suc k"] by auto
  ultimately show ?case by blast
qed

lemma end_posts:
  assumes "disconnected s"
  obtains s' where "svc_end (l, s) = Some s'"
    "posts s' = posts s @ (if m_needBroadcastPfwActivated s then [] else [Port_forwarding_stopped (publishFailure l)])"
proof -
  obtain p where "prot_Deinit (m_prot s) = Some p"
    using Deinit_disconnects [of "m_prot s"] assms by (auto simp: disconnected_def)
  then show ?thesis using that by (cases "m_needBroadcastPfwActivated s") (simp_all add: svc_end_def task_Deinit_def BroadcastFailure_def post_def)
qed

end
