(* ===== verification/Service_Properties.thy ===== *)
theory Service_Properties
  imports Service_Correct Protocol_Properties
begin

text \<open>
  The properties of the task that runs the protocol: what it announces to the configurator, and that it gives
  up a driver that cannot be reached.
\<close>



text \<open>C20. When the driver cannot be reached and nothing else happens, the loop is left after 36 attempts less the
  counter, neither earlier nor later, and the thread ends. The configurator is told of the failure unless a stop was
  already announced: after a connection that was there and got lost, the failure is never published.\<close>

theorem connection_given_up:
  assumes "\<And>i. unreachable (\<tau> i)" and "disconnected s" and "counter l \<le> 35"
  shows "(\<forall>j<36 - counter l. \<exists>st. svc_turns (map \<tau> [0..<j]) (l, s) = Some (True, st)) \<and>
    (\<exists>st s'. svc_turns (map \<tau> [0..<36 - counter l]) (l, s) = Some (False, st) \<and> svc_end st = Some s' \<and>
      (Port_forwarding_stopped True \<in> set (drop (length (posts s)) (posts s'))
        \<longleftrightarrow> \<not> m_needBroadcastPfwActivated s \<and> \<not> lost l s))"
proof -
  define k where "k = 35 - counter l"
  have k: "counter l + k = MAX_CONNECT_RETRIES" "36 - counter l = Suc k"
    using assms(3) by (simp_all add: k_def MAX_CONNECT_RETRIES_def)
  from failing_turns [where \<tau> = \<tau> and m = 0, OF assms(1,2) k(1)] obtain l' s' ps where
    go: "\<forall>j\<le>k. \<exists>st. svc_turns (map \<tau> [0..<j]) (l, s) = Some (True, st)" and
    st: "svc_turns (map \<tau> [0..<Suc k]) (l, s) = Some (False, l', s')" "publishFailure l'" "disconnected s'"
      "m_needBroadcastPfwActivated s' \<longleftrightarrow> m_needBroadcastPfwActivated s \<or> lost l s"
      "posts s' = posts s @ ps" "Port_forwarding_stopped True \<notin> set ps"
    unfolding add.left_neutral by blast
  obtain s'' where "svc_end (l', s') = Some s''"
    "posts s'' = posts s' @ (if m_needBroadcastPfwActivated s' then [] else [Port_forwarding_stopped (publishFailure l')])"
    using end_posts [OF st(3)] by blast
  with go st show ?thesis by (auto simp: k(2) less_Suc_eq_le)
qed

text \<open>A turn in which the driver is missing.\<close>

definition nothing_ready :: select_answer where
  "nothing_ready = \<lparr>sel_res = 0, sel_signal = False, sel_ready = (\<lambda>_. False), sel_accept = (\<lambda>_. \<lparr>acc_socket = INVALID_SOCKET, acc_inet = False,
     acc_peer = None, acc_name = None, acc_address = [], acc_port = 0\<rparr>),
     sel_recv = (\<lambda>_ _. (0, []))\<rparr>"

definition absent :: turn where
  "absent = \<lparr>cancelled = False,
     t_os = os0, t_heci = Heci_error, t_junk = (\<lambda>_. 0), t_spawned = True, t_started = True, t_messages = [],
     t_port = True, t_adapters = True, retry_wait = [], settle_wait = [], t_pipe = True, t_localDNS = [],
     t_answer = nothing_ready, select_wait = []\<rparr>"

lemma connection_given_up_witness:
  "\<exists>st s'. svc_turns (replicate 35 absent) (svc_locals0, PortForwardingService 4096) = Some (False, st) \<and>
     svc_end st = Some s' \<and> Port_forwarding_stopped True \<in> set (posts s')"
proof -
  have u: "\<And>i. unreachable ((\<lambda>_. absent) i)" by (simp add: unreachable_def absent_def)
  have d: "disconnected (PortForwardingService 4096)"
    using machine_start [of 4096] by (simp add: disconnected_def machine_ok_def machine0_def PortForwardingService_def)
      (simp add: Protocol_def LMEConnection_def)
  have "map (\<lambda>_. absent) [0..<35] = replicate 35 absent" by (simp add: map_replicate_const)
  with connection_given_up [OF u d, of svc_locals0] show ?thesis
    by (simp add: svc_locals0_def PortForwardingService_def lost_def)
qed

end
