(* ===== verification/Dependency.thy ===== *)
theory Dependency
  imports Services Std_Map
begin

text \<open>
  The dependencies between the services: \<^verbatim>\<open>UNS/Configurator/DependancyManager\<close>. The order dependencies say which
  services come before which when several are started; the absolute ones say which services another one cannot do
  without.
\<close>

type_synonym dep_map = "(service, service list) std_map"

record dependency_manager =
  m_orderDependencies :: dep_map
  m_orderDependents :: dep_map
  m_absoluteDependencies :: dep_map
  m_absoluteDependents :: dep_map
  m_mountOrder :: "service list list"
  m_alreadyReadDependencies :: bool
  m_dummeyServicesToRemove :: "service list"

definition DependencyManager :: dependency_manager where
  "DependencyManager = \<lparr>m_orderDependencies = [], m_orderDependents = [], m_absoluteDependencies = [],
     m_absoluteDependents = [], m_mountOrder = [], m_alreadyReadDependencies = False,
     m_dummeyServicesToRemove = [LAST_SERVICE, AMT_ENABLE_LAST_SERVICE, WAITING_FOR_PFW_LAST_SERVICE]\<rparr>"

text \<open>\<^verbatim>\<open>m[k].push_back(v)\<close>.\<close>

definition push_back :: "service \<Rightarrow> service \<Rightarrow> dep_map \<Rightarrow> dep_map" where
  "push_back k v m = map_put k ((case map_of m k of None \<Rightarrow> [] | Some vs \<Rightarrow> vs) @ [v]) m"

definition ReadMountOrder :: "dependency_manager \<Rightarrow> dependency_manager" where
  "ReadMountOrder d = d\<lparr>m_mountOrder :=
     [[FIRST_SERVICE],
      [EVENT_MANAGER],
      [WINLOG_EVENT_HANDLER, COM_EVENT_HANDLER, WMI_EVENT_HANDLER, GMS_DBUSSERVICE, HISTORY_EVENT_HANDLER],
      [STATUS_EVENT_HANDLER],
      [],
      [GMS_PORTFORWARDINGSERVICE],
      [GMS_PARTIALFWUPDATESERVICE],
      [GMS_SHAREDSTATICIPSERVICE, GMS_TIMESYNCSERVICE, GMS_WIFIPROFILESYNCSERVICE, GMS_IPREFRESHSERVICE,
       POWER_OPERATIONS_SERVICE],
      [AMT_ENABLE_LAST_SERVICE, WAITING_FOR_PFW_LAST_SERVICE],
      [LAST_SERVICE]]\<rparr>"

definition DependsAbsolutely :: "service \<Rightarrow> service \<Rightarrow> dependency_manager \<Rightarrow> dependency_manager" where
  "DependsAbsolutely what base d = d\<lparr>m_absoluteDependencies := push_back what base (m_absoluteDependencies d),
     m_absoluteDependents := push_back base what (m_absoluteDependents d)\<rparr>"

definition ReadAbsoluteDependencies :: "dependency_manager \<Rightarrow> dependency_manager" where
  "ReadAbsoluteDependencies = fold (\<lambda>(what, base). DependsAbsolutely what base)
     [(WINLOG_EVENT_HANDLER, EVENT_MANAGER),
      (COM_EVENT_HANDLER, EVENT_MANAGER),
      (WMI_EVENT_HANDLER, EVENT_MANAGER),
      (GMS_DBUSSERVICE, EVENT_MANAGER),
      (HISTORY_EVENT_HANDLER, EVENT_MANAGER),
      (STATUS_EVENT_HANDLER, EVENT_MANAGER),
      (GMS_TIMESYNCSERVICE, GMS_PORTFORWARDINGSERVICE),
      (GMS_WIFIPROFILESYNCSERVICE, GMS_PORTFORWARDINGSERVICE),
      (GMS_SHAREDSTATICIPSERVICE, GMS_PORTFORWARDINGSERVICE),
      (GMS_PARTIALFWUPDATESERVICE, GMS_PORTFORWARDINGSERVICE),
      (POWER_OPERATIONS_SERVICE, GMS_PORTFORWARDINGSERVICE)]"

definition Depends :: "service \<Rightarrow> service \<Rightarrow> dependency_manager \<Rightarrow> dependency_manager" where
  "Depends what base d = d\<lparr>m_orderDependencies := push_back what base (m_orderDependencies d),
     m_orderDependents := push_back base what (m_orderDependents d)\<rparr>"

definition Depends_lists :: "service list \<Rightarrow> service list \<Rightarrow> dependency_manager \<Rightarrow> dependency_manager" where
  "Depends_lists whats ons = fold (\<lambda>what. fold (\<lambda>base. Depends what base) ons) whats"

definition SetOrderDependencies :: "nat \<Rightarrow> dependency_manager \<Rightarrow> dependency_manager" where
  "SetOrderDependencies startInd d = (if startInd \<ge> length (m_mountOrder d) then d
     else fold (\<lambda>i d. Depends_lists (m_mountOrder d ! startInd) (m_mountOrder d ! i) d) [0..<startInd] d)"

definition ReadDependencies :: "dependency_manager \<Rightarrow> dependency_manager" where
  "ReadDependencies d = (if m_alreadyReadDependencies d then d
     else let d = ReadMountOrder (ReadAbsoluteDependencies d);
              d = fold SetOrderDependencies [1..<length (m_mountOrder d)] d
          in d\<lparr>m_alreadyReadDependencies := True\<rparr>)"

text \<open>Only the dependencies to be loaded in this run count.\<close>

definition GetCurrentDependencies :: "loaded_services \<Rightarrow> service list \<Rightarrow> service list" where
  "GetCurrentDependencies x = filter (\<lambda>s. ToBeLoaded s x)"

definition GetServiceDependecies :: "loaded_services \<Rightarrow> service \<Rightarrow> dependency_manager \<Rightarrow> service list" where
  "GetServiceDependecies x s d = (case map_of (m_orderDependencies d) s of
     None \<Rightarrow> [] | Some ss \<Rightarrow> GetCurrentDependencies x ss)"

definition GetDependeciesOf :: "loaded_services \<Rightarrow> service \<Rightarrow> dependency_manager \<Rightarrow> service list" where
  "GetDependeciesOf x s d = (case map_of (m_orderDependents d) s of
     None \<Rightarrow> [] | Some ss \<Rightarrow> GetCurrentDependencies x ss)"

definition GetPrerequisites :: "loaded_services \<Rightarrow> service \<Rightarrow> bool \<Rightarrow> dependency_manager \<Rightarrow> service list" where
  "GetPrerequisites x s serviceDependsOn d =
     (if serviceDependsOn then GetServiceDependecies x s d else GetDependeciesOf x s d)"

text \<open>\<^verbatim>\<open>FillAbsoluteRelations\<close>: the iteration over a set into which the body inserts. What is inserted before the
  current name is not visited any more.\<close>

definition next_after :: "service \<Rightarrow> names \<Rightarrow> service option" where
  "next_after s xs = List.find (\<lambda>x. s < x) xs"

definition relations_of :: "dep_map \<Rightarrow> service \<Rightarrow> service list" where
  "relations_of m s = (case map_of m s of None \<Rightarrow> [] | Some rs \<Rightarrow> rs)"

lemma next_after_greater: "next_after s xs = Some t \<Longrightarrow> s < t \<and> t \<in> set xs"
  by (auto simp: next_after_def find_Some_iff)

lemma service_rank_bound: "service_rank s < 20"
  by (cases s) simp_all

function fill_walk :: "dep_map \<Rightarrow> service option \<Rightarrow> names \<Rightarrow> names" where
  "fill_walk m None xs = xs"
| "fill_walk m (Some s) xs =
     (let xs = fold names_insert (relations_of m s) xs in fill_walk m (next_after s xs) xs)"
  by pat_completeness auto

termination
proof (relation "measure (\<lambda>(m, so, xs). case so of None \<Rightarrow> 0 | Some s \<Rightarrow> 20 - service_rank s)", simp)
  fix m s xs ys
  show "((m, next_after s ys, ys), m, Some s, xs)
      \<in> measure (\<lambda>(m, so, xs). case so of None \<Rightarrow> 0 | Some s \<Rightarrow> 20 - service_rank s)"
    using service_rank_bound by (auto simp: less_service_def dest!: next_after_greater split: option.splits)
      (meson diff_less_mono2 order.strict_trans)
qed

definition FillAbsoluteRelations :: "service list \<Rightarrow> dep_map \<Rightarrow> service list" where
  "FillAbsoluteRelations services m = (if m = [] then services
     else let xs = fold names_insert services [] in fill_walk m (case xs of [] \<Rightarrow> None | x # _ \<Rightarrow> Some x) xs)"

definition FillAbsoluteDependencies :: "service list \<Rightarrow> dependency_manager \<Rightarrow> service list" where
  "FillAbsoluteDependencies services d = FillAbsoluteRelations services (m_absoluteDependencies d)"

definition FillAbsoluteDependents :: "service list \<Rightarrow> dependency_manager \<Rightarrow> service list" where
  "FillAbsoluteDependents services d = FillAbsoluteRelations services (m_absoluteDependents d)"

definition RemoveDummyDependencies :: "service \<Rightarrow> dependency_manager \<Rightarrow> dependency_manager" where
  "RemoveDummyDependencies s d = (case map_of (m_orderDependents d) s of
     None \<Rightarrow> d
   | Some ss \<Rightarrow> d\<lparr>m_orderDependents := map_put s (fold removeAll (m_dummeyServicesToRemove d) ss) (m_orderDependents d)\<rparr>)"

definition AddDummyDependencies :: "service \<Rightarrow> dependency_manager \<Rightarrow> dependency_manager" where
  "AddDummyDependencies s d = (case map_of (m_orderDependents d) s of
     None \<Rightarrow> d
   | Some ss \<Rightarrow> d\<lparr>m_orderDependents := map_put s (ss @ m_dummeyServicesToRemove d) (m_orderDependents d)\<rparr>)"

end
