(* ===== verification/Dependency_Correct.thy ===== *)
theory Dependency_Correct
  imports Dependency
begin

text \<open>
  Lemmas on the dependencies: the order dependencies the program reads are exactly those between a level of the
  mount order and the ones before it, the dependents are their converse, and \<^verbatim>\<open>FillAbsoluteRelations\<close> adds the
  relations of every service it is given.
\<close>

subsection \<open>The order dependencies\<close>

definition depends_on :: "dependency_manager \<Rightarrow> service \<Rightarrow> service \<Rightarrow> bool" where
  "depends_on d s b \<longleftrightarrow> b \<in> set (relations_of (m_orderDependencies d) s)"

definition dependent_of :: "dependency_manager \<Rightarrow> service \<Rightarrow> service \<Rightarrow> bool" where
  "dependent_of d b s \<longleftrightarrow> s \<in> set (relations_of (m_orderDependents d) b)"

lemma relations_push: "relations_of (push_back k v m) s = relations_of m s @ (if s = k then [v] else [])"
  by (simp add: relations_of_def push_back_def split: option.split)

lemma Depends_depends_on [simp]: "depends_on (Depends x y d) s b \<longleftrightarrow> depends_on d s b \<or> s = x \<and> b = y"
  by (cases "s = x") (auto simp: depends_on_def Depends_def relations_push)

lemma Depends_dependent_of [simp]: "dependent_of (Depends x y d) b s \<longleftrightarrow> dependent_of d b s \<or> s = x \<and> b = y"
  by (cases "b = y") (auto simp: dependent_of_def Depends_def relations_push)

lemma Depends_mountOrder [simp]: "m_mountOrder (Depends x y d) = m_mountOrder d"
  by (simp add: Depends_def)

lemma Depends_one:
  "(depends_on (fold (\<lambda>b. Depends x b) ys d) s b \<longleftrightarrow> depends_on d s b \<or> s = x \<and> b \<in> set ys) \<and>
   (dependent_of (fold (\<lambda>b. Depends x b) ys d) b s \<longleftrightarrow> dependent_of d b s \<or> s = x \<and> b \<in> set ys) \<and>
   m_mountOrder (fold (\<lambda>b. Depends x b) ys d) = m_mountOrder d"
  by (induction ys arbitrary: d) auto

lemma Depends_all:
  "(depends_on (Depends_lists xs ys d) s b \<longleftrightarrow> depends_on d s b \<or> s \<in> set xs \<and> b \<in> set ys) \<and>
   (dependent_of (Depends_lists xs ys d) b s \<longleftrightarrow> dependent_of d b s \<or> s \<in> set xs \<and> b \<in> set ys) \<and>
   m_mountOrder (Depends_lists xs ys d) = m_mountOrder d"
  by (induction xs arbitrary: d) (auto simp: Depends_lists_def Depends_one)

lemmas Depends_lists_relations [simp] =
  Depends_all [THEN conjunct1] Depends_all [THEN conjunct2, THEN conjunct1] Depends_all [THEN conjunct2, THEN conjunct2]

lemma fold_levels:
  "m_mountOrder d = mo \<Longrightarrow> m_mountOrder (fold (\<lambda>i d. Depends_lists (m_mountOrder d ! j) (m_mountOrder d ! i) d) is d) = mo \<and>
     (depends_on (fold (\<lambda>i d. Depends_lists (m_mountOrder d ! j) (m_mountOrder d ! i) d) is d) s b
        \<longleftrightarrow> depends_on d s b \<or> s \<in> set (mo ! j) \<and> (\<exists>i\<in>set is. b \<in> set (mo ! i))) \<and>
     (dependent_of (fold (\<lambda>i d. Depends_lists (m_mountOrder d ! j) (m_mountOrder d ! i) d) is d) b s
        \<longleftrightarrow> dependent_of d b s \<or> s \<in> set (mo ! j) \<and> (\<exists>i\<in>set is. b \<in> set (mo ! i)))"
proof (induction "is" arbitrary: d)
  case (Cons i "is")
  from Cons.IH [of "Depends_lists (m_mountOrder d ! j) (m_mountOrder d ! i) d"] Cons.prems show ?case by auto
qed simp

lemma SetOrder_relations:
  assumes "m_mountOrder d = mo" "j < length mo"
  shows "m_mountOrder (SetOrderDependencies j d) = mo"
    "depends_on (SetOrderDependencies j d) s b \<longleftrightarrow> depends_on d s b \<or> s \<in> set (mo ! j) \<and> (\<exists>i<j. b \<in> set (mo ! i))"
    "dependent_of (SetOrderDependencies j d) b s \<longleftrightarrow> dependent_of d b s \<or> s \<in> set (mo ! j) \<and> (\<exists>i<j. b \<in> set (mo ! i))"
proof -
  let ?d = "fold (\<lambda>i d. Depends_lists (m_mountOrder d ! j) (m_mountOrder d ! i) d) [0..<j] d"
  have e: "SetOrderDependencies j d = ?d" using assms by (simp add: SetOrderDependencies_def)
  show "m_mountOrder (SetOrderDependencies j d) = mo"
    "depends_on (SetOrderDependencies j d) s b \<longleftrightarrow> depends_on d s b \<or> s \<in> set (mo ! j) \<and> (\<exists>i<j. b \<in> set (mo ! i))"
    "dependent_of (SetOrderDependencies j d) b s \<longleftrightarrow> dependent_of d b s \<or> s \<in> set (mo ! j) \<and> (\<exists>i<j. b \<in> set (mo ! i))"
    unfolding e using fold_levels [OF assms(1), of j "[0..<j]" s b] by auto
qed

lemma fold_SetOrder:
  "m_mountOrder d = mo \<Longrightarrow> \<forall>j\<in>set js. j < length mo \<Longrightarrow>
     (depends_on (fold SetOrderDependencies js d) s b
        \<longleftrightarrow> depends_on d s b \<or> (\<exists>j\<in>set js. s \<in> set (mo ! j) \<and> (\<exists>i<j. b \<in> set (mo ! i)))) \<and>
     (dependent_of (fold SetOrderDependencies js d) b s
        \<longleftrightarrow> dependent_of d b s \<or> (\<exists>j\<in>set js. s \<in> set (mo ! j) \<and> (\<exists>i<j. b \<in> set (mo ! i))))"
proof (induction js arbitrary: d)
  case (Cons j js)
  from Cons.prems have j: "j < length mo" by simp
  from Cons.IH [OF SetOrder_relations(1) [OF Cons.prems(1) j]] Cons.prems show ?case
    by (auto simp: SetOrder_relations(2,3) [OF Cons.prems(1) j])
qed simp

text \<open>The level of a service in the mount order; two services have none.\<close>

primrec level :: "service \<Rightarrow> nat option" where
  "level FIRST_SERVICE = Some 0"
| "level EVENT_MANAGER = Some 1"
| "level WINLOG_EVENT_HANDLER = Some 2"
| "level COM_EVENT_HANDLER = Some 2"
| "level WMI_EVENT_HANDLER = Some 2"
| "level GMS_DBUSSERVICE = Some 2"
| "level HISTORY_EVENT_HANDLER = Some 2"
| "level STATUS_EVENT_HANDLER = Some 3"
| "level GMS_PORTFORWARDINGSERVICE = Some 5"
| "level GMS_PARTIALFWUPDATESERVICE = Some 6"
| "level GMS_SHAREDSTATICIPSERVICE = Some 7"
| "level GMS_TIMESYNCSERVICE = Some 7"
| "level GMS_WIFIPROFILESYNCSERVICE = Some 7"
| "level GMS_IPREFRESHSERVICE = Some 7"
| "level POWER_OPERATIONS_SERVICE = Some 7"
| "level AMT_ENABLE_LAST_SERVICE = Some 8"
| "level WAITING_FOR_PFW_LAST_SERVICE = Some 8"
| "level LAST_SERVICE = Some 9"
| "level GMS_CONFIGURATOR = None"
| "level GMS_HOSTCHANGESNOTIFICATIONSERVICE = None"

definition later :: "service \<Rightarrow> service \<Rightarrow> bool" where
  "later s b \<longleftrightarrow> (\<exists>i j. level b = Some i \<and> level s = Some j \<and> i < j)"

abbreviation the_dependencies :: dependency_manager where
  "the_dependencies \<equiv> ReadDependencies DependencyManager"

lemma mount_levels: "j < 10 \<Longrightarrow> s \<in> set (m_mountOrder (ReadMountOrder d) ! j) \<longleftrightarrow> level s = Some j"
  by (cases s; auto simp: ReadMountOrder_def less_Suc_eq numeral_eq_Suc)

lemma level_bound: "level s = Some j \<Longrightarrow> j < 10"
  by (cases s) auto

lemma absolute_keeps_order:
  "m_orderDependencies (ReadAbsoluteDependencies d) = m_orderDependencies d"
  "m_orderDependents (ReadAbsoluteDependencies d) = m_orderDependents d"
  by (simp_all add: ReadAbsoluteDependencies_def DependsAbsolutely_def)

lemma read_relations:
  "depends_on the_dependencies s b \<longleftrightarrow> later s b" "dependent_of the_dependencies b s \<longleftrightarrow> later s b"
proof -
  define d where "d = ReadMountOrder (ReadAbsoluteDependencies DependencyManager)"
  have none: "\<not> depends_on d s b" "\<not> dependent_of d b s"
    by (simp_all add: depends_on_def dependent_of_def d_def ReadMountOrder_def absolute_keeps_order DependencyManager_def
      relations_of_def)
  have len: "length (m_mountOrder d) = 10" by (simp add: d_def ReadMountOrder_def)
  have "(\<exists>j\<in>set [1..<10]. s \<in> set (m_mountOrder d ! j) \<and> (\<exists>i<j. b \<in> set (m_mountOrder d ! i))) \<longleftrightarrow> later s b"
    using level_bound [of s] by (auto simp: d_def mount_levels later_def cong: conj_cong)
  with fold_SetOrder [of d "m_mountOrder d" "[1..<10]" s b] len none
  have "depends_on (fold SetOrderDependencies [1..<10] d) s b \<longleftrightarrow> later s b"
    "dependent_of (fold SetOrderDependencies [1..<10] d) b s \<longleftrightarrow> later s b" by simp_all
  moreover have "the_dependencies = (fold SetOrderDependencies [1..<10] d)\<lparr>m_alreadyReadDependencies := True\<rparr>"
    using len by (simp add: ReadDependencies_def d_def DependencyManager_def Let_def)
  ultimately show "depends_on the_dependencies s b \<longleftrightarrow> later s b" "dependent_of the_dependencies b s \<longleftrightarrow> later s b"
    by (simp_all add: depends_on_def dependent_of_def)
qed

subsection \<open>The absolute dependencies\<close>

lemma set_fold_insert [simp]: "set (fold names_insert ss xs) = set ss \<union> set xs"
  by (induction ss arbitrary: xs) auto

lemma sorted_fold_insert:
  "sorted xs \<and> distinct xs \<Longrightarrow> sorted (fold names_insert ss xs) \<and> distinct (fold names_insert ss xs)"
  by (induction ss arbitrary: xs) (auto simp: sorted_names_insert)

lemma next_after_least:
  assumes "sorted xs"
  shows "case next_after s xs of None \<Rightarrow> \<forall>t\<in>set xs. \<not> s < t | Some n \<Rightarrow> \<forall>t\<in>set xs. s < t \<longleftrightarrow> n \<le> t"
proof (cases "next_after s xs")
  case None
  moreover from None have "\<forall>t\<in>set xs. \<not> s < t" by (auto simp: next_after_def find_None_iff)
  ultimately show ?thesis by simp
next
  case (Some n)
  then obtain i where i: "i < length xs" "s < xs ! i" "n = xs ! i" "\<forall>j<i. \<not> s < xs ! j"
    by (auto simp: next_after_def find_Some_iff)
  have "s < t \<longleftrightarrow> n \<le> t" if t: "t \<in> set xs" for t
  proof
    from t obtain j where j: "j < length xs" "t = xs ! j" by (auto simp: in_set_conv_nth)
    assume "s < t"
    with i(4) j have "i \<le> j" by (meson linorder_not_le)
    then show "n \<le> t" using sorted_nth_mono [OF assms] i(3) j by blast
  qed (use i(2,3) in auto)
  with Some show ?thesis by simp
qed

definition one_level :: "dep_map \<Rightarrow> bool" where
  "one_level m \<longleftrightarrow> (\<forall>s r. r \<in> set (relations_of m s) \<longrightarrow> relations_of m r = [])"

lemma fill_walk_set:
  "one_level m \<Longrightarrow> sorted xs \<Longrightarrow> distinct xs \<Longrightarrow> set (fill_walk m so xs) = set xs \<union>
     (case so of None \<Rightarrow> {} | Some s \<Rightarrow> set (relations_of m s) \<union> (\<Union>t\<in>{t\<in>set xs. s < t}. set (relations_of m t)))"
proof (induction m so xs rule: fill_walk.induct)
  case (2 m s xs)
  let ?xs = "fold names_insert (relations_of m s) xs"
  have xs: "sorted ?xs" "distinct ?xs" using sorted_fold_insert 2(3,4) by blast+
  have IH: "set (fill_walk m (next_after s ?xs) ?xs) = set ?xs \<union> (case next_after s ?xs of None \<Rightarrow> {}
      | Some n \<Rightarrow> set (relations_of m n) \<union> (\<Union>t\<in>{t\<in>set ?xs. n < t}. set (relations_of m t)))"
    using 2(1) [OF refl 2(2) xs] by simp
  have none: "relations_of m t = []" if "t \<in> set (relations_of m s)" for t
    using 2(2) that by (auto simp: one_level_def)
  have "(case next_after s ?xs of None \<Rightarrow> {}
      | Some n \<Rightarrow> set (relations_of m n) \<union> (\<Union>t\<in>{t\<in>set ?xs. n < t}. set (relations_of m t)))
    = (\<Union>t\<in>{t\<in>set ?xs. s < t}. set (relations_of m t))"
    using next_after_least [OF xs(1), of s] next_after_greater [of s ?xs]
    by (auto split: option.splits simp: order_le_less)
  also have "\<dots> = (\<Union>t\<in>{t\<in>set xs. s < t}. set (relations_of m t))"
    using none by auto
  finally show ?case using IH by (simp add: Let_def Un_ac)
qed simp

lemma fill_set:
  assumes "one_level m"
  shows "set (FillAbsoluteRelations ss m) = set ss \<union> (\<Union>s\<in>set ss. set (relations_of m s))"
proof (cases "m = []")
  case True
  then show ?thesis by (simp add: FillAbsoluteRelations_def relations_of_def)
next
  case False
  let ?xs = "fold names_insert ss []"
  have xs: "sorted ?xs" "distinct ?xs" "set ?xs = set ss" using sorted_fold_insert [of "[]" ss] by simp_all
  show ?thesis
  proof (cases ?xs)
    case Nil
    with xs(3) False show ?thesis by (simp add: FillAbsoluteRelations_def)
  next
    case (Cons y ys)
    with xs have "{t \<in> set ?xs. y < t} = set ys" by (auto simp: order_le_less)
    moreover have "set ss = insert y (set ys)" using Cons xs(3) by simp
    ultimately show ?thesis
      using fill_walk_set [OF assms xs(1,2), of "Some y"] False Cons xs(3) by (simp add: FillAbsoluteRelations_def Un_ac)
  qed
qed

lemma Depends_absolute [simp]:
  "m_absoluteDependencies (Depends x y d) = m_absoluteDependencies d" "m_absoluteDependents (Depends x y d) = m_absoluteDependents d"
  by (simp_all add: Depends_def)

lemma fold_absolute:
  assumes "\<And>x d. m_absoluteDependencies (f x d) = m_absoluteDependencies d \<and> m_absoluteDependents (f x d) = m_absoluteDependents d"
  shows "m_absoluteDependencies (fold f xs d) = m_absoluteDependencies d \<and> m_absoluteDependents (fold f xs d) = m_absoluteDependents d"
  using assms by (induction xs arbitrary: d) auto

lemma read_absolute:
  "m_absoluteDependencies the_dependencies = m_absoluteDependencies (ReadAbsoluteDependencies DependencyManager)"
  "m_absoluteDependents the_dependencies = m_absoluteDependents (ReadAbsoluteDependencies DependencyManager)"
proof -
  have lists: "m_absoluteDependencies (Depends_lists xs ys d) = m_absoluteDependencies d \<and>
      m_absoluteDependents (Depends_lists xs ys d) = m_absoluteDependents d" for xs ys d
    unfolding Depends_lists_def by (rule fold_absolute, rule fold_absolute) simp
  have "m_absoluteDependencies (SetOrderDependencies j d) = m_absoluteDependencies d \<and>
      m_absoluteDependents (SetOrderDependencies j d) = m_absoluteDependents d" for j d
    unfolding SetOrderDependencies_def using fold_absolute lists by (simp add: fold_absolute)
  then show "m_absoluteDependencies the_dependencies = m_absoluteDependencies (ReadAbsoluteDependencies DependencyManager)"
    "m_absoluteDependents the_dependencies = m_absoluteDependents (ReadAbsoluteDependencies DependencyManager)"
    using fold_absolute [of SetOrderDependencies "[1..<10]" "ReadMountOrder (ReadAbsoluteDependencies DependencyManager)"]
    by (simp_all add: ReadDependencies_def DependencyManager_def Let_def ReadMountOrder_def ReadAbsoluteDependencies_def
      DependsAbsolutely_def)
qed

text \<open>What each service needs, whatever else is loaded.\<close>

primrec needs :: "service \<Rightarrow> service list" where
  "needs WINLOG_EVENT_HANDLER = [EVENT_MANAGER]"
| "needs COM_EVENT_HANDLER = [EVENT_MANAGER]"
| "needs WMI_EVENT_HANDLER = [EVENT_MANAGER]"
| "needs GMS_DBUSSERVICE = [EVENT_MANAGER]"
| "needs HISTORY_EVENT_HANDLER = [EVENT_MANAGER]"
| "needs STATUS_EVENT_HANDLER = [EVENT_MANAGER]"
| "needs GMS_TIMESYNCSERVICE = [GMS_PORTFORWARDINGSERVICE]"
| "needs GMS_WIFIPROFILESYNCSERVICE = [GMS_PORTFORWARDINGSERVICE]"
| "needs GMS_SHAREDSTATICIPSERVICE = [GMS_PORTFORWARDINGSERVICE]"
| "needs GMS_PARTIALFWUPDATESERVICE = [GMS_PORTFORWARDINGSERVICE]"
| "needs POWER_OPERATIONS_SERVICE = [GMS_PORTFORWARDINGSERVICE]"
| "needs AMT_ENABLE_LAST_SERVICE = []"
| "needs GMS_CONFIGURATOR = []"
| "needs EVENT_MANAGER = []"
| "needs FIRST_SERVICE = []"
| "needs GMS_HOSTCHANGESNOTIFICATIONSERVICE = []"
| "needs GMS_IPREFRESHSERVICE = []"
| "needs LAST_SERVICE = []"
| "needs GMS_PORTFORWARDINGSERVICE = []"
| "needs WAITING_FOR_PFW_LAST_SERVICE = []"

lemma absolute_needs: "relations_of (m_absoluteDependencies the_dependencies) s = needs s"
proof -
  have "m_absoluteDependencies (ReadAbsoluteDependencies DependencyManager) = map (\<lambda>s. (s, needs s))
      [COM_EVENT_HANDLER, GMS_DBUSSERVICE, HISTORY_EVENT_HANDLER, GMS_PARTIALFWUPDATESERVICE, POWER_OPERATIONS_SERVICE,
       GMS_SHAREDSTATICIPSERVICE, STATUS_EVENT_HANDLER, GMS_TIMESYNCSERVICE, WMI_EVENT_HANDLER,
       GMS_WIFIPROFILESYNCSERVICE, WINLOG_EVENT_HANDLER]"
    by code_simp
  then show ?thesis unfolding read_absolute relations_of_def by (cases s) simp_all
qed

lemma needs_one_level: "one_level (m_absoluteDependencies the_dependencies)"
proof -
  have "r \<in> set (needs s) \<Longrightarrow> needs r = []" for s r by (cases s) auto
  then show ?thesis by (simp add: one_level_def absolute_needs)
qed

lemma FillAbsoluteDependencies_set:
  "set (FillAbsoluteDependencies ss the_dependencies) = set ss \<union> (\<Union>s\<in>set ss. set (needs s))"
  by (simp add: FillAbsoluteDependencies_def fill_set [OF needs_one_level] absolute_needs)

subsection \<open>The last services\<close>

lemma dummies_removed_and_added:
  assumes "map_of (m_orderDependents d) s = Some ss" "set (m_dummeyServicesToRemove d) \<subseteq> set ss"
  shows "dependent_of (AddDummyDependencies s (RemoveDummyDependencies s d)) b t \<longleftrightarrow> dependent_of d b t"
proof -
  have "set (fold removeAll xs ys) = set ys - set xs" for xs ys :: "service list"
    by (induction xs arbitrary: ys) auto
  with assms show ?thesis
    by (auto simp: dependent_of_def relations_of_def AddDummyDependencies_def RemoveDummyDependencies_def)
qed

end
