(* ===== verification/Activation.thy ===== *)
theory Activation
  imports Dependency Mei_Clients
begin

text \<open>
  Operations on several services at once: \<^verbatim>\<open>UNS/Configurator/AsyncActivationManager\<close>, which lists the services that
  wait for others, \<^verbatim>\<open>ServicesBatchCommand\<close>, which applies an operation to services and first to those they
  depend on, and the operations themselves, which are methods of \<^verbatim>\<open>Configurator\<close>. The state is that of the three
  singletons and of the configurator; \<open>acts\<close> records what is done to the main service, the reactor and the queues.
\<close>

subsection \<open>The state\<close>

datatype op_type = OP_LOAD | OP_UNLOAD | OP_RESUME | OP_SUSPEND

record async_manager =
  m_waitForUnload :: names
  m_waitForLoad :: names
  m_waitForSuspend :: names
  m_waitForResume :: names

definition AsyncActivationManager :: async_manager where
  "AsyncActivationManager = \<lparr>m_waitForUnload = [], m_waitForLoad = [], m_waitForSuspend = [], m_waitForResume = []\<rparr>"

datatype configuration_type = ME_ENABLE_CONF | AMT_ENABLE_CONF | IP_SYNC_CONF | TIME_SYNC_CONF | PFW_ENABLE_CONF
  | WIFI_PROFILE_SYNC_CONF | WRONG_CONFIGURATION_TYPE

text \<open>The messages of the configurator's queue; a data block that is not of the type expected is \<^term>\<open>None\<close>.\<close>

datatype message =
    MB_ME_CONFIGURED
  | MB_SERVICE_STATUS_CHANGED "(service \<times> status_type) option"
  | MB_TASK_COMPLETED
  | MB_DEVICE_EVENT "(u32 \<times> bool) option"
  | MB_CONFIGURATION_CHANGE "(configuration_type \<times> int) option"
  | MB_CONFIGURATION_START
  | MB_CONFIGURATION_STOP
  | MB_CONFIGURATION_SUSPEND
  | MB_CONFIGURATION_RESUME
  | MB_WTS_SESSION_UNLOCK
  | MB_DEFERRED_RESUME
  | MB_PORT_FORWARDING_STARTED
  | MB_PORT_FORWARDING_STOPPED "bool option"
  | MB_other

datatype action =
    Started service
  | Stop_sent service bool
  | Suspend_sent service
  | Finished service
  | Suspended service
  | Resumed service
  | Main_SetStop
  | Main_SetStopped bool
  | Main_SetSuspend
  | Queued message
  | Alert nat nat string
  | Warned string
  | Scan_timer
  | Scan_timer_cancelled
  | Resume_timer
  | Resume_timer_cancelled

record configurator =
  services :: loaded_services
  dependencies :: dependency_manager
  activation :: async_manager
  pfw_started :: bool
  m_SkuAndBrandScanned :: bool
  m_scanningNum :: nat
  m_LME_exists :: bool
  m_platform :: MKHI_PLATFORM_TYPE
  m_stateData :: u32
  m_needToStop :: bool
  m_meiEnabled :: bool
  m_gotMeiEnabled :: bool
  m_inProcess :: bool
  m_onToggleService :: bool
  m_toggeledService :: "service option"
  m_nextTasks :: "message list"
  m_fwVer :: GET_FW_VER_RESPONSE
  deferredResumeTimer :: bool
  m_serviceIsClosed :: bool
  acts :: "action list"

text \<open>What the world answers: whether the main service starts, reaches and resumes a service, what the WS-Management
  clients say of a feature at each attempt, the drivers behind the firmware commands, and the files of \<^verbatim>\<open>/dev\<close>.\<close>

record world =
  start_ok :: "service \<Rightarrow> bool"
  send_ok :: "service \<Rightarrow> bool"
  resume_ok :: "service \<Rightarrow> bool"
  static_ip :: "nat \<Rightarrow> bool \<times> bool"
  time_sync :: "nat \<Rightarrow> bool \<times> bool"
  drivers :: "nat \<Rightarrow> tee"
  lme_drivers :: "nat \<Rightarrow> tee"
  lstat_ok :: "string \<Rightarrow> bool"
  timer_cancelled :: bool

definition act :: "action \<Rightarrow> configurator \<Rightarrow> configurator" where
  "act a c = c\<lparr>acts := acts c @ [a]\<rparr>"

definition on_services :: "(loaded_services \<Rightarrow> loaded_services) \<Rightarrow> configurator \<Rightarrow> configurator" where
  "on_services f c = c\<lparr>services := f (services c)\<rparr>"

subsection \<open>Waiting services\<close>

definition GetWaiting :: "op_type \<Rightarrow> async_manager \<Rightarrow> names" where
  "GetWaiting oper a = (case oper of OP_LOAD \<Rightarrow> m_waitForLoad a | OP_UNLOAD \<Rightarrow> m_waitForUnload a
     | OP_SUSPEND \<Rightarrow> m_waitForSuspend a | OP_RESUME \<Rightarrow> m_waitForResume a)"

definition SetWaiting :: "op_type \<Rightarrow> names \<Rightarrow> async_manager \<Rightarrow> async_manager" where
  "SetWaiting oper xs a = (case oper of OP_LOAD \<Rightarrow> a\<lparr>m_waitForLoad := xs\<rparr> | OP_UNLOAD \<Rightarrow> a\<lparr>m_waitForUnload := xs\<rparr>
     | OP_SUSPEND \<Rightarrow> a\<lparr>m_waitForSuspend := xs\<rparr> | OP_RESUME \<Rightarrow> a\<lparr>m_waitForResume := xs\<rparr>)"

text \<open>The direction of the dependencies, and what has to hold of each.\<close>

definition forwards :: "op_type \<Rightarrow> bool" where
  "forwards oper \<longleftrightarrow> oper = OP_LOAD \<or> oper = OP_RESUME"

definition dependency_done :: "op_type \<Rightarrow> loaded_services \<Rightarrow> service \<Rightarrow> bool" where
  "dependency_done oper x d = (case oper of OP_LOAD \<Rightarrow> IsLoaded d x | OP_UNLOAD \<Rightarrow> \<not> IsLoaded d x
     | OP_RESUME \<Rightarrow> IsActive d x | OP_SUSPEND \<Rightarrow> \<not> IsActive d x)"

definition is_ready :: "op_type \<Rightarrow> service \<Rightarrow> configurator \<Rightarrow> bool" where
  "is_ready oper s c \<longleftrightarrow>
     list_all (dependency_done oper (services c)) (GetPrerequisites (services c) s (forwards oper) (dependencies c))"

definition ReadyToOperation :: "service \<Rightarrow> op_type \<Rightarrow> bool \<Rightarrow> configurator \<Rightarrow> bool \<times> configurator" where
  "ReadyToOperation s oper addTolist c =
     (let ret = is_ready oper s c in
      (ret, if addTolist \<and> \<not> ret
         then c\<lparr>activation := SetWaiting oper (names_insert s (GetWaiting oper (activation c))) (activation c)\<rparr> else c))"

definition RefreshOnOperation :: "op_type \<Rightarrow> configurator \<Rightarrow> bool \<times> service list \<times> configurator" where
  "RefreshOnOperation oper c =
     (let waiting = GetWaiting oper (activation c); ready = filter (\<lambda>s. is_ready oper s c) waiting
      in (ready \<noteq> [], ready, c\<lparr>activation := SetWaiting oper (filter (\<lambda>s. s \<notin> set ready) waiting) (activation c)\<rparr>))"

subsection \<open>The operations\<close>

definition TaskCompleted :: "configurator \<Rightarrow> configurator" where
  "TaskCompleted = act (Queued MB_TASK_COMPLETED)"

text \<open>The checks of \<^verbatim>\<open>m_checkLoadMap\<close>: three attempts, the state of the first that succeeds.\<close>

definition CONFIGURATOR_CHECK_RETRIES :: nat where "CONFIGURATOR_CHECK_RETRIES = 3"

definition check_attempts :: "(nat \<Rightarrow> bool \<times> bool) \<Rightarrow> bool" where
  "check_attempts f = (case List.find (\<lambda>i. fst (f i)) [0..<CONFIGURATOR_CHECK_RETRIES] of
     None \<Rightarrow> False | Some i \<Rightarrow> snd (f i))"

definition CheckSharedStaticIPLoad :: "world \<Rightarrow> bool" where
  "CheckSharedStaticIPLoad w = check_attempts (static_ip w)"

definition CheckTimeSyncStateLoad :: "world \<Rightarrow> bool" where
  "CheckTimeSyncStateLoad w = check_attempts (time_sync w)"

definition CheckWiFiProfileSyncRequired :: "world \<Rightarrow> bool" where
  "CheckWiFiProfileSyncRequired w = False"

definition m_checkLoadMap :: "service \<Rightarrow> (world \<Rightarrow> bool) option" where
  "m_checkLoadMap s = (case s of GMS_SHAREDSTATICIPSERVICE \<Rightarrow> Some CheckSharedStaticIPLoad
     | GMS_TIMESYNCSERVICE \<Rightarrow> Some CheckTimeSyncStateLoad
     | GMS_WIFIPROFILESYNCSERVICE \<Rightarrow> Some CheckWiFiProfileSyncRequired
     | _ \<Rightarrow> None)"

definition main_start :: "world \<Rightarrow> service \<Rightarrow> configurator \<Rightarrow> bool \<times> configurator" where
  "main_start w s c = (start_ok w s, act (Started s) c)"

definition StartAceService :: "world \<Rightarrow> service \<Rightarrow> configurator \<Rightarrow> bool \<times> configurator" where
  "StartAceService w s c =
     (if IsLoaded s (services c) then (False, c)
      else case m_checkLoadMap s of
          None \<Rightarrow> main_start w s c
        | Some check \<Rightarrow>
            if \<not> pfw_started c
            then (True, on_services (AddServiceToWaitForPfw s \<circ> UnlockService s \<circ> RemoveServiceToLoad s) c)
            else if \<not> check w
            then (if m_onToggleService c then (False, c)
                  else (True, on_services (UnlockService s \<circ> RemoveServiceToLoad s) c))
            else main_start w s c)"

definition FiniAceService :: "service \<Rightarrow> configurator \<Rightarrow> configurator" where
  "FiniAceService s c =
     (if \<not> IsLoaded s (services c) then c
      else let c = on_services (RemoveService s) (act (Finished s) c)
        in if m_loadedServices (services c) = []
           then let c = on_services ClearServicesToLoad c in if m_needToStop c then act Main_SetStop c else c
           else c)"

definition StopAceService :: "world \<Rightarrow> service \<Rightarrow> configurator \<Rightarrow> bool \<times> configurator" where
  "StopAceService w s c =
     (if \<not> IsLoaded s (services c) then (False, c)
      else if IsActive s (services c) then (send_ok w s, act (Stop_sent s (m_meiEnabled c)) c)
      else (True, FiniAceService s c))"

definition SuspendAceService :: "world \<Rightarrow> service \<Rightarrow> configurator \<Rightarrow> bool \<times> configurator" where
  "SuspendAceService w s c =
     (if IsActive s (services c) then (send_ok w s, act (Suspend_sent s) c) else (False, c))"

definition ResumeAceService :: "world \<Rightarrow> service \<Rightarrow> configurator \<Rightarrow> bool \<times> configurator" where
  "ResumeAceService w s c = (resume_ok w s, act (Resumed s) c)"

definition DoOperation :: "world \<Rightarrow> op_type \<Rightarrow> service \<Rightarrow> configurator \<Rightarrow> bool \<times> configurator" where
  "DoOperation w oper = (case oper of OP_LOAD \<Rightarrow> StartAceService w | OP_UNLOAD \<Rightarrow> StopAceService w
     | OP_RESUME \<Rightarrow> ResumeAceService w | OP_SUSPEND \<Rightarrow> SuspendAceService w)"

definition DoneCriteria :: "op_type \<Rightarrow> service \<Rightarrow> loaded_services \<Rightarrow> bool" where
  "DoneCriteria oper s x = (case oper of
     OP_LOAD \<Rightarrow> IsLoaded s x
   | OP_UNLOAD \<Rightarrow> \<not> IsLoaded s x
   | OP_RESUME \<Rightarrow> IsLoaded s x \<and> IsActive s x
   | OP_SUSPEND \<Rightarrow> IsLoaded s x \<and> \<not> IsActive s x)"

definition OperationAlreadyDone :: "op_type \<Rightarrow> service \<Rightarrow> loaded_services \<Rightarrow> bool" where
  "OperationAlreadyDone oper s x \<longleftrightarrow> IsLocked s x \<or> DoneCriteria oper s x"

subsection \<open>Batches\<close>

datatype command_result = SUCCESS | NOTHING_TO_DO | FAILURE

definition worse :: "command_result \<Rightarrow> command_result" where
  "worse ret = (if ret \<noteq> FAILURE then SUCCESS else ret)"

text \<open>\<^verbatim>\<open>Execute\<close>: the first argument bounds the depth of its recursion into the dependencies.\<close>

fun execute :: "nat \<Rightarrow> world \<Rightarrow> op_type \<Rightarrow> service list \<Rightarrow> command_result \<Rightarrow> configurator
    \<Rightarrow> (command_result \<times> configurator) option" where
  "execute n w oper [] ret c = Some (ret, c)"
| "execute n w oper (s # ss) ret c =
     (if OperationAlreadyDone oper s (services c) then execute n w oper ss ret c
      else let (ready, c) = ReadyToOperation s oper True c in
        if \<not> ready then
          (case n of
             0 \<Rightarrow> None
           | Suc m \<Rightarrow> do {
               (r, c) \<leftarrow> execute m w oper (GetPrerequisites (services c) s (forwards oper) (dependencies c)) NOTHING_TO_DO c;
               execute n w oper ss (if r = FAILURE then FAILURE else worse ret) c })
        else let (ok, c) = DoOperation w oper s (on_services (LockService s) c) in
          if \<not> ok then execute n w oper ss FAILURE (on_services (UnlockService s) c)
          else execute n w oper ss (worse ret) c)"

definition Execute :: "world \<Rightarrow> op_type \<Rightarrow> service list \<Rightarrow> configurator \<Rightarrow> (command_result \<times> configurator) option" where
  "Execute w oper ss c = execute 10 w oper ss NOTHING_TO_DO c"

text \<open>The batch, with \<^verbatim>\<open>TaskCompleted\<close> when its result is not \<^verbatim>\<open>SUCCESS\<close>.\<close>

definition Execute_or_complete :: "world \<Rightarrow> op_type \<Rightarrow> service list \<Rightarrow> configurator \<Rightarrow> (bool \<times> configurator) option" where
  "Execute_or_complete w oper ss c = do {
     (r, c) \<leftarrow> Execute w oper ss c;
     Some (if r \<noteq> SUCCESS then (False, TaskCompleted c) else (True, c)) }"

end
