(* ===== verification/Configurator.thy ===== *)
theory Configurator
  imports Activation
begin

text \<open>
  The configurator (\<^verbatim>\<open>UNS/Configurator/Configurator.cpp\<close>, on Linux): what is to be loaded on which platform, the
  start, stop, suspension and resumption of the services, the answers of the services, and the tasks, which are
  worked off one after the other. \<open>HandleAceMessage\<close> is the whole handler of one message; \<^term>\<open>None\<close> is a run that
  is undefined. The number of the message in process is kept by the code for its log only and left out.
\<close>

definition CATEGORY_UNS :: nat where "CATEGORY_UNS = 9"
definition EVENT_SERVICE_RESUME :: nat where "EVENT_SERVICE_RESUME = 92"
definition EVENT_SERVICE_HECI_ENABLE :: nat where "EVENT_SERVICE_HECI_ENABLE = 93"
definition EVENT_PORT_FORWARDING_SERVICE_AVAILABLE :: nat where "EVENT_PORT_FORWARDING_SERVICE_AVAILABLE = 95"
definition EVENT_PORT_FORWARDING_SERVICE_UNAVAILABLE :: nat where "EVENT_PORT_FORWARDING_SERVICE_UNAVAILABLE = 96"
definition EVENT_PROVISIONING :: nat where "EVENT_PROVISIONING = 112"

definition NUM_RETRIES :: nat where "NUM_RETRIES = 3"

subsection \<open>The platform\<close>

definition no_fw_version :: GET_FW_VER_RESPONSE where
  "no_fw_version = \<lparr>FTMinor = 0, FTMajor = 0, FTBuildNo = 0, FTHotFix = 0, NFTMinor = 0, NFTMajor = 0, NFTBuildNo = 0,
     NFTHotFix = 0\<rparr>"

definition Configurator :: "MKHI_PLATFORM_TYPE \<Rightarrow> u32 \<Rightarrow> configurator" where
  "Configurator platform state = \<lparr>services = LoadedServices, dependencies = ReadDependencies DependencyManager,
     activation = AsyncActivationManager, pfw_started = False, m_SkuAndBrandScanned = False, m_scanningNum = 0,
     m_LME_exists = False, m_platform = platform, m_stateData = state, m_needToStop = False, m_meiEnabled = True,
     m_gotMeiEnabled = False, m_inProcess = False, m_onToggleService = False, m_toggeledService = None,
     m_nextTasks = [], m_fwVer = no_fw_version, deferredResumeTimer = False, m_serviceIsClosed = False, acts = []\<rparr>"

definition GetFwVersion :: "world \<Rightarrow> GET_FW_VER_RESPONSE option" where
  "GetFwVersion w = (case fst (GetFWVersionCommand (drivers w 0)) of
     Returned v \<Rightarrow> Some v | Raised _ \<Rightarrow> Some no_fw_version | Undefined \<Rightarrow> None)"

text \<open>The features are stored before the second command runs, which may raise.\<close>

definition GetSkuAndBrand :: "world \<Rightarrow> configurator \<Rightarrow> configurator \<times> unit mei" where
  "GetSkuAndBrand w c = (case fst (GetFWCapsCommand (drivers w 1) FEATURES_ENABLED) of
     Returned state \<Rightarrow>
       (let c = c\<lparr>m_stateData := state\<rparr> in
        case fst (GetPlatformTypeCommand (drivers w 2)) of
          Returned platform \<Rightarrow> (c\<lparr>m_platform := platform\<rparr>, Returned ())
        | Raised e \<Rightarrow> (c, Raised e)
        | Undefined \<Rightarrow> (c, Undefined))
   | Raised e \<Rightarrow> (c, Raised e)
   | Undefined \<Rightarrow> (c, Undefined))"

text \<open>Up to three attempts; a missing client ends them.\<close>

fun lme_attempts :: "(nat \<Rightarrow> tee) \<Rightarrow> nat list \<Rightarrow> bool" where
  "lme_attempts t [] = False"
| "lme_attempts t (i # is) = (case fst (heci_Init (t i) HECI) of
     Returned _ \<Rightarrow> True
   | Raised (HeciNoClientException _) \<Rightarrow> False
   | _ \<Rightarrow> lme_attempts t is)"

definition IsLMEExists :: "world \<Rightarrow> bool" where
  "IsLMEExists w = lme_attempts (lme_drivers w) [1..<Suc NUM_RETRIES]"

definition MEIEnabled :: "world \<Rightarrow> bool" where
  "MEIEnabled w = list_ex (lstat_ok w) [''/dev/mei'', ''/dev/mei0'', ''/dev/mei1'', ''/dev/mei2'', ''/dev/mei3'']"

definition PasswordOnWakeupDisabled :: bool where "PasswordOnWakeupDisabled = True"

definition ME_FULL_8MB :: u32 where "ME_FULL_8MB = 4"
definition BrandAMT :: u32 where "BrandAMT = 1"
definition BrandStdMng :: u32 where "BrandStdMng = 2"
definition BrandL3 :: u32 where "BrandL3 = 3"

definition platform_services :: "configurator \<Rightarrow> service list" where
  "platform_services c = Read_group DUMMY_SERVICES @
     (if ImageType (m_platform c) \<noteq> ME_FULL_8MB then Read_group SKU_1_5_GROUP
      else (if \<not> m_LME_exists c then Read_group SKU_5_NO_LME_GROUP else Read_group SKU_5_GROUP) @
        (if Brand (m_platform c) \<in> {BrandAMT, BrandStdMng, BrandL3} \<and> bits 2 1 (m_stateData c) \<noteq> 0
         then Read_group MANAGABILITY_GROUP else []))"

definition start_platform :: "world \<Rightarrow> configurator \<Rightarrow> configurator option" where
  "start_platform w c = do {
     let names = FillAbsoluteDependencies (platform_services c) (dependencies c);
     (_, c) \<leftarrow> Execute_or_complete w OP_LOAD names (on_services (SetServicesToLoad names) c);
     Some (act Scan_timer_cancelled c) }"

definition scan_failed :: "world \<Rightarrow> configurator \<Rightarrow> configurator" where
  "scan_failed w c = (if \<not> MEIEnabled w
     then TaskCompleted (act Scan_timer_cancelled (act (Warned ''LMS cannot connect to Intel(R) MEI driver'')
       (c\<lparr>m_scanningNum := 0, m_meiEnabled := False\<rparr>)))
     else c)"

definition ScanConfiguration :: "world \<Rightarrow> configurator \<Rightarrow> configurator option" where
  "ScanConfiguration w c = do {
     let c = act Scan_timer c;
     v \<leftarrow> GetFwVersion w;
     let c = c\<lparr>m_fwVer := v\<rparr>;
     if m_SkuAndBrandScanned c then start_platform w c
     else (case GetSkuAndBrand w c of
         (_, Undefined) \<Rightarrow> None
       | (c, Raised _) \<Rightarrow> Some (scan_failed w c)
       | (c, Returned _) \<Rightarrow> start_platform w (c\<lparr>m_LME_exists := IsLMEExists w, m_SkuAndBrandScanned := True\<rparr>)) }"

subsection \<open>All services\<close>

definition StopAllServices :: "world \<Rightarrow> bool \<Rightarrow> configurator \<Rightarrow> configurator option" where
  "StopAllServices w stopMainService c = do {
     let c = c\<lparr>m_needToStop := stopMainService\<rparr>;
     let remaining = m_loadedServices (services c);
     c \<leftarrow> (if remaining \<noteq> [] then map_option snd (Execute_or_complete w OP_UNLOAD remaining c)
        else Some (if stopMainService then act Main_SetStop c else c));
     let c = act (Main_SetStopped stopMainService) c;
     Some (if remaining = [] then TaskCompleted c else c) }"

definition SuspendResumeAllServices :: "world \<Rightarrow> op_type \<Rightarrow> configurator \<Rightarrow> configurator option" where
  "SuspendResumeAllServices w oper c =
     map_option snd (Execute_or_complete w oper (m_loadedServices (services c)) c)"

definition SuspendAllServices :: "world \<Rightarrow> configurator \<Rightarrow> configurator option" where
  "SuspendAllServices w = SuspendResumeAllServices w OP_SUSPEND"

definition ResumeAllServices :: "world \<Rightarrow> configurator \<Rightarrow> configurator option" where
  "ResumeAllServices w = SuspendResumeAllServices w OP_RESUME"

definition CompleteSuspendAceService :: "service \<Rightarrow> configurator \<Rightarrow> configurator" where
  "CompleteSuspendAceService s c =
     (let c = act (Suspended s) c in if m_activeServices (services c) = [] then act Main_SetSuspend c else c)"

definition CancelDeferredResumeTimer :: "configurator \<Rightarrow> configurator" where
  "CancelDeferredResumeTimer c =
     (if \<not> deferredResumeTimer c then c else (act Resume_timer_cancelled c)\<lparr>deferredResumeTimer := False\<rparr>)"

text \<open>The timer that runs out: that of the deferred resume, or that of the scan.\<close>

definition handle_timeout :: "world \<Rightarrow> bool \<Rightarrow> configurator \<Rightarrow> configurator option" where
  "handle_timeout w resume_timer c =
     (if resume_timer then Some (act (Queued MB_DEFERRED_RESUME) (c\<lparr>deferredResumeTimer := False\<rparr>))
      else if m_scanningNum c < NUM_RETRIES
      then do { c \<leftarrow> ScanConfiguration w c; Some (c\<lparr>m_scanningNum := m_scanningNum c + 1\<rparr>) }
      else do { c \<leftarrow> StopAllServices w True (act Scan_timer_cancelled c); Some (TaskCompleted c) })"

subsection \<open>The answers of the services\<close>

text \<open>The services that waited for this one go on; without any, the last service of the task ends it.\<close>

definition refresh :: "world \<Rightarrow> op_type \<Rightarrow> bool \<Rightarrow> configurator \<Rightarrow> configurator option" where
  "refresh w oper last_one c =
     (let (refreshed, ready, c) = RefreshOnOperation oper c in
      if refreshed then map_option snd (Execute_or_complete w oper ready c)
      else Some (if last_one then TaskCompleted c else c))"

definition ChangeServiceState :: "world \<Rightarrow> service \<Rightarrow> status_type \<Rightarrow> configurator \<Rightarrow> configurator option" where
  "ChangeServiceState w s st c = do {
     c \<leftarrow> (case st of
         STATUS_UNLOADCOMPLETE \<Rightarrow> refresh w OP_UNLOAD (s = FIRST_SERVICE) (FiniAceService s c)
       | STATUS_LOADCOMPLETE \<Rightarrow>
           (let c = on_services (AddService s True) c;
                c = (if m_gotMeiEnabled c \<and> s = STATUS_EVENT_HANDLER
                  then act (Alert CATEGORY_UNS EVENT_SERVICE_HECI_ENABLE ''MEI driver enabled'') (c\<lparr>m_gotMeiEnabled := False\<rparr>)
                  else c)
            in refresh w OP_LOAD (s \<in> {LAST_SERVICE, AMT_ENABLE_LAST_SERVICE, WAITING_FOR_PFW_LAST_SERVICE}) c)
       | STATUS_SUSPENDCOMPLETE \<Rightarrow>
           refresh w OP_SUSPEND (s = FIRST_SERVICE) (CompleteSuspendAceService s (on_services (SetActive s False) c))
       | STATUS_RESUMECOMPLETE \<Rightarrow>
           (let c = on_services (SetActive s True) c; (refreshed, ready, c) = RefreshOnOperation OP_RESUME c in
            if refreshed then map_option snd (Execute_or_complete w OP_RESUME ready c)
            else Some (if s = LAST_SERVICE
              then TaskCompleted (act (Alert CATEGORY_UNS EVENT_SERVICE_RESUME ''Local Management Service resumed.'') c) else c))
       | SERVICE_STATUS_UNKNOWN \<Rightarrow> Some c);
     Some (if m_onToggleService c then TaskCompleted c else c) }"

subsection \<open>Changes of the configuration\<close>

definition OnToggleService :: "world \<Rightarrow> service \<Rightarrow> bool \<Rightarrow> configurator \<Rightarrow> configurator option" where
  "OnToggleService w s val c =
     (if val = IsLoaded s (services c) then Some (TaskCompleted c)
      else let c = c\<lparr>m_onToggleService := True\<rparr> in
        if val then map_option snd (Execute_or_complete w OP_LOAD [s] (on_services (AddServiceToLoad s) c))
        else map_option snd (Execute_or_complete w OP_UNLOAD [s] (on_services (RemoveServiceToLoad s)
          (c\<lparr>m_toggeledService := Some s, dependencies := RemoveDummyDependencies s (dependencies c)\<rparr>))))"

definition amt_services :: "service list" where
  "amt_services = Read_group MANAGABILITY_GROUP @ [AMT_ENABLE_LAST_SERVICE]"

definition UpdateConfiguration :: "world \<Rightarrow> configuration_type \<Rightarrow> int \<Rightarrow> configurator \<Rightarrow> configurator option" where
  "UpdateConfiguration w t val c = (case t of
     IP_SYNC_CONF \<Rightarrow> OnToggleService w GMS_SHAREDSTATICIPSERVICE (val \<noteq> 0) c
   | WIFI_PROFILE_SYNC_CONF \<Rightarrow> OnToggleService w GMS_WIFIPROFILESYNCSERVICE (val \<noteq> 0) c
   | TIME_SYNC_CONF \<Rightarrow> OnToggleService w GMS_TIMESYNCSERVICE (val \<noteq> 0) c
   | AMT_ENABLE_CONF \<Rightarrow>
       (if val \<noteq> 0 then map_option snd (Execute_or_complete w OP_LOAD amt_services
          (on_services (fold AddServiceToLoad amt_services) c))
        else Some (TaskCompleted c))
   | PFW_ENABLE_CONF \<Rightarrow>
       (if val \<noteq> 0 then
          (let waiting = m_servicesToWaitForPfw (services c); ss = waiting @ [WAITING_FOR_PFW_LAST_SERVICE] in
           if waiting = [] then Some (TaskCompleted c)
           else do {
             (_, c) \<leftarrow> Execute_or_complete w OP_LOAD ss (on_services (fold AddServiceToLoad ss) c);
             Some (on_services ClearServicesToWaitForPfw c) })
        else Some (TaskCompleted c))
   | _ \<Rightarrow> Some c)"

subsection \<open>Tasks\<close>

definition run_task :: "world \<Rightarrow> message \<Rightarrow> configurator \<Rightarrow> configurator option" where
  "run_task w m c = (case m of
     MB_DEVICE_EVENT ev \<Rightarrow> Some (case ev of None \<Rightarrow> c | Some _ \<Rightarrow> TaskCompleted c)
   | MB_CONFIGURATION_CHANGE conf \<Rightarrow> (case conf of None \<Rightarrow> Some c | Some (t, val) \<Rightarrow> UpdateConfiguration w t val c)
   | MB_CONFIGURATION_START \<Rightarrow> ScanConfiguration w c
   | MB_CONFIGURATION_STOP \<Rightarrow> StopAllServices w True (CancelDeferredResumeTimer c)
   | MB_WTS_SESSION_UNLOCK \<Rightarrow> do {
       v \<leftarrow> (if FTMajor (m_fwVer c) = 0 then GetFwVersion w else Some (m_fwVer c));
       let c = c\<lparr>m_fwVer := v\<rparr>;
       c \<leftarrow> (if FTMajor v < 12 \<and> deferredResumeTimer c \<and> timer_cancelled w
          then ResumeAllServices w ((act Resume_timer_cancelled c)\<lparr>deferredResumeTimer := False\<rparr>) else Some c);
       Some (TaskCompleted c) }
   | MB_DEFERRED_RESUME \<Rightarrow> do { c \<leftarrow> ResumeAllServices w c; Some (TaskCompleted c) }
   | MB_CONFIGURATION_RESUME \<Rightarrow> do {
       v \<leftarrow> (if FTMajor (m_fwVer c) = 0 then GetFwVersion w else Some (m_fwVer c));
       let c = CancelDeferredResumeTimer (c\<lparr>m_fwVer := v\<rparr>);
       c \<leftarrow> (if 12 \<le> FTMajor v \<or> PasswordOnWakeupDisabled then ResumeAllServices w c
          else Some ((act Resume_timer c)\<lparr>deferredResumeTimer := True\<rparr>));
       Some (TaskCompleted c) }
   | MB_CONFIGURATION_SUSPEND \<Rightarrow> do { c \<leftarrow> SuspendAllServices w (CancelDeferredResumeTimer c); Some (TaskCompleted c) }
   | MB_PORT_FORWARDING_STARTED \<Rightarrow>
       Some (TaskCompleted (act (Queued (MB_CONFIGURATION_CHANGE (Some (PFW_ENABLE_CONF, 1))))
         (act (Alert CATEGORY_UNS EVENT_PORT_FORWARDING_SERVICE_AVAILABLE ''Port Forwarding Service started'')
           (c\<lparr>pfw_started := True\<rparr>))))
   | MB_PORT_FORWARDING_STOPPED publishFailure \<Rightarrow> Some (case publishFailure of
       None \<Rightarrow> TaskCompleted c
     | Some b \<Rightarrow> (let c = c\<lparr>pfw_started := False\<rparr> in
         TaskCompleted (if b
           then act (Alert CATEGORY_UNS EVENT_PORT_FORWARDING_SERVICE_UNAVAILABLE ''Port Forwarding Service failed'') c else c)))
   | _ \<Rightarrow> Some (TaskCompleted c))"

text \<open>A task that comes while another is in process is kept; the copy of a data block that is not there is undefined.\<close>

definition ExecuteTask :: "world \<Rightarrow> message \<Rightarrow> configurator \<Rightarrow> configurator option" where
  "ExecuteTask w m c =
     (if m_serviceIsClosed c \<or> m_needToStop c then Some (if \<not> m_inProcess c then TaskCompleted c else c)
      else if \<not> m_inProcess c then run_task w m (c\<lparr>m_inProcess := True\<rparr>)
      else if m = MB_DEVICE_EVENT None \<or> m = MB_CONFIGURATION_CHANGE None \<or> m = MB_PORT_FORWARDING_STOPPED None then None
      else Some (c\<lparr>m_nextTasks := m_nextTasks c @ [m]\<rparr>))"

text \<open>\<^verbatim>\<open>MB_TASK_COMPLETED\<close> up to the next task: the last services depend on a toggled service again.\<close>

definition finish_task :: "configurator \<Rightarrow> configurator" where
  "finish_task c =
     (let c = (if m_onToggleService c
         then c\<lparr>dependencies := (case m_toggeledService c of None \<Rightarrow> dependencies c
             | Some s \<Rightarrow> AddDummyDependencies s (dependencies c)), m_toggeledService := None\<rparr>
         else c)
      in c\<lparr>m_onToggleService := False, m_inProcess := False\<rparr>)"

definition HandleAceMessage :: "world \<Rightarrow> message \<Rightarrow> configurator \<Rightarrow> configurator option" where
  "HandleAceMessage w m c = (case m of
     MB_ME_CONFIGURED \<Rightarrow> Some (act (Alert 1 EVENT_PROVISIONING ''Intel(R) ME configured'') c)
   | MB_SERVICE_STATUS_CHANGED st \<Rightarrow>
       (case st of None \<Rightarrow> Some c | Some (s, status) \<Rightarrow> ChangeServiceState w s status c)
   | MB_TASK_COMPLETED \<Rightarrow>
       (let c = finish_task c in
        case m_nextTasks c of
          [] \<Rightarrow> Some c
        | t # ts \<Rightarrow> ExecuteTask w t (c\<lparr>m_nextTasks := ts\<rparr>))
   | _ \<Rightarrow> ExecuteTask w m c)"

end
