(* ===== verification/Activation_Correct.thy ===== *)
theory Activation_Correct
  imports Dependency_Correct Configurator
begin

text \<open>
  Lemmas on batches. A batch is a sequence of small steps, each of which puts a service on the waiting list or
  operates on a service that is ready; what every step keeps, the batch keeps. With dependencies that follow the
  mount order the recursion ends.
\<close>

subsection \<open>Frames\<close>

lemma act_simps [simp]:
  "services (act a c) = services c" "dependencies (act a c) = dependencies c" "activation (act a c) = activation c"
  "pfw_started (act a c) = pfw_started c" "m_onToggleService (act a c) = m_onToggleService c"
  "m_inProcess (act a c) = m_inProcess c" "m_needToStop (act a c) = m_needToStop c"
  "m_nextTasks (act a c) = m_nextTasks c" "m_serviceIsClosed (act a c) = m_serviceIsClosed c"
  "acts (act a c) = acts c @ [a]"
  by (simp_all add: act_def)

lemma on_services_simps [simp]:
  "services (on_services f c) = f (services c)" "dependencies (on_services f c) = dependencies c"
  "activation (on_services f c) = activation c" "pfw_started (on_services f c) = pfw_started c"
  "m_onToggleService (on_services f c) = m_onToggleService c" "m_inProcess (on_services f c) = m_inProcess c"
  "m_needToStop (on_services f c) = m_needToStop c" "m_nextTasks (on_services f c) = m_nextTasks c"
  "m_serviceIsClosed (on_services f c) = m_serviceIsClosed c" "acts (on_services f c) = acts c"
  by (simp_all add: on_services_def)

lemma TaskCompleted_simps [simp]:
  "services (TaskCompleted c) = services c" "dependencies (TaskCompleted c) = dependencies c"
  "activation (TaskCompleted c) = activation c" "acts (TaskCompleted c) = acts c @ [Queued MB_TASK_COMPLETED]"
  "m_inProcess (TaskCompleted c) = m_inProcess c" "m_onToggleService (TaskCompleted c) = m_onToggleService c"
  by (simp_all add: TaskCompleted_def)

lemma lists_simps [simp]:
  "m_loadedServices (LockService s x) = m_loadedServices x" "m_activeServices (LockService s x) = m_activeServices x"
  "m_servicesToLoad (LockService s x) = m_servicesToLoad x"
  "m_lockedServices (LockService s x) = names_insert s (m_lockedServices x)"
  "m_loadedServices (UnlockService s x) = m_loadedServices x" "m_activeServices (UnlockService s x) = m_activeServices x"
  "m_servicesToLoad (UnlockService s x) = m_servicesToLoad x"
  "m_lockedServices (UnlockService s x) = names_erase s (m_lockedServices x)"
  by (simp_all add: LockService_def UnlockService_def)

lemma IsLocked_simps [simp]:
  "IsLocked t (LockService s x) \<longleftrightarrow> t = s \<or> IsLocked t x" "IsLocked t (UnlockService s x) \<longleftrightarrow> t \<noteq> s \<and> IsLocked t x"
  by (auto simp: IsLocked_def)

lemma SetWaiting_simps [simp]:
  "GetWaiting oper (SetWaiting oper xs a) = xs" "oper \<noteq> oper' \<Longrightarrow> GetWaiting oper' (SetWaiting oper xs a) = GetWaiting oper' a"
  by (cases oper; cases oper'; simp add: GetWaiting_def SetWaiting_def)+

subsection \<open>Small steps\<close>

inductive batch_step :: "world \<Rightarrow> op_type \<Rightarrow> configurator \<Rightarrow> configurator \<Rightarrow> bool" for w oper where
  wait: "\<not> OperationAlreadyDone oper s (services c) \<Longrightarrow> \<not> is_ready oper s c \<Longrightarrow>
    batch_step w oper c
      (c\<lparr>activation := SetWaiting oper (names_insert s (GetWaiting oper (activation c))) (activation c)\<rparr>)"
| operate: "\<not> OperationAlreadyDone oper s (services c) \<Longrightarrow> is_ready oper s c \<Longrightarrow>
    DoOperation w oper s (on_services (LockService s) c) = (ok, c') \<Longrightarrow>
    batch_step w oper c (if ok then c' else on_services (UnlockService s) c')"

abbreviation batch_steps :: "world \<Rightarrow> op_type \<Rightarrow> configurator \<Rightarrow> configurator \<Rightarrow> bool" where
  "batch_steps w oper \<equiv> (batch_step w oper)\<^sup>*\<^sup>*"

lemma execute_steps: "execute n w oper ss ret c = Some (r, c') \<Longrightarrow> batch_steps w oper c c'"
proof (induction n w oper ss ret c arbitrary: r c' rule: execute.induct)
  case (2 n w oper s ss ret c)
  show ?case
  proof (cases "OperationAlreadyDone oper s (services c)")
    case True
    with 2 show ?thesis by simp
  next
    case False
    show ?thesis
    proof (cases "is_ready oper s c")
      case ready: True
      obtain ok c1 where op: "DoOperation w oper s (on_services (LockService s) c) = (ok, c1)" by fastforce
      from batch_step.operate [OF False ready op] have
        "batch_step w oper c (if ok then c1 else on_services (UnlockService s) c1)" .
      moreover have "batch_steps w oper (if ok then c1 else on_services (UnlockService s) c1) c'"
        using 2 False ready op by (auto simp: ReadyToOperation_def split: if_splits)
      ultimately show ?thesis by (rule converse_rtranclp_into_rtranclp)
    next
      case nready: False
      define c1 where "c1 = c\<lparr>activation := SetWaiting oper (names_insert s (GetWaiting oper (activation c))) (activation c)\<rparr>"
      have R: "ReadyToOperation s oper True c = (False, c1)" using nready by (simp add: ReadyToOperation_def c1_def)
      with 2(6) False obtain m where m: "n = Suc m" by (cases n) auto
      from 2(6) False R m obtain r1 c2 where
        rec: "execute m w oper (GetPrerequisites (services c1) s (forwards oper) (dependencies c1)) NOTHING_TO_DO c1 = Some (r1, c2)"
        and rest: "execute n w oper ss (if r1 = FAILURE then FAILURE else worse ret) c2 = Some (r, c')"
        by (auto simp: bind_eq_Some_conv)
      have "batch_steps w oper c1 c2" using 2(2) [OF False R [symmetric] refl _ m rec] by simp
      moreover have "batch_steps w oper c2 c'" using 2(3) [OF False R [symmetric] refl _ m rec refl rest] by simp
      ultimately show ?thesis
        using batch_step.wait [OF False nready, of w, folded c1_def] by (meson converse_rtranclp_into_rtranclp rtranclp_trans)
    qed
  qed
qed simp

lemma batch_keep:
  assumes "\<And>c c'. batch_step w oper c c' \<Longrightarrow> P c \<Longrightarrow> P c'"
  shows "batch_steps w oper c c' \<Longrightarrow> P c \<Longrightarrow> P c'"
  by (induction rule: rtranclp_induct) (auto intro: assms)

subsection \<open>What the operations change\<close>

lemma Fini_frame [simp]:
  "dependencies (FiniAceService s c) = dependencies c" "activation (FiniAceService s c) = activation c"
  by (simp_all add: FiniAceService_def Let_def)

lemma op_frame:
  assumes "DoOperation w oper s c = (ok, c')"
  shows "dependencies c' = dependencies c" "activation c' = activation c"
  using assms
  by (cases oper; auto simp: DoOperation_def StartAceService_def main_start_def StopAceService_def SuspendAceService_def
    ResumeAceService_def split: if_splits option.splits)+

lemma step_dependencies: "batch_step w oper c c' \<Longrightarrow> dependencies c' = dependencies c"
  by (auto elim!: batch_step.cases dest: op_frame)

text \<open>The lists only change in one direction: a batch adds nothing to what is to be loaded, and takes nothing back
  of what its operation waits for.\<close>

definition advances :: "op_type \<Rightarrow> loaded_services \<Rightarrow> loaded_services \<Rightarrow> bool" where
  "advances oper x y \<longleftrightarrow> set (m_servicesToLoad y) \<subseteq> set (m_servicesToLoad x) \<and>
     (\<forall>d. dependency_done oper x d \<longrightarrow> dependency_done oper y d)"

lemma advances_refl [simp]: "advances oper x x"
  by (simp add: advances_def)

lemma advances_lock [simp]:
  "advances oper x (LockService s y) = advances oper x y" "advances oper x (UnlockService s y) = advances oper x y"
  "advances oper (LockService s x) y = advances oper x y"
  by (simp_all add: advances_def dependency_done_def IsLoaded_def IsActive_def cong: op_type.case_cong)

lemma Fini_advances: "advances OP_UNLOAD (services c) (services (FiniAceService s c))"
  by (auto simp: FiniAceService_def Let_def advances_def dependency_done_def IsLoaded_def RemoveService_def
    ClearServicesToLoad_def)

lemma dropped_advances:
  "advances OP_LOAD x (AddServiceToWaitForPfw s (UnlockService s (RemoveServiceToLoad s x)))"
  "advances OP_LOAD x (UnlockService s (RemoveServiceToLoad s x))"
  by (auto simp: advances_def dependency_done_def IsLoaded_def AddServiceToWaitForPfw_def RemoveServiceToLoad_def)

lemma op_advances:
  assumes "DoOperation w oper s c = (ok, c')"
  shows "advances oper (services c) (services c')"
  using assms Fini_advances dropped_advances
  by (cases oper) (auto simp: DoOperation_def StartAceService_def main_start_def StopAceService_def SuspendAceService_def
    ResumeAceService_def split: if_splits option.splits)

lemma step_advances: "batch_step w oper c c' \<Longrightarrow> advances oper (services c) (services c')"
  by (auto elim!: batch_step.cases dest: op_advances)

lemma ready_advances:
  assumes "is_ready oper s c" "advances oper (services c) (services c')" "dependencies c' = dependencies c"
  shows "is_ready oper s c'"
  using assms
  by (auto simp: is_ready_def advances_def GetPrerequisites_def GetServiceDependecies_def GetDependeciesOf_def
    GetCurrentDependencies_def ToBeLoaded_def list_all_iff split: option.splits if_splits)

text \<open>The service an action operates on.\<close>

fun operated :: "action \<Rightarrow> service option" where
  "operated (Started s) = Some s"
| "operated (Stop_sent s b) = Some s"
| "operated (Suspend_sent s) = Some s"
| "operated (Finished s) = Some s"
| "operated (Resumed s) = Some s"
| "operated _ = None"

lemma Fini_acts:
  "\<exists>new. acts (FiniAceService s c) = acts c @ new \<and> (\<forall>a t. a \<in> set new \<longrightarrow> operated a = Some t \<longrightarrow> t = s)"
  by (auto simp: FiniAceService_def Let_def)

lemma op_acts:
  assumes "DoOperation w oper s c = (ok, c')"
  shows "\<exists>new. acts c' = acts c @ new \<and> (\<forall>a t. a \<in> set new \<longrightarrow> operated a = Some t \<longrightarrow> t = s)"
  using assms Fini_acts [of s c]
  by (cases oper) (auto simp: DoOperation_def StartAceService_def main_start_def StopAceService_def SuspendAceService_def
    ResumeAceService_def split: if_splits option.splits)

lemma steps_respect_order:
  assumes "batch_steps w oper c c'"
  shows "advances oper (services c) (services c') \<and> dependencies c' = dependencies c \<and>
    (\<exists>new. acts c' = acts c @ new \<and> (\<forall>a s. a \<in> set new \<longrightarrow> operated a = Some s \<longrightarrow> is_ready oper s c'))"
  using assms
proof (induction rule: rtranclp_induct)
  case (step c1 c2)
  have adv: "advances oper (services c1) (services c2)" "dependencies c2 = dependencies c1"
    using step_advances [OF step.hyps(2)] step_dependencies [OF step.hyps(2)] by simp_all
  have one: "\<exists>new. acts c2 = acts c1 @ new \<and> (\<forall>a s. a \<in> set new \<longrightarrow> operated a = Some s \<longrightarrow> is_ready oper s c1)"
    using step.hyps(2)
  proof cases
    case (operate s ok c')
    from op_acts [OF operate(4)] operate(1,3) show ?thesis by auto
  qed simp
  from one step.IH obtain n1 n2 where
    "acts c1 = acts c @ n1" "\<forall>a s. a \<in> set n1 \<longrightarrow> operated a = Some s \<longrightarrow> is_ready oper s c1"
    "acts c2 = acts c1 @ n2" "\<forall>a s. a \<in> set n2 \<longrightarrow> operated a = Some s \<longrightarrow> is_ready oper s c1" by blast
  then have "acts c2 = acts c @ n1 @ n2" "\<forall>a s. a \<in> set (n1 @ n2) \<longrightarrow> operated a = Some s \<longrightarrow> is_ready oper s c2"
    using ready_advances [OF _ adv] by auto
  moreover have "advances oper (services c) (services c2)"
    using step.IH adv(1) by (auto simp: advances_def)
  ultimately show ?case using step.IH adv(2) by metis
qed simp

subsection \<open>The recursion ends\<close>

text \<open>Dependencies that follow the mount order, as those that are read and those without the last services do.\<close>

definition layered :: "dependency_manager \<Rightarrow> bool" where
  "layered d \<longleftrightarrow> (\<forall>s b. depends_on d s b \<longrightarrow> later s b) \<and> (\<forall>s b. dependent_of d b s \<longrightarrow> later s b)"

definition depth :: "op_type \<Rightarrow> service \<Rightarrow> nat" where
  "depth oper s = (case level s of None \<Rightarrow> 0 | Some j \<Rightarrow> if forwards oper then j else 9 - j)"

lemma depth_bound: "depth oper s < 10"
proof (cases "level s")
  case (Some j)
  have "9 - j < (10::nat)" by arith
  with Some show ?thesis using level_bound [OF Some] by (simp only: depth_def option.case split: if_split) simp
qed (simp add: depth_def)

lemma prerequisites_related:
  assumes "b \<in> set (GetPrerequisites x s fwd d)"
  shows "ToBeLoaded b x" "if fwd then depends_on d s b else dependent_of d s b"
  using assms
  by (auto simp: GetPrerequisites_def GetServiceDependecies_def GetDependeciesOf_def GetCurrentDependencies_def
    depends_on_def dependent_of_def relations_of_def split: if_splits option.splits)

lemma prerequisites_depth:
  assumes "layered d" "b \<in> set (GetPrerequisites x s (forwards oper) d)"
  shows "depth oper b < depth oper s"
proof -
  have "if forwards oper then later s b else later b s"
    using prerequisites_related(2) [OF assms(2)] assms(1) by (auto simp: layered_def split: if_splits)
  then show ?thesis
    using level_bound [of s] level_bound [of b] by (auto simp: depth_def later_def split: if_splits)
qed

lemma execute_defined:
  "layered (dependencies c) \<Longrightarrow> \<forall>s\<in>set ss. depth oper s \<le> n \<Longrightarrow> \<exists>r c'. execute n w oper ss ret c = Some (r, c')"
proof (induction n w oper ss ret c rule: execute.induct)
  case (2 n w oper s ss ret c)
  show ?case
  proof (cases "OperationAlreadyDone oper s (services c)")
    case True
    with 2 show ?thesis by simp
  next
    case False
    show ?thesis
    proof (cases "is_ready oper s c")
      case ready: True
      obtain ok c1 where op: "DoOperation w oper s (on_services (LockService s) c) = (ok, c1)" by fastforce
      have R: "ReadyToOperation s oper True c = (True, c)" using ready by (simp add: ReadyToOperation_def)
      have d: "layered (dependencies c1)" using op_frame(1) [OF op] 2(6) by simp
      show ?thesis
        using 2(4) [OF False R [symmetric] refl _ op [symmetric] refl] 2(5) [OF False R [symmetric] refl _ op [symmetric] refl] 2(7) d False R op
        by (cases ok) auto
    next
      case nready: False
      define c1 where "c1 = c\<lparr>activation := SetWaiting oper (names_insert s (GetWaiting oper (activation c))) (activation c)\<rparr>"
      have R: "ReadyToOperation s oper True c = (False, c1)" using nready by (simp add: ReadyToOperation_def c1_def)
      have d1: "layered (dependencies c1)" using 2(6) by (simp add: c1_def)
      obtain b where "b \<in> set (GetPrerequisites (services c) s (forwards oper) (dependencies c))"
        using nready by (auto simp: is_ready_def list_all_iff)
      from prerequisites_depth [OF 2(6) this] 2(7) obtain m where m: "n = Suc m" by (cases n) auto
      let ?deps = "GetPrerequisites (services c1) s (forwards oper) (dependencies c1)"
      have "\<forall>b\<in>set ?deps. depth oper b \<le> m"
        using prerequisites_depth [OF d1] 2(7) m by fastforce
      then obtain r1 c2 where rec: "execute m w oper ?deps NOTHING_TO_DO c1 = Some (r1, c2)"
        using 2(2) [OF False R [symmetric] refl _ m d1] by auto
      have "layered (dependencies c2)" using steps_respect_order [OF execute_steps [OF rec]] d1 by simp
      then obtain r c' where "execute n w oper ss (if r1 = FAILURE then FAILURE else worse ret) c2 = Some (r, c')"
        using 2(3) [OF False R [symmetric] refl _ m rec refl] 2(7) by auto
      with False R m rec show ?thesis by simp
    qed
  qed
qed simp

lemma Execute_defined: "layered (dependencies c) \<Longrightarrow> \<exists>r c'. Execute w oper ss c = Some (r, c')"
  unfolding Execute_def using depth_bound by (intro execute_defined) (auto simp: order_less_imp_le)

lemma the_layers: "layered the_dependencies"
  by (simp add: layered_def read_relations)

end
