(* ===== verification/Configurator_Correct.thy ===== *)
theory Configurator_Correct
  imports Activation_Correct
begin

text \<open>
  Lemmas on the configurator: the loading of the services of a platform, from the start through the answers of the
  services, and the tasks that are kept while another is in process.
\<close>

subsection \<open>Loading\<close>

text \<open>A service to be loaded is loaded, has been started, or waits for one that is not loaded.\<close>

definition covered :: "service \<Rightarrow> configurator \<Rightarrow> bool" where
  "covered s c \<longleftrightarrow> IsLoaded s (services c) \<or> IsLocked s (services c) \<or>
     s \<in> set (GetWaiting OP_LOAD (activation c)) \<and> \<not> is_ready OP_LOAD s c"

text \<open>The dependencies are in order, and no service to be loaded needs a check or fails to start.\<close>

definition smooth :: "world \<Rightarrow> configurator \<Rightarrow> bool" where
  "smooth w c \<longleftrightarrow> layered (dependencies c) \<and>
     (\<forall>s. ToBeLoaded s (services c) \<longrightarrow> m_checkLoadMap s = None \<and> start_ok w s) \<and>
     (\<forall>s\<in>set (GetWaiting OP_LOAD (activation c)). ToBeLoaded s (services c))"

definition same_load :: "configurator \<Rightarrow> configurator \<Rightarrow> bool" where
  "same_load c c' \<longleftrightarrow> m_loadedServices (services c') = m_loadedServices (services c) \<and>
     m_servicesToLoad (services c') = m_servicesToLoad (services c) \<and> dependencies c' = dependencies c"

lemma same_load_refl [simp]: "same_load c c"
  by (simp add: same_load_def)

lemma same_load_trans: "same_load c c' \<Longrightarrow> same_load c' c'' \<Longrightarrow> same_load c c''"
  by (simp add: same_load_def)

lemma same_load_ready: "same_load c c' \<Longrightarrow> is_ready OP_LOAD s c' = is_ready OP_LOAD s c"
  by (simp add: same_load_def is_ready_def GetPrerequisites_def GetServiceDependecies_def GetCurrentDependencies_def
    ToBeLoaded_def dependency_done_def IsLoaded_def forwards_def list_all_iff)

lemma same_load_simps:
  "same_load c c' \<Longrightarrow> IsLoaded s (services c') = IsLoaded s (services c)"
  "same_load c c' \<Longrightarrow> ToBeLoaded s (services c') = ToBeLoaded s (services c)"
  by (simp_all add: same_load_def IsLoaded_def ToBeLoaded_def)

text \<open>What a step of loading keeps: nothing is loaded yet, no lock is given up, and who waits goes on waiting.\<close>

definition load_step :: "world \<Rightarrow> configurator \<Rightarrow> configurator \<Rightarrow> bool" where
  "load_step w c c' \<longleftrightarrow> same_load c c' \<and> smooth w c' \<and> (\<forall>s. covered s c \<longrightarrow> covered s c')"

lemma load_step_trans: "load_step w c c' \<Longrightarrow> load_step w c' c'' \<Longrightarrow> load_step w c c''"
  by (auto simp: load_step_def intro: same_load_trans)

lemma wait_step:
  assumes "smooth w c" "ToBeLoaded s (services c)" "\<not> is_ready OP_LOAD s c"
  shows "load_step w c (c\<lparr>activation := SetWaiting OP_LOAD (names_insert s (GetWaiting OP_LOAD (activation c))) (activation c)\<rparr>)"
    "covered s (c\<lparr>activation := SetWaiting OP_LOAD (names_insert s (GetWaiting OP_LOAD (activation c))) (activation c)\<rparr>)"
proof -
  let ?c = "c\<lparr>activation := SetWaiting OP_LOAD (names_insert s (GetWaiting OP_LOAD (activation c))) (activation c)\<rparr>"
  have same: "same_load c ?c" by (simp add: same_load_def)
  then show "load_step w c ?c" "covered s ?c"
    using assms same_load_ready [OF same] by (auto simp: load_step_def smooth_def covered_def)
qed

lemma start_step:
  assumes "smooth w c" "ToBeLoaded s (services c)" "\<not> IsLoaded s (services c)"
  obtains c' where "DoOperation w OP_LOAD s (on_services (LockService s) c) = (True, c')" "load_step w c c'" "covered s c'"
proof -
  let ?c = "act (Started s) (on_services (LockService s) c)"
  have same: "same_load c ?c" by (simp add: same_load_def)
  have "DoOperation w OP_LOAD s (on_services (LockService s) c) = (True, ?c)"
    using assms by (auto simp: DoOperation_def StartAceService_def main_start_def smooth_def IsLoaded_def)
  moreover have "load_step w c ?c" "covered s ?c"
    using assms same same_load_ready [OF same] by (auto simp: load_step_def smooth_def covered_def IsLoaded_def ToBeLoaded_def)
  ultimately show ?thesis using that by blast
qed

lemma execute_loads:
  "execute n w OP_LOAD ss ret c = Some (r, c') \<Longrightarrow> smooth w c \<Longrightarrow> \<forall>s\<in>set ss. ToBeLoaded s (services c) \<Longrightarrow>
     load_step w c c' \<and> (\<forall>s\<in>set ss. covered s c')"
proof (induction n w OP_LOAD ss ret c arbitrary: r c' rule: execute.induct)
  case (1 n w ret c)
  then show ?case by (simp add: load_step_def)
next
  case (2 n w s ss ret c)
  note smooth = 2(7)
  have s: "ToBeLoaded s (services c)" and ss: "\<forall>t\<in>set ss. ToBeLoaded t (services c)" using 2(8) by simp_all
  have later: "load_step w c c' \<and> (\<forall>t\<in>set (s # ss). covered t c')"
    if "load_step w c c1" "covered s c1" "load_step w c1 c' \<and> (\<forall>t\<in>set ss. covered t c')" for c1
    using that load_step_trans [of w c c1 c'] by (auto simp: load_step_def)
  have go: "smooth w c1 \<and> (\<forall>t\<in>set ss. ToBeLoaded t (services c1))" if "load_step w c c1" for c1
    using that ss same_load_simps(2) by (auto simp: load_step_def)
  show ?case
  proof (cases "OperationAlreadyDone OP_LOAD s (services c)")
    case True
    have "covered s c" using True by (auto simp: OperationAlreadyDone_def DoneCriteria_def covered_def)
    moreover have "load_step w c c" using smooth by (simp add: load_step_def)
    moreover have "load_step w c c' \<and> (\<forall>t\<in>set ss. covered t c')" using 2(1) [OF True _ smooth ss] 2(6) True by simp
    ultimately show ?thesis using later by blast
  next
    case False
    then have nl: "\<not> IsLoaded s (services c)" by (simp add: OperationAlreadyDone_def DoneCriteria_def)
    show ?thesis
    proof (cases "is_ready OP_LOAD s c")
      case True
      obtain c1 where op: "DoOperation w OP_LOAD s (on_services (LockService s) c) = (True, c1)"
        and c1: "load_step w c c1" "covered s c1" using start_step [OF smooth s nl] by blast
      have R: "ReadyToOperation s OP_LOAD True c = (True, c)" using True by (simp add: ReadyToOperation_def)
      have "execute n w OP_LOAD ss (worse ret) c1 = Some (r, c')" using 2(6) False R op by simp
      from 2(5) [OF False R [symmetric] refl _ op [symmetric] refl _ this] go [OF c1(1)]
      have "load_step w c1 c' \<and> (\<forall>t\<in>set ss. covered t c')" by simp
      with later c1 show ?thesis by blast
    next
      case nready: False
      define c1 where
        "c1 = c\<lparr>activation := SetWaiting OP_LOAD (names_insert s (GetWaiting OP_LOAD (activation c))) (activation c)\<rparr>"
      have c1: "load_step w c c1" "covered s c1" using wait_step [OF smooth s nready] by (simp_all add: c1_def)
      have R: "ReadyToOperation s OP_LOAD True c = (False, c1)" using nready by (simp add: ReadyToOperation_def c1_def)
      with 2(6) False obtain m where m: "n = Suc m" by (cases n) auto
      let ?deps = "GetPrerequisites (services c1) s (forwards OP_LOAD) (dependencies c1)"
      from 2(6) False R m obtain r1 c2 where
        rec: "execute m w OP_LOAD ?deps NOTHING_TO_DO c1 = Some (r1, c2)"
        and rest: "execute n w OP_LOAD ss (if r1 = FAILURE then FAILURE else worse ret) c2 = Some (r, c')"
        by (auto simp: bind_eq_Some_conv)
      have c2: "load_step w c1 c2"
        using 2(2) [OF False R [symmetric] refl _ m rec] go [OF c1(1)] prerequisites_related(1) by auto
      then have "load_step w c c2" "covered s c2" using c1 load_step_trans by (auto simp: load_step_def)
      moreover from this(1) have "load_step w c2 c' \<and> (\<forall>t\<in>set ss. covered t c')"
        using 2(3) [OF False R [symmetric] refl _ m rec refl rest] go [of c2] by simp
      ultimately show ?thesis using later by blast
    qed
  qed
qed

text \<open>The platforms that get the manageability services, which need checks.\<close>

definition manageable :: "configurator \<Rightarrow> bool" where
  "manageable c \<longleftrightarrow> ImageType (m_platform c) = ME_FULL_8MB \<and> Brand (m_platform c) \<in> {BrandAMT, BrandStdMng, BrandL3} \<and>
     bits 2 1 (m_stateData c) \<noteq> 0"

definition names_of :: "configurator \<Rightarrow> service list" where
  "names_of c = FillAbsoluteDependencies (platform_services c) the_dependencies"

lemma plain_services:
  assumes "\<not> manageable c" "s \<in> set (names_of c)"
  shows "m_checkLoadMap s = None"
proof -
  have "s \<in> set (platform_services c) \<or> (\<exists>t\<in>set (platform_services c). s \<in> set (needs t))"
    using assms(2) by (auto simp: names_of_def FillAbsoluteDependencies_set)
  with assms(1) show ?thesis
    by (auto simp: platform_services_def manageable_def Read_group_def event_handlers_def m_checkLoadMap_def split: if_splits)
qed

text \<open>The start of a platform, and then the answers of services that were started.\<close>

inductive loading :: "world \<Rightarrow> configurator \<Rightarrow> configurator \<Rightarrow> bool" for w c where
  start: "start_platform w c = Some c' \<Longrightarrow> loading w c c'"
| answer: "loading w c c' \<Longrightarrow> IsLocked t (services c') \<Longrightarrow> ToBeLoaded t (services c') \<Longrightarrow>
    ChangeServiceState w t STATUS_LOADCOMPLETE c' = Some c'' \<Longrightarrow> loading w c c''"

definition loading_ok :: "world \<Rightarrow> configurator \<Rightarrow> bool" where
  "loading_ok w c \<longleftrightarrow> smooth w c \<and> (\<forall>s. ToBeLoaded s (services c) \<longrightarrow> covered s c)"

definition missing :: "configurator \<Rightarrow> service set" where
  "missing c = {s. ToBeLoaded s (services c) \<and> \<not> IsLoaded s (services c)}"

lemma finite_missing [simp]: "finite (missing c)"
  by (rule finite_subset [OF _ finite_set [of "m_servicesToLoad (services c)"]]) (auto simp: missing_def ToBeLoaded_def)

lemma frame_loading:
  assumes "services c' = services c" "dependencies c' = dependencies c" "activation c' = activation c"
  shows "loading_ok w c' = loading_ok w c" "missing c' = missing c" "covered s c' = covered s c" "smooth w c' = smooth w c"
proof -
  have "same_load c c'" using assms by (simp add: same_load_def)
  then show "covered s c' = covered s c" for s using assms by (simp add: covered_def same_load_ready)
  then show "loading_ok w c' = loading_ok w c" "missing c' = missing c" "smooth w c' = smooth w c"
    using assms by (simp_all add: loading_ok_def missing_def smooth_def)
qed

lemma batch_loads:
  assumes "Execute_or_complete w OP_LOAD ss c = Some (b, c')" "smooth w c" "\<forall>s\<in>set ss. ToBeLoaded s (services c)"
  shows "load_step w c c' \<and> (\<forall>s\<in>set ss. covered s c')"
proof -
  obtain r c1 where 1: "Execute w OP_LOAD ss c = Some (r, c1)" "c' = (if r \<noteq> SUCCESS then TaskCompleted c1 else c1)"
    using assms(1) by (auto simp: Execute_or_complete_def bind_eq_Some_conv split: if_splits)
  from execute_loads [OF 1(1) [unfolded Execute_def] assms(2,3)] have "load_step w c c1 \<and> (\<forall>s\<in>set ss. covered s c1)" .
  then show ?thesis
    using frame_loading(3,4) [of "TaskCompleted c1" c1] 1(2) by (auto simp: load_step_def same_load_def)
qed

lemma start_loading:
  assumes "start_platform w c = Some c'" "dependencies c = the_dependencies" "m_waitForLoad (activation c) = []"
    and "\<not> manageable c" "\<forall>s. start_ok w s"
  shows "loading_ok w c'"
proof -
  let ?c = "on_services (SetServicesToLoad (names_of c)) c"
  have load: "ToBeLoaded s (services ?c) \<longleftrightarrow> s \<in> set (names_of c)" for s
    by (simp add: ToBeLoaded_def SetServicesToLoad_def)
  have smooth: "smooth w ?c"
    using assms the_layers plain_services [OF assms(4)] by (simp add: smooth_def load [simplified] GetWaiting_def)
  from assms(1,2) obtain b c1 where 1: "Execute_or_complete w OP_LOAD (names_of c) ?c = Some (b, c1)" "c' = act Scan_timer_cancelled c1"
    by (auto simp: start_platform_def names_of_def bind_eq_Some_conv Let_def)
  from batch_loads [OF 1(1) smooth] load have "load_step w ?c c1 \<and> (\<forall>s\<in>set (names_of c). covered s c1)" by blast
  then have "loading_ok w c1"
    using load same_load_simps(2) by (auto simp: loading_ok_def load_step_def)
  then show ?thesis using frame_loading(1) [of "act Scan_timer_cancelled c1" c1] 1(2) by simp
qed

text \<open>The answer of a service that has been started, in its parts.\<close>

definition loaded_now :: "service \<Rightarrow> configurator \<Rightarrow> configurator" where
  "loaded_now t c = (let c = on_services (AddService t True) c in
     if m_gotMeiEnabled c \<and> t = STATUS_EVENT_HANDLER
     then act (Alert CATEGORY_UNS EVENT_SERVICE_HECI_ENABLE ''MEI driver enabled'') (c\<lparr>m_gotMeiEnabled := False\<rparr>) else c)"

definition ready_of :: "configurator \<Rightarrow> service list" where
  "ready_of c = filter (\<lambda>s. is_ready OP_LOAD s c) (GetWaiting OP_LOAD (activation c))"

definition still_waiting :: "configurator \<Rightarrow> configurator" where
  "still_waiting c = c\<lparr>activation := SetWaiting OP_LOAD
     (filter (\<lambda>s. s \<notin> set (ready_of c)) (GetWaiting OP_LOAD (activation c))) (activation c)\<rparr>"

lemma load_complete:
  "ChangeServiceState w t STATUS_LOADCOMPLETE c = do {
     c \<leftarrow> refresh w OP_LOAD (t \<in> {LAST_SERVICE, AMT_ENABLE_LAST_SERVICE, WAITING_FOR_PFW_LAST_SERVICE}) (loaded_now t c);
     Some (if m_onToggleService c then TaskCompleted c else c) }"
  by (simp add: ChangeServiceState_def loaded_now_def Let_def)

lemma refresh_parts: "RefreshOnOperation OP_LOAD c = (ready_of c \<noteq> [], ready_of c, still_waiting c)"
  unfolding RefreshOnOperation_def still_waiting_def ready_of_def Let_def by (rule refl)

lemma refresh_load:
  "refresh w OP_LOAD last_one c = (if ready_of c = [] then Some (if last_one then TaskCompleted (still_waiting c) else still_waiting c)
     else map_option snd (Execute_or_complete w OP_LOAD (ready_of c) (still_waiting c)))"
  by (simp add: refresh_def refresh_parts)

lemma loaded_now_simps [simp]:
  "services (loaded_now t c) = AddService t True (services c)" "dependencies (loaded_now t c) = dependencies c"
  "activation (loaded_now t c) = activation c"
  by (simp_all add: loaded_now_def Let_def)

text \<open>The waiting services that become ready are started, the others go on waiting.\<close>

lemma answer_loading:
  assumes ok: "loading_ok w c" and t: "ToBeLoaded t (services c)"
    and e: "ChangeServiceState w t STATUS_LOADCOMPLETE c = Some c'"
  shows "loading_ok w c' \<and> missing c' = missing c - {t}"
proof -
  define c1 where "c1 = loaded_now t c"
  have c1: "services c1 = AddService t True (services c)" "dependencies c1 = dependencies c" "activation c1 = activation c"
    by (simp_all add: c1_def)
  have load: "ToBeLoaded s (services c1) = ToBeLoaded s (services c)"
    "IsLoaded s (services c1) \<longleftrightarrow> s = t \<or> IsLoaded s (services c)"
    "IsLocked s (services c1) \<longleftrightarrow> s \<noteq> t \<and> IsLocked s (services c)" for s
    by (auto simp: c1 AddService_def ToBeLoaded_def IsLoaded_def IsLocked_def)
  define ready where "ready = ready_of c1"
  define c2 where "c2 = still_waiting c1"
  note defs = still_waiting_def [of c1] ready_of_def [of c1]
  have same: "same_load c1 c2" by (simp add: c2_def defs same_load_def)
  have smooth: "smooth w c2"
    using ok load(1) c1 same_load_simps(2) [OF same] by (auto simp: loading_ok_def smooth_def c2_def defs)
  have waiting: "\<forall>s\<in>set ready. ToBeLoaded s (services c2)"
    using ok c1 load(1) same_load_simps(2) [OF same] by (auto simp: loading_ok_def smooth_def ready_def defs)
  have others: "covered s c2 \<or> s \<in> set ready" if "ToBeLoaded s (services c)" for s
  proof -
    have "covered s c" using ok that by (simp add: loading_ok_def)
    then show ?thesis
      using load(2,3) same_load_ready [OF same] c1(3)
      by (auto simp: covered_def same_load_simps [OF same] c2_def ready_def defs)
  qed
  have "\<exists>c3. load_step w c2 c3 \<and> (\<forall>s\<in>set ready. covered s c3) \<and> services c' = services c3 \<and>
      dependencies c' = dependencies c3 \<and> activation c' = activation c3"
  proof (cases "ready = []")
    case True
    have "load_step w c2 c2" using smooth by (simp add: load_step_def)
    moreover have "services c' = services c2 \<and> dependencies c' = dependencies c2 \<and> activation c' = activation c2"
      using e True
      by (auto simp: load_complete refresh_load c1_def [symmetric] ready_def [symmetric] c2_def [symmetric] split: if_splits)
    ultimately show ?thesis using True by auto
  next
    case False
    with e obtain b c3 where 3: "Execute_or_complete w OP_LOAD ready c2 = Some (b, c3)"
      "c' = (if m_onToggleService c3 then TaskCompleted c3 else c3)"
      by (cases "Execute_or_complete w OP_LOAD ready c2")
        (auto simp: load_complete refresh_load c1_def [symmetric] ready_def [symmetric] c2_def [symmetric])
    from batch_loads [OF 3(1) smooth waiting] 3(2) show ?thesis by auto
  qed
  then obtain c3 where 3: "load_step w c2 c3" "\<forall>s\<in>set ready. covered s c3"
    "services c' = services c3" "dependencies c' = dependencies c3" "activation c' = activation c3" by blast
  have "covered s c3" if "ToBeLoaded s (services c)" for s
    using others [OF that] 3(1,2) by (auto simp: load_step_def)
  then have "loading_ok w c3"
    using 3(1) load(1) same_load_simps(2) [OF same] same_load_simps(2) [of c2 c3]
    by (auto simp: loading_ok_def load_step_def)
  moreover have "missing c3 = missing c - {t}"
    using 3(1) load(1,2) same_load_simps [OF same] same_load_simps [of c2 c3] by (auto simp: missing_def load_step_def)
  ultimately show ?thesis using frame_loading(1,2) [OF 3(3-5)] by simp
qed

text \<open>Among the services that are missing, one of the lowest level was started.\<close>

lemma missing_awaited:
  assumes "loading_ok w c" "s \<in> missing c"
  shows "\<exists>t\<in>missing c. IsLocked t (services c)"
  using assms(2)
proof (induction "depth OP_LOAD s" arbitrary: s rule: less_induct)
  case less
  show ?case
  proof (cases "IsLocked s (services c)")
    case False
    with less.prems assms(1) have "\<not> is_ready OP_LOAD s c"
      by (auto simp: loading_ok_def covered_def missing_def)
    then obtain b where b: "b \<in> set (GetPrerequisites (services c) s (forwards OP_LOAD) (dependencies c))"
      "\<not> IsLoaded b (services c)"
      by (auto simp: is_ready_def list_all_iff dependency_done_def)
    have "depth OP_LOAD b < depth OP_LOAD s"
      using prerequisites_depth [OF _ b(1)] assms(1) by (simp add: loading_ok_def smooth_def)
    moreover have "b \<in> missing c" using prerequisites_related(1) [OF b(1)] b(2) by (simp add: missing_def)
    ultimately show ?thesis using less.hyps by blast
  qed (use less.prems in blast)
qed

lemma change_defined:
  assumes "layered (dependencies c)"
  shows "\<exists>c'. ChangeServiceState w t STATUS_LOADCOMPLETE c = Some c'"
proof -
  have batch: "\<exists>b c'. Execute_or_complete w OP_LOAD ss c2 = Some (b, c')" if d: "layered (dependencies c2)" for ss c2
  proof -
    obtain r c' where "Execute w OP_LOAD ss c2 = Some (r, c')" using Execute_defined [OF d] by blast
    then show ?thesis by (auto simp: Execute_or_complete_def)
  qed
  have "layered (dependencies (still_waiting (loaded_now t c)))" using assms by (simp add: still_waiting_def)
  from batch [OF this, of "ready_of (loaded_now t c)"] show ?thesis
    by (auto simp: load_complete refresh_load)
qed

subsection \<open>Tasks\<close>

text \<open>The messages that are tasks, with the data block they should have.\<close>

fun is_task :: "message \<Rightarrow> bool" where
  "is_task MB_ME_CONFIGURED = False"
| "is_task (MB_SERVICE_STATUS_CHANGED st) = False"
| "is_task MB_TASK_COMPLETED = False"
| "is_task (MB_DEVICE_EVENT None) = False"
| "is_task (MB_CONFIGURATION_CHANGE None) = False"
| "is_task (MB_PORT_FORWARDING_STOPPED None) = False"
| "is_task m = True"

lemma task_handled: "is_task m \<Longrightarrow> HandleAceMessage w m c = ExecuteTask w m c"
  by (cases m rule: is_task.cases) (simp_all add: HandleAceMessage_def)

lemma task_deferred:
  assumes "is_task m" "m_inProcess c" "\<not> m_needToStop c" "\<not> m_serviceIsClosed c"
  shows "HandleAceMessage w m c = Some (c\<lparr>m_nextTasks := m_nextTasks c @ [m]\<rparr>)"
proof -
  have "m \<noteq> MB_DEVICE_EVENT None \<and> m \<noteq> MB_CONFIGURATION_CHANGE None \<and> m \<noteq> MB_PORT_FORWARDING_STOPPED None"
    using assms(1) by auto
  with assms show ?thesis by (simp add: task_handled ExecuteTask_def)
qed

lemma tasks_deferred:
  "list_all is_task ms \<Longrightarrow> m_inProcess c \<Longrightarrow> \<not> m_needToStop c \<Longrightarrow> \<not> m_serviceIsClosed c \<Longrightarrow>
     foldM (HandleAceMessage w) ms c = Some (c\<lparr>m_nextTasks := m_nextTasks c @ ms\<rparr>)"
  by (induction ms arbitrary: c) (simp_all add: task_deferred)

lemma finish_simps [simp]:
  "m_nextTasks (finish_task c) = m_nextTasks c" "m_inProcess (finish_task c) = False"
  "m_needToStop (finish_task c) = m_needToStop c" "m_serviceIsClosed (finish_task c) = m_serviceIsClosed c"
  by (simp_all add: finish_task_def Let_def)

lemma finish_frame: "finish_task (c\<lparr>m_nextTasks := ts\<rparr>) = (finish_task c)\<lparr>m_nextTasks := ts\<rparr>"
  by (cases "m_toggeledService c") (simp_all add: finish_task_def Let_def)

subsection \<open>Services that wait for the port forwarding\<close>

definition dropped :: "service \<Rightarrow> loaded_services \<Rightarrow> loaded_services" where
  "dropped s x = AddServiceToWaitForPfw s (UnlockService s (RemoveServiceToLoad s (LockService s x)))"

lemma dropped_lists [simp]:
  "IsLoaded t (dropped s x) = IsLoaded t x" "ToBeLoaded t (dropped s x) \<longleftrightarrow> t \<noteq> s \<and> ToBeLoaded t x"
  "IsLocked t (dropped s x) \<longleftrightarrow> t \<noteq> s \<and> IsLocked t x"
  by (auto simp: dropped_def AddServiceToWaitForPfw_def RemoveServiceToLoad_def IsLoaded_def ToBeLoaded_def IsLocked_def)

lemma ready_if:
  assumes "\<And>b. depends_on (dependencies c) s b \<Longrightarrow> ToBeLoaded b (services c) \<Longrightarrow> IsLoaded b (services c)"
  shows "is_ready OP_LOAD s c"
  using assms prerequisites_related [of _ "services c" s "forwards OP_LOAD" "dependencies c"]
  by (auto simp: is_ready_def list_all_iff dependency_done_def forwards_def)

lemma execute_drops:
  assumes "\<not> IsLoaded s (services c)" "\<not> IsLocked s (services c)" "is_ready OP_LOAD s c" "m_checkLoadMap s \<noteq> None" "\<not> pfw_started c"
  shows "execute n w OP_LOAD (s # ss) ret c = execute n w OP_LOAD ss (worse ret) (on_services (dropped s) c)"
proof -
  have "DoOperation w OP_LOAD s (on_services (LockService s) c) = (True, on_services (dropped s) c)"
    using assms by (auto simp: DoOperation_def StartAceService_def dropped_def on_services_def IsLoaded_def split: option.splits)
  with assms show ?thesis
    by (simp add: OperationAlreadyDone_def DoneCriteria_def ReadyToOperation_def)
qed

lemma execute_done:
  "OperationAlreadyDone oper s (services c) \<Longrightarrow> execute n w oper (s # ss) ret c = execute n w oper ss ret c"
  by simp

lemma layered_subset:
  assumes "layered d" "\<And>s b. depends_on d' s b \<Longrightarrow> depends_on d s b" "\<And>s b. dependent_of d' b s \<Longrightarrow> dependent_of d b s"
  shows "layered d'"
  using assms unfolding layered_def by blast

lemma layered_without_dummies:
  assumes "layered d"
  shows "layered (RemoveDummyDependencies t d)"
proof (rule layered_subset [OF assms])
  have sub: "set (fold removeAll xs ys) \<subseteq> set ys" for xs ys :: "service list"
  proof (induction xs arbitrary: ys)
    case (Cons x xs)
    from Cons [of "removeAll x ys"] show ?case by auto
  qed simp
  show "dependent_of (RemoveDummyDependencies t d) b s \<Longrightarrow> dependent_of d b s" for s b
    using sub by (auto simp: dependent_of_def relations_of_def RemoveDummyDependencies_def split: option.splits if_splits)
  show "depends_on (RemoveDummyDependencies t d) s b \<Longrightarrow> depends_on d s b" for s b
    by (simp add: depends_on_def RemoveDummyDependencies_def split: option.splits)
qed

end
