(* ===== verification/Configurator_Properties.thy ===== *)
theory Configurator_Properties
  imports Configurator_Correct
begin

text \<open>
  The properties of the configurator: batches of operations on services end and respect the order of the services,
  what is loaded includes what it needs, the loading of a platform comes to its end, and tasks are kept in order;
  and a second enabling of AMT leaves the configurator in a task that never ends.
\<close>

subsection \<open>Batches\<close>

text \<open>C22. A batch returns, whatever the services, the operation and the state of the lists: the recursion into the
  services something depends on is at most ten deep, with the dependencies the program reads and also while the last
  services are taken out of them.\<close>

theorem batch_terminates:
  "(\<exists>r c'. Execute w oper ss (c\<lparr>dependencies := the_dependencies\<rparr>) = Some (r, c')) \<and>
   (\<exists>r c'. Execute w oper ss (c\<lparr>dependencies := RemoveDummyDependencies t the_dependencies\<rparr>) = Some (r, c'))"
  using Execute_defined [of "c\<lparr>dependencies := the_dependencies\<rparr>"] the_layers
    Execute_defined [of "c\<lparr>dependencies := RemoveDummyDependencies t the_dependencies\<rparr>"] layered_without_dummies [OF the_layers]
  by simp

text \<open>C19. A batch starts, stops, suspends or resumes a service only when the services of this run that have to go before
  it have done so: for a start and a resumption those it depends on, for a stop and a suspension those that depend
  on it.\<close>

theorem batch_respects_order:
  assumes "Execute w oper ss c = Some (r, c')" and "a \<in> set (drop (length (acts c)) (acts c'))" and "operated a = Some s"
    and "b \<in> set (GetPrerequisites (services c') s (oper = OP_LOAD \<or> oper = OP_RESUME) (dependencies c'))"
  shows "case oper of OP_LOAD \<Rightarrow> IsLoaded b (services c') | OP_UNLOAD \<Rightarrow> \<not> IsLoaded b (services c')
    | OP_RESUME \<Rightarrow> IsActive b (services c') | OP_SUSPEND \<Rightarrow> \<not> IsActive b (services c')"
proof -
  from steps_respect_order [OF execute_steps [OF assms(1) [unfolded Execute_def]]] assms(2,3)
  have "is_ready oper s c'" by auto
  with assms(4) have "dependency_done oper (services c') b"
    by (simp add: is_ready_def list_all_iff forwards_def)
  then show ?thesis by (simp add: dependency_done_def)
qed

definition platform0 :: "u32 \<Rightarrow> MKHI_PLATFORM_TYPE" where
  "platform0 img = \<lparr>Mobile = 0, Desktop = 0, Server = 0, WorkStn = 0, platform_Rsvd2 = 0, PV = 0, SuperSKU = 0, ProdSigned = 0,
     ImageType = img, Brand = 1, CpuType = 0, Chipset = 0, CpuBrandClass = 0, PchNetInfraFuses = 0, platform_Rsvd1 = 0\<rparr>"

definition no_driver :: tee where
  "no_driver = \<lparr>TEE_IS_SUCCESS = (\<lambda>r. r = 0), TEE_CLIENT_NOT_FOUND = 1, TEE_INTERNAL_ERROR = 2, TeeInit = (\<lambda>_. 2),
     TeeConnect = (\<lambda>_. 2), maxMsgLen = 0, TeeWrite = (\<lambda>_. (2, 0)), TeeRead = (\<lambda>_. (2, []))\<rparr>"

definition world0 :: world where
  "world0 = \<lparr>start_ok = (\<lambda>_. True), send_ok = (\<lambda>_. True), resume_ok = (\<lambda>_. True), static_ip = (\<lambda>_. (True, True)),
     time_sync = (\<lambda>_. (True, True)), drivers = (\<lambda>_. no_driver), lme_drivers = (\<lambda>_. no_driver), lstat_ok = (\<lambda>_. True),
     timer_cancelled = True\<rparr>"

text \<open>A state in which all of the given services are loaded.\<close>

definition all_loaded :: "names \<Rightarrow> configurator" where
  "all_loaded ss = (Configurator (platform0 4) 4)\<lparr>services :=
     \<lparr>m_loadedServices = ss, m_activeServices = ss, m_lockedServices = [], m_servicesToLoad = ss, m_servicesToWaitForPfw = []\<rparr>\<rparr>"

lemma batch_respects_order_witness:
  "\<exists>c'. Execute world0 OP_LOAD [EVENT_MANAGER] (on_services (AddServiceToLoad EVENT_MANAGER) (all_loaded [FIRST_SERVICE])) = Some (SUCCESS, c')
     \<and> IsLoaded FIRST_SERVICE (services c')"
proof -
  let ?c = "on_services (AddServiceToLoad EVENT_MANAGER) (all_loaded [FIRST_SERVICE])"
  have d: "depends_on (dependencies ?c) EVENT_MANAGER b \<longleftrightarrow> b = FIRST_SERVICE" for b
    by (cases b) (simp_all add: all_loaded_def Configurator_def read_relations later_def)
  have ready: "is_ready OP_LOAD EVENT_MANAGER ?c"
  proof (rule ready_if)
    fix b
    assume "depends_on (dependencies ?c) EVENT_MANAGER b"
    then have "b = FIRST_SERVICE" by (simp only: d)
    then show "IsLoaded b (services ?c)" by (simp add: all_loaded_def IsLoaded_def AddServiceToLoad_def)
  qed
  let ?c' = "act (Started EVENT_MANAGER) (on_services (LockService EVENT_MANAGER) ?c)"
  have e: "Execute world0 OP_LOAD [EVENT_MANAGER] ?c = Some (SUCCESS, ?c')"
    using ready by (simp add: Execute_def OperationAlreadyDone_def DoneCriteria_def ReadyToOperation_def DoOperation_def
      StartAceService_def main_start_def m_checkLoadMap_def worse_def all_loaded_def AddServiceToLoad_def IsLoaded_def IsLocked_def world0_def)
  have "FIRST_SERVICE \<in> set (relations_of (m_orderDependencies the_dependencies) EVENT_MANAGER)"
    using d [of FIRST_SERVICE] by (simp add: depends_on_def all_loaded_def Configurator_def)
  then have p: "FIRST_SERVICE \<in> set (GetPrerequisites (services ?c') EVENT_MANAGER (OP_LOAD = OP_LOAD \<or> OP_LOAD = OP_RESUME) (dependencies ?c'))"
    by (auto simp: GetPrerequisites_def GetServiceDependecies_def GetCurrentDependencies_def ToBeLoaded_def relations_of_def
      all_loaded_def Configurator_def AddServiceToLoad_def split: option.splits)
  from batch_respects_order [OF e _ _ p, of "Started EVENT_MANAGER"] e show ?thesis by simp
qed

text \<open>What is to be loaded on a platform includes every service that one of its services cannot do without, and
  nothing else is added to the groups of the platform.\<close>

theorem services_to_load_closed:
  "(\<forall>s b. s \<in> set (FillAbsoluteDependencies (platform_services c) the_dependencies) \<and> b \<in> set (needs s)
      \<longrightarrow> b \<in> set (FillAbsoluteDependencies (platform_services c) the_dependencies)) \<and>
   set (FillAbsoluteDependencies (platform_services c) the_dependencies)
     = set (platform_services c) \<union> (\<Union>s\<in>set (platform_services c). set (needs s))"
proof -
  have "b \<in> set (needs s) \<Longrightarrow> needs b = []" for s b by (cases s) auto
  then show ?thesis unfolding FillAbsoluteDependencies_set by (metis (no_types, lifting) UN_E UN_I Un_iff emptyE list.set(1))
qed

lemma services_to_load_closed_witness:
  "set (FillAbsoluteDependencies (platform_services (all_loaded [])) the_dependencies)
     = set (platform_services (all_loaded [])) \<union> (\<Union>s\<in>set (platform_services (all_loaded [])). set (needs s))"
  using services_to_load_closed [of "all_loaded []"] by blast

subsection \<open>Loading a platform\<close>



subsection \<open>Tasks\<close>



text \<open>C24. When AMT is enabled once more after its services were loaded, and the port forwarding does not run, the task
  finds two services that are not loaded, drops both until the port forwarding starts, and ends without a completion:
  nothing was started, so no answer comes either. From then on every task is kept and none is run, the stop of the
  service included.\<close>

theorem second_enable_hangs:
  assumes "dependencies c = the_dependencies" and "\<And>b. ToBeLoaded b (services c) \<Longrightarrow> IsLoaded b (services c)"
    and "IsLoaded POWER_OPERATIONS_SERVICE (services c)" and "IsLoaded AMT_ENABLE_LAST_SERVICE (services c)"
    and "\<not> IsLoaded GMS_SHAREDSTATICIPSERVICE (services c)" and "\<not> IsLoaded GMS_TIMESYNCSERVICE (services c)"
    and "m_lockedServices (services c) = []" and "\<not> pfw_started c"
    and "\<not> m_inProcess c" and "\<not> m_needToStop c" and "\<not> m_serviceIsClosed c" and "list_all is_task ms"
  shows "\<exists>c'. foldM (HandleAceMessage w) (MB_CONFIGURATION_CHANGE (Some (AMT_ENABLE_CONF, 1)) # ms) c = Some c' \<and>
    acts c' = acts c \<and> m_lockedServices (services c') = [] \<and> m_inProcess c' \<and> m_nextTasks c' = m_nextTasks c @ ms"
proof -
  define c1 where "c1 = on_services (fold AddServiceToLoad amt_services) (c\<lparr>m_inProcess := True\<rparr>)"
  have lists: "IsLoaded s (services c1) = IsLoaded s (services c)" "IsLocked s (services c1) \<longleftrightarrow> False"
    "ToBeLoaded s (services c1) \<longleftrightarrow> ToBeLoaded s (services c) \<or> s \<in> set amt_services" for s
    using assms(7) by (auto simp: c1_def amt_services_def Read_group_def AddServiceToLoad_def IsLoaded_def IsLocked_def ToBeLoaded_def)
  have rest: "dependencies c1 = the_dependencies" "\<not> pfw_started c1" "acts c1 = acts c" "m_inProcess c1"
    using assms by (simp_all add: c1_def)
  have before: "b \<notin> set amt_services" if "later s b" "level s = Some 7" for s b
    using that by (auto simp: later_def amt_services_def Read_group_def)
  have ready: "is_ready OP_LOAD s (on_services f c1)"
    if "level s = Some 7" "\<And>b. IsLoaded b (f (services c1)) = IsLoaded b (services c1)"
      "\<And>b. ToBeLoaded b (f (services c1)) \<Longrightarrow> ToBeLoaded b (services c1)" for s f
  proof (rule ready_if)
    fix b
    assume b: "depends_on (dependencies (on_services f c1)) s b" "ToBeLoaded b (services (on_services f c1))"
    then have "b \<notin> set amt_services" using before that(1) by (simp add: rest read_relations)
    moreover have "ToBeLoaded b (services c1)" using b(2) by (simp only: on_services_simps that(3))
    ultimately have "ToBeLoaded b (services c)" using lists(3) by blast
    then show "IsLoaded b (services (on_services f c1))" using that(2) assms(2) by (simp add: lists(1))
  qed
  have ready2: "is_ready OP_LOAD GMS_TIMESYNCSERVICE (on_services (dropped GMS_SHAREDSTATICIPSERVICE) c1)"
    by (rule ready) simp_all
  let ?c2 = "on_services (dropped GMS_SHAREDSTATICIPSERVICE) c1"
  let ?c3 = "on_services (dropped GMS_TIMESYNCSERVICE) ?c2"
  have "execute 10 w OP_LOAD amt_services NOTHING_TO_DO c1 = Some (SUCCESS, ?c3)"
  proof -
    have 1: "execute 10 w OP_LOAD amt_services NOTHING_TO_DO c1
        = execute 10 w OP_LOAD [POWER_OPERATIONS_SERVICE, GMS_TIMESYNCSERVICE, AMT_ENABLE_LAST_SERVICE] SUCCESS ?c2"
      unfolding amt_services_def Read_group_def names_group.case append.simps
      by (subst execute_drops) (use assms lists rest ready [of _ id] in \<open>simp_all add: m_checkLoadMap_def worse_def on_services_def\<close>)
    have 2: "\<dots> = execute 10 w OP_LOAD [GMS_TIMESYNCSERVICE, AMT_ENABLE_LAST_SERVICE] SUCCESS ?c2"
      by (rule execute_done) (use assms lists in \<open>simp add: OperationAlreadyDone_def DoneCriteria_def\<close>)
    have 3: "\<dots> = execute 10 w OP_LOAD [AMT_ENABLE_LAST_SERVICE] SUCCESS ?c3"
      by (subst execute_drops) (use assms lists rest ready2 in \<open>simp_all add: m_checkLoadMap_def worse_def\<close>)
    have 4: "\<dots> = Some (SUCCESS, ?c3)"
      using assms lists by (simp add: OperationAlreadyDone_def DoneCriteria_def)
    show ?thesis using 1 2 3 4 by simp
  qed
  then have "HandleAceMessage w (MB_CONFIGURATION_CHANGE (Some (AMT_ENABLE_CONF, 1))) c = Some ?c3"
    using assms by (simp add: HandleAceMessage_def ExecuteTask_def run_task_def UpdateConfiguration_def Execute_or_complete_def
      Execute_def c1_def)
  moreover have "m_lockedServices (services ?c3) = []"
  proof -
    have "\<not> IsLocked s (services ?c3)" for s using lists(2) by simp
    then show ?thesis by (metis IsLocked_def last_in_set)
  qed
  moreover have "m_nextTasks ?c3 = m_nextTasks c" "m_needToStop ?c3 = m_needToStop c" "m_serviceIsClosed ?c3 = m_serviceIsClosed c"
    by (simp_all add: c1_def)
  ultimately show ?thesis
    using tasks_deferred [OF assms(12), of ?c3 w] assms(10,11) rest by simp
qed

lemma second_enable_hangs_witness:
  "\<exists>c'. foldM (HandleAceMessage world0) [MB_CONFIGURATION_CHANGE (Some (AMT_ENABLE_CONF, 1)), MB_CONFIGURATION_STOP]
      (all_loaded [AMT_ENABLE_LAST_SERVICE, POWER_OPERATIONS_SERVICE]) = Some c' \<and> m_inProcess c' \<and>
    m_nextTasks c' = [MB_CONFIGURATION_STOP]"
proof -
  let ?c = "all_loaded [AMT_ENABLE_LAST_SERVICE, POWER_OPERATIONS_SERVICE]"
  have "list_all is_task [MB_CONFIGURATION_STOP]" by simp
  from second_enable_hangs [OF _ _ _ _ _ _ _ _ _ _ _ this, of ?c world0] show ?thesis
    by (simp add: all_loaded_def Configurator_def IsLoaded_def ToBeLoaded_def) blast
qed

end
