(* ===== verification/Data_Names.thy ===== *)
theory Data_Names
  imports Main "HOL-Library.List_Lexorder" "HOL-Library.Char_ord"
begin

text \<open>
  The names of the stored settings (\<^verbatim>\<open>UNS/GMS_COMMON/DataStorageGenerator.h\<close>) with their places in the store
  (\<^verbatim>\<open>RegistryGenerator.cpp\<close>), and that no two names share a place.
\<close>

subsection \<open>Names\<close>

text \<open>The values that are stored (\<^verbatim>\<open>DATA_NAME\<close>), in the order of \<^verbatim>\<open>DataStorageGenerator.h\<close>.\<close>

datatype (plugins only: size) data_name =
    IMSS_EVENT_HISTORY
  | GetUserInitiatedEnabled_F
  | GetKVMRedirectionState_F
  | CloseUserInitiatedConnection_F
  | GetIMSSEventHistory_F
  | GetAMTVersion_F
  | GetLMSVersion_F
  | GetHeciVersion_F
  | GetProvisioningState_F
  | GetNetworkConnectionStatus_F
  | userInitiatedPolicyRuleExists_F
  | snmpEventSubscriberExists_F
  | CILAFilterCollectionSubscriptionExists_F
  | GetPowerPolicy_F
  | GetLastResetReason_F
  | GetRedirectionStatus_F
  | GetSystemDefenseStatus_F
  | GetNetworkSettings_F
  | GetSystemUUID_F
  | GetIPv6NetworkSettings_F
  | SetSpriteLanguage_F
  | SetSpriteZoom_F
  | GetSpriteParameters_F
  | TerminateRemedySessions_F
  | GetAuditLogs_F
  | GetATDeviceInfo_F
  | GetTheFeatureState_F
  | GetCustomerType_F
  | GetMenageabiltyMode_F
  | GetConfigurationInfo_F
  | GetUserConsentState_F
  | GetWLANLinkInfo_F
  | SetLinkPreferenceToHost_F
  | GetFWInfo_F
  | InitiateUserConnection_F
  | LastLanguageUpdate
  | NETWORK_TRAFFIC_TX_CEASED_V
  | ALLOW_FLASH_UPDATE
  | PARTIAL_FWU_IMAGE_PATH
  | AMT_ENABLE_S
  | SOL_ACTIVE_S
  | IDER_ACTIVE_S
  | KVM_ENABLE_S
  | KVM_SESSION_S
  | SYS_DEF_ACTIVE_S
  | AMT_PROVISIONING_STATE_S
  | ME_ENABLE_S
  | REMOTE_REBOOT_S
  | USER_CONSENT_S
  | CONTROL_MODE_S
  | EAC_ENABLE_S
  | IP_SYNC_ENABLE_S
  | UpdateScreenSettings_F
  | LINK_CONTROL_S
  | LINK_PROTECTION_S
  | GetRedirectionSessionLinkTechnology_F
  | TIME_SYNC_ENABLE_S
  | IsRebootAfterProvisioningNeeded_F
  | OverrideProsetAdapterSwitching
  | UserInitiatedPolicyRuleForLocalMpsExists_F
  | FLogSize
  | GetPMCVersion_F
  | WIFI_PROFILE_SYNC_ENABLE_S
  | LMSLoggingSeverity
  | RebootAfterProvsioningNeeded_S
  | IsMeasuredBootState_F
  | DATA_NAME_MAX_SENTINEL

definition LMS_REG :: string where "LMS_REG = ''IntelAMTUNS_''"
definition AMT_REG_ENTRY_UNS_PREFIX_CREDENTIALS :: string where
  "AMT_REG_ENTRY_UNS_PREFIX_CREDENTIALS = LMS_REG @ ''credentials''"
definition AMT_REG_ENTRY_UNS_PREFIX_AMT_STATE :: string where
  "AMT_REG_ENTRY_UNS_PREFIX_AMT_STATE = LMS_REG @ ''AMT State''"
definition AMT_REG_ENTRY_UNS_PREFIX_EVENT_HISTORY :: string where
  "AMT_REG_ENTRY_UNS_PREFIX_EVENT_HISTORY = LMS_REG @ ''Event History''"
definition AMT_REG_ENTRY_UNS_PREFIX_CONFIG_DATA :: string where
  "AMT_REG_ENTRY_UNS_PREFIX_CONFIG_DATA = LMS_REG @ ''ConfigData''"

text \<open>\<^verbatim>\<open>generateRegMap\<close>: the key and the name of a value. The number behind the last one is within the bounds the
  code tests for, but not in the table.\<close>

primrec regMap :: "data_name \<Rightarrow> (string \<times> string) option" where
  "regMap IMSS_EVENT_HISTORY = Some (AMT_REG_ENTRY_UNS_PREFIX_EVENT_HISTORY, ''IMSS Event History'')"
| "regMap GetUserInitiatedEnabled_F = Some (AMT_REG_ENTRY_UNS_PREFIX_CREDENTIALS, ''GetUserInitiatedEnabled'')"
| "regMap GetKVMRedirectionState_F = Some (AMT_REG_ENTRY_UNS_PREFIX_CREDENTIALS, ''GetKVMRedirectionState'')"
| "regMap CloseUserInitiatedConnection_F = Some (AMT_REG_ENTRY_UNS_PREFIX_CREDENTIALS, ''CloseUserInitiatedConnection'')"
| "regMap GetIMSSEventHistory_F = Some (AMT_REG_ENTRY_UNS_PREFIX_CREDENTIALS, ''GetIMSSEventHistory'')"
| "regMap GetAMTVersion_F = Some (AMT_REG_ENTRY_UNS_PREFIX_CREDENTIALS, ''GetAMTVersion'')"
| "regMap GetLMSVersion_F = Some (AMT_REG_ENTRY_UNS_PREFIX_CREDENTIALS, ''GetLMSVersion'')"
| "regMap GetHeciVersion_F = Some (AMT_REG_ENTRY_UNS_PREFIX_CREDENTIALS, ''GetHeciVersion'')"
| "regMap GetProvisioningState_F = Some (AMT_REG_ENTRY_UNS_PREFIX_CREDENTIALS, ''GetProvisioningState'')"
| "regMap GetNetworkConnectionStatus_F = Some (AMT_REG_ENTRY_UNS_PREFIX_CREDENTIALS, ''GetNetworkConnectionStatus'')"
| "regMap userInitiatedPolicyRuleExists_F = Some (AMT_REG_ENTRY_UNS_PREFIX_CREDENTIALS, ''userInitiatedPolicyRuleExists'')"
| "regMap snmpEventSubscriberExists_F = Some (AMT_REG_ENTRY_UNS_PREFIX_CREDENTIALS, ''snmpEventSubscriberExists'')"
| "regMap CILAFilterCollectionSubscriptionExists_F = Some (AMT_REG_ENTRY_UNS_PREFIX_CREDENTIALS, ''CILAFilterCollectionSubscriptionExists'')"
| "regMap GetPowerPolicy_F = Some (AMT_REG_ENTRY_UNS_PREFIX_CREDENTIALS, ''GetPowerPolicy'')"
| "regMap GetLastResetReason_F = Some (AMT_REG_ENTRY_UNS_PREFIX_CREDENTIALS, ''GetLastResetReason'')"
| "regMap GetRedirectionStatus_F = Some (AMT_REG_ENTRY_UNS_PREFIX_CREDENTIALS, ''GetRedirectionStatus'')"
| "regMap GetSystemDefenseStatus_F = Some (AMT_REG_ENTRY_UNS_PREFIX_CREDENTIALS, ''GetSystemDefenseStatus'')"
| "regMap GetNetworkSettings_F = Some (AMT_REG_ENTRY_UNS_PREFIX_CREDENTIALS, ''GetNetworkSettings'')"
| "regMap GetSystemUUID_F = Some (AMT_REG_ENTRY_UNS_PREFIX_CREDENTIALS, ''GetSystemUUID'')"
| "regMap GetIPv6NetworkSettings_F = Some (AMT_REG_ENTRY_UNS_PREFIX_CREDENTIALS, ''GetIPv6NetworkSettings'')"
| "regMap SetSpriteLanguage_F = Some (AMT_REG_ENTRY_UNS_PREFIX_CREDENTIALS, ''SetSpriteLanguage'')"
| "regMap SetSpriteZoom_F = Some (AMT_REG_ENTRY_UNS_PREFIX_CREDENTIALS, ''SetSpriteZoom'')"
| "regMap GetSpriteParameters_F = Some (AMT_REG_ENTRY_UNS_PREFIX_CREDENTIALS, ''GetSpriteParameters'')"
| "regMap TerminateRemedySessions_F = Some (AMT_REG_ENTRY_UNS_PREFIX_CREDENTIALS, ''TerminateRemedySessions'')"
| "regMap GetAuditLogs_F = Some (AMT_REG_ENTRY_UNS_PREFIX_CREDENTIALS, ''GetAuditLogs'')"
| "regMap GetATDeviceInfo_F = Some (AMT_REG_ENTRY_UNS_PREFIX_CREDENTIALS, ''GetATDeviceInfo'')"
| "regMap GetTheFeatureState_F = Some (AMT_REG_ENTRY_UNS_PREFIX_CREDENTIALS, ''GetTheFeatureState'')"
| "regMap GetCustomerType_F = Some (AMT_REG_ENTRY_UNS_PREFIX_CREDENTIALS, ''GetCustomerType'')"
| "regMap GetMenageabiltyMode_F = Some (AMT_REG_ENTRY_UNS_PREFIX_CREDENTIALS, ''GetMenageabiltyMode'')"
| "regMap GetConfigurationInfo_F = Some (AMT_REG_ENTRY_UNS_PREFIX_CREDENTIALS, ''GetConfigurationInfo'')"
| "regMap GetUserConsentState_F = Some (AMT_REG_ENTRY_UNS_PREFIX_CREDENTIALS, ''GetUserConsentState'')"
| "regMap GetWLANLinkInfo_F = Some (AMT_REG_ENTRY_UNS_PREFIX_CREDENTIALS, ''GetWLANLinkInfo'')"
| "regMap SetLinkPreferenceToHost_F = Some (AMT_REG_ENTRY_UNS_PREFIX_CREDENTIALS, ''SetLinkPreferenceToHost'')"
| "regMap GetFWInfo_F = Some (AMT_REG_ENTRY_UNS_PREFIX_CREDENTIALS, ''GetFWInfo'')"
| "regMap InitiateUserConnection_F = Some (AMT_REG_ENTRY_UNS_PREFIX_CREDENTIALS, ''InitiateUserConnection'')"
| "regMap LastLanguageUpdate = Some (LMS_REG, ''LastLanguageUpdate'')"
| "regMap NETWORK_TRAFFIC_TX_CEASED_V = Some (AMT_REG_ENTRY_UNS_PREFIX_CONFIG_DATA, ''NETWORK_TRAFFIC_TX_CEASED'')"
| "regMap ALLOW_FLASH_UPDATE = Some (LMS_REG, ''AllowFlashUpdate'')"
| "regMap PARTIAL_FWU_IMAGE_PATH = Some (LMS_REG, ''PartialFWUImagePath'')"
| "regMap AMT_ENABLE_S = Some (AMT_REG_ENTRY_UNS_PREFIX_AMT_STATE, ''AMT Enable'')"
| "regMap SOL_ACTIVE_S = Some (AMT_REG_ENTRY_UNS_PREFIX_AMT_STATE, ''SOL ACTIVE'')"
| "regMap IDER_ACTIVE_S = Some (AMT_REG_ENTRY_UNS_PREFIX_AMT_STATE, ''IDER ACTIVE'')"
| "regMap KVM_ENABLE_S = Some (AMT_REG_ENTRY_UNS_PREFIX_AMT_STATE, ''KVM ENABLE'')"
| "regMap KVM_SESSION_S = Some (AMT_REG_ENTRY_UNS_PREFIX_AMT_STATE, ''KVM SESSION'')"
| "regMap SYS_DEF_ACTIVE_S = Some (AMT_REG_ENTRY_UNS_PREFIX_AMT_STATE, ''System Defence ACTIVE'')"
| "regMap AMT_PROVISIONING_STATE_S = Some (AMT_REG_ENTRY_UNS_PREFIX_AMT_STATE, ''AMT PROVISIONING STATE'')"
| "regMap ME_ENABLE_S = Some (AMT_REG_ENTRY_UNS_PREFIX_AMT_STATE, ''ME Enable'')"
| "regMap REMOTE_REBOOT_S = Some (AMT_REG_ENTRY_UNS_PREFIX_AMT_STATE, ''REMOTE REBOOT'')"
| "regMap USER_CONSENT_S = Some (AMT_REG_ENTRY_UNS_PREFIX_AMT_STATE, ''USER CONSENT STATE'')"
| "regMap CONTROL_MODE_S = Some (AMT_REG_ENTRY_UNS_PREFIX_AMT_STATE, ''Control Mode'')"
| "regMap EAC_ENABLE_S = Some (AMT_REG_ENTRY_UNS_PREFIX_AMT_STATE, ''EAC Enable'')"
| "regMap IP_SYNC_ENABLE_S = Some (AMT_REG_ENTRY_UNS_PREFIX_AMT_STATE, ''IP SYNC ENABLE'')"
| "regMap UpdateScreenSettings_F = Some (AMT_REG_ENTRY_UNS_PREFIX_CREDENTIALS, ''UpdateScreenSettings'')"
| "regMap LINK_CONTROL_S = Some (AMT_REG_ENTRY_UNS_PREFIX_AMT_STATE, ''Link Control'')"
| "regMap LINK_PROTECTION_S = Some (AMT_REG_ENTRY_UNS_PREFIX_AMT_STATE, ''Link Protection'')"
| "regMap GetRedirectionSessionLinkTechnology_F = Some (AMT_REG_ENTRY_UNS_PREFIX_CREDENTIALS, ''GetRedirectionSessionLinkTechnology'')"
| "regMap TIME_SYNC_ENABLE_S = Some (AMT_REG_ENTRY_UNS_PREFIX_AMT_STATE, ''Time Sync Enable'')"
| "regMap IsRebootAfterProvisioningNeeded_F = Some (AMT_REG_ENTRY_UNS_PREFIX_CREDENTIALS, ''IsRebootAfterProvisioningNeeded'')"
| "regMap OverrideProsetAdapterSwitching = Some (LMS_REG, ''OverrideProsetAdapterSwitching'')"
| "regMap UserInitiatedPolicyRuleForLocalMpsExists_F = Some (AMT_REG_ENTRY_UNS_PREFIX_CREDENTIALS, ''UserInitiatedPolicyRuleForLocalMpsExists'')"
| "regMap FLogSize = Some (AMT_REG_ENTRY_UNS_PREFIX_CREDENTIALS, ''FLogSize'')"
| "regMap GetPMCVersion_F = Some (AMT_REG_ENTRY_UNS_PREFIX_CREDENTIALS, ''GetPMCVersion'')"
| "regMap WIFI_PROFILE_SYNC_ENABLE_S = Some (AMT_REG_ENTRY_UNS_PREFIX_AMT_STATE, ''WIFI_PROFILE_SYNC_ENABLE'')"
| "regMap LMSLoggingSeverity = Some (LMS_REG, ''LMSLoggingSeverity'')"
| "regMap RebootAfterProvsioningNeeded_S = Some (AMT_REG_ENTRY_UNS_PREFIX_AMT_STATE, ''RebootAfterProvsioningNeeded'')"
| "regMap IsMeasuredBootState_F = Some (AMT_REG_ENTRY_UNS_PREFIX_CREDENTIALS, ''GetMeasuredBootState'')"
| "regMap DATA_NAME_MAX_SENTINEL = None"

definition generateMajorSubKeys :: "string list" where
  "generateMajorSubKeys = [LMS_REG]"

subsection \<open>No two names share a place\<close>

text \<open>The key of the cache (\<^verbatim>\<open>RegistryCache.h\<close>).\<close>

definition cacheKey :: "string \<Rightarrow> string \<Rightarrow> string" where
  "cacheKey key valuename = key @ ''_'' @ valuename"

text \<open>The names in the order of their cache keys.\<close>

definition sorted_names :: "data_name list" where
  "sorted_names = [AMT_ENABLE_S, AMT_PROVISIONING_STATE_S, CONTROL_MODE_S, EAC_ENABLE_S, IDER_ACTIVE_S,
     IP_SYNC_ENABLE_S, KVM_ENABLE_S, KVM_SESSION_S, LINK_CONTROL_S, LINK_PROTECTION_S, ME_ENABLE_S,
     REMOTE_REBOOT_S, RebootAfterProvsioningNeeded_S, SOL_ACTIVE_S, SYS_DEF_ACTIVE_S, TIME_SYNC_ENABLE_S,
     USER_CONSENT_S, WIFI_PROFILE_SYNC_ENABLE_S, NETWORK_TRAFFIC_TX_CEASED_V, IMSS_EVENT_HISTORY,
     ALLOW_FLASH_UPDATE, LMSLoggingSeverity, LastLanguageUpdate, OverrideProsetAdapterSwitching,
     PARTIAL_FWU_IMAGE_PATH, CILAFilterCollectionSubscriptionExists_F, CloseUserInitiatedConnection_F,
     FLogSize, GetAMTVersion_F, GetATDeviceInfo_F, GetAuditLogs_F, GetConfigurationInfo_F, GetCustomerType_F,
     GetFWInfo_F, GetHeciVersion_F, GetIMSSEventHistory_F, GetIPv6NetworkSettings_F, GetKVMRedirectionState_F,
     GetLMSVersion_F, GetLastResetReason_F, IsMeasuredBootState_F, GetMenageabiltyMode_F,
     GetNetworkConnectionStatus_F, GetNetworkSettings_F, GetPMCVersion_F, GetPowerPolicy_F,
     GetProvisioningState_F, GetRedirectionSessionLinkTechnology_F, GetRedirectionStatus_F,
     GetSpriteParameters_F, GetSystemDefenseStatus_F, GetSystemUUID_F, GetTheFeatureState_F,
     GetUserConsentState_F, GetUserInitiatedEnabled_F, GetWLANLinkInfo_F, InitiateUserConnection_F,
     IsRebootAfterProvisioningNeeded_F, SetLinkPreferenceToHost_F, SetSpriteLanguage_F, SetSpriteZoom_F,
     TerminateRemedySessions_F, UpdateScreenSettings_F, UserInitiatedPolicyRuleForLocalMpsExists_F,
     snmpEventSubscriberExists_F, userInitiatedPolicyRuleExists_F]"

primrec name_key :: "data_name list \<Rightarrow> string list" where
  "name_key [] = []"
| "name_key (n # ns) = (case regMap n of None \<Rightarrow> name_key ns | Some e \<Rightarrow> cacheKey (fst e) (snd e) # name_key ns)"

lemma all_names_sorted: "n = DATA_NAME_MAX_SENTINEL \<or> n \<in> set sorted_names"
  by (cases n) (simp_all add: sorted_names_def)

lemma keys_sorted: "successively (<) (name_key sorted_names)"
  by (simp add: sorted_names_def cacheKey_def LMS_REG_def AMT_REG_ENTRY_UNS_PREFIX_CREDENTIALS_def
      AMT_REG_ENTRY_UNS_PREFIX_AMT_STATE_def AMT_REG_ENTRY_UNS_PREFIX_EVENT_HISTORY_def
      AMT_REG_ENTRY_UNS_PREFIX_CONFIG_DATA_def less_char_def)

lemma keys_without_slash: "regMap n = Some e \<Longrightarrow> CHR ''/'' \<notin> set (fst e)"
  by (cases n) (auto simp: LMS_REG_def AMT_REG_ENTRY_UNS_PREFIX_CREDENTIALS_def
      AMT_REG_ENTRY_UNS_PREFIX_AMT_STATE_def AMT_REG_ENTRY_UNS_PREFIX_EVENT_HISTORY_def
      AMT_REG_ENTRY_UNS_PREFIX_CONFIG_DATA_def)

lemma name_key_in: "n \<in> set ns \<Longrightarrow> regMap n = Some e \<Longrightarrow> cacheKey (fst e) (snd e) \<in> set (name_key ns)"
  by (induction ns) (auto split: option.splits)

lemma name_key_inj:
  assumes "distinct (name_key ns)" "n \<in> set ns" "m \<in> set ns" "regMap n = Some e" "regMap m = Some f"
    "cacheKey (fst e) (snd e) = cacheKey (fst f) (snd f)"
  shows "n = m"
  using assms by (induction ns) (auto split: option.splits dest: name_key_in)

lemma cacheKey_inj:
  assumes "regMap n = Some e" "regMap m = Some f" "cacheKey (fst e) (snd e) = cacheKey (fst f) (snd f)"
  shows "n = m"
proof (rule name_key_inj)
  show "distinct (name_key sorted_names)"
    using keys_sorted by (simp add: successively_conv_sorted_wrt strict_sorted_iff)
  show "n \<in> set sorted_names" "m \<in> set sorted_names"
    using assms all_names_sorted [of n] all_names_sorted [of m] by auto
qed (rule assms)+

lemma slash_split:
  "CHR ''/'' \<notin> set xs \<Longrightarrow> CHR ''/'' \<notin> set ys \<Longrightarrow> xs @ ''/'' @ us = ys @ ''/'' @ vs \<Longrightarrow> xs = ys \<and> us = vs"
proof (induction xs arbitrary: ys)
  case Nil
  then show ?case by (cases ys) auto
next
  case (Cons x xs)
  then show ?case by (cases ys) auto
qed

lemma place_inj:
  assumes "regMap n = Some e" "regMap m = Some f" "fst e @ ''/'' @ snd e = fst f @ ''/'' @ snd f"
  shows "n = m"
  using slash_split [OF keys_without_slash [OF assms(1)] keys_without_slash [OF assms(2)] assms(3)] cacheKey_inj [OF assms(1,2)]
  by simp

end
