(* ===== verification/Registry.thy ===== *)
theory Registry
  imports Mei_Parser Data_Names
begin

text \<open>
  The store of the manager's settings on Linux: \<^verbatim>\<open>UNS/GMS_COMMON/RegistryStorage.cpp\<close> over the files of
  \<^verbatim>\<open>LinuxRegistryStorage.cpp\<close>, with the cache of \<^verbatim>\<open>RegistryCache.h\<close>. A value is a file below a position; its text is
  the decimal number of the type with the bytes of the value directly behind it. The files are a map from paths to
  their bytes; what the system calls of a write answer is a record.
\<close>

subsection \<open>Bytes\<close>

definition put64 :: "u64 \<Rightarrow> bytes" where
  "put64 w = put32 (ucast w) @ put32 (ucast (drop_bit 32 w))"

definition get64 :: "bytes \<Rightarrow> u64" where
  "get64 bs = ucast (get32 bs) OR push_bit 32 (ucast (get32 (drop 4 bs)))"

definition is_space :: "u8 \<Rightarrow> bool" where
  "is_space b \<longleftrightarrow> b = 32 \<or> 9 \<le> b \<and> b \<le> 13"

definition is_digit :: "u8 \<Rightarrow> bool" where
  "is_digit b \<longleftrightarrow> 48 \<le> b \<and> b \<le> 57"

text \<open>\<^verbatim>\<open>operator<<\<close> and \<^verbatim>\<open>operator>>\<close> of a stream for an \<^verbatim>\<open>unsigned long\<close>. The second gives the number and the rest, if
  it succeeds and the end was not reached.\<close>

fun decimal :: "nat \<Rightarrow> bytes" where
  "decimal n = (if n < 10 then [of_nat (48 + n)] else decimal (n div 10) @ [of_nat (48 + n mod 10)])"

declare decimal.simps [simp del]

definition number_of :: "bytes \<Rightarrow> nat" where
  "number_of ds = fold (\<lambda>d v. 10 * v + (unat d - 48)) ds 0"

definition read_unsigned :: "bytes \<Rightarrow> (u64 \<times> bytes) option" where
  "read_unsigned bs =
     (let ws = dropWhile is_space bs;
          negative = (ws \<noteq> [] \<and> hd ws = 45);
          ds = (if ws \<noteq> [] \<and> hd ws \<in> {43, 45} then tl ws else ws);
          num = takeWhile is_digit ds; rest = dropWhile is_digit ds; v = number_of num
      in if num = [] \<or> 2 ^ 64 \<le> v \<or> rest = [] then None
         else Some (if negative then - of_nat v else of_nat v, rest))"

subsection \<open>Files\<close>

record registry =
  position :: string
  files :: "string \<Rightarrow> bytes option"
  regCache :: "string \<Rightarrow> (bytes \<times> u64) option"

text \<open>The position, from the variable \<^verbatim>\<open>SNAP_COMMON\<close>. \<^verbatim>\<open>PATH_MAX\<close> is 4096.\<close>

definition GetLmsRegPosition :: "string option \<Rightarrow> string" where
  "GetLmsRegPosition env = (case env of
     None \<Rightarrow> ''/etc/lms/''
   | Some path \<Rightarrow>
       (let tmp = path @ ''/'' in
        if hd tmp = CHR ''/'' \<and> \<not> list_ex (\<lambda>i. take 2 (drop i tmp) = ''..'') [0..<length tmp] \<and> length tmp \<le> 4096
        then tmp else ''/etc/lms/''))"

definition file_path :: "registry \<Rightarrow> string \<Rightarrow> string \<Rightarrow> string" where
  "file_path r key valuename = position r @ key @ ''/'' @ valuename"

definition MAX_DATA :: nat where "MAX_DATA = 8192"

text \<open>A buffer is \<^verbatim>\<open>NULL\<close> or a block whose size is \<^verbatim>\<open>*valsz\<close>. The answer has the size, the block and the type.\<close>

type_synonym reg_answer = "nat \<times> bytes option \<times> u64"

definition copy_into :: "bytes \<Rightarrow> bytes \<Rightarrow> bytes" where
  "copy_into data buf = data @ drop (length data) buf"

definition answer_with :: "bytes \<Rightarrow> u64 \<Rightarrow> bytes option \<Rightarrow> reg_answer option" where
  "answer_with data type value = (case value of
     None \<Rightarrow> Some (length data, None, type)
   | Some buf \<Rightarrow> if length buf < length data then None else Some (length buf, Some (copy_into data buf), type))"

definition read_file :: "string \<Rightarrow> string \<Rightarrow> bytes option \<Rightarrow> registry \<Rightarrow> reg_answer option" where
  "read_file key valuename value r = (case files r (file_path r key valuename) of
     None \<Rightarrow> None
   | Some content \<Rightarrow> (case read_unsigned content of
         None \<Rightarrow> None
       | Some (type, data) \<Rightarrow> if MAX_DATA \<le> length data then None else answer_with data type value))"

text \<open>What a write meets: whether the directories are there or made, whether the file opens, the stream after the
  type and after the value, and, if not everything gets there, how many bytes reach the file.\<close>

record write_answer =
  dirs_ok :: bool
  open_ok :: bool
  type_good :: bool
  data_good :: bool
  reach :: "nat option"

definition write_file :: "write_answer \<Rightarrow> bytes \<Rightarrow> u64 \<Rightarrow> string \<Rightarrow> string \<Rightarrow> registry \<Rightarrow> bool \<times> registry" where
  "write_file a value type key valuename r =
     (if \<not> dirs_ok a \<or> \<not> open_ok a then (False, r)
      else let out = decimal (unat type) @ (if type_good a then value else []);
               content = (case reach a of None \<Rightarrow> out | Some n \<Rightarrow> take n out)
        in (type_good a \<and> data_good a, r\<lparr>files := (files r)(file_path r key valuename \<mapsto> content)\<rparr>))"

definition remove_file :: "string \<Rightarrow> registry \<Rightarrow> bool \<times> registry" where
  "remove_file path r = (files r path \<noteq> None, r\<lparr>files := (files r)(path := None)\<rparr>)"

definition DeleteRegistryKey :: "string \<Rightarrow> registry \<Rightarrow> bool \<times> registry" where
  "DeleteRegistryKey key r = remove_file (position r @ key) r"

definition DeleteRegistryVal :: "string \<Rightarrow> string \<Rightarrow> registry \<Rightarrow> bool \<times> registry" where
  "DeleteRegistryVal key valuename r = remove_file (file_path r key valuename) r"

subsection \<open>The cache\<close>

definition cache_GetData :: "string \<Rightarrow> string \<Rightarrow> bytes option \<Rightarrow> registry \<Rightarrow> reg_answer option" where
  "cache_GetData key valuename value r = (case regCache r (cacheKey key valuename) of
     None \<Rightarrow> None
   | Some (data, type) \<Rightarrow> answer_with data type value)"

definition cache_SetData :: "bytes \<Rightarrow> u64 \<Rightarrow> string \<Rightarrow> string \<Rightarrow> registry \<Rightarrow> registry" where
  "cache_SetData value type key valuename r = r\<lparr>regCache := (regCache r)(cacheKey key valuename \<mapsto> (value, type))\<rparr>"

definition cache_DeleteData :: "string \<Rightarrow> string \<Rightarrow> registry \<Rightarrow> registry" where
  "cache_DeleteData key valuename r = r\<lparr>regCache := (regCache r)(cacheKey key valuename := None)\<rparr>"

subsection \<open>The store\<close>

definition GetRegistryData :: "bool \<Rightarrow> string \<Rightarrow> string \<Rightarrow> bytes option \<Rightarrow> registry \<Rightarrow> reg_answer option \<times> registry" where
  "GetRegistryData withCache key valuename value r =
     (case (if withCache then cache_GetData key valuename value r else None) of
        Some x \<Rightarrow> (Some x, r)
      | None \<Rightarrow> (case read_file key valuename value r of
            None \<Rightarrow> (None, r)
          | Some (valsz, buf, type) \<Rightarrow>
              (Some (valsz, buf, type),
               case buf of None \<Rightarrow> r | Some d \<Rightarrow> if withCache then cache_SetData d type key valuename r else r)))"

definition SetRegistryData ::
  "write_answer \<Rightarrow> bool \<Rightarrow> bytes \<Rightarrow> u64 \<Rightarrow> string \<Rightarrow> string \<Rightarrow> registry \<Rightarrow> bool \<times> registry" where
  "SetRegistryData a withCache value type key valuename r =
     (if value = [] then (False, r)
      else let (ok, r) = write_file a value type key valuename r
        in (ok, if withCache \<and> ok then cache_SetData value type key valuename r else r))"

definition DeleteRegEntry :: "string \<times> string \<Rightarrow> registry \<Rightarrow> bool \<times> registry" where
  "DeleteRegEntry e r = DeleteRegistryVal (fst e) (snd e) (cache_DeleteData (fst e) (snd e) r)"

definition VAL_STR :: u64 where "VAL_STR = 1"
definition VAL_ULONG :: u64 where "VAL_ULONG = 4"

text \<open>The operations by name: \<^term>\<open>None\<close> is the exception of \<^verbatim>\<open>at\<close>.\<close>

definition CleanDataStorage :: "registry \<Rightarrow> bool \<times> registry" where
  "CleanDataStorage = (\<lambda>r. fold (\<lambda>key (ok, r). let (done', r) = DeleteRegistryKey key r in (ok \<and> done', r))
     generateMajorSubKeys (True, r))"

definition DeleteDataVal :: "data_name \<Rightarrow> registry \<Rightarrow> (bool \<times> registry) option" where
  "DeleteDataVal name r = do { e \<leftarrow> regMap name; Some (DeleteRegEntry e r) }"

definition ValueExists :: "data_name \<Rightarrow> registry \<Rightarrow> (bool \<times> registry) option" where
  "ValueExists name r = do {
     (key, vn) \<leftarrow> regMap name;
     let (x, r) = GetRegistryData False key vn None r;
     Some (x \<noteq> None, r) }"

text \<open>A number: the result, and the caller's variable, which is written before the type is looked at.\<close>

definition GetDataValue :: "data_name \<Rightarrow> u64 \<Rightarrow> bool \<Rightarrow> registry \<Rightarrow> (bool \<times> u64 \<times> registry) option" where
  "GetDataValue name value withCache r = do {
     (key, vn) \<leftarrow> regMap name;
     Some (case GetRegistryData withCache key vn (Some (put64 value)) r of
         (Some (_, Some buf, type), r) \<Rightarrow> (type = VAL_ULONG, get64 buf, r)
       | (_, r) \<Rightarrow> (False, value, r)) }"

text \<open>A string: its size is asked for first; \<open>junk\<close> fills the block that is allocated for it.\<close>

definition GetDataValue_string :: "data_name \<Rightarrow> (nat \<Rightarrow> u8) \<Rightarrow> bytes \<Rightarrow> bool \<Rightarrow> registry \<Rightarrow> (bool \<times> bytes \<times> registry) option" where
  "GetDataValue_string name junk value withCache r = do {
     (key, vn) \<leftarrow> regMap name;
     Some (case GetRegistryData withCache key vn None r of
         (None, r) \<Rightarrow> (False, value, r)
       | (Some (valsz, _, type), r) \<Rightarrow>
           if type \<noteq> VAL_STR then (False, value, r)
           else (case GetRegistryData withCache key vn (Some (map junk [0..<valsz])) r of
               (Some (_, Some buf, _), r) \<Rightarrow> (True, takeWhile (\<lambda>b. b \<noteq> 0) buf, r)
             | (_, r) \<Rightarrow> (False, value, r))) }"

text \<open>A string of 32-bit characters: the last of the block is overwritten by the terminator.\<close>

definition wide_chars :: "bytes \<Rightarrow> u32 list" where
  "wide_chars bs = map (\<lambda>i. get32 (drop (4 * i) bs)) [0..<length bs div 4]"

definition GetDataValue_wstring ::
  "data_name \<Rightarrow> (nat \<Rightarrow> u8) \<Rightarrow> u32 list \<Rightarrow> bool \<Rightarrow> registry \<Rightarrow> (bool \<times> u32 list \<times> registry) option" where
  "GetDataValue_wstring name junk value withCache r = do {
     (key, vn) \<leftarrow> regMap name;
     Some (case GetRegistryData withCache key vn None r of
         (None, r) \<Rightarrow> (False, value, r)
       | (Some (valsz, _, type), r) \<Rightarrow>
           if type \<noteq> VAL_STR then (False, value, r)
           else (case GetRegistryData withCache key vn (Some (map junk [0..<valsz])) r of
               (Some (_, Some buf, _), r) \<Rightarrow> (True, takeWhile (\<lambda>c. c \<noteq> 0) (wide_chars buf), r)
             | (_, r) \<Rightarrow> (False, value, r))) }"

definition SetDataValue :: "write_answer \<Rightarrow> data_name \<Rightarrow> u64 \<Rightarrow> bool \<Rightarrow> registry \<Rightarrow> (bool \<times> registry) option" where
  "SetDataValue a name value withCache r = do {
     (key, vn) \<leftarrow> regMap name;
     Some (SetRegistryData a withCache (put64 value) VAL_ULONG key vn r) }"

text \<open>\<^verbatim>\<open>c_str\<close> with \<^verbatim>\<open>size() + 1\<close>: the terminator is stored.\<close>

definition SetDataValue_string :: "write_answer \<Rightarrow> data_name \<Rightarrow> bytes \<Rightarrow> bool \<Rightarrow> registry \<Rightarrow> (bool \<times> registry) option" where
  "SetDataValue_string a name value withCache r = do {
     (key, vn) \<leftarrow> regMap name;
     Some (SetRegistryData a withCache (value @ [0]) VAL_STR key vn r) }"

definition SetDataValue_wstring :: "write_answer \<Rightarrow> data_name \<Rightarrow> u32 list \<Rightarrow> bool \<Rightarrow> registry \<Rightarrow> (bool \<times> registry) option" where
  "SetDataValue_wstring a name value withCache r = do {
     (key, vn) \<leftarrow> regMap name;
     Some (SetRegistryData a withCache (concat (map put32 (value @ [0]))) VAL_STR key vn r) }"

text \<open>\<^verbatim>\<open>GetFromRegistry\<close> of \<^verbatim>\<open>UNSRegistry.cpp\<close> reads the type and then the value as a decimal number up to the end of the
  file. The result and the caller's variable.\<close>

definition GetFromRegistry :: "string \<Rightarrow> string \<Rightarrow> u64 \<Rightarrow> registry \<Rightarrow> bool \<times> u64" where
  "GetFromRegistry folder key defval r = (case files r (file_path r (LMS_REG @ folder) key) of
     None \<Rightarrow> (False, defval)
   | Some content \<Rightarrow> (case read_unsigned content of
         None \<Rightarrow> (False, defval)
       | Some (_, rest) \<Rightarrow>
           (let ws = dropWhile is_space rest;
                negative = (ws \<noteq> [] \<and> hd ws = 45);
                ds = (if ws \<noteq> [] \<and> hd ws \<in> {43, 45} then tl ws else ws);
                v = number_of (takeWhile is_digit ds)
            in (dropWhile is_digit ds = [],
                if ws = [] then defval
                else if takeWhile is_digit ds = [] then 0
                else if 2 ^ 64 \<le> v then - 1
                else if negative then - of_nat v else of_nat v))))"

end
