(* ===== verification/Registry_Correct.thy ===== *)
theory Registry_Correct
  imports Registry Mei_Parser_Correct
begin

text \<open>
  What the store of settings keeps: numbers printed in decimal are read back up to the next byte that is not a digit, a
  write that succeeds is what the cache and, if its first byte is not a digit, the file answer; and no operation on one
  name touches the place of another. The promise of the cache is the locale \<open>value_store\<close>.
\<close>

subsection \<open>Decimal numbers\<close>

lemma number_of_Nil [simp]: "number_of [] = 0"
  by (simp add: number_of_def)

lemma number_of_snoc: "number_of (ds @ [d]) = 10 * number_of ds + (unat d - 48)"
  by (simp add: number_of_def)

lemma digit_byte: "k < 10 \<Longrightarrow> unat (of_nat (48 + k) :: u8) = 48 + k"
  by (subst unat_of_nat) simp

lemma digit_is_digit: "k < 10 \<Longrightarrow> is_digit (of_nat (48 + k))"
  using digit_byte [of k] by (simp add: is_digit_def word_le_nat_alt)

lemma decimal_digits: "list_all is_digit (decimal n)"
proof (induction n rule: decimal.induct)
  case (1 n)
  show ?case
  proof (cases "n < 10")
    case True
    then show ?thesis using digit_is_digit [of n] by (simp add: decimal.simps [of n])
  next
    case False
    then show ?thesis using 1 digit_is_digit [of "n mod 10"] by (simp add: decimal.simps [of n])
  qed
qed

lemma decimal_not_Nil [simp]: "decimal n \<noteq> []"
  by (subst decimal.simps) simp

lemma number_of_decimal [simp]: "number_of (decimal n) = n"
proof (induction n rule: decimal.induct)
  case (1 n)
  show ?case
  proof (cases "n < 10")
    case True
    then show ?thesis using number_of_snoc [of "[]" "of_nat (48 + n)"] digit_byte [of n] by (simp add: decimal.simps [of n])
  next
    case False
    then show ?thesis
      using 1 number_of_snoc [of "decimal (n div 10)" "of_nat (48 + n mod 10)"] digit_byte [of "n mod 10"]
      by (simp add: decimal.simps [of n])
  qed
qed

lemma number_of_grows: "number_of ds * 10 ^ length es \<le> number_of (ds @ es)"
proof (induction es rule: rev_induct)
  case Nil
  then show ?case by simp
next
  case (snoc e es)
  then show ?case using number_of_snoc [of "ds @ es" e] by simp
qed

lemma digit_not_other: "is_digit b \<Longrightarrow> \<not> is_space b \<and> b \<notin> {43, 45}"
proof -
  assume "is_digit b"
  then have "48 \<le> unat b" "unat b \<le> 57" by (simp_all add: is_digit_def word_le_nat_alt)
  moreover have "is_space b \<longleftrightarrow> unat b = 32 \<or> 9 \<le> unat b \<and> unat b \<le> 13"
    by (auto simp: is_space_def word_le_nat_alt word_unat_eq_iff)
  moreover have "b \<in> {43, 45} \<longleftrightarrow> unat b = 43 \<or> unat b = 45" by (auto simp: word_unat_eq_iff)
  ultimately show ?thesis by auto
qed

text \<open>What the extraction of a number makes of a text that begins with a digit.\<close>

lemma read_unsigned_digits:
  assumes "list_all is_digit ds" "ds \<noteq> []"
  shows "read_unsigned (ds @ rest) =
    (let num = ds @ takeWhile is_digit rest; left = dropWhile is_digit rest
     in if 2 ^ 64 \<le> number_of num \<or> left = [] then None else Some (of_nat (number_of num), left))"
proof -
  obtain d es where ds: "ds = d # es" using assms(2) by (cases ds) auto
  with assms(1) digit_not_other [of d] have d: "is_digit d" "\<not> is_space d" "d \<notin> {43, 45}" "d \<noteq> 43" "d \<noteq> 45" by auto
  have all: "\<forall>x\<in>set ds. is_digit x" using assms(1) by (simp add: list_all_iff)
  have start: "dropWhile is_space (ds @ rest) = ds @ rest" "hd (ds @ rest) = d" using ds d by simp_all
  have cut: "takeWhile is_digit (ds @ rest) = ds @ takeWhile is_digit rest" "dropWhile is_digit (ds @ rest) = dropWhile is_digit rest"
    using all by (simp_all add: takeWhile_append2 dropWhile_append2)
  show ?thesis using assms(2) d by (simp add: read_unsigned_def Let_def start cut del: dropWhile_eq_Nil_conv)
qed

lemma read_unsigned_decimal:
  assumes "\<not> is_digit d"
  shows "read_unsigned (decimal (unat (t :: u64)) @ d # ds) = Some (t, d # ds)"
  using read_unsigned_digits [OF decimal_digits decimal_not_Nil, of "unat t" "d # ds"] assms unat_less_64 [of t]
  by (simp add: Let_def)

text \<open>A digit behind the number becomes part of it.\<close>

lemma read_unsigned_swallows:
  assumes "is_digit d" "1 \<le> unat (t :: u64)" "read_unsigned (decimal (unat t) @ d # ds) = Some (u, left)"
  shows "10 * unat t \<le> unat u"
proof -
  let ?num = "decimal (unat t) @ d # takeWhile is_digit ds"
  from assms(1,3) read_unsigned_digits [OF decimal_digits decimal_not_Nil, of "unat t" "d # ds"]
  have "number_of ?num < 2 ^ 64" "u = of_nat (number_of ?num)" by (auto simp: Let_def split: if_splits)
  then have u: "unat u = number_of ?num" by (simp add: unat_of_nat_64)
  have "unat t * 10 ^ length (d # takeWhile is_digit ds) \<le> number_of ?num"
    using number_of_grows [of "decimal (unat t)" "d # takeWhile is_digit ds"] by simp
  moreover have "10 * unat t \<le> unat t * 10 ^ length (d # takeWhile is_digit ds)" by simp
  ultimately show ?thesis using u by linarith
qed

subsection \<open>The bytes of a number\<close>

lemma length_put64 [simp]: "length (put64 w) = 8"
  by (simp add: put64_def)

lemma get64_put64 [simp]: "get64 (put64 w @ rest) = w"
proof -
  have "get64 (put64 w @ rest) = ucast (ucast w :: u32) OR push_bit 32 (ucast (ucast (drop_bit 32 w) :: u32))"
    by (simp add: get64_def put64_def)
  also have "\<dots> = w" by (rule bit_word_eqI) (auto simp: bit_simps)
  finally show ?thesis .
qed

lemma put64_Cons: "put64 w = ucast w # tl (put64 w)"
  by (simp add: put64_def put32_def) (rule bit_word_eqI; auto simp: bit_simps)

subsection \<open>One place\<close>

text \<open>A write that meets no failure, and a restart of the service, which loses the cache.\<close>

definition honest :: "write_answer \<Rightarrow> bool" where
  "honest a \<longleftrightarrow> dirs_ok a \<and> open_ok a \<and> type_good a \<and> data_good a \<and> reach a = None"

definition restart :: "registry \<Rightarrow> registry" where
  "restart r = r\<lparr>regCache := \<lambda>_. None\<rparr>"

lemma write_honest:
  "honest a \<Longrightarrow> write_file a value type key vn r =
    (True, r\<lparr>files := (files r)(file_path r key vn \<mapsto> decimal (unat type) @ value)\<rparr>)"
  by (simp add: write_file_def honest_def)

lemma file_path_fields [simp]:
  "file_path (r\<lparr>files := f\<rparr>) = file_path r" "file_path (r\<lparr>regCache := c\<rparr>) = file_path r"
  by (simp_all add: file_path_def fun_eq_iff)

lemma set_honest:
  assumes "honest a" "value \<noteq> []"
  shows "SetRegistryData a c value type key vn r =
    (True, (if c then cache_SetData value type key vn else id)
       (r\<lparr>files := (files r)(file_path r key vn \<mapsto> decimal (unat type) @ value)\<rparr>))"
  using assms by (simp add: SetRegistryData_def write_honest)

text \<open>What is found after a restart where a write was the last.\<close>

lemma read_after_restart:
  assumes "honest a" "value \<noteq> []"
  shows "read_file key vn x (restart (snd (SetRegistryData a c value type key vn r))) =
    (case read_unsigned (decimal (unat type) @ value) of None \<Rightarrow> None
     | Some (t, data) \<Rightarrow> if MAX_DATA \<le> length data then None else answer_with data t x)"
  using assms by (simp add: set_honest read_file_def restart_def cache_SetData_def)

lemma get_without_cache:
  assumes "regCache r = (\<lambda>_. None)"
  shows "fst (GetRegistryData c key vn x r) = read_file key vn x r"
  using assms by (auto simp: GetRegistryData_def cache_GetData_def split: option.splits)

lemma restart_empty [simp]: "regCache (restart r) = (\<lambda>_. None)"
  by (simp add: restart_def)

lemma read_file_restart [simp]: "read_file key vn x (r\<lparr>regCache := c\<rparr>) = read_file key vn x r"
  by (simp add: read_file_def cong: option.case_cong)

lemma get_none:
  assumes "regCache r = (\<lambda>_. None)" "read_file key vn x r = None"
  shows "GetRegistryData c key vn x r = (None, r)"
  using assms by (simp add: GetRegistryData_def cache_GetData_def)

text \<open>A number that was written without a failure, after a restart: the answer depends on its low byte alone.\<close>

lemma GetDataValue_found:
  assumes "regMap name = Some (key, vn)" "GetDataValue name old d r = Some (found, w, r')"
  shows "found \<longleftrightarrow> (\<exists>n buf. fst (GetRegistryData d key vn (Some (put64 old)) r) = Some (n, Some buf, VAL_ULONG))"
    and "fst (GetRegistryData d key vn (Some (put64 old)) r) = Some (n, Some buf, VAL_ULONG) \<Longrightarrow> w = get64 buf"
  using assms
  by (auto simp: GetDataValue_def split: prod.splits option.splits)

lemma number_read_again:
  assumes "honest a" "\<not> is_digit (ucast v)"
  shows "read_file key vn (Some (put64 old)) (restart (snd (SetRegistryData a c (put64 v) VAL_ULONG key vn r)))
    = Some (8, Some (put64 v), VAL_ULONG)"
proof -
  have "read_unsigned (decimal (unat VAL_ULONG) @ put64 v) = Some (VAL_ULONG, put64 v)"
    by (subst (1 2) put64_Cons) (rule read_unsigned_decimal [OF assms(2)])
  moreover have "put64 v \<noteq> []" by (subst put64_Cons) simp
  ultimately show ?thesis
    using assms(1) by (simp add: read_after_restart MAX_DATA_def answer_with_def copy_into_def)
qed

lemma value_lost:
  assumes "honest a" "is_digit d" "1 \<le> unat type"
    and "read_file key vn x (restart (snd (SetRegistryData a c (d # ds) type key vn r))) = Some (n, buf, t)"
  shows "t \<noteq> type"
proof -
  from assms(1,4) obtain data where "read_unsigned (decimal (unat type) @ d # ds) = Some (t, data)"
    by (auto simp: read_after_restart answer_with_def split: option.splits if_splits)
  with read_unsigned_swallows [OF assms(2,3)] have "10 * unat type \<le> unat t" by blast
  with assms(3) show ?thesis by auto
qed

lemma number_swallowed:
  assumes "honest a" "is_digit (ucast v)"
    and "read_file key vn x (restart (snd (SetRegistryData a c (put64 v) VAL_ULONG key vn r))) = Some (n, buf, t)"
  shows "t \<noteq> VAL_ULONG"
  using value_lost [OF assms(1,2), of VAL_ULONG key vn x c "tl (put64 v)" r n buf t] assms(3) put64_Cons [of v, symmetric]
  by (simp add: VAL_ULONG_def)

text \<open>A string likewise; one of 8191 characters or more is not read back either.\<close>

lemma string_read_again:
  assumes "honest a" "\<not> is_digit (hd (s @ [0]))"
  shows "read_file key vn x (restart (snd (SetRegistryData a c (s @ [0]) VAL_STR key vn r)))
    = (if 8192 \<le> length s + 1 then None else answer_with (s @ [0]) VAL_STR x)"
proof -
  have "s @ [0] = hd (s @ [0]) # tl (s @ [0])" by (cases s) simp_all
  then have "read_unsigned (decimal (unat VAL_STR) @ s @ [0]) = Some (VAL_STR, s @ [0])"
    using read_unsigned_decimal [OF assms(2), of VAL_STR "tl (s @ [0])"] by simp
  with assms(1) show ?thesis by (simp add: read_after_restart MAX_DATA_def)
qed

lemma string_swallowed:
  assumes "honest a" "is_digit (hd (s @ [0]))"
    and "read_file key vn x (restart (snd (SetRegistryData a c (s @ [0]) VAL_STR key vn r))) = Some (n, buf, t)"
  shows "t \<noteq> VAL_STR"
proof -
  have "s @ [0] = hd (s @ [0]) # tl (s @ [0])" by (cases s) simp_all
  with value_lost [OF assms(1,2), of VAL_STR key vn x c "tl (s @ [0])" r n buf t] assms(3) show ?thesis
    by (simp add: VAL_STR_def)
qed

subsection \<open>The promise of the cache\<close>

text \<open>
  A store with operations, of which some set what is known of a name: \<open>effect\<close> is \<^term>\<open>None\<close> for those that leave a
  name alone. What is known is kept until an operation sets it.
\<close>

locale value_store =
  fixes step :: "'op \<Rightarrow> 's \<Rightarrow> 's"
    and lookup :: "'s \<Rightarrow> 'n \<Rightarrow> 'v option"
    and effect :: "'n \<Rightarrow> 'op \<Rightarrow> 'v option option"
  assumes set_by: "effect n op = Some x \<Longrightarrow> lookup (step op s) n = x"
    and kept: "effect n op = None \<Longrightarrow> lookup s n = Some v \<Longrightarrow> lookup (step op s) n = Some v"
begin

lemma kept_all: "list_all (\<lambda>op. effect n op = None) ops \<Longrightarrow> lookup s n = Some v \<Longrightarrow> lookup (fold step ops s) n = Some v"
  by (induction ops arbitrary: s) (simp_all add: kept)

lemma last_effect:
  assumes "effect n op = Some (Some v)" "list_all (\<lambda>op. effect n op = None) later"
  shows "lookup (fold step (earlier @ op # later) s) n = Some v"
  using kept_all [OF assms(2) set_by [OF assms(1)]] by simp

end

text \<open>The operations on the registry, by name, with their arguments.\<close>

datatype reg_op =
    SetNumber write_answer data_name u64 bool
  | SetText write_answer data_name bytes bool
  | GetNumber data_name u64 bool
  | GetText data_name "nat \<Rightarrow> u8" bytes bool
  | Exists data_name
  | Remove data_name
  | Clean

primrec reg_step :: "reg_op \<Rightarrow> registry \<Rightarrow> registry" where
  "reg_step (SetNumber a n v c) r = (case SetDataValue a n v c r of None \<Rightarrow> r | Some (_, r) \<Rightarrow> r)"
| "reg_step (SetText a n v c) r = (case SetDataValue_string a n v c r of None \<Rightarrow> r | Some (_, r) \<Rightarrow> r)"
| "reg_step (GetNumber n v c) r = (case GetDataValue n v c r of None \<Rightarrow> r | Some (_, _, r) \<Rightarrow> r)"
| "reg_step (GetText n junk v c) r = (case GetDataValue_string n junk v c r of None \<Rightarrow> r | Some (_, _, r) \<Rightarrow> r)"
| "reg_step (Exists n) r = (case ValueExists n r of None \<Rightarrow> r | Some (_, r) \<Rightarrow> r)"
| "reg_step (Remove n) r = (case DeleteDataVal n r of None \<Rightarrow> r | Some (_, r) \<Rightarrow> r)"
| "reg_step Clean r = snd (CleanDataStorage r)"

definition succeeds :: "write_answer \<Rightarrow> bool" where
  "succeeds a \<longleftrightarrow> dirs_ok a \<and> open_ok a \<and> type_good a \<and> data_good a"

text \<open>What the operations make of the number the cache knows under a name.\<close>

primrec reg_effect :: "data_name \<Rightarrow> reg_op \<Rightarrow> u64 option option" where
  "reg_effect n (SetNumber a m v c) = (if m = n \<and> c \<and> succeeds a \<and> regMap n \<noteq> None then Some (Some v) else None)"
| "reg_effect n (SetText a m v c) = (if m = n \<and> c \<and> succeeds a then Some None else None)"
| "reg_effect n (GetNumber m v c) = None"
| "reg_effect n (GetText m junk v c) = None"
| "reg_effect n (Exists m) = None"
| "reg_effect n (Remove m) = (if m = n then Some None else None)"
| "reg_effect n Clean = None"

definition cached_number :: "registry \<Rightarrow> data_name \<Rightarrow> u64 option" where
  "cached_number r n = (case regMap n of
     None \<Rightarrow> None
   | Some (key, vn) \<Rightarrow> (case regCache r (cacheKey key vn) of
         None \<Rightarrow> None
       | Some (data, type) \<Rightarrow> if type = VAL_ULONG \<and> length data = 8 then Some (get64 data) else None))"

lemma cached_number_Some:
  "cached_number r n = Some v \<longleftrightarrow> (\<exists>key vn data. regMap n = Some (key, vn) \<and>
     regCache r (cacheKey key vn) = Some (data, VAL_ULONG) \<and> length data = 8 \<and> v = get64 data)"
  by (auto simp: cached_number_def split: option.splits if_splits)

text \<open>An operation that changes one entry of the cache.\<close>

lemma cached_other:
  assumes "regMap m = Some (key, vn)" "m \<noteq> n" "\<And>k. k \<noteq> cacheKey key vn \<Longrightarrow> regCache r' k = regCache r k"
  shows "cached_number r' n = cached_number r n"
proof -
  have "regCache r' (cacheKey k v) = regCache r (cacheKey k v)" if "regMap n = Some (k, v)" for k v
    using cacheKey_inj [OF assms(1) that] assms(2,3) by fastforce
  then show ?thesis by (auto simp: cached_number_def split: option.splits)
qed

lemma cached_same: "regCache r' = regCache r \<Longrightarrow> cached_number r' n = cached_number r n"
  by (simp add: cached_number_def split: option.split)

lemma write_file_ok: "fst (write_file a v t key vn r) \<longleftrightarrow> succeeds a"
  by (auto simp: write_file_def succeeds_def Let_def)

lemma write_file_cache: "regCache (snd (write_file a v t key vn r)) = regCache r"
  by (simp add: write_file_def Let_def)

lemma SetRegistryData_cache:
  "regCache (snd (SetRegistryData a c v t key vn r)) =
    (if v \<noteq> [] \<and> c \<and> succeeds a then (regCache r)(cacheKey key vn \<mapsto> (v, t)) else regCache r)"
  using write_file_ok [of a v t key vn r] write_file_cache [of a v t key vn r]
  by (auto simp: SetRegistryData_def cache_SetData_def split: prod.split)

lemma GetRegistryData_cache_other:
  "k \<noteq> cacheKey key vn \<Longrightarrow> regCache (snd (GetRegistryData c key vn x r)) k = regCache r k"
  by (auto simp: GetRegistryData_def cache_SetData_def split: option.split)

lemma GetRegistryData_hit:
  assumes "regCache r (cacheKey key vn) = Some (data, t)" "case x of None \<Rightarrow> True | Some buf \<Rightarrow> length data \<le> length buf"
  shows "snd (GetRegistryData c key vn x r) = r"
    and "c \<Longrightarrow> fst (GetRegistryData c key vn x r) = answer_with data t x"
  using assms by (auto simp: GetRegistryData_def cache_GetData_def answer_with_def split: option.splits)

lemma GetRegistryData_uncached [simp]: "snd (GetRegistryData False key vn x r) = r" "snd (GetRegistryData c key vn None r) = r"
  by (auto simp: GetRegistryData_def read_file_def answer_with_def split: option.splits if_splits)

text \<open>Every operation works on the entry of its name.\<close>

definition reads_name :: "data_name \<Rightarrow> registry \<Rightarrow> registry \<Rightarrow> bool" where
  "reads_name n r r' \<longleftrightarrow> (\<forall>m. cached_number r m \<noteq> None \<longrightarrow> cached_number r' m = cached_number r m)"

lemma reads_nameI:
  assumes "regMap n = Some (key, vn)" "\<And>k. k \<noteq> cacheKey key vn \<Longrightarrow> regCache r' k = regCache r k"
    "\<And>data. regCache r (cacheKey key vn) = Some (data, VAL_ULONG) \<Longrightarrow> length data = 8 \<Longrightarrow> r' = r"
  shows "reads_name n r r'"
  unfolding reads_name_def
proof (intro allI impI)
  fix m assume m: "cached_number r m \<noteq> None"
  show "cached_number r' m = cached_number r m"
  proof (cases "m = n")
    case True
    with m assms(1) obtain data where "regCache r (cacheKey key vn) = Some (data, VAL_ULONG)" "length data = 8"
      by (auto simp: cached_number_Some)
    then show ?thesis by (simp add: assms(3))
  next
    case False
    then show ?thesis using cached_other [OF assms(1) _ assms(2)] by simp
  qed
qed

lemma reads_name_same [simp]: "reads_name n r r"
  by (simp add: reads_name_def)

lemma GetDataValue_reads:
  assumes "GetDataValue n v c r = Some (x, w, r')" shows "reads_name n r r'"
proof -
  from assms obtain key vn where n: "regMap n = Some (key, vn)" by (auto simp: GetDataValue_def split: option.splits bind_splits)
  with assms have r': "r' = snd (GetRegistryData c key vn (Some (put64 v)) r)"
    by (auto simp: GetDataValue_def split: prod.splits option.splits)
  show ?thesis unfolding r'
  proof (rule reads_nameI [OF n])
    fix k assume "k \<noteq> cacheKey key vn"
    then show "regCache (snd (GetRegistryData c key vn (Some (put64 v)) r)) k = regCache r k"
      by (rule GetRegistryData_cache_other)
  next
    fix data assume "regCache r (cacheKey key vn) = Some (data, VAL_ULONG)" "length data = 8"
    then show "snd (GetRegistryData c key vn (Some (put64 v)) r) = r" by (intro GetRegistryData_hit(1)) auto
  qed
qed

lemma GetDataValue_string_reads:
  assumes "GetDataValue_string n junk v c r = Some (x, w, r')" shows "reads_name n r r'"
proof -
  from assms obtain key vn where n: "regMap n = Some (key, vn)"
    by (auto simp: GetDataValue_string_def split: option.splits bind_splits)
  obtain q where q: "GetRegistryData c key vn None r = (q, r)"
    using GetRegistryData_uncached(2) [of c key vn r] by (metis prod.collapse)
  consider "r' = r" | valsz buf where "q = Some (valsz, buf, VAL_STR)"
      "r' = snd (GetRegistryData c key vn (Some (map junk [0..<valsz])) r)"
    using assms n q
    by (cases q) (auto simp: GetDataValue_string_def split: prod.splits option.splits if_splits)
  then show ?thesis
  proof cases
    case (2 valsz buf)
    show ?thesis unfolding 2(2)
    proof (rule reads_nameI [OF n])
      fix k assume "k \<noteq> cacheKey key vn"
      then show "regCache (snd (GetRegistryData c key vn (Some (map junk [0..<valsz])) r)) k = regCache r k"
        by (rule GetRegistryData_cache_other)
    next
      fix data assume hit: "regCache r (cacheKey key vn) = Some (data, VAL_ULONG)"
      then have "\<not> c" using 2(1) q GetRegistryData_hit(2) [OF hit, of None c] by (auto simp: answer_with_def VAL_STR_def VAL_ULONG_def)
      then show "snd (GetRegistryData c key vn (Some (map junk [0..<valsz])) r) = r" by simp
    qed
  qed simp
qed

lemma ValueExists_reads: "ValueExists n r = Some (x, r') \<Longrightarrow> r' = r"
  by (auto simp: ValueExists_def split: bind_splits prod.splits dest: arg_cong [where f = snd])

lemma CleanDataStorage_cache: "regCache (snd (CleanDataStorage r)) = regCache r"
  by (simp add: CleanDataStorage_def generateMajorSubKeys_def DeleteRegistryKey_def remove_file_def)

lemma SetDataValue_cache:
  assumes "SetDataValue a n v c r = Some (ok, r')" "regMap n = Some (key, vn)"
  shows "regCache r' = (if c \<and> succeeds a then (regCache r)(cacheKey key vn \<mapsto> (put64 v, VAL_ULONG)) else regCache r)"
proof -
  have "put64 v \<noteq> []" by (subst put64_Cons) simp
  then show ?thesis
    using assms SetRegistryData_cache [of a c "put64 v" VAL_ULONG key vn r] by (auto simp: SetDataValue_def)
qed

lemma SetDataValue_string_cache:
  assumes "SetDataValue_string a n v c r = Some (ok, r')" "regMap n = Some (key, vn)"
  shows "regCache r' = (if c \<and> succeeds a then (regCache r)(cacheKey key vn \<mapsto> (v @ [0], VAL_STR)) else regCache r)"
  using assms SetRegistryData_cache [of a c "v @ [0]" VAL_STR key vn r] by (auto simp: SetDataValue_string_def)

lemma DeleteDataVal_cache:
  assumes "DeleteDataVal n r = Some (ok, r')" "regMap n = Some (key, vn)"
  shows "regCache r' = (regCache r)(cacheKey key vn := None)"
  using assms
  by (auto simp: DeleteDataVal_def DeleteRegEntry_def DeleteRegistryVal_def remove_file_def cache_DeleteData_def)

lemma get64_put64_end [simp]: "get64 (put64 w) = w"
  using get64_put64 [of w "[]"] by simp

lemma reads_name_kept: "reads_name n r r' \<Longrightarrow> cached_number r m = Some v \<Longrightarrow> cached_number r' m = Some v"
  by (simp add: reads_name_def)

text \<open>A step writes at most the entry of its name.\<close>

lemma reg_effect_set:
  assumes "reg_effect n op = Some x" shows "cached_number (reg_step op r) n = x"
proof (cases op)
  case (SetNumber a m v c)
  with assms obtain key vn where n: "m = n" "c" "succeeds a" "x = Some v" "regMap n = Some (key, vn)"
    by (auto split: if_splits)
  obtain ok r' where done': "SetDataValue a n v True r = Some (ok, r')" using n(5) by (cases "SetDataValue a n v True r") (auto simp: SetDataValue_def)
  from SetDataValue_cache [OF done' n(5)] n show ?thesis by (simp add: SetNumber done' cached_number_def)
next
  case (SetText a m v c)
  with assms have n: "m = n" "c = True" "succeeds a" "x = None" by (auto split: if_splits)
  show ?thesis
  proof (cases "SetDataValue_string a n v c r")
    case None
    then have "regMap n = None" by (cases "regMap n") (auto simp: SetDataValue_string_def)
    then show ?thesis by (simp add: n cached_number_def)
  next
    case (Some y)
    obtain ok r' where y: "y = (ok, r')" by (cases y)
    from Some obtain key vn where e: "regMap n = Some (key, vn)" by (auto simp: SetDataValue_string_def split: bind_splits)
    from SetDataValue_string_cache [OF Some [unfolded y] e] n e Some show ?thesis
      by (simp add: SetText y cached_number_def VAL_STR_def VAL_ULONG_def)
  qed
next
  case (Remove m)
  with assms have n: "m = n" "x = None" by (auto split: if_splits)
  show ?thesis
  proof (cases "DeleteDataVal n r")
    case None
    then have "regMap n = None" by (cases "regMap n") (auto simp: DeleteDataVal_def)
    then show ?thesis by (simp add: n cached_number_def)
  next
    case (Some y)
    obtain ok r' where y: "y = (ok, r')" by (cases y)
    from Some obtain key vn where e: "regMap n = Some (key, vn)" by (auto simp: DeleteDataVal_def split: bind_splits)
    from DeleteDataVal_cache [OF Some [unfolded y] e] n e show ?thesis by (simp add: Remove Some y cached_number_def)
  qed
qed (use assms in simp_all)

lemma write_keeps:
  assumes "regMap m = Some (key, vn)" "regCache r' = (if hit then (regCache r)(cacheKey key vn := e) else regCache r)"
    "m = n \<Longrightarrow> \<not> hit"
  shows "cached_number r' n = cached_number r n"
proof (cases hit)
  case True
  with assms(3) have "m \<noteq> n" by blast
  then show ?thesis by (rule cached_other [OF assms(1)]) (simp add: assms(2))
next
  case False
  then show ?thesis by (intro cached_same) (simp add: assms(2))
qed

lemma reg_effect_kept:
  assumes "reg_effect n op = None" "cached_number r n = Some w"
  shows "cached_number (reg_step op r) n = Some w"
proof (cases op)
  case (SetNumber a m v c)
  show ?thesis
  proof (cases "SetDataValue a m v c r")
    case (Some y)
    obtain ok r' where y: "y = (ok, r')" by (cases y)
    from Some obtain key vn where e: "regMap m = Some (key, vn)" by (auto simp: SetDataValue_def split: bind_splits)
    from write_keeps [OF e SetDataValue_cache [OF Some [unfolded y] e], of n] assms e show ?thesis
      by (auto simp: SetNumber Some y split: if_splits)
  qed (use assms SetNumber in simp)
next
  case (SetText a m v c)
  show ?thesis
  proof (cases "SetDataValue_string a m v c r")
    case (Some y)
    obtain ok r' where y: "y = (ok, r')" by (cases y)
    from Some obtain key vn where e: "regMap m = Some (key, vn)" by (auto simp: SetDataValue_string_def split: bind_splits)
    from write_keeps [OF e SetDataValue_string_cache [OF Some [unfolded y] e], of n] assms show ?thesis
      by (auto simp: SetText Some y split: if_splits)
  qed (use assms SetText in simp)
next
  case (GetNumber m v c)
  then show ?thesis using assms(2) GetDataValue_reads [of m v c r] by (auto split: option.split dest: reads_name_kept)
next
  case (GetText m junk v c)
  then show ?thesis using assms(2) GetDataValue_string_reads [of m junk v c r] by (auto split: option.split dest: reads_name_kept)
next
  case (Exists m)
  then show ?thesis using assms(2) ValueExists_reads [of m r] by (auto split: option.split)
next
  case (Remove m)
  with assms(1) have m: "m \<noteq> n" by (auto split: if_splits)
  show ?thesis
  proof (cases "DeleteDataVal m r")
    case (Some y)
    obtain ok r' where y: "y = (ok, r')" by (cases y)
    from Some obtain key vn where e: "regMap m = Some (key, vn)" by (auto simp: DeleteDataVal_def split: bind_splits)
    have "cached_number r' n = cached_number r n"
      by (rule cached_other [OF e m]) (simp add: DeleteDataVal_cache [OF Some [unfolded y] e])
    then show ?thesis using assms(2) by (simp add: Remove Some y)
  qed (use assms Remove in simp)
next
  case Clean
  then show ?thesis using assms(2) cached_same [OF CleanDataStorage_cache, of r n] by simp
qed

interpretation numbers: value_store reg_step cached_number reg_effect
  by unfold_locales (rule reg_effect_set reg_effect_kept, assumption+)+

text \<open>A number the cache knows is what a read through the cache gives, and the read changes nothing.\<close>

lemma cached_number_read:
  assumes "cached_number r n = Some v"
  shows "GetDataValue n old True r = Some (True, v, r)"
proof -
  from assms obtain key vn data where n: "regMap n = Some (key, vn)"
    and hit: "regCache r (cacheKey key vn) = Some (data, VAL_ULONG)" "length data = 8" "v = get64 data"
    by (auto simp: cached_number_Some)
  from hit have "fst (GetRegistryData True key vn (Some (put64 old)) r) = Some (8, Some data, VAL_ULONG)"
    using GetRegistryData_hit(2) [OF hit(1), of "Some (put64 old)" True] by (simp add: answer_with_def copy_into_def)
  moreover have "snd (GetRegistryData True key vn (Some (put64 old)) r) = r"
    using hit by (intro GetRegistryData_hit(1)) auto
  ultimately have "GetRegistryData True key vn (Some (put64 old)) r = (Some (8, Some data, VAL_ULONG), r)"
    by (simp add: prod_eq_iff)
  then show ?thesis using hit(3) n by (simp add: GetDataValue_def)
qed

end
