(* ===== verification/Registry_Properties.thy ===== *)
theory Registry_Properties
  imports Registry_Correct
begin

text \<open>
  The properties of the store of settings: what survives a restart, and what the cache promises.
\<close>

text \<open>C40. A number that is written without a failure is read back after a restart of the service, through the cache or
  not, exactly if its low byte is not the code of a decimal digit; what is read is the number. The type stands in the
  file as decimal digits with the value directly behind it.\<close>

theorem number_survives_restart:
  assumes "regMap n \<noteq> None" "honest a"
  shows "\<exists>ok r' found w r''. SetDataValue a n v c r = Some (ok, r') \<and> ok
    \<and> GetDataValue n old d (restart r') = Some (found, w, r'')
    \<and> found = (\<not> is_digit (ucast v)) \<and> (is_digit (ucast v) \<or> w = v)"
proof -
  obtain key vn where n: "regMap n = Some (key, vn)" using assms(1) by auto
  let ?w = "SetRegistryData a c (put64 v) VAL_ULONG key vn r" and ?x = "Some (put64 old)"
  obtain found w r'' where get: "GetDataValue n old d (restart (snd ?w)) = Some (found, w, r'')"
    using n by (cases "GetDataValue n old d (restart (snd ?w))") (auto simp: GetDataValue_def)
  have f: "fst (GetRegistryData d key vn ?x (restart (snd ?w))) = read_file key vn ?x (restart (snd ?w))"
    by (rule get_without_cache) simp
  have "found = (\<not> is_digit (ucast v)) \<and> (is_digit (ucast v) \<or> w = v)"
  proof (cases "is_digit (ucast v)")
    case True
    then have "\<not> found" using GetDataValue_found(1) [OF n get] f number_swallowed [OF assms(2) True, of key vn ?x c r] by auto
    with True show ?thesis by simp
  next
    case False
    from number_read_again [OF assms(2) False, of key vn old c r] f
    have g: "fst (GetRegistryData d key vn ?x (restart (snd ?w))) = Some (8, Some (put64 v), VAL_ULONG)" by simp
    with GetDataValue_found [OF n get] False show ?thesis by auto
  qed
  moreover have "fst ?w"
    using set_honest [OF assms(2), of "put64 v" c VAL_ULONG key vn r] put64_Cons [of v] by (cases "put64 v") auto
  moreover have "SetDataValue a n v c r = Some (fst ?w, snd ?w)" using n by (simp add: SetDataValue_def)
  ultimately show ?thesis using get by blast
qed

theorem number_survives_restart_witness:
  "\<exists>ok r' found w r''. SetDataValue \<lparr>dirs_ok = True, open_ok = True, type_good = True, data_good = True, reach = None\<rparr>
      REMOTE_REBOOT_S 48 True \<lparr>position = ''/etc/lms/'', files = \<lambda>_. None, regCache = \<lambda>_. None\<rparr> = Some (ok, r') \<and> ok
    \<and> GetDataValue REMOTE_REBOOT_S 0 True (restart r') = Some (found, w, r'')
    \<and> found = (\<not> is_digit (ucast (48 :: u64))) \<and> (is_digit (ucast (48 :: u64)) \<or> w = 48)"
  by (rule number_survives_restart) (simp_all add: honest_def)

text \<open>A text without a null character likewise: it is read back exactly if its first character is not a digit and
  it has fewer than 8191 characters.\<close>

theorem text_survives_restart:
  assumes "regMap n \<noteq> None" "honest a" "0 \<notin> set s"
  shows "\<exists>ok r' found t r''. SetDataValue_string a n s c r = Some (ok, r') \<and> ok
    \<and> GetDataValue_string n junk old d (restart r') = Some (found, t, r'')
    \<and> found = (\<not> is_digit (hd (s @ [0])) \<and> length s < 8191) \<and> t = (if found then s else old)"
proof -
  obtain key vn where n: "regMap n = Some (key, vn)" using assms(1) by auto
  let ?w = "SetRegistryData a c (s @ [0]) VAL_STR key vn r"
  let ?r = "restart (snd ?w)"
  have g: "fst (GetRegistryData d key vn x ?r) = read_file key vn x ?r" for x by (rule get_without_cache) simp
  obtain q where q: "GetRegistryData d key vn None ?r = (q, ?r)" using GetRegistryData_uncached(2) [of d key vn ?r] by (metis prod.collapse)
  then have q_file: "q = read_file key vn None ?r" using g [of None] by simp
  have get: "GetDataValue_string n junk old d ?r = Some (case q of None \<Rightarrow> (False, old, ?r)
      | Some (valsz, _, type) \<Rightarrow> if type \<noteq> VAL_STR then (False, old, ?r)
          else (case GetRegistryData d key vn (Some (map junk [0..<valsz])) ?r of
               (Some (_, Some buf, _), r) \<Rightarrow> (True, takeWhile (\<lambda>b. b \<noteq> 0) buf, r)
             | (_, r) \<Rightarrow> (False, old, r)))"
    using n q by (simp add: GetDataValue_string_def split: option.splits prod.splits)
  have "\<exists>found t r''. GetDataValue_string n junk old d ?r = Some (found, t, r'')
      \<and> found = (\<not> is_digit (hd (s @ [0])) \<and> length s < 8191) \<and> t = (if found then s else old)"
  proof (cases "is_digit (hd (s @ [0]))")
    case True
    with string_swallowed [OF assms(2) True, of key vn None c r] q_file
    show ?thesis by (auto simp: get split: option.splits)
  next
    case False
    note again = string_read_again [OF assms(2) False, of key vn _ c r]
    show ?thesis
    proof (cases "length s < 8191")
      case True
      have cut: "takeWhile (\<lambda>b. b \<noteq> 0) (s @ [0]) = s" using assms(3) by (induction s) auto
      obtain x r'' where x: "GetRegistryData d key vn (Some (map junk [0..<length s + 1])) ?r = (x, r'')"
        by (cases "GetRegistryData d key vn (Some (map junk [0..<length s + 1])) ?r")
      then have "x = answer_with (s @ [0]) VAL_STR (Some (map junk [0..<length s + 1]))"
        using g [of "Some (map junk [0..<length s + 1])"] again True by simp
      then have "x = Some (length s + 1, Some (s @ [0]), VAL_STR)" by (simp add: answer_with_def copy_into_def)
      moreover have "q = Some (length s + 1, None, VAL_STR)" using q_file again True by (simp add: answer_with_def)
      ultimately show ?thesis using x False True cut by (simp add: get) blast
    next
      case len: False
      then show ?thesis using q_file again by (simp add: get) blast
    qed
  qed
  moreover have "SetDataValue_string a n s c r = Some (fst ?w, snd ?w)" using n by (simp add: SetDataValue_string_def)
  moreover have "fst ?w" using assms(2) by (simp add: set_honest)
  ultimately show ?thesis by blast
qed

theorem text_survives_restart_witness:
  "\<exists>ok r' found t r''. SetDataValue_string
      \<lparr>dirs_ok = True, open_ok = True, type_good = True, data_good = True, reach = None\<rparr> LastLanguageUpdate [65, 66] False
      \<lparr>position = ''/etc/lms/'', files = \<lambda>_. None, regCache = \<lambda>_. None\<rparr> = Some (ok, r') \<and> ok
    \<and> GetDataValue_string LastLanguageUpdate (\<lambda>_. 0) [] True (restart r') = Some (found, t, r'')
    \<and> found = (\<not> is_digit (hd ([65, 66] @ [0])) \<and> length [65, 66 :: u8] < 8191) \<and> t = (if found then [65, 66] else [])"
  by (rule text_survives_restart) (simp_all add: honest_def)

text \<open>Once a number has been written through the cache and the write reported success, every later read through the
  cache gives it, whatever happens to the file: after any sequence of operations, failing writes, writes past the cache
  and the removal of the whole store included, as long as none of them replaces or removes that name through the cache.\<close>

theorem cached_number_stays:
  assumes "regMap n \<noteq> None" "succeeds a" "list_all (\<lambda>op. reg_effect n op = None) later"
  shows "\<exists>r'. r' = fold reg_step (earlier @ SetNumber a n v True # later) r \<and> GetDataValue n old True r' = Some (True, v, r')"
proof -
  have "reg_effect n (SetNumber a n v True) = Some (Some v)" using assms(1,2) by simp
  from cached_number_read [OF numbers.last_effect [OF this assms(3)]] show ?thesis by blast
qed

theorem cached_number_stays_witness:
  "\<exists>r'. r' = fold reg_step ([] @ SetNumber \<lparr>dirs_ok = True, open_ok = True, type_good = True, data_good = True, reach = None\<rparr>
        AMT_ENABLE_S 1 True # [SetNumber \<lparr>dirs_ok = True, open_ok = True, type_good = True, data_good = True, reach = None\<rparr>
          AMT_ENABLE_S 0 False, Clean])
      \<lparr>position = ''/etc/lms/'', files = \<lambda>_. None, regCache = \<lambda>_. None\<rparr>
    \<and> GetDataValue AMT_ENABLE_S 7 True r' = Some (True, 1, r')"
  by (rule cached_number_stays) (simp_all add: succeeds_def)

end
