(* ===== verification/Event_Manager.thy ===== *)
theory Event_Manager
  imports Configurator Cim_Events
begin

text \<open>
  How events reach the services: the base of the services (\<^verbatim>\<open>GMS_COMMON/GmsSubService.cpp\<close>), of those that handle
  events (\<^verbatim>\<open>EventHandler.cpp\<close>), their filters, and the manager that passes an event on to every service whose
  filter takes it (\<^verbatim>\<open>EventManager/eventManager.cpp\<close>). Messages to other services are a list in the state. A message
  to a service that is not loaded is dropped by the main service.
\<close>

subsection \<open>Numbers of events\<close>

definition CATEGORY_PARTIAL_FW_UPDATE :: nat where "CATEGORY_PARTIAL_FW_UPDATE = 14"
definition EVENT_GENERAL_DEFAULT :: nat where "EVENT_GENERAL_DEFAULT = 0"
definition EVENT_GENERAL_NOTIFICATION :: nat where "EVENT_GENERAL_NOTIFICATION = 10"
definition EVENT_ALARM_CLOCK_BOOT :: nat where "EVENT_ALARM_CLOCK_BOOT = 18"
definition EVENT_REMOTE_REBOOT :: nat where "EVENT_REMOTE_REBOOT = 19"
definition EVENT_KVM_SCREEN_SETTING_UPDATE :: nat where "EVENT_KVM_SCREEN_SETTING_UPDATE = 75"
definition EVENT_SERVICE_HECI_DISABLE :: nat where "EVENT_SERVICE_HECI_DISABLE = 94"
definition EVENT_UNPROVISIONING :: nat where "EVENT_UNPROVISIONING = 113"
definition EVENT_IP_SYNC_FW_UPDATE_FAILED :: nat where "EVENT_IP_SYNC_FW_UPDATE_FAILED = 116"
definition EVENT_IP_SYNC_VALIDATION_FAILED :: nat where "EVENT_IP_SYNC_VALIDATION_FAILED = 117"
definition EVENT_USER_CONSENT_TIMEOUT_STARTED :: nat where "EVENT_USER_CONSENT_TIMEOUT_STARTED = 133"
definition EVENT_PARTIAL_FWU_BEGIN :: nat where "EVENT_PARTIAL_FWU_BEGIN = 140"
definition EVENT_PARTIAL_FWU_END_SUCCESS_WLAN :: nat where "EVENT_PARTIAL_FWU_END_SUCCESS_WLAN = 141"
definition EVENT_PARTIAL_FWU_END_SUCCESS_LANG :: nat where "EVENT_PARTIAL_FWU_END_SUCCESS_LANG = 142"
definition EVENT_PARTIAL_FWU_END_FAILURE_WLAN :: nat where "EVENT_PARTIAL_FWU_END_FAILURE_WLAN = 143"
definition EVENT_PARTIAL_FWU_END_FAILURE_LANG :: nat where "EVENT_PARTIAL_FWU_END_FAILURE_LANG = 144"
definition EVENT_PARTIAL_FWU_MISSING_IMAGE_WLAN :: nat where "EVENT_PARTIAL_FWU_MISSING_IMAGE_WLAN = 145"
definition EVENT_PARTIAL_FWU_MISSING_IMAGE_LANG :: nat where "EVENT_PARTIAL_FWU_MISSING_IMAGE_LANG = 146"
definition EVENT_ME_ENABLE :: nat where "EVENT_ME_ENABLE = 150"
definition EVENT_ME_DISABLE :: nat where "EVENT_ME_DISABLE = 151"
definition EVENT_AMT_DISABLE :: nat where "EVENT_AMT_DISABLE = 161"
definition EVENT_AGENT_PRSENCE_NOT_STARTED :: nat where "EVENT_AGENT_PRSENCE_NOT_STARTED = 194"
definition EVENT_AGENT_PRSENCE_STOPED :: nat where "EVENT_AGENT_PRSENCE_STOPED = 195"
definition EVENT_AGENT_PRSENCE_EXPIRED :: nat where "EVENT_AGENT_PRSENCE_EXPIRED = 196"
definition EVENT_SD_STARTED :: nat where "EVENT_SD_STARTED = 241"
definition EVENT_SD_FINISHED :: nat where "EVENT_SD_FINISHED = 242"
definition EVENT_FW_FATAL_ERROR :: nat where "EVENT_FW_FATAL_ERROR = 282"
definition MAX_EVENT_NUM :: nat where "MAX_EVENT_NUM = 290"

lemmas event_numbers =
  EVENT_GENERAL_DEFAULT_def CATEGORY_GENERAL_def CATEGORY_CIRCUIT_BREAKER_def CATEGORY_EAC_def
  CATEGORY_REMOTE_DIAGNOSTIC_def CATEGORY_WLAN_def CATEGORY_SECIO_def CATEGORY_KVM_def CATEGORY_RCS_def
  CATEGORY_UNS_def CATEGORY_IPSYNC_def EVENT_GENERAL_NOTIFICATION_def CATEGORY_PROXY_def
  EVENT_PROVISIONING_STATE_PRE_def EVENT_PROVISIONING_STATE_IN_def USER_CONSENT_def
  EVENT_PROVISIONING_STATE_POST_def CATEGORY_PARTIAL_FW_UPDATE_def EVENT_NETWORK_STATE_CHANGE_def
  CATEGORY_REMOTE_GRACEFUL_POWER_OPERATION_def EVENT_UNPROVISIONES_STARTED_def CATEGORY_TIMESYNC_def
  EVENT_CONTROL_MODE_CHANGE_def EVENT_ALARM_CLOCK_BOOT_def EVENT_REMOTE_REBOOT_def
  EVENT_NETWORK_TRAFFIC_TX_CEASED_def EVENT_NETWORK_CONNECTIVITY_TX_REDUCED_def
  EVENT_NETWORK_TRAFFIC_RX_CEASED_def EVENT_NETWORK_CONNECTIVITY_RX_REDUCED_def EVENT_SYSTEM_DEFENCE_CHANGE_def
  EVENT_EAC_NOTIFICATION_def EVENT_EAC_ENABLED_def EVENT_EAC_DISABLED_def EVENT_REMOTE_SOL_STARTED_def
  EVENT_REMOTE_SOL_ENDED_def EVENT_REMOTE_IDER_STARTED_def EVENT_REMOTE_IDER_ENDED_def
  EVENT_WLAN_PROTECTION_ON_HIGH_def EVENT_WLAN_PROTECTION_ON_PASSIVE_def EVENT_WLAN_PROTECTION_OFF_def
  EVENT_WLAN_PROFILE_INSUFFICIENT_def EVENT_WLAN_SECURITY_INSUFFICIENT_def EVENT_WLAN_SESSION_ESTABLISHED_def
  EVENT_WLAN_SESSION_ENDED_def EVENT_WIRELESS_STATE_CHANGED_def EVENT_WLAN_PROFILE_SYNC_DISABLE_def
  EVENT_WLAN_PROFILE_SYNC_ENABLE_def EVENT_WLAN_CONTROL_ME_def EVENT_WLAN_CONTROL_HOST_def
  EVENT_SECIO_SEMAPHORE_AT_HOST_def EVENT_SECIO_SEMAPHORE_AT_ME_def EVENT_SECIO_SEMAPHORE_TIMEOUT_def
  EVENT_SECIO_CONFIGURATION_EVENT_def EVENT_KVM_SESSION_REQUESTED_def EVENT_KVM_SESSION_STARTED_def
  EVENT_KVM_SESSION_STOPPED_def EVENT_KVM_DISABLED_def EVENT_KVM_ENABLED_def EVENT_KVM_SCREEN_SETTING_UPDATE_def
  EVENT_KVM_DATA_CHANNEL_def EVENT_RCS_TUNNEL_CLOSE_def EVENT_RCS_TUNNEL_OPEN_def EVENT_SERVICE_RESUME_def
  EVENT_SERVICE_HECI_ENABLE_def EVENT_SERVICE_HECI_DISABLE_def EVENT_PORT_FORWARDING_SERVICE_AVAILABLE_def
  EVENT_PORT_FORWARDING_SERVICE_UNAVAILABLE_def EVENT_IP_SYNC_DISABLE_def EVENT_IP_SYNC_ENABLE_def
  EVENT_PROVISIONING_def EVENT_UNPROVISIONING_def EVENT_IP_SYNC_FW_UPDATE_FAILED_def
  EVENT_IP_SYNC_VALIDATION_FAILED_def EVENT_IP_REFRESH_LAN_def EVENT_IP_REFRESH_WLAN_def
  EVENT_PROXY_SYNC_DISABLE_def EVENT_PROXY_SYNC_ENABLE_def EVENT_USER_CONSENT_ENDED_def
  EVENT_USER_CONSENT_GRANTED_def EVENT_USER_CONSENT_REQUESTED_def EVENT_USER_CONSENT_TIMEOUT_STARTED_def
  EVENT_USER_CONSENT_CONFIGURATION_CHANGED_def EVENT_PARTIAL_FWU_BEGIN_def EVENT_PARTIAL_FWU_END_SUCCESS_WLAN_def
  EVENT_PARTIAL_FWU_END_SUCCESS_LANG_def EVENT_PARTIAL_FWU_END_FAILURE_WLAN_def
  EVENT_PARTIAL_FWU_END_FAILURE_LANG_def EVENT_PARTIAL_FWU_MISSING_IMAGE_WLAN_def
  EVENT_PARTIAL_FWU_MISSING_IMAGE_LANG_def EVENT_ME_ENABLE_def EVENT_ME_DISABLE_def EVENT_AMT_ENABLE_def
  EVENT_AMT_DISABLE_def EVENT_AGENT_1_def EVENT_AGENT_2_def EVENT_AGENT_4_def EVENT_AGENT_PRSENCE_NOT_STARTED_def
  EVENT_AGENT_PRSENCE_STOPED_def EVENT_AGENT_PRSENCE_EXPIRED_def EVENT_SD_STARTED_def EVENT_SD_FINISHED_def
  EVENT_TIME_SYNC_DISABLE_def EVENT_TIME_SYNC_ENABLE_def EVENT_REMOTE_GRACEFUL_SHUTDOWN_REQUESTED_def
  EVENT_REMOTE_GRACEFUL_REBOOT_REQUESTED_def EVENT_REMOTE_SLEEP_def EVENT_REMOTE_HIBERNATE_def
  EVENT_FW_FATAL_ERROR_def EVENT_AMT_DISABLE_ATTEMPT_def MAX_EVENT_NUM_def

subsection \<open>Filters\<close>

text \<open>\<^verbatim>\<open>StatusEventFilter\<close> and \<^verbatim>\<open>DBusFilter\<close>: a table indexed by the number of the event.\<close>

record id_filter =
  eventsIDList :: "nat list"
  arrayMaxElement :: nat

definition id_filter :: "nat \<Rightarrow> id_filter" where
  "id_filter maxEventID = \<lparr>eventsIDList = replicate (maxEventID + 1) 0, arrayMaxElement = maxEventID\<rparr>"

definition addEvent :: "nat \<Rightarrow> id_filter \<Rightarrow> bool \<times> id_filter" where
  "addEvent eventID f = (if eventID > arrayMaxElement f then (False, f)
     else (True, f\<lparr>eventsIDList := (eventsIDList f)[eventID := 1]\<rparr>))"

definition id_toSubscribe :: "id_filter \<Rightarrow> GMS_AlertIndication \<Rightarrow> bool" where
  "id_toSubscribe f a \<longleftrightarrow> al_id a \<le> arrayMaxElement f \<and> eventsIDList f ! al_id a = 1"

primrec add_events :: "nat list \<Rightarrow> id_filter \<Rightarrow> bool \<times> id_filter" where
  "add_events [] f = (True, f)"
| "add_events (e # es) f = (case addEvent e f of (False, f) \<Rightarrow> (False, f) | (True, f) \<Rightarrow> add_events es f)"

definition status_events :: "nat list" where
  "status_events =
     [EVENT_GENERAL_NOTIFICATION, EVENT_PROVISIONING_STATE_PRE, EVENT_PROVISIONING_STATE_IN,
       EVENT_PROVISIONING_STATE_POST, EVENT_NETWORK_STATE_CHANGE, EVENT_UNPROVISIONES_STARTED,
       EVENT_CONTROL_MODE_CHANGE, EVENT_ME_ENABLE, EVENT_ME_DISABLE, EVENT_AMT_ENABLE, EVENT_AMT_DISABLE,
       EVENT_PORT_FORWARDING_SERVICE_AVAILABLE, EVENT_SYSTEM_DEFENCE_CHANGE, EVENT_REMOTE_SOL_STARTED,
       EVENT_REMOTE_SOL_ENDED, EVENT_REMOTE_IDER_STARTED, EVENT_REMOTE_IDER_ENDED, EVENT_WIRELESS_STATE_CHANGED,
       EVENT_WLAN_PROFILE_SYNC_DISABLE, EVENT_WLAN_PROFILE_SYNC_ENABLE, EVENT_WLAN_CONTROL_ME,
       EVENT_WLAN_CONTROL_HOST, EVENT_WLAN_PROTECTION_ON_HIGH, EVENT_WLAN_PROTECTION_ON_PASSIVE,
       EVENT_WLAN_PROTECTION_OFF, EVENT_KVM_SESSION_REQUESTED, EVENT_KVM_SESSION_STARTED,
       EVENT_KVM_SESSION_STOPPED, EVENT_KVM_DISABLED, EVENT_KVM_ENABLED, EVENT_KVM_DATA_CHANNEL,
       EVENT_SERVICE_RESUME, EVENT_SERVICE_HECI_DISABLE, EVENT_IP_SYNC_DISABLE, EVENT_IP_SYNC_ENABLE,
       EVENT_IP_REFRESH_LAN, EVENT_IP_REFRESH_WLAN, EVENT_USER_CONSENT_ENDED, EVENT_USER_CONSENT_GRANTED,
       EVENT_USER_CONSENT_REQUESTED, EVENT_USER_CONSENT_CONFIGURATION_CHANGED, EVENT_AGENT_1, EVENT_AGENT_2,
       EVENT_AGENT_4, EVENT_TIME_SYNC_DISABLE, EVENT_TIME_SYNC_ENABLE]"

definition StatusEventFilter :: id_filter where
  "StatusEventFilter = snd (add_events status_events (id_filter MAX_EVENT_NUM))"

definition dbus_events :: "nat list" where
  "dbus_events =
     [EVENT_GENERAL_NOTIFICATION, EVENT_PROVISIONING_STATE_PRE, EVENT_PROVISIONING_STATE_IN,
       EVENT_PROVISIONING_STATE_POST, EVENT_NETWORK_STATE_CHANGE, EVENT_UNPROVISIONES_STARTED,
       EVENT_CONTROL_MODE_CHANGE, EVENT_REMOTE_REBOOT, EVENT_ME_ENABLE, EVENT_ME_DISABLE, EVENT_AMT_ENABLE,
       EVENT_AMT_DISABLE, EVENT_FW_FATAL_ERROR, EVENT_NETWORK_TRAFFIC_TX_CEASED,
       EVENT_NETWORK_CONNECTIVITY_TX_REDUCED, EVENT_NETWORK_TRAFFIC_RX_CEASED,
       EVENT_NETWORK_CONNECTIVITY_RX_REDUCED, EVENT_SYSTEM_DEFENCE_CHANGE, EVENT_EAC_NOTIFICATION,
       EVENT_EAC_ENABLED, EVENT_EAC_DISABLED, EVENT_REMOTE_SOL_STARTED, EVENT_REMOTE_SOL_ENDED,
       EVENT_REMOTE_IDER_STARTED, EVENT_REMOTE_IDER_ENDED, EVENT_WLAN_PROFILE_INSUFFICIENT,
       EVENT_WLAN_SECURITY_INSUFFICIENT, EVENT_WLAN_SESSION_ESTABLISHED, EVENT_WLAN_SESSION_ENDED,
       EVENT_WIRELESS_STATE_CHANGED, EVENT_WLAN_PROFILE_SYNC_DISABLE, EVENT_WLAN_PROFILE_SYNC_ENABLE,
       EVENT_WLAN_CONTROL_ME, EVENT_WLAN_CONTROL_HOST, EVENT_WLAN_PROTECTION_ON_HIGH,
       EVENT_WLAN_PROTECTION_ON_PASSIVE, EVENT_WLAN_PROTECTION_OFF, EVENT_SECIO_SEMAPHORE_AT_HOST,
       EVENT_SECIO_SEMAPHORE_AT_ME, EVENT_SECIO_SEMAPHORE_TIMEOUT, EVENT_SECIO_CONFIGURATION_EVENT,
       EVENT_KVM_SESSION_REQUESTED, EVENT_KVM_SESSION_STARTED, EVENT_KVM_SESSION_STOPPED, EVENT_KVM_DISABLED,
       EVENT_KVM_ENABLED, EVENT_KVM_SCREEN_SETTING_UPDATE, EVENT_RCS_TUNNEL_CLOSE, EVENT_RCS_TUNNEL_OPEN,
       EVENT_SERVICE_RESUME, EVENT_SERVICE_HECI_ENABLE, EVENT_SERVICE_HECI_DISABLE, EVENT_PROVISIONING,
       EVENT_UNPROVISIONING, EVENT_SD_STARTED, EVENT_SD_FINISHED, EVENT_IP_SYNC_DISABLE, EVENT_IP_SYNC_ENABLE,
       EVENT_IP_REFRESH_LAN, EVENT_IP_REFRESH_WLAN, EVENT_IP_SYNC_FW_UPDATE_FAILED,
       EVENT_IP_SYNC_VALIDATION_FAILED, EVENT_PROXY_SYNC_DISABLE, EVENT_PROXY_SYNC_ENABLE,
       EVENT_USER_CONSENT_ENDED, EVENT_USER_CONSENT_GRANTED, EVENT_USER_CONSENT_REQUESTED,
       EVENT_USER_CONSENT_TIMEOUT_STARTED, EVENT_USER_CONSENT_CONFIGURATION_CHANGED, EVENT_PARTIAL_FWU_BEGIN,
       EVENT_PARTIAL_FWU_END_SUCCESS_WLAN, EVENT_PARTIAL_FWU_END_SUCCESS_LANG,
       EVENT_PARTIAL_FWU_END_FAILURE_WLAN, EVENT_PARTIAL_FWU_END_FAILURE_LANG,
       EVENT_PARTIAL_FWU_MISSING_IMAGE_WLAN, EVENT_PARTIAL_FWU_MISSING_IMAGE_LANG, EVENT_TIME_SYNC_DISABLE,
       EVENT_TIME_SYNC_ENABLE]"

definition DBusFilter :: id_filter where
  "DBusFilter = snd (add_events dbus_events (id_filter MAX_EVENT_NUM))"

text \<open>\<^verbatim>\<open>IMSSFilter\<close>: a \<^verbatim>\<open>switch\<close> on the category whose cases end in no \<^verbatim>\<open>break\<close>, so that an event that its own case does
  not take is looked for in all the later ones.\<close>

definition imss_cases :: "(nat \<times> nat list) list" where
  "imss_cases = [
      (CATEGORY_GENERAL, [EVENT_PROVISIONING, EVENT_UNPROVISIONING, EVENT_ME_ENABLE, EVENT_ME_DISABLE,
        EVENT_AMT_ENABLE, EVENT_AMT_DISABLE, EVENT_NETWORK_STATE_CHANGE, EVENT_REMOTE_REBOOT,
        EVENT_FW_FATAL_ERROR]),
      (CATEGORY_CIRCUIT_BREAKER, [EVENT_SD_STARTED, EVENT_SD_FINISHED]),
      (CATEGORY_REMOTE_DIAGNOSTIC, [EVENT_REMOTE_SOL_STARTED, EVENT_REMOTE_SOL_ENDED, EVENT_REMOTE_IDER_STARTED,
        EVENT_REMOTE_IDER_ENDED]),
      (CATEGORY_WLAN, [EVENT_WLAN_SESSION_ESTABLISHED, EVENT_WLAN_SESSION_ENDED]),
      (CATEGORY_SECIO, [EVENT_SECIO_SEMAPHORE_AT_HOST, EVENT_SECIO_SEMAPHORE_AT_ME, EVENT_SECIO_SEMAPHORE_TIMEOUT,
        EVENT_SECIO_CONFIGURATION_EVENT]),
      (CATEGORY_KVM, [EVENT_KVM_SESSION_REQUESTED, EVENT_KVM_SESSION_STARTED, EVENT_KVM_SESSION_STOPPED,
        EVENT_KVM_DISABLED, EVENT_KVM_ENABLED, EVENT_KVM_DATA_CHANNEL]),
      (CATEGORY_RCS, [EVENT_RCS_TUNNEL_OPEN, EVENT_RCS_TUNNEL_CLOSE]),
      (USER_CONSENT, [EVENT_USER_CONSENT_ENDED, EVENT_USER_CONSENT_GRANTED, EVENT_USER_CONSENT_REQUESTED,
        EVENT_USER_CONSENT_TIMEOUT_STARTED]),
      (CATEGORY_PARTIAL_FW_UPDATE, [EVENT_PARTIAL_FWU_BEGIN, EVENT_PARTIAL_FWU_END_SUCCESS_WLAN,
        EVENT_PARTIAL_FWU_END_SUCCESS_LANG, EVENT_PARTIAL_FWU_END_FAILURE_WLAN,
        EVENT_PARTIAL_FWU_END_FAILURE_LANG, EVENT_PARTIAL_FWU_MISSING_IMAGE_WLAN,
        EVENT_PARTIAL_FWU_MISSING_IMAGE_LANG])]"

definition IMSSFilter :: "GMS_AlertIndication \<Rightarrow> bool" where
  "IMSSFilter a = list_ex (\<lambda>(c, ids). al_id a \<in> set ids) (dropWhile (\<lambda>(c, ids). c \<noteq> al_category a) imss_cases)"

text \<open>\<^verbatim>\<open>TimeSyncEventFilter\<close> and \<^verbatim>\<open>SharedStaticIPEventFilter\<close>\<close>

definition TimeSyncEventFilter :: "GMS_AlertIndication \<Rightarrow> bool" where
  "TimeSyncEventFilter a \<longleftrightarrow> al_category a = CATEGORY_UNS \<and> al_id a = EVENT_PORT_FORWARDING_SERVICE_AVAILABLE"

definition SharedStaticIPEventFilter :: "GMS_AlertIndication \<Rightarrow> bool" where
  "SharedStaticIPEventFilter a \<longleftrightarrow> al_category a = CATEGORY_UNS \<and> al_id a = EVENT_PORT_FORWARDING_SERVICE_AVAILABLE"

subsection \<open>The base of the services\<close>

text \<open>The messages of the queues; a data block of another type than the handler expects is \<^term>\<open>None\<close>. A filter is the
  function it decides with.\<close>

datatype ev_message =
    MB_SUBSCRIBE_EVENT "(service \<times> (GMS_AlertIndication \<Rightarrow> bool)) option"
  | MB_UNSUBSCRIBE_EVENT "(service \<times> bool) option"
  | MB_PUBLISH_EVENT "GMS_AlertIndication option"
  | MB_STOP_SERVICE "bool option"
  | MB_SUSPEND_SERVICE
  | MB_SRVICE_UP
  | MB_TIMER_EXPIRED
  | MB_IPREFRESH_LAN
  | MB_IPREFRESH_WLAN
  | MB_unexpected

datatype posting =
    To service ev_message
  | To_configurator message
  | To_self ev_message
  | Timer_scheduled nat
  | Timer_cancelled

record sub_service =
  m_serviceIsClosed :: bool
  postings :: "posting list"

definition put_posting :: "posting \<Rightarrow> 'a sub_service_scheme \<Rightarrow> 'a sub_service_scheme" where
  "put_posting p s = s\<lparr>postings := postings s @ [p]\<rparr>"

text \<open>\<^verbatim>\<open>initSubService\<close>: whether the options name the main service.\<close>

definition initSubService :: "bool \<Rightarrow> 'a sub_service_scheme \<Rightarrow> 'a sub_service_scheme" where
  "initSubService options_ok s = (if options_ok then s\<lparr>m_serviceIsClosed := False\<rparr> else s)"

definition sub_sendStatusChanged :: "service \<Rightarrow> status_type \<Rightarrow> 'a sub_service_scheme \<Rightarrow> 'a sub_service_scheme" where
  "sub_sendStatusChanged n t = put_posting (To_configurator (MB_SERVICE_STATUS_CHANGED (Some (n, t))))"

definition closeSubService :: "service \<Rightarrow> 'a sub_service_scheme \<Rightarrow> 'a sub_service_scheme" where
  "closeSubService n = sub_sendStatusChanged n STATUS_UNLOADCOMPLETE"

definition suspendSubService :: "service \<Rightarrow> 'a sub_service_scheme \<Rightarrow> 'a sub_service_scheme" where
  "suspendSubService n = sub_sendStatusChanged n STATUS_SUSPENDCOMPLETE"

definition startSubService :: "service \<Rightarrow> 'a sub_service_scheme \<Rightarrow> 'a sub_service_scheme" where
  "startSubService n = sub_sendStatusChanged n STATUS_LOADCOMPLETE"

definition sub_init :: "service \<Rightarrow> bool \<Rightarrow> 'a sub_service_scheme \<Rightarrow> 'a sub_service_scheme" where
  "sub_init n options_ok s = startSubService n (initSubService options_ok s)"

definition sub_resume :: "service \<Rightarrow> 'a sub_service_scheme \<Rightarrow> 'a sub_service_scheme" where
  "sub_resume n = sub_sendStatusChanged n STATUS_RESUMECOMPLETE"

definition sub_HandleAceMessage :: "service \<Rightarrow> ev_message \<Rightarrow> 'a sub_service_scheme \<Rightarrow> 'a sub_service_scheme" where
  "sub_HandleAceMessage n m s = (case m of
     MB_STOP_SERVICE _ \<Rightarrow> (closeSubService n s)\<lparr>m_serviceIsClosed := True\<rparr>
   | MB_SUSPEND_SERVICE \<Rightarrow> suspendSubService n s
   | _ \<Rightarrow> s)"

text \<open>\<^verbatim>\<open>handle_output\<close>: the queue is worked off while \<^verbatim>\<open>ShouldPass\<close> holds.\<close>

fun handle_output :: "('s \<Rightarrow> bool) \<Rightarrow> ('m \<Rightarrow> 's \<Rightarrow> 's) \<Rightarrow> 'm list \<Rightarrow> 's \<Rightarrow> 'm list \<times> 's" where
  "handle_output pass handler [] s = ([], s)"
| "handle_output pass handler (m # ms) s =
     (if pass s then handle_output pass handler ms (handler m s) else (m # ms, s))"

subsection \<open>Services that handle events\<close>

definition EventHandler_init ::
  "service \<Rightarrow> (GMS_AlertIndication \<Rightarrow> bool) \<Rightarrow> bool \<Rightarrow> 'a sub_service_scheme \<Rightarrow> 'a sub_service_scheme" where
  "EventHandler_init n flt options_ok s =
     put_posting (To EVENT_MANAGER (MB_SUBSCRIBE_EVENT (Some (n, flt)))) (initSubService options_ok s)"

definition EventHandler_HandleAceMessage ::
  "service \<Rightarrow> (ev_message \<Rightarrow> 'a sub_service_scheme \<Rightarrow> 'a sub_service_scheme) \<Rightarrow> ev_message \<Rightarrow>
    'a sub_service_scheme \<Rightarrow> 'a sub_service_scheme" where
  "EventHandler_HandleAceMessage n handle_event m s = (case m of
     MB_SUBSCRIBE_EVENT _ \<Rightarrow> if m_serviceIsClosed s then s else startSubService n s
   | MB_UNSUBSCRIBE_EVENT _ \<Rightarrow> closeSubService n s
   | MB_STOP_SERVICE mei \<Rightarrow>
       (put_posting (To EVENT_MANAGER (MB_UNSUBSCRIBE_EVENT (Some (n, case mei of None \<Rightarrow> False | Some b \<Rightarrow> b)))) s)
         \<lparr>m_serviceIsClosed := True\<rparr>
   | MB_SUSPEND_SERVICE \<Rightarrow> suspendSubService n s
   | _ \<Rightarrow> if m_serviceIsClosed s then s else handle_event m s)"

subsection \<open>The manager\<close>

record event_manager = sub_service +
  handlers :: "(service \<times> (GMS_AlertIndication \<Rightarrow> bool)) list"

definition EventManager :: event_manager where
  "EventManager = \<lparr>m_serviceIsClosed = False, postings = [], handlers = []\<rparr>"

definition publishEvent_to :: "GMS_AlertIndication \<Rightarrow> service \<times> (GMS_AlertIndication \<Rightarrow> bool) \<Rightarrow> event_manager \<Rightarrow> event_manager" where
  "publishEvent_to a h s = (if snd h a then put_posting (To (fst h) (MB_PUBLISH_EVENT (Some a))) s else s)"

definition em_publishEvent :: "GMS_AlertIndication \<Rightarrow> event_manager \<Rightarrow> event_manager" where
  "em_publishEvent a s = fold (publishEvent_to a) (handlers s) s"

text \<open>\<^verbatim>\<open>bind\<close> leaves a service that is bound with its old filter, and is answered all the same.\<close>

definition subscribeForEvents :: "service \<Rightarrow> (GMS_AlertIndication \<Rightarrow> bool) \<Rightarrow> event_manager \<Rightarrow> event_manager" where
  "subscribeForEvents n flt s = put_posting (To n (MB_SUBSCRIBE_EVENT None))
     (if n \<in> fst ` set (handlers s) then s else s\<lparr>handlers := handlers s @ [(n, flt)]\<rparr>)"

definition unSubscribeForEvents :: "service \<Rightarrow> bool \<Rightarrow> event_manager \<Rightarrow> event_manager" where
  "unSubscribeForEvents n mei s =
     (if n \<notin> fst ` set (handlers s) then s
      else put_posting (To n (MB_UNSUBSCRIBE_EVENT (Some (n, mei)))) (s\<lparr>handlers := filter (\<lambda>h. fst h \<noteq> n) (handlers s)\<rparr>))"

definition EventManager_HandleAceMessage :: "ev_message \<Rightarrow> event_manager \<Rightarrow> event_manager" where
  "EventManager_HandleAceMessage m s = (case m of
     MB_SUBSCRIBE_EVENT e \<Rightarrow> (case e of None \<Rightarrow> s | Some (n, flt) \<Rightarrow> subscribeForEvents n flt s)
   | MB_UNSUBSCRIBE_EVENT e \<Rightarrow> (case e of None \<Rightarrow> s | Some (n, mei) \<Rightarrow> unSubscribeForEvents n mei s)
   | MB_PUBLISH_EVENT e \<Rightarrow> (case e of None \<Rightarrow> s | Some a \<Rightarrow> em_publishEvent a s)
   | _ \<Rightarrow> sub_HandleAceMessage EVENT_MANAGER m s)"

definition EventManager_resume :: "event_manager \<Rightarrow> event_manager" where
  "EventManager_resume = sub_resume EVENT_MANAGER"

end
