(* ===== verification/Event_Properties.thy ===== *)
theory Event_Properties
  imports Event_Manager
begin

text \<open>
  What the manager of events guarantees: its handlers are the finite map of the subscriptions, an event goes once to
  each of them whose filter takes it, and a service that is stopped handles no event any more.
\<close>

subsection \<open>Filters\<close>

definition filter_ok :: "id_filter \<Rightarrow> bool" where
  "filter_ok f \<longleftrightarrow> length (eventsIDList f) = arrayMaxElement f + 1"

lemma filter_ok_new: "filter_ok (id_filter m)" "arrayMaxElement (id_filter m) = m"
  by (simp_all add: filter_ok_def id_filter_def)

lemma added:
  assumes "filter_ok f" "e \<le> arrayMaxElement f"
  shows "addEvent e f = (True, f\<lparr>eventsIDList := (eventsIDList f)[e := 1]\<rparr>)"
    "filter_ok (f\<lparr>eventsIDList := (eventsIDList f)[e := 1]\<rparr>)"
    "id_toSubscribe (f\<lparr>eventsIDList := (eventsIDList f)[e := 1]\<rparr>) a \<longleftrightarrow> al_id a = e \<or> id_toSubscribe f a"
  using assms by (auto simp: filter_ok_def addEvent_def id_toSubscribe_def nth_list_update)

lemma all_added:
  assumes "filter_ok f" "list_all (\<lambda>e. e \<le> arrayMaxElement f) es"
  shows "fst (add_events es f) \<and> (id_toSubscribe (snd (add_events es f)) a \<longleftrightarrow> al_id a \<in> set es \<or> id_toSubscribe f a)"
  using assms
proof (induction es arbitrary: f)
  case (Cons e es)
  let ?g = "f\<lparr>eventsIDList := (eventsIDList f)[e := 1]\<rparr>"
  have e: "addEvent e f = (True, ?g)" "filter_ok ?g" "id_toSubscribe ?g a \<longleftrightarrow> al_id a = e \<or> id_toSubscribe f a"
    using added(1,2) [of f e] added(3) [of f e a] Cons.prems by simp_all
  have "list_all (\<lambda>e. e \<le> arrayMaxElement ?g) es" using Cons.prems(2) by simp
  from Cons.IH [OF e(2) this] e show ?case by auto
qed simp

lemma new_takes_nothing: "\<not> id_toSubscribe (id_filter m) a"
  by (auto simp: id_toSubscribe_def id_filter_def simp del: replicate_Suc)

lemma status_filter: "id_toSubscribe StatusEventFilter a \<longleftrightarrow> al_id a \<in> set status_events"
proof -
  have "list_all (\<lambda>e. e \<le> arrayMaxElement (id_filter MAX_EVENT_NUM)) status_events"
    by (simp add: status_events_def filter_ok_new event_numbers)
  from all_added [OF filter_ok_new(1) this] show ?thesis by (simp add: StatusEventFilter_def new_takes_nothing)
qed

lemma dbus_filter: "id_toSubscribe DBusFilter a \<longleftrightarrow> al_id a \<in> set dbus_events"
proof -
  have "list_all (\<lambda>e. e \<le> arrayMaxElement (id_filter MAX_EVENT_NUM)) dbus_events"
    by (simp add: dbus_events_def filter_ok_new event_numbers)
  from all_added [OF filter_ok_new(1) this] show ?thesis by (simp add: DBusFilter_def new_takes_nothing)
qed

subsection \<open>Subscriptions as a finite map\<close>

type_synonym subscriptions = "service \<Rightarrow> (GMS_AlertIndication \<Rightarrow> bool) option"

definition subscription :: "ev_message \<Rightarrow> subscriptions \<Rightarrow> subscriptions" where
  "subscription m subs = (case m of
     MB_SUBSCRIBE_EVENT (Some (n, f)) \<Rightarrow> if subs n = None then subs(n \<mapsto> f) else subs
   | MB_UNSUBSCRIBE_EVENT (Some (n, _)) \<Rightarrow> subs(n := None)
   | _ \<Rightarrow> subs)"

definition handlers_ok :: "event_manager \<Rightarrow> subscriptions \<Rightarrow> bool" where
  "handlers_ok s subs \<longleftrightarrow> distinct (map fst (handlers s)) \<and> map_of (handlers s) = subs"

lemma put_posting_simps [simp]:
  "postings (put_posting p s) = postings s @ [p]" "m_serviceIsClosed (put_posting p s) = m_serviceIsClosed s"
  "handlers (put_posting p t) = handlers t"
  by (simp_all add: put_posting_def)

text \<open>The event that a message publishes.\<close>

definition alert_of :: "posting \<Rightarrow> GMS_AlertIndication option" where
  "alert_of p = (case p of To n (MB_PUBLISH_EVENT e) \<Rightarrow> if n = EVENT_MANAGER then e else None | _ \<Rightarrow> None)"

lemma sub_handlers [simp]: "handlers (sub_sendStatusChanged n t s) = handlers s"
  "handlers (closeSubService n s) = handlers s" "handlers (suspendSubService n s) = handlers s"
  by (simp_all add: sub_sendStatusChanged_def closeSubService_def suspendSubService_def)

lemma published:
  "postings (fold (publishEvent_to a) hs s) = postings s @ map (\<lambda>h. To (fst h) (MB_PUBLISH_EVENT (Some a))) (filter (\<lambda>h. snd h a) hs)"
  "handlers (fold (publishEvent_to a) hs s) = handlers s"
  by (induction hs arbitrary: s) (simp_all add: publishEvent_to_def)

lemma em_published:
  "postings (em_publishEvent a s) = postings s @ map (\<lambda>h. To (fst h) (MB_PUBLISH_EVENT (Some a))) (filter (\<lambda>h. snd h a) (handlers s))"
  "handlers (em_publishEvent a s) = handlers s"
  by (simp_all add: em_publishEvent_def published)

lemma map_of_without: "map_of (filter (\<lambda>h. fst h \<noteq> n) hs) = (map_of hs)(n := None)"
  by (induction hs) (auto simp: fun_eq_iff)

lemma handlers_step:
  assumes "handlers_ok s subs"
  shows "handlers_ok (EventManager_HandleAceMessage m s) (subscription m subs)"
proof (cases m)
  case (MB_SUBSCRIBE_EVENT e)
  show ?thesis
  proof (cases e)
    case (Some p)
    obtain n f where p: "p = (n, f)" by (cases p)
    have dom: "subs n = None \<longleftrightarrow> n \<notin> fst ` set (handlers s)" using assms by (auto simp: handlers_ok_def map_of_eq_None_iff)
    show ?thesis using assms dom
      by (auto simp: MB_SUBSCRIBE_EVENT Some p EventManager_HandleAceMessage_def subscribeForEvents_def subscription_def
          handlers_ok_def map_of_append fun_eq_iff map_add_def split: option.split)
  qed (use assms MB_SUBSCRIBE_EVENT in \<open>simp add: EventManager_HandleAceMessage_def subscription_def\<close>)
next
  case (MB_UNSUBSCRIBE_EVENT e)
  show ?thesis
  proof (cases e)
    case (Some p)
    obtain n mei where p: "p = (n, mei)" by (cases p)
    have "(map_of (handlers s))(n := None) = map_of (handlers s)" if "n \<notin> fst ` set (handlers s)"
      using that by (intro fun_upd_idem) (simp add: map_of_eq_None_iff)
    then show ?thesis using assms
      by (auto simp: MB_UNSUBSCRIBE_EVENT Some p EventManager_HandleAceMessage_def unSubscribeForEvents_def subscription_def
          handlers_ok_def map_of_without distinct_map_filter)
  qed (use assms MB_UNSUBSCRIBE_EVENT in \<open>simp add: EventManager_HandleAceMessage_def subscription_def\<close>)
qed (use assms in \<open>auto simp: EventManager_HandleAceMessage_def subscription_def sub_HandleAceMessage_def handlers_ok_def
        em_published split: option.split\<close>)

lemma handlers_run: "handlers_ok s subs \<Longrightarrow> handlers_ok (fold EventManager_HandleAceMessage ms s) (fold subscription ms subs)"
  by (induction ms arbitrary: s subs) (simp_all add: handlers_step)

lemma count_once:
  "distinct (map fst hs) \<Longrightarrow> count_list (map (\<lambda>h. To (fst h) m) (filter (\<lambda>h. snd h a) hs)) (To n m)
     = (case map_of hs n of None \<Rightarrow> 0 | Some f \<Rightarrow> if f a then 1 else 0)"
proof (induction hs)
  case (Cons h hs)
  have "count_list (map (\<lambda>h. To (fst h) m) (filter (\<lambda>h. snd h a) hs)) (To n m) = 0" if "n = fst h"
    using Cons.prems that by (auto simp: count_list_0_iff)
  with Cons show ?case by (cases h) (auto split: option.splits)
qed simp

definition published_by :: "event_manager \<Rightarrow> GMS_AlertIndication \<Rightarrow> posting list" where
  "published_by s a = drop (length (postings s)) (postings (EventManager_HandleAceMessage (MB_PUBLISH_EVENT (Some a)) s))"

lemma published_by_eq:
  "published_by s a = map (\<lambda>h. To (fst h) (MB_PUBLISH_EVENT (Some a))) (filter (\<lambda>h. snd h a) (handlers s))"
  by (simp add: published_by_def EventManager_HandleAceMessage_def em_published)

text \<open>C32. After any messages an event is posted exactly once to every service whose last subscription was not withdrawn
  and whose filter, that of its first subscription since, takes the event; to no other, and nothing else is posted.\<close>

theorem events_reach_subscribers:
  "count_list (published_by (fold EventManager_HandleAceMessage ms EventManager) a) (To n (MB_PUBLISH_EVENT (Some a)))
      = (case fold subscription ms (\<lambda>_. None) n of None \<Rightarrow> 0 | Some f \<Rightarrow> if f a then 1 else 0)
    \<and> set (published_by (fold EventManager_HandleAceMessage ms EventManager) a) \<subseteq> range (\<lambda>n. To n (MB_PUBLISH_EVENT (Some a)))"
proof -
  have "handlers_ok EventManager (\<lambda>_. None)" by (simp add: handlers_ok_def EventManager_def fun_eq_iff)
  from handlers_run [OF this, of ms]
  have s: "distinct (map fst (handlers (fold EventManager_HandleAceMessage ms EventManager)))"
    "map_of (handlers (fold EventManager_HandleAceMessage ms EventManager)) = fold subscription ms (\<lambda>_. None)"
    by (simp_all add: handlers_ok_def)
  show ?thesis unfolding published_by_eq count_once [OF s(1)] s(2) by auto
qed

subsection \<open>Stopping a service\<close>

text \<open>What may be under way to a service when it is stopped.\<close>

primrec under_way :: "ev_message \<Rightarrow> bool" where
  "under_way (MB_SUBSCRIBE_EVENT e) = True"
| "under_way (MB_UNSUBSCRIBE_EVENT e) = False"
| "under_way (MB_PUBLISH_EVENT e) = True"
| "under_way (MB_STOP_SERVICE e) = False"
| "under_way MB_SUSPEND_SERVICE = False"
| "under_way MB_SRVICE_UP = True"
| "under_way MB_TIMER_EXPIRED = True"
| "under_way MB_IPREFRESH_LAN = True"
| "under_way MB_IPREFRESH_WLAN = True"
| "under_way MB_unexpected = True"

lemma closed_ignores: "under_way m \<Longrightarrow> m_serviceIsClosed s \<Longrightarrow> EventHandler_HandleAceMessage n h m s = s"
  by (cases m) (simp_all add: EventHandler_HandleAceMessage_def)

lemma closed_ignores_all:
  "list_all under_way ms \<Longrightarrow> m_serviceIsClosed s \<Longrightarrow> fold (EventHandler_HandleAceMessage n h) ms s = s"
  by (induction ms arbitrary: s) (simp_all add: closed_ignores)

definition unsubscription :: "service \<Rightarrow> bool option \<Rightarrow> ev_message" where
  "unsubscription n mei = MB_UNSUBSCRIBE_EVENT (Some (n, case mei of None \<Rightarrow> False | Some b \<Rightarrow> b))"

lemma unsubscribed:
  assumes "n \<in> fst ` set (handlers m)"
  shows "postings (EventManager_HandleAceMessage (unsubscription n mei) m) = postings m @ [To n (unsubscription n mei)]"
    "handlers (EventManager_HandleAceMessage (unsubscription n mei) m) = filter (\<lambda>h. fst h \<noteq> n) (handlers m)"
  using assms by (simp_all add: unsubscription_def EventManager_HandleAceMessage_def unSubscribeForEvents_def)

lemma handled_stop:
  assumes "list_all under_way before" "list_all under_way after"
  shows "fold (EventHandler_HandleAceMessage n h) (MB_STOP_SERVICE mei # before @ unsubscription n mei # after) s
      = s\<lparr>m_serviceIsClosed := True, postings := postings s @ [To EVENT_MANAGER (unsubscription n mei),
          To_configurator (MB_SERVICE_STATUS_CHANGED (Some (n, STATUS_UNLOADCOMPLETE)))]\<rparr>"
proof -
  let ?p = "put_posting (To EVENT_MANAGER (unsubscription n mei)) s"
  have stop: "EventHandler_HandleAceMessage n h (MB_STOP_SERVICE mei) s = ?p\<lparr>m_serviceIsClosed := True\<rparr>"
    by (simp add: EventHandler_HandleAceMessage_def unsubscription_def)
  have answer: "EventHandler_HandleAceMessage n h (unsubscription n mei) t = closeSubService n t" for t
    by (simp add: EventHandler_HandleAceMessage_def unsubscription_def)
  let ?e = "closeSubService n (?p\<lparr>m_serviceIsClosed := True\<rparr>)"
  have "fold (EventHandler_HandleAceMessage n h) (MB_STOP_SERVICE mei # before @ unsubscription n mei # after) s
      = fold (EventHandler_HandleAceMessage n h) after ?e"
    using closed_ignores_all [OF assms(1), of "?p\<lparr>m_serviceIsClosed := True\<rparr>" n h] by (simp add: stop answer)
  also have "\<dots> = ?e"
    by (rule closed_ignores_all [OF assms(2)]) (simp add: closeSubService_def sub_sendStatusChanged_def)
  finally show ?thesis by (simp add: closeSubService_def sub_sendStatusChanged_def put_posting_def)
qed

text \<open>C35. A service that handles events and is stopped asks the manager to be unsubscribed; the manager, if the service is
  subscribed, answers it once and posts it no event afterwards; and of all that was still under way the service handles
  nothing but the answer, with which it announces its end, once.\<close>

theorem stopped_service_is_silent:
  assumes "list_all under_way before" "list_all under_way after" "n \<in> fst ` set (handlers m)"
  shows "fold (EventHandler_HandleAceMessage n h) (MB_STOP_SERVICE mei # before @ unsubscription n mei # after) s
      = s\<lparr>m_serviceIsClosed := True, postings := postings s @ [To EVENT_MANAGER (unsubscription n mei),
          To_configurator (MB_SERVICE_STATUS_CHANGED (Some (n, STATUS_UNLOADCOMPLETE)))]\<rparr>
    \<and> postings (EventManager_HandleAceMessage (unsubscription n mei) m) = postings m @ [To n (unsubscription n mei)]
    \<and> To n (MB_PUBLISH_EVENT (Some a)) \<notin> set (published_by (EventManager_HandleAceMessage (unsubscription n mei) m) a)"
  using handled_stop [OF assms(1,2)] unsubscribed [OF assms(3), of mei] by (auto simp: published_by_eq)

theorem stopped_service_is_silent_witness:
  "fold (EventHandler_HandleAceMessage GMS_TIMESYNCSERVICE (\<lambda>_ s. s)) (MB_STOP_SERVICE (Some True) # [MB_TIMER_EXPIRED] @
        unsubscription GMS_TIMESYNCSERVICE (Some True) # [MB_PUBLISH_EVENT None]) \<lparr>m_serviceIsClosed = False, postings = []\<rparr>
      = \<lparr>m_serviceIsClosed = False, postings = []\<rparr>\<lparr>m_serviceIsClosed := True,
          postings := postings \<lparr>m_serviceIsClosed = False, postings = []\<rparr> @
            [To EVENT_MANAGER (unsubscription GMS_TIMESYNCSERVICE (Some True)),
             To_configurator (MB_SERVICE_STATUS_CHANGED (Some (GMS_TIMESYNCSERVICE, STATUS_UNLOADCOMPLETE)))]\<rparr>
    \<and> postings (EventManager_HandleAceMessage (unsubscription GMS_TIMESYNCSERVICE (Some True))
        (EventManager\<lparr>handlers := [(GMS_TIMESYNCSERVICE, TimeSyncEventFilter)]\<rparr>))
      = postings (EventManager\<lparr>handlers := [(GMS_TIMESYNCSERVICE, TimeSyncEventFilter)]\<rparr>) @
          [To GMS_TIMESYNCSERVICE (unsubscription GMS_TIMESYNCSERVICE (Some True))]
    \<and> To GMS_TIMESYNCSERVICE (MB_PUBLISH_EVENT (Some \<lparr>al_category = 9, al_id = 95, al_Datetime = [], al_MessageID = [],
          al_Message = [], al_MessageArguments = []\<rparr>))
        \<notin> set (published_by (EventManager_HandleAceMessage (unsubscription GMS_TIMESYNCSERVICE (Some True))
            (EventManager\<lparr>handlers := [(GMS_TIMESYNCSERVICE, TimeSyncEventFilter)]\<rparr>))
          \<lparr>al_category = 9, al_id = 95, al_Datetime = [], al_MessageID = [], al_Message = [], al_MessageArguments = []\<rparr>)"
  by (rule stopped_service_is_silent) simp_all

end
