(* ===== verification/History_Handler.thy ===== *)
theory History_Handler
  imports Event_Manager Registry
begin

text \<open>
  The history of events (\<^verbatim>\<open>UNS/HistoryEventHandler/HistoryEventHandler.cpp\<close>): a text in the store of settings, to which
  every event the filter takes is appended. Characters of the text are 32 bits wide.
\<close>

text \<open>A service that works on the store of settings.\<close>

record stored_service = sub_service +
  DS :: registry

definition bar :: u32 where "bar = 124"

text \<open>A number as \<^verbatim>\<open>operator<<\<close> writes it to a wide stream.\<close>

definition wide_decimal :: "nat \<Rightarrow> u32 list" where
  "wide_decimal n = map ucast (decimal n)"

definition wide_time :: "int \<Rightarrow> u32 list" where
  "wide_time t = (if t < 0 then 45 # wide_decimal (nat (- t)) else wide_decimal (nat t))"

text \<open>The oldest event is erased up to the separator behind it, and that too; reading on past the end is undefined.\<close>

definition erase_oldest :: "u32 list \<Rightarrow> u32 list option" where
  "erase_oldest l = (case l of
     [] \<Rightarrow> None
   | _ # cs \<Rightarrow> (case dropWhile (\<lambda>c. c \<noteq> bar) cs of [] \<Rightarrow> None | _ # rest \<Rightarrow> Some rest))"

definition event_text :: "GMS_AlertIndication \<Rightarrow> u32 list" where
  "event_text a = wide_decimal (al_category a) @ 58 # wide_decimal (al_id a)"

text \<open>\<^verbatim>\<open>setEventHistory\<close>, with what \<^verbatim>\<open>time\<close> answers, -1 for a failure. The block allocated for the text is filled by \<open>junk\<close>.\<close>

definition setEventHistory ::
  "write_answer \<Rightarrow> (nat \<Rightarrow> u8) \<Rightarrow> int \<Rightarrow> u32 list \<Rightarrow> data_name \<Rightarrow> stored_service \<Rightarrow> stored_service option" where
  "setEventHistory a junk t newEvent storageName s = do {
     (found, eventList, r) \<leftarrow> GetDataValue_wstring storageName junk [] True (DS s);
     let s = s\<lparr>DS := r\<rparr>;
     eventList \<leftarrow> (if count_list eventList bar \<ge> 99 then erase_oldest eventList else Some eventList);
     if t = -1 then Some s
     else do {
       (_, r) \<leftarrow> SetDataValue_wstring a storageName (eventList @ bar # newEvent @ 58 # wide_time t) True (DS s);
       Some (s\<lparr>DS := r\<rparr>) } }"

definition HistoryEventHandler_init ::
  "write_answer \<Rightarrow> (nat \<Rightarrow> u8) \<Rightarrow> bool \<Rightarrow> stored_service \<Rightarrow> stored_service option" where
  "HistoryEventHandler_init a junk options_ok s = do {
     (found, _, r) \<leftarrow> GetDataValue_wstring IMSS_EVENT_HISTORY junk [] True (DS s);
     (_, r) \<leftarrow> (if found then Some (True, r) else SetDataValue_wstring a IMSS_EVENT_HISTORY [] True r);
     Some (EventHandler_init HISTORY_EVENT_HANDLER IMSSFilter options_ok (s\<lparr>DS := r\<rparr>)) }"

definition history_handle_event ::
  "write_answer \<Rightarrow> (nat \<Rightarrow> u8) \<Rightarrow> int \<Rightarrow> ev_message \<Rightarrow> stored_service \<Rightarrow> stored_service option" where
  "history_handle_event a junk t m s = (case m of
     MB_PUBLISH_EVENT (Some al) \<Rightarrow> setEventHistory a junk t (event_text al) IMSS_EVENT_HISTORY s
   | _ \<Rightarrow> Some s)"

end
