(* ===== verification/History_Correct.thy ===== *)
theory History_Correct
  imports History_Handler Registry_Correct
begin

text \<open>
  The history of events as a list: what the stored text is after any number of events, and what becomes of it when the
  service starts again.
\<close>

subsection \<open>Texts of wide characters in the store\<close>

lemma length_wide [simp]: "length (concat (map put32 l)) = 4 * length l"
  by (induction l) simp_all

lemma drop_wide: "drop (4 * i) (concat (map put32 l)) = concat (map put32 (drop i l))"
proof (induction l arbitrary: i)
  case (Cons c l)
  then show ?case by (cases i) simp_all
qed simp

lemma wide_chars_wide [simp]: "wide_chars (concat (map put32 l)) = l"
proof (rule nth_equalityI)
  show "length (wide_chars (concat (map put32 l))) = length l" by (simp add: wide_chars_def)
next
  fix i assume "i < length (wide_chars (concat (map put32 l)))"
  then have i: "i < length l" by (simp add: wide_chars_def)
  then have "get32 (drop (4 * i) (concat (map put32 l))) = l ! i"
    by (simp add: drop_wide Cons_nth_drop_Suc [symmetric])
  with i show "wide_chars (concat (map put32 l)) ! i = l ! i" by (simp add: wide_chars_def)
qed

definition cached_text :: "registry \<Rightarrow> data_name \<Rightarrow> u32 list \<Rightarrow> bool" where
  "cached_text r n l \<longleftrightarrow> (\<exists>key vn. regMap n = Some (key, vn) \<and> 0 \<notin> set l \<and>
     regCache r (cacheKey key vn) = Some (concat (map put32 (l @ [0])), VAL_STR))"

lemma cached_text_read:
  assumes "cached_text r n l"
  shows "GetDataValue_wstring n junk old True r = Some (True, l, r)"
proof -
  from assms obtain key vn where n: "regMap n = Some (key, vn)" and l: "0 \<notin> set l"
    and hit: "regCache r (cacheKey key vn) = Some (concat (map put32 (l @ [0])), VAL_STR)"
    by (auto simp: cached_text_def)
  have get: "GetRegistryData True key vn x r = (answer_with (concat (map put32 (l @ [0]))) VAL_STR x, r)"
    if "case x of None \<Rightarrow> True | Some buf \<Rightarrow> length buf = 4 * (length l + 1)" for x
    using GetRegistryData_hit [OF hit, of x True] that by (simp add: prod_eq_iff split: option.splits)
  have "takeWhile (\<lambda>c. c \<noteq> 0) (l @ [0]) = l" using l by (induction l) auto
  then show ?thesis using n get [of None] get [of "Some (map junk [0..<4 * length l + 4])"] wide_chars_wide [of "l @ [0]"]
    by (simp add: GetDataValue_wstring_def answer_with_def copy_into_def)
qed

lemma wide_not_Nil [simp]: "concat (map put32 (l @ [0])) \<noteq> []"
  by (simp add: put32_def)

lemma SetRegistryData_ok: "fst (SetRegistryData a c v t key vn r) \<longleftrightarrow> v \<noteq> [] \<and> succeeds a"
  using write_file_ok [of a v t key vn r] by (cases "write_file a v t key vn r") (simp add: SetRegistryData_def)

lemma text_written:
  assumes "regMap n \<noteq> None" "succeeds a" "0 \<notin> set l"
  shows "\<exists>r'. SetDataValue_wstring a n l True r = Some (True, r') \<and> cached_text r' n l"
proof -
  obtain key vn where n: "regMap n = Some (key, vn)" using assms(1) by auto
  let ?w = "SetRegistryData a True (concat (map put32 (l @ [0]))) VAL_STR key vn r"
  have "regCache (snd ?w) (cacheKey key vn) = Some (concat (map put32 (l @ [0])), VAL_STR)"
    using SetRegistryData_cache [of a True "concat (map put32 (l @ [0]))" VAL_STR key vn r] assms(2) wide_not_Nil [of l]
    by (simp del: wide_not_Nil)
  then have "cached_text (snd ?w) n l" using n assms(3) by (simp add: cached_text_def)
  moreover have "fst ?w"
    using assms(2) by (simp only: SetRegistryData_ok wide_not_Nil) simp
  ultimately show ?thesis using n by (auto simp: SetDataValue_wstring_def prod_eq_iff intro!: exI [of _ "snd ?w"])
qed

subsection \<open>The history as a list\<close>

text \<open>One event more, on the text alone.\<close>

definition history_push :: "u32 list \<Rightarrow> u32 list \<Rightarrow> u32 list option" where
  "history_push l e = map_option (\<lambda>l. l @ bar # e) (if count_list l bar \<ge> 99 then erase_oldest l else Some l)"

definition with_bars :: "u32 list list \<Rightarrow> u32 list" where
  "with_bars es = concat (map (\<lambda>e. bar # e) es)"

text \<open>The text after the events \<open>es\<close>, the latest last. The first time the text is shortened, its leading separator goes
  with the oldest event.\<close>

definition history_text :: "u32 list list \<Rightarrow> u32 list" where
  "history_text es = (if length es \<le> 99 then with_bars es else tl (with_bars (drop (max 1 (length es - 100)) es)))"

definition entry_ok :: "u32 list \<Rightarrow> bool" where
  "entry_ok e \<longleftrightarrow> e \<noteq> [] \<and> bar \<notin> set e \<and> 0 \<notin> set e"

lemma with_bars_simps [simp]: "with_bars [] = []" "with_bars (e # es) = bar # e @ with_bars es"
  "with_bars (es @ fs) = with_bars es @ with_bars fs"
  by (simp_all add: with_bars_def)

lemma count_with_bars: "list_all entry_ok es \<Longrightarrow> count_list (with_bars es) bar = length es"
  by (induction es) (simp_all add: entry_ok_def)

lemma with_bars_no_zero: "list_all entry_ok es \<Longrightarrow> 0 \<notin> set (with_bars es)"
  by (induction es) (simp_all add: entry_ok_def bar_def)

lemma drop_entry: "bar \<notin> set e \<Longrightarrow> dropWhile (\<lambda>c. c \<noteq> bar) (e @ bar # l) = bar # l"
  by (induction e) auto

lemma erase_leading:
  assumes "entry_ok e" "entry_ok f"
  shows "erase_oldest (with_bars (e # f # es)) = Some (tl (with_bars (f # es)))"
  using assms drop_entry [of e "f @ with_bars es"] by (simp add: erase_oldest_def entry_ok_def)

lemma erase_next:
  assumes "entry_ok e" "entry_ok f"
  shows "erase_oldest (tl (with_bars (e # f # es))) = Some (tl (with_bars (f # es)))"
proof -
  obtain c cs where e: "e = c # cs" using assms(1) by (cases e) (auto simp: entry_ok_def)
  with assms(1) have "bar \<notin> set cs" by (simp add: entry_ok_def)
  then show ?thesis using drop_entry [of cs "f @ with_bars es"] by (simp add: erase_oldest_def e)
qed

lemma count_tl_bars: "list_all entry_ok (e # es) \<Longrightarrow> count_list (tl (with_bars (e # es))) bar = length es"
  using count_with_bars [of "e # es"] by simp

lemma history_push_text:
  assumes "list_all entry_ok es" "entry_ok e"
  shows "history_push (history_text es) e = Some (history_text (es @ [e]))"
proof -
  consider "length es < 99" | "length es = 99" | "length es = 100" | "100 < length es" by linarith
  then show ?thesis
  proof cases
    case 1
    then show ?thesis using count_with_bars [OF assms(1)] by (simp add: history_push_def history_text_def)
  next
    case 2
    obtain f g fs where es: "es = f # g # fs" using 2 by (cases es; cases "tl es") auto
    with assms have "entry_ok f" "entry_ok g" by simp_all
    from erase_leading [OF this, of fs] 2 count_with_bars [OF assms(1)] show ?thesis
      by (simp add: history_push_def history_text_def es)
  next
    case 3
    obtain f g fs where es: "es = f # g # fs" using 3 by (cases es; cases "tl es") auto
    have "list_all entry_ok (g # fs)" using assms(1) es by simp
    from count_tl_bars [OF this] 3 show ?thesis by (simp add: history_push_def history_text_def es)
  next
    case 4
    let ?d = "drop (length es - 100) es"
    have len: "length ?d = 100" using 4 by simp
    obtain f g fs where d: "?d = f # g # fs" using len by (cases ?d; cases "tl ?d") auto
    have ok: "list_all entry_ok ?d" using assms(1) by (auto simp: list_all_iff dest: in_set_dropD)
    then have fg: "entry_ok f" "entry_ok g" "list_all entry_ok (f # g # fs)" by (simp_all add: d)
    have next': "drop (Suc (length es) - 100) (es @ [e]) = g # fs @ [e]"
    proof -
      have "Suc (length es) - 100 = Suc (length es - 100)" using 4 by simp
      then have "drop (Suc (length es) - 100) (es @ [e]) = drop (Suc (length es - 100)) es @ [e]" using 4 by (simp only: drop_append) simp
      also have "drop (Suc (length es - 100)) es = tl ?d" by (simp add: drop_Suc tl_drop)
      finally show ?thesis by (simp add: d)
    qed
    have now: "history_text es = tl (with_bars (f # g # fs))" using 4 d by (simp add: history_text_def max_def)
    have after: "history_text (es @ [e]) = tl (with_bars (g # fs @ [e]))" 
    proof -
      have "max 1 (length (es @ [e]) - 100) = Suc (length es) - 100" using 4 by simp
      with next' have "drop (max 1 (length (es @ [e]) - 100)) (es @ [e]) = g # fs @ [e]" by (simp only:)
      then show ?thesis using 4 by (simp only: history_text_def) simp
    qed
    have "count_list (tl (with_bars (f # g # fs))) bar = 99"
      using count_tl_bars [OF fg(3)] len d by simp
    then show ?thesis unfolding now after history_push_def using erase_next [OF fg(1,2), of fs] by simp
  qed
qed

subsection \<open>What an event adds\<close>

definition entry :: "GMS_AlertIndication \<times> int \<Rightarrow> u32 list" where
  "entry p = event_text (fst p) @ 58 # wide_time (snd p)"

lemma wide_digit: "c \<in> set (wide_decimal n) \<Longrightarrow> 48 \<le> c \<and> c \<le> 57"
proof -
  assume "c \<in> set (wide_decimal n)"
  then obtain b where c: "c = ucast b" and b: "is_digit b"
    using decimal_digits [of n] by (auto simp: wide_decimal_def list_all_iff)
  have "unat b \<le> 57" using b by (simp add: is_digit_def word_le_nat_alt)
  then have "unat c = unat b" unfolding c by (simp add: unsigned_ucast_eq take_bit_nat_eq_self)
  with b show ?thesis by (simp add: is_digit_def word_le_nat_alt)
qed

lemma wide_decimal_chars: "bar \<notin> set (wide_decimal n)" "0 \<notin> set (wide_decimal n)"
  using wide_digit [of bar n] wide_digit [of 0 n] by (auto simp: bar_def word_le_nat_alt)

lemma wide_decimal_not_Nil: "wide_decimal n \<noteq> []"
  by (simp add: wide_decimal_def)

lemma wide_time_chars: "bar \<notin> set (wide_time t)" "0 \<notin> set (wide_time t)"
  using wide_decimal_chars by (simp_all add: wide_time_def bar_def)

lemma entry_ok_entry: "entry_ok (entry p)"
  using wide_decimal_chars wide_time_chars [of "snd p"]
  by (simp add: entry_ok_def entry_def event_text_def bar_def wide_decimal_not_Nil)

lemma entries_ok: "list_all entry_ok (map entry evs)"
  by (simp add: list_all_iff entry_ok_entry)

lemma set_tl_subset: "set (tl xs) \<subseteq> set xs"
  by (cases xs) auto

lemma history_text_no_zero: "list_all entry_ok es \<Longrightarrow> 0 \<notin> set (history_text es)"
proof -
  assume es: "list_all entry_ok es"
  have "0 \<notin> set (with_bars (drop k es))" for k
    using es by (intro with_bars_no_zero) (auto simp: list_all_iff dest: in_set_dropD)
  from this [of 0] this [of "max 1 (length es - 100)"] show ?thesis
    by (auto simp: history_text_def dest: subsetD [OF set_tl_subset])
qed

text \<open>The state after one event: the text is written with the event appended.\<close>

lemma event_handled:
  assumes "cached_text (DS s) IMSS_EVENT_HISTORY (history_text (map entry evs))" "snd p \<noteq> -1"
  shows "history_handle_event a junk (snd p) (MB_PUBLISH_EVENT (Some (fst p))) s = do {
     (_, r) \<leftarrow> SetDataValue_wstring a IMSS_EVENT_HISTORY (history_text (map entry (evs @ [p]))) True (DS s);
     Some (s\<lparr>DS := r\<rparr>) }"
proof -
  obtain l where l: "(if count_list (history_text (map entry evs)) bar \<ge> 99
      then erase_oldest (history_text (map entry evs)) else Some (history_text (map entry evs))) = Some l"
    and new: "history_text (map entry (evs @ [p])) = l @ bar # entry p"
    using history_push_text [OF entries_ok [of evs] entry_ok_entry [of p]] by (auto simp: history_push_def split: if_splits)
  show ?thesis unfolding new using cached_text_read [OF assms(1)] l assms(2)
    by (simp add: history_handle_event_def setEventHistory_def entry_def split: if_splits)
qed

definition history_run :: "write_answer \<Rightarrow> (nat \<Rightarrow> u8) \<Rightarrow> (GMS_AlertIndication \<times> int) list \<Rightarrow> stored_service \<Rightarrow> stored_service option" where
  "history_run a junk = foldM (\<lambda>(al, t). history_handle_event a junk t (MB_PUBLISH_EVENT (Some al)))"

lemma history_run_text:
  assumes "succeeds a" "list_all (\<lambda>p. snd p \<noteq> -1) evs" "cached_text (DS s) IMSS_EVENT_HISTORY []"
  shows "\<exists>s'. history_run a junk evs s = Some s' \<and> cached_text (DS s') IMSS_EVENT_HISTORY (history_text (map entry evs))"
  using assms(2)
proof (induction evs rule: rev_induct)
  case Nil
  then show ?case using assms(3) by (simp add: history_run_def history_text_def)
next
  case (snoc p evs)
  then obtain s' where s': "history_run a junk evs s = Some s'"
    "cached_text (DS s') IMSS_EVENT_HISTORY (history_text (map entry evs))" by auto
  obtain r' where r': "SetDataValue_wstring a IMSS_EVENT_HISTORY (history_text (map entry (evs @ [p]))) True (DS s') = Some (True, r')"
    "cached_text r' IMSS_EVENT_HISTORY (history_text (map entry (evs @ [p])))"
    using text_written [OF _ assms(1) history_text_no_zero [OF entries_ok [of "evs @ [p]"]], of IMSS_EVENT_HISTORY "DS s'"]
    by fastforce
  from event_handled [OF s'(2), of p a junk] snoc(2) r'
  have "history_handle_event a junk (snd p) (MB_PUBLISH_EVENT (Some (fst p))) s' = Some (s'\<lparr>DS := r'\<rparr>)" by simp
  with s'(1) have "history_run a junk (evs @ [p]) s = Some (s'\<lparr>DS := r'\<rparr>)"
    by (cases p) (simp add: history_run_def foldM_append)
  then show ?case using r'(2) by simp
qed

subsection \<open>After a restart\<close>

lemma first_digit:
  assumes "99 < length evs"
  shows "\<exists>d cs. history_text (map entry evs) = d # cs \<and> is_digit (ucast d)"
proof -
  define k where "k = max 1 (length evs - 100)"
  have "k < length evs" using assms by (simp add: k_def)
  then obtain p ps where d: "drop k evs = p # ps" by (metis Cons_nth_drop_Suc)
  obtain c cs where c: "wide_decimal (al_category (fst p)) = c # cs"
    using wide_decimal_not_Nil by (cases "wide_decimal (al_category (fst p))") auto
  then obtain b where b: "c = ucast b" "is_digit b"
    using decimal_digits [of "al_category (fst p)"] by (cases "decimal (al_category (fst p))") (auto simp: wide_decimal_def)
  have "drop k (map entry evs) = map entry (p # ps)" by (simp add: drop_map d)
  then have "history_text (map entry evs) = tl (with_bars (map entry (p # ps)))"
    using assms by (simp add: history_text_def k_def)
  then have "\<exists>cs. history_text (map entry evs) = c # cs" using c by (simp add: entry_def event_text_def)
  moreover have "(ucast c :: u8) = b" unfolding b by (rule bit_word_eqI) (auto simp: bit_simps)
  ultimately show ?thesis using b(2) by auto
qed

lemma wide_text_lost:
  assumes "honest a" "regMap n = Some (key, vn)" "is_digit (ucast d)"
    and "SetDataValue_wstring a n (d # cs) True r = Some (ok, r')"
  shows "\<exists>r''. GetDataValue_wstring n junk old c (restart r') = Some (False, old, r'')"
proof -
  let ?v = "concat (map put32 ((d # cs) @ [0]))"
  have r': "r' = snd (SetRegistryData a True ?v VAL_STR key vn r)" using assms(2,4) by (auto simp: SetDataValue_wstring_def)
  obtain ds where v: "?v = ucast d # ds" by (simp add: put32_def)
  obtain q where q: "GetRegistryData c key vn None (restart r') = (q, restart r')"
    using GetRegistryData_uncached(2) [of c key vn "restart r'"] by (metis prod.collapse)
  have "q = read_file key vn None (restart r')" using get_without_cache [of "restart r'" c key vn None] q by simp
  then have "\<not> (\<exists>m b. q = Some (m, b, VAL_STR))"
    using value_lost [OF assms(1,3), of VAL_STR key vn None True ds r] unfolding r' v by (auto simp: VAL_STR_def)
  then show ?thesis using assms(2) q by (cases q) (auto simp: GetDataValue_wstring_def)
qed

end
