(* ===== verification/History_Properties.thy ===== *)
theory History_Properties
  imports History_Correct
begin

text \<open>
  The properties of the history of events: which events it holds, and that it is lost when the service starts again.
\<close>

text \<open>C33. From an empty history and as long as every write succeeds, the history read back is, in the order of the events
  and each as \<open>category:number:time\<close> behind a bar, all of up to 99 events, and from the 101st on exactly the last 100
  without the first bar; the hundredth event costs two bars, so that it leaves 99. The service never reads beyond the
  end of the text.\<close>

theorem history_keeps_latest:
  assumes "succeeds a" "list_all (\<lambda>p. snd p \<noteq> -1) evs" "cached_text (DS s) IMSS_EVENT_HISTORY []"
  shows "\<exists>s'. history_run a junk evs s = Some s'
    \<and> GetDataValue_wstring IMSS_EVENT_HISTORY junk old True (DS s') = Some (True,
        (if length evs \<le> 99 then with_bars (map entry evs)
         else tl (with_bars (map entry (drop (max 1 (length evs - 100)) evs)))), DS s')"
proof -
  obtain s' where s': "history_run a junk evs s = Some s'" "cached_text (DS s') IMSS_EVENT_HISTORY (history_text (map entry evs))"
    using history_run_text [OF assms] by blast
  with cached_text_read [OF s'(2), of junk old] show ?thesis by (auto simp: history_text_def drop_map)
qed

definition all_well :: write_answer where
  "all_well = \<lparr>dirs_ok = True, open_ok = True, type_good = True, data_good = True, reach = None\<rparr>"

definition with_history :: "u32 list \<Rightarrow> stored_service" where
  "with_history l = \<lparr>m_serviceIsClosed = False, postings = [], DS = \<lparr>position = ''/etc/lms/'', files = \<lambda>_. None,
     regCache = [cacheKey AMT_REG_ENTRY_UNS_PREFIX_EVENT_HISTORY ''IMSS Event History'' \<mapsto>
       (concat (map put32 (l @ [0])), VAL_STR)]\<rparr>\<rparr>"

definition reboot_alert :: GMS_AlertIndication where
  "reboot_alert = \<lparr>al_category = CATEGORY_GENERAL, al_id = EVENT_REMOTE_REBOOT, al_Datetime = [], al_MessageID = [],
     al_Message = [], al_MessageArguments = []\<rparr>"

lemma with_history_cached: "cached_text (DS (with_history [])) IMSS_EVENT_HISTORY []"
  by (simp add: cached_text_def with_history_def)

theorem history_keeps_latest_witness:
  "\<exists>s'. history_run all_well (\<lambda>_. 0) (replicate 150 (reboot_alert, 1600000000)) (with_history []) = Some s'
    \<and> GetDataValue_wstring IMSS_EVENT_HISTORY (\<lambda>_. 0) [] True (DS s') = Some (True,
        (if length (replicate 150 (reboot_alert, 1600000000 :: int)) \<le> 99
         then with_bars (map entry (replicate 150 (reboot_alert, 1600000000)))
         else tl (with_bars (map entry (drop (max 1 (length (replicate 150 (reboot_alert, 1600000000 :: int)) - 100))
           (replicate 150 (reboot_alert, 1600000000)))))), DS s')"
  by (rule history_keeps_latest) (simp_all add: succeeds_def all_well_def with_history_cached list_all_iff)

text \<open>Once the history has been shortened it begins with a digit, and the store writes it directly behind the decimal
  number of its type: after a hundred events and a restart nothing of the history is found, and the start of the
  service replaces it by an empty one.\<close>

theorem history_lost_at_restart:
  assumes "honest a" "list_all (\<lambda>p. snd p \<noteq> -1) evs" "99 < length evs" "cached_text (DS s) IMSS_EVENT_HISTORY []"
  shows "\<exists>s' s''. history_run a junk evs s = Some s'
    \<and> HistoryEventHandler_init a junk ok (s'\<lparr>DS := restart (DS s')\<rparr>) = Some s'' \<and> cached_text (DS s'') IMSS_EVENT_HISTORY []"
proof -
  have a: "succeeds a" using assms(1) by (simp add: honest_def succeeds_def)
  obtain es p where evs: "evs = es @ [p]" using assms(3) by (cases evs rule: rev_cases) auto
  with assms(2) have p: "snd p \<noteq> -1" "list_all (\<lambda>p. snd p \<noteq> -1) es" by simp_all
  obtain s1 where s1: "history_run a junk es s = Some s1" "cached_text (DS s1) IMSS_EVENT_HISTORY (history_text (map entry es))"
    using history_run_text [OF a p(2) assms(4)] by blast
  obtain d cs where d: "history_text (map entry evs) = d # cs" "is_digit (ucast d)" using first_digit [OF assms(3)] by blast
  obtain key vn where n: "regMap IMSS_EVENT_HISTORY = Some (key, vn)" by simp
  obtain b r' where r': "SetDataValue_wstring a IMSS_EVENT_HISTORY (d # cs) True (DS s1) = Some (b, r')"
    using n by (cases "SetDataValue_wstring a IMSS_EVENT_HISTORY (d # cs) True (DS s1)") (auto simp: SetDataValue_wstring_def)
  have run: "history_run a junk evs s = Some (s1\<lparr>DS := r'\<rparr>)"
    using s1(1) event_handled [OF s1(2) p(1), of a junk] r' d(1)
    by (cases p) (simp add: evs history_run_def foldM_append)
  obtain r'' where r'': "GetDataValue_wstring IMSS_EVENT_HISTORY junk [] True (restart r') = Some (False, [], r'')"
    using wide_text_lost [OF assms(1) n d(2) r'] by blast
  obtain r3 where r3: "SetDataValue_wstring a IMSS_EVENT_HISTORY [] True r'' = Some (True, r3)" "cached_text r3 IMSS_EVENT_HISTORY []"
    using text_written [of IMSS_EVENT_HISTORY a "[]" r''] a by auto
  have "HistoryEventHandler_init a junk ok (s1\<lparr>DS := restart r'\<rparr>)
    = Some (EventHandler_init HISTORY_EVENT_HANDLER IMSSFilter ok (s1\<lparr>DS := r3\<rparr>))"
    using r'' r3(1) by (simp add: HistoryEventHandler_init_def)
  moreover have "DS (EventHandler_init HISTORY_EVENT_HANDLER IMSSFilter ok (s1\<lparr>DS := r3\<rparr>)) = r3"
    by (simp add: EventHandler_init_def put_posting_def initSubService_def)
  ultimately show ?thesis using run r3(2) by auto
qed

theorem history_lost_at_restart_witness:
  "\<exists>s' s''. history_run all_well (\<lambda>_. 0) (replicate 100 (reboot_alert, 1600000000)) (with_history []) = Some s'
    \<and> HistoryEventHandler_init all_well (\<lambda>_. 0) True (s'\<lparr>DS := restart (DS s')\<rparr>) = Some s''
    \<and> cached_text (DS s'') IMSS_EVENT_HISTORY []"
  by (rule history_lost_at_restart) (simp_all add: honest_def all_well_def with_history_cached list_all_iff)

end
