(* ===== verification/Status_Handler.thy ===== *)
theory Status_Handler
  imports History_Handler Amthi_Query Amthi_Settings
begin

text \<open>
  The handler of status events (\<^verbatim>\<open>UNS/StatusEventHandler/StatusEventHandler.cpp\<close>, on Linux): it compares the state of
  the platform with what is stored, publishes what has changed, and stores a change when its event comes back from the
  manager of events. The firmware, the WS-Management clients, the clock and the writes of the store answer by the record
  \<open>outside\<close>, anew at every call: the state counts the calls. A run of a client that is undefined, which is one with messages of no
  bytes, counts as a failure.
\<close>

subsection \<open>Values and state\<close>

definition NOT_PRESENT :: u32 where "NOT_PRESENT = 0"
definition DISABLED :: u32 where "DISABLED = 1"
definition ENABLED :: u32 where "ENABLED = 2"

definition PROVISIONING_STATE_PRE :: u32 where "PROVISIONING_STATE_PRE = 0"
definition PROVISIONING_STATE_IN :: u32 where "PROVISIONING_STATE_IN = 1"
definition PROVISIONING_STATE_POST :: u32 where "PROVISIONING_STATE_POST = 2"

definition UC_ENDED :: u32 where "UC_ENDED = 0"
definition UC_REQUESTED :: u32 where "UC_REQUESTED = 1"
definition UC_GRANTED :: u32 where "UC_GRANTED = 2"

definition OPT_IN_STATE_NOT_STARTED :: u32 where "OPT_IN_STATE_NOT_STARTED = 0"
definition OPT_IN_STATE_REQUESTED :: u32 where "OPT_IN_STATE_REQUESTED = 1"
definition OPT_IN_STATE_DISPLAYED :: u32 where "OPT_IN_STATE_DISPLAYED = 2"
definition OPT_IN_STATE_RECEIVED :: u32 where "OPT_IN_STATE_RECEIVED = 3"
definition OPT_IN_STATE_IN_SESSION :: u32 where "OPT_IN_STATE_IN_SESSION = 4"

definition NOT_REQUIRED :: u32 where "NOT_REQUIRED = 0"
definition KVM_ONLY :: u32 where "KVM_ONLY = 1"
definition ALL_SESSIONS :: u32 where "ALL_SESSIONS = 4294967295"

definition KVM_ENABLED_AND_CONNECTED :: u16 where "KVM_ENABLED_AND_CONNECTED = 2"
definition KVM_DISABLED :: u16 where "KVM_DISABLED = 3"
definition KVM_ENABLED_AND_DISCONNECTED :: u16 where "KVM_ENABLED_AND_DISCONNECTED = 6"

definition KVM_STOPPED :: u32 where "KVM_STOPPED = 0"
definition KVM_STARTED :: u32 where "KVM_STARTED = 1"
definition KVM_REQUESTED :: u32 where "KVM_REQUESTED = 2"
definition KVM_DATA_CHANNEL :: u32 where "KVM_DATA_CHANNEL = 3"

definition ME_CONTROL :: u32 where "ME_CONTROL = 1"
definition HOST_CONTROL :: u32 where "HOST_CONTROL = 2"

definition PROTECTION_OFF :: u32 where "PROTECTION_OFF = 1"
definition PROTECTION_PASSIVE :: u32 where "PROTECTION_PASSIVE = 2"
definition PROTECTION_HIGH :: u32 where "PROTECTION_HIGH = 3"
definition NOT_EXIST :: u32 where "NOT_EXIST = 5"

lemmas status_numbers = NOT_PRESENT_def DISABLED_def ENABLED_def PROVISIONING_STATE_PRE_def PROVISIONING_STATE_IN_def
  PROVISIONING_STATE_POST_def UC_ENDED_def UC_REQUESTED_def UC_GRANTED_def OPT_IN_STATE_NOT_STARTED_def
  OPT_IN_STATE_REQUESTED_def OPT_IN_STATE_DISPLAYED_def OPT_IN_STATE_RECEIVED_def OPT_IN_STATE_IN_SESSION_def
  NOT_REQUIRED_def KVM_ONLY_def ALL_SESSIONS_def KVM_ENABLED_AND_CONNECTED_def KVM_DISABLED_def
  KVM_ENABLED_AND_DISCONNECTED_def KVM_STOPPED_def KVM_STARTED_def KVM_REQUESTED_def KVM_DATA_CHANNEL_def ME_CONTROL_def
  HOST_CONTROL_def PROTECTION_OFF_def PROTECTION_PASSIVE_def PROTECTION_HIGH_def NOT_EXIST_def

datatype publish_events = SOL | IDER | SYSDEF | KVMSTATE | KVMACTIVITY | MANAGEMODE | MESTATE | HECISTATE | EACENABLE
  | IPSYNCENABLE | TIMESYNCENABLE | WIFIPROFILESYNCENABLE

datatype customer_type = CORPORATE | CONSUMER | WRONG_CUSTOMER_TYPE

datatype menageabilty_mode = NONE | NOT_KNOWN | VPRO | STANDARD | L3 | SBT

record status_handler = stored_service +
  calls :: nat
  m_KVM :: u16
  m_SOL :: u16
  m_IDER :: u16
  m_prevUserConsentState :: u32
  m_prevProvState :: u32
  m_UserConsentPolicy :: u32
  m_eacEnabled :: bool
  m_prevAmtState :: u32
  m_prevCustomerType :: customer_type
  m_prevManageMode :: menageabilty_mode
  m_firstPullForEvents :: bool
  m_firstCheckForBootReason :: bool

definition StatusEventHandler :: "registry \<Rightarrow> status_handler" where
  "StatusEventHandler r = \<lparr>m_serviceIsClosed = False, postings = [], DS = r, calls = 0, m_KVM = 0, m_SOL = 0, m_IDER = 0,
     m_prevUserConsentState = OPT_IN_STATE_NOT_STARTED, m_prevProvState = PROVISIONING_STATE_PRE,
     m_UserConsentPolicy = ALL_SESSIONS, m_eacEnabled = True, m_prevAmtState = NOT_PRESENT,
     m_prevCustomerType = CORPORATE, m_prevManageMode = NOT_KNOWN, m_firstPullForEvents = True,
     m_firstCheckForBootReason = True\<rparr>"

text \<open>The answers. A failure of a WS-Management client is \<^term>\<open>None\<close>; \<open>o_junk\<close> is what a variable holds that was not
  initialised.\<close>

record outside =
  o_driver :: "nat \<Rightarrow> tee"
  o_date :: "nat \<Rightarrow> bytes"
  o_write :: "nat \<Rightarrow> write_answer"
  o_consent :: "nat \<Rightarrow> (u16 \<times> u16) option"
  o_kvm :: "nat \<Rightarrow> u16 option"
  o_static_ip :: "nat \<Rightarrow> bool option"
  o_time_sync :: "nat \<Rightarrow> bool option"
  o_ports :: "nat \<Rightarrow> (u32 \<times> u32 \<times> u32) option"
  o_boot :: "nat \<Rightarrow> (u32 \<times> u32) option"
  o_pfw :: "nat \<Rightarrow> bool"
  o_junk :: "nat \<Rightarrow> u64"

definition asked :: "(nat \<Rightarrow> 'a) \<Rightarrow> status_handler \<Rightarrow> 'a \<times> status_handler" where
  "asked f s = (f (calls s), s\<lparr>calls := calls s + 1\<rparr>)"

text \<open>A command to the firmware within \<^verbatim>\<open>try\<close> and \<^verbatim>\<open>catch (...)\<close>: every exception is a failure.\<close>

definition answer_of :: "'a mei \<times> 'b \<Rightarrow> 'a option" where
  "answer_of x = (case fst x of Returned a \<Rightarrow> Some a | Raised _ \<Rightarrow> None | Undefined \<Rightarrow> None)"

definition command :: "(tee \<Rightarrow> 'a mei \<times> 'b) \<Rightarrow> outside \<Rightarrow> status_handler \<Rightarrow> 'a option \<times> status_handler" where
  "command c w = asked (\<lambda>i. answer_of (c (o_driver w i)))"

subsection \<open>The store\<close>

definition ds_get :: "outside \<Rightarrow> data_name \<Rightarrow> status_handler \<Rightarrow> u64 option \<times> status_handler" where
  "ds_get w name s =
     (let (junk, s) = asked (o_junk w) s in
      case GetDataValue name junk True (DS s) of
        None \<Rightarrow> (None, s)
      | Some (found, v, r) \<Rightarrow> (if found then Some v else None, s\<lparr>DS := r\<rparr>))"

definition ds_set :: "outside \<Rightarrow> data_name \<Rightarrow> u64 \<Rightarrow> status_handler \<Rightarrow> status_handler" where
  "ds_set w name v s =
     (let (a, s) = asked (o_write w) s in
      case SetDataValue a name v True (DS s) of None \<Rightarrow> s | Some (_, r) \<Rightarrow> s\<lparr>DS := r\<rparr>)"

definition SaveCurrentStatus :: "outside \<Rightarrow> u32 \<Rightarrow> data_name \<Rightarrow> status_handler \<Rightarrow> status_handler" where
  "SaveCurrentStatus w status storageName = ds_set w storageName (ucast status)"

definition StatusChanged :: "outside \<Rightarrow> data_name \<Rightarrow> u32 \<Rightarrow> status_handler \<Rightarrow> bool \<times> status_handler" where
  "StatusChanged w storageName state s = (case ds_get w storageName s of
     (Some prevState, s) \<Rightarrow> (prevState \<noteq> ucast state, s)
   | (None, s) \<Rightarrow> (False, SaveCurrentStatus w state storageName s))"

text \<open>The variable is 0 before; a value of another type may overwrite it although the call fails.\<close>

definition getRebootAfterProvisioningNeed :: "outside \<Rightarrow> status_handler \<Rightarrow> bool \<times> status_handler" where
  "getRebootAfterProvisioningNeed w s = (case GetDataValue RebootAfterProvsioningNeeded_S 0 True (DS s) of
     None \<Rightarrow> (False, s)
   | Some (_, needed, r) \<Rightarrow> (needed \<noteq> 0, s\<lparr>DS := r\<rparr>))"

definition setRebootAfterProvisioningNeed :: "outside \<Rightarrow> bool \<Rightarrow> status_handler \<Rightarrow> status_handler" where
  "setRebootAfterProvisioningNeed w needed = ds_set w RebootAfterProvsioningNeeded_S (if needed then 1 else 0)"

subsection \<open>Messages\<close>

definition ACTIVE_MESSAGEID :: bytes where "ACTIVE_MESSAGEID = str ''iAMT0080''"

definition raise_alert :: "nat \<Rightarrow> nat \<Rightarrow> bytes \<Rightarrow> bytes \<Rightarrow> bytes \<Rightarrow> bytes list \<Rightarrow> status_handler \<Rightarrow> status_handler" where
  "raise_alert category eid date messageID message args = put_posting (To EVENT_MANAGER (MB_PUBLISH_EVENT
     (Some \<lparr>al_category = category, al_id = eid, al_Datetime = date, al_MessageID = messageID, al_Message = message,
        al_MessageArguments = take 1 args\<rparr>)))"

text \<open>An event of the handler's own, with the present time.\<close>

definition raise_now :: "outside \<Rightarrow> nat \<Rightarrow> nat \<Rightarrow> bytes \<Rightarrow> bytes list \<Rightarrow> status_handler \<Rightarrow> status_handler" where
  "raise_now w category eid message args s =
     (let (now, s) = asked (o_date w) s in raise_alert category eid now ACTIVE_MESSAGEID message args s)"

text \<open>An event that follows from another one.\<close>

definition raise_like :: "GMS_AlertIndication \<Rightarrow> nat \<Rightarrow> nat \<Rightarrow> bytes \<Rightarrow> bytes \<Rightarrow> status_handler \<Rightarrow> status_handler" where
  "raise_like a category eid messageID message =
     raise_alert category eid (al_Datetime a) messageID message (al_MessageArguments a)"

definition NotifyConfigurator :: "int \<Rightarrow> configuration_type \<Rightarrow> status_handler \<Rightarrow> status_handler" where
  "NotifyConfigurator status t = put_posting (To_configurator (MB_CONFIGURATION_CHANGE (Some (t, status))))"

definition NotifyIPRefresh :: "ev_message \<Rightarrow> status_handler \<Rightarrow> status_handler" where
  "NotifyIPRefresh m = put_posting (To GMS_IPREFRESHSERVICE m)"

text \<open>The category, the number and the text of \<^verbatim>\<open>publishEvent\<close>.\<close>

definition switched :: "u32 \<Rightarrow> string \<Rightarrow> bytes" where
  "switched action t = str t @ (if action \<noteq> 0 then str ''enabled'' else str ''disabled'')"

definition session_event :: "u32 \<Rightarrow> string \<Rightarrow> bytes" where
  "session_event action t = str t @ (if action \<noteq> 0 then str ''started'' else str ''ended'')"

definition event_of :: "u32 \<Rightarrow> publish_events \<Rightarrow> (nat \<times> nat \<times> bytes) option" where
  "event_of action ev = (case ev of
     SOL \<Rightarrow> Some (CATEGORY_REMOTE_DIAGNOSTIC, if action \<noteq> 0 then EVENT_REMOTE_SOL_STARTED else EVENT_REMOTE_SOL_ENDED,
       session_event action ''Remote SOL session '')
   | IDER \<Rightarrow> Some (CATEGORY_REMOTE_DIAGNOSTIC, if action \<noteq> 0 then EVENT_REMOTE_IDER_STARTED else EVENT_REMOTE_IDER_ENDED,
       session_event action ''Remote USBr session '')
   | KVMSTATE \<Rightarrow> Some (CATEGORY_KVM, if action \<noteq> 0 then EVENT_KVM_ENABLED else EVENT_KVM_DISABLED, switched action ''KVM '')
   | KVMACTIVITY \<Rightarrow>
       (let (eid, t) = (if action = KVM_REQUESTED then (EVENT_KVM_SESSION_REQUESTED, ''requested'')
          else if action = KVM_STARTED then (EVENT_KVM_SESSION_STARTED, ''started'')
          else if action = KVM_STOPPED then (EVENT_KVM_SESSION_STOPPED, ''stopped'')
          else if action = KVM_DATA_CHANNEL then (EVENT_KVM_DATA_CHANNEL, ''data channel'')
          else (EVENT_GENERAL_DEFAULT, []))
        in Some (CATEGORY_KVM, eid, str ''KVM session '' @ str t))
   | MANAGEMODE \<Rightarrow> Some (CATEGORY_GENERAL, EVENT_CONTROL_MODE_CHANGE, [])
   | MESTATE \<Rightarrow> Some (CATEGORY_GENERAL, if action \<noteq> 0 then EVENT_ME_ENABLE else EVENT_ME_DISABLE,
       switched action ''Common Services are '')
   | HECISTATE \<Rightarrow> Some (CATEGORY_UNS, if action \<noteq> 0 then EVENT_SERVICE_HECI_ENABLE else EVENT_SERVICE_HECI_DISABLE,
       switched action ''Intel(R) MEI driver '')
   | EACENABLE \<Rightarrow> Some (CATEGORY_EAC, if action \<noteq> 0 then EVENT_EAC_ENABLED else EVENT_EAC_DISABLED, [])
   | IPSYNCENABLE \<Rightarrow> Some (CATEGORY_IPSYNC, if action \<noteq> 0 then EVENT_IP_SYNC_ENABLE else EVENT_IP_SYNC_DISABLE,
       switched action ''IP synchronization '')
   | WIFIPROFILESYNCENABLE \<Rightarrow> Some (CATEGORY_WLAN,
       if action \<noteq> 0 then EVENT_WLAN_PROFILE_SYNC_ENABLE else EVENT_WLAN_PROFILE_SYNC_DISABLE, [])
   | TIMESYNCENABLE \<Rightarrow> Some (CATEGORY_TIMESYNC, if action \<noteq> 0 then EVENT_TIME_SYNC_ENABLE else EVENT_TIME_SYNC_DISABLE,
       switched action ''Time synchronization '')
   | SYSDEF \<Rightarrow> None)"

definition publishEvent :: "outside \<Rightarrow> u32 \<Rightarrow> publish_events \<Rightarrow> status_handler \<Rightarrow> status_handler" where
  "publishEvent w action ev s = (case event_of action ev of
     None \<Rightarrow> s
   | Some (category, eid, message) \<Rightarrow> raise_now w category eid message [] s)"

definition publishAMTEnabledEvent :: "outside \<Rightarrow> bool \<Rightarrow> status_handler \<Rightarrow> status_handler" where
  "publishAMTEnabledEvent w enable = raise_now w CATEGORY_GENERAL (if enable then EVENT_AMT_ENABLE else EVENT_AMT_DISABLE)
     (str ''Manageability '' @ (if enable then str ''enabled'' else str ''disabled'')) []"

definition publishProvisioningEvent :: "outside \<Rightarrow> u32 \<Rightarrow> status_handler \<Rightarrow> status_handler" where
  "publishProvisioningEvent w state s =
     (if state = PROVISIONING_STATE_PRE
      then raise_now w CATEGORY_GENERAL EVENT_PROVISIONING_STATE_PRE (str ''Provisioning state '' @ str ''PRE'') [] s
      else if state = PROVISIONING_STATE_IN
      then raise_now w CATEGORY_GENERAL EVENT_PROVISIONING_STATE_IN (str ''Provisioning state '' @ str ''IN'') [] s
      else if state = PROVISIONING_STATE_POST
      then raise_now w CATEGORY_GENERAL EVENT_PROVISIONING_STATE_POST (str ''Provisioning state '' @ str ''POST'') [] s
      else s)"

definition publishUCStateEvent :: "outside \<Rightarrow> u32 \<Rightarrow> status_handler \<Rightarrow> status_handler" where
  "publishUCStateEvent w state =
     (let (eid, t) = (if state = UC_REQUESTED then (EVENT_USER_CONSENT_REQUESTED, ''requested'')
        else if state = UC_GRANTED then (EVENT_USER_CONSENT_GRANTED, ''granted'')
        else if state = UC_ENDED then (EVENT_USER_CONSENT_ENDED, ''ended'')
        else (EVENT_GENERAL_DEFAULT, []))
      in raise_now w USER_CONSENT eid (str ''User consent '' @ str t) [])"

definition PublishWlanProtectionEvent :: "outside \<Rightarrow> u32 \<Rightarrow> status_handler \<Rightarrow> status_handler" where
  "PublishWlanProtectionEvent w state =
     (let (eid, t) = (if state = PROTECTION_HIGH
          then (EVENT_WLAN_PROTECTION_ON_HIGH, ''Intel(R) ME WLAN Link Protection is ON (HIGH)'')
        else if state = PROTECTION_PASSIVE
          then (EVENT_WLAN_PROTECTION_ON_PASSIVE, ''Intel(R) ME WLAN Link Protection is ON (PASSIVE)'')
        else if state = PROTECTION_OFF then (EVENT_WLAN_PROTECTION_OFF, ''Intel(R) ME WLAN Link Protection is OFF'')
        else (EVENT_GENERAL_DEFAULT, []))
      in raise_now w CATEGORY_WLAN eid (str t) [])"

definition PublishWlanControlEvent :: "outside \<Rightarrow> u32 \<Rightarrow> status_handler \<Rightarrow> status_handler" where
  "PublishWlanControlEvent w state =
     (let (eid, t) = (if state = ME_CONTROL then (EVENT_WLAN_CONTROL_ME, ''WLAN Link Control set to Intel(R) ME'')
        else if state = HOST_CONTROL then (EVENT_WLAN_CONTROL_HOST, ''WLAN Link Control set to Host (Operating system)'')
        else (EVENT_GENERAL_DEFAULT, []))
      in raise_now w CATEGORY_WLAN eid (str t) [])"

definition publishRemoteRebootEvent :: "outside \<Rightarrow> status_handler \<Rightarrow> status_handler" where
  "publishRemoteRebootEvent w = raise_now w CATEGORY_GENERAL EVENT_REMOTE_REBOOT (str ''Remote power operation'') []"

definition GetSXState :: "u32 \<Rightarrow> bytes" where
  "GetSXState st = str (if st = 1 then ''Other'' else if st = 2 then ''S0'' else if st = 3 then ''S1''
     else if st = 4 then ''S2'' else if st = 5 then ''S3'' else if st = 6 then ''S4'' else if st = 7 then ''S5''
     else ''Unknown'')"

definition publishAlarmClockBoot :: "outside \<Rightarrow> u32 \<Rightarrow> status_handler \<Rightarrow> status_handler" where
  "publishAlarmClockBoot w st = raise_now w CATEGORY_GENERAL EVENT_ALARM_CLOCK_BOOT
     (str ''Local Maintenance Timer has awoken the system from '') [GetSXState st]"

subsection \<open>Comparing with the store\<close>

text \<open>The overloads of \<^verbatim>\<open>CheckForStatusChange\<close>.\<close>

definition check_change ::
  "outside \<Rightarrow> data_name \<Rightarrow> u32 \<Rightarrow> (status_handler \<Rightarrow> status_handler) \<Rightarrow> status_handler \<Rightarrow> status_handler" where
  "check_change w storageName state publish s =
     (let (changed, s) = StatusChanged w storageName state s in if changed then publish s else s)"

definition CheckForStatusChange :: "outside \<Rightarrow> data_name \<Rightarrow> bool \<Rightarrow> publish_events \<Rightarrow> status_handler \<Rightarrow> status_handler" where
  "CheckForStatusChange w storageName state ev =
     (let state = (if state then 1 else 0) in check_change w storageName state (publishEvent w state ev))"

definition CheckForProvisioningChange :: "outside \<Rightarrow> data_name \<Rightarrow> u32 \<Rightarrow> status_handler \<Rightarrow> status_handler" where
  "CheckForProvisioningChange w storageName state = check_change w storageName state (publishProvisioningEvent w state)"

definition CheckForFeatureChange :: "outside \<Rightarrow> data_name \<Rightarrow> u32 \<Rightarrow> status_handler \<Rightarrow> status_handler" where
  "CheckForFeatureChange w storageName state =
     check_change w storageName state (publishAMTEnabledEvent w (state = ENABLED))"

definition CheckForUCChange :: "outside \<Rightarrow> data_name \<Rightarrow> u32 \<Rightarrow> status_handler \<Rightarrow> status_handler" where
  "CheckForUCChange w storageName state = check_change w storageName state (publishUCStateEvent w state)"

definition CheckForKVMChange :: "outside \<Rightarrow> data_name \<Rightarrow> u32 \<Rightarrow> status_handler \<Rightarrow> status_handler" where
  "CheckForKVMChange w storageName state = check_change w storageName state (publishEvent w state KVMACTIVITY)"

definition CheckForControlChange :: "outside \<Rightarrow> data_name \<Rightarrow> u32 \<Rightarrow> status_handler \<Rightarrow> status_handler" where
  "CheckForControlChange w storageName state = check_change w storageName state (PublishWlanControlEvent w state)"

definition CheckForProtectionChange :: "outside \<Rightarrow> data_name \<Rightarrow> u32 \<Rightarrow> status_handler \<Rightarrow> status_handler" where
  "CheckForProtectionChange w storageName state = check_change w storageName state (PublishWlanProtectionEvent w state)"

subsection \<open>Asking the platform\<close>

definition FeatureStateLogic :: "bool \<Rightarrow> bool \<Rightarrow> u32" where
  "FeatureStateLogic CapabilityBit StateBit =
     (if CapabilityBit then if StateBit then ENABLED else DISABLED else NOT_PRESENT)"

definition GetAmtState :: "outside \<Rightarrow> status_handler \<Rightarrow> u32 option \<times> status_handler" where
  "GetAmtState w s = (case command (\<lambda>t. GetFWCapsCommand t FEATURES_CAPABLE) w s of
     (None, s) \<Rightarrow> (None, s)
   | (Some caps, s) \<Rightarrow> (case command (\<lambda>t. GetFWCapsCommand t FEATURES_ENABLED) w s of
         (None, s) \<Rightarrow> (None, s)
       | (Some state, s) \<Rightarrow> (Some (FeatureStateLogic (bits 2 1 caps \<noteq> 0) (bits 2 1 state \<noteq> 0)), s)))"

definition MenageabiltyModeLogic :: "MKHI_PLATFORM_TYPE \<Rightarrow> menageabilty_mode" where
  "MenageabiltyModeLogic p =
     (if Brand p = 0 then NONE else if Brand p = BrandAMT then VPRO else if Brand p = BrandStdMng then STANDARD
      else if Brand p = BrandL3 then L3 else if Brand p = 5 then SBT else NOT_KNOWN)"

text \<open>Before version 11 the bits 4 and 5 of the platform type say who the customer is.\<close>

definition GetPlatformTypeExt :: "outside \<Rightarrow> MKHI_PLATFORM_TYPE \<Rightarrow> status_handler \<Rightarrow> customer_type \<times> status_handler" where
  "GetPlatformTypeExt w p s =
     (let (v, s) = command GetFWVersionCommand w s;
          isME11 = (case v of None \<Rightarrow> True | Some v \<Rightarrow> \<not> FTMajor v < 11)
      in (if isME11
          then (if ImageType p = 4 then CORPORATE else if ImageType p = 3 then CONSUMER else WRONG_CUSTOMER_TYPE)
          else (if platform_Rsvd2 p \<noteq> 0 then CORPORATE else if PV p \<noteq> 0 then CONSUMER else WRONG_CUSTOMER_TYPE), s))"

definition GetManageabiltyMode :: "outside \<Rightarrow> status_handler \<Rightarrow> status_handler" where
  "GetManageabiltyMode w s = (case command GetPlatformTypeCommand w s of
     (None, s) \<Rightarrow> s
   | (Some p, s) \<Rightarrow>
       (let s = s\<lparr>m_prevManageMode := MenageabiltyModeLogic p\<rparr>;
            (t, s) = GetPlatformTypeExt w p s
        in s\<lparr>m_prevCustomerType := if t = WRONG_CUSTOMER_TYPE then CORPORATE else t\<rparr>))"

text \<open>Outside Windows the version is asked for, but nothing follows from it.\<close>

definition isRebootAfterProvisioningRequired :: "outside \<Rightarrow> status_handler \<Rightarrow> bool \<times> status_handler" where
  "isRebootAfterProvisioningRequired w s = (let (_, s) = command GetFWVersionCommand w s in (False, s))"

definition GetSolIderState :: "outside \<Rightarrow> status_handler \<Rightarrow> (bool \<times> bool) option \<times> status_handler" where
  "GetSolIderState w s = (let (x, s) = command GetRedirectionSessionsStateCommand w s
     in (map_option (\<lambda>x. (SolOpen x \<noteq> 0, IderOpen x \<noteq> 0)) x, s))"

definition GetSystemDefenseState :: "outside \<Rightarrow> status_handler \<Rightarrow> bool option \<times> status_handler" where
  "GetSystemDefenseState w s = (let (x, s) = command GetSystemDefenseStateCommand w s
     in (map_option (\<lambda>x. SystemDefenseActivated x \<noteq> 0) x, s))"

definition GetMEState :: "outside \<Rightarrow> status_handler \<Rightarrow> bool option \<times> status_handler" where
  "GetMEState w s = (let (x, s) = command GetSystemDefenseStateCommand w s in (map_option (\<lambda>_. True) x, s))"

definition GetProvisioningState :: "outside \<Rightarrow> status_handler \<Rightarrow> u32 option \<times> status_handler" where
  "GetProvisioningState w = command GetProvisioningStateCommand w"

definition GetEACEnabled :: "outside \<Rightarrow> status_handler \<Rightarrow> bool option \<times> status_handler" where
  "GetEACEnabled w s = (case command GetEACStateCommand w s of
     (None, s) \<Rightarrow> (None, s)
   | (Some x, s) \<Rightarrow> (Some (EacEnabled x \<noteq> 0), s\<lparr>m_eacEnabled := EacEnabled x \<noteq> 0\<rparr>))"

text \<open>The answers are signed 16-bit numbers.\<close>

definition GetUserConsentState :: "outside \<Rightarrow> status_handler \<Rightarrow> (u32 \<times> u32) option \<times> status_handler" where
  "GetUserConsentState w s = (let (x, s) = asked (o_consent w) s in (map_option (\<lambda>(st, policy). (scast st, scast policy)) x, s))"

definition GetLocalProfileSynchronizationEnabled :: "bool option" where
  "GetLocalProfileSynchronizationEnabled = Some False"

definition GetAlarmClockBootEvent :: "outside \<Rightarrow> status_handler \<Rightarrow> u32 option \<times> status_handler" where
  "GetAlarmClockBootEvent w s = (let (x, s) = asked (o_boot w) s
     in (case x of None \<Rightarrow> None | Some (reason, sx) \<Rightarrow> if reason = 3 then Some sx else None, s))"

definition consent_asked :: "u32 \<Rightarrow> bool" where
  "consent_asked st \<longleftrightarrow> st = OPT_IN_STATE_REQUESTED \<or> st = OPT_IN_STATE_DISPLAYED"

definition consent_given :: "u32 \<Rightarrow> bool" where
  "consent_given st \<longleftrightarrow> st = OPT_IN_STATE_RECEIVED \<or> st = OPT_IN_STATE_IN_SESSION"

definition GetKVMRedirectionState :: "outside \<Rightarrow> status_handler \<Rightarrow> (bool \<times> u32) option \<times> status_handler" where
  "GetKVMRedirectionState w s = (let (x, s) = asked (o_kvm w) s in (case x of
     None \<Rightarrow> (None, s)
   | Some state \<Rightarrow>
       if state = KVM_ENABLED_AND_CONNECTED
       then (let (uc, s) = GetUserConsentState w s
         in (Some (True, case uc of None \<Rightarrow> KVM_STARTED
               | Some (st, _) \<Rightarrow> if consent_asked st then KVM_REQUESTED else KVM_STARTED), s))
       else if state = KVM_DISABLED then (Some (False, KVM_STOPPED), s)
       else if state = KVM_ENABLED_AND_DISCONNECTED then (Some (True, KVM_STOPPED), s)
       else (None, s)))"

subsection \<open>Generating events\<close>

definition GenerateUCEvents :: "outside \<Rightarrow> bool \<Rightarrow> status_handler \<Rightarrow> status_handler" where
  "GenerateUCEvents w AmtState s =
     (if \<not> AmtState then CheckForUCChange w USER_CONSENT_S UC_ENDED s
      else (case GetUserConsentState w s of
          (None, s) \<Rightarrow> s
        | (Some (st, _), s) \<Rightarrow> CheckForUCChange w USER_CONSENT_S
            (if consent_asked st then UC_REQUESTED else if consent_given st then UC_GRANTED else UC_ENDED) s))"

definition GenerateEACEvents :: "outside \<Rightarrow> bool \<Rightarrow> status_handler \<Rightarrow> status_handler" where
  "GenerateEACEvents w AMTstate s =
     (if \<not> AMTstate then CheckForStatusChange w EAC_ENABLE_S False EACENABLE s
      else (case GetEACEnabled w s of
          (None, s) \<Rightarrow> s
        | (Some e, s) \<Rightarrow> CheckForStatusChange w EAC_ENABLE_S e EACENABLE s))"

definition GenerateSharedStaticIPEvents :: "outside \<Rightarrow> bool \<Rightarrow> status_handler \<Rightarrow> status_handler" where
  "GenerateSharedStaticIPEvents w AMTstate s =
     (if \<not> AMTstate then CheckForStatusChange w IP_SYNC_ENABLE_S False IPSYNCENABLE s
      else (case asked (o_static_ip w) s of
          (None, s) \<Rightarrow> s
        | (Some e, s) \<Rightarrow> CheckForStatusChange w IP_SYNC_ENABLE_S e IPSYNCENABLE s))"

definition GenerateWiFiProfileSyncEvents :: "outside \<Rightarrow> bool \<Rightarrow> status_handler \<Rightarrow> status_handler" where
  "GenerateWiFiProfileSyncEvents w AMTstate s =
     (if \<not> AMTstate then CheckForStatusChange w WIFI_PROFILE_SYNC_ENABLE_S False WIFIPROFILESYNCENABLE s
      else (case GetLocalProfileSynchronizationEnabled of
          None \<Rightarrow> s
        | Some e \<Rightarrow> CheckForStatusChange w WIFI_PROFILE_SYNC_ENABLE_S e WIFIPROFILESYNCENABLE s))"

definition GenerateTimeSyncEvents :: "outside \<Rightarrow> bool \<Rightarrow> status_handler \<Rightarrow> status_handler" where
  "GenerateTimeSyncEvents w AMTstate s =
     (if \<not> AMTstate then CheckForStatusChange w TIME_SYNC_ENABLE_S False TIMESYNCENABLE s
      else (case asked (o_time_sync w) s of
          (None, s) \<Rightarrow> s
        | (Some e, s) \<Rightarrow> CheckForStatusChange w TIME_SYNC_ENABLE_S e TIMESYNCENABLE s))"

definition GenerateSOLIDEREvents :: "outside \<Rightarrow> bool \<Rightarrow> status_handler \<Rightarrow> status_handler" where
  "GenerateSOLIDEREvents w AMTstate s =
     (case (if AMTstate then GetSolIderState w s else (Some (False, False), s)) of
        (None, s) \<Rightarrow> s
      | (Some (sol, ider), s) \<Rightarrow>
          CheckForStatusChange w IDER_ACTIVE_S ider IDER (CheckForStatusChange w SOL_ACTIVE_S sol SOL s))"

text \<open>After a failure the defaults are compared all the same.\<close>

definition GenerateKVMRedirectionEvents :: "outside \<Rightarrow> bool \<Rightarrow> status_handler \<Rightarrow> status_handler" where
  "GenerateKVMRedirectionEvents w AMTstate s =
     (let (x, s) = (if AMTstate then GetKVMRedirectionState w s else (None, s));
          (KVMEnable, KVMState) = (case x of None \<Rightarrow> (False, KVM_STOPPED) | Some y \<Rightarrow> y);
          s = CheckForStatusChange w KVM_ENABLE_S KVMEnable KVMSTATE s;
          s = CheckForKVMChange w KVM_SESSION_S KVMState s
      in if KVMState = KVM_REQUESTED
         then (let (changed, s) = StatusChanged w USER_CONSENT_S UC_REQUESTED s
           in if changed then SaveCurrentStatus w UC_REQUESTED USER_CONSENT_S s else s)
         else s)"

definition GenerateSystemDefenseEvents :: "outside \<Rightarrow> bool \<Rightarrow> status_handler \<Rightarrow> status_handler" where
  "GenerateSystemDefenseEvents w AMTstate s =
     (if \<not> AMTstate then s
      else (case GetSystemDefenseState w s of
          (None, s) \<Rightarrow> s
        | (Some d, s) \<Rightarrow> check_change w SYS_DEF_ACTIVE_S (if d then 1 else 0)
            (raise_now w CATEGORY_CIRCUIT_BREAKER EVENT_SYSTEM_DEFENCE_CHANGE (str ''System Defense state changed'') []) s))"

definition GenerateProvisioningEvents :: "outside \<Rightarrow> bool \<Rightarrow> status_handler \<Rightarrow> status_handler" where
  "GenerateProvisioningEvents w AMTstate s =
     (if \<not> AMTstate then CheckForProvisioningChange w AMT_PROVISIONING_STATE_S PROVISIONING_STATE_PRE s
      else (case GetProvisioningState w s of
          (None, s) \<Rightarrow> s
        | (Some p, s) \<Rightarrow> CheckForProvisioningChange w AMT_PROVISIONING_STATE_S p s))"

definition GenerateMEEvents :: "outside \<Rightarrow> status_handler \<Rightarrow> status_handler" where
  "GenerateMEEvents w s = (case GetMEState w s of
     (None, s) \<Rightarrow> s
   | (Some e, s) \<Rightarrow> CheckForStatusChange w ME_ENABLE_S e MESTATE s)"

definition GenerateWLANEvents :: "outside \<Rightarrow> status_handler \<Rightarrow> status_handler" where
  "GenerateWLANEvents w s = (case asked (o_ports w) s of
     (None, s) \<Rightarrow> s
   | (Some (linkPreference, linkControl, linkProtection), s) \<Rightarrow>
       (let s = CheckForControlChange w LINK_CONTROL_S linkControl s
        in if linkProtection \<noteq> NOT_EXIST then CheckForProtectionChange w LINK_PROTECTION_S linkProtection s else s))"

text \<open>The state of AMT is passed on as a boolean: what is present but disabled counts as true.\<close>

definition GenerateEvents :: "outside \<Rightarrow> status_handler \<Rightarrow> status_handler" where
  "GenerateEvents w s = (case GetAmtState w s of
     (None, s) \<Rightarrow> s
   | (Some AmtState, s) \<Rightarrow>
       (let on = (AmtState \<noteq> 0);
            s = CheckForFeatureChange w AMT_ENABLE_S AmtState s;
            s = GenerateEACEvents w on s;
            s = GenerateSOLIDEREvents w on s;
            s = GenerateSystemDefenseEvents w on s;
            s = GenerateProvisioningEvents w on s
        in GenerateMEEvents w s))"

definition GeneratePortFwrdRelatedEvents :: "outside \<Rightarrow> status_handler \<Rightarrow> status_handler" where
  "GeneratePortFwrdRelatedEvents w s =
     (let (up, s) = asked (o_pfw w) s in
      if \<not> up then s
      else (case GetAmtState w s of
          (None, s) \<Rightarrow> s
        | (Some AMTState, s) \<Rightarrow>
            (let on = (AMTState \<noteq> 0);
                 s = GenerateSharedStaticIPEvents w on s;
                 s = GenerateTimeSyncEvents w on s;
                 s = GenerateWiFiProfileSyncEvents w on s;
                 s = GenerateKVMRedirectionEvents w on s;
                 s = GenerateUCEvents w on s
             in GenerateWLANEvents w s)))"

subsection \<open>The first pull and the reason of the boot\<close>

definition firstPullForEvents :: "outside \<Rightarrow> status_handler \<Rightarrow> status_handler" where
  "firstPullForEvents w s =
     (if \<not> m_firstPullForEvents s then s
      else
        (let s = s\<lparr>m_firstPullForEvents := False\<rparr>;
             s = (case GetAmtState w s of
                 (Some a, s) \<Rightarrow> s\<lparr>m_prevAmtState := a\<rparr>
               | (None, s) \<Rightarrow> (case ds_get w AMT_ENABLE_S s of
                     (None, s) \<Rightarrow> s\<lparr>m_prevAmtState := NOT_PRESENT\<rparr>
                   | (Some v, s) \<Rightarrow> s\<lparr>m_prevAmtState := ucast v\<rparr>));
             s = GetManageabiltyMode w s
         in (case ds_get w AMT_PROVISIONING_STATE_S s of
             (Some v, s) \<Rightarrow> s\<lparr>m_prevProvState := ucast v\<rparr>
           | (None, s) \<Rightarrow>
               if m_prevCustomerType s = CORPORATE
               then (case GetProvisioningState w s of
                   (None, s) \<Rightarrow> s\<lparr>m_prevProvState := PROVISIONING_STATE_PRE\<rparr>
                 | (Some p, s) \<Rightarrow> s\<lparr>m_prevProvState := p\<rparr>)
               else s\<lparr>m_prevProvState := PROVISIONING_STATE_PRE\<rparr>)))"

definition has_agents :: "status_handler \<Rightarrow> bool" where
  "has_agents s \<longleftrightarrow> m_prevManageMode s = L3 \<or> m_prevManageMode s = SBT \<or> m_prevManageMode s = VPRO"

definition alarm_event :: "outside \<Rightarrow> status_handler \<Rightarrow> status_handler" where
  "alarm_event w s = (if \<not> has_agents s then s
     else (case GetAlarmClockBootEvent w s of (None, s) \<Rightarrow> s | (Some sx, s) \<Rightarrow> publishAlarmClockBoot w sx s))"

definition checkForBootReason :: "outside \<Rightarrow> status_handler \<Rightarrow> status_handler" where
  "checkForBootReason w s =
     (if \<not> m_firstCheckForBootReason s then s
      else
        (let s = s\<lparr>m_firstCheckForBootReason := False\<rparr> in
         case command GetLastHostResetReasonCommand w s of
           (None, s) \<Rightarrow> s
         | (Some x, s) \<Rightarrow>
             if reset_Reason x \<noteq> 0 then alarm_event w s
             else (case ds_get w REMOTE_REBOOT_S s of
                 (prev, s) \<Rightarrow>
                   (let isNew = (case prev of Some p \<Rightarrow> p \<noteq> ucast (RemoteControlTimeStamp x) | None \<Rightarrow> True)
                    in alarm_event w (if isNew
                      then ds_set w REMOTE_REBOOT_S (ucast (RemoteControlTimeStamp x)) (publishRemoteRebootEvent w s)
                      else s)))))"

definition requestDisplaySettings :: "outside \<Rightarrow> status_handler \<Rightarrow> status_handler" where
  "requestDisplaySettings w s = (case ds_get w KVM_ENABLE_S s of
     (None, s) \<Rightarrow> s
   | (Some kvm, s) \<Rightarrow>
       if kvm = 0 then s
       else (case ds_get w AMT_PROVISIONING_STATE_S s of
           (None, s) \<Rightarrow> s
         | (Some p, s) \<Rightarrow>
             if p \<noteq> ucast PROVISIONING_STATE_POST then s
             else raise_now w CATEGORY_KVM EVENT_KVM_SCREEN_SETTING_UPDATE [] [] s))"

subsection \<open>Events that come back\<close>

definition UpdatePrevProvisioningState :: "u32 \<Rightarrow> status_handler \<Rightarrow> u32 \<times> status_handler" where
  "UpdatePrevProvisioningState st s = (m_prevProvState s, s\<lparr>m_prevProvState := st\<rparr>)"

definition unconfigured :: "GMS_AlertIndication \<Rightarrow> outside \<Rightarrow> status_handler \<Rightarrow> status_handler" where
  "unconfigured a w s =
     (let s = raise_like a (al_category a) EVENT_UNPROVISIONING (al_MessageID a) (str ''Intel(R) ME unconfigured'') s
      in if m_eacEnabled s then raise_alert CATEGORY_EAC EVENT_EAC_DISABLED (al_Datetime a) ACTIVE_MESSAGEID [] [] s else s)"

definition handleProvisioningEvents :: "outside \<Rightarrow> GMS_AlertIndication \<Rightarrow> status_handler \<Rightarrow> status_handler" where
  "handleProvisioningEvents w a s =
     (if al_id a = EVENT_UNPROVISIONES_STARTED \<or> al_id a = EVENT_PROVISIONING_STATE_PRE
      then
        (let (prev, s) = UpdatePrevProvisioningState PROVISIONING_STATE_PRE s;
             s = (if prev = PROVISIONING_STATE_POST
               then (let (needed, s) = getRebootAfterProvisioningNeed w s;
                         s = (if needed then setRebootAfterProvisioningNeed w False s else s)
                     in unconfigured a w s)
               else s)
         in SaveCurrentStatus w PROVISIONING_STATE_PRE AMT_PROVISIONING_STATE_S s)
      else if al_id a = EVENT_PROVISIONING_STATE_IN
      then
        (let (prev, s) = UpdatePrevProvisioningState PROVISIONING_STATE_IN s;
             s = (if prev = PROVISIONING_STATE_POST then unconfigured a w s else s)
         in SaveCurrentStatus w PROVISIONING_STATE_IN AMT_PROVISIONING_STATE_S s)
      else if al_id a = EVENT_PROVISIONING_STATE_POST
      then
        (let (prev, s) = UpdatePrevProvisioningState PROVISIONING_STATE_POST s;
             s = (if prev = PROVISIONING_STATE_PRE \<or> prev = PROVISIONING_STATE_IN
               then (let (required, s) = isRebootAfterProvisioningRequired w s;
                         s = (if required then setRebootAfterProvisioningNeed w True s else s)
                     in put_posting (To_configurator MB_ME_CONFIGURED) s)
               else s)
         in SaveCurrentStatus w PROVISIONING_STATE_POST AMT_PROVISIONING_STATE_S s)
      else s)"

definition handleAgentPresenceEvents :: "GMS_AlertIndication \<Rightarrow> status_handler \<Rightarrow> status_handler" where
  "handleAgentPresenceEvents a s =
     (if \<not> has_agents s then s
      else if al_id a = EVENT_AGENT_1
      then raise_like a (al_category a) EVENT_AGENT_PRSENCE_NOT_STARTED (al_MessageID a) (al_Message a) s
      else if al_id a = EVENT_AGENT_2
      then raise_like a (al_category a) EVENT_AGENT_PRSENCE_STOPED (al_MessageID a) (al_Message a) s
      else if al_id a = EVENT_AGENT_4
      then raise_like a (al_category a) EVENT_AGENT_PRSENCE_EXPIRED (al_MessageID a) (al_Message a) s
      else s)"

definition handleGeneralEvents :: "outside \<Rightarrow> GMS_AlertIndication \<Rightarrow> status_handler \<Rightarrow> status_handler" where
  "handleGeneralEvents w a s =
     (let eid = al_id a in
      if eid = EVENT_UNPROVISIONES_STARTED \<or> eid = EVENT_PROVISIONING_STATE_PRE \<or> eid = EVENT_PROVISIONING_STATE_IN
        \<or> eid = EVENT_PROVISIONING_STATE_POST then handleProvisioningEvents w a s
      else if eid = EVENT_CONTROL_MODE_CHANGE then SaveCurrentStatus w 1 CONTROL_MODE_S s
      else if eid = EVENT_ME_ENABLE then NotifyConfigurator 1 ME_ENABLE_CONF (SaveCurrentStatus w 1 ME_ENABLE_S s)
      else if eid = EVENT_ME_DISABLE then NotifyConfigurator 0 ME_ENABLE_CONF (SaveCurrentStatus w 0 ME_ENABLE_S s)
      else if eid = EVENT_AMT_ENABLE then NotifyConfigurator 1 AMT_ENABLE_CONF (SaveCurrentStatus w 2 AMT_ENABLE_S s)
      else if eid = EVENT_AMT_DISABLE then NotifyConfigurator 0 AMT_ENABLE_CONF (SaveCurrentStatus w 1 AMT_ENABLE_S s)
      else if eid = EVENT_AGENT_1 \<or> eid = EVENT_AGENT_2 \<or> eid = EVENT_AGENT_4 then handleAgentPresenceEvents a s
      else s)"

definition handleSystemDefenceEvents :: "outside \<Rightarrow> GMS_AlertIndication \<Rightarrow> status_handler \<Rightarrow> status_handler" where
  "handleSystemDefenceEvents w a s =
     (if al_id a \<noteq> EVENT_SYSTEM_DEFENCE_CHANGE then s
      else (case GetSystemDefenseState w s of
          (None, s) \<Rightarrow> s
        | (Some d, s) \<Rightarrow>
            (let s = SaveCurrentStatus w (if d then 1 else 0) SYS_DEF_ACTIVE_S s
             in if d then raise_like a (al_category a) EVENT_SD_STARTED (al_MessageID a) (str ''System Defense started'') s
                else raise_like a (al_category a) EVENT_SD_FINISHED (al_MessageID a) (str ''System Defense stopped'') s)))"

text \<open>The state and the policy of the consent; after a failure the state is what the variable held.\<close>

definition ask_consent :: "outside \<Rightarrow> status_handler \<Rightarrow> u32 \<times> status_handler" where
  "ask_consent w s =
     (let (junk, s) = asked (o_junk w) s in
      case GetUserConsentState w s of
        (None, s) \<Rightarrow> (ucast junk, s)
      | (Some (st, policy), s) \<Rightarrow> (st, s\<lparr>m_UserConsentPolicy := policy\<rparr>))"

definition raise_timeout :: "GMS_AlertIndication \<Rightarrow> status_handler \<Rightarrow> status_handler" where
  "raise_timeout a = raise_like a USER_CONSENT EVENT_USER_CONSENT_TIMEOUT_STARTED [] (str ''User consent timeout started'')"

definition handleRemoteDiagnosticEvents :: "outside \<Rightarrow> GMS_AlertIndication \<Rightarrow> status_handler \<Rightarrow> status_handler" where
  "handleRemoteDiagnosticEvents w a s =
     (if al_id a = EVENT_REMOTE_SOL_STARTED then SaveCurrentStatus w 1 SOL_ACTIVE_S (s\<lparr>m_SOL := 1\<rparr>)
      else if al_id a = EVENT_REMOTE_SOL_ENDED then (SaveCurrentStatus w 0 SOL_ACTIVE_S s)\<lparr>m_SOL := 0\<rparr>
      else if al_id a = EVENT_REMOTE_IDER_STARTED
      then
        (let s = (SaveCurrentStatus w 1 IDER_ACTIVE_S s)\<lparr>m_IDER := 1\<rparr>
         in if m_UserConsentPolicy s = ALL_SESSIONS \<and> \<not> consent_given (m_prevUserConsentState s)
            then s\<lparr>m_prevUserConsentState := OPT_IN_STATE_IN_SESSION\<rparr> else s)
      else if al_id a = EVENT_REMOTE_IDER_ENDED
      then
        (let s = (SaveCurrentStatus w 0 IDER_ACTIVE_S s)\<lparr>m_IDER := 0\<rparr>;
             (st, s) = ask_consent w s
         in if consent_given st \<and> m_UserConsentPolicy s = ALL_SESSIONS \<and> m_SOL s = 0 \<and> m_KVM s = 0
            then raise_timeout a s else s)
      else s)"

definition handleKVMEvents :: "outside \<Rightarrow> GMS_AlertIndication \<Rightarrow> status_handler \<Rightarrow> status_handler" where
  "handleKVMEvents w a s =
     (if al_id a = EVENT_KVM_SESSION_REQUESTED
      then
        (let s = SaveCurrentStatus w KVM_REQUESTED KVM_SESSION_S s
         in if m_UserConsentPolicy s \<noteq> NOT_REQUIRED
            then (let (st, s) = ask_consent w s in SaveCurrentStatus w st USER_CONSENT_S s)
            else s)
      else if al_id a = EVENT_KVM_SESSION_STARTED
      then
        (let s = SaveCurrentStatus w KVM_STARTED KVM_SESSION_S s;
             s = (if m_UserConsentPolicy s \<noteq> NOT_REQUIRED \<and> \<not> consent_given (m_prevUserConsentState s)
               then SaveCurrentStatus w UC_GRANTED USER_CONSENT_S (s\<lparr>m_prevUserConsentState := OPT_IN_STATE_IN_SESSION\<rparr>)
               else s)
         in s\<lparr>m_KVM := 1\<rparr>)
      else if al_id a = EVENT_KVM_SESSION_STOPPED
      then
        (let s = (SaveCurrentStatus w KVM_STOPPED KVM_SESSION_S s)\<lparr>m_KVM := 0\<rparr>;
             (st, s) = ask_consent w s;
             s = SaveCurrentStatus w st USER_CONSENT_S s
         in if consent_given st \<and> (m_UserConsentPolicy s = ALL_SESSIONS \<and> m_SOL s = 0 \<and> m_IDER s = 0
              \<or> m_UserConsentPolicy s = KVM_ONLY)
            then raise_timeout a s else s)
      else if al_id a = EVENT_KVM_DISABLED then SaveCurrentStatus w 0 KVM_ENABLE_S s
      else if al_id a = EVENT_KVM_ENABLED then SaveCurrentStatus w 1 KVM_ENABLE_S s
      else if al_id a = EVENT_KVM_DATA_CHANNEL then SaveCurrentStatus w KVM_DATA_CHANNEL KVM_SESSION_S s
      else s)"

definition handleUNSEvents :: "outside \<Rightarrow> GMS_AlertIndication \<Rightarrow> status_handler \<Rightarrow> status_handler" where
  "handleUNSEvents w a s =
     (if al_id a = EVENT_PORT_FORWARDING_SERVICE_AVAILABLE
      then GeneratePortFwrdRelatedEvents w (checkForBootReason w (firstPullForEvents w s))
      else s)"

definition handleIPSyncEvents :: "outside \<Rightarrow> GMS_AlertIndication \<Rightarrow> status_handler \<Rightarrow> status_handler" where
  "handleIPSyncEvents w a s =
     (if al_id a = EVENT_IP_SYNC_DISABLE then NotifyConfigurator 0 IP_SYNC_CONF (SaveCurrentStatus w 0 IP_SYNC_ENABLE_S s)
      else if al_id a = EVENT_IP_SYNC_ENABLE then NotifyConfigurator 1 IP_SYNC_CONF (SaveCurrentStatus w 1 IP_SYNC_ENABLE_S s)
      else if al_id a = EVENT_IP_REFRESH_LAN then NotifyIPRefresh MB_IPREFRESH_LAN s
      else if al_id a = EVENT_IP_REFRESH_WLAN then NotifyIPRefresh MB_IPREFRESH_WLAN s
      else s)"

definition handleUserConsentEvents :: "outside \<Rightarrow> GMS_AlertIndication \<Rightarrow> status_handler \<Rightarrow> status_handler" where
  "handleUserConsentEvents w a s =
     (if al_id a = EVENT_USER_CONSENT_GRANTED
      then (SaveCurrentStatus w UC_GRANTED USER_CONSENT_S s)\<lparr>m_prevUserConsentState := OPT_IN_STATE_RECEIVED\<rparr>
      else if al_id a = EVENT_USER_CONSENT_REQUESTED then SaveCurrentStatus w UC_REQUESTED USER_CONSENT_S s
      else if al_id a = EVENT_USER_CONSENT_ENDED
      then (SaveCurrentStatus w UC_ENDED USER_CONSENT_S s)\<lparr>m_prevUserConsentState := OPT_IN_STATE_NOT_STARTED\<rparr>
      else if al_id a = EVENT_USER_CONSENT_CONFIGURATION_CHANGED
      then (let (up, s) = asked (o_pfw w) s in if up then GenerateUCEvents w True s else s)
      else s)"

definition handleWlanEvents :: "outside \<Rightarrow> GMS_AlertIndication \<Rightarrow> status_handler \<Rightarrow> status_handler" where
  "handleWlanEvents w a s =
     (let eid = al_id a in
      if eid = EVENT_WLAN_CONTROL_ME then SaveCurrentStatus w ME_CONTROL LINK_CONTROL_S s
      else if eid = EVENT_WLAN_CONTROL_HOST then SaveCurrentStatus w HOST_CONTROL LINK_CONTROL_S s
      else if eid = EVENT_WLAN_PROTECTION_ON_HIGH then SaveCurrentStatus w PROTECTION_HIGH LINK_PROTECTION_S s
      else if eid = EVENT_WLAN_PROTECTION_ON_PASSIVE then SaveCurrentStatus w PROTECTION_PASSIVE LINK_PROTECTION_S s
      else if eid = EVENT_WLAN_PROTECTION_OFF then SaveCurrentStatus w PROTECTION_OFF LINK_PROTECTION_S s
      else if eid = EVENT_WLAN_PROFILE_SYNC_DISABLE
      then NotifyConfigurator 0 WIFI_PROFILE_SYNC_CONF (SaveCurrentStatus w 0 WIFI_PROFILE_SYNC_ENABLE_S s)
      else if eid = EVENT_WLAN_PROFILE_SYNC_ENABLE
      then NotifyConfigurator 1 WIFI_PROFILE_SYNC_CONF (SaveCurrentStatus w 1 WIFI_PROFILE_SYNC_ENABLE_S s)
      else if eid = EVENT_WIRELESS_STATE_CHANGED
      then (case GetLocalProfileSynchronizationEnabled of
          None \<Rightarrow> s
        | Some e \<Rightarrow> CheckForStatusChange w WIFI_PROFILE_SYNC_ENABLE_S e WIFIPROFILESYNCENABLE s)
      else s)"

definition handleTimeSyncEvents :: "outside \<Rightarrow> GMS_AlertIndication \<Rightarrow> status_handler \<Rightarrow> status_handler" where
  "handleTimeSyncEvents w a s =
     (if al_id a = EVENT_TIME_SYNC_DISABLE
      then NotifyConfigurator 0 TIME_SYNC_CONF (SaveCurrentStatus w 0 TIME_SYNC_ENABLE_S s)
      else if al_id a = EVENT_TIME_SYNC_ENABLE
      then NotifyConfigurator 1 TIME_SYNC_CONF (SaveCurrentStatus w 1 TIME_SYNC_ENABLE_S s)
      else s)"

definition handleStatusChanged :: "outside \<Rightarrow> GMS_AlertIndication \<Rightarrow> status_handler \<Rightarrow> status_handler" where
  "handleStatusChanged w a s =
     (let c = al_category a in
      if c = CATEGORY_GENERAL then handleGeneralEvents w a s
      else if c = CATEGORY_CIRCUIT_BREAKER then handleSystemDefenceEvents w a s
      else if c = CATEGORY_REMOTE_DIAGNOSTIC then handleRemoteDiagnosticEvents w a s
      else if c = CATEGORY_KVM then handleKVMEvents w a s
      else if c = CATEGORY_UNS then handleUNSEvents w a s
      else if c = CATEGORY_IPSYNC then handleIPSyncEvents w a s
      else if c = USER_CONSENT then handleUserConsentEvents w a s
      else if c = CATEGORY_WLAN then handleWlanEvents w a s
      else if c = CATEGORY_TIMESYNC then handleTimeSyncEvents w a s
      else s)"

definition status_handle_event :: "outside \<Rightarrow> ev_message \<Rightarrow> status_handler \<Rightarrow> status_handler" where
  "status_handle_event w m s = (case m of
     MB_SRVICE_UP \<Rightarrow> requestDisplaySettings w (GenerateEvents w (firstPullForEvents w s))
   | MB_PUBLISH_EVENT (Some a) \<Rightarrow> handleStatusChanged w a s
   | _ \<Rightarrow> s)"

text \<open>The whole handler of one message, and the operations of the main service.\<close>

definition status_HandleAceMessage :: "outside \<Rightarrow> ev_message \<Rightarrow> status_handler \<Rightarrow> status_handler" where
  "status_HandleAceMessage w = EventHandler_HandleAceMessage STATUS_EVENT_HANDLER (status_handle_event w)"

definition status_init :: "outside \<Rightarrow> bool \<Rightarrow> status_handler \<Rightarrow> status_handler" where
  "status_init w options_ok s = setRebootAfterProvisioningNeed w False (put_posting (To_self MB_SRVICE_UP)
     (EventHandler_init STATUS_EVENT_HANDLER (id_toSubscribe StatusEventFilter) options_ok s))"

definition status_fini :: "status_handler \<Rightarrow> status_handler" where
  "status_fini = put_posting Timer_cancelled"

definition status_suspend :: "status_handler \<Rightarrow> status_handler" where
  "status_suspend = put_posting Timer_cancelled"

definition status_resume :: "status_handler \<Rightarrow> status_handler" where
  "status_resume s = put_posting (To_self MB_SRVICE_UP) (sub_resume STATUS_EVENT_HANDLER s)"

end
