(* ===== verification/Status_Correct.thy ===== *)
theory Status_Correct
  imports Status_Handler Registry_Correct Event_Properties
begin

text \<open>
  The handler of status events as a loop: what it finds changed it publishes, the manager of events passes that on to
  the services whose filter takes it, itself among them, and it stores the value when the event comes back.
\<close>

subsection \<open>The store as the handler uses it\<close>

lemma asked_fields [simp]: "fst (asked f s) = f (calls s)" "snd (asked f s) = s\<lparr>calls := calls s + 1\<rparr>"
  by (simp_all add: asked_def)

lemma ds_set_fields [simp]:
  "postings (ds_set w n v s) = postings s" "m_serviceIsClosed (ds_set w n v s) = m_serviceIsClosed s"
  by (simp_all add: ds_set_def asked_def split: option.split)

lemma ds_set_cached:
  assumes "succeeds (o_write w (calls s))" "regMap n \<noteq> None"
  shows "cached_number (DS (ds_set w n v s)) m = (if m = n then Some v else cached_number (DS s) m)"
proof -
  let ?a = "o_write w (calls s)"
  obtain key vn where n: "regMap n = Some (key, vn)" using assms(2) by auto
  obtain ok r where r: "SetDataValue ?a n v True (DS s) = Some (ok, r)"
    using n by (cases "SetDataValue ?a n v True (DS s)") (auto simp: SetDataValue_def)
  have "cached_number r m = (if m = n then Some v else cached_number (DS s) m)"
  proof (cases "m = n")
    case True
    then show ?thesis using reg_effect_set [of n "SetNumber ?a n v True" "Some v" "DS s"] assms r by simp
  next
    case False
    then show ?thesis
      using cached_other [OF n False [symmetric], of r "DS s"] SetDataValue_cache [OF r n] assms(1) by simp
  qed
  then show ?thesis by (simp add: ds_set_def asked_def r)
qed

lemma ds_get_cached:
  "cached_number (DS s) n = Some v \<Longrightarrow> ds_get w n s = (Some v, s\<lparr>calls := calls s + 1\<rparr>)"
  by (simp add: ds_get_def asked_def cached_number_read)

lemma ds_get_fields [simp]:
  "postings (snd (ds_get w n s)) = postings s" "m_serviceIsClosed (snd (ds_get w n s)) = m_serviceIsClosed s"
  by (simp_all add: ds_get_def asked_def split: option.split)

lemma SaveCurrentStatus_fields [simp]:
  "postings (SaveCurrentStatus w v n s) = postings s" "m_serviceIsClosed (SaveCurrentStatus w v n s) = m_serviceIsClosed s"
  by (simp_all add: SaveCurrentStatus_def)

lemma check_change_known:
  assumes "cached_number (DS s) n = Some v"
  shows "check_change w n x publish s =
    (if v = ucast x then s\<lparr>calls := calls s + 1\<rparr> else publish (s\<lparr>calls := calls s + 1\<rparr>))"
  using assms by (simp add: check_change_def StatusChanged_def ds_get_cached)

text \<open>Every write succeeds.\<close>

definition writes_succeed :: "outside \<Rightarrow> bool" where
  "writes_succeed w \<longleftrightarrow> (\<forall>i. succeeds (o_write w i))"

lemma save_cached [simp]:
  "writes_succeed w \<Longrightarrow> regMap n \<noteq> None \<Longrightarrow>
    cached_number (DS (SaveCurrentStatus w v n s)) m = (if m = n then Some (ucast v) else cached_number (DS s) m)"
  using ds_set_cached [of w s n "ucast v" m] by (simp add: SaveCurrentStatus_def writes_succeed_def)

lemma DS_kept [simp]:
  "DS (put_posting p t) = DS t" "DS (snd (ask_consent w s)) = DS s"
  "m_serviceIsClosed (snd (ask_consent w s)) = m_serviceIsClosed s"
  "m_serviceIsClosed (snd (command c w s)) = m_serviceIsClosed s"
  by (simp_all add: put_posting_def ask_consent_def asked_def GetUserConsentState_def command_def split: option.split)

subsection \<open>What is watched\<close>

datatype watched =
    Sol bool | Ider bool | Kvm_enabled bool | Me_enabled bool | Static_ip bool | Time_sync bool | Wifi_sync bool
  | Eac bool | Amt u32 | Provisioning u32 | Consent u32 | Kvm_session u32 | Wlan_control u32 | Wlan_protection u32

primrec check :: "outside \<Rightarrow> watched \<Rightarrow> status_handler \<Rightarrow> status_handler" where
  "check w (Sol b) = CheckForStatusChange w SOL_ACTIVE_S b SOL"
| "check w (Ider b) = CheckForStatusChange w IDER_ACTIVE_S b IDER"
| "check w (Kvm_enabled b) = CheckForStatusChange w KVM_ENABLE_S b KVMSTATE"
| "check w (Me_enabled b) = CheckForStatusChange w ME_ENABLE_S b MESTATE"
| "check w (Static_ip b) = CheckForStatusChange w IP_SYNC_ENABLE_S b IPSYNCENABLE"
| "check w (Time_sync b) = CheckForStatusChange w TIME_SYNC_ENABLE_S b TIMESYNCENABLE"
| "check w (Wifi_sync b) = CheckForStatusChange w WIFI_PROFILE_SYNC_ENABLE_S b WIFIPROFILESYNCENABLE"
| "check w (Eac b) = CheckForStatusChange w EAC_ENABLE_S b EACENABLE"
| "check w (Amt x) = CheckForFeatureChange w AMT_ENABLE_S x"
| "check w (Provisioning x) = CheckForProvisioningChange w AMT_PROVISIONING_STATE_S x"
| "check w (Consent x) = CheckForUCChange w USER_CONSENT_S x"
| "check w (Kvm_session x) = CheckForKVMChange w KVM_SESSION_S x"
| "check w (Wlan_control x) = CheckForControlChange w LINK_CONTROL_S x"
| "check w (Wlan_protection x) = CheckForProtectionChange w LINK_PROTECTION_S x"

primrec kept_under :: "watched \<Rightarrow> data_name" where
  "kept_under (Sol b) = SOL_ACTIVE_S"
| "kept_under (Ider b) = IDER_ACTIVE_S"
| "kept_under (Kvm_enabled b) = KVM_ENABLE_S"
| "kept_under (Me_enabled b) = ME_ENABLE_S"
| "kept_under (Static_ip b) = IP_SYNC_ENABLE_S"
| "kept_under (Time_sync b) = TIME_SYNC_ENABLE_S"
| "kept_under (Wifi_sync b) = WIFI_PROFILE_SYNC_ENABLE_S"
| "kept_under (Eac b) = EAC_ENABLE_S"
| "kept_under (Amt x) = AMT_ENABLE_S"
| "kept_under (Provisioning x) = AMT_PROVISIONING_STATE_S"
| "kept_under (Consent x) = USER_CONSENT_S"
| "kept_under (Kvm_session x) = KVM_SESSION_S"
| "kept_under (Wlan_control x) = LINK_CONTROL_S"
| "kept_under (Wlan_protection x) = LINK_PROTECTION_S"

primrec found_value :: "watched \<Rightarrow> u32" where
  "found_value (Sol b) = (if b then 1 else 0)"
| "found_value (Ider b) = (if b then 1 else 0)"
| "found_value (Kvm_enabled b) = (if b then 1 else 0)"
| "found_value (Me_enabled b) = (if b then 1 else 0)"
| "found_value (Static_ip b) = (if b then 1 else 0)"
| "found_value (Time_sync b) = (if b then 1 else 0)"
| "found_value (Wifi_sync b) = (if b then 1 else 0)"
| "found_value (Eac b) = (if b then 1 else 0)"
| "found_value (Amt x) = x"
| "found_value (Provisioning x) = x"
| "found_value (Consent x) = x"
| "found_value (Kvm_session x) = x"
| "found_value (Wlan_control x) = x"
| "found_value (Wlan_protection x) = x"

text \<open>The category and the number of the event that announces a change.\<close>

primrec announcement :: "watched \<Rightarrow> nat \<times> nat" where
  "announcement (Sol b) = (CATEGORY_REMOTE_DIAGNOSTIC, if b then EVENT_REMOTE_SOL_STARTED else EVENT_REMOTE_SOL_ENDED)"
| "announcement (Ider b) = (CATEGORY_REMOTE_DIAGNOSTIC, if b then EVENT_REMOTE_IDER_STARTED else EVENT_REMOTE_IDER_ENDED)"
| "announcement (Kvm_enabled b) = (CATEGORY_KVM, if b then EVENT_KVM_ENABLED else EVENT_KVM_DISABLED)"
| "announcement (Me_enabled b) = (CATEGORY_GENERAL, if b then EVENT_ME_ENABLE else EVENT_ME_DISABLE)"
| "announcement (Static_ip b) = (CATEGORY_IPSYNC, if b then EVENT_IP_SYNC_ENABLE else EVENT_IP_SYNC_DISABLE)"
| "announcement (Time_sync b) = (CATEGORY_TIMESYNC, if b then EVENT_TIME_SYNC_ENABLE else EVENT_TIME_SYNC_DISABLE)"
| "announcement (Wifi_sync b) = (CATEGORY_WLAN, if b then EVENT_WLAN_PROFILE_SYNC_ENABLE else EVENT_WLAN_PROFILE_SYNC_DISABLE)"
| "announcement (Eac b) = (CATEGORY_EAC, if b then EVENT_EAC_ENABLED else EVENT_EAC_DISABLED)"
| "announcement (Amt x) = (CATEGORY_GENERAL, if x = ENABLED then EVENT_AMT_ENABLE else EVENT_AMT_DISABLE)"
| "announcement (Provisioning x) = (CATEGORY_GENERAL, if x = 0 then EVENT_PROVISIONING_STATE_PRE
     else if x = 1 then EVENT_PROVISIONING_STATE_IN else EVENT_PROVISIONING_STATE_POST)"
| "announcement (Consent x) = (USER_CONSENT, if x = 0 then EVENT_USER_CONSENT_ENDED
     else if x = 1 then EVENT_USER_CONSENT_REQUESTED else EVENT_USER_CONSENT_GRANTED)"
| "announcement (Kvm_session x) = (CATEGORY_KVM, if x = 0 then EVENT_KVM_SESSION_STOPPED
     else if x = 1 then EVENT_KVM_SESSION_STARTED else if x = 2 then EVENT_KVM_SESSION_REQUESTED else EVENT_KVM_DATA_CHANNEL)"
| "announcement (Wlan_control x) = (CATEGORY_WLAN, if x = 1 then EVENT_WLAN_CONTROL_ME else EVENT_WLAN_CONTROL_HOST)"
| "announcement (Wlan_protection x) = (CATEGORY_WLAN, if x = 1 then EVENT_WLAN_PROTECTION_OFF
     else if x = 2 then EVENT_WLAN_PROTECTION_ON_PASSIVE else EVENT_WLAN_PROTECTION_ON_HIGH)"

text \<open>The values that the headers of the program name, less those that are never stored.\<close>

primrec settles :: "watched \<Rightarrow> bool" where
  "settles (Sol b) = True"
| "settles (Ider b) = True"
| "settles (Kvm_enabled b) = True"
| "settles (Me_enabled b) = True"
| "settles (Static_ip b) = True"
| "settles (Time_sync b) = True"
| "settles (Wifi_sync b) = True"
| "settles (Eac b) = False"
| "settles (Amt x) = (x = DISABLED \<or> x = ENABLED)"
| "settles (Provisioning x) = (x = 0 \<or> x = 1 \<or> x = 2)"
| "settles (Consent x) = (x = 0 \<or> x = 1 \<or> x = 2)"
| "settles (Kvm_session x) = (x = 0 \<or> x = 1 \<or> x = 2 \<or> x = 3)"
| "settles (Wlan_control x) = (x = 1 \<or> x = 2)"
| "settles (Wlan_protection x) = (x = 1 \<or> x = 2 \<or> x = 3)"

definition never_stored :: "watched \<Rightarrow> bool" where
  "never_stored x \<longleftrightarrow> (case x of Eac _ \<Rightarrow> True | Amt y \<Rightarrow> y = NOT_PRESENT | _ \<Rightarrow> False)"

definition announces :: "watched \<Rightarrow> GMS_AlertIndication \<Rightarrow> bool" where
  "announces x a \<longleftrightarrow> (al_category a, al_id a) = announcement x"

subsection \<open>One check\<close>

lemma check_quiet:
  assumes "cached_number (DS s) (kept_under x) = Some (ucast (found_value x))"
  shows "check w x s = s\<lparr>calls := calls s + 1\<rparr>"
  using assms
  by (cases x) (simp_all add: CheckForStatusChange_def CheckForFeatureChange_def CheckForProvisioningChange_def
      CheckForUCChange_def CheckForKVMChange_def CheckForControlChange_def CheckForProtectionChange_def check_change_known Let_def)

definition publishes :: "watched \<Rightarrow> status_handler \<Rightarrow> status_handler \<Rightarrow> bool" where
  "publishes x s t \<longleftrightarrow> (\<exists>a. announces x a \<and> DS t = DS s \<and> m_serviceIsClosed t = m_serviceIsClosed s
     \<and> postings t = postings s @ [To EVENT_MANAGER (MB_PUBLISH_EVENT (Some a))])"

lemma raise_now_publishes:
  "(c, e) = announcement x \<Longrightarrow> publishes x s (raise_now w c e m args (s\<lparr>calls := i\<rparr>))"
  by (auto simp: publishes_def announces_def raise_now_def raise_alert_def asked_def intro!: exI)

lemma check_publishes:
  assumes "cached_number (DS s) (kept_under x) = Some v" "v \<noteq> ucast (found_value x)" "settles x \<or> never_stored x"
  shows "publishes x s (check w x s)"
  using assms
  by (cases x) (auto simp: CheckForStatusChange_def CheckForFeatureChange_def CheckForProvisioningChange_def
      CheckForUCChange_def CheckForKVMChange_def CheckForControlChange_def CheckForProtectionChange_def check_change_known
      publishEvent_def event_of_def publishAMTEnabledEvent_def publishProvisioningEvent_def publishUCStateEvent_def
      PublishWlanControlEvent_def PublishWlanProtectionEvent_def status_numbers never_stored_def Let_def
      intro!: raise_now_publishes)

subsection \<open>An event that comes back\<close>

text \<open>What the manager of events passes on to the handler itself.\<close>

definition deliver :: "outside \<Rightarrow> GMS_AlertIndication \<Rightarrow> status_handler \<Rightarrow> status_handler" where
  "deliver w a s = (if id_toSubscribe StatusEventFilter a then status_HandleAceMessage w (MB_PUBLISH_EVENT (Some a)) s else s)"

lemma passes_filter:
  assumes "settles x" "announces x a" shows "id_toSubscribe StatusEventFilter a"
  using assms by (cases x) (auto simp: announces_def status_filter status_events_def split: if_splits)

lemma eac_stays_out: "announces (Eac b) a \<Longrightarrow> \<not> id_toSubscribe StatusEventFilter a"
  by (auto simp: announces_def status_filter status_events_def event_numbers split: if_splits)

lemma handled_open:
  "m_serviceIsClosed s = False \<Longrightarrow> status_HandleAceMessage w (MB_PUBLISH_EVENT (Some a)) s = handleStatusChanged w a s"
  by (simp add: status_HandleAceMessage_def EventHandler_HandleAceMessage_def status_handle_event_def)

lemmas status_handlers = handleStatusChanged_def handleGeneralEvents_def handleProvisioningEvents_def
  handleRemoteDiagnosticEvents_def handleKVMEvents_def handleIPSyncEvents_def handleUserConsentEvents_def
  handleWlanEvents_def handleTimeSyncEvents_def NotifyConfigurator_def raise_timeout_def raise_like_def raise_alert_def

lemma closed_kept [simp]:
  "m_serviceIsClosed (snd (getRebootAfterProvisioningNeed w s)) = m_serviceIsClosed s"
  "m_serviceIsClosed (snd (isRebootAfterProvisioningRequired w s)) = m_serviceIsClosed s"
  "m_serviceIsClosed (setRebootAfterProvisioningNeed w b s) = m_serviceIsClosed s"
  "m_serviceIsClosed (unconfigured a w s) = m_serviceIsClosed s"
  "snd (UpdatePrevProvisioningState st s) = s\<lparr>m_prevProvState := st\<rparr>"
  by (simp_all add: getRebootAfterProvisioningNeed_def isRebootAfterProvisioningRequired_def setRebootAfterProvisioningNeed_def unconfigured_def raise_like_def
      raise_alert_def UpdatePrevProvisioningState_def Let_def case_prod_beta split: option.split)

lemma handled_stores:
  assumes "settles x" "announces x a" "writes_succeed w"
  shows "cached_number (DS (handleStatusChanged w a s)) (kept_under x) = Some (ucast (found_value x))"
    "m_serviceIsClosed (handleStatusChanged w a s) = m_serviceIsClosed s"
proof -
  have a: "al_category a = fst (announcement x)" "al_id a = snd (announcement x)" using assms(2) by (simp_all add: announces_def prod_eq_iff)
  show "cached_number (DS (handleStatusChanged w a s)) (kept_under x) = Some (ucast (found_value x))"
    using assms(1,3)
    by (cases x) (auto simp: a status_handlers event_numbers status_numbers Let_def case_prod_beta)
  show "m_serviceIsClosed (handleStatusChanged w a s) = m_serviceIsClosed s"
    using assms(1)
    by (cases x) (auto simp: a status_handlers event_numbers status_numbers Let_def case_prod_beta)
qed

text \<open>The handler stores another value for a feature that is not present.\<close>

lemma absent_stored:
  assumes "announces (Amt NOT_PRESENT) a" "writes_succeed w"
  shows "cached_number (DS (handleStatusChanged w a s)) AMT_ENABLE_S = Some (ucast DISABLED)"
    "m_serviceIsClosed (handleStatusChanged w a s) = m_serviceIsClosed s"
  using assms by (simp_all add: announces_def status_handlers event_numbers status_numbers)

subsection \<open>Repeated checks\<close>

text \<open>What a check published; each of its events comes back before the next check.\<close>

definition published_in :: "status_handler \<Rightarrow> status_handler \<Rightarrow> GMS_AlertIndication list" where
  "published_in s t = List.map_filter alert_of (drop (length (postings s)) (postings t))"

primrec pulls :: "outside \<Rightarrow> watched \<Rightarrow> nat \<Rightarrow> status_handler \<Rightarrow> GMS_AlertIndication list \<times> status_handler" where
  "pulls w x 0 s = ([], s)"
| "pulls w x (Suc n) s =
     (let t = check w x s; as = published_in s t; (bs, u) = pulls w x n (fold (deliver w) as t) in (as @ bs, u))"

lemma published_nothing: "postings t = postings s \<Longrightarrow> published_in s t = []"
  by (simp add: published_in_def List.map_filter_simps)

lemma published_one:
  "postings t = postings s @ [To EVENT_MANAGER (MB_PUBLISH_EVENT (Some a))] \<Longrightarrow> published_in s t = [a]"
  by (simp add: published_in_def alert_of_def List.map_filter_simps)

lemma pulls_quiet:
  assumes "cached_number (DS s) (kept_under x) = Some (ucast (found_value x))"
  shows "fst (pulls w x n s) = [] \<and> cached_number (DS (snd (pulls w x n s))) (kept_under x) = Some (ucast (found_value x))"
  using assms
proof (induction n arbitrary: s)
  case (Suc n)
  let ?t = "check w x s"
  have t: "?t = s\<lparr>calls := calls s + 1\<rparr>" by (rule check_quiet [OF Suc.prems])
  then have "published_in s ?t = []" by (intro published_nothing) simp
  moreover have "cached_number (DS ?t) (kept_under x) = Some (ucast (found_value x))" using Suc.prems t by simp
  from Suc.IH [OF this] have "fst (pulls w x n ?t) = [] \<and>
      cached_number (DS (snd (pulls w x n ?t))) (kept_under x) = Some (ucast (found_value x))" .
  ultimately show ?case by (simp add: Let_def case_prod_beta)
qed simp

text \<open>One round that publishes.\<close>

lemma pulls_Suc:
  assumes "cached_number (DS s) (kept_under x) = Some v" "v \<noteq> ucast (found_value x)" "settles x \<or> never_stored x"
    and "m_serviceIsClosed s = False"
  obtains a t where "announces x a" "DS t = DS s" "m_serviceIsClosed t = False"
    "pulls w x (Suc n) s = (a # fst (pulls w x n (deliver w a t)), snd (pulls w x n (deliver w a t)))"
proof -
  from check_publishes [OF assms(1-3), of w] obtain a where a: "announces x a" "DS (check w x s) = DS s"
    "m_serviceIsClosed (check w x s) = m_serviceIsClosed s"
    "postings (check w x s) = postings s @ [To EVENT_MANAGER (MB_PUBLISH_EVENT (Some a))]"
    by (auto simp: publishes_def)
  show ?thesis
    by (rule that [OF a(1,2)]) (use a assms(4) published_one [OF a(4)] in \<open>simp_all add: Let_def case_prod_beta\<close>)
qed

end
