(* ===== verification/Status_Properties.thy ===== *)
theory Status_Properties
  imports Status_Correct
begin

text \<open>
  The properties of the handler of status events: a change is announced once and is then known; two kinds of change are
  announced for ever; and the end of a session confuses what is known of the user's consent.
\<close>


text \<open>A platform whose writes succeed and whose clients and firmware all fail, but for the user's consent, and a handler
  that has stored one value.\<close>

definition consenting_platform :: "(u16 \<times> u16) option \<Rightarrow> outside" where
  "consenting_platform c = \<lparr>o_driver = \<lambda>_. \<lparr>TEE_IS_SUCCESS = \<lambda>r. r = 0, TEE_CLIENT_NOT_FOUND = 1, TEE_INTERNAL_ERROR = 2,
       TeeInit = \<lambda>_. 1, TeeConnect = \<lambda>_. 1, maxMsgLen = 4096, TeeWrite = \<lambda>_. (1, 0), TeeRead = \<lambda>_. (1, [])\<rparr>,
     o_date = \<lambda>_. [],
     o_write = \<lambda>_. \<lparr>dirs_ok = True, open_ok = True, type_good = True, data_good = True, reach = None\<rparr>,
     o_consent = \<lambda>_. c, o_kvm = \<lambda>_. None, o_static_ip = \<lambda>_. None, o_time_sync = \<lambda>_. None, o_ports = \<lambda>_. None,
     o_boot = \<lambda>_. None, o_pfw = \<lambda>_. True, o_junk = \<lambda>_. 0\<rparr>"

definition knowing :: "data_name \<Rightarrow> u64 \<Rightarrow> status_handler" where
  "knowing n v = ds_set (consenting_platform None) n v
     (StatusEventHandler \<lparr>position = ''/etc/lms/'', files = \<lambda>_. None, regCache = \<lambda>_. None\<rparr>)"

lemma platform_writes: "writes_succeed (consenting_platform c)"
  by (simp add: writes_succeed_def succeeds_def consenting_platform_def)

lemma knowing_knows: "regMap n \<noteq> None \<Longrightarrow> cached_number (DS (knowing n v)) n = Some v" "\<not> m_serviceIsClosed (knowing n v)"
  using platform_writes [of None]
  by (simp_all add: knowing_def ds_set_cached writes_succeed_def StatusEventHandler_def)


text \<open>C34. Two changes never become known: that of Endpoint Access Control, whose event the filter of the handler does not
  take, and that to a feature that is not present, for which the handler stores the number of a disabled one. They are
  published again at every check.\<close>

theorem announced_for_ever:
  assumes "never_stored x" "writes_succeed w" "cached_number (DS s) (kept_under x) = Some v" "\<not> m_serviceIsClosed s"
    "v \<noteq> ucast (found_value x)"
  shows "map (\<lambda>a. (al_category a, al_id a)) (fst (pulls w x n s)) = replicate n (announcement x)"
  using assms(3-)
proof (induction n arbitrary: s v)
  case (Suc n)
  have open': "m_serviceIsClosed s = False" using Suc.prems(2) by simp
  obtain a t where at: "announces x a" "DS t = DS s" "m_serviceIsClosed t = False"
    "pulls w x (Suc n) s = (a # fst (pulls w x n (deliver w a t)), snd (pulls w x n (deliver w a t)))"
    by (rule pulls_Suc [OF Suc.prems(1,3) disjI2 [OF assms(1)] open'])
  have "\<exists>u. cached_number (DS (deliver w a t)) (kept_under x) = Some u \<and> u \<noteq> ucast (found_value x)
      \<and> \<not> m_serviceIsClosed (deliver w a t)"
  proof (cases "\<exists>b. x = Eac b")
    case True
    with eac_stays_out at(1) have "deliver w a t = t" by (auto simp: deliver_def)
    with Suc.prems at(2,3) show ?thesis by simp
  next
    case False
    with assms(1) have x: "x = Amt NOT_PRESENT" by (auto simp: never_stored_def split: watched.splits)
    with at(1) have "al_id a = EVENT_AMT_DISABLE" by (simp add: announces_def status_numbers)
    then have "id_toSubscribe StatusEventFilter a" by (simp add: status_filter status_events_def)
    then have "deliver w a t = handleStatusChanged w a t" using handled_open [OF at(3)] by (simp add: deliver_def)
    with absent_stored [OF at(1) [unfolded x] assms(2), of t] at(3) show ?thesis by (simp add: x status_numbers)
  qed
  then obtain u where "cached_number (DS (deliver w a t)) (kept_under x) = Some u" "\<not> m_serviceIsClosed (deliver w a t)"
    "u \<noteq> ucast (found_value x)" by blast
  from Suc.IH [OF this] at(1,4) show ?case by (simp add: announces_def)
qed simp

theorem announced_for_ever_witness:
  "map (\<lambda>a. (al_category a, al_id a)) (fst (pulls (consenting_platform None) (Eac True) 7 (knowing EAC_ENABLE_S 0)))
    = replicate 7 (announcement (Eac True))"
  by (rule announced_for_ever [where v = 0])
    (simp_all add: platform_writes knowing_knows never_stored_def)

text \<open>When a session of KVM ends, the handler stores under the user's consent the number the platform uses, not its
  own. The next check therefore finds a change where there is none, unless consent was not asked for or is being
  requested: it announces a consent that is displayed as requested, and one that was given as granted.\<close>

theorem consent_confused:
  assumes "\<forall>i. o_consent w i = Some (st, policy)" "st \<in> {0, 1, 2, 3, 4}" "writes_succeed w" "\<not> m_serviceIsClosed s"
    and "al_category a = CATEGORY_KVM" "al_id a = EVENT_KVM_SESSION_STOPPED"
  shows "map al_id (published_in (status_HandleAceMessage w (MB_PUBLISH_EVENT (Some a)) s)
        (GenerateUCEvents w True (status_HandleAceMessage w (MB_PUBLISH_EVENT (Some a)) s)))
      = (if st = 0 \<or> st = 1 then [] else if st = 2 then [EVENT_USER_CONSENT_REQUESTED] else [EVENT_USER_CONSENT_GRANTED])"
proof -
  let ?t = "status_HandleAceMessage w (MB_PUBLISH_EVENT (Some a)) s"
  have "m_serviceIsClosed s = False" using assms(4) by simp
  then have t: "?t = handleKVMEvents w a s"
    by (simp add: handled_open handleStatusChanged_def assms(5) event_numbers)
  have asks: "fst (ask_consent w u) = scast st" for u
    using assms(1) by (simp add: ask_consent_def asked_def GetUserConsentState_def)
  have known: "cached_number (DS ?t) (kept_under (Consent y)) = Some (ucast (scast st :: u32))" for y
    using assms(3) asks by (simp add: t handleKVMEvents_def assms(6) event_numbers Let_def case_prod_beta raise_timeout_def
        raise_like_def raise_alert_def)
  define y :: u32 where "y = (if consent_asked (scast st) then UC_REQUESTED else if consent_given (scast st) then UC_GRANTED else UC_ENDED)"
  have gen: "GenerateUCEvents w True ?t = check w (Consent y) (?t\<lparr>calls := calls ?t + 1\<rparr>)"
    using assms(1) by (simp add: GenerateUCEvents_def GetUserConsentState_def asked_def y_def)
  have known': "cached_number (DS (?t\<lparr>calls := calls ?t + 1\<rparr>)) (kept_under (Consent y)) = Some (ucast (scast st :: u32))"
    using known [of y] by simp
  show ?thesis
  proof (cases "scast st = y")
    case True
    then have "GenerateUCEvents w True ?t = ?t\<lparr>calls := calls ?t + 2\<rparr>"
      using check_quiet [of "?t\<lparr>calls := calls ?t + 1\<rparr>" "Consent y" w] known' gen by simp
    then have "published_in ?t (GenerateUCEvents w True ?t) = []" by (intro published_nothing) simp
    moreover have "st = 0 \<or> st = 1" using assms(2) True
      by (auto simp: y_def consent_asked_def consent_given_def status_numbers split: if_splits)
    ultimately show ?thesis by auto
  next
    case False
    have "settles (Consent y) \<or> never_stored (Consent y)" by (simp add: y_def status_numbers)
    moreover have "ucast (scast st :: u32) \<noteq> (ucast (found_value (Consent y)) :: u64)"
      using False assms(2) by (auto simp: y_def consent_asked_def consent_given_def status_numbers)
    ultimately have "publishes (Consent y) (?t\<lparr>calls := calls ?t + 1\<rparr>) (GenerateUCEvents w True ?t)"
      unfolding gen by (intro check_publishes [OF known'])
    then obtain b where b: "announces (Consent y) b"
      "postings (GenerateUCEvents w True ?t) = postings ?t @ [To EVENT_MANAGER (MB_PUBLISH_EVENT (Some b))]"
      by (auto simp: publishes_def)
    show ?thesis unfolding published_one [OF b(2)] using b(1) assms(2) False
      by (auto simp: announces_def y_def consent_asked_def consent_given_def status_numbers)
  qed
qed

definition session_end :: GMS_AlertIndication where
  "session_end = \<lparr>al_category = CATEGORY_KVM, al_id = EVENT_KVM_SESSION_STOPPED, al_Datetime = [], al_MessageID = [],
     al_Message = [], al_MessageArguments = []\<rparr>"

theorem consent_confused_witness:
  "map al_id (published_in
        (status_HandleAceMessage (consenting_platform (Some (3, -1))) (MB_PUBLISH_EVENT (Some session_end)) (knowing USER_CONSENT_S 2))
        (GenerateUCEvents (consenting_platform (Some (3, -1))) True
          (status_HandleAceMessage (consenting_platform (Some (3, -1))) (MB_PUBLISH_EVENT (Some session_end)) (knowing USER_CONSENT_S 2))))
      = (if (3 :: u16) = 0 \<or> (3 :: u16) = 1 then [] else if (3 :: u16) = 2 then [EVENT_USER_CONSENT_REQUESTED]
         else [EVENT_USER_CONSENT_GRANTED])"
  by (rule consent_confused) (simp_all add: consenting_platform_def [of "Some _"] writes_succeed_def succeeds_def knowing_knows
      session_end_def)

end
