(* ===== verification/Time_Sync.thy ===== *)
theory Time_Sync
  imports Event_Manager
begin

text \<open>
  The service that sets the engine's clock (\<^verbatim>\<open>UNS/TimeSyncService/TimeSyncService.cpp\<close>), once a day and when the connection
  to the engine returns. What the client and the system's clock answer during one synchronisation is a record.
\<close>

record time_sync = sub_service +
  m_needToSyncOnResume :: bool
  m_syncRequiredButNoPfw :: bool
  ms_LastTimeSync :: u32
  clock_set :: "u32 list"

text \<open>\<^term>\<open>None\<close> is a failure of the client; \<^verbatim>\<open>time\<close> fails with -1.\<close>

record sync_answers =
  pfw_is_up :: bool
  local_sync :: "bool option"
  amt_time :: "u32 option"
  system_time :: int
  set_works :: bool

definition ms_SecondsInDay :: nat where "ms_SecondsInDay = 24 * 60 * 60"
definition ms_MaxDiff :: int where "ms_MaxDiff = 30"

definition GetUTCTime :: "sync_answers \<Rightarrow> u32 option" where
  "GetUTCTime w = (if system_time w = -1 then None else Some (word_of_int (system_time w)))"

text \<open>\<^verbatim>\<open>difftime\<close> of two numbers that are not negative is their difference, without wrapping.\<close>

definition PerformSync :: "sync_answers \<Rightarrow> time_sync \<Rightarrow> time_sync" where
  "PerformSync w s =
     (if \<not> pfw_is_up w then s\<lparr>m_syncRequiredButNoPfw := True\<rparr>
      else case local_sync w of
        None \<Rightarrow> s\<lparr>m_needToSyncOnResume := True\<rparr>
      | Some False \<Rightarrow> s
      | Some True \<Rightarrow> (case amt_time w of None \<Rightarrow> s | Some AMTTime \<Rightarrow>
          (case GetUTCTime w of None \<Rightarrow> s | Some UTCTime \<Rightarrow>
             if \<bar>uint UTCTime - uint AMTTime\<bar> > ms_MaxDiff
             then (let s = s\<lparr>clock_set := clock_set s @ [UTCTime]\<rparr>
               in if set_works w then s\<lparr>ms_LastTimeSync := UTCTime\<rparr> else s)
             else s\<lparr>ms_LastTimeSync := UTCTime\<rparr>)))"

definition time_handlePublishEvent :: "sync_answers \<Rightarrow> GMS_AlertIndication \<Rightarrow> time_sync \<Rightarrow> time_sync" where
  "time_handlePublishEvent w a s =
     (if al_category a = CATEGORY_UNS \<and> al_id a = EVENT_PORT_FORWARDING_SERVICE_AVAILABLE \<and> m_syncRequiredButNoPfw s
      then (PerformSync w s)\<lparr>m_syncRequiredButNoPfw := False\<rparr> else s)"

definition time_handle_event :: "sync_answers \<Rightarrow> ev_message \<Rightarrow> time_sync \<Rightarrow> time_sync" where
  "time_handle_event w m s = (case m of
     MB_TIMER_EXPIRED \<Rightarrow> PerformSync w s
   | MB_PUBLISH_EVENT (Some a) \<Rightarrow> time_handlePublishEvent w a s
   | _ \<Rightarrow> s)"

definition time_HandleAceMessage :: "sync_answers \<Rightarrow> ev_message \<Rightarrow> time_sync \<Rightarrow> time_sync" where
  "time_HandleAceMessage w = EventHandler_HandleAceMessage GMS_TIMESYNCSERVICE (time_handle_event w)"

definition time_init :: "bool \<Rightarrow> time_sync \<Rightarrow> time_sync" where
  "time_init options_ok s = put_posting (Timer_scheduled ms_SecondsInDay)
     ((EventHandler_init GMS_TIMESYNCSERVICE TimeSyncEventFilter options_ok s)
        \<lparr>m_needToSyncOnResume := False, m_syncRequiredButNoPfw := False\<rparr>)"

definition time_fini :: "time_sync \<Rightarrow> time_sync" where
  "time_fini = put_posting Timer_cancelled"

definition time_handle_timeout :: "time_sync \<Rightarrow> time_sync" where
  "time_handle_timeout = put_posting (To_self MB_TIMER_EXPIRED)"

definition time_resume :: "sync_answers \<Rightarrow> time_sync \<Rightarrow> time_sync" where
  "time_resume w s =
     (let s = sub_resume GMS_TIMESYNCSERVICE s
      in if m_needToSyncOnResume s then PerformSync w (s\<lparr>m_needToSyncOnResume := False\<rparr>) else s)"

end
