(* ===== verification/Time_Properties.thy ===== *)
theory Time_Properties
  imports Time_Sync
begin

text \<open>
  The properties of the service that sets the engine's clock: how far off the clock may be afterwards, and which
  synchronisations are made up for.
\<close>

text \<open>The engine's clock after a synchronisation, if it keeps what it is set to.\<close>

definition engine_clock :: "sync_answers \<Rightarrow> time_sync \<Rightarrow> u32 option" where
  "engine_clock w s = (case drop (length (clock_set s)) (clock_set (PerformSync w s)) of
     [] \<Rightarrow> amt_time w
   | t # _ \<Rightarrow> if set_works w then Some t else amt_time w)"

lemma synced:
  assumes "pfw_is_up w" "local_sync w = Some True" "amt_time w = Some t" "GetUTCTime w = Some u"
  shows "clock_set (PerformSync w s) = clock_set s @ (if \<bar>uint u - uint t\<bar> > 30 then [u] else [])"
  using assms by (simp add: PerformSync_def ms_MaxDiff_def Let_def)

text \<open>A synchronisation in which every part answers and the feature is on leaves the engine's clock within thirty seconds
  of the system's, and it sets the clock, once, only if it was off by more.\<close>

theorem clock_within_bound:
  assumes "pfw_is_up w" "local_sync w = Some True" "amt_time w = Some t" "GetUTCTime w = Some u" "set_works w"
  shows "(case engine_clock w s of None \<Rightarrow> False | Some c \<Rightarrow> \<bar>uint u - uint c\<bar> \<le> 30)
    \<and> clock_set (PerformSync w s) = clock_set s @ (if \<bar>uint u - uint t\<bar> > 30 then [u] else [])"
  using synced [OF assms(1-4), of s] assms(3,5) by (simp add: engine_clock_def)

definition fresh_time_sync :: time_sync where
  "fresh_time_sync = \<lparr>m_serviceIsClosed = False, postings = [], m_needToSyncOnResume = False, m_syncRequiredButNoPfw = False,
     ms_LastTimeSync = 0, clock_set = []\<rparr>"

theorem clock_within_bound_witness:
  "(case engine_clock \<lparr>pfw_is_up = True, local_sync = Some True, amt_time = Some 100, system_time = 4294967396, set_works = True\<rparr>
        fresh_time_sync of None \<Rightarrow> False | Some c \<Rightarrow> \<bar>uint (100 :: u32) - uint c\<bar> \<le> 30)
    \<and> clock_set (PerformSync \<lparr>pfw_is_up = True, local_sync = Some True, amt_time = Some 100, system_time = 4294967396,
        set_works = True\<rparr> fresh_time_sync)
      = clock_set fresh_time_sync @ (if \<bar>uint (100 :: u32) - uint (100 :: u32)\<bar> > 30 then [100] else [])"
  by (rule clock_within_bound) (simp_all add: GetUTCTime_def)

definition returned :: GMS_AlertIndication where
  "returned = \<lparr>al_category = CATEGORY_UNS, al_id = EVENT_PORT_FORWARDING_SERVICE_AVAILABLE, al_Datetime = [], al_MessageID = [],
     al_Message = [], al_MessageArguments = []\<rparr>"

lemma no_demand: "\<not> m_syncRequiredButNoPfw s \<Longrightarrow> time_HandleAceMessage w (MB_PUBLISH_EVENT (Some a)) s = s"
  by (simp add: time_HandleAceMessage_def EventHandler_HandleAceMessage_def time_handle_event_def time_handlePublishEvent_def)

lemma no_demand_all:
  "\<not> m_syncRequiredButNoPfw s \<Longrightarrow> fold (\<lambda>w. time_HandleAceMessage w (MB_PUBLISH_EVENT (Some a))) ws s = s"
  by (induction ws) (simp_all add: no_demand)

text \<open>C37. A synchronisation that the timer demands while the connection to the engine is down is made up for when the event
  of its return is handled, exactly as if the timer fired then, and not again; but if the connection is down once more
  by then, the demand is forgotten: no client is asked, and no later event of this kind has an effect.\<close>

theorem demanded_sync_made_up_for_once:
  assumes "\<not> m_serviceIsClosed s" "\<not> pfw_is_up w0"
  shows "fold (\<lambda>w. time_HandleAceMessage w (MB_PUBLISH_EVENT (Some returned))) (w # ws) (time_HandleAceMessage w0 MB_TIMER_EXPIRED s)
    = (if pfw_is_up w then PerformSync w s else s)\<lparr>m_syncRequiredButNoPfw := False\<rparr>"
proof -
  let ?s = "time_HandleAceMessage w0 MB_TIMER_EXPIRED s"
  have s: "?s = s\<lparr>m_syncRequiredButNoPfw := True\<rparr>"
    using assms by (simp add: time_HandleAceMessage_def EventHandler_HandleAceMessage_def time_handle_event_def PerformSync_def)
  have "time_HandleAceMessage w (MB_PUBLISH_EVENT (Some returned)) ?s = (PerformSync w ?s)\<lparr>m_syncRequiredButNoPfw := False\<rparr>"
    unfolding s using assms(1) by (simp add: time_HandleAceMessage_def EventHandler_HandleAceMessage_def time_handle_event_def
        time_handlePublishEvent_def returned_def)
  also have "\<dots> = (if pfw_is_up w then PerformSync w s else s)\<lparr>m_syncRequiredButNoPfw := False\<rparr>"
    unfolding s by (simp add: PerformSync_def Let_def split: option.split bool.split)
  finally show ?thesis using no_demand_all [of "(if pfw_is_up w then PerformSync w s else s)\<lparr>m_syncRequiredButNoPfw := False\<rparr>" returned ws]
    by simp
qed

theorem demanded_sync_made_up_for_once_witness:
  "fold (\<lambda>w. time_HandleAceMessage w (MB_PUBLISH_EVENT (Some returned)))
      (\<lparr>pfw_is_up = True, local_sync = Some True, amt_time = Some 0, system_time = 1600000000, set_works = True\<rparr> # [])
      (time_HandleAceMessage \<lparr>pfw_is_up = False, local_sync = None, amt_time = None, system_time = 0, set_works = False\<rparr>
        MB_TIMER_EXPIRED fresh_time_sync)
    = (if pfw_is_up \<lparr>pfw_is_up = True, local_sync = Some True, amt_time = Some 0, system_time = 1600000000, set_works = True\<rparr>
       then PerformSync \<lparr>pfw_is_up = True, local_sync = Some True, amt_time = Some 0, system_time = 1600000000, set_works = True\<rparr>
         fresh_time_sync
       else fresh_time_sync)\<lparr>m_syncRequiredButNoPfw := False\<rparr>"
  by (rule demanded_sync_made_up_for_once) (simp_all add: fresh_time_sync_def)

end
