(* ===== verification/Static_Ip.thy ===== *)
theory Static_Ip
  imports Event_Manager Registry Amthi_Settings
begin

text \<open>
  The service that shares a static address with the engine (\<^verbatim>\<open>UNS/SharedStaticIPService\<close>, on Linux) with its client
  \<^verbatim>\<open>WsmanClient/SyncIpClient.cpp\<close>: it reads the settings of the wired interface from the kernel, and writes what has
  changed to the engine. What the kernel, the engine and the timer queue answer during the handling of one message is a
  record. Nothing is modelled of the name servers of NetworkManager and ConnMan: they are compiled in by options.
\<close>

subsection \<open>Settings\<close>

record net_settings =
  m_DHCPEnabled :: bool
  m_IpAddress :: bytes
  m_SubnetMask :: bytes
  m_DefaultGateway :: bytes
  m_PrimaryDNS :: bytes
  m_SecondaryDNS :: bytes

record sync_network_data = net_settings +
  m_MacAddress :: bytes
  m_ValidationFailed :: bool
  m_NICindex :: int

definition ResetSettings :: "sync_network_data \<Rightarrow> sync_network_data" where
  "ResetSettings d = d\<lparr>m_DHCPEnabled := False, m_IpAddress := [], m_SubnetMask := [], m_DefaultGateway := [],
     m_PrimaryDNS := [], m_SecondaryDNS := [], m_MacAddress := [], m_ValidationFailed := False\<rparr>"

definition emptyAddress :: bytes where "emptyAddress = str ''0.0.0.0''"

text \<open>\<^verbatim>\<open>MacAddressToString\<close>: two hexadecimal digits a byte, in upper case.\<close>

definition hex_digit :: "nat \<Rightarrow> u8" where
  "hex_digit k = (if k < 10 then of_nat (48 + k) else of_nat (55 + k))"

definition hex_byte :: "u8 \<Rightarrow> bytes" where
  "hex_byte b = [hex_digit (unat b div 16), hex_digit (unat b mod 16)]"

fun hex_bytes :: "bytes \<Rightarrow> bytes" where
  "hex_bytes [] = []"
| "hex_bytes [b] = hex_byte b"
| "hex_bytes (b # bs) = hex_byte b @ 58 # hex_bytes bs"

definition MacAddressToString :: "bytes \<Rightarrow> bytes" where
  "MacAddressToString addr = (if length addr = 6 then hex_bytes addr else [])"

subsection \<open>The interfaces of the host\<close>

text \<open>The tables of the kernel as the library gives them; what cannot be read is \<^term>\<open>None\<close>. The texts are those that are
  written to the buffer.\<close>

record nl_link =
  l_address :: "bytes option"
  l_index :: int
  l_running :: bool

record nl_address =
  a_index :: int
  a_inet :: bool
  a_local :: "bytes option"
  a_prefixlen :: nat
  a_permanent :: bool
  a_secondary :: bool

record nl_route =
  r_hop :: "(int \<times> bytes option) option"

record netlink =
  nl_connected :: bool
  nl_links :: "nl_link list option"
  nl_addresses :: "nl_address list option"
  nl_routes :: "nl_route list option"
  nl_servers :: "bytes option list"

record net_param =
  p_udi :: int
  p_ip :: bytes
  p_prefixlen :: nat
  p_gw :: bytes
  p_dhcp :: bool
  p_dns :: "bytes list"

definition text_or_none :: "bytes option \<Rightarrow> bytes" where
  "text_or_none t = (case t of None \<Rightarrow> [] | Some b \<Rightarrow> b)"

definition gateway_of :: "int \<Rightarrow> nl_route \<Rightarrow> bytes option" where
  "gateway_of udi r = (case r_hop r of None \<Rightarrow> None | Some (i, gw) \<Rightarrow> if i = udi then gw else None)"

text \<open>The index is what the caller's variable held, \<open>junk\<close>, if no interface has the address.\<close>

definition interface_index :: "int \<Rightarrow> bytes \<Rightarrow> nl_link list \<Rightarrow> int" where
  "interface_index junk mac links = (case List.find (\<lambda>l. text_or_none (l_address l) = mac) links of
     None \<Rightarrow> junk
   | Some l \<Rightarrow> l_index l)"

definition getNetParam :: "int \<Rightarrow> bytes \<Rightarrow> netlink \<Rightarrow> net_param option" where
  "getNetParam junk mac n =
     (if \<not> nl_connected n then None
      else case nl_links n of None \<Rightarrow> None | Some links \<Rightarrow>
        let udi = interface_index junk mac links in
        if udi < 0 then None
        else case nl_addresses n of None \<Rightarrow> None | Some addrs \<Rightarrow>
          case List.find (\<lambda>a. a_index a = udi \<and> a_inet a) addrs of None \<Rightarrow> None | Some a \<Rightarrow>
            case nl_routes n of None \<Rightarrow> None | Some routes \<Rightarrow>
              Some \<lparr>p_udi = udi, p_ip = text_or_none (a_local a), p_prefixlen = a_prefixlen a,
                p_gw = (case List.map_filter (gateway_of udi) routes of [] \<Rightarrow> emptyAddress | gw # _ \<Rightarrow> gw),
                p_dhcp = (\<not> a_permanent a), p_dns = List.map_filter (\<lambda>s. s) (take 3 (nl_servers n))\<rparr>)"

definition ValidateLinkStatus :: "int \<Rightarrow> netlink \<Rightarrow> bool" where
  "ValidateLinkStatus nic n =
     (if \<not> nl_connected n then False
      else case nl_links n of None \<Rightarrow> False | Some links \<Rightarrow>
        case List.find (\<lambda>l. l_index l = nic) links of None \<Rightarrow> False | Some l \<Rightarrow>
          if \<not> l_running l then False
          else case nl_addresses n of None \<Rightarrow> False | Some addrs \<Rightarrow>
            case List.find (\<lambda>a. a_index a = nic) addrs of None \<Rightarrow> False | Some a \<Rightarrow> \<not> a_secondary a)"

text \<open>The mask of a prefix of at most 32 bits, in the dotted notation.\<close>

definition prefix_mask :: "nat \<Rightarrow> u32" where
  "prefix_mask n = (if n = 0 then 0 else push_bit (32 - n) (- 1))"

definition dotted :: "u32 \<Rightarrow> bytes" where
  "dotted m = decimal (unat (drop_bit 24 m)) @ 46 # decimal (unat (drop_bit 16 m AND 255)) @ 46 #
     decimal (unat (drop_bit 8 m AND 255)) @ 46 # decimal (unat (m AND 255))"

text \<open>The host's settings replace the stored ones. The result: whether they are to be synchronised, and whether an address
  is empty; \<^term>\<open>None\<close> is a failure.\<close>

definition CheckNetworkData :: "int \<Rightarrow> netlink \<Rightarrow> sync_network_data \<Rightarrow> (bool \<times> bool) option \<times> sync_network_data" where
  "CheckNetworkData junk n d =
     (if m_MacAddress d = [] then (None, d)
      else case getNetParam junk (m_MacAddress d) n of
        None \<Rightarrow> (None, d)
      | Some p \<Rightarrow>
          let mask = dotted (prefix_mask (p_prefixlen p));
              changed = (m_IpAddress d \<noteq> p_ip p \<or> m_SubnetMask d \<noteq> mask
                \<or> p_gw p \<noteq> [] \<and> m_DefaultGateway d \<noteq> p_gw p \<or> m_DHCPEnabled d \<noteq> p_dhcp p);
              d' = d\<lparr>m_NICindex := p_udi p, m_IpAddress := p_ip p, m_SubnetMask := mask, m_DefaultGateway := p_gw p,
                m_DHCPEnabled := p_dhcp p\<rparr>
          in if \<not> p_dhcp p \<and> (p_ip p = emptyAddress \<or> p_gw p = emptyAddress) then (Some (False, True), d')
             else let primary = (case p_dns p of s # _ \<Rightarrow> s | [] \<Rightarrow> []); secondary = (case p_dns p of _ # s # _ \<Rightarrow> s | _ \<Rightarrow> [])
               in (Some (changed \<or> m_PrimaryDNS d' \<noteq> primary \<or> m_SecondaryDNS d' \<noteq> secondary, False),
                   d'\<lparr>m_PrimaryDNS := primary, m_SecondaryDNS := secondary\<rparr>))"

subsection \<open>The settings of the engine\<close>

text \<open>An object of the engine; a property that does not exist is \<^term>\<open>None\<close>.\<close>

record ip_settings =
  hs_DHCPEnabled :: "bool option"
  hs_IpAddress :: "bytes option"
  hs_SubnetMask :: "bytes option"
  hs_DefaultGateway :: "bytes option"
  hs_PrimaryDNS :: "bytes option"
  hs_SecondaryDNS :: "bytes option"

definition if_exists :: "'a \<Rightarrow> 'a option \<Rightarrow> 'a" where
  "if_exists old new = (case new of None \<Rightarrow> old | Some v \<Rightarrow> v)"

text \<open>\<open>got\<close> is what \<^verbatim>\<open>Init\<close> fetched, \<^term>\<open>None\<close> for an exception; the second argument is the caller's variables.\<close>

definition GetNetworkData :: "ip_settings option \<Rightarrow> net_settings \<Rightarrow> net_settings option" where
  "GetNetworkData got d = (case got of
     None \<Rightarrow> None
   | Some h \<Rightarrow> Some \<lparr>m_DHCPEnabled = if_exists (m_DHCPEnabled d) (hs_DHCPEnabled h),
       m_IpAddress = if_exists (m_IpAddress d) (hs_IpAddress h),
       m_SubnetMask = if_exists (m_SubnetMask d) (hs_SubnetMask h),
       m_DefaultGateway = if_exists (m_DefaultGateway d) (hs_DefaultGateway h),
       m_PrimaryDNS = if_exists (m_PrimaryDNS d) (hs_PrimaryDNS h),
       m_SecondaryDNS = if_exists (m_SecondaryDNS d) (hs_SecondaryDNS h)\<rparr>)"

text \<open>The object that \<^verbatim>\<open>Put\<close> sends, and the result; \<^verbatim>\<open>Put\<close> fails with an exception.\<close>

definition SetNetworkData :: "ip_settings option \<Rightarrow> bool \<Rightarrow> net_settings \<Rightarrow> bool \<times> ip_settings option" where
  "SetNetworkData got put_ok d = (case got of
     None \<Rightarrow> (False, None)
   | Some h \<Rightarrow> (put_ok, Some
       (if m_DHCPEnabled d
        then h\<lparr>hs_DHCPEnabled := Some True, hs_IpAddress := None, hs_SubnetMask := None, hs_DefaultGateway := None,
               hs_PrimaryDNS := None, hs_SecondaryDNS := None\<rparr>
        else h\<lparr>hs_DHCPEnabled := Some False, hs_IpAddress := Some (m_IpAddress d), hs_SubnetMask := Some (m_SubnetMask d),
               hs_DefaultGateway := Some (m_DefaultGateway d), hs_PrimaryDNS := Some (m_PrimaryDNS d),
               hs_SecondaryDNS := Some (m_SecondaryDNS d)\<rparr>)))"

text \<open>\<^verbatim>\<open>InitEPS\<close> and \<^verbatim>\<open>GetSharedStaticIpState\<close>: the ports with their properties; the feature is on if one port says so.\<close>

definition SharedStaticIpState :: "bool option list option \<Rightarrow> bool option" where
  "SharedStaticIpState ports = map_option (list_ex (\<lambda>p. p = Some True)) ports"

end
