(* ===== verification/Static_Ip_Service.thy ===== *)
theory Static_Ip_Service
  imports Static_Ip
begin

text \<open>
  The task of the service that shares a static address (\<^verbatim>\<open>SharedStaticIPService.cpp\<close>, on Linux): a machine of three
  states that posts its next state to its own queue, at once or by a timer that repeats. The queue holds the states and
  the messages of the other services; the reactor is the relation \<open>ssip_step\<close>.
\<close>

datatype ssip_state = SSIP_GETSHAREDSTATICIPSTATE | SSIP_SHAREDSTATICIPSTATE_DISABLED | SSIP_SHAREDSTATICIPSTATE_ENABLED

datatype ssip_message = Ssip_state ssip_state | Ssip_ace ev_message

record static_ip = sub_service +
  ssip_queue :: "ssip_message list"
  ssip_timer :: "(ssip_state \<times> nat) option"
  m_sock :: bool
  m_SyncStaticIP :: bool
  m_SyncRetries :: u32
  m_HandleStateRequiredButNoPfw :: bool
  m_syncNetData :: sync_network_data
  put_settings :: "ip_settings list"

record ssip_world =
  pfw_started :: bool
  eth_ports :: "bool option list option"
  lan_driver :: tee
  host_net :: netlink
  junk_udi :: int
  engine_ip :: "ip_settings option"
  host_link :: netlink
  engine_ip_again :: "ip_settings option"
  put_works :: bool
  schedule_works :: bool
  ssip_date :: bytes

definition CheckDNSInterval :: nat where "CheckDNSInterval = 150"
definition RetryInterval :: nat where "RetryInterval = 10"
definition MAX_SyncRetries :: u32 where "MAX_SyncRetries = 10"

subsection \<open>Timer and states\<close>

text \<open>\<^verbatim>\<open>cancel_timer\<close> tells how many timers it has cancelled.\<close>

definition setTimer :: "ssip_world \<Rightarrow> nat \<Rightarrow> ssip_state \<Rightarrow> static_ip \<Rightarrow> static_ip" where
  "setTimer w interval st s = (case ssip_timer s of
     None \<Rightarrow> s
   | Some _ \<Rightarrow> s\<lparr>ssip_timer := if schedule_works w then Some (st, interval) else None\<rparr>)"

definition put_state :: "ssip_state \<Rightarrow> static_ip \<Rightarrow> static_ip" where
  "put_state st s = s\<lparr>ssip_queue := ssip_queue s @ [Ssip_state st]\<rparr>"

definition MoveToState :: "ssip_world \<Rightarrow> ssip_state \<Rightarrow> nat \<Rightarrow> static_ip \<Rightarrow> static_ip" where
  "MoveToState w st interval s = (if interval = 0 then put_state st s else setTimer w interval st s)"

subsection \<open>Asking and writing\<close>

definition UpdateMacAddress :: "ssip_world \<Rightarrow> static_ip \<Rightarrow> bool \<times> static_ip" where
  "UpdateMacAddress w s = (case fst (GetLanInterfaceSettingsCommand (lan_driver w) 0) of
     Returned lan \<Rightarrow> (True, s\<lparr>m_syncNetData := (m_syncNetData s)\<lparr>m_MacAddress := MacAddressToString (lan_MacAddress lan)\<rparr>\<rparr>)
   | _ \<Rightarrow> (False, s))"

text \<open>The state of the feature, off if it could not be asked for; \<^term>\<open>None\<close> if there is no address of the interface.\<close>

definition GetSharedStaticIpState :: "ssip_world \<Rightarrow> static_ip \<Rightarrow> bool option \<times> static_ip" where
  "GetSharedStaticIpState w s =
     (let (enabled, s) = (case SharedStaticIpState (eth_ports w) of
            None \<Rightarrow> (False, s)
          | Some e \<Rightarrow> (e, s\<lparr>m_SyncRetries := 0, m_SyncStaticIP := True\<rparr>))
      in if m_MacAddress (m_syncNetData s) \<noteq> [] then (Some enabled, s)
         else (case UpdateMacAddress w s of (True, s) \<Rightarrow> (Some enabled, s) | (False, s) \<Rightarrow> (None, s)))"

definition ssip_alert :: "ssip_world \<Rightarrow> nat \<Rightarrow> string \<Rightarrow> static_ip \<Rightarrow> static_ip" where
  "ssip_alert w eid t = put_posting (To EVENT_MANAGER (MB_PUBLISH_EVENT (Some \<lparr>al_category = CATEGORY_IPSYNC, al_id = eid,
     al_Datetime = ssip_date w, al_MessageID = str ''iAMT0080'', al_Message = str t, al_MessageArguments = [[]]\<rparr>)))"

definition SyncFwUpdateFailed :: "ssip_world \<Rightarrow> static_ip \<Rightarrow> static_ip" where
  "SyncFwUpdateFailed w = ssip_alert w EVENT_IP_SYNC_FW_UPDATE_FAILED
     ''Failed to update Intel(R) ME firmware with new network configuration''"

definition SyncValidationFailed :: "ssip_world \<Rightarrow> static_ip \<Rightarrow> static_ip" where
  "SyncValidationFailed w = ssip_alert w EVENT_IP_SYNC_VALIDATION_FAILED
     ''Failed to verify that the new network configuration is valid and did not update the Intel(R) ME firmware with the configuration''"

definition NetworkSettingsChanged :: "ssip_world \<Rightarrow> static_ip \<Rightarrow> bool \<times> static_ip" where
  "NetworkSettingsChanged w s =
     (let (x, d) = CheckNetworkData (junk_udi w) (host_net w) (m_syncNetData s); s = s\<lparr>m_syncNetData := d\<rparr>
      in case x of
           None \<Rightarrow> (False, s)
         | Some (changed, no_address) \<Rightarrow>
             if \<not> changed then (False, s) else if no_address then (False, SyncValidationFailed w s) else (True, s))"

text \<open>\<^verbatim>\<open>SyncNetworkConfiguration\<close>: the local variables begin as those of an engine that has no properties. The result with
  what was sent.\<close>

definition engine_settings :: "ssip_world \<Rightarrow> net_settings option" where
  "engine_settings w = GetNetworkData (engine_ip w)
     \<lparr>m_DHCPEnabled = True, m_IpAddress = [], m_SubnetMask = [], m_DefaultGateway = [], m_PrimaryDNS = [], m_SecondaryDNS = []\<rparr>"

definition or_zeros :: "bytes \<Rightarrow> bytes" where
  "or_zeros a = (if a = [] then emptyAddress else a)"

definition addresses_differ :: "sync_network_data \<Rightarrow> net_settings \<Rightarrow> bool" where
  "addresses_differ d e \<longleftrightarrow> m_IpAddress d \<noteq> m_IpAddress e \<or> m_SubnetMask d \<noteq> m_SubnetMask e
     \<or> m_DefaultGateway d \<noteq> m_DefaultGateway e \<or> m_PrimaryDNS d \<noteq> m_PrimaryDNS e \<or> m_SecondaryDNS d \<noteq> m_SecondaryDNS e"

definition SyncNetworkConfiguration ::
  "ssip_world \<Rightarrow> sync_network_data \<Rightarrow> (bool \<times> ip_settings option) \<times> sync_network_data" where
  "SyncNetworkConfiguration w d = (case engine_settings w of
     None \<Rightarrow> ((False, None), d)
   | Some e \<Rightarrow>
       let validate = (\<not> m_DHCPEnabled d \<and> addresses_differ d e);
           new = (if m_DHCPEnabled d then e\<lparr>m_DHCPEnabled := True\<rparr>
             else \<lparr>m_DHCPEnabled = False, m_IpAddress = m_IpAddress d, m_SubnetMask = m_SubnetMask d,
               m_DefaultGateway = m_DefaultGateway d, m_PrimaryDNS = m_PrimaryDNS d, m_SecondaryDNS = m_SecondaryDNS d\<rparr>)
       in if m_DHCPEnabled d = m_DHCPEnabled e \<and> \<not> validate then ((True, None), d)
          else if validate \<and> \<not> ValidateLinkStatus (m_NICindex d) (host_link w)
          then ((False, None), d\<lparr>m_ValidationFailed := True\<rparr>)
          else (SetNetworkData (engine_ip_again w) (put_works w)
                 (new\<lparr>m_PrimaryDNS := or_zeros (m_PrimaryDNS new), m_SecondaryDNS := or_zeros (m_SecondaryDNS new)\<rparr>),
               if validate then d\<lparr>m_ValidationFailed := False\<rparr> else d))"

text \<open>The interval is \<^term>\<open>None\<close> if the result is false.\<close>

definition SyncSettings :: "ssip_world \<Rightarrow> static_ip \<Rightarrow> nat option \<times> static_ip" where
  "SyncSettings w s =
     (if m_SyncRetries s < MAX_SyncRetries
      then
        (let ((ok, sent), d) = SyncNetworkConfiguration w (m_syncNetData s);
             s = s\<lparr>put_settings := put_settings s @ (case sent of None \<Rightarrow> [] | Some h \<Rightarrow> [h])\<rparr>
         in if ok then (Some CheckDNSInterval, s\<lparr>m_syncNetData := d, m_SyncRetries := 0\<rparr>)
            else (Some RetryInterval, s\<lparr>m_syncNetData := ResetSettings d, m_SyncRetries := m_SyncRetries s + 1\<rparr>))
      else
        (let s = (if m_ValidationFailed (m_syncNetData s) then SyncValidationFailed w s else SyncFwUpdateFailed w s)
         in (None, s\<lparr>m_syncNetData := ResetSettings (m_syncNetData s), m_SyncRetries := 0\<rparr>)))"

subsection \<open>Messages\<close>

definition HandleState :: "ssip_world \<Rightarrow> ssip_state \<Rightarrow> static_ip \<Rightarrow> static_ip" where
  "HandleState w st s =
     (if \<not> pfw_started w then s\<lparr>m_HandleStateRequiredButNoPfw := True\<rparr>
      else case st of
        SSIP_GETSHAREDSTATICIPSTATE \<Rightarrow> (case GetSharedStaticIpState w s of
            (Some enabled, s) \<Rightarrow>
              put_state (if enabled then SSIP_SHAREDSTATICIPSTATE_ENABLED else SSIP_SHAREDSTATICIPSTATE_DISABLED) s
          | (None, s) \<Rightarrow> MoveToState w SSIP_GETSHAREDSTATICIPSTATE CheckDNSInterval s)
      | SSIP_SHAREDSTATICIPSTATE_DISABLED \<Rightarrow> MoveToState w SSIP_GETSHAREDSTATICIPSTATE CheckDNSInterval s
      | SSIP_SHAREDSTATICIPSTATE_ENABLED \<Rightarrow> (case NetworkSettingsChanged w s of
            (False, s) \<Rightarrow> MoveToState w SSIP_SHAREDSTATICIPSTATE_ENABLED CheckDNSInterval s
          | (True, s) \<Rightarrow> (case SyncSettings w s of
                (Some interval, s) \<Rightarrow> MoveToState w SSIP_SHAREDSTATICIPSTATE_ENABLED interval s
              | (None, s) \<Rightarrow> MoveToState w SSIP_GETSHAREDSTATICIPSTATE CheckDNSInterval s)))"

definition ssip_handlePublishEvent :: "GMS_AlertIndication \<Rightarrow> static_ip \<Rightarrow> static_ip" where
  "ssip_handlePublishEvent a s =
     (if al_category a = CATEGORY_UNS \<and> al_id a = EVENT_PORT_FORWARDING_SERVICE_AVAILABLE \<and> m_HandleStateRequiredButNoPfw s
      then put_state SSIP_GETSHAREDSTATICIPSTATE (s\<lparr>m_HandleStateRequiredButNoPfw := False\<rparr>) else s)"

definition ssip_handle_event :: "ev_message \<Rightarrow> static_ip \<Rightarrow> static_ip" where
  "ssip_handle_event m s = (case m of MB_PUBLISH_EVENT (Some a) \<Rightarrow> ssip_handlePublishEvent a s | _ \<Rightarrow> s)"

text \<open>\<^verbatim>\<open>handle_close\<close>, which is also \<^verbatim>\<open>PreStop\<close>.\<close>

definition ssip_handle_close :: "static_ip \<Rightarrow> static_ip" where
  "ssip_handle_close s = s\<lparr>m_sock := False, ssip_timer := None\<rparr>"

definition ssip_HandleAceMessage :: "ssip_world \<Rightarrow> ssip_message \<Rightarrow> static_ip \<Rightarrow> static_ip" where
  "ssip_HandleAceMessage w m s = (case m of
     Ssip_state st \<Rightarrow> if m_serviceIsClosed s then s else HandleState w st s
   | Ssip_ace (MB_UNSUBSCRIBE_EVENT _) \<Rightarrow> closeSubService GMS_SHAREDSTATICIPSERVICE (ssip_handle_close s)
   | Ssip_ace a \<Rightarrow> EventHandler_HandleAceMessage GMS_SHAREDSTATICIPSERVICE ssip_handle_event a s)"

text \<open>\<^verbatim>\<open>init\<close>: whether the socket of the kernel is connected, the handler registered and the timer scheduled.\<close>

definition ssip_init :: "bool \<Rightarrow> bool \<Rightarrow> bool \<Rightarrow> bool \<Rightarrow> static_ip \<Rightarrow> bool \<times> static_ip" where
  "ssip_init options_ok sock_ok register_ok schedule_ok s =
     (let s = (EventHandler_init GMS_SHAREDSTATICIPSERVICE SharedStaticIPEventFilter options_ok s)
            \<lparr>m_HandleStateRequiredButNoPfw := False, m_SyncStaticIP := False, m_SyncRetries := 0\<rparr>
      in if \<not> sock_ok \<or> \<not> register_ok then (False, s\<lparr>m_sock := False\<rparr>)
         else if \<not> schedule_ok then (False, s\<lparr>m_sock := True\<rparr>)
         else (True, s\<lparr>m_sock := True, ssip_timer := Some (SSIP_GETSHAREDSTATICIPSTATE, CheckDNSInterval)\<rparr>))"

definition SharedStaticIPService :: static_ip where
  "SharedStaticIPService = \<lparr>m_serviceIsClosed = False, postings = [], ssip_queue = [], ssip_timer = None, m_sock = False,
     m_SyncStaticIP = False, m_SyncRetries = 0, m_HandleStateRequiredButNoPfw = False,
     m_syncNetData = \<lparr>m_DHCPEnabled = False, m_IpAddress = [], m_SubnetMask = [], m_DefaultGateway = [], m_PrimaryDNS = [],
       m_SecondaryDNS = [], m_MacAddress = [], m_ValidationFailed = False, m_NICindex = 0\<rparr>, put_settings = []\<rparr>"

text \<open>What the reactor does: the timer fires and goes on, the kernel reports a change, another service sends a message, or
  the first message of the queue is handled, in a world that is \<open>possible\<close>.\<close>

inductive ssip_step :: "(ssip_world \<Rightarrow> bool) \<Rightarrow> static_ip \<Rightarrow> static_ip \<Rightarrow> bool" for possible where
  timer_fires: "ssip_timer s = Some (st, i) \<Longrightarrow> ssip_step possible s (put_state st s)"
| kernel_reports: "m_sock s \<Longrightarrow> ssip_step possible s (put_state SSIP_GETSHAREDSTATICIPSTATE s)"
| message_sent: "ssip_step possible s (s\<lparr>ssip_queue := ssip_queue s @ [Ssip_ace m]\<rparr>)"
| message_handled: "ssip_queue s = m # ms \<Longrightarrow> possible w \<Longrightarrow>
    ssip_step possible s (ssip_HandleAceMessage w m (s\<lparr>ssip_queue := ms\<rparr>))"

inductive ssip_reach :: "(ssip_world \<Rightarrow> bool) \<Rightarrow> static_ip \<Rightarrow> bool" for possible where
  started: "ssip_init options_ok sock_ok register_ok schedule_ok SharedStaticIPService = (True, s) \<Longrightarrow> ssip_reach possible s"
| goes_on: "ssip_reach possible s \<Longrightarrow> ssip_step possible s t \<Longrightarrow> ssip_reach possible t"

end
