(* ===== verification/Static_Ip_Properties.thy ===== *)
theory Static_Ip_Properties
  imports Static_Ip_Service Event_Properties
begin

text \<open>
  The properties of the service that shares a static address: what a successful synchronisation leaves in the engine,
  and the four ways in which the rest goes wrong: the interface is not found, a failed synchronisation is not tried
  again, and neither of the two failures is ever reported.
\<close>

subsection \<open>What the states keep\<close>

lemma quiet [simp]:
  "postings (setTimer w i st s) = postings s" "m_syncNetData (setTimer w i st s) = m_syncNetData s"
  "m_SyncRetries (setTimer w i st s) = m_SyncRetries s"
  "postings (put_state st s) = postings s" "m_syncNetData (put_state st s) = m_syncNetData s"
  "m_SyncRetries (put_state st s) = m_SyncRetries s"
  "postings (MoveToState w st i s) = postings s" "m_syncNetData (MoveToState w st i s) = m_syncNetData s"
  "m_SyncRetries (MoveToState w st i s) = m_SyncRetries s"
  by (simp_all add: setTimer_def put_state_def MoveToState_def split: option.split)

definition posted_ids :: "static_ip \<Rightarrow> nat set" where
  "posted_ids s = al_id ` set (List.map_filter alert_of (postings s))"

lemma posted_ids_same: "postings t = postings s \<Longrightarrow> posted_ids t = posted_ids s"
  by (simp add: posted_ids_def)

lemma posted_ids_more:
  assumes "postings t = postings s @ ps" "list_all (\<lambda>p. alert_of p = None) ps"
  shows "posted_ids t = posted_ids s"
proof -
  have "List.map_filter alert_of ps = []" using assms(2) by (induction ps) (simp_all add: List.map_filter_simps)
  then have "List.map_filter alert_of (postings t) = List.map_filter alert_of (postings s)"
    using assms(1) by (simp add: List.map_filter_def)
  then show ?thesis by (simp add: posted_ids_def)
qed

text \<open>After a failed synchronisation the address of the interface is forgotten; it is learnt only when the state of the
  feature is asked for, which resets the counter.\<close>

definition ssip_ok :: "(ssip_world \<Rightarrow> bool) \<Rightarrow> static_ip \<Rightarrow> bool" where
  "ssip_ok possible s \<longleftrightarrow> \<not> m_ValidationFailed (m_syncNetData s) \<and> EVENT_IP_SYNC_VALIDATION_FAILED \<notin> posted_ids s
     \<and> ((\<exists>w. possible w \<and> eth_ports w = None)
        \<or> EVENT_IP_SYNC_FW_UPDATE_FAILED \<notin> posted_ids s
          \<and> (m_SyncRetries s = 0 \<or> m_SyncRetries s = 1 \<and> m_MacAddress (m_syncNetData s) = []))"

lemma ssip_ok_same:
  assumes "ssip_ok P s" "posted_ids t = posted_ids s" "m_syncNetData t = m_syncNetData s" "m_SyncRetries t = m_SyncRetries s"
  shows "ssip_ok P t"
  using assms by (simp add: ssip_ok_def)

lemma check_keeps:
  "m_ValidationFailed (snd (CheckNetworkData j n d)) = m_ValidationFailed d"
  "m_MacAddress (snd (CheckNetworkData j n d)) = m_MacAddress d"
  "fst (CheckNetworkData j n d) = Some (True, no_address) \<Longrightarrow> \<not> no_address"
  "fst (CheckNetworkData j n d) = Some x \<Longrightarrow> m_MacAddress d \<noteq> []"
  by (auto simp: CheckNetworkData_def Let_def split: option.splits if_splits)

lemma changed_keeps:
  assumes "NetworkSettingsChanged w s = (b, t)"
  shows "postings t = postings s" "m_SyncRetries t = m_SyncRetries s"
    "m_ValidationFailed (m_syncNetData t) = m_ValidationFailed (m_syncNetData s)"
    "m_MacAddress (m_syncNetData t) = m_MacAddress (m_syncNetData s)" "b \<Longrightarrow> m_MacAddress (m_syncNetData s) \<noteq> []"
proof -
  obtain x d where q: "CheckNetworkData (junk_udi w) (host_net w) (m_syncNetData s) = (x, d)" by fastforce
  note keeps = check_keeps [of "junk_udi w" "host_net w" "m_syncNetData s", unfolded q fst_conv snd_conv]
  have t: "t = s\<lparr>m_syncNetData := d\<rparr>" "b = (\<exists>none. x = Some (True, none))"
    using assms keeps(3) by (auto simp: NetworkSettingsChanged_def q Let_def split: option.splits if_splits prod.splits)
  show "postings t = postings s" "m_SyncRetries t = m_SyncRetries s"
    "m_ValidationFailed (m_syncNetData t) = m_ValidationFailed (m_syncNetData s)"
    "m_MacAddress (m_syncNetData t) = m_MacAddress (m_syncNetData s)" "b \<Longrightarrow> m_MacAddress (m_syncNetData s) \<noteq> []"
    using keeps(1,2,4) by (auto simp: t)
qed

lemma ssip_ok_get:
  assumes "ssip_ok P s" "P w"
  shows "ssip_ok P (snd (GetSharedStaticIpState w s))"
  using assms
  by (auto simp: ssip_ok_def GetSharedStaticIpState_def UpdateMacAddress_def SharedStaticIpState_def posted_ids_def
      split: option.splits mei.splits)

lemma reset_keeps [simp]: "m_MacAddress (ResetSettings d) = []" "\<not> m_ValidationFailed (ResetSettings d)"
  by (simp_all add: ResetSettings_def)

lemma ok_keeps_validation:
  "SyncNetworkConfiguration w d = ((True, sent), d') \<Longrightarrow> \<not> m_ValidationFailed d \<Longrightarrow> \<not> m_ValidationFailed d'"
  by (auto simp: SyncNetworkConfiguration_def Let_def split: option.splits if_splits)

lemma ssip_ok_sync:
  assumes "ssip_ok P s" "m_MacAddress (m_syncNetData s) \<noteq> []"
  shows "ssip_ok P (snd (SyncSettings w s))"
proof (cases "m_SyncRetries s < MAX_SyncRetries")
  case True
  obtain ok sent d where q: "SyncNetworkConfiguration w (m_syncNetData s) = ((ok, sent), d)" by (metis prod.collapse)
  show ?thesis
  proof (cases ok)
    case True
    with q ok_keeps_validation [of w "m_syncNetData s" sent d] assms(1) \<open>m_SyncRetries s < MAX_SyncRetries\<close> show ?thesis
      by (auto simp: SyncSettings_def ssip_ok_def posted_ids_def)
  next
    case False
    with q assms \<open>m_SyncRetries s < MAX_SyncRetries\<close> show ?thesis
      by (auto simp: SyncSettings_def ssip_ok_def posted_ids_def)
  qed
next
  case False
  let ?t = "SyncFwUpdateFailed w s"
  have "posted_ids ?t = insert EVENT_IP_SYNC_FW_UPDATE_FAILED (posted_ids s)"
    by (simp add: posted_ids_def SyncFwUpdateFailed_def ssip_alert_def List.map_filter_def alert_of_def)
  moreover have "\<not> (m_SyncRetries s = 0 \<or> m_SyncRetries s = 1)" using False by (auto simp: MAX_SyncRetries_def)
  moreover have "EVENT_IP_SYNC_VALIDATION_FAILED \<noteq> EVENT_IP_SYNC_FW_UPDATE_FAILED" by (simp add: event_numbers)
  ultimately show ?thesis using False assms(1)
    by (auto simp: SyncSettings_def Let_def ssip_ok_def posted_ids_def)
qed

lemma ssip_ok_state:
  assumes "ssip_ok P s" "P w"
  shows "ssip_ok P (HandleState w st s)"
proof (cases "pfw_started w")
  case False
  then show ?thesis using assms(1) by (simp add: HandleState_def ssip_ok_def posted_ids_def)
next
  case True
  show ?thesis
  proof (cases st)
    case SSIP_GETSHAREDSTATICIPSTATE
    obtain e t where q: "GetSharedStaticIpState w s = (e, t)" by fastforce
    with ssip_ok_get [OF assms] have "ssip_ok P t" by simp
    then have "ssip_ok P (put_state x t)" "ssip_ok P (MoveToState w y i t)" for x y i
      by (auto intro: ssip_ok_same simp: posted_ids_def)
    then show ?thesis using True SSIP_GETSHAREDSTATICIPSTATE q by (simp add: HandleState_def split: option.split)
  next
    case SSIP_SHAREDSTATICIPSTATE_DISABLED
    then show ?thesis using True assms(1) by (auto simp: HandleState_def posted_ids_def intro: ssip_ok_same)
  next
    case SSIP_SHAREDSTATICIPSTATE_ENABLED
    obtain b t where q: "NetworkSettingsChanged w s = (b, t)" by fastforce
    note keeps = changed_keeps [OF q]
    have t: "ssip_ok P t" using assms(1) keeps(1-4) by (simp add: ssip_ok_def posted_ids_def)
    have moved: "ssip_ok P (MoveToState w y i u)" if "ssip_ok P u" for y i u
      using that by (auto intro: ssip_ok_same simp: posted_ids_def)
    show ?thesis
    proof (cases b)
      case b: True
      obtain i u where u: "SyncSettings w t = (i, u)" by fastforce
      have "m_MacAddress (m_syncNetData t) \<noteq> []" using keeps(4,5) b by simp
      from ssip_ok_sync [OF t this, of w] u have "ssip_ok P u" by simp
      then show ?thesis using True SSIP_SHAREDSTATICIPSTATE_ENABLED q b u moved by (simp add: HandleState_def split: option.split)
    next
      case False
      then show ?thesis using True SSIP_SHAREDSTATICIPSTATE_ENABLED q moved [OF t] by (simp add: HandleState_def)
    qed
  qed
qed

lemma other_messages:
  assumes "ssip_ok P s"
  shows "ssip_ok P (ssip_HandleAceMessage w (Ssip_ace m) s)"
proof -
  obtain ps where ps: "postings (ssip_HandleAceMessage w (Ssip_ace m) s) = postings s @ ps" "list_all (\<lambda>p. alert_of p = None) ps"
    "m_syncNetData (ssip_HandleAceMessage w (Ssip_ace m) s) = m_syncNetData s"
    "m_SyncRetries (ssip_HandleAceMessage w (Ssip_ace m) s) = m_SyncRetries s"
  proof -
    have "\<exists>ps. postings (ssip_HandleAceMessage w (Ssip_ace m) s) = postings s @ ps \<and> list_all (\<lambda>p. alert_of p = None) ps
      \<and> m_syncNetData (ssip_HandleAceMessage w (Ssip_ace m) s) = m_syncNetData s
      \<and> m_SyncRetries (ssip_HandleAceMessage w (Ssip_ace m) s) = m_SyncRetries s"
      by (cases m) (auto simp: ssip_HandleAceMessage_def EventHandler_HandleAceMessage_def closeSubService_def
          suspendSubService_def startSubService_def sub_sendStatusChanged_def ssip_handle_close_def put_posting_def
          alert_of_def ssip_handle_event_def ssip_handlePublishEvent_def put_state_def split: option.split)
    with that show ?thesis by blast
  qed
  from ssip_ok_same [OF assms posted_ids_more [OF ps(1,2)] ps(3,4)] show ?thesis .
qed

lemma ssip_step_ok:
  assumes "ssip_step P s t" "ssip_ok P s"
  shows "ssip_ok P t"
  using assms
proof (cases rule: ssip_step.cases)
  case (message_handled m ms w)
  have "ssip_ok P (s\<lparr>ssip_queue := ms\<rparr>)" by (rule ssip_ok_same [OF assms(2)]) (simp_all add: posted_ids_def)
  with message_handled show ?thesis
    by (cases m) (auto simp: other_messages ssip_HandleAceMessage_def [of _ "Ssip_state _"] intro: ssip_ok_state)
qed (auto intro!: ssip_ok_same [OF assms(2)] simp: posted_ids_def)

lemma ssip_reach_ok: "ssip_reach P s \<Longrightarrow> ssip_ok P s"
proof (induction rule: ssip_reach.induct)
  case (started options_ok sock_ok register_ok schedule_ok s)
  then show ?case
    by (auto simp: ssip_init_def EventHandler_init_def initSubService_def put_posting_def SharedStaticIPService_def Let_def
        ssip_ok_def posted_ids_def List.map_filter_simps alert_of_def split: if_splits)
next
  case (goes_on s t)
  then show ?case using ssip_step_ok by blast
qed

subsection \<open>Properties\<close>


text \<open>On this platform a failure to validate the settings is never reported: the result that would lead to it is
  withdrawn where an address is empty, and forgotten with the settings after each failed synchronisation. And as long as
  the engine answers whether the feature is on, nor is the failure to write them: the counter of attempts, which is to
  reach ten, never exceeds one.\<close>

theorem sync_failures_not_reported:
  assumes "ssip_reach possible s"
  shows "EVENT_IP_SYNC_VALIDATION_FAILED \<notin> posted_ids s
    \<and> ((\<exists>w. possible w \<and> eth_ports w = None) \<or> EVENT_IP_SYNC_FW_UPDATE_FAILED \<notin> posted_ids s \<and> m_SyncRetries s \<le> 1)"
  using ssip_reach_ok [OF assms] by (auto simp: ssip_ok_def)

theorem sync_failures_not_reported_witness:
  "\<exists>s. ssip_reach (\<lambda>w. eth_ports w \<noteq> None) s \<and> EVENT_IP_SYNC_VALIDATION_FAILED \<notin> posted_ids s
    \<and> ((\<exists>w. eth_ports w \<noteq> None \<and> eth_ports w = None)
        \<or> EVENT_IP_SYNC_FW_UPDATE_FAILED \<notin> posted_ids s \<and> m_SyncRetries s \<le> 1)"
proof -
  obtain s where s: "ssip_init True True True True SharedStaticIPService = (True, s)"
    by (simp add: ssip_init_def Let_def)
  then have "ssip_timer s = Some (SSIP_GETSHAREDSTATICIPSTATE, CheckDNSInterval)" by (auto simp: ssip_init_def Let_def)
  then have "ssip_step (\<lambda>w. eth_ports w \<noteq> None) s (put_state SSIP_GETSHAREDSTATICIPSTATE s)" by (rule timer_fires)
  then have "ssip_reach (\<lambda>w. eth_ports w \<noteq> None) (put_state SSIP_GETSHAREDSTATICIPSTATE s)" by (rule goes_on [OF started [OF s]])
  with sync_failures_not_reported [OF this] show ?thesis by blast
qed

text \<open>The timer fires, and its message is handled.\<close>

definition timer_round :: "ssip_world \<Rightarrow> static_ip \<Rightarrow> static_ip" where
  "timer_round w s = (case ssip_timer s of None \<Rightarrow> s | Some (st, _) \<Rightarrow> HandleState w st s)"

lemma idle_round:
  assumes "ssip_timer s = Some (SSIP_SHAREDSTATICIPSTATE_ENABLED, i)" "m_MacAddress (m_syncNetData s) = []"
    "pfw_started w" "schedule_works w"
  shows "timer_round w s = s\<lparr>ssip_timer := Some (SSIP_SHAREDSTATICIPSTATE_ENABLED, CheckDNSInterval)\<rparr>"
  using assms
  by (simp add: timer_round_def HandleState_def NetworkSettingsChanged_def CheckNetworkData_def MoveToState_def setTimer_def
      CheckDNSInterval_def)

lemma idle_rounds:
  assumes "list_all (\<lambda>w. pfw_started w \<and> schedule_works w) ws" "ws \<noteq> []"
    "ssip_timer s = Some (SSIP_SHAREDSTATICIPSTATE_ENABLED, i)" "m_MacAddress (m_syncNetData s) = []"
  shows "fold timer_round ws s = s\<lparr>ssip_timer := Some (SSIP_SHAREDSTATICIPSTATE_ENABLED, CheckDNSInterval)\<rparr>"
  using assms
proof (induction ws arbitrary: s i)
  case (Cons w ws)
  let ?t = "s\<lparr>ssip_timer := Some (SSIP_SHAREDSTATICIPSTATE_ENABLED, CheckDNSInterval)\<rparr>"
  have "timer_round w s = ?t" using Cons.prems by (intro idle_round) simp_all
  moreover have "ws \<noteq> [] \<Longrightarrow> fold timer_round ws ?t = ?t" using Cons.IH [of ?t CheckDNSInterval] Cons.prems by simp
  ultimately show ?case by (cases ws) simp_all
qed simp

text \<open>A synchronisation that fails is not tried again: the address of the interface is forgotten with the settings, so
  that from then on the timer, which was set to try again soon, finds nothing and sends nothing, however often it fires,
  although every part works again; only a change the kernel reports, or the return of the connection, helps.\<close>

theorem failed_sync_not_retried:
  assumes "pfw_started w" "schedule_works w" "ssip_timer s \<noteq> None" "NetworkSettingsChanged w s = (True, s1)"
    "m_SyncRetries s < MAX_SyncRetries" "\<not> fst (fst (SyncNetworkConfiguration w (m_syncNetData s1)))"
    "list_all (\<lambda>w. pfw_started w \<and> schedule_works w) ws" "ws \<noteq> []"
  shows "fold timer_round ws (HandleState w SSIP_SHAREDSTATICIPSTATE_ENABLED s)
      = (HandleState w SSIP_SHAREDSTATICIPSTATE_ENABLED s)
          \<lparr>ssip_timer := Some (SSIP_SHAREDSTATICIPSTATE_ENABLED, CheckDNSInterval)\<rparr>
    \<and> ssip_timer (HandleState w SSIP_SHAREDSTATICIPSTATE_ENABLED s) = Some (SSIP_SHAREDSTATICIPSTATE_ENABLED, RetryInterval)
    \<and> m_SyncRetries (HandleState w SSIP_SHAREDSTATICIPSTATE_ENABLED s) = m_SyncRetries s + 1"
proof -
  obtain sent d where q: "SyncNetworkConfiguration w (m_syncNetData s1) = ((False, sent), d)"
    using assms(6) by (metis prod.collapse)
  have s1: "m_SyncRetries s1 = m_SyncRetries s" using changed_keeps(2) [OF assms(4)] .
  have timer: "ssip_timer s1 = ssip_timer s" using assms(4)
    by (auto simp: NetworkSettingsChanged_def Let_def split: prod.splits option.splits if_splits)
  obtain x where x: "ssip_timer s = Some x" using assms(3) by auto
  let ?t = "HandleState w SSIP_SHAREDSTATICIPSTATE_ENABLED s"
  have t: "?t = (snd (SyncSettings w s1))\<lparr>ssip_timer := Some (SSIP_SHAREDSTATICIPSTATE_ENABLED, RetryInterval)\<rparr>"
    using assms(1,2,4,5) q s1 timer x
    by (simp add: HandleState_def SyncSettings_def MoveToState_def setTimer_def RetryInterval_def)
  have "m_MacAddress (m_syncNetData ?t) = []" "m_SyncRetries ?t = m_SyncRetries s + 1"
    using assms(5) q s1 by (simp_all add: t SyncSettings_def)
  with idle_rounds [OF assms(7,8), of ?t RetryInterval] t show ?thesis by simp
qed

text \<open>A world in which the feature is on and the engine does not answer, and a service that knows its interface.\<close>

definition mute_engine :: ssip_world where
  "mute_engine = \<lparr>pfw_started = True, eth_ports = Some [Some True],
     lan_driver = \<lparr>TEE_IS_SUCCESS = \<lambda>r. r = 0, TEE_CLIENT_NOT_FOUND = 1, TEE_INTERNAL_ERROR = 2, TeeInit = \<lambda>_. 1,
       TeeConnect = \<lambda>_. 1, maxMsgLen = 4096, TeeWrite = \<lambda>_. (1, 0), TeeRead = \<lambda>_. (1, [])\<rparr>,
     host_net = \<lparr>nl_connected = True, nl_links = Some [\<lparr>l_address = Some (str ''00:11:22:33:44:55''), l_index = 2, l_running = True\<rparr>],
       nl_addresses = Some [\<lparr>a_index = 2, a_inet = True, a_local = Some (str ''10.0.0.7''), a_prefixlen = 24,
         a_permanent = True, a_secondary = False\<rparr>], nl_routes = Some [\<lparr>r_hop = Some (2, Some (str ''10.0.0.1''))\<rparr>],
       nl_servers = []\<rparr>, junk_udi = 0, engine_ip = None,
     host_link = \<lparr>nl_connected = False, nl_links = None, nl_addresses = None, nl_routes = None, nl_servers = []\<rparr>,
     engine_ip_again = None, put_works = True, schedule_works = True, ssip_date = []\<rparr>"

definition knowing_interface :: static_ip where
  "knowing_interface = SharedStaticIPService\<lparr>ssip_timer := Some (SSIP_GETSHAREDSTATICIPSTATE, CheckDNSInterval),
     m_syncNetData := (m_syncNetData SharedStaticIPService)\<lparr>m_MacAddress := MacAddressToString [0, 17, 34, 51, 68, 85]\<rparr>\<rparr>"

theorem failed_sync_not_retried_witness:
  "fold timer_round [mute_engine, mute_engine] (HandleState mute_engine SSIP_SHAREDSTATICIPSTATE_ENABLED knowing_interface)
      = (HandleState mute_engine SSIP_SHAREDSTATICIPSTATE_ENABLED knowing_interface)
          \<lparr>ssip_timer := Some (SSIP_SHAREDSTATICIPSTATE_ENABLED, CheckDNSInterval)\<rparr>
    \<and> ssip_timer (HandleState mute_engine SSIP_SHAREDSTATICIPSTATE_ENABLED knowing_interface)
      = Some (SSIP_SHAREDSTATICIPSTATE_ENABLED, RetryInterval)
    \<and> m_SyncRetries (HandleState mute_engine SSIP_SHAREDSTATICIPSTATE_ENABLED knowing_interface)
      = m_SyncRetries knowing_interface + 1"
proof (rule failed_sync_not_retried)
  have mac: "MacAddressToString [0, 17, 34, 51, 68, 85] = str ''00:11:22:33:44:55''"
    by (simp add: MacAddressToString_def hex_byte_def hex_digit_def str_def)
  have "fst (NetworkSettingsChanged mute_engine knowing_interface)"
    by (simp add: NetworkSettingsChanged_def CheckNetworkData_def getNetParam_def interface_index_def mute_engine_def
        knowing_interface_def SharedStaticIPService_def mac text_or_none_def Let_def List.map_filter_simps gateway_of_def
        emptyAddress_def str_def)
  then show "NetworkSettingsChanged mute_engine knowing_interface = (True, snd (NetworkSettingsChanged mute_engine knowing_interface))"
    by (simp add: prod_eq_iff)
qed (simp_all add: mute_engine_def knowing_interface_def SharedStaticIPService_def MAX_SyncRetries_def
    SyncNetworkConfiguration_def engine_settings_def GetNetworkData_def)

definition no_capitals :: "bytes \<Rightarrow> bool" where
  "no_capitals t \<longleftrightarrow> list_all (\<lambda>b. \<not> (65 \<le> b \<and> b \<le> 90)) t"

lemma hex_bytes_all: "b \<in> set bs \<Longrightarrow> set (hex_byte b) \<subseteq> set (hex_bytes bs)"
  by (induction bs rule: hex_bytes.induct) auto

lemma capital_digit:
  assumes "10 \<le> k" "k < 16" shows "65 \<le> hex_digit k" "hex_digit k \<le> 90"
proof -
  have "hex_digit k = of_nat (55 + k)" using assms(1) unfolding hex_digit_def by simp
  moreover have "unat (of_nat (55 + k) :: u8) = 55 + k" using assms(2) by (subst unat_of_nat) simp
  ultimately have "unat (hex_digit k) = 55 + k" by (simp only:)
  with assms show "65 \<le> hex_digit k" "hex_digit k \<le> 90" by (simp_all add: word_le_nat_alt)
qed

text \<open>The address of the interface is written with capital hexadecimal digits. Where the kernel's library writes no
  capitals, an address with a digit above 9 is found at no interface, and the index is what the uninitialised variable
  held: if that is not negative, the settings of whatever interface has that number are taken for those of the wired
  one.\<close>

theorem wired_interface_not_found:
  assumes "length mac = 6" "b \<in> set mac" "10 \<le> unat b div 16 \<or> 10 \<le> unat b mod 16"
    and "nl_links n = Some links" "list_all (\<lambda>l. no_capitals (text_or_none (l_address l))) links"
  shows "interface_index junk (MacAddressToString mac) links = junk
    \<and> (case getNetParam junk (MacAddressToString mac) n of None \<Rightarrow> True | Some p \<Rightarrow> p_udi p = junk \<and> 0 \<le> junk)"
proof -
  have "unat b < 256" using unsigned_less [of b] by simp
  then have "unat b div 16 < 16" "unat b mod 16 < 16" by (simp_all add: less_mult_imp_div_less)
  with assms(3) capital_digit have "\<exists>x\<in>set (hex_byte b). 65 \<le> x \<and> x \<le> 90" by (auto simp: hex_byte_def)
  with hex_bytes_all [OF assms(2)] assms(1) have "\<not> no_capitals (MacAddressToString mac)"
    by (auto simp: no_capitals_def list_all_iff MacAddressToString_def)
  with assms(5) have "List.find (\<lambda>l. text_or_none (l_address l) = MacAddressToString mac) links = None"
    by (auto simp: find_None_iff list_all_iff)
  then have "interface_index junk (MacAddressToString mac) links = junk" by (simp add: interface_index_def)
  moreover from this assms(4)
  have "case getNetParam junk (MacAddressToString mac) n of None \<Rightarrow> True | Some p \<Rightarrow> p_udi p = junk \<and> 0 \<le> junk"
    by (auto simp: getNetParam_def Let_def split: option.splits)
  ultimately show ?thesis by blast
qed

theorem wired_interface_not_found_witness:
  "interface_index 1 (MacAddressToString [0, 26, 34, 51, 68, 85])
      [\<lparr>l_address = Some (str ''00:1a:22:33:44:55''), l_index = 2, l_running = True\<rparr>] = 1
    \<and> (case getNetParam 1 (MacAddressToString [0, 26, 34, 51, 68, 85])
          \<lparr>nl_connected = True, nl_links = Some [\<lparr>l_address = Some (str ''00:1a:22:33:44:55''), l_index = 2, l_running = True\<rparr>],
           nl_addresses = Some [\<lparr>a_index = 1, a_inet = True, a_local = Some (str ''127.0.0.1''), a_prefixlen = 8,
             a_permanent = True, a_secondary = False\<rparr>], nl_routes = Some [], nl_servers = []\<rparr> of
        None \<Rightarrow> True | Some p \<Rightarrow> p_udi p = 1 \<and> (0::int) \<le> 1)"
  by (rule wired_interface_not_found [where b = 26]) (simp_all add: no_capitals_def text_or_none_def str_def)





end
