(* ===== verification/Audit_Cursor.thy ===== *)
theory Audit_Cursor
  imports Apf "HOL-Library.State_Monad"
begin

text \<open>
  What the functions of \<^verbatim>\<open>src/WsmanClient/AuditLogWSManClient.cpp\<close> share that print the extended
  data of a record of the access monitor: the data, allocated with exactly
  \<^verbatim>\<open>extendedDataLen\<close> bytes, the index \<^verbatim>\<open>i\<close> into it, the numbers they print, and the loops that
  occur again and again.

  A function is a computation of the state monad over a cursor: the index \<^verbatim>\<open>i\<close>, and the end of
  the bytes that have been read so far. The memory is a function that has bytes behind the data as
  well, so that an access outside is not stuck but shows in the cursor, and what depends on it
  can be told. A pointer is an offset into the memory.
\<close>

record ext_data =
  ed_mem :: "nat \<Rightarrow> u8"
  ed_org :: nat
  ed_len :: nat

record cursor =
  cu_pos :: nat
  cu_reach :: nat

type_synonym 'a display = "(cursor, 'a) state"

abbreviation give :: "'a \<Rightarrow> 'a display" where
  "give \<equiv> State_Monad.return"

definition the_index :: "nat display" where
  "the_index = State (\<lambda>c. (cu_pos c, c))"

definition set_index :: "nat \<Rightarrow> unit display" where
  "set_index i = State (\<lambda>c. ((), c\<lparr>cu_pos := i\<rparr>))"

definition advance :: "nat \<Rightarrow> unit display" where
  "advance n = State (\<lambda>c. ((), c\<lparr>cu_pos := cu_pos c + n\<rparr>))"

text \<open>The test \<^verbatim>\<open>(i+n) <= extendedDataLen\<close>; with one byte it is \<^verbatim>\<open>i < extendedDataLen\<close>.\<close>

definition left_over :: "ext_data \<Rightarrow> nat \<Rightarrow> bool display" where
  "left_over d n = State (\<lambda>c. (cu_pos c + n \<le> ed_len d, c))"

definition peek :: "ext_data \<Rightarrow> nat \<Rightarrow> u8 display" where
  "peek d k = State (\<lambda>c. (ed_mem d (ed_org d + k),
     c\<lparr>cu_reach := max (cu_reach c) (ed_org d + k + 1)\<rparr>))"

definition byte_here :: "ext_data \<Rightarrow> u8 display" where
  "byte_here d = do { i \<leftarrow> the_index; peek d i }"

definition next_byte :: "ext_data \<Rightarrow> u8 display" where
  "next_byte d = do { x \<leftarrow> byte_here d; advance 1; give x }"

definition if_left :: "ext_data \<Rightarrow> nat \<Rightarrow> 'a \<Rightarrow> 'a display \<Rightarrow> 'a display" where
  "if_left d n v m = do { b \<leftarrow> left_over d n; if b then m else give v }"

abbreviation text_if :: "ext_data \<Rightarrow> nat \<Rightarrow> string display \<Rightarrow> string display" where
  "text_if d n \<equiv> if_left d n ''''"

definition locally :: "'a display \<Rightarrow> 'a display" where
  "locally m = do { i \<leftarrow> the_index; set_index 0; x \<leftarrow> m; set_index i; give x }"

text \<open>The pointer \<^verbatim>\<open>extData+i\<close> with the length \<^verbatim>\<open>extendedDataLen-i\<close>.\<close>

definition data_from :: "ext_data \<Rightarrow> nat \<Rightarrow> ext_data" where
  "data_from d i = d\<lparr>ed_org := ed_org d + i, ed_len := ed_len d - i\<rparr>"

primrec peeks :: "ext_data \<Rightarrow> nat \<Rightarrow> nat \<Rightarrow> bytes display" where
  "peeks d i 0 = give []"
| "peeks d i (Suc n) = do { x \<leftarrow> peek d i; xs \<leftarrow> peeks d (Suc i) n; give (x # xs) }"

text \<open>\<^verbatim>\<open>ReverseMemCopy\<close> turns the order of the bytes; the machine then reads the number with its
  low byte first.\<close>

definition ReverseMemCopy :: "bytes \<Rightarrow> bytes" where
  "ReverseMemCopy xs = rev xs"

definition host_number :: "bytes \<Rightarrow> nat" where
  "host_number xs = foldr (\<lambda>b v. unat b + 256 * v) xs 0"

definition number_at :: "ext_data \<Rightarrow> nat \<Rightarrow> nat \<Rightarrow> nat display" where
  "number_at d i n = do { xs \<leftarrow> peeks d i n; give (host_number (ReverseMemCopy xs)) }"

definition number_here :: "ext_data \<Rightarrow> nat \<Rightarrow> nat display" where
  "number_here d n = do { i \<leftarrow> the_index; number_at d i n }"

section \<open>Numbers and characters in a stream\<close>

definition digit_char :: "nat \<Rightarrow> char" where
  "digit_char k = ''0123456789ABCDEF'' ! k"

fun dec_str :: "nat \<Rightarrow> string" where
  "dec_str n = (if n < 10 then [digit_char n] else dec_str (n div 10) @ [digit_char (n mod 10)])"

declare dec_str.simps [simp del]

definition dec_byte :: "u8 \<Rightarrow> string" where
  "dec_byte b = dec_str (unat b)"

text \<open>With \<^verbatim>\<open>std::hex << std::uppercase\<close>: no leading zero.\<close>

definition hex_str :: "u8 \<Rightarrow> string" where
  "hex_str b = (if unat b < 16 then [digit_char (unat b)]
     else [digit_char (unat b div 16), digit_char (unat b mod 16)])"

text \<open>With \<^verbatim>\<open>std::setw(2) << std::setfill('0')\<close> in addition.\<close>

definition hex_two :: "u8 \<Rightarrow> string" where
  "hex_two b = [digit_char (unat b div 16), digit_char (unat b mod 16)]"

definition byte_char :: "u8 \<Rightarrow> char" where
  "byte_char b = char_of (unat b)"

section \<open>Loops over the data\<close>

text \<open>\<^verbatim>\<open>for (j=0; j<n && i<extendedDataLen; j++) { ss << ...extData[i]...; i++; }\<close>\<close>

primrec byte_run :: "ext_data \<Rightarrow> (u8 \<Rightarrow> string) \<Rightarrow> nat \<Rightarrow> string display" where
  "byte_run d show_it 0 = give ''''"
| "byte_run d show_it (Suc n) = text_if d 1 (do {
     x \<leftarrow> next_byte d;
     s \<leftarrow> byte_run d show_it n;
     give (show_it x @ s) })"

text \<open>\<^verbatim>\<open>for (j=0; (extData[i]!=0) && (j<n) && (i<extendedDataLen); j++) { ss << (char)extData[i]; i++; }\<close>:
  the byte is read before the index is compared.\<close>

primrec name_run :: "ext_data \<Rightarrow> nat \<Rightarrow> string display" where
  "name_run d 0 = do { x \<leftarrow> byte_here d; give '''' }"
| "name_run d (Suc n) = do {
     x \<leftarrow> byte_here d;
     if x = 0 then give ''''
     else text_if d 1 (do { advance 1; s \<leftarrow> name_run d n; give (byte_char x # s) }) }"

primrec skip_run :: "ext_data \<Rightarrow> nat \<Rightarrow> unit display" where
  "skip_run d 0 = give ()"
| "skip_run d (Suc n) = if_left d 1 () (do { advance 1; skip_run d n })"

primrec skip_times :: "ext_data \<Rightarrow> nat \<Rightarrow> nat \<Rightarrow> unit display" where
  "skip_times d n 0 = give ()"
| "skip_times d n (Suc k) = do { skip_run d n; skip_times d n k }"

section \<open>Numbers with a title\<close>

definition PrintUint32 :: "ext_data \<Rightarrow> string \<Rightarrow> string display" where
  "PrintUint32 d message = text_if d 4 (do {
     v \<leftarrow> number_here d 4;
     advance 4;
     give (message @ '': '' @ dec_str v @ '' '') })"

definition PrintUint16 :: "ext_data \<Rightarrow> string \<Rightarrow> string display" where
  "PrintUint16 d message = text_if d 2 (do {
     v \<leftarrow> number_here d 2;
     advance 2;
     give (message @ '': '' @ dec_str v @ '' '') })"

definition PrintInterfaceHandleUint32 :: "ext_data \<Rightarrow> string display" where
  "PrintInterfaceHandleUint32 d = text_if d 4 (do {
     v \<leftarrow> number_here d 4;
     advance 4;
     give (if v = 0 then ''LAN'' else if v = 1 then ''WLAN'' else ''Unknown'') })"

section \<open>The time\<close>

text \<open>
  The time of a record (\<^verbatim>\<open>formatTime\<close> and \<^verbatim>\<open>DisplayTimeStamp\<close> of
  \<^verbatim>\<open>src/WsmanClient/AuditLogWSManClient.cpp\<close>): the seconds since the beginning of 1970, as a date
  of the Gregorian calendar (\<^verbatim>\<open>gmtime\<close> of the C library) and in print. \<^verbatim>\<open>gmtime\<close> fails for no
  number of 32 bits.
\<close>

definition leap_year :: "nat \<Rightarrow> bool" where
  "leap_year y \<longleftrightarrow> (4 dvd y \<and> \<not> 100 dvd y) \<or> 400 dvd y"

definition year_days :: "nat \<Rightarrow> nat" where
  "year_days y = (if leap_year y then 366 else 365)"

definition month_days :: "nat \<Rightarrow> nat list" where
  "month_days y = [31, if leap_year y then 29 else 28, 31, 30, 31, 30, 31, 31, 30, 31, 30, 31]"

function year_of :: "nat \<Rightarrow> nat \<Rightarrow> nat \<times> nat" where
  "year_of y n = (if n < year_days y then (y, n) else year_of (y + 1) (n - year_days y))"
  by pat_completeness auto
termination
  by (relation "measure snd") (auto simp: year_days_def split: if_splits)

declare year_of.simps [simp del]

fun month_of :: "nat list \<Rightarrow> nat \<Rightarrow> nat \<times> nat" where
  "month_of [] n = (0, n)"
| "month_of (m # ms) n = (if n < m then (0, n)
     else let r = month_of ms (n - m) in (fst r + 1, snd r))"

record tm =
  tm_year :: nat
  tm_mon :: nat
  tm_mday :: nat
  tm_hour :: nat
  tm_min :: nat
  tm_sec :: nat

text \<open>The fields as printed: \<^verbatim>\<open>tm_mon+1\<close>, \<^verbatim>\<open>tm_year+1900\<close>.\<close>

definition gmtime :: "nat \<Rightarrow> tm" where
  "gmtime t = (let (y, n) = year_of 1970 (t div 86400);
      (m, k) = month_of (month_days y) n; s = t mod 86400 in
     \<lparr>tm_year = y, tm_mon = m + 1, tm_mday = k + 1,
      tm_hour = s div 3600, tm_min = s div 60 mod 60, tm_sec = s mod 60\<rparr>)"

text \<open>\<^verbatim>\<open>std::setw(2)\<close> with the fill \<^verbatim>\<open>'0'\<close>.\<close>

definition two_digits :: "nat \<Rightarrow> string" where
  "two_digits n = (if n < 10 then ''0'' @ dec_str n else dec_str n)"

definition print_tm :: "tm \<Rightarrow> string" where
  "print_tm g = dec_str (tm_mon g) @ ''/'' @ dec_str (tm_mday g) @ ''/'' @ dec_str (tm_year g) @ '' ''
     @ two_digits (tm_hour g) @ '':'' @ two_digits (tm_min g) @ '':'' @ two_digits (tm_sec g)"

definition formatTime :: "nat \<Rightarrow> string" where
  "formatTime t = print_tm (gmtime t)"

definition DisplayTimeStamp :: "ext_data \<Rightarrow> string display" where
  "DisplayTimeStamp d = do { v \<leftarrow> number_at d 0 4; give (formatTime v) }"

definition DisplayNetworkTimeTimeSetEvent :: "ext_data \<Rightarrow> string display" where
  "DisplayNetworkTimeTimeSetEvent d = (if ed_len d \<ge> 4 then do {
       s \<leftarrow> DisplayTimeStamp d;
       give (''Intel(R) AMT Time: '' @ s) }
     else give '''')"

end
