(* ===== verification/Audit_Events.thy ===== *)
theory Audit_Events
  imports Audit_Cursor
begin

section \<open>Security, remote control and firmware\<close>

text \<open>
  The texts for the events of the security administration, of the remote control, of the
  firmware update and of the audit log itself
  (\<^verbatim>\<open>Display...\<close> of \<^verbatim>\<open>src/WsmanClient/AuditLogWSManClient.cpp\<close>).
  The numbers are those of the enumerations of \<^verbatim>\<open>AuditLogWSManClient.h\<close>.
\<close>

subsection \<open>Provisioning completed\<close>

definition provisioning_method :: "u8 \<Rightarrow> string" where
  "provisioning_method x = (if x = 1 then ''PSK. '' else if x = 2 then ''PKI. ''
     else if x = 3 then ''Manual. '' else if x = 5 then ''ACM. '' else if x = 6 then ''DAL. ''
     else ''Unknown. ('' @ dec_byte x @ '')'')"

definition trusted_root_hash_len :: "u8 \<Rightarrow> nat" where
  "trusted_root_hash_len h = (if h = 1 then 20 else if h = 2 then 32 else if h = 3 then 48
     else if h = 4 then 64 else 0)"

definition DisplaySecurityAdminAmtProvisioningCompletedEvent :: "ext_data \<Rightarrow> string display" where
  "DisplaySecurityAdminAmtProvisioningCompletedEvent d = do {
     (how, s1) \<leftarrow> if_left d 1 (0, '''') (do {
        x \<leftarrow> next_byte d;
        give (x, ''Provisioning Method: '' @ provisioning_method x) });
     hash \<leftarrow> if_left d 1 0 (if how = 2 then next_byte d else give 0);
     if_left d 1 () (if how = 2 then skip_run d (trusted_root_hash_len hash) else give ());
     certs \<leftarrow> if_left d 1 0 (if how = 2 then next_byte d else give 0);
     if_left d 1 () (if how = 2 then skip_times d 16 (unat certs) else give ());
     if_left d 1 () (if how = 2 then advance 1 else give ());
     n \<leftarrow> if_left d 1 0 (if how = 2 then next_byte d else give 0);
     s2 \<leftarrow> text_if d 1 (if how = 2 then do {
           s \<leftarrow> name_run d (unat n);
           give (''Provisioning Server FQDN: '' @ s @ ''. '') }
        else give '''');
     give (s1 @ s2) }"

subsection \<open>Users\<close>

definition DisplayBasicUsernameSidInformation :: "ext_data \<Rightarrow> string \<Rightarrow> string display" where
  "DisplayBasicUsernameSidInformation d action = do {
     kind \<leftarrow> if_left d 1 0 (next_byte d);
     (n, s1) \<leftarrow> if_left d 1 (0, '''') (do {
        r \<leftarrow> (if kind = 0 then do { x \<leftarrow> byte_here d; give (x, '''') }
              else if kind = 1 then do {
                 sid \<leftarrow> byte_run d (\<lambda>b. '' '' @ hex_str b) 4;
                 x \<leftarrow> if_left d 1 0 (byte_here d);
                 give (x, ''SID:'' @ sid @ ''. '') }
              else give (0, ''''));
        advance 1;
        give r });
     s2 \<leftarrow> text_if d 1
       (if kind = 0 then do {
           s \<leftarrow> name_run d (unat n);
           give (''Username: '' @ s @ ''. '') }
        else if kind = 1 then do {
           s \<leftarrow> byte_run d (\<lambda>b. '' '' @ hex_str b) (unat n);
           give (''Domain:'' @ s @ ''. '') }
        else give '''');
     give (action @ ''user: '' @ s1 @ s2) }"

definition DisplaySecurityAdminAclEntryAddedEvent :: "ext_data \<Rightarrow> string display" where
  "DisplaySecurityAdminAclEntryAddedEvent d =
     locally (DisplayBasicUsernameSidInformation d ''Added '')"

definition true_false :: "bool \<Rightarrow> string" where
  "true_false b = (if b then ''true'' else ''false'')"

definition modified_fields :: "u8 \<Rightarrow> string" where
  "modified_fields x = ''Modified fields:''
     @ '' Username='' @ true_false (x AND 1 \<noteq> 0)
     @ '', Password='' @ true_false (x AND 2 \<noteq> 0)
     @ '', Local realms='' @ true_false (x AND 4 \<noteq> 0)
     @ '', Remote realms='' @ true_false (x AND 8 \<noteq> 0)
     @ '', Kerberos domain='' @ true_false (x AND 16 \<noteq> 0)
     @ '', SID='' @ true_false (x AND 32 \<noteq> 0)"

definition DisplaySecurityAdminAclEntryModifiedEvent :: "ext_data \<Rightarrow> string display" where
  "DisplaySecurityAdminAclEntryModifiedEvent d = do {
     temp \<leftarrow> text_if d 1 (do { x \<leftarrow> next_byte d; give (modified_fields x) });
     s \<leftarrow> text_if d 1 (do {
        i \<leftarrow> the_index;
        locally (DisplayBasicUsernameSidInformation (data_from d i) ''Modified '') });
     give (s @ temp) }"

definition DisplaySecurityAdminAclEntryRemovedEvent :: "ext_data \<Rightarrow> string display" where
  "DisplaySecurityAdminAclEntryRemovedEvent d =
     locally (DisplayBasicUsernameSidInformation d ''Removed '')"

definition DisplaySecurityAdminAclAccessWithInvalidCredentialsEvent :: "ext_data \<Rightarrow> string display" where
  "DisplaySecurityAdminAclAccessWithInvalidCredentialsEvent d =
     (if ed_len d > 0 then do {
        x \<leftarrow> peek d 0;
        give (''Invalid access from: '' @ (if x = 0 then ''Intel(R) AMT''
           else if x = 1 then ''Intel(R) MEBx'' else ''Unknown'')) }
      else give '''')"

definition DisplaySecurityAdminAclEntryEnabledEvent :: "ext_data \<Rightarrow> string display" where
  "DisplaySecurityAdminAclEntryEnabledEvent d = do {
     s1 \<leftarrow> text_if d 1 (do {
        x \<leftarrow> next_byte d;
        give ((if x \<noteq> 0 then ''Enabled'' else ''Disabled'') @ '' '') });
     s2 \<leftarrow> text_if d 1 (do {
        i \<leftarrow> the_index;
        locally (DisplayBasicUsernameSidInformation (data_from d i) '''') });
     give (s1 @ s2) }"

subsection \<open>Authentication, certificates and power\<close>

definition DisplayAuthenticationMode :: "u8 \<Rightarrow> string" where
  "DisplayAuthenticationMode status = (if status = 0 then ''No authentication''
     else if status = 1 then ''Authentication'' else if status = 2 then ''Disable'' else '''')"

definition DisplayAuthenticationStatus :: "u8 \<Rightarrow> string" where
  "DisplayAuthenticationStatus status = (if status = 0 then ''No authentication''
     else if status = 1 then ''Server Authentication''
     else if status = 2 then ''Mutual Authentication'' else '''')"

definition DisplaySecurityAdminTlsStateChangedEvent :: "ext_data \<Rightarrow> string display" where
  "DisplaySecurityAdminTlsStateChangedEvent d = do {
     s1 \<leftarrow> text_if d 1 (do {
        x \<leftarrow> next_byte d;
        give (''Remote TLS State: '' @ DisplayAuthenticationStatus x) });
     s2 \<leftarrow> text_if d 1 (do {
        x \<leftarrow> next_byte d;
        give ('', Local TLS State: '' @ DisplayAuthenticationStatus x) });
     give (s1 @ s2) }"

definition DisplaySecurityAdminTlsCertificateRelatedEvent :: "ext_data \<Rightarrow> string display" where
  "DisplaySecurityAdminTlsCertificateRelatedEvent d = text_if d 1 (do {
     s \<leftarrow> byte_run d (\<lambda>b. hex_str b @ '' '') 20;
     give (''Certificate Serial Number: '' @ s) })"

definition DisplaySecurityAdminKerberosSettingsModifiedEvent :: "ext_data \<Rightarrow> string display" where
  "DisplaySecurityAdminKerberosSettingsModifiedEvent d =
     (if ed_len d > 0 then do {
        x \<leftarrow> peek d 0;
        give (''Time Tolerance: '' @ dec_byte x @ '' minute(s)'') }
      else give '''')"

definition powerPolicyFW :: "string list" where
  "powerPolicyFW = [''763997110B56504388709812F391B560'', ''26D31C768708C74BBB5F38744315A5FF'',
     ''530E08DB6C0FD948B2D28958D3F1156E'', ''055DD5B64CA4874DA5A8B47C14DEDA5F'',
     ''30800DEE09C07843AF287868A2DBBE3A'', ''944F8312FB104FDC968E1E232B0C9065'',
     ''A18600AB9A7F4C42A6E6BB243A295D9E'', ''7286ABAC96B448E29B9E9B7DF91C7FD4'',
     ''7B32CD4D6BBE4389A62A4D7BD8DBD026'', ''7322734623DC432FA98A13D37982D855'',
     ''C519A4BA6E6F8D4DB227517F7E4595DB'', ''D60BE3ED04C52C46B772D18018EE2FC4'']"

definition powerPolicyStrings :: "string list" where
  "powerPolicyStrings = [''Mobile: ON in S0'', ''Mobile: ON in S0, S3/AC'',
     ''Mobile: ON in S0, S3/AC, S4-5/AC'', ''Mobile: ON in S0, ME Wake in S3/AC'',
     ''Mobile: ON in S0, ME Wake in S3/AC, S4-5/AC'', ''Desktop: ON in S0'',
     ''Desktop: ON in S0, S3'', ''Desktop: ON in S0, S3, S4-5'',
     ''Desktop: ON in S0, ME Wake in S3'', ''Desktop: ON in S0, ME Wake in S3, S4-5'',
     ''Desktop: ON in S0, S3, S4-5, OFF After Power Loss'',
     ''Desktop: ON in S0, ME Wake in S3, S4-5, OFF After Power Loss'']"

fun policy_of :: "string \<Rightarrow> (string \<times> string) list \<Rightarrow> string" where
  "policy_of s [] = ''Unknown''"
| "policy_of s ((fw, name) # ps) = (if s = fw then name else policy_of s ps)"

definition DisplaySecurityAdminPowerPackageModifiedEvent :: "ext_data \<Rightarrow> string display" where
  "DisplaySecurityAdminPowerPackageModifiedEvent d = do {
     s \<leftarrow> byte_run d hex_two 16;
     give (''Power Package Modified to: '' @ policy_of s (zip powerPolicyFW powerPolicyStrings)) }"

definition realmsStrings :: "string list" where
  "realmsStrings = [''InvalidRealm'', ''ReservedRealm'', ''RedirectionRealm'',
     ''PTAdministrationRealm'', ''HardwareAssetRealm'', ''RemoteControlRealm'', ''StorageRealm'',
     ''EventManagerRealm'', ''StorageAdminRealm'', ''AgentPresenceLocalRealm'',
     ''AgentPresenceRemoteRealm'', ''SystemDefenseRealm'', ''NetworkTimeRealm'',
     ''GeneralInfoRealm'', ''FirmwareUpdateRealm'', ''EITRealm'', ''LocalUN'',
     ''EndpointAccessControlRealm'', ''EndpointAccessControlAdminRealm'',
     ''EventLogReaderRealm'', ''SecurityAuditLogRealm'', ''UserAccessControlRealm'', ''WoxRealm'']"

definition MAX_REALM :: nat where
  "MAX_REALM = 22"

definition DisplaySecurityAdminSetRealmAuthenticationModeEvent :: "ext_data \<Rightarrow> string display" where
  "DisplaySecurityAdminSetRealmAuthenticationModeEvent d = do {
     s1 \<leftarrow> text_if d 1 (text_if d 4 (do {
        v \<leftarrow> number_here d 4;
        advance 4;
        give (if v > MAX_REALM then ''UnknownRealm'' else realmsStrings ! v) }));
     s2 \<leftarrow> text_if d 1 (do {
        x \<leftarrow> next_byte d;
        give ('', Authentication mode: '' @ DisplayAuthenticationMode x) });
     give (s1 @ s2) }"

definition DisplaySecurityAdminUnprovisioningCompleted :: "ext_data \<Rightarrow> string display" where
  "DisplaySecurityAdminUnprovisioningCompleted d =
     (if ed_len d = 1 then do {
        x \<leftarrow> peek d 0;
        give (if x = 1 then ''BIOS'' else if x = 2 then ''MEBx'' else if x = 3 then ''Local MEI''
          else if x = 4 then ''Local WSMAN/SOAP'' else if x = 5 then ''Remote WSMAN/SOAP''
          else '''') }
      else give '''')"

subsection \<open>Remote control, firmware update, audit log\<close>

definition DisplayRemoteControlBootOptionsRelatedEvent :: "ext_data \<Rightarrow> string display" where
  "DisplayRemoteControlBootOptionsRelatedEvent d = text_if d 1 (do {
     s \<leftarrow> byte_run d (\<lambda>b. hex_str b @ '' '') 7;
     give (''Boot Options: '' @ s) })"

definition DisplayFirmwareVerion :: "ext_data \<Rightarrow> nat \<Rightarrow> string display" where
  "DisplayFirmwareVerion d i = do {
     a \<leftarrow> number_at d i 2;
     b \<leftarrow> number_at d (i + 2) 2;
     c \<leftarrow> number_at d (i + 4) 2;
     e \<leftarrow> number_at d (i + 6) 2;
     give (dec_str a @ ''.'' @ dec_str b @ ''.'' @ dec_str c @ ''.'' @ dec_str e @ ''.'') }"

definition DisplayFirmwareUpdatedEvent :: "ext_data \<Rightarrow> string display" where
  "DisplayFirmwareUpdatedEvent d = do {
     s1 \<leftarrow> text_if d 1 (do {
        s \<leftarrow> text_if d 8 (do {
           i \<leftarrow> the_index; v \<leftarrow> DisplayFirmwareVerion d i; advance 8; give v });
        give (''Old FW Version: '' @ s) });
     s2 \<leftarrow> text_if d 1 (do {
        s \<leftarrow> text_if d 8 (do {
           i \<leftarrow> the_index; v \<leftarrow> DisplayFirmwareVerion d i; advance 8; give v });
        give ('' New FW Version: '' @ s) });
     give (s1 @ s2) }"

definition DisplayFirmwareUpdatedFailedEvent :: "ext_data \<Rightarrow> string display" where
  "DisplayFirmwareUpdatedFailedEvent d = text_if d 1 (PrintUint32 d ''Failure Reason'')"

definition securityAuditLogRecoveryReason :: "string list" where
  "securityAuditLogRecoveryReason = [''Unknown'', ''Migration failure'', ''Initialization failure'']"

definition DisplaySecurityAuditLogRecoveryEvent :: "ext_data \<Rightarrow> string display" where
  "DisplaySecurityAuditLogRecoveryEvent d =
     (if ed_len d > 0 then do {
        x \<leftarrow> peek d 0;
        give (''Reason: '' @ (if unat x > 2 then ''Unknown''
           else securityAuditLogRecoveryReason ! unat x)) }
      else give '''')"

section \<open>Network, alerts, agents and the rest\<close>

text \<open>
  The texts for the events of the network and storage administration, the event manager, the
  system defence (circuit breaker), the presence of agents, the wireless configuration and the
  rest (\<^verbatim>\<open>Display...\<close> of \<^verbatim>\<open>src/WsmanClient/AuditLogWSManClient.cpp\<close>).
\<close>

subsection \<open>Network administration\<close>

definition dotted_quad :: "ext_data \<Rightarrow> string display" where
  "dotted_quad d = do {
     i \<leftarrow> the_index;
     a \<leftarrow> peek d i; b \<leftarrow> peek d (i + 1); c \<leftarrow> peek d (i + 2); e \<leftarrow> peek d (i + 3);
     give (dec_byte a @ ''.'' @ dec_byte b @ ''.'' @ dec_byte c @ ''.'' @ dec_byte e) }"

fun ipv4_addresses :: "ext_data \<Rightarrow> string list \<Rightarrow> string display" where
  "ipv4_addresses d [] = give ''''"
| "ipv4_addresses d (t # ts) = do {
     s1 \<leftarrow> text_if d 4 (do { q \<leftarrow> dotted_quad d; advance 4; give (t @ q @ '' '') });
     s2 \<leftarrow> ipv4_addresses d ts;
     give (s1 @ s2) }"

definition network_interface :: "ext_data \<Rightarrow> string \<Rightarrow> string display" where
  "network_interface d tail = text_if d 1 (do {
     s \<leftarrow> PrintInterfaceHandleUint32 d;
     give (''Network Interface: '' @ s @ tail) })"

definition DisplayNetworkAdminTcpIpParameterSetEvent :: "ext_data \<Rightarrow> string display" where
  "DisplayNetworkAdminTcpIpParameterSetEvent d = do {
     s1 \<leftarrow> network_interface d ''. '';
     (dhcp, s2) \<leftarrow> if_left d 1 (False, '''') (do {
        x \<leftarrow> next_byte d;
        give (x \<noteq> 0, ''DHCP Enabled: '' @ (if x \<noteq> 0 then ''Enabled'' else ''Disabled'') @ ''. '') });
     s3 \<leftarrow> (if dhcp then give ''''
       else ipv4_addresses d [''IPv4 Address: '', ''Subnet Mask: '', ''Default Gateway: '',
          ''Preferred DNS Server: '', ''Alternate DNS Server: '']);
     give (s1 @ s2 @ s3) }"

text \<open>A length byte and a name of at most that length, as several events have it.\<close>

definition titled_name :: "ext_data \<Rightarrow> string \<Rightarrow> string \<Rightarrow> string display" where
  "titled_name d title tail = do {
     n \<leftarrow> if_left d 1 0 (next_byte d);
     text_if d 1 (do { s \<leftarrow> name_run d (unat n); give (title @ s @ tail) }) }"

definition DisplayNetworkAdminHostNameSetEvent :: "ext_data \<Rightarrow> string display" where
  "DisplayNetworkAdminHostNameSetEvent d = titled_name d ''Host Name: '' ''''"

definition DisplayNetworkAdminDomainNameSetEvent :: "ext_data \<Rightarrow> string display" where
  "DisplayNetworkAdminDomainNameSetEvent d = titled_name d ''Domain Name: '' ''''"

definition DisplayNetworkAdminVlanParameterSetEvent :: "ext_data \<Rightarrow> string display" where
  "DisplayNetworkAdminVlanParameterSetEvent d = do {
     if_left d 1 () (advance 4);
     if_left d 1 () (if_left d 2 () (do { v \<leftarrow> number_here d 2; advance 2 }));
     give '''' }"

definition LinkPolicyValues :: "string list" where
  "LinkPolicyValues = [''available on S0 AC'', ''available on Sx AC'', ''available on S0 DC'',
     ''available on Sx DC'']"

fun comma_list :: "string list \<Rightarrow> string" where
  "comma_list [] = ''''"
| "comma_list [s] = s"
| "comma_list (s # t # ss) = s @ '', '' @ comma_list (t # ss)"

definition link_policies :: "nat \<Rightarrow> nat list option" where
  "link_policies = map_of [(1, [0]), (15, [0, 1]), (31, [0, 1, 2]), (255, [0, 1, 2, 3]),
     (239, [0, 1, 3]), (17, [0, 2]), (241, [0, 2, 3]), (225, [0, 3]), (14, [1]), (30, [1, 2]),
     (254, [1, 2, 3]), (238, [1, 3]), (16, [2]), (240, [2, 3]), (224, [3])]"

definition link_policy :: "nat \<Rightarrow> string" where
  "link_policy v = (case link_policies v of None \<Rightarrow> ''Disabled''
     | Some ks \<Rightarrow> comma_list (map ((!) LinkPolicyValues) ks))"

definition DisplayNetworkAdminLinkPolicySetEvent :: "ext_data \<Rightarrow> string display" where
  "DisplayNetworkAdminLinkPolicySetEvent d = do {
     s1 \<leftarrow> network_interface d ''. '';
     s2 \<leftarrow> text_if d 1 (do {
        v \<leftarrow> number_here d 4;
        give (''Link Policy: '' @ link_policy v) });
     give (s1 @ s2) }"

subsection \<open>Addresses of 16 bytes\<close>

definition short_hex :: "u8 \<Rightarrow> string" where
  "short_hex b = (if unat b < 10 then ''0'' @ hex_str b else hex_str b)"

text \<open>One turn of the loop over \<^verbatim>\<open>k\<close>, from \<^verbatim>\<open>k\<close> on; two zero bytes at an even place are one zero.\<close>

function hex_groups :: "ext_data \<Rightarrow> nat \<Rightarrow> string display" where
  "hex_groups d k = (if 16 \<le> k then give '''' else do {
     i \<leftarrow> the_index;
     x \<leftarrow> peek d (i + k);
     pair_of_zeros \<leftarrow> (if even k \<and> x = 0 then do { y \<leftarrow> peek d (i + k + 1); give (y = 0) }
       else give False);
     let k' = (if pair_of_zeros then k + 1 else k);
     let s = (if pair_of_zeros then ''0'' else short_hex x)
       @ (if k' \<noteq> 15 \<and> even (k' + 1) then '':'' else '''');
     t \<leftarrow> hex_groups d (k' + 1);
     give (s @ t) })"
  by pat_completeness auto
termination
  by (relation "measure (\<lambda>(d, k). 16 - k)") auto

declare hex_groups.simps [simp del]

fun ipv6_addresses :: "ext_data \<Rightarrow> string list \<Rightarrow> string display" where
  "ipv6_addresses d [] = give ''''"
| "ipv6_addresses d (t # ts) = do {
     s1 \<leftarrow> text_if d 16 (do { q \<leftarrow> hex_groups d 0; advance 16; give (t @ q @ '' '') });
     s2 \<leftarrow> ipv6_addresses d ts;
     give (s1 @ s2) }"

definition interfaceIDGenTypeStrings :: "string list" where
  "interfaceIDGenTypeStrings = [''Random ID'', ''Intel ID'', ''Manual ID'', ''Invalid ID'']"

definition interface_id_type :: "u8 \<Rightarrow> string" where
  "interface_id_type x = (if unat x \<le> 3 then interfaceIDGenTypeStrings ! unat x else ''Unknown'')"

definition DisplayNetworkAdminIPv6ParamsEvent :: "ext_data \<Rightarrow> string display" where
  "DisplayNetworkAdminIPv6ParamsEvent d = do {
     s1 \<leftarrow> network_interface d ''. '';
     s2 \<leftarrow> text_if d 1 (do {
        x \<leftarrow> next_byte d;
        give (''IPv6 '' @ (if x \<noteq> 0 then ''Enabled'' else ''Disabled'') @ ''. '') });
     (gen, s3) \<leftarrow> if_left d 1 (0, '''') (do {
        x \<leftarrow> next_byte d;
        give (x, ''Interface ID Type: '' @ interface_id_type x @ ''. '') });
     s4 \<leftarrow> text_if d 1 (if gen = 2 then do {
           s \<leftarrow> byte_run d short_hex 8;
           give (''Interface ID: '' @ s @ ''. '') }
        else do { advance 8; give '''' });
     s5 \<leftarrow> ipv6_addresses d [''IPv6 Address: '', ''Default Gateway: '', ''Preferred DNS Server: '',
        ''Alternate DNS Server: ''];
     give (s1 @ s2 @ s3 @ s4 @ s5) }"

subsection \<open>Storage and alerts\<close>

definition DisplayStorageAdminGlobalStorageAttributesSetEvent :: "ext_data \<Rightarrow> string display" where
  "DisplayStorageAdminGlobalStorageAttributesSetEvent d = do {
     s1 \<leftarrow> text_if d 1 (PrintUint32 d ''Max Partner Storage'');
     s2 \<leftarrow> text_if d 1 (PrintUint32 d ''Max Non Partner Total Allocation Size'');
     give (s1 @ ''byte(s) '' @ s2 @ ''byte(s) '') }"

definition DisplayEventManagerAlertRelatedEvent :: "ext_data \<Rightarrow> string display" where
  "DisplayEventManagerAlertRelatedEvent d = do {
     s1 \<leftarrow> text_if d 1 (do { x \<leftarrow> next_byte d; give (''Policy ID: '' @ dec_byte x @ ''. '') });
     s2 \<leftarrow> text_if d 1 (do {
        x \<leftarrow> next_byte d;
        give (''Subscription Alert Type: '' @ (if x = 1 then ''SNMP'' else if x = 2 then ''SOAP''
          else ''Unknown'') @ ''. '') });
     (kind, s3) \<leftarrow> if_left d 1 (2, '''') (do {
        x \<leftarrow> next_byte d;
        give (x, ''IP Address Type: '' @ (if x = 0 then ''IPv4'' else if x = 1 then ''IPv6''
          else ''Unknown'') @ ''. '') });
     s4 \<leftarrow> (if kind = 0 then text_if d 4 (do {
            q \<leftarrow> dotted_quad d; advance 4; give (''Alert Target IP Address: '' @ q) })
        else if kind = 1 then text_if d 16 (do {
            q \<leftarrow> hex_groups d 0; advance 16; give (''Alert Target IP Address: '' @ q) })
        else give '''');
     give (s1 @ s2 @ s3 @ s4) }"

definition DisplayEventLogFrozenEvent :: "ext_data \<Rightarrow> string display" where
  "DisplayEventLogFrozenEvent d = (if ed_len d > 0 then do {
       x \<leftarrow> peek d 0;
       give (if x = 0 then ''UnFreeze'' else if x = 1 then ''Freeze'' else ''Unknown'') }
     else give '''')"

subsection \<open>System defence\<close>

definition DisplayCircuitBreakerFilterRemovedEvent :: "ext_data \<Rightarrow> string display" where
  "DisplayCircuitBreakerFilterRemovedEvent d = text_if d 1 (PrintUint32 d ''Filter Handle'')"

definition DisplayCircuitBreakerPolicyRemovedEvent :: "ext_data \<Rightarrow> string display" where
  "DisplayCircuitBreakerPolicyRemovedEvent d = text_if d 1 (PrintUint32 d ''Policy Handle'')"

text \<open>The text of the interface is lost when the handle of the policy is there.\<close>

definition DisplayCircuitBreakerDefaultPolicySetEvent :: "ext_data \<Rightarrow> string display" where
  "DisplayCircuitBreakerDefaultPolicySetEvent d = do {
     ss \<leftarrow> network_interface d '' '';
     if_left d 4 ss (PrintUint32 d ''Policy Handle'') }"

definition DisplayCircuitBreakerHeuristicsOptionSetEvent :: "ext_data \<Rightarrow> string display" where
  "DisplayCircuitBreakerHeuristicsOptionSetEvent d = do {
     s1 \<leftarrow> network_interface d ''. '';
     s2 \<leftarrow> text_if d 1 (do {
        x \<leftarrow> next_byte d;
        give (''Block All: '' @ (if x \<noteq> 0 then ''true'' else ''false'') @ ''. '') });
     s3 \<leftarrow> text_if d 1 (do {
        x \<leftarrow> next_byte d;
        give (''Block Offensive Port: '' @ (if x \<noteq> 0 then ''true'' else ''false'') @ ''. '') });
     s4 \<leftarrow> text_if d 1 (PrintUint32 d ''Policy Handle'');
     give (s1 @ s2 @ s3 @ s4) }"

definition DisplayCircuitBreakerHeuristicsStateClearedEvent :: "ext_data \<Rightarrow> string display" where
  "DisplayCircuitBreakerHeuristicsStateClearedEvent d = text_if d 4 (do {
     s \<leftarrow> PrintInterfaceHandleUint32 d;
     give (''Network Interface: '' @ s) })"

subsection \<open>Agents\<close>

primrec agent_id :: "ext_data \<Rightarrow> nat \<Rightarrow> nat \<Rightarrow> string display" where
  "agent_id d i 0 = give ''''"
| "agent_id d i (Suc n) = do {
     x \<leftarrow> peek d i;
     s \<leftarrow> agent_id d (Suc i) n;
     give ((if i \<noteq> 0 \<and> i mod 4 = 0 then ''-'' else '''') @ dec_byte x @ s) }"

definition DisplayAgentID :: "ext_data \<Rightarrow> string display" where
  "DisplayAgentID d = do { s \<leftarrow> agent_id d 0 16; give (''Agent ID: '' @ s @ ''. '') }"

definition DisplayAgentPresenceAgentWatchdogAddedEvent :: "ext_data \<Rightarrow> string display" where
  "DisplayAgentPresenceAgentWatchdogAddedEvent d = do {
     s1 \<leftarrow> text_if d 16 (do { s \<leftarrow> DisplayAgentID d; advance 16; give s });
     s2 \<leftarrow> text_if d 2 (do {
        s \<leftarrow> PrintUint16 d ''Agent heart beat time''; give (s @ ''seconds. '') });
     s3 \<leftarrow> text_if d 2 (do {
        s \<leftarrow> PrintUint16 d ''Agent startup time''; give (s @ ''seconds. '') });
     give (s1 @ s2 @ s3) }"

definition DisplayAgentPresenceAgentWatchdogRemovedEvent :: "ext_data \<Rightarrow> string display" where
  "DisplayAgentPresenceAgentWatchdogRemovedEvent d =
     text_if d 16 (do { s \<leftarrow> DisplayAgentID d; advance 16; give s })"

definition DisplayAgentPresenceAgentWatchdogActionSetEvent :: "ext_data \<Rightarrow> string display" where
  "DisplayAgentPresenceAgentWatchdogActionSetEvent d =
     text_if d 16 (do { s \<leftarrow> DisplayAgentID d; advance 16; give s })"

subsection \<open>Wireless profiles\<close>

definition DisplayWirelessProfileName :: "ext_data \<Rightarrow> string display" where
  "DisplayWirelessProfileName d = titled_name d ''Profile Name: '' ''.''"

definition SSID_LEN :: nat where
  "SSID_LEN = 32"

definition DisplayFullWirelessProfileName :: "ext_data \<Rightarrow> string display" where
  "DisplayFullWirelessProfileName d = do {
     t1 \<leftarrow> text_if d 1 (do {
        s \<leftarrow> name_run d SSID_LEN;
        set_index (if ed_len d < SSID_LEN then ed_len d else SSID_LEN);
        give (''SSID: '' @ s @ ''. '') });
     t2 \<leftarrow> text_if d 1 (do {
        x \<leftarrow> next_byte d;
        give (''Profile Priority: '' @ dec_byte x @ ''. '') });
     s \<leftarrow> DisplayWirelessProfileName d;
     give (s @ '' '' @ t1 @ t2) }"

definition DisplayWirelessProfileAddedEvent :: "ext_data \<Rightarrow> string display" where
  "DisplayWirelessProfileAddedEvent d = DisplayFullWirelessProfileName d"

definition DisplayWirelessProfileRemovedEvent :: "ext_data \<Rightarrow> string display" where
  "DisplayWirelessProfileRemovedEvent d = DisplayWirelessProfileName d"

definition DisplayWirelessProfileUpdatedEvent :: "ext_data \<Rightarrow> string display" where
  "DisplayWirelessProfileUpdatedEvent d = DisplayFullWirelessProfileName d"

text \<open>These two read a number in the order of the host, low byte first.\<close>

definition raw_number :: "ext_data \<Rightarrow> nat display" where
  "raw_number d = do { xs \<leftarrow> peeks d 0 4; give (host_number xs) }"

definition DisplayWirelessProfileSyncChangeEvent :: "ext_data \<Rightarrow> string display" where
  "DisplayWirelessProfileSyncChangeEvent d = (if ed_len d \<ge> 4 then do {
       v \<leftarrow> raw_number d;
       give (if v = 0 then ''Profile sync is disabled'' else if v = 1 then ''Profile sync user''
         else if v = 2 then ''Profile sync admin''
         else if v = 3 then ''Profile sync is unrestricted'' else '''') }
     else give '''')"

definition DisplayWirelessProfileLinkPreferenceChanged :: "ext_data \<Rightarrow> string display" where
  "DisplayWirelessProfileLinkPreferenceChanged d = do {
     s1 \<leftarrow> (if ed_len d \<ge> 4 then do {
         v \<leftarrow> raw_number d;
         give (''Link preference was set to: '' @ (if v = 1 then ''ME. '' else if v = 2 then ''Host. ''
           else ''Unknown. '')) }
       else give '''');
     advance 4;
     s2 \<leftarrow> (if ed_len d \<ge> 4 then PrintUint32 d ''Timeout'' else give '''');
     give (s1 @ s2) }"

subsection \<open>The rest\<close>

definition EACVendors :: "string list" where
  "EACVendors = [''Unknown'', ''EAC NAC'', ''EAC NAP'', ''EAC NAC and NAP'']"

definition DisplayEacSetOptionsEvent :: "ext_data \<Rightarrow> string display" where
  "DisplayEacSetOptionsEvent d = text_if d 4 (do {
     v \<leftarrow> number_here d 4;
     give (if v < 4 then ''Eac Vendors: '' @ EACVendors ! v else '''') })"

definition PrintOptInPolicy :: "u8 \<Rightarrow> string \<Rightarrow> string" where
  "PrintOptInPolicy curData title = title @ '': '' @ (if curData AND 2 \<noteq> 0 then ''ALL''
     else if curData AND 1 \<noteq> 0 then ''KVM'' else ''None'')"

definition DisplayOptInPolicyChangeEvent :: "ext_data \<Rightarrow> string display" where
  "DisplayOptInPolicyChangeEvent d = do {
     s1 \<leftarrow> text_if d 1 (do { x \<leftarrow> next_byte d; give (PrintOptInPolicy x ''Previous Opt In Policy'') });
     s2 \<leftarrow> text_if d 1 (do { x \<leftarrow> next_byte d; give (PrintOptInPolicy x '' Current Opt In Policy'') });
     give (s1 @ s2) }"

definition password_result :: "u8 \<Rightarrow> string" where
  "password_result x = (if x = 0 then ''Remote operator entered a one-time password successfully''
     else if x = 1 then ''Remote operator failed (3 times) to enter a one-time password correctly''
     else ''Unknown'')"

definition DisplaySendConsentCodeEvent :: "ext_data \<Rightarrow> string display" where
  "DisplaySendConsentCodeEvent d = (if ed_len d > 0 then do {
       x \<leftarrow> peek d 0; give (''Operation Status: '' @ password_result x) }
     else give '''')"

definition DisplayWatchdogActionPairingChangedEvent :: "ext_data \<Rightarrow> string display" where
  "DisplayWatchdogActionPairingChangedEvent d = (if ed_len d > 0 then do {
       x \<leftarrow> peek d 0; give (password_result x) }
     else give '''')"

definition DisplayUnknownEvent :: "ext_data \<Rightarrow> string display" where
  "DisplayUnknownEvent d = do {
     s \<leftarrow> byte_run d (\<lambda>b. '' '' @ hex_str b) (ed_len d);
     give (''Unknown Event: Length = '' @ dec_str (ed_len d) @ ''. Data ='' @ s @ ''. '') }"

end
