(* ===== verification/Audit_Log.thy ===== *)
theory Audit_Log
  imports Audit_Events
begin

section \<open>One record\<close>

text \<open>
  A record of the access monitor, from the bytes that the firmware has sent
  (\<^verbatim>\<open>AuditLogRecordFromBinaryBase64Data\<close> of \<^verbatim>\<open>src/WsmanClient/AuditLogWSManClient.cpp\<close>). The state is
  the pointer into the record as an offset, the number of bytes that the code thinks are left, an
  \<^verbatim>\<open>unsigned int\<close> that wraps around, and the structure being filled, which the caller uses again for
  the next record. A step goes on, refuses the record (the function returns \<^verbatim>\<open>false\<close>), or reads
  behind the end of the record.
\<close>

record audit_record =
  ar_AuditAppID :: nat
  ar_EventID :: nat
  ar_InitType :: u8
  ar_UsernameLength :: u8
  ar_Username :: bytes
  ar_UserInDomain :: nat
  ar_DomainLength :: u8
  ar_Domain :: bytes
  ar_TimeStamp :: nat
  ar_MCLocationType :: u8
  ar_NetAddressLength :: u8
  ar_NetAddress :: bytes
  ar_ExtendedDataLength :: u8
  ar_ExtendedData :: bytes

definition HTTP_DIGEST :: u8 where "HTTP_DIGEST = 0"
definition KERBEROS_SID :: u8 where "KERBEROS_SID = 1"
definition LOCAL_INITIATOR :: u8 where "LOCAL_INITIATOR = 2"
definition KVM_DEFAULT_PORT :: u8 where "KVM_DEFAULT_PORT = 3"

lemmas initiator_defs = HTTP_DIGEST_def KERBEROS_SID_def LOCAL_INITIATOR_def KVM_DEFAULT_PORT_def

record rec_state =
  rs_pos :: nat
  rs_left :: u32
  rs_rec :: audit_record

datatype rec_step = Going rec_state | Refused rec_state | Reads_behind

primrec run_steps :: "(rec_state \<Rightarrow> rec_step) list \<Rightarrow> rec_state \<Rightarrow> rec_step" where
  "run_steps [] s = Going s"
| "run_steps (f # fs) s = (case f s of Going t \<Rightarrow> run_steps fs t | o1 \<Rightarrow> o1)"

text \<open>A field of \<^verbatim>\<open>n\<close> bytes: refused if fewer are left, else copied in reverse order.\<close>

definition fill :: "bytes \<Rightarrow> nat \<Rightarrow> (nat \<Rightarrow> audit_record \<Rightarrow> audit_record) \<Rightarrow> rec_state \<Rightarrow> rec_step" where
  "fill b n f s =
     (if rs_left s < of_nat n then Refused s
      else if length b < rs_pos s + n then Reads_behind
      else Going \<lparr>rs_pos = rs_pos s + n, rs_left = rs_left s - of_nat n,
        rs_rec = f (host_number (ReverseMemCopy (take n (drop (rs_pos s) b)))) (rs_rec s)\<rparr>)"

definition fill_byte :: "bytes \<Rightarrow> (u8 \<Rightarrow> audit_record \<Rightarrow> audit_record) \<Rightarrow> rec_state \<Rightarrow> rec_step" where
  "fill_byte b f = fill b 1 (\<lambda>v. f (of_nat v))"

text \<open>The loop that pushes \<^verbatim>\<open>n\<close> bytes into a vector and takes \<^verbatim>\<open>k\<close> off the number of bytes left each
  time.\<close>

primrec push_bytes :: "bytes \<Rightarrow> u32 \<Rightarrow> (u8 \<Rightarrow> audit_record \<Rightarrow> audit_record) \<Rightarrow> nat \<Rightarrow> rec_state \<Rightarrow> rec_step" where
  "push_bytes b k f 0 s = Going s"
| "push_bytes b k f (Suc n) s =
     (if rs_left s < 1 then Refused s
      else if length b \<le> rs_pos s then Reads_behind
      else push_bytes b k f n \<lparr>rs_pos = rs_pos s + 1, rs_left = rs_left s - k,
        rs_rec = f (b ! rs_pos s) (rs_rec s)\<rparr>)"

definition on_record :: "(audit_record \<Rightarrow> audit_record) \<Rightarrow> rec_state \<Rightarrow> rec_step" where
  "on_record f s = Going (s\<lparr>rs_rec := f (rs_rec s)\<rparr>)"

text \<open>\<^verbatim>\<open>sizeof\<close> of a \<^verbatim>\<open>std::vector\<close>: three pointers of 64 bits.\<close>

definition sizeof_vector :: u32 where
  "sizeof_vector = 24"

definition push_Username :: "u8 \<Rightarrow> audit_record \<Rightarrow> audit_record" where
  "push_Username x r = r\<lparr>ar_Username := ar_Username r @ [x]\<rparr>"
definition push_Domain :: "u8 \<Rightarrow> audit_record \<Rightarrow> audit_record" where
  "push_Domain x r = r\<lparr>ar_Domain := ar_Domain r @ [x]\<rparr>"
definition push_NetAddress :: "u8 \<Rightarrow> audit_record \<Rightarrow> audit_record" where
  "push_NetAddress x r = r\<lparr>ar_NetAddress := ar_NetAddress r @ [x]\<rparr>"
definition push_ExtendedData :: "u8 \<Rightarrow> audit_record \<Rightarrow> audit_record" where
  "push_ExtendedData x r = r\<lparr>ar_ExtendedData := ar_ExtendedData r @ [x]\<rparr>"

lemmas push_defs = push_Username_def push_Domain_def push_NetAddress_def push_ExtendedData_def

definition digest_initiator :: "bytes \<Rightarrow> rec_state \<Rightarrow> rec_step" where
  "digest_initiator b = run_steps [
     fill_byte b (\<lambda>v. ar_UsernameLength_update (\<lambda>_. v)),
     on_record (ar_Username_update (\<lambda>_. [])),
     (\<lambda>s. push_bytes b 1 push_Username (unat (ar_UsernameLength (rs_rec s))) s)]"

definition kerberos_initiator :: "bytes \<Rightarrow> rec_state \<Rightarrow> rec_step" where
  "kerberos_initiator b = run_steps [
     fill b 4 (\<lambda>v. ar_UserInDomain_update (\<lambda>_. v)),
     fill_byte b (\<lambda>v. ar_DomainLength_update (\<lambda>_. v)),
     on_record (ar_Domain_update (\<lambda>_. [])),
     (\<lambda>s. push_bytes b 1 push_Domain (unat (ar_DomainLength (rs_rec s))) s)]"

definition initiator :: "bytes \<Rightarrow> rec_state \<Rightarrow> rec_step" where
  "initiator b s = (let t = ar_InitType (rs_rec s) in
     if t = HTTP_DIGEST then digest_initiator b s
     else if t = KERBEROS_SID then kerberos_initiator b s
     else Going s)"

definition record_head :: "bytes \<Rightarrow> rec_state \<Rightarrow> rec_step" where
  "record_head b = run_steps [
     fill b 2 (\<lambda>v. ar_AuditAppID_update (\<lambda>_. v)),
     fill b 2 (\<lambda>v. ar_EventID_update (\<lambda>_. v)),
     fill_byte b (\<lambda>v. ar_InitType_update (\<lambda>_. v)),
     initiator b,
     fill b 4 (\<lambda>v. ar_TimeStamp_update (\<lambda>_. v)),
     fill_byte b (\<lambda>v. ar_MCLocationType_update (\<lambda>_. v)),
     fill_byte b (\<lambda>v. ar_NetAddressLength_update (\<lambda>_. v)),
     on_record (ar_NetAddress_update (\<lambda>_. [])),
     (\<lambda>s. push_bytes b 1 push_NetAddress (unat (ar_NetAddressLength (rs_rec s))) s),
     fill_byte b (\<lambda>v. ar_ExtendedDataLength_update (\<lambda>_. v))]"

text \<open>The last loop takes the size of the vector off, not that of an element.\<close>

definition record_tail :: "bytes \<Rightarrow> rec_state \<Rightarrow> rec_step" where
  "record_tail b = run_steps [
     on_record (ar_ExtendedData_update (\<lambda>_. [])),
     (\<lambda>s. push_bytes b sizeof_vector push_ExtendedData (unat (ar_ExtendedDataLength (rs_rec s))) s)]"

definition AuditLogRecordFromBinaryBase64Data :: "bytes \<Rightarrow> audit_record \<Rightarrow> rec_step" where
  "AuditLogRecordFromBinaryBase64Data b r =
     run_steps [record_head b, record_tail b] \<lparr>rs_pos = 0, rs_left = of_nat (length b), rs_rec = r\<rparr>"

text \<open>A C string from a vector. The length is a \<^verbatim>\<open>uint8_t\<close> that includes the terminating zero, so that
  256 is 0.\<close>

definition GetCharPtrFromUint8Vector :: "u8 \<Rightarrow> bytes \<Rightarrow> bytes option" where
  "GetCharPtrFromUint8Vector n xs =
     (if n = 0 then Some [0]
      else if length xs < unat n - 1 then None
      else Some (take (unat n - 1) xs @ [0]))"

text \<open>What a stream prints of a C string.\<close>

definition c_text :: "bytes \<Rightarrow> string" where
  "c_text xs = map byte_char (takeWhile (\<lambda>b. b \<noteq> 0) xs)"

section \<open>The whole log\<close>

text \<open>
  The log of the access monitor as a whole (\<^verbatim>\<open>readLogsFromFW\<close>, \<^verbatim>\<open>parseLogs\<close> and
  \<^verbatim>\<open>DisplayExtendedData\<close> of \<^verbatim>\<open>src/WsmanClient/AuditLogWSManClient.cpp\<close>): the records are read from
  the firmware in as many calls as it takes, and each is put into an element of an XML document.
  Running out of memory is not modelled.
\<close>

subsection \<open>Names of applications and events\<close>

definition APP_ID_START_INDEX :: nat where "APP_ID_START_INDEX = 16"
definition APP_ID_END_INDEX :: nat where "APP_ID_END_INDEX = 33"

definition appIdStrings :: "string list" where
  "appIdStrings = [''Security Admin'', ''RCO'', ''Redirection Manager'', ''Firmware Update Manager'',
     ''Security Audit Log'', ''Network Time'', ''Network Administration'', ''Storage Administration'',
     ''Event Manager'', ''System Defense Manager'', ''Agent Presence Manager'',
     ''Wireless Configuration'', ''EAC'', ''KVM'', ''User Opt-In'', ''BIOS Management'',
     ''Screen Blanking'', ''Watchdog'']"

definition endStringsArrayIndices :: "nat list" where
  "endStringsArrayIndices = [20, 10, 13, 2, 6, 3, 6, 4, 4, 7, 3, 5, 5, 5, 3, 0, 2, 2]"

definition eventIdStrings :: "string list" where
  "eventIdStrings = [''Provisioning Started'', ''Provisioning Completed'', ''ACL Entry Added'',
     ''ACL Entry Modified'', ''ACL Entry Removed'', ''ACL Access with invalid credentials'',
     ''ACL Entry Enabled'', ''TLS State Changed'', ''TLS Server Certificate Set'',
     ''TLS Server Certificate Remove'', ''TLS Trusted Root Certificate Added'',
     ''TLS Trusted Root Certificate Removed'', ''TLS Pre-shared Key Set'',
     ''Kerberos Settings Modified'', ''Kerberos MasterKey or Passphrase Modified'',
     ''Flash Wear-Out Counters Reset'', ''Power Package Modified'',
     ''Set realm Authentication mode'', ''Upgrade from client to admin control mode'',
     ''UnProvisioning Started'',
     ''Performed Power-Up'', ''Performed Power-Down'', ''Performed Power-Cycle'',
     ''Performed Reset'', ''Set Boot Options'', ''Performed Graceful Power down'',
     ''Performed Graceful Power reset'', ''Performed Standby'', ''Performed Hiberate'',
     ''Performed NMI'',
     ''USBr Session Opened'', ''USBr Session Closed '', ''USBr Enabled'', ''USBr Disabled'',
     ''SoL Session Opened'', ''SoL Session Closed'', ''SoL Enabled'', ''SoL Disabled'',
     ''KVM Session Started'', ''KVM Session Ended'', ''KVM Enabled'', ''KVM Disabled'',
     ''VNC Password Failed 3 Times'',
     ''Firmware Update Started'', ''Firmware Update Failed'',
     ''Security Audit Log Cleared'', ''Security Audit policy modified'',
     ''Security Audit Log Disabled'', ''Security Audit Log Enabled'',
     ''Security Audit Log Exported'', ''Security Audit Log Recovery'',
     ''Time Set'', ''Time Synchronization Enabled'', ''Time Synchronization Disabled'',
     ''TCP/IP Parameters Set'', ''Host Name Set'', ''Domain Name Set'', ''VLAN Parameters Set'',
     ''Link Policy Set'', ''IPv6 parameters Set'',
     ''Global Storage Attributes Set'', ''Storage EACL Modified'', ''Storage FPACL Modified'',
     ''Storage Write Operation'',
     ''Alert Subscribed'', ''Alert Unsubscribed'', ''Event Log Cleared'', ''Event Log Frozen'',
     ''SD Filter Added'', ''SD Filter Removed'', ''SD Policy Added'', ''SD Policy Removed'',
     ''SD Default Policy Set'', ''SD Heuristics Option Set'', ''SD Heuristics State Cleared'',
     ''Agent Watchdog Added'', ''Agent Watchdog Removed'', ''Agent Watchdog Action set'',
     ''Wireless Profile Added'', ''Wireless Profile Removed'', ''Wireless Profile Updated'',
     ''Wireless local Profile Sync Enablement changed'', ''Wireless Link Preference Changed'',
     ''EAC Posture Signer SET'', ''EAC Enabled'', ''EAC Disabled'', ''EAC Posture State Update'',
     ''EAC Set Options'',
     ''KVM opt-in Enabled'', ''KVM opt-in Disabled'', ''KVM password Changed'',
     ''KVM consent succeeded'', ''KVM consent failed'',
     ''Opt-In policy Change'', ''Send Consent Code Event'',
     ''attempted to send a StartOptIn request, but the request was blocked'',
     ''Screen blanking start'', ''Screen blanking end'',
     ''Watchdog action settings have been changed.'',
     ''A Watchdog'' @ [CHR 39] @ ''s action has been set, cleared, or changed.'']"

definition app_known :: "nat \<Rightarrow> bool" where
  "app_known app \<longleftrightarrow> APP_ID_START_INDEX \<le> app \<and> app \<le> APP_ID_END_INDEX"

definition app_string :: "nat \<Rightarrow> string" where
  "app_string app = (if app_known app then appIdStrings ! (app - APP_ID_START_INDEX) else ''Unknown'')"

definition event_string :: "nat \<Rightarrow> nat \<Rightarrow> string" where
  "event_string app ev =
     (if app_known app then let k = app - APP_ID_START_INDEX in
        if ev < endStringsArrayIndices ! k then
          let start = sum_list (take k endStringsArrayIndices) in
          if start + ev < length eventIdStrings then eventIdStrings ! (start + ev) else ''Unknown''
        else ''Unknown''
      else ''Unknown'')"

subsection \<open>Extended data\<close>

definition security_admin_event :: "nat \<Rightarrow> ext_data \<Rightarrow> string display" where
  "security_admin_event ev d =
     (if ev = 1 then DisplaySecurityAdminAmtProvisioningCompletedEvent d
      else if ev = 2 then DisplaySecurityAdminAclEntryAddedEvent d
      else if ev = 3 then DisplaySecurityAdminAclEntryModifiedEvent d
      else if ev = 4 then DisplaySecurityAdminAclEntryRemovedEvent d
      else if ev = 5 then DisplaySecurityAdminAclAccessWithInvalidCredentialsEvent d
      else if ev = 6 then DisplaySecurityAdminAclEntryEnabledEvent d
      else if ev = 7 then DisplaySecurityAdminTlsStateChangedEvent d
      else if ev = 8 \<or> ev = 9 \<or> ev = 10 \<or> ev = 11
        then DisplaySecurityAdminTlsCertificateRelatedEvent d
      else if ev = 13 then DisplaySecurityAdminKerberosSettingsModifiedEvent d
      else if ev = 16 then DisplaySecurityAdminPowerPackageModifiedEvent d
      else if ev = 17 then DisplaySecurityAdminSetRealmAuthenticationModeEvent d
      else if ev = 19 then DisplaySecurityAdminUnprovisioningCompleted d
      else give '''')"

definition network_admin_event :: "nat \<Rightarrow> ext_data \<Rightarrow> string display" where
  "network_admin_event ev d =
     (if ev = 0 then DisplayNetworkAdminTcpIpParameterSetEvent d
      else if ev = 1 then DisplayNetworkAdminHostNameSetEvent d
      else if ev = 2 then DisplayNetworkAdminDomainNameSetEvent d
      else if ev = 3 then DisplayNetworkAdminVlanParameterSetEvent d
      else if ev = 4 then DisplayNetworkAdminLinkPolicySetEvent d
      else if ev = 5 then DisplayNetworkAdminIPv6ParamsEvent d
      else give '''')"

definition cb_manager_event :: "nat \<Rightarrow> ext_data \<Rightarrow> string display" where
  "cb_manager_event ev d =
     (if ev = 1 then DisplayCircuitBreakerFilterRemovedEvent d
      else if ev = 3 then DisplayCircuitBreakerPolicyRemovedEvent d
      else if ev = 4 then DisplayCircuitBreakerDefaultPolicySetEvent d
      else if ev = 5 then DisplayCircuitBreakerHeuristicsOptionSetEvent d
      else if ev = 6 then DisplayCircuitBreakerHeuristicsStateClearedEvent d
      else give '''')"

definition wireless_event :: "nat \<Rightarrow> ext_data \<Rightarrow> string display" where
  "wireless_event ev d =
     (if ev = 0 then DisplayWirelessProfileAddedEvent d
      else if ev = 1 then DisplayWirelessProfileRemovedEvent d
      else if ev = 2 then DisplayWirelessProfileUpdatedEvent d
      else if ev = 3 then DisplayWirelessProfileSyncChangeEvent d
      else if ev = 4 then DisplayWirelessProfileLinkPreferenceChanged d
      else give '''')"

definition display_event :: "nat \<Rightarrow> nat \<Rightarrow> ext_data \<Rightarrow> string display" where
  "display_event app ev d =
     (if app = 16 then security_admin_event ev d
      else if app = 17 then
        (if ev = 0 \<or> ev = 2 \<or> ev = 3 \<or> ev = 4 then DisplayRemoteControlBootOptionsRelatedEvent d
         else give '''')
      else if app = 19 then
        (if ev = 0 then DisplayFirmwareUpdatedEvent d
         else if ev = 1 then DisplayFirmwareUpdatedFailedEvent d else give '''')
      else if app = 20 then (if ev = 5 then DisplaySecurityAuditLogRecoveryEvent d else give '''')
      else if app = 21 then (if ev = 0 then DisplayNetworkTimeTimeSetEvent d else give '''')
      else if app = 22 then network_admin_event ev d
      else if app = 23 then
        (if ev = 0 then DisplayStorageAdminGlobalStorageAttributesSetEvent d else give '''')
      else if app = 24 then
        (if ev = 0 \<or> ev = 1 then DisplayEventManagerAlertRelatedEvent d
         else if ev = 3 then DisplayEventLogFrozenEvent d else give '''')
      else if app = 25 then cb_manager_event ev d
      else if app = 26 then
        (if ev = 0 then DisplayAgentPresenceAgentWatchdogAddedEvent d
         else if ev = 1 then DisplayAgentPresenceAgentWatchdogRemovedEvent d
         else if ev = 2 then DisplayAgentPresenceAgentWatchdogActionSetEvent d else give '''')
      else if app = 27 then wireless_event ev d
      else if app = 28 then (if ev = 4 then DisplayEacSetOptionsEvent d else give '''')
      else if app = 29 then give ''''
      else if app = 30 then
        (if ev = 0 then DisplayOptInPolicyChangeEvent d
         else if ev = 1 then DisplaySendConsentCodeEvent d else give '''')
      else if app = 31 \<or> app = 32 then give ''''
      else if app = 33 then
        (if ev = 2 then DisplayWatchdogActionPairingChangedEvent d else give '''')
      else DisplayUnknownEvent d)"

text \<open>The data is copied into an array of its length; \<^verbatim>\<open>behind\<close> is what the heap has behind it. The
  result has the end of the bytes read beside the text.\<close>

definition copied_data :: "(nat \<Rightarrow> u8) \<Rightarrow> bytes \<Rightarrow> ext_data" where
  "copied_data behind xs = \<lparr>ed_mem = (\<lambda>k. if k < length xs then xs ! k else behind (k - length xs)),
     ed_org = 0, ed_len = length xs\<rparr>"

definition at_start :: cursor where
  "at_start = \<lparr>cu_pos = 0, cu_reach = 0\<rparr>"

definition DisplayExtendedData :: "(nat \<Rightarrow> u8) \<Rightarrow> nat \<Rightarrow> nat \<Rightarrow> bytes \<Rightarrow> u8 \<Rightarrow> string \<times> nat" where
  "DisplayExtendedData behind app ev xs n =
     (if n = 0 \<or> unat n \<noteq> length xs then ('''', 0)
      else case run_state (display_event app ev (copied_data behind xs)) at_start of
        (s, c) \<Rightarrow> (s, cu_reach c))"

subsection \<open>The document\<close>

definition quoted :: "string \<Rightarrow> string" where
  "quoted s = [CHR 34] @ s @ [CHR 34]"

definition document_head :: string where
  "document_head = ''<?xml version='' @ quoted ''1.0'' @ ''?>\<newline><MsInfo>\<newline><Category name=''
     @ quoted ''Access Monitor Reporting'' @ ''>\<newline>''"

definition document_end :: string where
  "document_end = ''</Category>\<newline></MsInfo>\<newline>''"

definition error_entry :: string where
  "error_entry = ''<Data><Application><![CDATA[ERROR]]></Application><Event><![CDATA[NA]]></Event>''
     @ ''<InitiatorType><![CDATA[]]></InitiatorType><InitiatorData><![CDATA[]]></InitiatorData>''
     @ ''<Time><![CDATA[]]></Time><InitiatorNetAddress><![CDATA[]]></InitiatorNetAddress>''
     @ ''<ExtendedData><![CDATA[]]></ExtendedData></Data>''"

text \<open>The bytes of a number from the highest on.\<close>

definition number_bytes :: "nat \<Rightarrow> bytes" where
  "number_bytes v = map (\<lambda>k. of_nat (v div 256 ^ k)) [3, 2, 1, 0]"

definition spaced_hex :: "bytes \<Rightarrow> string" where
  "spaced_hex xs = concat (map (\<lambda>b. hex_str b @ '' '') xs)"

definition initiator_text :: "audit_record \<Rightarrow> string option" where
  "initiator_text r = (let t = ar_InitType r in
     if t = HTTP_DIGEST then
       map_option c_text (GetCharPtrFromUint8Vector (ar_UsernameLength r + 1) (ar_Username r))
     else if t = KERBEROS_SID then
       Some (spaced_hex (number_bytes (ar_UserInDomain r))
         @ spaced_hex (take (unat (ar_DomainLength r)) (ar_Domain r)))
     else if t = LOCAL_INITIATOR then Some ''Local user''
     else if t = KVM_DEFAULT_PORT then Some ''KVM user''
     else Some ''Unknown'')"

definition address_text :: "audit_record \<Rightarrow> string option" where
  "address_text r = map_option
     (\<lambda>a. if ar_MCLocationType r = 0 \<or> ar_MCLocationType r = 1 then c_text a else '''')
     (GetCharPtrFromUint8Vector (ar_NetAddressLength r + 1) (ar_NetAddress r))"

definition record_entry :: "(nat \<Rightarrow> u8) \<Rightarrow> audit_record \<Rightarrow> (string \<times> nat) option" where
  "record_entry behind r = do {
     who \<leftarrow> initiator_text r;
     addr \<leftarrow> address_text r;
     let (ext, n) = DisplayExtendedData behind (ar_AuditAppID r) (ar_EventID r) (ar_ExtendedData r)
       (ar_ExtendedDataLength r);
     Some (''<Data>\<newline><Application><![CDATA['' @ app_string (ar_AuditAppID r)
       @ '']]></Application>\<newline><Event><![CDATA['' @ event_string (ar_AuditAppID r) (ar_EventID r)
       @ '']]></Event>\<newline><Initiator><![CDATA['' @ who
       @ '']]></Initiator>\<newline><Time><![CDATA['' @ formatTime (ar_TimeStamp r)
       @ '']]></Time>\<newline><InitiatorNetAddress><![CDATA['' @ addr
       @ '']]></InitiatorNetAddress>\<newline><ExtendedData><![CDATA['' @ ext
       @ '']]></ExtendedData>\<newline></Data>\<newline>'', n) }"

text \<open>The loop over the records, with the structure that is used for all of them. \<^verbatim>\<open>None\<close>: a read
  behind a record.\<close>

fun parse_entries :: "(nat \<Rightarrow> u8) \<Rightarrow> bytes list \<Rightarrow> audit_record \<Rightarrow> string option" where
  "parse_entries behind [] r = Some ''''"
| "parse_entries behind (b # bs) r = (case AuditLogRecordFromBinaryBase64Data b r of
       Reads_behind \<Rightarrow> None
     | Refused s \<Rightarrow> map_option ((@) error_entry) (parse_entries behind bs (rs_rec s))
     | Going s \<Rightarrow> do {
         e \<leftarrow> record_entry behind (rs_rec s);
         rest \<leftarrow> parse_entries behind bs (rs_rec s);
         Some (fst e @ rest) })"

definition parseLogs :: "(nat \<Rightarrow> u8) \<Rightarrow> bytes list \<Rightarrow> audit_record \<Rightarrow> string option" where
  "parseLogs behind records garbage =
     map_option (\<lambda>s. document_head @ s @ document_end) (parse_entries behind records garbage)"

subsection \<open>Reading the records\<close>

text \<open>The answer of the service to a call: the call throws, or returns a code and perhaps records and
  their total number.\<close>

datatype read_answer = Throws | Answers u32 "bytes list option" "u32 option"

record 'w audit_service =
  as_get :: "'w \<Rightarrow> bool \<times> 'w"
  as_read :: "u32 \<Rightarrow> 'w \<Rightarrow> read_answer \<times> 'w"

datatype read_result = Read_failed | Read_all "bytes list"

partial_function (option) read_loop ::
  "'w audit_service \<Rightarrow> u32 \<Rightarrow> bytes list \<Rightarrow> 'w \<Rightarrow> (read_result \<times> 'w) option" where
  "read_loop svc recordsRead records w =
     (case as_read svc (recordsRead + 1) w of
        (Throws, w1) \<Rightarrow> Some (Read_failed, w1)
      | (Answers code recs cnt, w1) \<Rightarrow>
          if code \<noteq> 0 then Some (Read_failed, w1)
          else (case (recs, cnt) of
              (Some rs, Some n) \<Rightarrow>
                (let now = recordsRead + of_nat (length rs); all = records @ rs in
                 if now < n then read_loop svc now all w1 else Some (Read_all all, w1))
            | _ \<Rightarrow> Some (Read_all records, w1)))"

definition readLogsFromFW :: "'w audit_service \<Rightarrow> 'w \<Rightarrow> (read_result \<times> 'w) option" where
  "readLogsFromFW svc w = (case as_get svc w of
       (ok, w1) \<Rightarrow> if ok then read_loop svc 0 [] w1 else Some (Read_failed, w1))"

end
