(* ===== verification/Audit_Reads.thy ===== *)
theory Audit_Reads
  imports Audit_Log
begin

text \<open>
  What the functions that print extended data read. The two runs of a function on data that differ
  only behind the end are compared step by step: \<^verbatim>\<open>reads_to\<close> says that both give the same value and
  the same cursor and read no byte from a bound on, and has a rule for each step and each loop.
\<close>

named_theorems reads_rules \<open>what a step of a display function reads\<close>

definition reads_to :: "nat \<Rightarrow> 'a display \<Rightarrow> 'a display \<Rightarrow> ('a \<Rightarrow> nat \<Rightarrow> bool) \<Rightarrow> nat \<Rightarrow> bool" where
  "reads_to r m m' Q p \<longleftrightarrow> (\<forall>q. \<exists>x p' q'. run_state m \<lparr>cu_pos = p, cu_reach = q\<rparr> = (x, \<lparr>cu_pos = p', cu_reach = q'\<rparr>)
     \<and> run_state m' \<lparr>cu_pos = p, cu_reach = q\<rparr> = (x, \<lparr>cu_pos = p', cu_reach = q'\<rparr>)
     \<and> q' \<le> max q r \<and> Q x p')"

definition same_data :: "ext_data \<Rightarrow> ext_data \<Rightarrow> bool" where
  "same_data d d' \<longleftrightarrow> ed_org d' = ed_org d \<and> ed_len d' = ed_len d
     \<and> (\<forall>k<ed_len d. ed_mem d (ed_org d + k) = ed_mem d' (ed_org d + k))"

abbreviation data_end :: "ext_data \<Rightarrow> nat" where
  "data_end d \<equiv> ed_org d + ed_len d"

lemma same_data_refl [simp]: "same_data d d"
  by (simp add: same_data_def)

lemma same_dataD: "same_data d d' \<Longrightarrow> ed_org d' = ed_org d" "same_data d d' \<Longrightarrow> ed_len d' = ed_len d"
  by (simp_all add: same_data_def)

lemma same_data_from: "same_data d d' \<Longrightarrow> i \<le> ed_len d \<Longrightarrow> same_data (data_from d i) (data_from d' i)"
  by (auto simp: same_data_def data_from_def add.assoc)

lemma data_end_from [simp]: "i \<le> ed_len d \<Longrightarrow> data_end (data_from d i) = data_end d"
  by (simp add: data_from_def)

section \<open>Steps\<close>

lemma reads_give [reads_rules]: "Q x p \<Longrightarrow> reads_to r (give x) (give x) Q p"
  by (simp add: reads_to_def)

lemma reads_bind [reads_rules]:
  assumes "reads_to r m m' (\<lambda>x p. reads_to r (f x) (f' x) Q p) p"
  shows "reads_to r (State_Monad.bind m f) (State_Monad.bind m' f') Q p"
  unfolding reads_to_def
proof
  fix q
  from assms obtain x p1 q1 where 1: "run_state m \<lparr>cu_pos = p, cu_reach = q\<rparr> = (x, \<lparr>cu_pos = p1, cu_reach = q1\<rparr>)"
      "run_state m' \<lparr>cu_pos = p, cu_reach = q\<rparr> = (x, \<lparr>cu_pos = p1, cu_reach = q1\<rparr>)" "q1 \<le> max q r"
    and f: "reads_to r (f x) (f' x) Q p1"
    unfolding reads_to_def [of r m m'] by blast
  from f obtain y p2 q2 where 2: "run_state (f x) \<lparr>cu_pos = p1, cu_reach = q1\<rparr> = (y, \<lparr>cu_pos = p2, cu_reach = q2\<rparr>)"
      "run_state (f' x) \<lparr>cu_pos = p1, cu_reach = q1\<rparr> = (y, \<lparr>cu_pos = p2, cu_reach = q2\<rparr>)" "q2 \<le> max q1 r" "Q y p2"
    unfolding reads_to_def by blast
  from 1 2 show "\<exists>x p' q'. run_state (State_Monad.bind m f) \<lparr>cu_pos = p, cu_reach = q\<rparr> = (x, \<lparr>cu_pos = p', cu_reach = q'\<rparr>)
     \<and> run_state (State_Monad.bind m' f') \<lparr>cu_pos = p, cu_reach = q\<rparr> = (x, \<lparr>cu_pos = p', cu_reach = q'\<rparr>)
     \<and> q' \<le> max q r \<and> Q x p'"
    by auto
qed

lemma reads_index [reads_rules]: "Q p p \<Longrightarrow> reads_to r the_index the_index Q p"
  by (simp add: reads_to_def the_index_def)

lemma reads_set_index [reads_rules]: "Q () i \<Longrightarrow> reads_to r (set_index i) (set_index i) Q p"
  by (simp add: reads_to_def set_index_def)

lemma reads_advance [reads_rules]: "Q () (p + n) \<Longrightarrow> reads_to r (advance n) (advance n) Q p"
  by (simp add: reads_to_def advance_def)

lemma reads_if [reads_rules]:
  "(c \<Longrightarrow> reads_to r a a' Q p) \<Longrightarrow> (\<not> c \<Longrightarrow> reads_to r b b' Q p) \<Longrightarrow>
    reads_to r (if c then a else b) (if c then a' else b') Q p"
  by simp

lemma reads_case_prod [reads_rules]:
  "reads_to r (f (fst x) (snd x)) (f' (fst x) (snd x)) Q p \<Longrightarrow>
    reads_to r (case x of (a, b) \<Rightarrow> f a b) (case x of (a, b) \<Rightarrow> f' a b) Q p"
  by (simp add: case_prod_unfold)

lemma reads_cases: "reads_to r m m' Q p \<Longrightarrow> (\<And>x p'. Q x p' \<Longrightarrow> R x p') \<Longrightarrow> reads_to r m m' R p"
  unfolding reads_to_def by fast

lemma reads_mono: "reads_to r m m' Q p \<Longrightarrow> r \<le> s \<Longrightarrow> reads_to s m m' Q p"
  unfolding reads_to_def by (meson max.mono order_refl order_trans)

text \<open>A byte may be read if it is below the bound and both data have the same there.\<close>

lemma reads_peek:
  assumes "ed_org d' = ed_org d" "ed_mem d (ed_org d + k) = ed_mem d' (ed_org d + k)" "ed_org d + k < r"
    "\<And>x. Q x p"
  shows "reads_to r (peek d k) (peek d' k) Q p"
  using assms by (auto simp: reads_to_def peek_def)

lemma reads_peek_in [reads_rules]:
  assumes "same_data d d'" "k < ed_len d" "data_end d \<le> r" "\<And>x. Q x p"
  shows "reads_to r (peek d k) (peek d' k) Q p"
  using assms by (intro reads_peek) (auto simp: same_data_def)

lemma reads_if_left [reads_rules]:
  assumes "same_data d d'" "p + n \<le> ed_len d \<Longrightarrow> reads_to r m m' Q p" "\<not> p + n \<le> ed_len d \<Longrightarrow> Q v p"
  shows "reads_to r (if_left d n v m) (if_left d' n v m') Q p"
  using assms(2,3) same_dataD(2) [OF assms(1)]
  by (cases "p + n \<le> ed_len d") (auto simp: reads_to_def if_left_def left_over_def)

lemma reads_next_byte [reads_rules]:
  assumes "same_data d d'" "p < ed_len d" "data_end d \<le> r" "\<And>x. Q x (p + 1)"
  shows "reads_to r (next_byte d) (next_byte d') Q p"
  unfolding next_byte_def byte_here_def using assms by (intro reads_rules)

lemma reads_byte_here [reads_rules]:
  assumes "same_data d d'" "p < ed_len d" "data_end d \<le> r" "\<And>x. Q x p"
  shows "reads_to r (byte_here d) (byte_here d') Q p"
  unfolding byte_here_def using assms by (intro reads_rules)

lemma reads_locally [reads_rules]:
  "reads_to r m m' (\<lambda>x p'. Q x p) 0 \<Longrightarrow> reads_to r (locally m) (locally m') Q p"
  unfolding locally_def by (intro reads_rules) (auto intro!: reads_rules elim!: reads_cases)

lemma reads_peeks:
  assumes "same_data d d'" "i + n \<le> ed_len d" "data_end d \<le> r" "\<And>x. Q x p"
  shows "reads_to r (peeks d i n) (peeks d' i n) Q p"
  using assms
proof (induction n arbitrary: i Q)
  case (Suc n)
  then show ?case
    by (auto intro!: reads_rules Suc.IH)
qed (auto intro!: reads_rules)

lemma reads_number_at [reads_rules]:
  assumes "same_data d d'" "i + n \<le> ed_len d" "data_end d \<le> r" "\<And>x. Q x p"
  shows "reads_to r (number_at d i n) (number_at d' i n) Q p"
  unfolding number_at_def using assms by (auto intro!: reads_rules reads_peeks)

lemma reads_number_here [reads_rules]:
  assumes "same_data d d'" "p + n \<le> ed_len d" "data_end d \<le> r" "\<And>x. Q x p"
  shows "reads_to r (number_here d n) (number_here d' n) Q p"
  unfolding number_here_def using assms by (auto intro!: reads_rules)

section \<open>Loops\<close>

lemma reads_byte_run [reads_rules]:
  assumes "same_data d d'" "data_end d \<le> r" "\<And>s p'. p \<le> p' \<Longrightarrow> Q s p'"
  shows "reads_to r (byte_run d f n) (byte_run d' f n) Q p"
  using assms(3)
proof (induction n arbitrary: p Q)
  case (Suc n)
  show ?case
    by (auto intro!: reads_rules assms Suc)
qed (auto intro!: reads_rules)

text \<open>The loop over a name reads the byte behind the data when the name reaches to its end, and
  what it finds there makes no difference.\<close>

lemma reads_behind_end:
  assumes "ed_org d' = ed_org d" "ed_len d' = ed_len d" "p = ed_len d" "data_end d < r" "Q [] p"
  shows "reads_to r (name_run d n) (name_run d' n) Q p"
  using assms by (cases n) (auto simp: reads_to_def byte_here_def the_index_def peek_def if_left_def left_over_def)

lemma reads_name_run:
  assumes d: "same_data d d'" and r: "data_end d < r" and "p \<le> ed_len d" "\<And>s p'. Q s p'"
  shows "reads_to r (name_run d n) (name_run d' n) Q p"
  using assms(3,4)
proof (induction n arbitrary: p Q)
  case 0
  show ?case
  proof (cases "p < ed_len d")
    case True
    with 0 d r show ?thesis by (auto intro!: reads_rules)
  next
    case False
    with 0 d r show ?thesis by (intro reads_behind_end) (auto simp: same_data_def)
  qed
next
  case (Suc n)
  show ?case
  proof (cases "p < ed_len d")
    case True
    with r show ?thesis
      by (auto intro!: reads_rules d reads_cases [OF Suc.IH [where Q = "\<lambda>_ _. True"]] Suc.prems)
  next
    case False
    with Suc d r show ?thesis by (intro reads_behind_end) (auto simp: same_data_def)
  qed
qed

lemma reads_skip_run [reads_rules]:
  assumes "same_data d d'" "\<And>p'. Q () p'"
  shows "reads_to r (skip_run d n) (skip_run d' n) Q p"
  by (induction n arbitrary: p) (auto intro!: reads_rules assms)

lemma reads_skip_times [reads_rules]:
  assumes "same_data d d'" "\<And>p'. Q () p'"
  shows "reads_to r (skip_times d n k) (skip_times d' n k) Q p"
  using assms(2) by (induction k arbitrary: p) (auto intro!: reads_rules assms(1))

section \<open>The events\<close>

text \<open>
  What the functions for the single events read of the extended data: those that print no name stay
  within the data, those that do may read one byte more.
\<close>

named_theorems event_reads \<open>what the function for one event reads\<close>

lemmas reads_post = reads_cases [of _ _ _ "\<lambda>_ _. True"]

lemma reads_PrintUint32 [reads_rules]:
  assumes "same_data d d'" "data_end d \<le> r" "\<And>x p'. p \<le> p' \<Longrightarrow> Q x p'"
  shows "reads_to r (PrintUint32 d t) (PrintUint32 d' t) Q p"
  unfolding PrintUint32_def by (auto intro!: reads_rules assms)

lemma reads_PrintUint16 [reads_rules]:
  assumes "same_data d d'" "data_end d \<le> r" "\<And>x p'. p \<le> p' \<Longrightarrow> Q x p'"
  shows "reads_to r (PrintUint16 d t) (PrintUint16 d' t) Q p"
  unfolding PrintUint16_def by (auto intro!: reads_rules assms)

lemma reads_handle [reads_rules]:
  assumes "same_data d d'" "data_end d \<le> r" "\<And>x p'. p \<le> p' \<Longrightarrow> Q x p'"
  shows "reads_to r (PrintInterfaceHandleUint32 d) (PrintInterfaceHandleUint32 d') Q p"
  unfolding PrintInterfaceHandleUint32_def by (auto intro!: reads_rules assms)

lemma reads_network_interface [reads_rules]:
  assumes "same_data d d'" "data_end d \<le> r" "\<And>x p'. p \<le> p' \<Longrightarrow> Q x p'"
  shows "reads_to r (network_interface d t) (network_interface d' t) Q p"
  unfolding network_interface_def by (auto intro!: reads_rules assms)

lemma reads_dotted_quad [reads_rules]:
  assumes "same_data d d'" "data_end d \<le> r" "p + 4 \<le> ed_len d" "\<And>x. Q x p"
  shows "reads_to r (dotted_quad d) (dotted_quad d') Q p"
  unfolding dotted_quad_def using assms by (auto intro!: reads_rules)

lemma reads_ipv4_addresses [reads_rules]:
  assumes "same_data d d'" "data_end d \<le> r" "\<And>x p'. Q x p'"
  shows "reads_to r (ipv4_addresses d ts) (ipv4_addresses d' ts) Q p"
  using assms(3)
proof (induction ts arbitrary: p Q)
  case (Cons t ts)
  show ?case
    by (auto intro!: reads_rules assms Cons.prems reads_post [OF Cons.IH])
qed (auto intro!: reads_rules)

lemma reads_hex_groups [reads_rules]:
  assumes "same_data d d'" "data_end d \<le> r" "p + 16 \<le> ed_len d" "\<And>x. Q x p"
  shows "reads_to r (hex_groups d k) (hex_groups d' k) Q p"
  using assms(4)
proof (induction "16 - k" arbitrary: k Q rule: less_induct)
  case less
  have step: "reads_to r (hex_groups d j) (hex_groups d' j) R p" if "k < j" "k < 16" "\<And>x. R x p" for j R
    by (rule less.hyps) (use that in auto)
  show ?case
    unfolding hex_groups.simps [of d k] hex_groups.simps [of d' k] Let_def
    using assms(3) by (auto intro!: reads_rules assms(1,2) step less.prems elim!: evenE)
qed

lemma reads_ipv6_addresses [reads_rules]:
  assumes "same_data d d'" "data_end d \<le> r" "\<And>x p'. Q x p'"
  shows "reads_to r (ipv6_addresses d ts) (ipv6_addresses d' ts) Q p"
  using assms(3)
proof (induction ts arbitrary: p Q)
  case (Cons t ts)
  show ?case
    by (auto intro!: reads_rules assms Cons.prems reads_post [OF Cons.IH])
qed (auto intro!: reads_rules)

lemma reads_agent_id [reads_rules]:
  assumes "same_data d d'" "data_end d \<le> r" "i + n \<le> ed_len d" "\<And>x. Q x p"
  shows "reads_to r (agent_id d i n) (agent_id d' i n) Q p"
  using assms(3,4)
proof (induction n arbitrary: i Q)
  case (Suc n)
  then show ?case
    by (auto intro!: reads_rules assms(1,2) Suc.IH)
qed (auto intro!: reads_rules)

lemma reads_DisplayAgentID [reads_rules]:
  assumes "same_data d d'" "data_end d \<le> r" "16 \<le> ed_len d" "\<And>x. Q x p"
  shows "reads_to r (DisplayAgentID d) (DisplayAgentID d') Q p"
  unfolding DisplayAgentID_def by (auto intro!: reads_rules assms)

lemma reads_DisplayFirmwareVerion [reads_rules]:
  assumes "same_data d d'" "data_end d \<le> r" "i + 8 \<le> ed_len d" "\<And>x. Q x p"
  shows "reads_to r (DisplayFirmwareVerion d i) (DisplayFirmwareVerion d' i) Q p"
  unfolding DisplayFirmwareVerion_def using assms by (auto intro!: reads_rules)

lemma reads_DisplayTimeStamp [reads_rules]:
  assumes "same_data d d'" "data_end d \<le> r" "4 \<le> ed_len d" "\<And>x. Q x p"
  shows "reads_to r (DisplayTimeStamp d) (DisplayTimeStamp d') Q p"
  unfolding DisplayTimeStamp_def by (auto intro!: reads_rules assms)

lemma reads_raw_number [reads_rules]:
  assumes "same_data d d'" "data_end d \<le> r" "4 \<le> ed_len d" "\<And>x. Q x p"
  shows "reads_to r (raw_number d) (raw_number d') Q p"
  unfolding raw_number_def by (auto intro!: reads_rules reads_peeks assms)

lemma reads_titled_name [reads_rules]:
  assumes "same_data d d'" "data_end d < r" "\<And>x p'. Q x p'"
  shows "reads_to r (titled_name d t u) (titled_name d' t u) Q p"
  unfolding titled_name_def using assms by (auto intro!: reads_rules reads_name_run)

lemma reads_user [reads_rules]:
  assumes "same_data d d'" "data_end d < r" "\<And>x p'. Q x p'"
  shows "reads_to r (DisplayBasicUsernameSidInformation d a) (DisplayBasicUsernameSidInformation d' a) Q p"
  unfolding DisplayBasicUsernameSidInformation_def
  using assms by (auto intro!: reads_rules reads_name_run)

lemma reads_profile [reads_rules]:
  assumes "same_data d d'" "data_end d < r" "\<And>x p'. Q x p'"
  shows "reads_to r (DisplayFullWirelessProfileName d) (DisplayFullWirelessProfileName d') Q p"
  unfolding DisplayFullWirelessProfileName_def DisplayWirelessProfileName_def
  using assms same_dataD [OF assms(1)] by (auto intro!: reads_rules reads_name_run)

lemma reads_SecurityAdminAclAccessWithInvalidCredentialsEvent [event_reads]:
  assumes "same_data d d'" "data_end d \<le> r"
  shows "reads_to r (DisplaySecurityAdminAclAccessWithInvalidCredentialsEvent d) (DisplaySecurityAdminAclAccessWithInvalidCredentialsEvent d') (\<lambda>_ _. True) p"
  unfolding DisplaySecurityAdminAclAccessWithInvalidCredentialsEvent_def using assms same_dataD(2) [OF assms(1)] by (auto intro!: reads_rules)

lemma reads_SecurityAdminTlsStateChangedEvent [event_reads]:
  assumes "same_data d d'" "data_end d \<le> r"
  shows "reads_to r (DisplaySecurityAdminTlsStateChangedEvent d) (DisplaySecurityAdminTlsStateChangedEvent d') (\<lambda>_ _. True) p"
  unfolding DisplaySecurityAdminTlsStateChangedEvent_def using assms same_dataD(2) [OF assms(1)] by (auto intro!: reads_rules)

lemma reads_SecurityAdminTlsCertificateRelatedEvent [event_reads]:
  assumes "same_data d d'" "data_end d \<le> r"
  shows "reads_to r (DisplaySecurityAdminTlsCertificateRelatedEvent d) (DisplaySecurityAdminTlsCertificateRelatedEvent d') (\<lambda>_ _. True) p"
  unfolding DisplaySecurityAdminTlsCertificateRelatedEvent_def using assms same_dataD(2) [OF assms(1)] by (auto intro!: reads_rules)

lemma reads_SecurityAdminKerberosSettingsModifiedEvent [event_reads]:
  assumes "same_data d d'" "data_end d \<le> r"
  shows "reads_to r (DisplaySecurityAdminKerberosSettingsModifiedEvent d) (DisplaySecurityAdminKerberosSettingsModifiedEvent d') (\<lambda>_ _. True) p"
  unfolding DisplaySecurityAdminKerberosSettingsModifiedEvent_def using assms same_dataD(2) [OF assms(1)] by (auto intro!: reads_rules)

lemma reads_SecurityAdminPowerPackageModifiedEvent [event_reads]:
  assumes "same_data d d'" "data_end d \<le> r"
  shows "reads_to r (DisplaySecurityAdminPowerPackageModifiedEvent d) (DisplaySecurityAdminPowerPackageModifiedEvent d') (\<lambda>_ _. True) p"
  unfolding DisplaySecurityAdminPowerPackageModifiedEvent_def using assms same_dataD(2) [OF assms(1)] by (auto intro!: reads_rules)

lemma reads_SecurityAdminSetRealmAuthenticationModeEvent [event_reads]:
  assumes "same_data d d'" "data_end d \<le> r"
  shows "reads_to r (DisplaySecurityAdminSetRealmAuthenticationModeEvent d) (DisplaySecurityAdminSetRealmAuthenticationModeEvent d') (\<lambda>_ _. True) p"
  unfolding DisplaySecurityAdminSetRealmAuthenticationModeEvent_def using assms same_dataD(2) [OF assms(1)] by (auto intro!: reads_rules)

lemma reads_SecurityAdminUnprovisioningCompleted [event_reads]:
  assumes "same_data d d'" "data_end d \<le> r"
  shows "reads_to r (DisplaySecurityAdminUnprovisioningCompleted d) (DisplaySecurityAdminUnprovisioningCompleted d') (\<lambda>_ _. True) p"
  unfolding DisplaySecurityAdminUnprovisioningCompleted_def using assms same_dataD(2) [OF assms(1)] by (auto intro!: reads_rules)

lemma reads_RemoteControlBootOptionsRelatedEvent [event_reads]:
  assumes "same_data d d'" "data_end d \<le> r"
  shows "reads_to r (DisplayRemoteControlBootOptionsRelatedEvent d) (DisplayRemoteControlBootOptionsRelatedEvent d') (\<lambda>_ _. True) p"
  unfolding DisplayRemoteControlBootOptionsRelatedEvent_def using assms same_dataD(2) [OF assms(1)] by (auto intro!: reads_rules)

lemma reads_FirmwareUpdatedEvent [event_reads]:
  assumes "same_data d d'" "data_end d \<le> r"
  shows "reads_to r (DisplayFirmwareUpdatedEvent d) (DisplayFirmwareUpdatedEvent d') (\<lambda>_ _. True) p"
  unfolding DisplayFirmwareUpdatedEvent_def using assms same_dataD(2) [OF assms(1)] by (auto intro!: reads_rules)

lemma reads_FirmwareUpdatedFailedEvent [event_reads]:
  assumes "same_data d d'" "data_end d \<le> r"
  shows "reads_to r (DisplayFirmwareUpdatedFailedEvent d) (DisplayFirmwareUpdatedFailedEvent d') (\<lambda>_ _. True) p"
  unfolding DisplayFirmwareUpdatedFailedEvent_def using assms same_dataD(2) [OF assms(1)] by (auto intro!: reads_rules)

lemma reads_SecurityAuditLogRecoveryEvent [event_reads]:
  assumes "same_data d d'" "data_end d \<le> r"
  shows "reads_to r (DisplaySecurityAuditLogRecoveryEvent d) (DisplaySecurityAuditLogRecoveryEvent d') (\<lambda>_ _. True) p"
  unfolding DisplaySecurityAuditLogRecoveryEvent_def using assms same_dataD(2) [OF assms(1)] by (auto intro!: reads_rules)

lemma reads_NetworkTimeTimeSetEvent [event_reads]:
  assumes "same_data d d'" "data_end d \<le> r"
  shows "reads_to r (DisplayNetworkTimeTimeSetEvent d) (DisplayNetworkTimeTimeSetEvent d') (\<lambda>_ _. True) p"
  unfolding DisplayNetworkTimeTimeSetEvent_def using assms same_dataD(2) [OF assms(1)] by (auto intro!: reads_rules)

lemma reads_NetworkAdminTcpIpParameterSetEvent [event_reads]:
  assumes "same_data d d'" "data_end d \<le> r"
  shows "reads_to r (DisplayNetworkAdminTcpIpParameterSetEvent d) (DisplayNetworkAdminTcpIpParameterSetEvent d') (\<lambda>_ _. True) p"
  unfolding DisplayNetworkAdminTcpIpParameterSetEvent_def using assms same_dataD(2) [OF assms(1)] by (auto intro!: reads_rules)

lemma reads_NetworkAdminVlanParameterSetEvent [event_reads]:
  assumes "same_data d d'" "data_end d \<le> r"
  shows "reads_to r (DisplayNetworkAdminVlanParameterSetEvent d) (DisplayNetworkAdminVlanParameterSetEvent d') (\<lambda>_ _. True) p"
  unfolding DisplayNetworkAdminVlanParameterSetEvent_def using assms same_dataD(2) [OF assms(1)] by (auto intro!: reads_rules)

lemma reads_NetworkAdminIPv6ParamsEvent [event_reads]:
  assumes "same_data d d'" "data_end d \<le> r"
  shows "reads_to r (DisplayNetworkAdminIPv6ParamsEvent d) (DisplayNetworkAdminIPv6ParamsEvent d') (\<lambda>_ _. True) p"
  unfolding DisplayNetworkAdminIPv6ParamsEvent_def using assms same_dataD(2) [OF assms(1)] by (auto intro!: reads_rules)

lemma reads_StorageAdminGlobalStorageAttributesSetEvent [event_reads]:
  assumes "same_data d d'" "data_end d \<le> r"
  shows "reads_to r (DisplayStorageAdminGlobalStorageAttributesSetEvent d) (DisplayStorageAdminGlobalStorageAttributesSetEvent d') (\<lambda>_ _. True) p"
  unfolding DisplayStorageAdminGlobalStorageAttributesSetEvent_def using assms same_dataD(2) [OF assms(1)] by (auto intro!: reads_rules)

lemma reads_EventManagerAlertRelatedEvent [event_reads]:
  assumes "same_data d d'" "data_end d \<le> r"
  shows "reads_to r (DisplayEventManagerAlertRelatedEvent d) (DisplayEventManagerAlertRelatedEvent d') (\<lambda>_ _. True) p"
  unfolding DisplayEventManagerAlertRelatedEvent_def using assms same_dataD(2) [OF assms(1)] by (auto intro!: reads_rules)

lemma reads_EventLogFrozenEvent [event_reads]:
  assumes "same_data d d'" "data_end d \<le> r"
  shows "reads_to r (DisplayEventLogFrozenEvent d) (DisplayEventLogFrozenEvent d') (\<lambda>_ _. True) p"
  unfolding DisplayEventLogFrozenEvent_def using assms same_dataD(2) [OF assms(1)] by (auto intro!: reads_rules)

lemma reads_CircuitBreakerFilterRemovedEvent [event_reads]:
  assumes "same_data d d'" "data_end d \<le> r"
  shows "reads_to r (DisplayCircuitBreakerFilterRemovedEvent d) (DisplayCircuitBreakerFilterRemovedEvent d') (\<lambda>_ _. True) p"
  unfolding DisplayCircuitBreakerFilterRemovedEvent_def using assms same_dataD(2) [OF assms(1)] by (auto intro!: reads_rules)

lemma reads_CircuitBreakerPolicyRemovedEvent [event_reads]:
  assumes "same_data d d'" "data_end d \<le> r"
  shows "reads_to r (DisplayCircuitBreakerPolicyRemovedEvent d) (DisplayCircuitBreakerPolicyRemovedEvent d') (\<lambda>_ _. True) p"
  unfolding DisplayCircuitBreakerPolicyRemovedEvent_def using assms same_dataD(2) [OF assms(1)] by (auto intro!: reads_rules)

lemma reads_CircuitBreakerDefaultPolicySetEvent [event_reads]:
  assumes "same_data d d'" "data_end d \<le> r"
  shows "reads_to r (DisplayCircuitBreakerDefaultPolicySetEvent d) (DisplayCircuitBreakerDefaultPolicySetEvent d') (\<lambda>_ _. True) p"
  unfolding DisplayCircuitBreakerDefaultPolicySetEvent_def using assms same_dataD(2) [OF assms(1)] by (auto intro!: reads_rules)

lemma reads_CircuitBreakerHeuristicsOptionSetEvent [event_reads]:
  assumes "same_data d d'" "data_end d \<le> r"
  shows "reads_to r (DisplayCircuitBreakerHeuristicsOptionSetEvent d) (DisplayCircuitBreakerHeuristicsOptionSetEvent d') (\<lambda>_ _. True) p"
  unfolding DisplayCircuitBreakerHeuristicsOptionSetEvent_def using assms same_dataD(2) [OF assms(1)] by (auto intro!: reads_rules)

lemma reads_CircuitBreakerHeuristicsStateClearedEvent [event_reads]:
  assumes "same_data d d'" "data_end d \<le> r"
  shows "reads_to r (DisplayCircuitBreakerHeuristicsStateClearedEvent d) (DisplayCircuitBreakerHeuristicsStateClearedEvent d') (\<lambda>_ _. True) p"
  unfolding DisplayCircuitBreakerHeuristicsStateClearedEvent_def using assms same_dataD(2) [OF assms(1)] by (auto intro!: reads_rules)

lemma reads_AgentPresenceAgentWatchdogAddedEvent [event_reads]:
  assumes "same_data d d'" "data_end d \<le> r"
  shows "reads_to r (DisplayAgentPresenceAgentWatchdogAddedEvent d) (DisplayAgentPresenceAgentWatchdogAddedEvent d') (\<lambda>_ _. True) p"
  unfolding DisplayAgentPresenceAgentWatchdogAddedEvent_def using assms same_dataD(2) [OF assms(1)] by (auto intro!: reads_rules)

lemma reads_AgentPresenceAgentWatchdogRemovedEvent [event_reads]:
  assumes "same_data d d'" "data_end d \<le> r"
  shows "reads_to r (DisplayAgentPresenceAgentWatchdogRemovedEvent d) (DisplayAgentPresenceAgentWatchdogRemovedEvent d') (\<lambda>_ _. True) p"
  unfolding DisplayAgentPresenceAgentWatchdogRemovedEvent_def using assms same_dataD(2) [OF assms(1)] by (auto intro!: reads_rules)

lemma reads_AgentPresenceAgentWatchdogActionSetEvent [event_reads]:
  assumes "same_data d d'" "data_end d \<le> r"
  shows "reads_to r (DisplayAgentPresenceAgentWatchdogActionSetEvent d) (DisplayAgentPresenceAgentWatchdogActionSetEvent d') (\<lambda>_ _. True) p"
  unfolding DisplayAgentPresenceAgentWatchdogActionSetEvent_def using assms same_dataD(2) [OF assms(1)] by (auto intro!: reads_rules)

lemma reads_WirelessProfileSyncChangeEvent [event_reads]:
  assumes "same_data d d'" "data_end d \<le> r"
  shows "reads_to r (DisplayWirelessProfileSyncChangeEvent d) (DisplayWirelessProfileSyncChangeEvent d') (\<lambda>_ _. True) p"
  unfolding DisplayWirelessProfileSyncChangeEvent_def using assms same_dataD(2) [OF assms(1)] by (auto intro!: reads_rules)

lemma reads_WirelessProfileLinkPreferenceChanged [event_reads]:
  assumes "same_data d d'" "data_end d \<le> r"
  shows "reads_to r (DisplayWirelessProfileLinkPreferenceChanged d) (DisplayWirelessProfileLinkPreferenceChanged d') (\<lambda>_ _. True) 0"
  unfolding DisplayWirelessProfileLinkPreferenceChanged_def using assms same_dataD(2) [OF assms(1)] by (auto intro!: reads_rules)

lemma reads_EacSetOptionsEvent [event_reads]:
  assumes "same_data d d'" "data_end d \<le> r"
  shows "reads_to r (DisplayEacSetOptionsEvent d) (DisplayEacSetOptionsEvent d') (\<lambda>_ _. True) p"
  unfolding DisplayEacSetOptionsEvent_def using assms same_dataD(2) [OF assms(1)] by (auto intro!: reads_rules)

lemma reads_OptInPolicyChangeEvent [event_reads]:
  assumes "same_data d d'" "data_end d \<le> r"
  shows "reads_to r (DisplayOptInPolicyChangeEvent d) (DisplayOptInPolicyChangeEvent d') (\<lambda>_ _. True) p"
  unfolding DisplayOptInPolicyChangeEvent_def using assms same_dataD(2) [OF assms(1)] by (auto intro!: reads_rules)

lemma reads_SendConsentCodeEvent [event_reads]:
  assumes "same_data d d'" "data_end d \<le> r"
  shows "reads_to r (DisplaySendConsentCodeEvent d) (DisplaySendConsentCodeEvent d') (\<lambda>_ _. True) p"
  unfolding DisplaySendConsentCodeEvent_def using assms same_dataD(2) [OF assms(1)] by (auto intro!: reads_rules)

lemma reads_WatchdogActionPairingChangedEvent [event_reads]:
  assumes "same_data d d'" "data_end d \<le> r"
  shows "reads_to r (DisplayWatchdogActionPairingChangedEvent d) (DisplayWatchdogActionPairingChangedEvent d') (\<lambda>_ _. True) p"
  unfolding DisplayWatchdogActionPairingChangedEvent_def using assms same_dataD(2) [OF assms(1)] by (auto intro!: reads_rules)

lemma reads_UnknownEvent [event_reads]:
  assumes "same_data d d'" "data_end d \<le> r"
  shows "reads_to r (DisplayUnknownEvent d) (DisplayUnknownEvent d') (\<lambda>_ _. True) p"
  unfolding DisplayUnknownEvent_def using assms same_dataD(2) [OF assms(1)] by (auto intro!: reads_rules)

lemma reads_SecurityAdminAmtProvisioningCompletedEvent [event_reads]:
  assumes "same_data d d'" "data_end d < r"
  shows "reads_to r (DisplaySecurityAdminAmtProvisioningCompletedEvent d) (DisplaySecurityAdminAmtProvisioningCompletedEvent d') (\<lambda>_ _. True) p"
  unfolding DisplaySecurityAdminAmtProvisioningCompletedEvent_def using assms same_dataD(2) [OF assms(1)] by (auto intro!: reads_rules reads_name_run same_data_from)

lemma reads_SecurityAdminAclEntryAddedEvent [event_reads]:
  assumes "same_data d d'" "data_end d < r"
  shows "reads_to r (DisplaySecurityAdminAclEntryAddedEvent d) (DisplaySecurityAdminAclEntryAddedEvent d') (\<lambda>_ _. True) p"
  unfolding DisplaySecurityAdminAclEntryAddedEvent_def using assms same_dataD(2) [OF assms(1)] by (auto intro!: reads_rules reads_name_run same_data_from)

lemma reads_SecurityAdminAclEntryModifiedEvent [event_reads]:
  assumes "same_data d d'" "data_end d < r"
  shows "reads_to r (DisplaySecurityAdminAclEntryModifiedEvent d) (DisplaySecurityAdminAclEntryModifiedEvent d') (\<lambda>_ _. True) p"
  unfolding DisplaySecurityAdminAclEntryModifiedEvent_def using assms same_dataD(2) [OF assms(1)] by (auto intro!: reads_rules reads_name_run same_data_from)

lemma reads_SecurityAdminAclEntryRemovedEvent [event_reads]:
  assumes "same_data d d'" "data_end d < r"
  shows "reads_to r (DisplaySecurityAdminAclEntryRemovedEvent d) (DisplaySecurityAdminAclEntryRemovedEvent d') (\<lambda>_ _. True) p"
  unfolding DisplaySecurityAdminAclEntryRemovedEvent_def using assms same_dataD(2) [OF assms(1)] by (auto intro!: reads_rules reads_name_run same_data_from)

lemma reads_SecurityAdminAclEntryEnabledEvent [event_reads]:
  assumes "same_data d d'" "data_end d < r"
  shows "reads_to r (DisplaySecurityAdminAclEntryEnabledEvent d) (DisplaySecurityAdminAclEntryEnabledEvent d') (\<lambda>_ _. True) p"
  unfolding DisplaySecurityAdminAclEntryEnabledEvent_def using assms same_dataD(2) [OF assms(1)] by (auto intro!: reads_rules reads_name_run same_data_from)

lemma reads_NetworkAdminHostNameSetEvent [event_reads]:
  assumes "same_data d d'" "data_end d < r"
  shows "reads_to r (DisplayNetworkAdminHostNameSetEvent d) (DisplayNetworkAdminHostNameSetEvent d') (\<lambda>_ _. True) p"
  unfolding DisplayNetworkAdminHostNameSetEvent_def using assms same_dataD(2) [OF assms(1)] by (auto intro!: reads_rules reads_name_run same_data_from)

lemma reads_NetworkAdminDomainNameSetEvent [event_reads]:
  assumes "same_data d d'" "data_end d < r"
  shows "reads_to r (DisplayNetworkAdminDomainNameSetEvent d) (DisplayNetworkAdminDomainNameSetEvent d') (\<lambda>_ _. True) p"
  unfolding DisplayNetworkAdminDomainNameSetEvent_def using assms same_dataD(2) [OF assms(1)] by (auto intro!: reads_rules reads_name_run same_data_from)

lemma reads_WirelessProfileAddedEvent [event_reads]:
  assumes "same_data d d'" "data_end d < r"
  shows "reads_to r (DisplayWirelessProfileAddedEvent d) (DisplayWirelessProfileAddedEvent d') (\<lambda>_ _. True) p"
  unfolding DisplayWirelessProfileAddedEvent_def using assms same_dataD(2) [OF assms(1)] by (auto intro!: reads_rules reads_name_run same_data_from)

lemma reads_WirelessProfileRemovedEvent [event_reads]:
  assumes "same_data d d'" "data_end d < r"
  shows "reads_to r (DisplayWirelessProfileRemovedEvent d) (DisplayWirelessProfileRemovedEvent d') (\<lambda>_ _. True) p"
  unfolding DisplayWirelessProfileRemovedEvent_def DisplayWirelessProfileName_def using assms same_dataD(2) [OF assms(1)] by (auto intro!: reads_rules reads_name_run same_data_from)

lemma reads_WirelessProfileUpdatedEvent [event_reads]:
  assumes "same_data d d'" "data_end d < r"
  shows "reads_to r (DisplayWirelessProfileUpdatedEvent d) (DisplayWirelessProfileUpdatedEvent d') (\<lambda>_ _. True) p"
  unfolding DisplayWirelessProfileUpdatedEvent_def using assms same_dataD(2) [OF assms(1)] by (auto intro!: reads_rules reads_name_run same_data_from)

text \<open>The link policy is read as four bytes where one is left.\<close>

lemma reads_four_bytes:
  assumes "ed_org d + p + 4 \<le> r" "\<And>x. Q x p"
  shows "reads_to r (number_here d 4) (number_here d 4) Q p"
  unfolding number_here_def number_at_def using assms
  by (auto intro!: reads_rules reads_peek simp: eval_nat_numeral)

lemma reads_NetworkAdminLinkPolicySetEvent:
  assumes "data_end d + 3 \<le> r"
  shows "reads_to r (DisplayNetworkAdminLinkPolicySetEvent d) (DisplayNetworkAdminLinkPolicySetEvent d) (\<lambda>_ _. True) p"
  unfolding DisplayNetworkAdminLinkPolicySetEvent_def using assms
  by (auto intro!: reads_rules reads_four_bytes)

subsection \<open>All events\<close>

text \<open>How far behind the extended data the text for an event may read.\<close>

definition name_event :: "nat \<Rightarrow> nat \<Rightarrow> bool" where
  "name_event app ev \<longleftrightarrow> (app = 16 \<and> ev \<in> {1, 2, 3, 4, 6}) \<or> (app = 22 \<and> ev \<in> {1, 2})
     \<or> (app = 27 \<and> ev \<in> {0, 1, 2})"

definition link_policy_event :: "nat \<Rightarrow> nat \<Rightarrow> bool" where
  "link_policy_event app ev \<longleftrightarrow> app = 22 \<and> ev = 4"

definition reads_behind_by :: "nat \<Rightarrow> nat \<Rightarrow> nat" where
  "reads_behind_by app ev = (if name_event app ev then 1 else if link_policy_event app ev then 3 else 0)"

lemmas event_groups = security_admin_event_def network_admin_event_def cb_manager_event_def
  wireless_event_def

lemmas event_cases = reads_behind_by_def name_event_def link_policy_event_def

lemma reads_display_event:
  assumes "same_data d d'" "data_end d + reads_behind_by app ev \<le> r" "\<not> link_policy_event app ev"
  shows "reads_to r (display_event app ev d) (display_event app ev d') (\<lambda>_ _. True) 0"
  unfolding display_event_def event_groups using assms
  by (intro reads_if event_reads reads_give) (auto simp: event_cases split: if_splits)

lemma reads_link_policy:
  assumes "link_policy_event app ev" "data_end d + reads_behind_by app ev \<le> r"
  shows "reads_to r (display_event app ev d) (display_event app ev d) (\<lambda>_ _. True) 0"
  using assms reads_NetworkAdminLinkPolicySetEvent [of d r 0]
  by (simp add: display_event_def network_admin_event_def event_cases)

lemma same_copied_data: "same_data (copied_data h xs) (copied_data h' xs)"
  by (simp add: same_data_def copied_data_def)

lemma copied_data_end [simp]: "ed_org (copied_data h xs) = 0" "ed_len (copied_data h xs) = length xs"
  by (simp_all add: copied_data_def)

lemma reads_to_start:
  assumes "reads_to r m m' Q 0"
  shows "run_state m' at_start = run_state m at_start" "cu_reach (snd (run_state m at_start)) \<le> r"
  using assms unfolding reads_to_def at_start_def by (auto dest!: spec [of _ 0])

lemma display_reach:
  "snd (DisplayExtendedData h app ev xs n) \<le> length xs + reads_behind_by app ev"
proof (cases "link_policy_event app ev")
  case True
  then show ?thesis
    using reads_to_start(2) [OF reads_link_policy [of app ev "copied_data h xs" "length xs + reads_behind_by app ev"]]
    by (simp add: DisplayExtendedData_def case_prod_unfold)
next
  case False
  then show ?thesis
    using reads_to_start(2) [OF reads_display_event [of "copied_data h xs" "copied_data h xs" app ev
        "length xs + reads_behind_by app ev"]]
    by (simp add: DisplayExtendedData_def case_prod_unfold)
qed

lemma display_from_data:
  assumes "\<not> link_policy_event app ev"
  shows "DisplayExtendedData h app ev xs n = DisplayExtendedData h' app ev xs n"
  using reads_to_start(1) [OF reads_display_event [OF same_copied_data order_refl assms, of h xs h']]
  by (simp add: DisplayExtendedData_def)

end
