(* ===== verification/Audit_Correct.thy ===== *)
theory Audit_Correct
  imports Audit_Reads
begin

section \<open>The parser of a record\<close>

text \<open>
  The parser of a record: the part before the extended data never reads behind the record, whatever
  its bytes; what becomes of the extended data, for every number of bytes announced and present;
  and a record that was encoded is read back.
\<close>

subsection \<open>The pointer and the number of bytes left agree\<close>

definition coherent :: "bytes \<Rightarrow> rec_state \<Rightarrow> bool" where
  "coherent b s \<longleftrightarrow> rs_pos s \<le> length b \<and> rs_left s = of_nat (length b - rs_pos s)"

definition sound_step :: "bytes \<Rightarrow> rec_step \<Rightarrow> bool" where
  "sound_step b o1 = (case o1 of Going s \<Rightarrow> coherent b s | Refused s \<Rightarrow> True | Reads_behind \<Rightarrow> False)"

lemma sound_simps [simp]: "sound_step b (Going s) = coherent b s" "sound_step b (Refused s)"
  "\<not> sound_step b Reads_behind"
  by (simp_all add: sound_step_def)

lemma of_nat_less_32: "m < 2 ^ 32 \<Longrightarrow> n < 2 ^ 32 \<Longrightarrow> (of_nat m :: u32) < of_nat n \<longleftrightarrow> m < n"
  by (simp add: word_less_nat_alt unat_of_nat)

lemma of_nat_eq_32: "m < 2 ^ 32 \<Longrightarrow> n < 2 ^ 32 \<Longrightarrow> (of_nat m :: u32) = of_nat n \<longleftrightarrow> m = n"
  by (simp add: word_unat_eq_iff unat_of_nat)

lemma coherent_left_less:
  "coherent b s \<Longrightarrow> length b < 2 ^ 32 \<Longrightarrow> n < 2 ^ 32 \<Longrightarrow> rs_left s < of_nat n \<longleftrightarrow> length b < rs_pos s + n"
  by (auto simp: coherent_def of_nat_less_32 simp del: of_nat_diff)

lemma fill_sound:
  assumes "coherent b s" "length b < 2 ^ 32" "n < 2 ^ 32"
  shows "sound_step b (fill b n f s)"
  using assms coherent_left_less [OF assms] by (auto simp: fill_def coherent_def of_nat_diff)

lemma push_sound:
  assumes "length b < 2 ^ 32" "coherent b s"
  shows "sound_step b (push_bytes b 1 f n s)"
  using assms(2)
proof (induction n arbitrary: s)
  case (Suc n)
  from coherent_left_less [OF Suc.prems assms(1), of 1] show ?case
    using Suc.prems by (auto intro!: Suc.IH simp: coherent_def of_nat_diff)
qed simp

lemma on_record_sound: "coherent b s \<Longrightarrow> sound_step b (on_record f s)"
  by (simp add: on_record_def coherent_def)

lemma steps_sound:
  "coherent b s \<Longrightarrow> (\<And>f s. f \<in> set fs \<Longrightarrow> coherent b s \<Longrightarrow> sound_step b (f s)) \<Longrightarrow> sound_step b (run_steps fs s)"
proof (induction fs arbitrary: s)
  case (Cons f fs)
  from Cons.prems have "sound_step b (f s)" by simp
  then show ?case
    by (cases "f s") (auto intro!: Cons.IH intro: Cons.prems(2))
qed simp

lemma initiator_sound: "coherent b s \<Longrightarrow> length b < 2 ^ 32 \<Longrightarrow> sound_step b (initiator b s)"
  unfolding initiator_def Let_def digest_initiator_def kerberos_initiator_def
  by (auto intro!: steps_sound simp: fill_byte_def fill_sound push_sound on_record_sound simp del: run_steps.simps)

lemma record_head_sound: "coherent b s \<Longrightarrow> length b < 2 ^ 32 \<Longrightarrow> sound_step b (record_head b s)"
  unfolding record_head_def
  by (rule steps_sound) (auto simp: fill_byte_def fill_sound push_sound on_record_sound initiator_sound)

subsection \<open>The extended data\<close>

text \<open>The outcome of the last loop from its \<^verbatim>\<open>j\<close>-th turn on, with \<^verbatim>\<open>m\<close> bytes present at its start.\<close>

lemma left_zero:
  assumes "m < 2 ^ 32" "24 * j < 2 ^ 32"
  shows "(of_nat m - of_nat (24 * j) :: u32) < 1 \<longleftrightarrow> m = 24 * j"
  using of_nat_eq_32 [OF assms] by (simp add: word_less_1)

lemma push_extended:
  assumes "length b = p + m" "length b < 2 ^ 32" "j + n < 2 ^ 16" "j \<le> m"
  shows "push_bytes b 24 push_ExtendedData n
      \<lparr>rs_pos = p + j, rs_left = of_nat m - of_nat (24 * j), rs_rec = r\<rparr> =
    (if 24 dvd m \<and> j \<le> m div 24 \<and> m div 24 < j + n then
       Refused \<lparr>rs_pos = p + m div 24, rs_left = 0,
         rs_rec = r\<lparr>ar_ExtendedData := ar_ExtendedData r @ take (m div 24 - j) (drop (p + j) b)\<rparr>\<rparr>
     else if m < j + n then Reads_behind
     else Going \<lparr>rs_pos = p + j + n, rs_left = of_nat m - of_nat (24 * (j + n)),
         rs_rec = r\<lparr>ar_ExtendedData := ar_ExtendedData r @ take n (drop (p + j) b)\<rparr>\<rparr>)"
  using assms(3,4)
proof (induction n arbitrary: j r)
  case (Suc n)
  from assms(1,2) have m: "m < 2 ^ 32" by simp
  note zero = left_zero [OF m, of j]
  show ?case
  proof (cases "m = 24 * j \<or> j = m")
    case True
    with Suc.prems assms zero show ?thesis by auto
  next
    case False
    then have go: "m \<noteq> 24 * j" "j < m" using Suc.prems by auto
    have one: "take (Suc k) (drop (p + j) b) = b ! (p + j) # take k (drop (Suc (p + j)) b)" for k
      using go assms(1) by (metis Cons_nth_drop_Suc add_less_cancel_left take_Suc_Cons)
    have same: "(24 dvd m \<and> j \<le> m div 24 \<and> m div 24 < j + Suc n) \<longleftrightarrow>
        (24 dvd m \<and> Suc j \<le> m div 24 \<and> m div 24 < Suc j + n)"
      using go(1) by (auto elim!: dvdE)
    have turn: "push_bytes b 24 push_ExtendedData (Suc n)
        \<lparr>rs_pos = p + j, rs_left = of_nat m - of_nat (24 * j), rs_rec = r\<rparr> =
      push_bytes b 24 push_ExtendedData n
        \<lparr>rs_pos = p + Suc j, rs_left = of_nat m - of_nat (24 * Suc j), rs_rec = push_ExtendedData (b ! (p + j)) r\<rparr>"
      using go zero Suc.prems assms(1) by (simp add: algebra_simps)
    have hyps: "Suc j + n < 2 ^ 16" "Suc j \<le> m" using Suc.prems go by auto
    have sub: "m div 24 - j = Suc (m div 24 - Suc j)" if "Suc j \<le> m div 24" using that by simp
    show ?thesis
      unfolding turn Suc.IH [OF hyps] same
      by (simp add: push_ExtendedData_def one sub)
  qed
qed auto

definition record_start :: "bytes \<Rightarrow> audit_record \<Rightarrow> rec_state" where
  "record_start b r = \<lparr>rs_pos = 0, rs_left = of_nat (length b), rs_rec = r\<rparr>"

lemma start_coherent: "coherent b (record_start b r)"
  by (simp add: coherent_def record_start_def)

lemma record_outcome:
  assumes b: "length b < 2 ^ 32" and head: "record_head b (record_start b r) = Going s"
    and m: "m = length b - rs_pos s" and n: "n = unat (ar_ExtendedDataLength (rs_rec s))"
  shows "AuditLogRecordFromBinaryBase64Data b r =
    (if 24 dvd m \<and> m div 24 < n then
       Refused \<lparr>rs_pos = rs_pos s + m div 24, rs_left = 0,
         rs_rec = (rs_rec s)\<lparr>ar_ExtendedData := take (m div 24) (drop (rs_pos s) b)\<rparr>\<rparr>
     else if m < n then Reads_behind
     else Going \<lparr>rs_pos = rs_pos s + n, rs_left = of_nat m - of_nat (24 * n),
         rs_rec = (rs_rec s)\<lparr>ar_ExtendedData := take n (drop (rs_pos s) b)\<rparr>\<rparr>)"
proof -
  from record_head_sound [OF start_coherent b, of r] head have c: "coherent b s" by simp
  have "unat (ar_ExtendedDataLength (rs_rec s)) < 2 ^ LENGTH(8)" by (rule unsigned_less)
  then have n16: "0 + n < 2 ^ 16" using n by simp
  from c have bm: "length b = rs_pos s + m" by (simp add: coherent_def m)
  have "push_bytes b 24 push_ExtendedData n (s\<lparr>rs_rec := (rs_rec s)\<lparr>ar_ExtendedData := []\<rparr>\<rparr>)
      = push_bytes b 24 push_ExtendedData n \<lparr>rs_pos = rs_pos s + 0, rs_left = of_nat m - of_nat (24 * 0),
          rs_rec = (rs_rec s)\<lparr>ar_ExtendedData := []\<rparr>\<rparr>"
    using c by (cases s) (simp add: coherent_def m del: of_nat_diff)
  with push_extended [OF bm b n16, of "(rs_rec s)\<lparr>ar_ExtendedData := []\<rparr>"] head n show ?thesis
    by (simp add: AuditLogRecordFromBinaryBase64Data_def record_start_def record_tail_def on_record_def
        sizeof_vector_def split: rec_step.split)
qed

subsection \<open>Encoding\<close>

definition high_first :: "nat \<Rightarrow> nat \<Rightarrow> bytes" where
  "high_first n v = map (\<lambda>k. of_nat (v div 256 ^ k)) (rev [0..<n])"

lemma length_high_first [simp]: "length (high_first n v) = n"
  by (simp add: high_first_def)

lemma number_low_first: "host_number (map (\<lambda>k. of_nat (v div 256 ^ k)) [0..<n]) = v mod 256 ^ n"
proof (induction n arbitrary: v)
  case (Suc n)
  have "map (\<lambda>k. of_nat (v div 256 ^ k) :: u8) [0..<Suc n]
      = of_nat v # map (\<lambda>k. of_nat (v div 256 div 256 ^ k)) [0..<n]"
    by (simp add: upt_conv_Cons map_Suc_upt [symmetric] div_mult2_eq del: upt_Suc)
  then show ?case
    using Suc.IH [of "v div 256"] by (simp add: host_number_def unat_of_nat mod_mult2_eq)
qed (simp add: host_number_def)

lemma number_high_first: "v < 256 ^ n \<Longrightarrow> host_number (ReverseMemCopy (high_first n v)) = v"
  by (simp add: ReverseMemCopy_def high_first_def rev_map number_low_first)

definition encode_initiator :: "audit_record \<Rightarrow> bytes" where
  "encode_initiator r = (if ar_InitType r = HTTP_DIGEST then ar_UsernameLength r # ar_Username r
     else if ar_InitType r = KERBEROS_SID
       then high_first 4 (ar_UserInDomain r) @ ar_DomainLength r # ar_Domain r
     else [])"

definition encode_head :: "audit_record \<Rightarrow> bytes" where
  "encode_head r = high_first 2 (ar_AuditAppID r) @ high_first 2 (ar_EventID r) @ [ar_InitType r]
     @ encode_initiator r @ high_first 4 (ar_TimeStamp r)
     @ [ar_MCLocationType r, ar_NetAddressLength r] @ ar_NetAddress r @ [ar_ExtendedDataLength r]"

definition encode_record :: "audit_record \<Rightarrow> bytes" where
  "encode_record r = encode_head r @ ar_ExtendedData r"

definition wf_record :: "audit_record \<Rightarrow> bool" where
  "wf_record r \<longleftrightarrow> ar_AuditAppID r < 2 ^ 16 \<and> ar_EventID r < 2 ^ 16 \<and> ar_TimeStamp r < 2 ^ 32
     \<and> ar_UserInDomain r < 2 ^ 32
     \<and> unat (ar_UsernameLength r) = length (ar_Username r)
     \<and> unat (ar_DomainLength r) = length (ar_Domain r)
     \<and> unat (ar_NetAddressLength r) = length (ar_NetAddress r)
     \<and> unat (ar_ExtendedDataLength r) = length (ar_ExtendedData r)"

text \<open>The fields of the other kinds of initiator keep what the structure had.\<close>

definition with_old_initiator :: "audit_record \<Rightarrow> audit_record \<Rightarrow> audit_record" where
  "with_old_initiator old r =
     (let r1 = (if ar_InitType r = HTTP_DIGEST then r
                else r\<lparr>ar_UsernameLength := ar_UsernameLength old, ar_Username := ar_Username old\<rparr>) in
      if ar_InitType r = KERBEROS_SID then r1
      else r1\<lparr>ar_UserInDomain := ar_UserInDomain old, ar_DomainLength := ar_DomainLength old,
        ar_Domain := ar_Domain old\<rparr>)"

text \<open>The state in which the bytes \<open>ys\<close> are still to come.\<close>

definition to_come :: "bytes \<Rightarrow> bytes \<Rightarrow> audit_record \<Rightarrow> rec_state" where
  "to_come b ys r = \<lparr>rs_pos = length b - length ys, rs_left = of_nat (length ys), rs_rec = r\<rparr>"

definition is_tail :: "bytes \<Rightarrow> bytes \<Rightarrow> bool" where
  "is_tail b ys \<longleftrightarrow> (\<exists>pre. b = pre @ ys)"

lemma is_tail_append: "is_tail b (xs @ ys) \<Longrightarrow> is_tail b ys"
  unfolding is_tail_def by (metis append_assoc)

lemma is_tail_Cons: "is_tail b (x # ys) \<Longrightarrow> is_tail b ys"
  using is_tail_append [of b "[x]" ys] by simp

lemma fill_to_come:
  assumes "is_tail b (xs @ ys)" "length b < 2 ^ 32" "length xs = n"
  shows "fill b n f (to_come b (xs @ ys) r) = Going (to_come b ys (f (host_number (ReverseMemCopy xs)) r))"
proof -
  from assms(1) obtain pre where "b = pre @ xs @ ys" by (auto simp: is_tail_def)
  with assms(2,3) of_nat_less_32 [of "length xs + length ys" "length xs"] show ?thesis
    by (auto simp: fill_def to_come_def)
qed

lemma fill_byte_to_come:
  assumes "is_tail b (x # ys)" "length b < 2 ^ 32"
  shows "fill_byte b f (to_come b (x # ys) r) = Going (to_come b ys (f x r))"
  using fill_to_come [of b "[x]" ys 1 "\<lambda>v. f (of_nat v)" r] assms
  by (simp add: fill_byte_def ReverseMemCopy_def host_number_def)

lemma push_to_come:
  assumes "is_tail b (xs @ ys)" "length b < 2 ^ 32"
  shows "push_bytes b 1 f (length xs) (to_come b (xs @ ys) r) = Going (to_come b ys (fold f xs r))"
  using assms
proof (induction xs arbitrary: r)
  case (Cons x xs)
  from Cons.prems(1) obtain pre where b: "b = pre @ x # xs @ ys" by (auto simp: is_tail_def)
  with Cons.prems(2) have "\<not> (of_nat (length (x # xs @ ys)) :: u32) < 1"
    using of_nat_less_32 [of "length (x # xs @ ys)" 1] by simp
  moreover have "to_come b (x # xs @ ys) r = \<lparr>rs_pos = length pre, rs_left = of_nat (length (x # xs @ ys)), rs_rec = r\<rparr>"
    by (simp add: to_come_def b)
  moreover have "to_come b (xs @ ys) (f x r) = \<lparr>rs_pos = length pre + 1,
      rs_left = of_nat (length (x # xs @ ys)) - 1, rs_rec = f x r\<rparr>"
    by (simp add: to_come_def b)
  ultimately show ?case
    using Cons.IH [of "f x r"] Cons.prems is_tail_Cons [of b x "xs @ ys"] by (simp add: b)
qed simp

lemma on_record_to_come [simp]: "on_record f (to_come b ys r) = Going (to_come b ys (f r))"
  by (simp add: on_record_def to_come_def)

lemma rs_rec_to_come [simp]: "rs_rec (to_come b ys r) = r"
  by (simp add: to_come_def)

lemma fold_push:
  "fold push_Username xs r = r\<lparr>ar_Username := ar_Username r @ xs\<rparr>"
  "fold push_Domain xs r = r\<lparr>ar_Domain := ar_Domain r @ xs\<rparr>"
  "fold push_NetAddress xs r = r\<lparr>ar_NetAddress := ar_NetAddress r @ xs\<rparr>"
  by (induction xs arbitrary: r; simp add: push_defs)+

lemmas come_simps = fill_to_come fill_byte_to_come number_high_first fold_push

lemma digest_to_come:
  assumes "is_tail b (n # xs @ ys)" "length b < 2 ^ 32" "unat n = length xs"
  shows "digest_initiator b (to_come b (n # xs @ ys) r)
    = Going (to_come b ys (r\<lparr>ar_UsernameLength := n, ar_Username := xs\<rparr>))"
  using push_to_come [OF is_tail_Cons [OF assms(1)] assms(2)] assms
  by (simp add: digest_initiator_def fill_byte_to_come fold_push)

lemma kerberos_to_come:
  assumes "is_tail b (high_first 4 v @ n # xs @ ys)" "length b < 2 ^ 32" "unat n = length xs" "v < 2 ^ 32"
  shows "kerberos_initiator b (to_come b (high_first 4 v @ n # xs @ ys) r)
    = Going (to_come b ys (r\<lparr>ar_UserInDomain := v, ar_DomainLength := n, ar_Domain := xs\<rparr>))"
proof -
  note t = is_tail_append [OF assms(1)]
  show ?thesis
    using push_to_come [OF is_tail_Cons [OF t] assms(2)] assms
    by (simp add: kerberos_initiator_def fill_to_come [OF assms(1,2)] fill_byte_to_come [OF t assms(2)]
        number_high_first fold_push)
qed

lemma initiator_to_come:
  assumes "is_tail b (encode_initiator r @ ys)" "length b < 2 ^ 32" "wf_record r" "ar_InitType old = ar_InitType r"
  shows "\<exists>q. initiator b (to_come b (encode_initiator r @ ys) old) = Going (to_come b ys q)
    \<and> q = old\<lparr>ar_UsernameLength := ar_UsernameLength (with_old_initiator old r),
        ar_Username := ar_Username (with_old_initiator old r),
        ar_UserInDomain := ar_UserInDomain (with_old_initiator old r),
        ar_DomainLength := ar_DomainLength (with_old_initiator old r),
        ar_Domain := ar_Domain (with_old_initiator old r)\<rparr>"
  using assms unfolding encode_initiator_def initiator_def Let_def with_old_initiator_def
  by (auto simp: wf_record_def digest_to_come kerberos_to_come initiator_defs)

lemma head_to_come:
  assumes b: "is_tail b (encode_head r @ ys)" "length b < 2 ^ 32" and r: "wf_record r"
  shows "record_head b (to_come b (encode_head r @ ys) old)
    = Going (to_come b ys ((with_old_initiator old r)\<lparr>ar_ExtendedData := ar_ExtendedData old\<rparr>))"
proof -
  define y5 where "y5 = ar_ExtendedDataLength r # ys"
  define y4 where "y4 = ar_NetAddress r @ y5"
  define y3 where "y3 = ar_MCLocationType r # ar_NetAddressLength r # y4"
  define y2 where "y2 = high_first 4 (ar_TimeStamp r) @ y3"
  define y1 where "y1 = encode_initiator r @ y2"
  define y0 where "y0 = high_first 2 (ar_EventID r) @ ar_InitType r # y1"
  have all: "encode_head r @ ys = high_first 2 (ar_AuditAppID r) @ y0"
    by (simp add: encode_head_def y0_def y1_def y2_def y3_def y4_def y5_def)
  have t0: "is_tail b y0" using b(1) is_tail_append unfolding all by blast
  have t1': "is_tail b (ar_InitType r # y1)" using t0 is_tail_append unfolding y0_def by blast
  have t1: "is_tail b y1" using is_tail_Cons [OF t1'] .
  have t2: "is_tail b y2" using t1 is_tail_append unfolding y1_def by blast
  have t3: "is_tail b y3" using t2 is_tail_append unfolding y2_def by blast
  have t4': "is_tail b (ar_NetAddressLength r # y4)" using t3 is_tail_Cons unfolding y3_def by blast
  have t4: "is_tail b y4" using is_tail_Cons [OF t4'] .
  have t5: "is_tail b y5" using t4 is_tail_append unfolding y4_def by blast
  define o1 where "o1 = old\<lparr>ar_AuditAppID := ar_AuditAppID r, ar_EventID := ar_EventID r, ar_InitType := ar_InitType r\<rparr>"
  obtain q where q: "initiator b (to_come b y1 o1) = Going (to_come b y2 q)"
    "q = o1\<lparr>ar_UsernameLength := ar_UsernameLength (with_old_initiator o1 r),
        ar_Username := ar_Username (with_old_initiator o1 r),
        ar_UserInDomain := ar_UserInDomain (with_old_initiator o1 r),
        ar_DomainLength := ar_DomainLength (with_old_initiator o1 r),
        ar_Domain := ar_Domain (with_old_initiator o1 r)\<rparr>"
    using initiator_to_come [OF t1 [unfolded y1_def] b(2) r, of o1] by (auto simp: o1_def y1_def)
  from r have bounds: "ar_AuditAppID r < 256 ^ 2" "ar_EventID r < 256 ^ 2" "ar_TimeStamp r < 256 ^ 4"
    and len: "unat (ar_NetAddressLength r) = length (ar_NetAddress r)"
    by (auto simp: wf_record_def)
  note s1 = fill_to_come [OF b(1) [unfolded all] b(2) length_high_first]
  note s2 = fill_to_come [OF t0 [unfolded y0_def] b(2) length_high_first, folded y0_def]
  note s3 = fill_byte_to_come [OF t1' b(2)]
  note s4 = fill_to_come [OF t2 [unfolded y2_def] b(2) length_high_first, folded y2_def]
  note s5 = fill_byte_to_come [OF t3 [unfolded y3_def] b(2), folded y3_def]
  note s6 = fill_byte_to_come [OF t4' b(2)]
  note s7 = push_to_come [OF t4 [unfolded y4_def] b(2), of push_NetAddress, folded y4_def]
  note s8 = fill_byte_to_come [OF t5 [unfolded y5_def] b(2), folded y5_def]
  have "record_head b (to_come b (encode_head r @ ys) old) = Going (to_come b ys
      (q\<lparr>ar_TimeStamp := ar_TimeStamp r, ar_MCLocationType := ar_MCLocationType r,
        ar_NetAddressLength := ar_NetAddressLength r, ar_NetAddress := ar_NetAddress r,
        ar_ExtendedDataLength := ar_ExtendedDataLength r\<rparr>))"
    using q(1) bounds len unfolding all record_head_def
    by (simp add: s1 s2 s3 s4 s5 s6 s7 s8 number_high_first fold_push o1_def [symmetric])
  also have "q\<lparr>ar_TimeStamp := ar_TimeStamp r, ar_MCLocationType := ar_MCLocationType r,
        ar_NetAddressLength := ar_NetAddressLength r, ar_NetAddress := ar_NetAddress r,
        ar_ExtendedDataLength := ar_ExtendedDataLength r\<rparr>
      = (with_old_initiator old r)\<lparr>ar_ExtendedData := ar_ExtendedData old\<rparr>"
    unfolding q(2) by (cases r; cases old) (simp add: o1_def with_old_initiator_def Let_def)
  finally show ?thesis .
qed

lemma record_head_encoded:
  assumes r: "wf_record r" and b: "b = encode_head r @ ys" "length b < 2 ^ 32"
  shows "record_head b (record_start b old)
    = Going (to_come b ys ((with_old_initiator old r)\<lparr>ar_ExtendedData := ar_ExtendedData old\<rparr>))"
proof -
  have "is_tail b (encode_head r @ ys)" by (auto simp: is_tail_def b(1))
  from head_to_come [OF this b(2) r, of old] show ?thesis
    by (simp add: to_come_def record_start_def b(1))
qed

lemma with_old_fields [simp]:
  "ar_ExtendedDataLength (with_old_initiator old r) = ar_ExtendedDataLength r"
  "ar_ExtendedData (with_old_initiator old r) = ar_ExtendedData r"
  by (simp_all add: with_old_initiator_def Let_def)

lemma announced_outcome:
  assumes r: "wf_record r" and b: "b = encode_head r @ ys" "length b < 2 ^ 32"
  shows "AuditLogRecordFromBinaryBase64Data b old =
    (let n = length (ar_ExtendedData r); m = length ys;
         at = (\<lambda>k. (with_old_initiator old r)\<lparr>ar_ExtendedData := take k ys\<rparr>) in
     if 24 dvd m \<and> m div 24 < n then
       Refused \<lparr>rs_pos = length (encode_head r) + m div 24, rs_left = 0, rs_rec = at (m div 24)\<rparr>
     else if m < n then Reads_behind
     else Going \<lparr>rs_pos = length (encode_head r) + n, rs_left = of_nat m - of_nat (24 * n), rs_rec = at n\<rparr>)"
proof -
  let ?s = "to_come b ys ((with_old_initiator old r)\<lparr>ar_ExtendedData := ar_ExtendedData old\<rparr>)"
  have pos: "rs_pos ?s = length (encode_head r)" by (simp add: to_come_def b(1))
  have m: "length ys = length b - rs_pos ?s" unfolding pos by (simp add: b(1))
  have n: "length (ar_ExtendedData r) = unat (ar_ExtendedDataLength (rs_rec ?s))"
    using r by (simp add: wf_record_def)
  from record_outcome [OF b(2) record_head_encoded [OF r b] m n] show ?thesis
    unfolding pos Let_def by (simp add: b(1))
qed

lemma encoded_short:
  assumes "wf_record r"
  shows "length (encode_record r) < 2 ^ 12"
proof -
  have byte: "unat (x :: u8) < 256" for x
    using unsigned_less [of x] by simp
  from assms byte [of "ar_UsernameLength r"] byte [of "ar_DomainLength r"]
    byte [of "ar_NetAddressLength r"] byte [of "ar_ExtendedDataLength r"]
  show ?thesis
    by (simp add: wf_record_def encode_record_def encode_head_def encode_initiator_def)
qed

section \<open>Dates, names and reading\<close>

text \<open>
  The date of a record, the reading of the log from the firmware, and the display of names.
\<close>

subsection \<open>Dates\<close>

definition days_before :: "nat \<Rightarrow> nat \<Rightarrow> nat" where
  "days_before y0 y = sum_list (map year_days [y0..<y])"

lemma year_of_days:
  "year_of y n = (z, k) \<Longrightarrow> y \<le> z \<and> days_before y z + k = n \<and> k < year_days z"
proof (induction y n rule: year_of.induct)
  case (1 y n)
  show ?case
  proof (cases "n < year_days y")
    case True
    with 1 show ?thesis by (simp add: year_of.simps [of y n] days_before_def)
  next
    case False
    with 1 have "year_of (y + 1) (n - year_days y) = (z, k)" by (simp add: year_of.simps [of y n])
    from 1(1) [OF False this] False show ?thesis
      by (auto simp: days_before_def upt_conv_Cons)
  qed
qed

lemma month_of_days:
  "month_of ms n = (m, k) \<Longrightarrow> n < sum_list ms \<Longrightarrow> m < length ms \<and> sum_list (take m ms) + k = n \<and> k < ms ! m"
proof (induction ms n arbitrary: m k rule: month_of.induct)
  case (2 l ms n)
  show ?case
  proof (cases "n < l")
    case False
    with 2 obtain m' where "month_of ms (n - l) = (m', k)" "m = Suc m'"
      by (cases "month_of ms (n - l)") (auto simp: Let_def)
    moreover have "n - l < sum_list ms" using 2(3) False by simp
    ultimately show ?thesis using 2(1) [OF False, of m' k] False by auto
  qed (use 2 in auto)
qed simp

lemma months_of_year: "sum_list (month_days y) = year_days y" "length (month_days y) = 12"
  by (simp_all add: month_days_def year_days_def)

text \<open>The seconds since the beginning of 1970 from a date of the calendar.\<close>

definition seconds_of :: "tm \<Rightarrow> nat" where
  "seconds_of g = (days_before 1970 (tm_year g) + sum_list (take (tm_mon g - 1) (month_days (tm_year g)))
     + (tm_mday g - 1)) * 86400 + tm_hour g * 3600 + tm_min g * 60 + tm_sec g"

definition valid_date :: "tm \<Rightarrow> bool" where
  "valid_date g \<longleftrightarrow> 1 \<le> tm_mon g \<and> tm_mon g \<le> 12 \<and> 1 \<le> tm_mday g
     \<and> tm_mday g \<le> month_days (tm_year g) ! (tm_mon g - 1)
     \<and> tm_hour g < 24 \<and> tm_min g < 60 \<and> tm_sec g < 60"

lemma second_parts: "(s :: nat) div 3600 * 3600 + s div 60 mod 60 * 60 + s mod 60 = s"
proof -
  have "s div 3600 = s div 60 div 60" by (simp add: div_mult2_eq [symmetric])
  then show ?thesis
    using div_mult_mod_eq [of "s div 60" 60] div_mult_mod_eq [of s 60] by linarith
qed

lemma gmtime_exact: "seconds_of (gmtime t) = t \<and> valid_date (gmtime t)"
proof -
  obtain y n where y: "year_of 1970 (t div 86400) = (y, n)" by force
  obtain m k where m: "month_of (month_days y) n = (m, k)" by force
  from year_of_days [OF y] have y': "days_before 1970 y + n = t div 86400" "n < year_days y" by auto
  from month_of_days [OF m] y'(2) have m': "m < 12" "sum_list (take m (month_days y)) + k = n" "k < month_days y ! m"
    by (simp_all add: months_of_year)
  have "seconds_of (gmtime t) = t div 86400 * 86400 + t mod 86400"
    using y'(1) m'(2) second_parts [of "t mod 86400"]
    by (simp add: gmtime_def y m seconds_of_def Let_def add.assoc)
  moreover have "valid_date (gmtime t)"
    using m' by (simp add: gmtime_def y m valid_date_def Let_def less_mult_imp_div_less)
  ultimately show ?thesis by simp
qed

subsection \<open>Names\<close>

text \<open>What the loop over a name does from an index on when \<open>xs\<close> is the rest of the data.\<close>

lemma name_run_rest:
  assumes "cu_pos c + length xs = ed_len d" "\<forall>k<length xs. ed_mem d (ed_org d + cu_pos c + k) = xs ! k"
    "0 \<notin> set xs" "length xs \<le> n" "cu_reach c \<le> ed_org d + cu_pos c"
  shows "run_state (name_run d n) c
    = (map byte_char xs, \<lparr>cu_pos = ed_len d, cu_reach = ed_org d + ed_len d + 1\<rparr>)"
  using assms
proof (induction xs arbitrary: n c)
  case Nil
  then show ?case
    by (cases n) (simp_all add: byte_here_def the_index_def peek_def if_left_def left_over_def)
next
  case (Cons x xs)
  then obtain j where j: "n = Suc j" by (cases n) auto
  from Cons.prems(2) have x: "ed_mem d (ed_org d + cu_pos c) = x" by auto
  have xs: "\<forall>k<length xs. ed_mem d (ed_org d + Suc (cu_pos c) + k) = xs ! k"
    using Cons.prems(2) [rule_format, of "Suc k" for k] by simp
  let ?c = "\<lparr>cu_pos = Suc (cu_pos c), cu_reach = ed_org d + cu_pos c + 1\<rparr>"
  have "run_state (name_run d j) ?c
      = (map byte_char xs, \<lparr>cu_pos = ed_len d, cu_reach = ed_org d + ed_len d + 1\<rparr>)"
    by (rule Cons.IH) (use Cons.prems xs j in auto)
  moreover have "max (cu_reach c) (Suc (ed_org d + cu_pos c)) = Suc (ed_org d + cu_pos c)"
    using Cons.prems(5) by simp
  ultimately show ?case
    using Cons.prems x j by (cases c)
      (auto simp: byte_here_def the_index_def peek_def if_left_def left_over_def advance_def)
qed

lemma copied_data_simps:
  "ed_org (copied_data h xs) = 0" "ed_len (copied_data h xs) = length xs"
  "k < length xs \<Longrightarrow> ed_mem (copied_data h xs) k = xs ! k"
  by (simp_all add: copied_data_def)

lemma titled_name_whole:
  assumes "0 \<notin> set xs" "xs \<noteq> []" "unat n \<ge> length xs"
  shows "run_state (titled_name (copied_data h (n # xs)) t u) at_start
    = (t @ map byte_char xs @ u, \<lparr>cu_pos = length xs + 1, cu_reach = length xs + 2\<rparr>)"
proof -
  have "run_state (name_run (copied_data h (n # xs)) (unat n)) \<lparr>cu_pos = 1, cu_reach = 1\<rparr>
      = (map byte_char xs, \<lparr>cu_pos = length xs + 1, cu_reach = length xs + 2\<rparr>)"
    by (subst name_run_rest [where xs = xs]) (use assms in \<open>auto simp: copied_data_simps\<close>)
  then show ?thesis
    using assms(2) by (simp add: titled_name_def if_left_def left_over_def next_byte_def byte_here_def
        the_index_def peek_def advance_def at_start_def copied_data_simps Suc_le_eq)
qed

subsection \<open>Reading the log\<close>

text \<open>A firmware that has the records \<open>log\<close> and answers every call for a first record that exists
  with a piece of the log from there on that is not empty, in whatever state.\<close>

definition answers_with :: "'w audit_service \<Rightarrow> bytes list \<Rightarrow> bool" where
  "answers_with svc log \<longleftrightarrow> (\<forall>w. fst (as_get svc w)) \<and>
     (\<forall>i w. i < length log \<longrightarrow> (\<exists>k>0. fst (as_read svc (of_nat (i + 1)) w)
        = Answers 0 (Some (take k (drop i log))) (Some (of_nat (length log)))))"

lemma read_loop_complete:
  assumes svc: "answers_with svc log" and len: "length log < 2 ^ 32" and i: "i < length log"
  shows "\<exists>w'. read_loop svc (of_nat i) (take i log) w = Some (Read_all log, w')"
  using i
proof (induction "length log - i" arbitrary: i w rule: less_induct)
  case less
  obtain k w1 where k: "0 < k" "as_read svc (of_nat (i + 1)) w
      = (Answers 0 (Some (take k (drop i log))) (Some (of_nat (length log))), w1)"
    using svc less.prems unfolding answers_with_def by (metis prod.collapse)
  define j where "j = min (length log) (i + k)"
  have now: "of_nat i + of_nat (length (take k (drop i log))) = (of_nat j :: u32)"
  proof -
    have "length (take k (drop i log)) = j - i" "i \<le> j" using less.prems by (auto simp: j_def)
    then show ?thesis by (simp add: of_nat_diff)
  qed
  have got: "take i log @ take k (drop i log) = take j log"
    using less.prems by (simp add: j_def min_def take_add [symmetric] not_le)
  have "of_nat j < (of_nat (length log) :: u32) \<longleftrightarrow> j < length log"
    using len by (simp add: word_less_nat_alt unat_of_nat j_def)
  then have step: "read_loop svc (of_nat i) (take i log) w =
      (if j < length log then read_loop svc (of_nat j) (take j log) w1 else Some (Read_all (take j log), w1))"
    using k(2) now got by (subst read_loop.simps) (simp add: Let_def add.commute)
  show ?case
  proof (cases "j < length log")
    case True
    with less.hyps [of j w1] k(1) less.prems step show ?thesis by (auto simp: j_def)
  next
    case False
    with step show ?thesis by (auto simp: j_def)
  qed
qed

lemma log_complete:
  assumes "answers_with svc log" "length log < 2 ^ 32" "log \<noteq> []"
  shows "\<exists>w'. readLogsFromFW svc w = Some (Read_all log, w')"
proof -
  obtain w1 where "as_get svc w = (True, w1)"
    using assms(1) unfolding answers_with_def by (metis prod.collapse)
  with read_loop_complete [OF assms(1,2), of 0 w1] assms(3) show ?thesis
    by (simp add: readLogsFromFW_def)
qed

text \<open>A firmware that says there are records and sends none is asked for ever.\<close>

lemma read_loop_stuck:
  assumes "\<And>k w. fst (as_read svc k w) = Answers 0 (Some []) (Some n)" "a < n"
  shows "read_loop svc a rs w = None"
proof -
  have "s = svc \<longrightarrow> \<not> a < n" if "read_loop s a rs w = Some y" for s a rs w y
    using that
  proof (rule read_loop.raw_induct [where P = "\<lambda>s a rs w y. s = svc \<longrightarrow> \<not> a < n", rotated], intro impI)
    fix f s a rs w y
    assume IH: "\<And>s a rs w y. f s a rs w = Some y \<Longrightarrow> s = svc \<longrightarrow> \<not> a < n"
      and run: "(case as_read s (a + 1) w of (Throws, w1) \<Rightarrow> Some (Read_failed, w1)
        | (Answers code recs cnt, w1) \<Rightarrow> if code \<noteq> 0 then Some (Read_failed, w1)
          else (case (recs, cnt) of (Some rs', Some n) \<Rightarrow>
              (let now = a + of_nat (length rs'); all = rs @ rs' in
               if now < n then f s now all w1 else Some (Read_all all, w1))
            | _ \<Rightarrow> Some (Read_all rs, w1))) = Some y"
      and "s = svc"
    from assms(1) \<open>s = svc\<close> obtain w1 where "as_read s (a + 1) w = (Answers 0 (Some []) (Some n), w1)"
      by (metis prod.collapse)
    with run IH [of s a rs w1 y] \<open>s = svc\<close> show "\<not> a < n"
      by (auto simp: Let_def split: if_splits)
  qed
  with assms(2) show ?thesis by (cases "read_loop svc a rs w") auto
qed

lemma log_stuck:
  assumes "\<And>w. fst (as_get svc w)" "\<And>k w. fst (as_read svc k w) = Answers 0 (Some []) (Some n)" "0 < n"
  shows "readLogsFromFW svc w = None"
proof -
  obtain w1 where "as_get svc w = (True, w1)"
    using assms(1) by (metis prod.collapse)
  with read_loop_stuck [OF assms(2,3)] show ?thesis
    by (simp add: readLogsFromFW_def)
qed

section \<open>The document\<close>

text \<open>
  The document for a log whose records were encoded: an entry for every record, in order.
\<close>

lemma GetCharPtr_whole:
  assumes "unat n = length xs"
  shows "GetCharPtrFromUint8Vector (n + 1) xs = Some (if length xs = 255 then [0] else xs @ [0])"
proof (cases "length xs = 255")
  case True
  then have "n = of_nat 255" using assms by (simp add: word_unat_eq_iff unat_of_nat)
  then show ?thesis using True by (simp add: GetCharPtrFromUint8Vector_def)
next
  case False
  have "unat n < 256" using unsigned_less [of n] by simp
  with False assms have u: "unat (n + 1) = Suc (length xs)"
    by (simp add: unat_word_ariths)
  then have "n + 1 \<noteq> 0" by (metis unat_0 nat.distinct(1))
  with False u show ?thesis by (simp add: GetCharPtrFromUint8Vector_def)
qed

text \<open>The name as printed: to its first zero byte; one of 255 bytes is left out.\<close>

definition shown_name :: "bytes \<Rightarrow> string" where
  "shown_name xs = (if length xs = 255 then '''' else c_text xs)"

lemma c_text_terminated: "c_text (xs @ [0]) = c_text xs"
  by (induction xs) (auto simp: c_text_def)

lemma shown_name_ptr:
  "unat n = length xs \<Longrightarrow> map_option c_text (GetCharPtrFromUint8Vector (n + 1) xs) = Some (shown_name xs)"
  by (simp add: GetCharPtr_whole shown_name_def c_text_terminated) (simp add: c_text_def)

lemma entry_of_wf:
  assumes "wf_record r"
  shows "record_entry h r \<noteq> None"
proof -
  from assms have "initiator_text r \<noteq> None" "address_text r \<noteq> None"
    by (auto simp: wf_record_def initiator_text_def address_text_def GetCharPtr_whole Let_def)
  then show ?thesis
    by (auto simp: record_entry_def case_prod_unfold Let_def)
qed

lemma entry_with_old: "record_entry h (with_old_initiator old r) = record_entry h r"
  by (simp add: record_entry_def with_old_initiator_def Let_def initiator_text_def address_text_def initiator_defs)

lemma entry_from_record:
  "\<not> link_policy_event (ar_AuditAppID r) (ar_EventID r) \<Longrightarrow> record_entry h r = record_entry h' r"
  unfolding record_entry_def using display_from_data [of "ar_AuditAppID r" "ar_EventID r" h _ _ h'] by simp

text \<open>Whether the size of the vector that is taken off in place of that of an element does not
  matter.\<close>

definition length_fits :: "audit_record \<Rightarrow> bool" where
  "length_fits r \<longleftrightarrow> ar_ExtendedData r = [] \<or> \<not> 24 dvd length (ar_ExtendedData r)"

definition shown :: "(nat \<Rightarrow> u8) \<Rightarrow> audit_record \<Rightarrow> string" where
  "shown h r = (if length_fits r then fst (the (record_entry h r)) else error_entry)"

lemma encoded_outcome:
  assumes r: "wf_record r"
  shows "if length_fits r
    then \<exists>s. AuditLogRecordFromBinaryBase64Data (encode_record r) old = Going s \<and> rs_rec s = with_old_initiator old r
    else \<exists>s. AuditLogRecordFromBinaryBase64Data (encode_record r) old = Refused s"
proof -
  have b: "length (encode_record r) < 2 ^ 32" using encoded_short [OF r] by simp
  have all: "with_old_initiator old r\<lparr>ar_ExtendedData := ar_ExtendedData r\<rparr> = with_old_initiator old r"
    by (cases "with_old_initiator old r") (use with_old_fields(2) [of old r] in simp)
  have fits: "(24 dvd length (ar_ExtendedData r) \<and> length (ar_ExtendedData r) div 24 < length (ar_ExtendedData r))
      \<longleftrightarrow> \<not> length_fits r"
    by (auto simp: length_fits_def elim!: dvdE simp flip: length_greater_0_conv)
  show ?thesis
    using announced_outcome [OF r _ b, of "ar_ExtendedData r" old] fits all
    by (auto simp: encode_record_def Let_def)
qed

lemma entries_of_encoded:
  assumes "\<forall>r\<in>set rs. wf_record r"
  shows "parse_entries h (map encode_record rs) old = Some (concat (map (shown h) rs))"
  using assms
proof (induction rs arbitrary: old)
  case (Cons r rs)
  then have r: "wf_record r" by simp
  show ?case
  proof (cases "length_fits r")
    case True
    then obtain s where s: "AuditLogRecordFromBinaryBase64Data (encode_record r) old = Going s"
        "rs_rec s = with_old_initiator old r"
      using encoded_outcome [OF r, of old] by auto
    obtain e where "record_entry h r = Some e" using entry_of_wf [OF r, of h] by (cases "record_entry h r") auto
    with Cons s True show ?thesis by (simp add: entry_with_old shown_def)
  next
    case False
    then obtain s where "AuditLogRecordFromBinaryBase64Data (encode_record r) old = Refused s"
      using encoded_outcome [OF r, of old] by auto
    with Cons False show ?thesis by (simp add: shown_def)
  qed
qed simp

subsection \<open>Reading behind a record\<close>

lemma reads_behind_iff:
  assumes b: "length b < 2 ^ 32"
  shows "AuditLogRecordFromBinaryBase64Data b old = Reads_behind \<longleftrightarrow>
    (\<exists>s. record_head b (record_start b old) = Going s \<and> \<not> 24 dvd (length b - rs_pos s)
      \<and> length b - rs_pos s < unat (ar_ExtendedDataLength (rs_rec s)))"
proof (cases "record_head b (record_start b old)")
  case (Going s)
  from record_outcome [OF b Going refl refl] Going show ?thesis
    by (auto simp: not_less elim!: dvdE)
next
  case (Refused s)
  then show ?thesis
    by (simp add: AuditLogRecordFromBinaryBase64Data_def record_start_def)
next
  case Reads_behind
  with record_head_sound [OF start_coherent b, of old] show ?thesis by simp
qed

end
