(* ===== verification/Audit_Properties.thy ===== *)
theory Audit_Properties
  imports Audit_Correct
begin

text \<open>
  The properties of the log of the access monitor.
\<close>

definition sample_record :: audit_record where
  "sample_record = \<lparr>ar_AuditAppID = 22, ar_EventID = 1, ar_InitType = 2, ar_UsernameLength = 0,
     ar_Username = [], ar_UserInDomain = 0, ar_DomainLength = 0, ar_Domain = [],
     ar_TimeStamp = 951782400, ar_MCLocationType = 2, ar_NetAddressLength = 0, ar_NetAddress = [],
     ar_ExtendedDataLength = 3, ar_ExtendedData = [2, 80, 67]\<rparr>"

lemma sample_wf: "wf_record sample_record"
  by (simp add: wf_record_def sample_record_def)

lemma sample_fits: "length_fits sample_record"
  by (auto simp: length_fits_def sample_record_def dest: dvd_imp_le)

text \<open>C25. A record that was written in the layout of the log is read back with all its fields exactly
  if the number of bytes of its extended data is 0 or no multiple of 24: the last loop takes the
  size of a vector off the bytes left where it means that of a byte, and where that meets 0 the
  record is refused as malformed.\<close>

theorem record_read_back:
  assumes "wf_record r"
  shows "(\<exists>s. AuditLogRecordFromBinaryBase64Data (encode_record r) old = Going s
      \<and> rs_rec s = with_old_initiator old r) \<longleftrightarrow>
    ar_ExtendedData r = [] \<or> \<not> 24 dvd length (ar_ExtendedData r)"
  using encoded_outcome [OF assms, of old] unfolding length_fits_def [symmetric]
  by (auto split: if_splits)

theorem record_read_back_witness:
  "\<exists>s. AuditLogRecordFromBinaryBase64Data (encode_record sample_record) sample_record = Going s
      \<and> rs_rec s = with_old_initiator sample_record sample_record"
  using record_read_back [OF sample_wf, of sample_record] sample_fits by (simp add: length_fits_def)

text \<open>C26. The parser reads behind the end of a record exactly if its head is complete, its extended
  data has fewer bytes than announced, and their number is no multiple of 24: in the head every
  field is checked, whatever the bytes; in the extended data the check is lost after the first
  byte.\<close>

theorem parser_reads_behind_iff:
  assumes "length b < 2 ^ 32"
  shows "AuditLogRecordFromBinaryBase64Data b old = Reads_behind \<longleftrightarrow>
    (\<exists>s. record_head b (record_start b old) = Going s \<and> \<not> 24 dvd (length b - rs_pos s)
      \<and> length b - rs_pos s < unat (ar_ExtendedDataLength (rs_rec s)))"
  by (rule reads_behind_iff [OF assms])

theorem parser_reads_behind_iff_witness:
  "AuditLogRecordFromBinaryBase64Data (butlast (encode_record sample_record)) sample_record = Reads_behind"
  using parser_reads_behind_iff [of "butlast (encode_record sample_record)" sample_record]
  by (auto simp: sample_record_def encode_record_def encode_head_def encode_initiator_def initiator_defs
      high_first_def record_head_def record_start_def fill_def fill_byte_def initiator_def on_record_def
      ReverseMemCopy_def host_number_def upt_rec Let_def dest: dvd_imp_le)

text \<open>C27. Whatever the extended data, its text depends on nothing behind it and no byte behind it is
  read, except that the events with a name read one byte more, which makes no difference, and the
  event of the link policy may read up to three.\<close>

theorem display_stays_close:
  "snd (DisplayExtendedData h app ev xs n) \<le> length xs + reads_behind_by app ev
    \<and> (link_policy_event app ev \<or> DisplayExtendedData h app ev xs n = DisplayExtendedData h' app ev xs n)"
  using display_reach display_from_data by blast

text \<open>C28. The document for a log of well-formed records has one entry for each of them, in order:
  its own, or the entry for an error where the length of its extended data does not fit.\<close>

theorem document_of_log:
  assumes "\<forall>r\<in>set rs. wf_record r"
  shows "parseLogs h (map encode_record rs) garbage
    = Some (document_head @ concat (map (shown h) rs) @ document_end)"
  using entries_of_encoded [OF assms] by (simp add: parseLogs_def)

theorem document_of_log_witness:
  "parseLogs (\<lambda>_. 0) (map encode_record [sample_record, sample_record]) sample_record
    = Some (document_head @ (shown (\<lambda>_. 0) sample_record @ shown (\<lambda>_. 0) sample_record) @ document_end)"
  using document_of_log [of "[sample_record, sample_record]" "\<lambda>_. 0" sample_record] sample_wf by simp


text \<open>C29. If the firmware answers every call with at least one record from the asked one on, the log is
  read completely and in order, in however many pieces it comes.\<close>

theorem log_read_completely:
  assumes "answers_with svc log" "length log < 2 ^ 32" "log \<noteq> []"
  shows "\<exists>w'. readLogsFromFW svc w = Some (Read_all log, w')"
  by (rule log_complete [OF assms])

definition sample_service :: "bytes list \<Rightarrow> unit audit_service" where
  "sample_service log = \<lparr>as_get = (\<lambda>w. (True, w)),
     as_read = (\<lambda>k w. (Answers 0 (Some (take 1 (drop (unat (k - 1)) log))) (Some (of_nat (length log))), w))\<rparr>"

theorem log_read_completely_witness:
  "\<exists>w'. readLogsFromFW (sample_service [[1], [2, 3], [4]]) () = Some (Read_all [[1], [2, 3], [4]], w')"
proof (rule log_read_completely)
  show "answers_with (sample_service [[1], [2, 3], [4]]) [[1], [2, 3], [4]]"
    unfolding answers_with_def sample_service_def
    by (auto intro!: exI [of _ 1] simp: less_Suc_eq)
qed simp_all

section \<open>Further\<close>

text \<open>A host name is shown whole, and one byte behind the data is read to find its end.\<close>

lemma host_name_shown:
  assumes "0 \<notin> set xs" "xs \<noteq> []" "length xs \<le> unat n" "unat k = length xs + 1"
  shows "DisplayExtendedData h 22 1 (n # xs) k = (''Host Name: '' @ map byte_char xs, length (n # xs) + 1)"
  using titled_name_whole [OF assms(1,2,3), of h "''Host Name: ''" "''''"] assms(4)
  by (auto simp: DisplayExtendedData_def display_event_def network_admin_event_def
      DisplayNetworkAdminHostNameSetEvent_def)

text \<open>A user's name of 255 bytes is not shown at all.\<close>

lemma longest_name_lost:
  "wf_record r \<Longrightarrow> ar_InitType r = HTTP_DIGEST \<Longrightarrow> length (ar_Username r) = 255 \<Longrightarrow> initiator_text r = Some ''''"
  using shown_name_ptr [of "ar_UsernameLength r" "ar_Username r"]
  by (simp add: initiator_text_def wf_record_def shown_name_def)

text \<open>The names of the events of the watchdog, numbered from 1, are looked up from 0: the one for a
  change of the action is not found, and that for other options has its text.\<close>

lemma watchdog_names_shifted:
  "event_string 33 2 = ''Unknown'' \<and> event_string 33 1 = eventIdStrings ! 99"
  by (simp add: event_string_def app_known_def APP_ID_START_INDEX_def APP_ID_END_INDEX_def
      endStringsArrayIndices_def eventIdStrings_def numeral_eq_Suc)

text \<open>The bytes 10 to 15 of an interface identifier have one digit, so that two identifiers have the
  same text.\<close>

lemma interface_ids_confused:
  "short_hex 10 @ short_hex 188 = short_hex 171 @ short_hex 12"
  by (simp add: short_hex_def hex_str_def digit_char_def)

text \<open>The text of the interface is lost if the handle of the policy is there.\<close>

lemma number_here_pos: "cu_pos (snd (run_state (number_here d n) c)) = cu_pos c"
proof -
  have peeks_pos: "cu_pos (snd (run_state (peeks d i k) c)) = cu_pos c" for i k c
    by (induction k arbitrary: i c) (simp_all add: peek_def case_prod_unfold)
  show ?thesis
    using peeks_pos [of "cu_pos c" n c] by (simp add: number_here_def number_at_def the_index_def case_prod_unfold)
qed

lemma interface_text_lost:
  assumes "length xs = 8"
  shows "\<exists>v. fst (DisplayExtendedData h 25 4 xs 8) = ''Policy Handle: '' @ dec_str v @ '' ''"
  using assms number_here_pos [of "copied_data h xs" 4 at_start]
  by (auto simp: DisplayExtendedData_def display_event_def cb_manager_event_def
      DisplayCircuitBreakerDefaultPolicySetEvent_def network_interface_def PrintInterfaceHandleUint32_def
      PrintUint32_def advance_def if_left_def left_over_def copied_data_simps at_start_def case_prod_unfold)

end
