(* ===== verification/Spec2Isabelle.thy ===== *)
theory Spec2Isabelle
  imports Hash_Properties List_Properties Md5_Properties Base64_Correct Buf_Correct Address_Correct Protocol_Properties Mei_Properties Service_Properties
    Configurator_Properties Registry_Properties Event_Properties History_Properties Status_Properties Time_Properties
    Static_Ip_Properties Audit_Properties
begin

text \<open>
  A model of Intel LMS, the local manageability service, and of the utility code of its WS-Management stack, on Linux
  and as the sources are at this commit. LMS connects the management engine of the platform (AMT) with the host: it
  forwards network connections to the engine and from it, sends commands to the firmware and reports what the
  firmware says, and starts and stops the services that do so.

  \<^bold>\<open>The parts and how they interact.\<close>

  \<^item> Utility library \<^verbatim>\<open>CIM_Framework/openwsman/src/lib/u\<close>: \<open>Kazlib_Hash\<close> (\<^verbatim>\<open>hash.c\<close>, at the level of its pointers),
    \<open>Kazlib_List\<close> (\<^verbatim>\<open>list.c\<close>), \<open>Md5\<close> (\<^verbatim>\<open>md5.c\<close> and the other MD5 of \<^verbatim>\<open>server/shttpd/md5.c\<close>), \<open>Base64\<close> (\<^verbatim>\<open>base64.c\<close>),
    \<open>Buf\<close> (\<^verbatim>\<open>buf.c\<close>). The idioms in which \<^verbatim>\<open>uri.c\<close> and \<^verbatim>\<open>wsman-soap.c\<close> use the hash table are clients of the
    locale \<open>key_table\<close> in \<open>Hash_Map\<close>.
  \<^item> Port forwarding \<^verbatim>\<open>UNS/PortForwardingService\<close>: the wire format (\<open>Apf\<close>, \<^verbatim>\<open>LMS_if.h\<close>), the connection to the
    engine (\<open>Lme_Connection\<close> for what is sent, \<open>Lme_Receive\<close> for \<^verbatim>\<open>_doRX\<close>; \<^verbatim>\<open>LMEConnection.cpp\<close>), channels and requests
    (\<open>Channel\<close>), addresses (\<open>Address\<close>), the alerts of the engine (\<open>Soap_Handler\<close>, \<open>Cim_Events\<close>), the hosts file
    (\<open>Hosts_File\<close>), and \<^verbatim>\<open>Protocol.cpp\<close>: its state and shared operations (\<open>Protocol_State\<close>), the messages of the
    engine (\<open>Protocol_Handlers\<close>), the sockets (\<open>Protocol_Select\<close>), and the threads as one transition system
    (\<open>Protocol_Machine\<close>). \<open>Service_Task\<close> is \<^verbatim>\<open>PortForwardingService.cpp\<close>: the thread that runs the protocol and the
    handlers around it; it calls \<open>prot_Init\<close>, \<open>Select\<close> and \<open>prot_Deinit\<close> of the protocol.
  \<^item> Firmware clients \<^verbatim>\<open>MEIClient\<close>: the parser of replies (\<open>Mei_Parser\<close>), the driver handle and the exchange of one
    request and reply with the frames of the clients (\<open>Mei_Command\<close>), the AMTHI commands (\<open>Amthi_Query\<close>,
    \<open>Amthi_Settings\<close>, \<open>Amthi_Action\<close>) and those of the other clients (\<open>Mei_Clients\<close>). The driver library is the
    record \<open>tee\<close>.
  \<^item> Configurator \<^verbatim>\<open>UNS/Configurator\<close>: the services and the sets of them (\<open>Services\<close>), their dependencies
    (\<open>Dependency\<close>), the batches of operations with the services that wait (\<open>Activation\<close>), and the handler of every
    message (\<open>Configurator\<close>). It reads the platform with the commands of \<open>Mei_Clients\<close>, and it is told of the port
    forwarding by the messages \<open>Service_Task\<close> posts.
  \<^item> Settings \<^verbatim>\<open>UNS/GMS_COMMON\<close>: \<open>Data_Names\<close> is the table of names (\<^verbatim>\<open>DataStorageGenerator.h\<close>,
    \<^verbatim>\<open>RegistryGenerator.cpp\<close>), \<open>Registry\<close> the store behind them (\<^verbatim>\<open>RegistryStorage.cpp\<close>, \<^verbatim>\<open>LinuxRegistryStorage.cpp\<close>,
    \<^verbatim>\<open>RegistryCache.h\<close>): files below a position, and a cache.
  \<^item> Events: \<open>Event_Manager\<close> is the base of the services, of those that handle events, their filters, and the manager
    that passes an event on (\<^verbatim>\<open>GmsSubService.cpp\<close>, \<^verbatim>\<open>EventHandler.cpp\<close>, \<^verbatim>\<open>eventManager.cpp\<close>). The services on it
    extend its state and post to it: \<open>History_Handler\<close> (\<^verbatim>\<open>HistoryEventHandler.cpp\<close>) and \<open>Status_Handler\<close>
    (\<^verbatim>\<open>StatusEventHandler.cpp\<close>) keep what they know in the store of settings, \<open>Time_Sync\<close> (\<^verbatim>\<open>TimeSyncService.cpp\<close>) sets
    the engine's clock, \<open>Static_Ip\<close> and \<open>Static_Ip_Service\<close> (\<^verbatim>\<open>SharedStaticIPService\<close>, \<^verbatim>\<open>SyncIpClient.cpp\<close>) its address.
    They ask the firmware by the commands of \<open>Amthi_Query\<close>, \<open>Amthi_Settings\<close> and \<open>Mei_Clients\<close>.
  \<^item> The log of the access monitor \<^verbatim>\<open>WsmanClient/AuditLogWSManClient.cpp\<close>, which a tool reads from the engine:
    \<open>Audit_Cursor\<close> (the bytes of a record, the stream it writes to, dates), \<open>Audit_Events\<close> (the text of each kind of
    event), \<open>Audit_Log\<close> (the parser of a record, its text, the document, the reading of the log). The bytes of a record lie in a
    memory, so that what the code reads behind them has a value; the cursor keeps where the last read ended.

  \<^bold>\<open>How the code is modelled.\<close> A structure or class is a record with its members' names, an enumeration a datatype, a
  machine integer a word of its width. An operation is a function of the state with the code's name (a C name that
  Isabelle reserves has a prefix or suffix). \<^term>\<open>None\<close> is a run that aborts, reads or writes outside its memory, or uses a
  deleted object; the result \<open>mei\<close> has in addition the exceptions of the firmware clients. What the code leaves
  uninitialised is an argument named \<open>junk\<close>. System calls, the driver and other services are functions or answers in
  a record (\<open>os\<close>, \<open>tee\<close>, \<open>world\<close>, \<open>turn\<close>, \<open>select_answer\<close>) and nothing is assumed of them but what a theorem names. What the
  code does to the outside is a list in the state (\<open>effects\<close>, \<open>calls\<close>, \<open>posts\<close>, \<open>acts\<close>). Threads are interleaved at
  the points where the code releases its locks or waits.

  \<^bold>\<open>What the lemmas show.\<close> A theory \<open>X_Correct\<close> holds the invariant of a component and the lemmas on its
  operations, \<open>X_Properties\<close> the results; \<open>Prelude\<close> and \<open>Std_Map\<close> hold what they share.

  \<^item> \<open>Hash_Correct\<close>, \<open>Hash_Properties\<close>: every operation keeps the table well-formed and acts on the finite map it stands
    for, through growth and shrinking. \<open>List_Correct\<close>: lists as sequences, and the merge sort. \<open>Md5_Correct\<close>: both
    implementations compute the same digest. \<open>Base64_Correct\<close>, \<open>Buf_Correct\<close>: round trips and sizes.
  \<^item> \<open>Protocol_Correct\<close>, \<open>Protocol_Safety\<close>: the invariant that ties ports, channels and requests, kept by every
    operation of every thread. \<open>Lme_Correct\<close>: the wire format. \<open>Protocol_Link\<close>: the connection is up or down, never in
    between. \<open>Protocol_Properties\<close>, \<open>Address_Correct\<close>, \<open>Soap_Handler\<close>, \<open>Hosts_File\<close>: behaviour of the handlers, and the places
    where it falls short. \<open>Service_Correct\<close>, \<open>Service_Properties\<close>: announcements, and giving up a driver.
  \<^item> \<open>Mei_Parser_Correct\<close>, \<open>Mei_Formats\<close>: reply formats as interpretations of one contract; \<open>Mei_Correct\<close>,
    \<open>Mei_Properties\<close>: the handle is closed, frames are checked, parsers are total.
  \<^item> \<open>Dependency_Correct\<close>: the dependencies are those between the levels of the mount order. \<open>Activation_Correct\<close>: a
    batch as a sequence of small steps, its order, and that it ends. \<open>Configurator_Correct\<close>,
    \<open>Configurator_Properties\<close>: loading, tasks, and a task that never ends.
  \<^item> \<open>Registry_Correct\<close>, \<open>Registry_Properties\<close>: what is read back from the files after a restart, and what the cache
    keeps.
  \<^item> \<open>Event_Properties\<close>: who is told of an event, and the end of a service. \<open>History_Correct\<close>,
    \<open>History_Properties\<close>: which events the history holds, and for how long. \<open>Status_Correct\<close>,
    \<open>Status_Properties\<close>: the check of a status, its event and its handling as one loop. \<open>Time_Properties\<close>: the bound on the
    clock, and what is made up for. \<open>Static_Ip_Properties\<close>: an invariant of the states that the reactor can reach. \<open>Audit_Reads\<close>: how far
    the text of each event reads, in the collection \<open>reads_to\<close>; \<open>Audit_Correct\<close>, \<open>Audit_Properties\<close>: which records are
    accepted and read back, what is read behind one, and the log as a whole.

  Locales state the contracts: \<open>key_table\<close> (a finite map behind handles) is interpreted on the hash table, \<open>node_list\<close> on the
  list, \<open>message_digest\<close> on the two MD5s, \<open>wire_message\<close> on the messages of the connection, \<open>simple_type\<close>,
  \<open>response\<close> and \<open>final_response\<close> on the parsers, \<open>value_store\<close> on the registry.

  \<^bold>\<open>Bounds and fuel.\<close> The walk over a hash chain is bounded by the nodes of the table. \<open>execute\<close> takes the depth of
  its recursion, 10: the mount order has ten levels and every dependency goes to a lower one, so that the bound is
  never reached (\<open>batch_terminates\<close>). \<open>fill_walk\<close> ends because the rank of the name it visits increases. The thread
  of \<open>Service_Task\<close> is a function of the list of its turns, of any length; a thread that is given up ends within 36 turns.
  The walk over the address table is a function with its own termination result: the code loops for ever on some
  tables, which is the value \<^term>\<open>None\<close>. Decimal numbers are at most ten digits, those of 32-bit words.
  The history of \<open>History_Handler\<close> holds at most a hundred events. The loop that reads the
  log, \<open>read_loop\<close>, is a partial function: \<^term>\<open>None\<close> is a loop that does not end.

  \<^bold>\<open>Not modelled.\<close> Windows branches, logging (what is only logged is left out) and the texts of exceptions. The locks
  themselves, and races within one critical section. The ACE framework (queues with priorities, reactor, dynamic
  loading of services), glib, curl, libxml2, the metee library: the code that is under \<^verbatim>\<open>src/\<close> only calls them.
  The WS-Management client classes, but for those of the log (\<open>Audit_Log\<close>) and of the address (\<open>Static_Ip\<close>), and the
  generated CIM classes are wrappers around them, bound to XML documents, as is
  \<^verbatim>\<open>openwsman\<close>'s SOAP and XML code, of which only the base libraries above are independent. The HTTP server
  \<^verbatim>\<open>shttpd\<close> and the plugins are third-party code around sockets and processes; its MD5 is modelled. The
  NetworkManager and ConnMan variants of the address list are calls of D-Bus. The driver's version query and the
  raw device handle of \<^verbatim>\<open>heci.cpp\<close> are not modelled.
  Of the services of \<^verbatim>\<open>UNS\<close>, the main service is the glue to ACE; the D-Bus service, the partial firmware update and
  the refresh of addresses are calls of D-Bus, of an update library and of the network system.
\<close>

end
